(* ===== verification/Prelude.thy ===== *)
theory Prelude
  imports Main "HOL-Library.Word" "HOL-Library.List_Lexorder" "HOL-Library.Sublist" "HOL-Library.Code_Target_Numeral"
begin

text \<open>
  The vocabulary every component shares.
  \<^item> \<open>jstring\<close> is a JavaScript string: the list of its UTF-16 code units. \<open>lit\<close> turns a HOL string
    literal into one. \<open>utf8Bytes\<close>, \<open>trim\<close> and the character classes are those the code uses.
  \<^item> \<open>exn\<close> is what the code throws; \<open>'a res\<close> is the result of code that computes or throws.
  \<^item> \<open>('s, 'a) act\<close> is the result of code that also mutates a state \<open>'s\<close>. A throw keeps the
    mutations made before it, as in JavaScript; only a transaction undoes them.
  \<^item> \<open>preserves P m\<close> says that \<open>m\<close> keeps \<open>P\<close> whether it returns or throws; the rules in
    \<open>pres_intros\<close> compose it along the code. \<open>within R m\<close> says the same of a relation between the
    states before and after, with the rules \<open>within_intros\<close>.
\<close>

named_theorems act_simps \<open>unfolding rules of the action combinators\<close>
named_theorems pres_intros \<open>composition rules for \<open>preserves\<close>\<close>
named_theorems within_intros \<open>composition rules for \<open>within\<close>\<close>

section \<open>JavaScript strings\<close>

type_synonym unit16 = "16 word"
type_synonym jstring = "unit16 list"

definition lit :: "string \<Rightarrow> jstring" where
  "lit s = map of_char s"

lemma unat_of_char: "unat (of_char c :: unit16) = of_char c"
proof -
  have "unat (of_nat (of_char c) :: unit16) = of_char c"
    using nat_of_char_less_256 [of c]
    by (simp only: unat_of_nat take_bit_nat_eq_self_iff) (simp del: nat_of_char_less_256)
  then show ?thesis by (simp only: of_nat_of_char)
qed

lemma of_char_unit16_inj: "(of_char c :: unit16) = of_char d \<longleftrightarrow> c = d"
  by (metis unat_of_char of_char_eq_iff)

lemma lit_inject [simp]: "lit s = lit t \<longleftrightarrow> s = t"
  by (auto simp: lit_def inj_def of_char_unit16_inj)

lemma length_lit [simp]: "length (lit s) = length s"
  by (simp add: lit_def)

lemma lit_append: "lit (s @ t) = lit s @ lit t"
  by (simp add: lit_def)

lemma lit_Nil [simp]: "lit [] = []"
  by (simp add: lit_def)

lemma lit_eq_Nil [simp]: "lit s = [] \<longleftrightarrow> s = []" "[] = lit s \<longleftrightarrow> s = []"
  by (auto simp: lit_def)

lemma lit_code [code]: "lit s = map (\<lambda>c. word_of_int (of_char c)) s"
proof -
  have "(of_char c :: unit16) = word_of_int (of_char c)" for c
    by (metis of_int_of_char)
  then show ?thesis by (simp add: lit_def)
qed

text \<open>\<open>s.startsWith(p)\<close>.\<close>

definition startsWith :: "jstring \<Rightarrow> jstring \<Rightarrow> bool" where
  "startsWith s p \<longleftrightarrow> take (length p) s = p"

lemma startsWith_lit [simp]: "startsWith (lit s) (lit p) \<longleftrightarrow> take (length p) s = p"
  unfolding startsWith_def lit_def take_map length_map
  by (rule inj_map_eq_map) (simp add: inj_def of_char_unit16_inj)

lemma startsWith_append [simp]: "startsWith (p @ s) p"
  by (simp add: startsWith_def)

text \<open>\<open>new TextEncoder().encode(s).byteLength\<close>: a surrogate pair takes four bytes and a lone
  surrogate is replaced by U+FFFD, which takes three.\<close>

definition high_surrogate :: "unit16 \<Rightarrow> bool" where
  "high_surrogate u \<longleftrightarrow> 0xD800 \<le> u \<and> u < 0xDC00"

definition low_surrogate :: "unit16 \<Rightarrow> bool" where
  "low_surrogate u \<longleftrightarrow> 0xDC00 \<le> u \<and> u < 0xE000"

definition unit_bytes :: "unit16 \<Rightarrow> nat" where
  "unit_bytes u = (if u < 0x80 then 1 else if u < 0x800 then 2 else 3)"

text \<open>Code equations that read a unit once keep evaluation fast.\<close>

lemma high_surrogate_code [code]: "high_surrogate u = (let n = uint u in 0xD800 \<le> n \<and> n < 0xDC00)"
  by (simp add: high_surrogate_def word_le_def word_less_def Let_def)

lemma low_surrogate_code [code]: "low_surrogate u = (let n = uint u in 0xDC00 \<le> n \<and> n < 0xE000)"
  by (simp add: low_surrogate_def word_le_def word_less_def Let_def)

lemma unit_bytes_code [code]: "unit_bytes u = (let n = uint u in if n < 0x80 then 1 else if n < 0x800 then 2 else 3)"
  by (simp add: unit_bytes_def word_less_def Let_def)

fun utf8Bytes :: "jstring \<Rightarrow> nat" where
  "utf8Bytes [] = 0"
| "utf8Bytes [u] = unit_bytes u"
| "utf8Bytes (u # v # s) =
     (if high_surrogate u \<and> low_surrogate v then 4 + utf8Bytes s
      else unit_bytes u + utf8Bytes (v # s))"

text \<open>White space in the sense of \<open>String.prototype.trim\<close>.\<close>

definition js_space :: "unit16 \<Rightarrow> bool" where
  "js_space u \<longleftrightarrow> 9 \<le> u \<and> u \<le> 13 \<or> u = 32 \<or> u = 0xA0 \<or> u = 0x1680 \<or> 0x2000 \<le> u \<and> u \<le> 0x200A
     \<or> u = 0x2028 \<or> u = 0x2029 \<or> u = 0x202F \<or> u = 0x205F \<or> u = 0x3000 \<or> u = 0xFEFF"

lemma js_space_code [code]:
  "js_space u = (let n = uint u in
     if 32 < n \<and> n < 160 then False
     else 9 \<le> n \<and> n \<le> 13 \<or> n = 32 \<or> n = 0xA0 \<or> n = 0x1680 \<or> 0x2000 \<le> n \<and> n \<le> 0x200A
       \<or> n = 0x2028 \<or> n = 0x2029 \<or> n = 0x202F \<or> n = 0x205F \<or> n = 0x3000 \<or> n = 0xFEFF)"
  by (simp add: js_space_def word_le_def word_uint_eq_iff Let_def)

definition trim :: "jstring \<Rightarrow> jstring" where
  "trim s = rev (dropWhile js_space (rev (dropWhile js_space s)))"

lemma trim_eq_Nil [simp]: "trim s = [] \<longleftrightarrow> list_all js_space s"
proof -
  have "(\<forall>u \<in> set (dropWhile js_space s). js_space u) \<longleftrightarrow> (\<forall>u \<in> set s. js_space u)"
    by (induction s) auto
  then show ?thesis by (simp add: trim_def list_all_iff)
qed

text \<open>Character classes of the regular expressions.\<close>

definition is_digit :: "unit16 \<Rightarrow> bool" where
  "is_digit u \<longleftrightarrow> 48 \<le> u \<and> u \<le> 57"

definition is_lower :: "unit16 \<Rightarrow> bool" where
  "is_lower u \<longleftrightarrow> 97 \<le> u \<and> u \<le> 122"

definition is_upper :: "unit16 \<Rightarrow> bool" where
  "is_upper u \<longleftrightarrow> 65 \<le> u \<and> u \<le> 90"

definition is_lower_hex :: "unit16 \<Rightarrow> bool" where
  "is_lower_hex u \<longleftrightarrow> is_digit u \<or> 97 \<le> u \<and> u \<le> 102"

definition is_hex :: "unit16 \<Rightarrow> bool" where
  "is_hex u \<longleftrightarrow> is_lower_hex u \<or> 65 \<le> u \<and> u \<le> 70"

definition is_alnum :: "unit16 \<Rightarrow> bool" where
  "is_alnum u \<longleftrightarrow> is_digit u \<or> is_lower u \<or> is_upper u"

lemma char_class_code [code]:
  "is_digit u = (let n = uint u in 48 \<le> n \<and> n \<le> 57)"
  "is_lower u = (let n = uint u in 97 \<le> n \<and> n \<le> 122)"
  "is_upper u = (let n = uint u in 65 \<le> n \<and> n \<le> 90)"
  "is_lower_hex u = (let n = uint u in 48 \<le> n \<and> n \<le> 57 \<or> 97 \<le> n \<and> n \<le> 102)"
  "is_hex u = (let n = uint u in 48 \<le> n \<and> n \<le> 57 \<or> 97 \<le> n \<and> n \<le> 102 \<or> 65 \<le> n \<and> n \<le> 70)"
  by (simp_all add: is_digit_def is_lower_def is_upper_def is_lower_hex_def is_hex_def word_le_def Let_def)

lemmas char_class_defs = is_digit_def is_lower_def is_upper_def is_lower_hex_def is_hex_def
  is_alnum_def js_space_def

text \<open>Decimal text of a natural number, and \<open>Number(text)\<close> of a digit string.\<close>

definition digit_unit :: "nat \<Rightarrow> unit16" where
  "digit_unit d = of_nat (48 + d)"

fun nat_text :: "nat \<Rightarrow> jstring" where
  "nat_text n = (if n < 10 then [digit_unit n] else nat_text (n div 10) @ [digit_unit (n mod 10)])"

declare nat_text.simps [simp del]

definition digits_value :: "jstring \<Rightarrow> nat" where
  "digits_value s = foldl (\<lambda>n u. 10 * n + (unat u - 48)) 0 s"

definition int_text :: "int \<Rightarrow> jstring" where
  "int_text i = (if i < 0 then lit ''-'' @ nat_text (nat (- i)) else nat_text (nat i))"

lemma unat_digit_unit: "d < 10 \<Longrightarrow> unat (digit_unit d) = 48 + d"
  unfolding digit_unit_def by (simp only: unat_of_nat) (simp add: take_bit_nat_eq_self)

lemma is_digit_digit_unit: "d < 10 \<Longrightarrow> is_digit (digit_unit d)"
  by (simp add: is_digit_def word_le_nat_alt unat_digit_unit)

lemma digits_value_snoc [simp]: "digits_value (s @ [u]) = 10 * digits_value s + (unat u - 48)"
  by (simp add: digits_value_def)

lemma digits_value_nat_text [simp]: "digits_value (nat_text n) = n"
proof (induction n rule: nat_text.induct)
  case (1 n)
  show ?case
  proof (cases "n < 10")
    case True
    then show ?thesis
      by (subst nat_text.simps) (simp add: digits_value_def unat_digit_unit)
  next
    case False
    with 1 show ?thesis
      by (subst nat_text.simps) (simp add: unat_digit_unit)
  qed
qed

lemma nat_text_inject [simp]: "nat_text m = nat_text n \<longleftrightarrow> m = n"
  by (metis digits_value_nat_text)

lemma list_all_digit_nat_text [simp]: "list_all is_digit (nat_text n)"
proof (induction n rule: nat_text.induct)
  case (1 n)
  then show ?case
    by (subst nat_text.simps) (simp add: is_digit_digit_unit)
qed

lemma nat_text_neq_Nil [simp]: "nat_text n \<noteq> []"
  by (subst nat_text.simps) simp

lemma hd_nat_text_nonzero: "0 < n \<Longrightarrow> hd (nat_text n) \<noteq> 48"
proof (induction n rule: nat_text.induct)
  case (1 n)
  show ?case
  proof (cases "n < 10")
    case True
    with "1.prems" show ?thesis
      by (subst nat_text.simps) (auto dest: arg_cong [where f = unat] simp: unat_digit_unit)
  next
    case False
    with "1.IH" show ?thesis by (subst nat_text.simps) (simp add: hd_append)
  qed
qed

section \<open>Exceptions and results\<close>

text \<open>\<open>ContractErrorCode\<close> of errors.ts.\<close>

datatype contract_code = INVALID_REQUEST | INVALID_CONFIG | INVALID_INPUT
  | SESSION_NOT_INITIALIZED | INITIALIZATION_CONFLICT | INPUT_CONFLICT
  | OPERATION_NOT_FOUND | COMPLETION_CONFLICT

text \<open>What the code throws: the exception classes it tests with \<open>instanceof\<close>, each with its
  message. \<open>JsError\<close> is any other \<open>Error\<close>. \<open>GatewayError\<close> carries status, code, message, retryable
  and uncertain.\<close>

datatype exn =
    ContractException contract_code jstring
  | HarnessFailure jstring jstring
  | SyntaxError jstring
  | JsError jstring
  | GatewayError int jstring jstring bool bool

type_synonym 'a res = "exn + 'a"

fun exn_message :: "exn \<Rightarrow> jstring" where
  "exn_message (ContractException c m) = m"
| "exn_message (HarnessFailure c m) = m"
| "exn_message (SyntaxError m) = m"
| "exn_message (JsError m) = m"
| "exn_message (GatewayError st c m r u) = m"

definition bindR :: "'a res \<Rightarrow> ('a \<Rightarrow> 'b res) \<Rightarrow> 'b res" where
  "bindR r f = (case r of Inl e \<Rightarrow> Inl e | Inr a \<Rightarrow> f a)"

lemma bindR_simps [simp]: "bindR (Inl e) f = Inl e" "bindR (Inr a) f = f a"
  by (simp_all add: bindR_def)

lemma bindR_eq_Inr [simp]: "bindR r f = Inr b \<longleftrightarrow> (\<exists>a. r = Inr a \<and> f a = Inr b)"
  by (cases r) auto

lemma bindR_eq_Inl: "bindR r f = Inl e \<longleftrightarrow> r = Inl e \<or> (\<exists>a. r = Inr a \<and> f a = Inl e)"
  by (cases r) auto

definition guardR :: "bool \<Rightarrow> exn \<Rightarrow> unit res" where
  "guardR b e = (if b then Inr () else Inl e)"

lemma guardR_simps [simp]: "guardR True e = Inr ()" "guardR False e = Inl e"
  "guardR b e = Inr u \<longleftrightarrow> b" "guardR b e = Inl e' \<longleftrightarrow> \<not> b \<and> e' = e"
  by (auto simp: guardR_def)

text \<open>\<open>xs.map(f)\<close> where \<open>f\<close> may throw: the first throw ends it.\<close>

fun mapR :: "('a \<Rightarrow> 'b res) \<Rightarrow> 'a list \<Rightarrow> 'b list res" where
  "mapR f [] = Inr []"
| "mapR f (x # xs) = bindR (f x) (\<lambda>y. bindR (mapR f xs) (\<lambda>ys. Inr (y # ys)))"

lemma mapR_Inr_iff: "mapR f xs = Inr ys \<longleftrightarrow> list_all2 (\<lambda>x y. f x = Inr y) xs ys"
  by (induction xs arbitrary: ys) (auto simp: list_all2_Cons1)

lemma mapR_cong [fundef_cong]:
  "xs = ys \<Longrightarrow> (\<And>x. x \<in> set ys \<Longrightarrow> f x = g x) \<Longrightarrow> mapR f xs = mapR g ys"
  by (induction ys arbitrary: xs) auto

lemma mapR_id: "(\<And>x. x \<in> set xs \<Longrightarrow> f (g x) = Inr x) \<Longrightarrow> mapR f (map g xs) = Inr xs"
  by (induction xs) auto

section \<open>Stateful code\<close>

type_synonym ('s, 'a) act = "'s \<Rightarrow> 'a res \<times> 's"

definition retA :: "'a \<Rightarrow> ('s, 'a) act" where
  "retA a = (\<lambda>s. (Inr a, s))"

definition throwA :: "exn \<Rightarrow> ('s, 'a) act" where
  "throwA e = (\<lambda>s. (Inl e, s))"

definition bindA :: "('s, 'a) act \<Rightarrow> ('a \<Rightarrow> ('s, 'b) act) \<Rightarrow> ('s, 'b) act" where
  "bindA m f = (\<lambda>s. case m s of (Inl e, s') \<Rightarrow> (Inl e, s') | (Inr a, s') \<Rightarrow> f a s')"

definition getA :: "('s \<Rightarrow> 'a) \<Rightarrow> ('s, 'a) act" where
  "getA f = (\<lambda>s. (Inr (f s), s))"

definition modifyA :: "('s \<Rightarrow> 's) \<Rightarrow> ('s, unit) act" where
  "modifyA f = (\<lambda>s. (Inr (), f s))"

definition liftR :: "'a res \<Rightarrow> ('s, 'a) act" where
  "liftR r = (\<lambda>s. (r, s))"

definition whenA :: "bool \<Rightarrow> ('s, unit) act \<Rightarrow> ('s, unit) act" where
  "whenA b m = (if b then m else retA ())"

definition catchA :: "('s, 'a) act \<Rightarrow> (exn \<Rightarrow> ('s, 'a) act) \<Rightarrow> ('s, 'a) act" where
  "catchA m h = (\<lambda>s. case m s of (Inl e, s') \<Rightarrow> h e s' | (Inr a, s') \<Rightarrow> (Inr a, s'))"

text \<open>\<open>for (const x of xs) body(x)\<close>.\<close>

fun forA :: "'a list \<Rightarrow> ('a \<Rightarrow> ('s, unit) act) \<Rightarrow> ('s, unit) act" where
  "forA [] f = retA ()"
| "forA (x # xs) f = bindA (f x) (\<lambda>_. forA xs f)"

lemmas act_defs [act_simps] = retA_def throwA_def bindA_def getA_def modifyA_def liftR_def
  whenA_def catchA_def

lemmas prim_defs = retA_def throwA_def getA_def modifyA_def liftR_def whenA_def

lemma bindA_assoc: "bindA (bindA m f) g = bindA m (\<lambda>a. bindA (f a) g)"
  by (auto simp: act_defs fun_eq_iff split: prod.splits sum.splits)

lemma bindA_retA [simp]: "bindA (retA a) f = f a"
  by (simp add: act_defs)

lemma bindA_throwA [simp]: "bindA (throwA e) f = throwA e"
  by (simp add: act_defs)

lemma bindA_Inr:
  "bindA m f s = (Inr b, t) \<longleftrightarrow> (\<exists>a u. m s = (Inr a, u) \<and> f a u = (Inr b, t))"
  by (auto simp: act_defs split: prod.splits sum.splits)

lemma bindA_Inl:
  "bindA m f s = (Inl e, t) \<longleftrightarrow>
    m s = (Inl e, t) \<or> (\<exists>a u. m s = (Inr a, u) \<and> f a u = (Inl e, t))"
  by (auto simp: act_defs split: prod.splits sum.splits)

definition preserves :: "('s \<Rightarrow> bool) \<Rightarrow> ('s, 'a) act \<Rightarrow> bool" where
  "preserves P m \<longleftrightarrow> (\<forall>s. P s \<longrightarrow> P (snd (m s)))"

lemma preservesD: "preserves P m \<Longrightarrow> P s \<Longrightarrow> m s = (r, t) \<Longrightarrow> P t"
  by (force simp: preserves_def)

lemma preservesI: "(\<And>s r t. P s \<Longrightarrow> m s = (r, t) \<Longrightarrow> P t) \<Longrightarrow> preserves P m"
  by (auto simp: preserves_def) (metis prod.collapse)

lemma preserves_basic [pres_intros]:
  "preserves P (retA a)" "preserves P (throwA e)" "preserves P (getA f)" "preserves P (liftR r)"
  by (simp_all add: preserves_def act_defs)

lemma preserves_modifyA [pres_intros]: "(\<And>s. P s \<Longrightarrow> P (f s)) \<Longrightarrow> preserves P (modifyA f)"
  by (simp add: preserves_def act_defs)

lemma preserves_bindA [pres_intros]:
  "preserves P m \<Longrightarrow> (\<And>a. preserves P (f a)) \<Longrightarrow> preserves P (bindA m f)"
  unfolding preserves_def act_defs
  by (force split: prod.splits sum.splits)

lemma preserves_whenA [pres_intros]: "(b \<Longrightarrow> preserves P m) \<Longrightarrow> preserves P (whenA b m)"
  by (auto simp: whenA_def intro: preserves_basic)

lemma preserves_catchA [pres_intros]:
  "preserves P m \<Longrightarrow> (\<And>e. preserves P (h e)) \<Longrightarrow> preserves P (catchA m h)"
  unfolding preserves_def act_defs
  by (force split: prod.splits sum.splits)

lemma preserves_forA [pres_intros]:
  "(\<And>x. x \<in> set xs \<Longrightarrow> preserves P (f x)) \<Longrightarrow> preserves P (forA xs f)"
  by (induction xs) (auto intro: pres_intros)

lemma preserves_if [pres_intros]:
  "(b \<Longrightarrow> preserves P m) \<Longrightarrow> (\<not> b \<Longrightarrow> preserves P n) \<Longrightarrow> preserves P (if b then m else n)"
  by simp

lemma preserves_case_option [pres_intros]:
  "(x = None \<Longrightarrow> preserves P m) \<Longrightarrow> (\<And>a. x = Some a \<Longrightarrow> preserves P (f a)) \<Longrightarrow>
    preserves P (case x of None \<Rightarrow> m | Some a \<Rightarrow> f a)"
  by (cases x) auto

lemma preserves_case_sum [pres_intros]:
  "(\<And>e. x = Inl e \<Longrightarrow> preserves P (f e)) \<Longrightarrow> (\<And>a. x = Inr a \<Longrightarrow> preserves P (g a)) \<Longrightarrow>
    preserves P (case x of Inl e \<Rightarrow> f e | Inr a \<Rightarrow> g a)"
  by (cases x) auto

definition within :: "('s \<Rightarrow> 's \<Rightarrow> bool) \<Rightarrow> ('s, 'a) act \<Rightarrow> bool" where
  "within R m \<longleftrightarrow> (\<forall>s. R s (snd (m s)))"

lemma withinD: "within R m \<Longrightarrow> m s = (r, t) \<Longrightarrow> R s t"
  unfolding within_def by (metis snd_conv)

lemma withinI: "(\<And>s r t. m s = (r, t) \<Longrightarrow> R s t) \<Longrightarrow> within R m"
  unfolding within_def by (metis prod.collapse)

lemma within_mono: "within R m \<Longrightarrow> (\<And>s t. R s t \<Longrightarrow> Q s t) \<Longrightarrow> within Q m"
  by (simp add: within_def)

lemma within_basic [within_intros]:
  "reflp R \<Longrightarrow> within R (retA a)" "reflp R \<Longrightarrow> within R (throwA e)" "reflp R \<Longrightarrow> within R (getA f)"
  "reflp R \<Longrightarrow> within R (liftR r)"
  by (simp_all add: within_def act_defs reflpD)

lemma within_modifyA [within_intros]: "(\<And>s. R s (f s)) \<Longrightarrow> within R (modifyA f)"
  by (simp add: within_def act_defs)

lemma within_bindA [within_intros]:
  assumes "transp R" and "within R m" and "\<And>a. within R (f a)"
  shows "within R (bindA m f)"
  unfolding within_def
proof
  fix s
  obtain r t where m: "m s = (r, t)" by fastforce
  with assms(2) have "R s t" by (rule withinD)
  moreover have "R t (snd (f a t))" for a using assms(3) by (simp add: within_def)
  ultimately show "R s (snd (bindA m f s))"
    using assms(1) m by (cases r) (auto simp: bindA_def dest: transpD)
qed

lemma within_if [within_intros]:
  "(b \<Longrightarrow> within R m) \<Longrightarrow> (\<not> b \<Longrightarrow> within R n) \<Longrightarrow> within R (if b then m else n)"
  by simp

lemma within_case_option [within_intros]:
  "(x = None \<Longrightarrow> within R m) \<Longrightarrow> (\<And>a. x = Some a \<Longrightarrow> within R (f a)) \<Longrightarrow>
    within R (case x of None \<Rightarrow> m | Some a \<Rightarrow> f a)"
  by (cases x) auto

lemma within_forA [within_intros]:
  "reflp R \<Longrightarrow> transp R \<Longrightarrow> (\<And>x. x \<in> set xs \<Longrightarrow> within R (f x)) \<Longrightarrow> within R (forA xs f)"
  by (induction xs) (auto intro: within_intros)

end
