(* ===== verification/Json.thy ===== *)
theory Json
  imports Prelude
begin

text \<open>
  JSON values and the operations of \<open>packages/contracts/src/json.ts\<close> and
  \<open>packages/session-runtime/src/input-hash.ts\<close> on them: \<open>JSON.stringify\<close>, \<open>jsonEquals\<close>, the
  canonical text that is hashed, and own-property access. An object is the list of its properties in
  enumeration order. A number is either an integer or the number whose shortest decimal numeral is
  \<open>m * 10 ^ -k\<close>. \<open>norm\<close> sorts every object by key: it is the specification against which
  \<open>jsonEquals\<close> and the canonical text are proved.
\<close>

datatype number = NInt int | NFrac int nat

datatype json = JNull | JBool bool | JNum number | JStr jstring
  | JArr "json list" | JObj "(jstring \<times> json) list"

type_synonym fields = "(jstring \<times> json) list"

section \<open>Numbers\<close>

text \<open>\<open>Number::toString\<close> in radix 10: the digits \<open>s\<close> with the decimal point after the first \<open>n\<close>.\<close>

definition exponent_text :: "jstring \<Rightarrow> int \<Rightarrow> jstring" where
  "exponent_text s e =
     (if length s = 1 then s else take 1 s @ lit ''.'' @ drop 1 s) @ lit ''e''
     @ (if e < 0 then lit ''-'' else lit ''+'') @ nat_text (nat \<bar>e\<bar>)"

definition strip_zeros :: "jstring \<Rightarrow> jstring" where
  "strip_zeros s = rev (dropWhile (\<lambda>u. u = 48) (rev s))"

definition abs_num_text :: "number \<Rightarrow> jstring" where
  "abs_num_text x = (case x of
     NInt i \<Rightarrow> (let s = nat_text (nat \<bar>i\<bar>) in
       if length s \<le> 21 then s else exponent_text (strip_zeros s) (int (length s) - 1))
   | NFrac m k \<Rightarrow> (let s = nat_text (nat \<bar>m\<bar>); n = int (length s) - int k in
       if 0 < n \<and> n \<le> 21 then take (nat n) s @ lit ''.'' @ drop (nat n) s
       else if -6 < n \<and> n \<le> 0 then lit ''0.'' @ replicate (nat (- n)) 48 @ s
       else exponent_text s (n - 1)))"

definition num_negative :: "number \<Rightarrow> bool" where
  "num_negative x = (case x of NInt i \<Rightarrow> i < 0 | NFrac m k \<Rightarrow> m < 0)"

definition num_text :: "number \<Rightarrow> jstring" where
  "num_text x = (if num_negative x then lit ''-'' else []) @ abs_num_text x"

definition MAX_SAFE_INTEGER :: int where
  "MAX_SAFE_INTEGER = 9007199254740991"

text \<open>\<open>Number.isSafeInteger(value)\<close>, with the integer it is.\<close>

definition safe_integer :: "number \<Rightarrow> int option" where
  "safe_integer x = (case x of
     NInt i \<Rightarrow> if - MAX_SAFE_INTEGER \<le> i \<and> i \<le> MAX_SAFE_INTEGER then Some i else None
   | NFrac m k \<Rightarrow> None)"

section \<open>Text\<close>

definition hex_unit :: "nat \<Rightarrow> unit16" where
  "hex_unit d = (if d < 10 then of_nat (48 + d) else of_nat (87 + d))"

definition unicode_escape :: "unit16 \<Rightarrow> jstring" where
  "unicode_escape u = (let n = unat u in
     [0x5C, 0x75, hex_unit (n div 4096), hex_unit (n div 256 mod 16), hex_unit (n div 16 mod 16),
      hex_unit (n mod 16)])"

definition escape_unit :: "unit16 \<Rightarrow> jstring" where
  "escape_unit u =
     (if u = 0x22 then [0x5C, 0x22] else if u = 0x5C then [0x5C, 0x5C]
      else if u = 8 then [0x5C, 0x62] else if u = 9 then [0x5C, 0x74]
      else if u = 10 then [0x5C, 0x6E] else if u = 12 then [0x5C, 0x66]
      else if u = 13 then [0x5C, 0x72]
      else if u < 32 \<or> high_surrogate u \<or> low_surrogate u then unicode_escape u
      else [u])"

lemma escape_unit_code [code]:
  "escape_unit u = (let n = uint u in
     if 0x5C < n \<and> n < 0xD800 \<or> 0x22 < n \<and> n < 0x5C then [u]
     else if n = 0x22 then [0x5C, 0x22] else if n = 0x5C then [0x5C, 0x5C]
     else if n = 8 then [0x5C, 0x62] else if n = 9 then [0x5C, 0x74]
     else if n = 10 then [0x5C, 0x6E] else if n = 12 then [0x5C, 0x66]
     else if n = 13 then [0x5C, 0x72]
     else if n < 32 \<or> high_surrogate u \<or> low_surrogate u then unicode_escape u
     else [u])"
  by (simp add: escape_unit_def high_surrogate_def low_surrogate_def word_le_def word_less_def word_uint_eq_iff Let_def)

fun escape :: "jstring \<Rightarrow> jstring" where
  "escape [] = []"
| "escape [u] = escape_unit u"
| "escape (u # v # s) =
     (if high_surrogate u \<and> low_surrogate v then u # v # escape s
      else escape_unit u @ escape (v # s))"

definition quote :: "jstring \<Rightarrow> jstring" where
  "quote s = [0x22] @ escape s @ [0x22]"

definition join :: "jstring list \<Rightarrow> jstring" where
  "join ts = concat (case ts of [] \<Rightarrow> [] | t # us \<Rightarrow> t # map (\<lambda>u. lit '','' @ u) us)"

fun prim_text :: "json \<Rightarrow> jstring" where
  "prim_text JNull = lit ''null''"
| "prim_text (JBool b) = (if b then lit ''true'' else lit ''false'')"
| "prim_text (JNum x) = num_text x"
| "prim_text (JStr s) = quote s"
| "prim_text _ = []"

text \<open>\<open>JSON.stringify\<close> of a JSON value.\<close>

fun stringify :: "json \<Rightarrow> jstring" and stringify_items :: "json list \<Rightarrow> jstring list"
  and stringify_fields :: "fields \<Rightarrow> (jstring \<times> jstring) list" where
  "stringify (JArr xs) = lit ''['' @ join (stringify_items xs) @ lit '']''"
| "stringify (JObj kvs) = lit ''{''
     @ join (map (\<lambda>(k, t). quote k @ lit '':'' @ t) (stringify_fields kvs)) @ lit ''}''"
| "stringify v = prim_text v"
| "stringify_items [] = []"
| "stringify_items (x # xs) = stringify x # stringify_items xs"
| "stringify_fields [] = []"
| "stringify_fields ((k, v) # kvs) = (k, stringify v) # stringify_fields kvs"

text \<open>The text \<open>inputHash\<close> feeds to SHA-256: keys sorted by code units, arrays in order. Collecting
  the members' texts and sorting them by key is visiting the keys in sorted order.\<close>

fun canonical :: "json \<Rightarrow> jstring" and canonical_items :: "json list \<Rightarrow> jstring list"
  and canonical_fields :: "fields \<Rightarrow> (jstring \<times> jstring) list" where
  "canonical (JArr xs) = lit ''['' @ join (canonical_items xs) @ lit '']''"
| "canonical (JObj kvs) = lit ''{''
     @ join (map (\<lambda>(k, t). quote k @ lit '':'' @ t) (sort_key fst (canonical_fields kvs))) @ lit ''}''"
| "canonical v = prim_text v"
| "canonical_items [] = []"
| "canonical_items (x # xs) = canonical x # canonical_items xs"
| "canonical_fields [] = []"
| "canonical_fields ((k, v) # kvs) = (k, canonical v) # canonical_fields kvs"

definition json_bytes :: "json \<Rightarrow> nat" where
  "json_bytes v = utf8Bytes (stringify v)"

section \<open>Structural equality\<close>

fun jsonEquals :: "json \<Rightarrow> json \<Rightarrow> bool" and items_equal :: "json list \<Rightarrow> json list \<Rightarrow> bool"
  and fields_equal :: "fields \<Rightarrow> fields \<Rightarrow> bool" where
  "jsonEquals (JArr xs) r = (case r of JArr ys \<Rightarrow> length xs = length ys \<and> items_equal xs ys
     | _ \<Rightarrow> False)"
| "jsonEquals (JObj kvs) r = (case r of
     JObj kws \<Rightarrow> length kvs = length kws \<and> fields_equal kvs kws | _ \<Rightarrow> False)"
| "jsonEquals l r = (l = r)"
| "items_equal [] ys = True"
| "items_equal (x # xs) ys = (case ys of [] \<Rightarrow> False | y # ys' \<Rightarrow> jsonEquals x y \<and> items_equal xs ys')"
| "fields_equal [] kws = True"
| "fields_equal ((k, v) # kvs) kws =
     ((case map_of kws k of None \<Rightarrow> False | Some w \<Rightarrow> jsonEquals v w) \<and> fields_equal kvs kws)"

text \<open>Property access on a validated object: \<open>Object.hasOwn\<close> is \<open>\<noteq> None\<close>.\<close>

definition field :: "fields \<Rightarrow> string \<Rightarrow> json option" where
  "field r k = map_of r (lit k)"

text \<open>The keys of an object are distinct at every level.\<close>

fun json_ok :: "json \<Rightarrow> bool" and items_ok :: "json list \<Rightarrow> bool" and fields_ok :: "fields \<Rightarrow> bool" where
  "json_ok (JArr xs) = items_ok xs"
| "json_ok (JObj kvs) = (distinct (map fst kvs) \<and> fields_ok kvs)"
| "json_ok v = True"
| "items_ok [] = True"
| "items_ok (x # xs) = (json_ok x \<and> items_ok xs)"
| "fields_ok [] = True"
| "fields_ok ((k, v) # kvs) = (json_ok v \<and> fields_ok kvs)"

section \<open>Specification: values up to key order\<close>

fun norm :: "json \<Rightarrow> json" and norm_items :: "json list \<Rightarrow> json list"
  and norm_fields :: "fields \<Rightarrow> fields" where
  "norm (JArr xs) = JArr (norm_items xs)"
| "norm (JObj kvs) = JObj (sort_key fst (norm_fields kvs))"
| "norm v = v"
| "norm_items [] = []"
| "norm_items (x # xs) = norm x # norm_items xs"
| "norm_fields [] = []"
| "norm_fields ((k, v) # kvs) = (k, norm v) # norm_fields kvs"

lemma list_forms:
  "stringify_items xs = map stringify xs"
  "stringify_fields kvs = map (\<lambda>(k, v). (k, stringify v)) kvs"
  "canonical_items xs = map canonical xs"
  "canonical_fields kvs = map (\<lambda>(k, v). (k, canonical v)) kvs"
  "norm_items xs = map norm xs"
  "norm_fields kvs = map (\<lambda>(k, v). (k, norm v)) kvs"
  "items_ok xs = list_all json_ok xs"
  "fields_ok kvs = list_all (\<lambda>(k, v). json_ok v) kvs"
  by (induction xs; induction kvs; auto)+

lemma length_norm_fields [simp]: "length (norm_fields kvs) = length kvs"
  by (simp add: list_forms)

lemma map_fst_norm_fields [simp]: "map fst (norm_fields kvs) = map fst kvs"
  by (auto simp: list_forms)

lemma map_of_norm_fields: "map_of (norm_fields kvs) k = map_option norm (map_of kvs k)"
  by (induction kvs) (auto split: prod.splits)

lemma sort_key_fst_eq_iff:
  fixes xs ys :: "('k::linorder \<times> 'v) list"
  assumes "distinct (map fst xs)" and "distinct (map fst ys)"
  shows "sort_key fst xs = sort_key fst ys \<longleftrightarrow> map_of xs = map_of ys"
proof
  assume "sort_key fst xs = sort_key fst ys"
  then have "set xs = set ys" by (metis set_sort)
  with assms show "map_of xs = map_of ys" by (simp add: map_of_inject_set)
next
  assume "map_of xs = map_of ys"
  with assms have eq: "set xs = set ys" by (simp add: map_of_inject_set)
  have dist: "distinct (map fst (sort_key fst zs))" if "distinct (map fst zs)" for zs :: "('k \<times> 'v) list"
    using that by (simp add: distinct_map)
  from assms(1) have "inj_on fst (set xs)" by (simp add: distinct_map)
  with assms eq show "sort_key fst xs = sort_key fst ys"
    by (intro map_sorted_distinct_set_unique [where f = fst]) (simp_all add: dist)
qed

lemma map_of_eq_if_submap:
  assumes "distinct (map fst xs)" and "distinct (map fst ys)" and "length xs = length ys"
    and "\<And>k v. map_of xs k = Some v \<Longrightarrow> map_of ys k = Some v"
  shows "map_of xs = map_of ys"
proof -
  have "set xs \<subseteq> set ys"
    using assms(1,4) by (auto dest: map_of_is_SomeI intro: map_of_SomeD)
  moreover have "card (set xs) = card (set ys)"
    using assms(1-3) by (metis distinct_card distinct_map)
  ultimately have "set xs = set ys"
    by (simp add: card_subset_eq)
  with assms(1,2) show ?thesis by (simp add: map_of_inject_set)
qed

lemma norm_prim [simp]:
  "JNull = norm r \<longleftrightarrow> r = JNull" "JBool b = norm r \<longleftrightarrow> r = JBool b"
  "JNum n = norm r \<longleftrightarrow> r = JNum n" "JStr s = norm r \<longleftrightarrow> r = JStr s"
  by (cases r; auto)+

lemma jsonEquals_norm:
  "json_ok a \<Longrightarrow> json_ok b \<Longrightarrow> jsonEquals a b \<longleftrightarrow> norm a = norm b"
  "items_ok xs \<Longrightarrow> items_ok ys \<Longrightarrow> length xs = length ys \<Longrightarrow>
     items_equal xs ys \<longleftrightarrow> norm_items xs = norm_items ys"
  "fields_ok kvs \<Longrightarrow> distinct (map fst kws) \<Longrightarrow> fields_ok kws \<Longrightarrow> fields_equal kvs kws \<longleftrightarrow>
     (\<forall>(k, v) \<in> set (norm_fields kvs). map_of (norm_fields kws) k = Some v)"
proof (induction a b and xs ys and kvs kws rule: jsonEquals_items_equal_fields_equal.induct)
  case (1 xs r)
  then show ?case
    by (cases r) (auto simp: list_forms dest: map_eq_imp_length_eq)
next
  case (2 kvs r)
  show ?case
  proof (cases r)
    case (JObj kws)
    let ?l = "norm_fields kvs" and ?r = "norm_fields kws"
    have dist: "distinct (map fst ?l)" "distinct (map fst ?r)"
      using 2 JObj by simp_all
    have "fields_equal kvs kws \<longleftrightarrow> (\<forall>(k, v) \<in> set ?l. map_of ?r k = Some v)" if "length kvs = length kws"
      using 2 JObj that by simp
    moreover have "(\<forall>(k, v) \<in> set ?l. map_of ?r k = Some v) \<longleftrightarrow> map_of ?l = map_of ?r"
      if "length kvs = length kws"
    proof
      assume "\<forall>(k, v) \<in> set ?l. map_of ?r k = Some v"
      with dist that show "map_of ?l = map_of ?r"
        by (intro map_of_eq_if_submap) (auto dest: map_of_SomeD)
    next
      assume "map_of ?l = map_of ?r"
      then show "\<forall>(k, v) \<in> set ?l. map_of ?r k = Some v"
        using map_of_is_SomeI [OF dist(1)] by auto
    qed
    moreover have "length kvs = length kws" if "map_of ?l = map_of ?r"
    proof -
      from that dist have "set ?l = set ?r" by (simp add: map_of_inject_set)
      with dist show ?thesis by (metis distinct_card distinct_map length_norm_fields)
    qed
    ultimately show ?thesis
      using JObj dist by (auto simp: sort_key_fst_eq_iff)
  qed (use 2 in auto)
next
  case (7 k v kvs kws)
  have "json_ok w" if "map_of kws k = Some w" for w
    using map_of_SomeD [OF that] "7.prems" by (auto simp: list_forms list_all_iff)
  with 7 show ?case
    by (auto simp: map_of_norm_fields simp del: map_of_eq_Some_iff split: option.splits)
qed (auto simp: list_forms split: list.splits)

lemma sort_key_fst_map:
  "sort_key fst (map (\<lambda>(k, v). (k, f v)) xs) = map (\<lambda>(k, v). (k, f v)) (sort_key fst xs)"
proof -
  have insort: "insort_key fst (k, f v) (map (\<lambda>(k, v). (k, f v)) ys)
      = map (\<lambda>(k, v). (k, f v)) (insort_key fst (k, v) ys)" for k v ys
    by (induction ys) (auto split: prod.splits)
  show ?thesis by (induction xs) (auto simp: insort split: prod.splits)
qed

lemma canonical_norm:
  "canonical v = stringify (norm v)"
  "canonical_items xs = map (stringify \<circ> norm) xs"
  "canonical_fields kvs = map (\<lambda>(k, v). (k, stringify (norm v))) kvs"
proof (induction v and xs and kvs rule: canonical_canonical_items_canonical_fields.induct)
  case (2 kvs)
  then have "canonical_fields kvs = map (\<lambda>(k, v). (k, stringify v)) (norm_fields kvs)"
    by (simp add: list_forms(6) case_prod_beta o_def)
  then show ?case
    by (simp add: list_forms(2) sort_key_fst_map)
next
  case (1 xs)
  then have "canonical_items xs = map stringify (norm_items xs)"
    by (simp add: list_forms(5))
  then show ?case by (simp add: list_forms(1))
qed simp_all

corollary jsonEquals_canonical:
  "json_ok a \<Longrightarrow> json_ok b \<Longrightarrow> jsonEquals a b \<Longrightarrow> canonical a = canonical b"
  by (simp add: canonical_norm jsonEquals_norm)

lemma jsonEquals_refl: "json_ok a \<Longrightarrow> jsonEquals a a"
  by (simp add: jsonEquals_norm)

section \<open>Properties\<close>

text \<open>C29: \<open>jsonEquals\<close> decides equality of JSON values up to the order of object keys at every level:
  two values are equal exactly when sorting their keys makes them identical, and then the text that
  \<open>inputHash\<close> digests is the same. This is what makes a retried event with reordered keys a
  duplicate and not a conflict.\<close>

theorem jsonEquals_key_order:
  assumes "json_ok a" and "json_ok b"
  shows "(jsonEquals a b \<longleftrightarrow> norm a = norm b) \<and> (jsonEquals a b \<longrightarrow> canonical a = canonical b)"
  using jsonEquals_norm(1) [OF assms] jsonEquals_canonical [OF assms] by blast

theorem jsonEquals_key_order_witness:
  "let a = JObj [(lit ''x'', JNum (NInt 1)), (lit ''y'', JArr [JNull])];
       b = JObj [(lit ''y'', JArr [JNull]), (lit ''x'', JNum (NInt 1))]
   in a \<noteq> b \<and> jsonEquals a b \<and> canonical a = canonical b"
  using jsonEquals_key_order [of "JObj [(lit ''x'', JNum (NInt 1)), (lit ''y'', JArr [JNull])]"
      "JObj [(lit ''y'', JArr [JNull]), (lit ''x'', JNum (NInt 1))]"]
  by simp

end
