(* ===== verification/Contracts.thy ===== *)
theory Contracts
  imports Json
begin

text \<open>
  \<open>packages/contracts/src\<close>: validation.ts, json.ts (\<open>parseJsonValue\<close>), input.ts, session.ts,
  operation.ts and api.ts. Each TypeScript interface is a record or datatype; each parser is a
  function from a property value (\<open>None\<close> is \<open>undefined\<close>) to a result; each \<open>_json\<close> function is the
  object the interface is on the wire. The lemmas give the round trips, the shape of what a parser
  accepts, and that parsers throw \<open>ContractException\<close> only.
\<close>

section \<open>validation.ts\<close>

definition bad :: "contract_code \<Rightarrow> jstring \<Rightarrow> 'a res" where
  "bad c m = Inl (ContractException c m)"

definition parseJsonValue :: "contract_code \<Rightarrow> json option \<Rightarrow> json res" where
  "parseJsonValue code value = (case value of
     None \<Rightarrow> bad code (lit ''Expected a JSON-compatible value.'')
   | Some v \<Rightarrow> Inr v)"

definition js_record :: "json option \<Rightarrow> string list \<Rightarrow> string \<Rightarrow> contract_code \<Rightarrow> fields res" where
  "js_record value allowedKeys path code = (case value of
     Some (JObj r) \<Rightarrow>
       if \<exists>k \<in> set (map fst r). k \<notin> set (map lit allowedKeys)
       then bad code (lit path @ lit '' contains unsupported fields.'') else Inr r
   | _ \<Rightarrow> bad code (lit path @ lit '' must be an object.''))"

definition nonemptyString :: "json option \<Rightarrow> string \<Rightarrow> contract_code \<Rightarrow> jstring res" where
  "nonemptyString value path code = (case value of
     Some (JStr s) \<Rightarrow>
       if trim s = [] then bad code (lit path @ lit '' must be a nonempty string.'') else Inr s
   | _ \<Rightarrow> bad code (lit path @ lit '' must be a nonempty string.''))"

definition js_integer :: "json option \<Rightarrow> int \<Rightarrow> string \<Rightarrow> int res" where
  "js_integer value minimum path = (case value of
     Some (JNum x) \<Rightarrow> (case safe_integer x of
         Some i \<Rightarrow> if i < minimum
           then bad INVALID_REQUEST (lit path @ lit '' must be a safe integer >= '' @ int_text minimum @ lit ''.'')
           else Inr i
       | None \<Rightarrow> bad INVALID_REQUEST (lit path @ lit '' must be a safe integer >= '' @ int_text minimum @ lit ''.''))
   | _ \<Rightarrow> bad INVALID_REQUEST (lit path @ lit '' must be a safe integer >= '' @ int_text minimum @ lit ''.''))"

section \<open>input.ts\<close>

record event_body =
  ev_type :: jstring
  ev_payload :: json

record submit_input_request =
  sr_eventId :: jstring
  sr_event :: event_body

record input_envelope =
  en_eventId :: jstring
  en_sequence :: int
  en_receivedAt :: int
  en_event :: event_body

record input_receipt =
  ir_sessionId :: jstring
  ir_eventId :: jstring
  ir_sequence :: int
  ir_receivedAt :: int
  ir_duplicate :: bool

definition event_json :: "event_body \<Rightarrow> json" where
  "event_json e = JObj [(lit ''type'', JStr (ev_type e)), (lit ''payload'', ev_payload e)]"

definition eventBody :: "json option \<Rightarrow> event_body res" where
  "eventBody value =
     bindR (js_record value [''type'', ''payload''] ''event'' INVALID_INPUT) (\<lambda>event.
     case field event ''payload'' of
       None \<Rightarrow> bad INVALID_INPUT (lit ''event.payload is required.'')
     | Some payload \<Rightarrow>
         bindR (nonemptyString (field event ''type'') ''event.type'' INVALID_INPUT) (\<lambda>ty.
         Inr \<lparr>ev_type = ty, ev_payload = payload\<rparr>))"

definition parseEventBody :: "json option \<Rightarrow> event_body res" where
  "parseEventBody value = bindR (parseJsonValue INVALID_INPUT value) (\<lambda>v. eventBody (Some v))"

definition parseSubmitInputRequest :: "json option \<Rightarrow> submit_input_request res" where
  "parseSubmitInputRequest value =
     bindR (parseJsonValue INVALID_REQUEST value) (\<lambda>v.
     bindR (js_record (Some v) [''eventId'', ''event''] ''request'' INVALID_REQUEST) (\<lambda>request.
     bindR (nonemptyString (field request ''eventId'') ''eventId'' INVALID_REQUEST) (\<lambda>eventId.
     bindR (eventBody (field request ''event'')) (\<lambda>event.
     Inr \<lparr>sr_eventId = eventId, sr_event = event\<rparr>))))"

section \<open>session.ts\<close>

record harness_identity =
  hi_id :: jstring
  hi_version :: jstring

record session_identity =
  si_sessionId :: jstring
  si_harness :: harness_identity

record initialize_session_request =
  is_session :: session_identity
  is_config :: json

record session_info =
  sn_identity :: session_identity
  sn_config :: json
  sn_createdAt :: int

definition identity_json :: "session_identity \<Rightarrow> json" where
  "identity_json s = JObj [(lit ''sessionId'', JStr (si_sessionId s)),
     (lit ''harness'', JObj [(lit ''id'', JStr (hi_id (si_harness s))),
       (lit ''version'', JStr (hi_version (si_harness s)))])]"

definition parseInitializeSessionRequest :: "json option \<Rightarrow> initialize_session_request res" where
  "parseInitializeSessionRequest value =
     bindR (parseJsonValue INVALID_REQUEST value) (\<lambda>v.
     bindR (js_record (Some v) [''session'', ''config''] ''request'' INVALID_REQUEST) (\<lambda>request.
     bindR (js_record (field request ''session'') [''sessionId'', ''harness''] ''session'' INVALID_REQUEST) (\<lambda>session.
     bindR (js_record (field session ''harness'') [''id'', ''version''] ''session.harness'' INVALID_REQUEST) (\<lambda>harness.
     case field request ''config'' of
       None \<Rightarrow> bad INVALID_REQUEST (lit ''config is required.'')
     | Some config \<Rightarrow>
         bindR (nonemptyString (field session ''sessionId'') ''session.sessionId'' INVALID_REQUEST) (\<lambda>sid.
         bindR (nonemptyString (field harness ''id'') ''session.harness.id'' INVALID_REQUEST) (\<lambda>hid.
         bindR (nonemptyString (field harness ''version'') ''session.harness.version'' INVALID_REQUEST) (\<lambda>ver.
         Inr \<lparr>is_session = \<lparr>si_sessionId = sid, si_harness = \<lparr>hi_id = hid, hi_version = ver\<rparr>\<rparr>,
              is_config = config\<rparr>)))))))"

section \<open>operation.ts\<close>

definition MAX_OPERATION_INPUT_BYTES :: nat where
  "MAX_OPERATION_INPUT_BYTES = 8 * 1024 * 1024"

definition MAX_OPERATION_OUTCOME_BYTES :: nat where
  "MAX_OPERATION_OUTCOME_BYTES = 1900000"

definition assertJsonSize :: "json \<Rightarrow> nat \<Rightarrow> unit res" where
  "assertJsonSize value maximum =
     (if json_bytes value > maximum
      then bad INVALID_REQUEST (lit ''JSON payload exceeds '' @ nat_text maximum @ lit '' bytes.'')
      else Inr ())"

record operation_definition =
  od_provider :: jstring
  od_type :: jstring
  od_version :: jstring

record operation_request = operation_definition +
  or_input :: json

record operation_failure =
  of_code :: jstring
  of_message :: jstring
  of_details :: "json option"

datatype origin = Submission | Execution

datatype operation_outcome = Succeeded json | Failed origin operation_failure | Cancelled

record provider_submission =
  ps_operationId :: jstring
  ps_submissionId :: jstring
  ps_request :: operation_request

datatype submit_result = Accepted jstring | Completed jstring operation_outcome
  | Rejected operation_failure

record operation_completion =
  oc_operationId :: jstring
  oc_submissionId :: jstring
  oc_provider :: jstring
  oc_jobId :: jstring
  oc_outcome :: operation_outcome

record completion_receipt =
  cr_operationId :: jstring
  cr_eventId :: jstring
  cr_duplicate :: bool

definition RUNTIME_EVENT_PREFIX :: jstring where
  "RUNTIME_EVENT_PREFIX = lit ''runtime.''"

definition RUNTIME_EVENT_ID_PREFIX :: jstring where
  "RUNTIME_EVENT_ID_PREFIX = lit ''runtime:''"

definition COMPLETED_EVENT :: jstring where
  "COMPLETED_EVENT = lit ''runtime.operation.completed''"

definition origin_text :: "origin \<Rightarrow> jstring" where
  "origin_text o' = (case o' of Submission \<Rightarrow> lit ''submission'' | Execution \<Rightarrow> lit ''execution'')"

definition failure_json :: "operation_failure \<Rightarrow> json" where
  "failure_json f = JObj ([(lit ''code'', JStr (of_code f)), (lit ''message'', JStr (of_message f))]
     @ (case of_details f of None \<Rightarrow> [] | Some d \<Rightarrow> [(lit ''details'', d)]))"

definition outcome_json :: "operation_outcome \<Rightarrow> json" where
  "outcome_json o' = (case o' of
     Succeeded r \<Rightarrow> JObj [(lit ''status'', JStr (lit ''succeeded'')), (lit ''result'', r)]
   | Failed og f \<Rightarrow> JObj [(lit ''status'', JStr (lit ''failed'')), (lit ''origin'', JStr (origin_text og)),
       (lit ''error'', failure_json f)]
   | Cancelled \<Rightarrow> JObj [(lit ''status'', JStr (lit ''cancelled''))])"

definition submit_result_json :: "submit_result \<Rightarrow> json" where
  "submit_result_json r = (case r of
     Accepted j \<Rightarrow> JObj [(lit ''status'', JStr (lit ''accepted'')), (lit ''jobId'', JStr j)]
   | Completed j o' \<Rightarrow> JObj [(lit ''status'', JStr (lit ''completed'')), (lit ''jobId'', JStr j),
       (lit ''outcome'', outcome_json o')]
   | Rejected f \<Rightarrow> JObj [(lit ''status'', JStr (lit ''rejected'')), (lit ''error'', failure_json f)])"

definition completion_json :: "operation_completion \<Rightarrow> json" where
  "completion_json c = JObj [(lit ''operationId'', JStr (oc_operationId c)),
     (lit ''submissionId'', JStr (oc_submissionId c)), (lit ''provider'', JStr (oc_provider c)),
     (lit ''jobId'', JStr (oc_jobId c)), (lit ''outcome'', outcome_json (oc_outcome c))]"

definition js_required :: "json option \<Rightarrow> string \<Rightarrow> json res" where
  "js_required value path = (case value of
     None \<Rightarrow> bad INVALID_REQUEST (lit path @ lit '' is required.'') | Some v \<Rightarrow> Inr v)"

definition parseOperationDefinition :: "json option \<Rightarrow> operation_definition res" where
  "parseOperationDefinition value =
     bindR (parseJsonValue INVALID_REQUEST value) (\<lambda>v.
     bindR (js_record (Some v) [''provider'', ''type'', ''version''] ''operation definition'' INVALID_REQUEST) (\<lambda>r.
     bindR (nonemptyString (field r ''provider'') ''provider'' INVALID_REQUEST) (\<lambda>p.
     bindR (nonemptyString (field r ''type'') ''type'' INVALID_REQUEST) (\<lambda>t.
     bindR (nonemptyString (field r ''version'') ''version'' INVALID_REQUEST) (\<lambda>n.
     Inr \<lparr>od_provider = p, od_type = t, od_version = n\<rparr>)))))"

text \<open>An absent property of the rebuilt \<open>{ provider, type, version }\<close> is present with the value
  \<open>undefined\<close>, which \<open>parseJsonValue\<close> rejects before the field checks.\<close>

definition rebuilt :: "fields \<Rightarrow> string list \<Rightarrow> json option" where
  "rebuilt r ks = (if \<forall>k \<in> set ks. field r k \<noteq> None
     then Some (JObj (map (\<lambda>k. (lit k, the (field r k))) ks)) else None)"

definition parseOperationRequest :: "json option \<Rightarrow> operation_request res" where
  "parseOperationRequest value =
     bindR (parseJsonValue INVALID_REQUEST value) (\<lambda>v.
     bindR (js_record (Some v) [''provider'', ''type'', ''version'', ''input''] ''operation'' INVALID_REQUEST) (\<lambda>r.
     bindR (js_required (field r ''input'') ''input'') (\<lambda>input.
     bindR (assertJsonSize input MAX_OPERATION_INPUT_BYTES) (\<lambda>_.
     bindR (parseOperationDefinition (rebuilt r [''provider'', ''type'', ''version''])) (\<lambda>d.
     Inr (operation_definition.extend d (operation_request.fields input)))))))"

definition parseProviderSubmission :: "json option \<Rightarrow> provider_submission res" where
  "parseProviderSubmission value =
     bindR (parseJsonValue INVALID_REQUEST value) (\<lambda>v.
     bindR (js_record (Some v) [''operationId'', ''submissionId'', ''request''] ''submission'' INVALID_REQUEST) (\<lambda>r.
     bindR (nonemptyString (field r ''operationId'') ''operationId'' INVALID_REQUEST) (\<lambda>op.
     bindR (nonemptyString (field r ''submissionId'') ''submissionId'' INVALID_REQUEST) (\<lambda>sub.
     bindR (parseOperationRequest (field r ''request'')) (\<lambda>request.
     Inr \<lparr>ps_operationId = op, ps_submissionId = sub, ps_request = request\<rparr>)))))"

definition parseOperationFailure :: "json option \<Rightarrow> operation_failure res" where
  "parseOperationFailure value =
     bindR (parseJsonValue INVALID_REQUEST value) (\<lambda>v.
     bindR (js_record (Some v) [''code'', ''message'', ''details''] ''error'' INVALID_REQUEST) (\<lambda>r.
     bindR (nonemptyString (field r ''code'') ''error.code'' INVALID_REQUEST) (\<lambda>c.
     bindR (nonemptyString (field r ''message'') ''error.message'' INVALID_REQUEST) (\<lambda>m.
     Inr \<lparr>of_code = c, of_message = m, of_details = field r ''details''\<rparr>))))"

definition parse_origin :: "json option \<Rightarrow> origin option" where
  "parse_origin v = (if v = Some (JStr (lit ''submission'')) then Some Submission
     else if v = Some (JStr (lit ''execution'')) then Some Execution else None)"

definition parseOperationOutcome :: "json option \<Rightarrow> operation_outcome res" where
  "parseOperationOutcome value =
     bindR (parseJsonValue INVALID_REQUEST value) (\<lambda>v.
     bindR (assertJsonSize v MAX_OPERATION_OUTCOME_BYTES) (\<lambda>_.
     bindR (js_record (Some v) [''status'', ''result'', ''origin'', ''error''] ''outcome'' INVALID_REQUEST) (\<lambda>r.
     if field r ''status'' = Some (JStr (lit ''succeeded'')) then
       bindR (js_record (Some v) [''status'', ''result''] ''outcome'' INVALID_REQUEST) (\<lambda>_.
       bindR (js_required (field r ''result'') ''result'') (\<lambda>x. Inr (Succeeded x)))
     else if field r ''status'' = Some (JStr (lit ''failed'')) then
       bindR (js_record (Some v) [''status'', ''origin'', ''error''] ''outcome'' INVALID_REQUEST) (\<lambda>_.
       case parse_origin (field r ''origin'') of
         None \<Rightarrow> bad INVALID_REQUEST (lit ''Invalid operation outcome.'')
       | Some og \<Rightarrow> bindR (parseOperationFailure (field r ''error'')) (\<lambda>f. Inr (Failed og f)))
     else if field r ''status'' = Some (JStr (lit ''cancelled'')) then
       bindR (js_record (Some v) [''status''] ''outcome'' INVALID_REQUEST) (\<lambda>_. Inr Cancelled)
     else bad INVALID_REQUEST (lit ''Invalid operation outcome.''))))"

definition parseJobOutcome :: "json option \<Rightarrow> operation_outcome res" where
  "parseJobOutcome value =
     bindR (parseOperationOutcome value) (\<lambda>o'. case o' of
       Failed Submission f \<Rightarrow>
         bad INVALID_REQUEST (lit ''An accepted provider job cannot report submission rejection as its outcome.'')
     | _ \<Rightarrow> Inr o')"

definition parseOperationCompletion :: "json option \<Rightarrow> operation_completion res" where
  "parseOperationCompletion value =
     bindR (parseJsonValue INVALID_REQUEST value) (\<lambda>v.
     bindR (js_record (Some v) [''operationId'', ''submissionId'', ''provider'', ''jobId'', ''outcome''] ''completion'' INVALID_REQUEST) (\<lambda>r.
     bindR (nonemptyString (field r ''operationId'') ''operationId'' INVALID_REQUEST) (\<lambda>op.
     bindR (nonemptyString (field r ''submissionId'') ''submissionId'' INVALID_REQUEST) (\<lambda>sub.
     bindR (nonemptyString (field r ''provider'') ''provider'' INVALID_REQUEST) (\<lambda>p.
     bindR (nonemptyString (field r ''jobId'') ''jobId'' INVALID_REQUEST) (\<lambda>j.
     bindR (parseJobOutcome (field r ''outcome'')) (\<lambda>o'.
     Inr \<lparr>oc_operationId = op, oc_submissionId = sub, oc_provider = p, oc_jobId = j, oc_outcome = o'\<rparr>)))))))"

definition parseProviderSubmitResult :: "json option \<Rightarrow> submit_result res" where
  "parseProviderSubmitResult value =
     bindR (parseJsonValue INVALID_REQUEST value) (\<lambda>v.
     bindR (js_record (Some v) [''status'', ''jobId'', ''outcome'', ''error''] ''submission result'' INVALID_REQUEST) (\<lambda>r.
     if field r ''status'' = Some (JStr (lit ''accepted'')) then
       bindR (js_record (Some v) [''status'', ''jobId''] ''submission result'' INVALID_REQUEST) (\<lambda>_.
       bindR (nonemptyString (field r ''jobId'') ''jobId'' INVALID_REQUEST) (\<lambda>j. Inr (Accepted j)))
     else if field r ''status'' = Some (JStr (lit ''completed'')) then
       bindR (js_record (Some v) [''status'', ''jobId'', ''outcome''] ''submission result'' INVALID_REQUEST) (\<lambda>_.
       bindR (nonemptyString (field r ''jobId'') ''jobId'' INVALID_REQUEST) (\<lambda>j.
       bindR (parseJobOutcome (field r ''outcome'')) (\<lambda>o'. Inr (Completed j o'))))
     else if field r ''status'' = Some (JStr (lit ''rejected'')) then
       bindR (js_record (Some v) [''status'', ''error''] ''submission result'' INVALID_REQUEST) (\<lambda>_.
       bindR (parseOperationFailure (field r ''error'')) (\<lambda>f. Inr (Rejected f)))
     else bad INVALID_REQUEST (lit ''Invalid provider submission result.'')))"

section \<open>api.ts\<close>

record create_session_request =
  cs_requestId :: jstring
  cs_harness :: harness_identity
  cs_config :: json
  cs_metadata :: fields

datatype harness_status = St_idle | St_running | St_failed | St_cancelling | St_cancelled | St_waiting

datatype session_status = Initializing | Initialization_failed | Harness_status harness_status | Destroyed

record message_page_query =
  mq_after :: int
  mq_limit :: int

datatype session_command =
    Cmd_initialize json | Cmd_appendInput json | Cmd_acceptCompletion json | Cmd_acceptToolCompletion json
  | Cmd_getMessages message_page_query | Cmd_getPendingMessages message_page_query
  | Cmd_getSession | Cmd_getProgress

definition parseCreateSessionRequest :: "json option \<Rightarrow> create_session_request res" where
  "parseCreateSessionRequest value =
     bindR (parseJsonValue INVALID_REQUEST value) (\<lambda>v.
     bindR (js_record (Some v) [''requestId'', ''harness'', ''config'', ''metadata''] ''request'' INVALID_REQUEST) (\<lambda>request.
     bindR (js_record (field request ''harness'') [''id'', ''version''] ''harness'' INVALID_REQUEST) (\<lambda>harness.
     bindR (nonemptyString (field request ''requestId'') ''requestId'' INVALID_REQUEST) (\<lambda>requestId.
     if length requestId > 200 then bad INVALID_REQUEST (lit ''requestId must be at most 200 characters.'')
     else case field request ''config'' of
       None \<Rightarrow> bad INVALID_REQUEST (lit ''config is required.'')
     | Some config \<Rightarrow> (case field request ''metadata'' of
         Some (JObj metadata) \<Rightarrow>
           bindR (nonemptyString (field harness ''id'') ''harness.id'' INVALID_REQUEST) (\<lambda>hid.
           bindR (nonemptyString (field harness ''version'') ''harness.version'' INVALID_REQUEST) (\<lambda>ver.
           Inr \<lparr>cs_requestId = requestId, cs_harness = \<lparr>hi_id = hid, hi_version = ver\<rparr>,
                cs_config = config, cs_metadata = metadata\<rparr>))
       | _ \<Rightarrow> bad INVALID_REQUEST (lit ''metadata must be a JSON object.''))))))"

text \<open>\<open>r.key ?? default\<close> as a safe integer; a \<open>null\<close> is refused like any non-number.\<close>

definition page_number :: "json option \<Rightarrow> int \<Rightarrow> int option" where
  "page_number v d = (case v of None \<Rightarrow> Some d | Some (JNum x) \<Rightarrow> safe_integer x | _ \<Rightarrow> None)"

definition PAGE_QUERY_MESSAGE :: jstring where
  "PAGE_QUERY_MESSAGE = lit ''after must be a nonnegative integer; limit must be 1'' @ [0x2013] @ lit ''100.''"

definition parseMessagePageQuery :: "json option \<Rightarrow> message_page_query res" where
  "parseMessagePageQuery value =
     bindR (parseJsonValue INVALID_REQUEST value) (\<lambda>v.
     bindR (js_record (Some v) [''after'', ''limit''] ''message page'' INVALID_REQUEST) (\<lambda>r.
     case (page_number (field r ''after'') 0, page_number (field r ''limit'') 100) of
       (Some after, Some limit) \<Rightarrow>
         if after < 0 \<or> limit < 1 \<or> limit > 100
         then bad INVALID_REQUEST PAGE_QUERY_MESSAGE
         else Inr \<lparr>mq_after = after, mq_limit = limit\<rparr>
     | _ \<Rightarrow> bad INVALID_REQUEST PAGE_QUERY_MESSAGE))"

definition command_value :: "fields \<Rightarrow> (json \<Rightarrow> session_command) \<Rightarrow> session_command res" where
  "command_value r k = (case field r ''value'' of
     None \<Rightarrow> bad INVALID_REQUEST (lit ''Missing command value.'') | Some v \<Rightarrow> Inr (k v))"

definition command_plain :: "fields \<Rightarrow> session_command \<Rightarrow> session_command res" where
  "command_plain r c = (if field r ''value'' \<noteq> None
     then bad INVALID_REQUEST (lit ''Unexpected command value.'') else Inr c)"

definition parseSessionCommand :: "json option \<Rightarrow> session_command res" where
  "parseSessionCommand value = (case value of
     Some (JObj r) \<Rightarrow>
       if \<exists>k \<in> set (map fst r). k \<noteq> lit ''action'' \<and> k \<noteq> lit ''value''
       then bad INVALID_REQUEST (lit ''command contains unsupported fields.'')
       else if field r ''action'' = Some (JStr (lit ''getMessages'')) then
         bindR (parseMessagePageQuery (field r ''value'')) (\<lambda>q. Inr (Cmd_getMessages q))
       else if field r ''action'' = Some (JStr (lit ''getPendingMessages'')) then
         bindR (parseMessagePageQuery (field r ''value'')) (\<lambda>q. Inr (Cmd_getPendingMessages q))
       else if field r ''action'' = Some (JStr (lit ''getSession'')) then command_plain r Cmd_getSession
       else if field r ''action'' = Some (JStr (lit ''getProgress'')) then command_plain r Cmd_getProgress
       else if field r ''action'' = Some (JStr (lit ''initialize'')) then command_value r Cmd_initialize
       else if field r ''action'' = Some (JStr (lit ''appendInput'')) then command_value r Cmd_appendInput
       else if field r ''action'' = Some (JStr (lit ''acceptCompletion'')) then command_value r Cmd_acceptCompletion
       else if field r ''action'' = Some (JStr (lit ''acceptToolCompletion'')) then command_value r Cmd_acceptToolCompletion
       else bad INVALID_REQUEST (lit ''Unknown session command.'')
   | _ \<Rightarrow> bad INVALID_REQUEST (lit ''command must be a plain object.''))"

section \<open>Shared facts about the parsers\<close>

lemma bad_simps [simp]: "bad c m \<noteq> Inr x" "bindR (bad c m) f = bad c m"
  by (simp_all add: bad_def)

lemma parseJsonValue_simps [simp]:
  "parseJsonValue c (Some v) = Inr v" "parseJsonValue c x = Inr v \<longleftrightarrow> x = Some v"
  by (auto simp: parseJsonValue_def split: option.splits)

lemma js_record_Inr: "js_record v ks path c = Inr r \<longleftrightarrow>
    v = Some (JObj r) \<and> (\<forall>k \<in> set (map fst r). k \<in> set (map lit ks))"
  by (auto simp: js_record_def split: option.splits json.splits)

lemma js_record_JObj: "set (map fst r) \<subseteq> set (map lit ks) \<Longrightarrow> js_record (Some (JObj r)) ks path c = Inr r"
  by (auto simp: js_record_def)

lemma nonemptyString_Inr [simp]: "nonemptyString v path c = Inr s \<longleftrightarrow> v = Some (JStr s) \<and> trim s \<noteq> []"
  by (auto simp: nonemptyString_def split: option.splits json.splits)

lemma nonemptyString_ok [simp]:
  "\<not> list_all js_space s \<Longrightarrow> nonemptyString (Some (JStr s)) path c = Inr s"
  by simp

lemma js_required_Inr [simp]: "js_required v path = Inr x \<longleftrightarrow> v = Some x"
  by (auto simp: js_required_def split: option.splits)

lemma assertJsonSize_Inr [simp]: "assertJsonSize v n = Inr u \<longleftrightarrow> json_bytes v \<le> n"
  by (auto simp: assertJsonSize_def)

lemma assertJsonSize_ok [simp]: "json_bytes v \<le> n \<Longrightarrow> assertJsonSize v n = Inr ()"
  by simp

lemma field_simps_lit [simp]:
  "field [] k = None" "field ((lit k', v) # r) k = (if k' = k then Some v else field r k)"
  by (simp_all add: field_def)

text \<open>Parsers throw \<open>ContractException\<close> only, so the callers that test for it see every rejection.\<close>

named_theorems contract_intros

definition contract_only :: "'a res \<Rightarrow> bool" where
  "contract_only r \<longleftrightarrow> (\<forall>e. r = Inl e \<longrightarrow> (\<exists>c m. e = ContractException c m))"

lemma contract_only_Inr [contract_intros]: "contract_only (Inr x)"
  by (simp add: contract_only_def)

lemma contract_only_bad [contract_intros]: "contract_only (bad c m)"
  by (simp add: contract_only_def bad_def)

lemma contract_only_bindR [contract_intros]:
  "contract_only r \<Longrightarrow> (\<And>a. contract_only (f a)) \<Longrightarrow> contract_only (bindR r f)"
  by (cases r) (auto simp: contract_only_def)

lemma contract_only_if [contract_intros]:
  "(b \<Longrightarrow> contract_only r) \<Longrightarrow> (\<not> b \<Longrightarrow> contract_only q) \<Longrightarrow> contract_only (if b then r else q)"
  by simp

lemma contract_only_option [contract_intros]:
  "(x = None \<Longrightarrow> contract_only r) \<Longrightarrow> (\<And>a. x = Some a \<Longrightarrow> contract_only (f a)) \<Longrightarrow>
    contract_only (case x of None \<Rightarrow> r | Some a \<Rightarrow> f a)"
  by (cases x) auto

lemma contract_only_mapR [contract_intros]: "(\<And>x. contract_only (f x)) \<Longrightarrow> contract_only (mapR f xs)"
  by (induction xs) (auto intro!: contract_intros)

lemma contract_only_basic [contract_intros]:
  "contract_only (parseJsonValue c v)" "contract_only (js_record v ks path c)"
  "contract_only (nonemptyString v path c)" "contract_only (js_required v path)"
  "contract_only (assertJsonSize w n)" "contract_only (js_integer v i path)"
  unfolding parseJsonValue_def js_record_def nonemptyString_def js_required_def assertJsonSize_def
    js_integer_def
  by (auto simp: contract_only_def bad_def split: option.splits json.splits if_splits)

lemma contract_only_operation [contract_intros]:
  "contract_only (parseOperationDefinition v)" "contract_only (parseOperationFailure v)"
  "contract_only (eventBody v)" "contract_only (parseMessagePageQuery v)"
  unfolding parseOperationDefinition_def parseOperationFailure_def eventBody_def
    parseMessagePageQuery_def
  by (intro contract_intros | auto intro!: contract_intros split: prod.splits option.splits)+

lemma contract_only_operation' [contract_intros]:
  "contract_only (parseOperationRequest v)" "contract_only (parseOperationOutcome v)"
  unfolding parseOperationRequest_def parseOperationOutcome_def
  by (intro contract_intros)+

lemma contract_only_job [contract_intros]: "contract_only (parseJobOutcome v)"
  unfolding parseJobOutcome_def
  by (intro contract_intros) (auto intro: contract_intros split: operation_outcome.splits origin.splits)

lemma contract_only_envelopes [contract_intros]:
  "contract_only (parseProviderSubmission v)" "contract_only (parseOperationCompletion v)"
  "contract_only (parseProviderSubmitResult v)" "contract_only (parseEventBody v)"
  "contract_only (parseSubmitInputRequest v)" "contract_only (parseInitializeSessionRequest v)"
  unfolding parseProviderSubmission_def parseOperationCompletion_def parseProviderSubmitResult_def
    parseEventBody_def parseSubmitInputRequest_def parseInitializeSessionRequest_def
  by (intro contract_intros)+

section \<open>Wire round trips\<close>

definition failure_valid :: "operation_failure \<Rightarrow> bool" where
  "failure_valid f \<longleftrightarrow> trim (of_code f) \<noteq> [] \<and> trim (of_message f) \<noteq> []"

definition outcome_valid :: "operation_outcome \<Rightarrow> bool" where
  "outcome_valid o' \<longleftrightarrow> (case o' of Failed og f \<Rightarrow> failure_valid f | _ \<Rightarrow> True)
     \<and> json_bytes (outcome_json o') \<le> MAX_OPERATION_OUTCOME_BYTES"

text \<open>What an accepted job may report: anything but a rejected submission.\<close>

definition job_outcome :: "operation_outcome \<Rightarrow> bool" where
  "job_outcome o' \<longleftrightarrow> (case o' of Failed Submission f \<Rightarrow> False | _ \<Rightarrow> True)"

definition submit_result_valid :: "submit_result \<Rightarrow> bool" where
  "submit_result_valid r \<longleftrightarrow> (case r of
     Accepted j \<Rightarrow> trim j \<noteq> []
   | Completed j o' \<Rightarrow> trim j \<noteq> [] \<and> outcome_valid o' \<and> job_outcome o'
   | Rejected f \<Rightarrow> failure_valid f)"

definition completion_valid :: "operation_completion \<Rightarrow> bool" where
  "completion_valid c \<longleftrightarrow> trim (oc_operationId c) \<noteq> [] \<and> trim (oc_submissionId c) \<noteq> []
     \<and> trim (oc_provider c) \<noteq> [] \<and> trim (oc_jobId c) \<noteq> []
     \<and> outcome_valid (oc_outcome c) \<and> job_outcome (oc_outcome c)"

lemma parse_failure_json [simp]: "failure_valid f \<Longrightarrow> parseOperationFailure (Some (failure_json f)) = Inr f"
  by (cases f; cases "of_details f")
    (simp_all add: parseOperationFailure_def failure_json_def failure_valid_def js_record_JObj)

lemma parse_origin_text [simp]: "parse_origin (Some (JStr (origin_text og))) = Some og"
  by (cases og) (simp_all add: parse_origin_def origin_text_def)

lemma parse_outcome_json [simp]: "outcome_valid o' \<Longrightarrow> parseOperationOutcome (Some (outcome_json o')) = Inr o'"
  by (cases o') (simp_all add: parseOperationOutcome_def outcome_json_def outcome_valid_def js_record_JObj)

lemma parse_job_outcome_json [simp]:
  "outcome_valid o' \<Longrightarrow> job_outcome o' \<Longrightarrow> parseJobOutcome (Some (outcome_json o')) = Inr o'"
  by (auto simp: parseJobOutcome_def job_outcome_def split: operation_outcome.splits origin.splits)

lemma parse_submit_result_json:
  "submit_result_valid r \<Longrightarrow> parseProviderSubmitResult (Some (submit_result_json r)) = Inr r"
  by (cases r) (simp_all add: parseProviderSubmitResult_def submit_result_json_def submit_result_valid_def js_record_JObj)

lemma parse_completion_json:
  "completion_valid c \<Longrightarrow> parseOperationCompletion (Some (completion_json c)) = Inr c"
  by (simp add: parseOperationCompletion_def completion_json_def completion_valid_def js_record_JObj)

text \<open>Conversely a parser neither invents nor drops anything: what it accepts is the wire form of its
  result, up to key order.\<close>

lemma keys_length:
  assumes "distinct (map fst r)" and "distinct ks" and "\<forall>k \<in> set (map fst r). k \<in> set (map lit ks)"
    and "\<forall>k \<in> set ks. field r k \<noteq> None"
  shows "length r = length ks"
proof -
  have "set (map lit ks) \<subseteq> set (map fst r)"
    using assms(4) by (auto simp: field_def map_of_eq_None_iff simp del: not_None_eq)
  with assms(3) have "set (map fst r) = set (map lit ks)" by blast
  moreover have "distinct (map lit ks)" using assms(2) by (simp add: distinct_map inj_on_def)
  ultimately show ?thesis using assms(1) by (metis distinct_card length_map)
qed

lemma json_ok_field: "json_ok (JObj r) \<Longrightarrow> field r k = Some v \<Longrightarrow> json_ok v"
  by (auto simp: field_def list_forms list_all_iff dest!: map_of_SomeD)

lemma parse_failure_Inr:
  "parseOperationFailure (Some v) = Inr f \<longleftrightarrow> (\<exists>r. v = JObj r
     \<and> (\<forall>k \<in> set (map fst r). k \<in> set (map lit [''code'', ''message'', ''details'']))
     \<and> field r ''code'' = Some (JStr (of_code f)) \<and> field r ''message'' = Some (JStr (of_message f))
     \<and> field r ''details'' = of_details f \<and> failure_valid f)"
  unfolding parseOperationFailure_def failure_valid_def bindR_eq_Inr js_record_Inr parseJsonValue_simps
    nonemptyString_Inr
  by (cases f) (simp, blast)

lemma parse_failure_exact:
  assumes "json_ok v" and "parseOperationFailure (Some v) = Inr f"
  shows "failure_valid f \<and> jsonEquals (failure_json f) v"
proof -
  from assms(2) obtain r where r: "v = JObj r" "\<forall>k \<in> set (map fst r). k \<in> set (map lit [''code'', ''message'', ''details''])"
    and f: "field r ''code'' = Some (JStr (of_code f))" "field r ''message'' = Some (JStr (of_message f))"
      "field r ''details'' = of_details f" "failure_valid f"
    unfolding parse_failure_Inr by blast
  have dist: "distinct (map fst r)" using assms(1) r(1) by simp
  show ?thesis
  proof (cases "of_details f")
    case None
    have "k \<noteq> lit ''details''" if "k \<in> set (map fst r)" for k
      using that f(3) None by (simp add: field_def map_of_eq_None_iff) blast
    with r(2) have "\<forall>k \<in> set (map fst r). k \<in> set (map lit [''code'', ''message''])" by auto
    from keys_length [OF dist _ this] f None have "length r = 2" by simp
    with f None r(1) show ?thesis by (simp add: failure_json_def field_def)
  next
    case (Some d)
    from keys_length [OF dist _ r(2)] f Some have "length r = 3" by simp
    moreover have "json_ok d" using json_ok_field [of r "''details''" d] assms(1) r(1) f(3) Some by simp
    ultimately show ?thesis
      using f Some r(1) by (simp add: failure_json_def field_def jsonEquals_refl)
  qed
qed

lemma parse_outcome_exact:
  assumes "json_ok v" and "parseOperationOutcome (Some v) = Inr o'"
  shows "jsonEquals (outcome_json o') v \<and> (case o' of Failed og f \<Rightarrow> failure_valid f | _ \<Rightarrow> True)
    \<and> json_bytes v \<le> MAX_OPERATION_OUTCOME_BYTES"
proof -
  from assms(2) obtain r where r: "v = JObj r" and size: "json_bytes v \<le> MAX_OPERATION_OUTCOME_BYTES"
    and rec0: "js_record (Some v) [''status'', ''result'', ''origin'', ''error''] ''outcome'' INVALID_REQUEST = Inr r"
    unfolding parseOperationOutcome_def bindR_eq_Inr js_record_Inr parseJsonValue_simps assertJsonSize_Inr
    by blast
  have dist: "distinct (map fst r)" using assms(1) r by simp
  have keys: "length r = length ks" if "js_record (Some v) ks ''outcome'' INVALID_REQUEST = Inr x"
    "distinct ks" "\<forall>k \<in> set ks. field r k \<noteq> None" for ks x
    using that r keys_length [OF dist, of ks] by (simp add: js_record_Inr)
  note open_parse = parseOperationOutcome_def bindR_eq_Inr parseJsonValue_simps
  consider (ok) "field r ''status'' = Some (JStr (lit ''succeeded''))"
    | (fail) "field r ''status'' = Some (JStr (lit ''failed''))"
    | (cancel) "field r ''status'' = Some (JStr (lit ''cancelled''))"
    using assms(2) rec0 size unfolding open_parse by (simp split: if_splits)
  then show ?thesis
  proof cases
    case ok
    with assms(2) r obtain x y where o': "o' = Succeeded x" "field r ''result'' = Some x"
      and rec: "js_record (Some v) [''status'', ''result''] ''outcome'' INVALID_REQUEST = Inr y"
      unfolding open_parse by (auto simp: js_record_Inr)
    have "json_ok x" using json_ok_field o' r assms(1) by blast
    with keys [OF rec] ok o' r size show ?thesis
      by (simp add: outcome_json_def field_def jsonEquals_refl)
  next
    case fail
    with assms(2) r obtain og f y w where o': "o' = Failed og f" "parse_origin (field r ''origin'') = Some og"
        "field r ''error'' = Some w" "parseOperationFailure (Some w) = Inr f"
      and rec: "js_record (Some v) [''status'', ''origin'', ''error''] ''outcome'' INVALID_REQUEST = Inr y"
      unfolding open_parse parseOperationFailure_def
      by (auto simp: js_record_Inr split: option.splits)
    have origin: "field r ''origin'' = Some (JStr (origin_text og))"
      using o'(2) by (auto simp: parse_origin_def origin_text_def split: if_splits)
    have "failure_valid f \<and> jsonEquals (failure_json f) w"
      using parse_failure_exact [of w f] json_ok_field [of r _ w] o'(3,4) r assms(1) by blast
    with keys [OF rec] fail o' origin r size show ?thesis
      by (simp add: outcome_json_def field_def)
  next
    case cancel
    with assms(2) r obtain y where o': "o' = Cancelled"
      and rec: "js_record (Some v) [''status''] ''outcome'' INVALID_REQUEST = Inr y"
      unfolding open_parse by (auto simp: js_record_Inr)
    with keys [OF rec] cancel r size show ?thesis
      by (simp add: outcome_json_def field_def)
  qed
qed

lemma parse_job_outcome_Inr:
  "parseJobOutcome v = Inr o' \<longleftrightarrow> parseOperationOutcome v = Inr o' \<and> job_outcome o'"
proof (cases "parseOperationOutcome v")
  case (Inr a)
  then show ?thesis
    by (auto simp: parseJobOutcome_def job_outcome_def split: operation_outcome.splits origin.splits)
qed (simp add: parseJobOutcome_def)

section \<open>Properties\<close>

text \<open>C30: The wire form of a valid provider result and of a valid completion is parsed back to exactly
  the value it encodes, so nothing is lost or coerced between a worker and a session.\<close>

theorem wire_round_trip:
  "(submit_result_valid r \<longrightarrow> parseProviderSubmitResult (Some (submit_result_json r)) = Inr r)
   \<and> (completion_valid c \<longrightarrow> parseOperationCompletion (Some (completion_json c)) = Inr c)"
  by (simp add: parse_submit_result_json parse_completion_json)

theorem wire_round_trip_witness:
  "parseProviderSubmitResult (Some (submit_result_json (Completed (lit ''j'') Cancelled)))
     = Inr (Completed (lit ''j'') Cancelled)"
proof -
  have "json_bytes (outcome_json Cancelled) \<le> MAX_OPERATION_OUTCOME_BYTES" by code_simp
  then have "submit_result_valid (Completed (lit ''j'') Cancelled)"
    by (simp add: submit_result_valid_def outcome_valid_def job_outcome_def lit_def js_space_def)
  then show ?thesis using wire_round_trip by blast
qed

text \<open>What the outcome parser accepts is, up to key order, the wire form of its result: no field is
  invented, dropped or rewritten, and the accepted value respects the inline size limit. An accepted
  provider job never reports a rejected submission.\<close>

theorem job_outcome_exact:
  assumes "json_ok v" and "parseJobOutcome (Some v) = Inr o'"
  shows "jsonEquals (outcome_json o') v \<and> json_bytes v \<le> MAX_OPERATION_OUTCOME_BYTES \<and> job_outcome o'"
  using parse_outcome_exact [OF assms(1)] assms(2) by (simp add: parse_job_outcome_Inr)

theorem job_outcome_exact_witness:
  "job_outcome Cancelled \<and> jsonEquals (outcome_json Cancelled) (JObj [(lit ''status'', JStr (lit ''cancelled''))])"
proof -
  have "parseJobOutcome (Some (JObj [(lit ''status'', JStr (lit ''cancelled''))])) = Inr Cancelled"
    by code_simp
  from job_outcome_exact [OF _ this] show ?thesis by simp
qed

end
