(* ===== verification/LlmContracts.thy ===== *)
theory LlmContracts
  imports Contracts
begin

text \<open>
  \<open>packages/contracts/src/llm.ts\<close>: validation of language-model messages, inputs and responses.
  The validators return the value they were given, as the code does (it casts the checked object),
  so an \<open>LlmMessage\<close> is its JSON value. The lemmas say which values pass, that nothing is rewritten,
  and that only \<open>ContractException\<close> is thrown.
\<close>

definition invalid_request :: "string \<Rightarrow> 'a res" where
  "invalid_request m = bad INVALID_REQUEST (lit m)"

definition js_object :: "json option \<Rightarrow> fields res" where
  "js_object value = (case value of Some (JObj r) \<Rightarrow> Inr r | _ \<Rightarrow> invalid_request ''Expected a JSON object.'')"

definition js_string :: "json option \<Rightarrow> jstring res" where
  "js_string value = (case value of Some (JStr s) \<Rightarrow> Inr s | _ \<Rightarrow> invalid_request ''Expected a string.'')"

definition js_array :: "json option \<Rightarrow> json list res" where
  "js_array value = (case value of Some (JArr xs) \<Rightarrow> Inr xs | _ \<Rightarrow> invalid_request ''Expected an array.'')"

text \<open>A regular expression that fixes the length: one predicate per position.\<close>

definition matches :: "(unit16 \<Rightarrow> bool) list \<Rightarrow> jstring \<Rightarrow> bool" where
  "matches ps s \<longleftrightarrow> list_all2 (\<lambda>p u. p u) ps s"

definition is_dash :: "unit16 \<Rightarrow> bool" where
  "is_dash u \<longleftrightarrow> u = 0x2D"

definition uuid_pattern :: "(unit16 \<Rightarrow> bool) list" where
  "uuid_pattern = replicate 8 is_hex @ [is_dash] @ replicate 4 is_hex @ [is_dash]
     @ [\<lambda>u. 49 \<le> u \<and> u \<le> 56] @ replicate 3 is_hex @ [is_dash]
     @ [\<lambda>u. u = 56 \<or> u = 57 \<or> u = 97 \<or> u = 98 \<or> u = 65 \<or> u = 66] @ replicate 3 is_hex @ [is_dash]
     @ replicate 12 is_hex"

definition parseUuid :: "json option \<Rightarrow> jstring res" where
  "parseUuid value = bindR (js_string value) (\<lambda>s.
     if matches uuid_pattern s then Inr s else invalid_request ''Expected a UUID.'')"

definition optionalString :: "fields \<Rightarrow> string \<Rightarrow> unit res" where
  "optionalString r key = (case field r key of None \<Rightarrow> Inr ()
     | Some v \<Rightarrow> bindR (js_string (Some v)) (\<lambda>_. Inr ()))"

definition metadata_check :: "fields \<Rightarrow> unit res" where
  "metadata_check r = (case field r ''metadata'' of None \<Rightarrow> Inr ()
     | Some v \<Rightarrow> bindR (js_object (Some v)) (\<lambda>_. Inr ()))"

definition http_url :: "jstring \<Rightarrow> bool" where
  "http_url s \<longleftrightarrow> startsWith s (lit ''http://'') \<or> startsWith s (lit ''https://'')"

definition content_part :: "bool \<Rightarrow> json \<Rightarrow> unit res" where
  "content_part images part =
     bindR (js_object (Some part)) (\<lambda>p.
     bindR
       (if field p ''type'' = Some (JStr (lit ''text'')) then
          bindR (js_record (Some (JObj p)) [''type'', ''text'', ''metadata''] ''text'' INVALID_REQUEST) (\<lambda>_.
          bindR (js_string (field p ''text'')) (\<lambda>_. Inr ()))
        else if images \<and> field p ''type'' = Some (JStr (lit ''image'')) then
          bindR (js_record (Some (JObj p)) [''type'', ''url'', ''detail'', ''metadata''] ''image'' INVALID_REQUEST) (\<lambda>_.
          bindR (js_string (field p ''url'')) (\<lambda>url.
          if \<not> http_url url then invalid_request ''Image URL must use HTTP or HTTPS.''
          else case field p ''detail'' of None \<Rightarrow> Inr ()
          | Some d \<Rightarrow> bindR (js_string (Some d)) (\<lambda>detail.
              if detail \<in> set (map lit [''auto'', ''low'', ''high'', ''original'']) then Inr ()
              else invalid_request ''Invalid image detail.'')))
        else invalid_request ''Unsupported content part.'')
       (\<lambda>_. metadata_check p))"

definition llm_content :: "json option \<Rightarrow> bool \<Rightarrow> unit res" where
  "llm_content value images =
     bindR (js_array value) (\<lambda>parts. bindR (mapR (content_part images) parts) (\<lambda>_. Inr ()))"

definition message_base :: "string list" where
  "message_base = [''id'', ''timestamp'', ''metadata'', ''role'']"

definition tool_outcome_check :: "json option \<Rightarrow> unit res" where
  "tool_outcome_check value =
     bindR (js_object value) (\<lambda>outcome.
     if field outcome ''status'' = Some (JStr (lit ''success'')) then
       bindR (js_record (Some (JObj outcome)) [''status''] ''tool outcome'' INVALID_REQUEST) (\<lambda>_. Inr ())
     else if field outcome ''status'' = Some (JStr (lit ''error'')) then
       bindR (js_record (Some (JObj outcome)) [''status'', ''error''] ''tool outcome'' INVALID_REQUEST) (\<lambda>_.
       bindR (js_record (field outcome ''error'') [''message'', ''name''] ''tool error'' INVALID_REQUEST) (\<lambda>error.
       bindR (js_string (field error ''message'')) (\<lambda>_. optionalString error ''name'')))
     else invalid_request ''Invalid tool result outcome.'')"

definition message_role_check :: "fields \<Rightarrow> unit res" where
  "message_role_check m =
     (let rec = (\<lambda>keys path. js_record (Some (JObj m)) (message_base @ keys) path INVALID_REQUEST);
          role = field m ''role'' in
      if role = Some (JStr (lit ''user'')) \<or> role = Some (JStr (lit ''system'')) then
        bindR (rec [''content''] ''message'') (\<lambda>_.
        llm_content (field m ''content'') (role = Some (JStr (lit ''user''))))
      else if role = Some (JStr (lit ''assistant'')) then
        bindR (rec [''provider'', ''content''] ''assistant'') (\<lambda>_.
        bindR (js_string (field m ''provider'')) (\<lambda>provider.
        if provider \<notin> set (map lit [''openai'', ''chatgpt'', ''fireworks''])
        then invalid_request ''Invalid assistant provider.''
        else bindR (js_array (field m ''content'')) (\<lambda>_. Inr ())))
      else if role = Some (JStr (lit ''tool_result'')) then
        bindR (rec [''toolName'', ''toolCallId'', ''content'', ''outcome'', ''details''] ''tool result'') (\<lambda>_.
        bindR (js_string (field m ''toolName'')) (\<lambda>_.
        bindR (js_string (field m ''toolCallId'')) (\<lambda>_.
        bindR (llm_content (field m ''content'') True) (\<lambda>_.
        tool_outcome_check (field m ''outcome'')))))
      else if role = Some (JStr (lit ''custom'')) then
        bindR (rec [''tag'', ''data''] ''custom message'') (\<lambda>_.
        bindR (js_string (field m ''tag'')) (\<lambda>_.
        if field m ''data'' = None then invalid_request ''Custom data is required.'' else Inr ()))
      else invalid_request ''Unsupported message role.'')"

definition is_number :: "json option \<Rightarrow> bool" where
  "is_number v = (case v of Some (JNum x) \<Rightarrow> True | _ \<Rightarrow> False)"

definition nonneg_number :: "json option \<Rightarrow> bool" where
  "nonneg_number v = (case v of Some (JNum x) \<Rightarrow> \<not> num_negative x | _ \<Rightarrow> False)"

definition llm_message :: "json \<Rightarrow> json res" where
  "llm_message value =
     bindR (js_object (Some value)) (\<lambda>m.
     bindR (optionalString m ''id'') (\<lambda>_.
     bindR (metadata_check m) (\<lambda>_.
     if field m ''timestamp'' \<noteq> None \<and> \<not> is_number (field m ''timestamp'')
     then invalid_request ''Invalid message timestamp.''
     else bindR (message_role_check m) (\<lambda>_. Inr (JObj m)))))"

definition parseLlmMessage :: "json option \<Rightarrow> json res" where
  "parseLlmMessage value = bindR (parseJsonValue INVALID_REQUEST value) llm_message"

definition llm_tool :: "json \<Rightarrow> json res" where
  "llm_tool value =
     bindR (js_object (Some value)) (\<lambda>t.
     bindR (js_string (field t ''name'')) (\<lambda>_.
     bindR (js_string (field t ''description'')) (\<lambda>_.
     if field t ''type'' = Some (JStr (lit ''function'')) then
       bindR (js_record (Some (JObj t)) [''type'', ''name'', ''description'', ''parameters'', ''outputSchema'', ''strict''] ''function tool'' INVALID_REQUEST) (\<lambda>_.
       bindR (js_object (field t ''parameters'')) (\<lambda>_.
       bindR (case field t ''outputSchema'' of None \<Rightarrow> Inr [] | Some v \<Rightarrow> js_object (Some v)) (\<lambda>_.
       case field t ''strict'' of None \<Rightarrow> Inr (JObj t) | Some (JBool b) \<Rightarrow> Inr (JObj t)
       | Some _ \<Rightarrow> invalid_request ''Invalid tool strict flag.'')))
     else if field t ''type'' = Some (JStr (lit ''custom'')) then
       bindR (js_record (Some (JObj t)) [''type'', ''name'', ''description'', ''format''] ''custom tool'' INVALID_REQUEST) (\<lambda>_.
       bindR (js_record (field t ''format'') [''syntax'', ''definition''] ''tool format'' INVALID_REQUEST) (\<lambda>format.
       if field format ''syntax'' \<noteq> Some (JStr (lit ''lark'')) then invalid_request ''Unsupported grammar syntax.''
       else bindR (js_string (field format ''definition'')) (\<lambda>_. Inr (JObj t))))
     else invalid_request ''Unsupported tool type.'')))"

record llm_fresh_input =
  li_accountId :: jstring
  li_modelId :: jstring
  li_instructions :: "jstring option"
  li_messages :: "json list"
  li_tools :: "json list"
  li_providerOptions :: fields

datatype llm_input = LlmContinuation jstring "json list" | LlmFresh llm_fresh_input

definition parseLlmInput :: "json option \<Rightarrow> llm_input res" where
  "parseLlmInput value =
     bindR (parseJsonValue INVALID_REQUEST value) (\<lambda>v.
     bindR (js_object (Some v)) (\<lambda>r.
     bindR (js_array (field r ''messages'')) (\<lambda>raw.
     bindR (mapR llm_message raw) (\<lambda>messages.
     if field r ''previousJobId'' \<noteq> None \<and> field r ''previousJobId'' \<noteq> Some JNull then
       bindR (js_record (Some v) [''previousJobId'', ''messages''] ''continuation'' INVALID_REQUEST) (\<lambda>_.
       bindR (parseUuid (field r ''previousJobId'')) (\<lambda>job. Inr (LlmContinuation job messages)))
     else
       bindR (js_record (Some v) [''previousJobId'', ''accountId'', ''modelId'', ''instructions'', ''messages'', ''tools'', ''providerOptions''] ''LLM input'' INVALID_REQUEST) (\<lambda>_.
       bindR (nonemptyString (field r ''modelId'') ''modelId'' INVALID_REQUEST) (\<lambda>modelId.
       if length modelId > 300 then invalid_request ''Model ID is too long.''
       else bindR (optionalString r ''instructions'') (\<lambda>_.
       bindR (parseUuid (field r ''accountId'')) (\<lambda>accountId.
       bindR (case field r ''tools'' of None \<Rightarrow> Inr [] | Some v \<Rightarrow> bindR (js_array (Some v)) (mapR llm_tool)) (\<lambda>tools.
       bindR (case field r ''providerOptions'' of None \<Rightarrow> Inr [] | Some v \<Rightarrow> js_object (Some v)) (\<lambda>options.
       Inr (LlmFresh \<lparr>li_accountId = accountId, li_modelId = modelId,
         li_instructions = (case field r ''instructions'' of Some (JStr s) \<Rightarrow> Some s | _ \<Rightarrow> None),
         li_messages = messages, li_tools = tools, li_providerOptions = options\<rparr>)))))))))))"

record session_destination =
  sd_routeKey :: jstring
  sd_sessionId :: jstring

record llm_submission =
  ls_destination :: session_destination
  ls_submission :: provider_submission

definition parseLlmSubmission :: "json option \<Rightarrow> llm_submission res" where
  "parseLlmSubmission value =
     bindR (parseJsonValue INVALID_REQUEST value) (\<lambda>v.
     bindR (js_record (Some v) [''destination'', ''submission''] ''LLM submission'' INVALID_REQUEST) (\<lambda>r.
     bindR (js_record (field r ''destination'') [''routeKey'', ''sessionId''] ''destination'' INVALID_REQUEST) (\<lambda>d.
     bindR (nonemptyString (field d ''routeKey'') ''routeKey'' INVALID_REQUEST) (\<lambda>routeKey.
     bindR (nonemptyString (field d ''sessionId'') ''sessionId'' INVALID_REQUEST) (\<lambda>sessionId.
     bindR (parseProviderSubmission (field r ''submission'')) (\<lambda>submission.
     if list_ex (\<lambda>id. length id > 2048)
          [routeKey, sessionId, ps_operationId submission, ps_submissionId submission]
     then invalid_request ''Operation routing identifier is too long.''
     else Inr \<lparr>ls_destination = \<lparr>sd_routeKey = routeKey, sd_sessionId = sessionId\<rparr>,
       ls_submission = submission\<rparr>))))))"

definition counts_check :: "fields \<Rightarrow> unit res" where
  "counts_check value =
     (if list_all (\<lambda>name. field value name = None \<or> nonneg_number (field value name))
           [''input'', ''output'', ''cacheRead'', ''cacheWrite'']
      then Inr () else invalid_request ''Invalid usage count/cost.'')"

definition usage_check :: "json option \<Rightarrow> unit res" where
  "usage_check v = (case v of None \<Rightarrow> Inr () | Some u \<Rightarrow>
     bindR (js_object (Some u)) (\<lambda>usage.
     bindR (counts_check usage) (\<lambda>_.
     case field usage ''cost'' of None \<Rightarrow> Inr () | Some c \<Rightarrow>
       bindR (js_object (Some c)) (\<lambda>cost.
       bindR (counts_check cost) (\<lambda>_.
       if nonneg_number (field cost ''total'') then Inr ()
       else invalid_request ''Invalid usage cost total.'')))))"

text \<open>The stop reasons of a response.\<close>

definition STOP_REASONS :: "jstring list" where
  "STOP_REASONS = map lit [''stop'', ''length'', ''tool_use'', ''refusal'', ''content_filter'', ''pause_turn'']"

definition parseLlmResponse :: "json option \<Rightarrow> fields res" where
  "parseLlmResponse value =
     bindR (parseJsonValue INVALID_REQUEST value) (\<lambda>v.
     bindR (js_object (Some v)) (\<lambda>r.
     bindR (nonemptyString (field r ''id'') ''response.id'' INVALID_REQUEST) (\<lambda>_.
     bindR (nonemptyString (field r ''modelId'') ''response.modelId'' INVALID_REQUEST) (\<lambda>_.
     bindR (optionalString r ''resolvedModelId'') (\<lambda>_.
     bindR (bindR (js_object (field r ''message'')) (\<lambda>m. llm_message (JObj m))) (\<lambda>m.
     bindR (js_object (Some m)) (\<lambda>mf.
     if field mf ''role'' \<noteq> Some (JStr (lit ''assistant'')) then invalid_request ''Expected an assistant response.''
     else bindR (js_string (field r ''stopReason'')) (\<lambda>stop.
     if stop \<notin> set STOP_REASONS then invalid_request ''Invalid stop reason.''
     else if \<not> nonneg_number (field r ''durationMs'') \<or> \<not> nonneg_number (field r ''timestamp'')
     then invalid_request ''Invalid response timing.''
     else bindR (usage_check (field r ''usage'')) (\<lambda>_. Inr r)))))))))"

section \<open>Facts\<close>

lemma llm_basic_Inr [simp]:
  "js_object v = Inr r \<longleftrightarrow> v = Some (JObj r)" "js_string v = Inr s \<longleftrightarrow> v = Some (JStr s)"
  "js_array v = Inr xs \<longleftrightarrow> v = Some (JArr xs)" "invalid_request m \<noteq> Inr x"
  by (auto simp: js_object_def js_string_def js_array_def invalid_request_def
      split: option.splits json.splits)

lemma llm_basic_ok [simp]:
  "js_object (Some (JObj r)) = Inr r" "js_string (Some (JStr s)) = Inr s"
  "js_array (Some (JArr xs)) = Inr xs"
  by simp_all

lemma contract_only_llm_basic [contract_intros]:
  "contract_only (invalid_request m)" "contract_only (js_object v)" "contract_only (js_string v)"
  "contract_only (js_array v)"
  unfolding invalid_request_def js_object_def js_string_def js_array_def
  by (auto simp: contract_only_def bad_def split: option.splits json.splits)

lemma contract_only_llm [contract_intros]:
  "contract_only (parseUuid v)" "contract_only (optionalString r k)" "contract_only (metadata_check r)"
  "contract_only (tool_outcome_check v)" "contract_only (counts_check r)"
  unfolding parseUuid_def tool_outcome_check_def optionalString_def metadata_check_def counts_check_def
  by (intro contract_intros)+

lemma contract_only_content [contract_intros]:
  "contract_only (content_part i p)" "contract_only (llm_content v i)" "contract_only (usage_check v)"
  unfolding content_part_def llm_content_def usage_check_def
  by (intro contract_intros, (simp add: content_part_def; intro contract_intros)?)+

lemma contract_only_message [contract_intros]:
  "contract_only (message_role_check m)" "contract_only (llm_message v)" "contract_only (parseLlmMessage w)"
  unfolding llm_message_def parseLlmMessage_def message_role_check_def Let_def
  by (intro contract_intros)+

text \<open>A validated message is the value itself: native assistant items are never rewritten.\<close>

lemma llm_message_id: "llm_message v = Inr m \<Longrightarrow> m = v"
  by (auto simp: llm_message_def split: if_splits)

lemma llm_message_role:
  "llm_message (JObj m) = Inr v \<Longrightarrow> message_role_check m = Inr ()"
  by (auto simp: llm_message_def split: if_splits)

end
