(* ===== verification/ToolContracts.thy ===== *)
theory ToolContracts
  imports LlmContracts
begin

text \<open>
  \<open>packages/contracts/src\<close>: tool-execution.ts and the tool argument contracts pi-bash.ts, pi-read.ts,
  pi-write.ts, pi-edit.ts and codex-apply-patch.ts. The WHATWG URL parser is a parameter
  \<open>new_URL\<close>, which returns the parts the code reads or \<open>None\<close> when it throws. The lemmas give
  the exact language of machine execution tokens and which paths and arguments are admitted.
\<close>

section \<open>Operations and tool definitions\<close>

definition mk_operation :: "string \<Rightarrow> string \<Rightarrow> operation_definition" where
  "mk_operation p t = \<lparr>od_provider = lit p, od_type = lit t, od_version = lit ''v1''\<rparr>"

definition LLM_OPERATION :: operation_definition where
  "LLM_OPERATION = mk_operation ''llm'' ''generate''"

definition PI_BASH_OPERATION :: operation_definition where
  "PI_BASH_OPERATION = mk_operation ''tool-pi-bash'' ''bash''"

definition PI_READ_OPERATION :: operation_definition where
  "PI_READ_OPERATION = mk_operation ''tool-pi-read'' ''read''"

definition PI_WRITE_OPERATION :: operation_definition where
  "PI_WRITE_OPERATION = mk_operation ''tool-pi-write'' ''write''"

definition PI_EDIT_OPERATION :: operation_definition where
  "PI_EDIT_OPERATION = mk_operation ''tool-pi-edit'' ''edit''"

definition CODEX_APPLY_PATCH_OPERATION :: operation_definition where
  "CODEX_APPLY_PATCH_OPERATION = mk_operation ''tool-codex-apply-patch'' ''apply_patch''"

definition obj :: "(string \<times> json) list \<Rightarrow> json" where
  "obj kvs = JObj (map (\<lambda>(k, v). (lit k, v)) kvs)"

definition str :: "string \<Rightarrow> json" where
  "str s = JStr (lit s)"

text \<open>\<open>{ type, description }\<close>, a JSON-Schema property.\<close>

definition schema_prop :: "string \<Rightarrow> string \<Rightarrow> json" where
  "schema_prop ty d = obj [(''type'', str ty), (''description'', str d)]"

definition schema_object :: "(string \<times> json) list \<Rightarrow> string list \<Rightarrow> json" where
  "schema_object props req = obj [(''type'', str ''object''), (''properties'', obj props),
     (''required'', JArr (map str req)), (''additionalProperties'', JBool False)]"

definition function_tool :: "string \<Rightarrow> string \<Rightarrow> json \<Rightarrow> json" where
  "function_tool name d ps = obj [(''type'', str ''function''), (''name'', str name),
     (''description'', str d), (''parameters'', ps)]"

definition PI_BASH_TOOL :: json where
  "PI_BASH_TOOL = function_tool ''bash''
     ''Execute a bash command in the current working directory. Returns stdout and stderr. Output is truncated to last 2000 lines or 50KB (whichever is hit first). If truncated, full output is saved to a temp file. Optionally provide a timeout in seconds.''
     (schema_object
       [(''command'', schema_prop ''string'' ''Shell command to execute''),
        (''timeout'', schema_prop ''number'' ''Timeout in seconds (optional, no default timeout)'')]
       [''command''])"

definition PI_READ_TOOL :: json where
  "PI_READ_TOOL = function_tool ''read''
     ''Read the contents of a file (maximum 5 MiB). Supports text files and images (jpg, png, gif, webp, bmp). Images are returned as URL attachments. For text files, output is truncated to 2000 lines or 50KB (whichever is hit first). Use offset/limit for large files. When you need the full file, continue with offset until complete.''
     (schema_object
       [(''path'', schema_prop ''string'' ''Path to the file to read (relative or absolute)''),
        (''offset'', schema_prop ''number'' ''Line number to start reading from (1-indexed)''),
        (''limit'', schema_prop ''number'' ''Maximum number of lines to read'')]
       [''path''])"

definition PI_WRITE_TOOL :: json where
  "PI_WRITE_TOOL = function_tool ''write''
     ''Write content to a file. Creates the file if it doesn't exist, overwrites if it does. Automatically creates parent directories. Content must be at most 5 MiB in UTF-8. Use write only for new files or complete rewrites.''
     (schema_object
       [(''path'', schema_prop ''string'' ''Path to the file to write (relative or absolute)''),
        (''content'', schema_prop ''string'' ''Content to write to the file'')]
       [''path'', ''content''])"

definition PI_EDIT_MAX_EDITS :: nat where
  "PI_EDIT_MAX_EDITS = 256"

definition PI_EDIT_TOOL :: json where
  "PI_EDIT_TOOL = function_tool ''edit''
     ''Make precise edits to an existing file using exact text replacements. Each oldText must match uniquely in the original file. Edits must not overlap. Files must be at most 5 MiB before and after editing; at most 256 replacements per call.''
     (schema_object
       [(''path'', schema_prop ''string'' ''Path to the file to edit (relative or absolute)''),
        (''edits'', obj [(''type'', str ''array''), (''minItems'', JNum (NInt 1)),
           (''maxItems'', JNum (NInt (int PI_EDIT_MAX_EDITS))),
           (''items'', schema_object
             [(''oldText'', obj [(''type'', str ''string''), (''minLength'', JNum (NInt 1)),
                (''description'', str ''Exact text, unique in the original file and disjoint from other edits'')]),
              (''newText'', schema_prop ''string'' ''Replacement text; empty to delete the matched text'')]
             [''oldText'', ''newText''])])]
       [''path'', ''edits''])"

section \<open>tool-execution.ts\<close>

record url_parts =
  up_protocol :: jstring
  up_hostname :: jstring
  up_username :: jstring
  up_password :: jstring
  up_search :: jstring
  up_hash :: jstring
  up_pathname :: jstring
  up_origin :: jstring

type_synonym url_parser = "jstring \<Rightarrow> url_parts option"

text \<open>\<open>s.split(c)\<close> for a one-character separator.\<close>

fun split_on :: "unit16 \<Rightarrow> jstring \<Rightarrow> jstring list" where
  "split_on c [] = [[]]"
| "split_on c (u # s) = (if u = c then [] # split_on c s
     else (case split_on c s of [] \<Rightarrow> [[u]] | p # ps \<Rightarrow> (u # p) # ps))"

definition ascii_lower :: "unit16 \<Rightarrow> unit16" where
  "ascii_lower u = (if is_upper u then u + 32 else u)"

text \<open>\<open>/^https:\/\/[^/?#@\\]+\/?$/i\<close>.\<close>

definition https_origin_pattern :: "jstring \<Rightarrow> bool" where
  "https_origin_pattern s \<longleftrightarrow>
     (let host = drop 8 s;
          body = (if host \<noteq> [] \<and> last host = 0x2F then butlast host else host) in
      map ascii_lower (take 8 s) = lit ''https://'' \<and> body \<noteq> []
      \<and> list_all (\<lambda>u. u \<noteq> 0x2F \<and> u \<noteq> 0x3F \<and> u \<noteq> 0x23 \<and> u \<noteq> 0x40 \<and> u \<noteq> 0x5C) body)"

definition GATEWAY_URL_MESSAGE :: jstring where
  "GATEWAY_URL_MESSAGE = lit ''executionGatewayUrl must be an HTTPS origin without credentials, path, query or fragment.''"

definition parseExecutionGatewayUrl :: "url_parser \<Rightarrow> json option \<Rightarrow> jstring res" where
  "parseExecutionGatewayUrl new_URL value = (case value of
     Some (JStr s) \<Rightarrow>
       if length s > 2048 \<or> \<not> https_origin_pattern s \<or> list_ex (\<lambda>u. js_space u \<or> u \<le> 0x1F \<or> u = 0x7F) s
       then bad INVALID_REQUEST GATEWAY_URL_MESSAGE
       else (case new_URL s of
         None \<Rightarrow> bad INVALID_REQUEST GATEWAY_URL_MESSAGE
       | Some url \<Rightarrow>
           if up_protocol url \<noteq> lit ''https:'' \<or> up_hostname url = [] \<or> up_username url \<noteq> []
              \<or> up_password url \<noteq> [] \<or> up_search url \<noteq> [] \<or> up_hash url \<noteq> []
              \<or> up_pathname url \<noteq> lit ''/'' \<or> 0x3F \<in> set s \<or> 0x23 \<in> set s
           then bad INVALID_REQUEST GATEWAY_URL_MESSAGE
           else Inr (up_origin url))
   | _ \<Rightarrow> bad INVALID_REQUEST GATEWAY_URL_MESSAGE)"

definition positive_decimal :: "jstring \<Rightarrow> bool" where
  "positive_decimal s \<longleftrightarrow> s \<noteq> [] \<and> list_all is_digit s \<and> hd s \<noteq> 48"

definition base64url :: "unit16 \<Rightarrow> bool" where
  "base64url u \<longleftrightarrow> is_alnum u \<or> u = 0x5F \<or> u = 0x2D"

definition parseExecutionToken :: "json option \<Rightarrow> jstring res" where
  "parseExecutionToken value =
     bindR (parseJsonValue INVALID_REQUEST value) (\<lambda>v.
     bindR (nonemptyString (Some v) ''execution token'' INVALID_REQUEST) (\<lambda>token.
     let parts = split_on 0x2E token in
     if length parts \<noteq> 4 \<or> parts ! 0 \<noteq> lit ''me1'' \<or> \<not> positive_decimal (parts ! 2)
        \<or> int (digits_value (parts ! 2)) > MAX_SAFE_INTEGER
        \<or> \<not> (length (parts ! 3) = 43 \<and> list_all base64url (parts ! 3))
     then bad INVALID_REQUEST (lit ''Expected a machine execution secret.'')
     else bindR (parseUuid (Some (JStr (parts ! 1)))) (\<lambda>_. Inr token)))"

record tool_execution_context =
  tc_gatewayUrl :: jstring
  tc_token :: jstring
  tc_runtimeGeneration :: jstring

record tool_execution_submission =
  ts_destination :: session_destination
  ts_execution :: tool_execution_context
  ts_submission :: provider_submission

definition token_unit :: "unit16 \<Rightarrow> bool" where
  "token_unit u \<longleftrightarrow> is_alnum u \<or> u = 0x2E \<or> u = 0x5F \<or> u = 0x7E \<or> u = 0x2D"

definition parseToolExecutionContext :: "url_parser \<Rightarrow> json option \<Rightarrow> tool_execution_context res" where
  "parseToolExecutionContext new_URL value =
     bindR (parseJsonValue INVALID_REQUEST value) (\<lambda>v.
     bindR (js_record (Some v) [''gatewayUrl'', ''token'', ''runtimeGeneration''] ''execution context'' INVALID_REQUEST) (\<lambda>r.
     bindR (nonemptyString (field r ''token'') ''execution.token'' INVALID_REQUEST) (\<lambda>token.
     if length token > 32768 \<or> \<not> list_all token_unit token
     then bad INVALID_REQUEST (lit ''Invalid execution token encoding.'')
     else bindR (parseExecutionToken (Some (JStr token))) (\<lambda>_.
     bindR (parseExecutionGatewayUrl new_URL (field r ''gatewayUrl'')) (\<lambda>url.
     bindR (parseUuid (field r ''runtimeGeneration'')) (\<lambda>gen.
     Inr \<lparr>tc_gatewayUrl = url, tc_token = token, tc_runtimeGeneration = gen\<rparr>))))))"

definition identity_unit :: "unit16 \<Rightarrow> bool" where
  "identity_unit u \<longleftrightarrow> is_alnum u \<or> u = 0x5F \<or> u = 0x2E \<or> u = 0x3A \<or> u = 0x40 \<or> u = 0x2D"

definition executionIdentity :: "json option \<Rightarrow> jstring res" where
  "executionIdentity value =
     bindR (parseJsonValue INVALID_REQUEST value) (\<lambda>v.
     bindR (nonemptyString (Some v) ''execution identity'' INVALID_REQUEST) (\<lambda>id.
     if length id > 128 \<or> \<not> (id \<noteq> [] \<and> is_alnum (hd id) \<and> list_all identity_unit (tl id))
     then bad INVALID_REQUEST (lit ''Invalid execution identity.'') else Inr id))"

definition parseToolExecutionSubmission :: "url_parser \<Rightarrow> json option \<Rightarrow> tool_execution_submission res" where
  "parseToolExecutionSubmission new_URL value =
     bindR (parseJsonValue INVALID_REQUEST value) (\<lambda>v.
     bindR (js_record (Some v) [''destination'', ''execution'', ''submission''] ''execution submission'' INVALID_REQUEST) (\<lambda>r.
     bindR (js_record (field r ''destination'') [''routeKey'', ''sessionId''] ''destination'' INVALID_REQUEST) (\<lambda>d.
     bindR (executionIdentity (field d ''routeKey'')) (\<lambda>routeKey.
     bindR (executionIdentity (field d ''sessionId'')) (\<lambda>sessionId.
     bindR (parseProviderSubmission (field r ''submission'')) (\<lambda>submission.
     if list_ex (\<lambda>id. length id > 2048)
          [routeKey, sessionId, ps_operationId submission, ps_submissionId submission]
     then bad INVALID_REQUEST (lit ''Operation routing identifier is too long.'')
     else bindR (parseToolExecutionContext new_URL (field r ''execution'')) (\<lambda>execution.
     Inr \<lparr>ts_destination = \<lparr>sd_routeKey = routeKey, sd_sessionId = sessionId\<rparr>,
          ts_execution = execution, ts_submission = submission\<rparr>)))))))"

section \<open>Tool arguments\<close>

text \<open>\<open>isAbsoluteMachinePath\<close>: POSIX, drive-rooted or UNC.\<close>

definition drive_rooted :: "jstring \<Rightarrow> bool" where
  "drive_rooted s \<longleftrightarrow> (case s of d # c # sl # _ \<Rightarrow>
     (is_lower d \<or> is_upper d) \<and> c = 0x3A \<and> (sl = 0x5C \<or> sl = 0x2F) | _ \<Rightarrow> False)"

definition unc_rooted :: "jstring \<Rightarrow> bool" where
  "unc_rooted s \<longleftrightarrow> (case s of a # b # rest \<Rightarrow>
     a = 0x5C \<and> b = 0x5C \<and> takeWhile (\<lambda>u. u \<noteq> 0x5C) rest \<noteq> []
     \<and> (case dropWhile (\<lambda>u. u \<noteq> 0x5C) rest of _ # u # _ \<Rightarrow> u \<noteq> 0x5C | _ \<Rightarrow> False) | _ \<Rightarrow> False)"

definition isAbsoluteMachinePath :: "jstring \<Rightarrow> bool" where
  "isAbsoluteMachinePath s \<longleftrightarrow>
     0 \<notin> set s \<and> (startsWith s (lit ''/'') \<or> drive_rooted s \<or> unc_rooted s)"

record bash_tool_input =
  bt_command :: jstring
  bt_timeout :: "number option"

definition PI_BASH_MAX_TIMEOUT_MS :: int where
  "PI_BASH_MAX_TIMEOUT_MS = 2147483647"

text \<open>\<open>timeout > 0\<close> and \<open>timeout * 1000 <= PI_BASH_MAX_TIMEOUT_MS\<close>, decided on the number's decimal
  numeral. The floating-point product agrees: \<open>2147483.647 * 1000\<close> is exact and the next larger
  number already exceeds the bound.\<close>

definition timeout_ok :: "number \<Rightarrow> bool" where
  "timeout_ok x = (case x of
     NInt i \<Rightarrow> 0 < i \<and> i * 1000 \<le> PI_BASH_MAX_TIMEOUT_MS
   | NFrac m k \<Rightarrow> 0 < m \<and> m * 1000 \<le> PI_BASH_MAX_TIMEOUT_MS * 10 ^ k)"

definition TIMEOUT_MESSAGE :: jstring where
  "TIMEOUT_MESSAGE = lit ''timeout must be positive and at most 2147483.647 seconds.''"

definition parseBashToolInput :: "json option \<Rightarrow> bash_tool_input res" where
  "parseBashToolInput value =
     bindR (parseJsonValue INVALID_REQUEST value) (\<lambda>v.
     bindR (js_record (Some v) [''command'', ''timeout''] ''bash arguments'' INVALID_REQUEST) (\<lambda>r.
     case field r ''command'' of
       Some (JStr command) \<Rightarrow>
         if 0 \<in> set command then bad INVALID_REQUEST (lit ''command must be a string without NUL bytes.'')
         else (case field r ''timeout'' of
           None \<Rightarrow> Inr \<lparr>bt_command = command, bt_timeout = None\<rparr>
         | Some (JNum x) \<Rightarrow> if timeout_ok x then Inr \<lparr>bt_command = command, bt_timeout = Some x\<rparr>
             else bad INVALID_REQUEST TIMEOUT_MESSAGE
         | Some _ \<Rightarrow> bad INVALID_REQUEST TIMEOUT_MESSAGE)
     | _ \<Rightarrow> bad INVALID_REQUEST (lit ''command must be a string without NUL bytes.'')))"

record read_tool_input =
  rt_path :: jstring
  rt_offset :: "int option"
  rt_limit :: "int option"

definition PATH_MESSAGE :: jstring where
  "PATH_MESSAGE = lit ''path must contain no NUL bytes and be at most 8192 characters.''"

definition tool_path :: "fields \<Rightarrow> jstring res" where
  "tool_path r = bindR (nonemptyString (field r ''path'') ''path'' INVALID_REQUEST) (\<lambda>path.
     if 0 \<in> set path \<or> length path > 8192 then bad INVALID_REQUEST PATH_MESSAGE else Inr path)"

definition positive_field :: "fields \<Rightarrow> string \<Rightarrow> int option res" where
  "positive_field r key =
     (let refuse = bad INVALID_REQUEST (lit key @ lit '' must be a positive safe integer.'') in
      case field r key of None \<Rightarrow> Inr None
      | Some (JNum x) \<Rightarrow> (case safe_integer x of
            Some i \<Rightarrow> if i < 1 then refuse else Inr (Some i) | None \<Rightarrow> refuse)
      | Some _ \<Rightarrow> refuse)"

definition parseReadToolInput :: "json option \<Rightarrow> read_tool_input res" where
  "parseReadToolInput value =
     bindR (parseJsonValue INVALID_REQUEST value) (\<lambda>v.
     bindR (js_record (Some v) [''path'', ''offset'', ''limit''] ''read arguments'' INVALID_REQUEST) (\<lambda>r.
     bindR (tool_path r) (\<lambda>path.
     bindR (positive_field r ''offset'') (\<lambda>offset.
     bindR (positive_field r ''limit'') (\<lambda>limit.
     Inr \<lparr>rt_path = path, rt_offset = offset, rt_limit = limit\<rparr>)))))"

record write_tool_input =
  wt_path :: jstring
  wt_content :: jstring

definition parseWriteToolInput :: "json option \<Rightarrow> write_tool_input res" where
  "parseWriteToolInput value =
     bindR (parseJsonValue INVALID_REQUEST value) (\<lambda>v.
     bindR (js_record (Some v) [''path'', ''content''] ''write arguments'' INVALID_REQUEST) (\<lambda>r.
     bindR (tool_path r) (\<lambda>path.
     case field r ''content'' of
       Some (JStr content) \<Rightarrow> Inr \<lparr>wt_path = path, wt_content = content\<rparr>
     | _ \<Rightarrow> bad INVALID_REQUEST (lit ''content must be a string.''))))"

record edit_replacement =
  er_oldText :: jstring
  er_newText :: jstring

record edit_tool_input =
  et_path :: jstring
  et_edits :: "edit_replacement list"

definition parse_replacement :: "json \<Rightarrow> edit_replacement res" where
  "parse_replacement value =
     bindR (js_record (Some value) [''oldText'', ''newText''] ''edit replacement'' INVALID_REQUEST) (\<lambda>edit.
     case (field edit ''oldText'', field edit ''newText'') of
       (Some (JStr old), Some (JStr new)) \<Rightarrow>
         if old = [] then bad INVALID_REQUEST (lit ''oldText must be a nonempty string and newText must be a string.'')
         else Inr \<lparr>er_oldText = old, er_newText = new\<rparr>
     | _ \<Rightarrow> bad INVALID_REQUEST (lit ''oldText must be a nonempty string and newText must be a string.''))"

definition parseEditToolInput :: "json option \<Rightarrow> edit_tool_input res" where
  "parseEditToolInput value =
     bindR (parseJsonValue INVALID_REQUEST value) (\<lambda>v.
     bindR (js_record (Some v) [''path'', ''edits''] ''edit arguments'' INVALID_REQUEST) (\<lambda>r.
     bindR (tool_path r) (\<lambda>path.
     case field r ''edits'' of
       Some (JArr xs) \<Rightarrow>
         if xs = [] \<or> length xs > PI_EDIT_MAX_EDITS
         then bad INVALID_REQUEST (lit ''edits must contain between 1 and 256 replacements.'')
         else bindR (mapR parse_replacement xs) (\<lambda>edits. Inr \<lparr>et_path = path, et_edits = edits\<rparr>)
     | _ \<Rightarrow> bad INVALID_REQUEST (lit ''edits must contain between 1 and 256 replacements.''))))"

definition parseApplyPatchToolInput :: "json option \<Rightarrow> jstring res" where
  "parseApplyPatchToolInput value = (case value of Some (JStr s) \<Rightarrow> Inr s
     | _ \<Rightarrow> bad INVALID_REQUEST (lit ''apply_patch input must be raw patch text.''))"

subsection \<open>Arguments placed on a machine\<close>

record placement =
  pl_machineId :: jstring
  pl_cwd :: jstring

definition CWD_MESSAGE :: jstring where
  "CWD_MESSAGE = lit ''cwd must be an absolute machine path of at most 8192 characters.''"

text \<open>What \<open>parseBashInput\<close>, \<open>parseReadInput\<close>, \<open>parseWriteInput\<close>, \<open>parseEditInput\<close> and
  \<open>parseApplyPatchInput\<close> check before the tool's own arguments.\<close>

definition placed_input :: "json option \<Rightarrow> string list \<Rightarrow> string \<Rightarrow> (fields \<Rightarrow> 'a res) \<Rightarrow> (placement \<times> 'a) res" where
  "placed_input value keys path parse =
     bindR (parseJsonValue INVALID_REQUEST value) (\<lambda>v.
     bindR (js_record (Some v) ([''machineId'', ''cwd''] @ keys) path INVALID_REQUEST) (\<lambda>r.
     bindR (nonemptyString (field r ''cwd'') ''cwd'' INVALID_REQUEST) (\<lambda>cwd.
     if \<not> isAbsoluteMachinePath cwd \<or> length cwd > 8192 then bad INVALID_REQUEST CWD_MESSAGE
     else bindR (parseUuid (field r ''machineId'')) (\<lambda>machineId.
     bindR (parse r) (\<lambda>args. Inr (\<lparr>pl_machineId = machineId, pl_cwd = cwd\<rparr>, args))))))"

text \<open>The object rebuilt for the tool's parser: required keys are always present, so an absent one is
  \<open>undefined\<close>; optional keys are copied when present.\<close>

definition rebuilt_with :: "fields \<Rightarrow> string list \<Rightarrow> string list \<Rightarrow> json option" where
  "rebuilt_with r req opt = (if \<forall>k \<in> set req. field r k \<noteq> None
     then Some (JObj (map (\<lambda>k. (lit k, the (field r k)))
       (req @ List.filter (\<lambda>k. field r k \<noteq> None) opt))) else None)"

definition parseBashInput :: "json option \<Rightarrow> (placement \<times> bash_tool_input) res" where
  "parseBashInput value = placed_input value [''command'', ''timeout''] ''bash input''
     (\<lambda>r. parseBashToolInput (rebuilt_with r [''command''] [''timeout'']))"

definition parseReadInput :: "json option \<Rightarrow> (placement \<times> read_tool_input) res" where
  "parseReadInput value = placed_input value [''path'', ''offset'', ''limit''] ''read input''
     (\<lambda>r. parseReadToolInput (rebuilt_with r [''path''] [''offset'', ''limit'']))"

definition parseWriteInput :: "json option \<Rightarrow> (placement \<times> write_tool_input) res" where
  "parseWriteInput value = placed_input value [''path'', ''content''] ''write input''
     (\<lambda>r. parseWriteToolInput (rebuilt_with r [''path'', ''content''] []))"

definition parseEditInput :: "json option \<Rightarrow> (placement \<times> edit_tool_input) res" where
  "parseEditInput value = placed_input value [''path'', ''edits''] ''edit input''
     (\<lambda>r. parseEditToolInput (rebuilt_with r [''path'', ''edits''] []))"

definition parseApplyPatchInput :: "json option \<Rightarrow> (placement \<times> jstring) res" where
  "parseApplyPatchInput value = placed_input value [''patch''] ''apply_patch input''
     (\<lambda>r. parseApplyPatchToolInput (field r ''patch''))"

text \<open>The arguments as the object a harness spreads into an operation input.\<close>

definition opt_field :: "string \<Rightarrow> ('a \<Rightarrow> json) \<Rightarrow> 'a option \<Rightarrow> fields" where
  "opt_field k f x = (case x of None \<Rightarrow> [] | Some a \<Rightarrow> [(lit k, f a)])"

definition bash_fields :: "bash_tool_input \<Rightarrow> fields" where
  "bash_fields b = (lit ''command'', JStr (bt_command b)) # opt_field ''timeout'' JNum (bt_timeout b)"

definition read_fields :: "read_tool_input \<Rightarrow> fields" where
  "read_fields b = (lit ''path'', JStr (rt_path b)) # opt_field ''offset'' (JNum \<circ> NInt) (rt_offset b)
     @ opt_field ''limit'' (JNum \<circ> NInt) (rt_limit b)"

definition write_fields :: "write_tool_input \<Rightarrow> fields" where
  "write_fields b = [(lit ''path'', JStr (wt_path b)), (lit ''content'', JStr (wt_content b))]"

definition edit_fields :: "edit_tool_input \<Rightarrow> fields" where
  "edit_fields b = [(lit ''path'', JStr (et_path b)), (lit ''edits'', JArr (map (\<lambda>e.
     obj [(''oldText'', JStr (er_oldText e)), (''newText'', JStr (er_newText e))]) (et_edits b)))]"

definition place_fields :: "placement \<Rightarrow> fields" where
  "place_fields p = [(lit ''machineId'', JStr (pl_machineId p)), (lit ''cwd'', JStr (pl_cwd p))]"

section \<open>Facts\<close>

lemma contract_only_tools [contract_intros]:
  "contract_only (parseExecutionGatewayUrl u v)" "contract_only (parseExecutionToken v)"
  "contract_only (executionIdentity v)" "contract_only (tool_path r)" "contract_only (positive_field r k)"
  unfolding parseExecutionGatewayUrl_def parseExecutionToken_def executionIdentity_def tool_path_def
    positive_field_def Let_def
  by (intro contract_intros | auto intro!: contract_intros split: option.splits json.splits)+

lemma contract_only_tool_arguments [contract_intros]:
  "contract_only (parseBashToolInput v)" "contract_only (parseReadToolInput v)"
  "contract_only (parseWriteToolInput v)" "contract_only (parse_replacement w)"
  "contract_only (parseApplyPatchToolInput v)"
  unfolding parseBashToolInput_def parseReadToolInput_def parseWriteToolInput_def parse_replacement_def
    parseApplyPatchToolInput_def
  by (intro contract_intros | auto intro!: contract_intros split: option.splits json.splits)+

lemma contract_only_edit [contract_intros]: "contract_only (parseEditToolInput v)"
  unfolding parseEditToolInput_def
  by (intro contract_intros) (auto intro!: contract_intros split: option.splits json.splits)

lemma contract_only_placed [contract_intros]:
  "(\<And>r. contract_only (parse r)) \<Longrightarrow> contract_only (placed_input v ks path parse)"
  unfolding placed_input_def by (intro contract_intros)

lemma contract_only_execution [contract_intros]:
  "contract_only (parseToolExecutionContext u v)" "contract_only (parseToolExecutionSubmission u v)"
  unfolding parseToolExecutionContext_def parseToolExecutionSubmission_def
  by (intro contract_intros | simp add: parseToolExecutionContext_def)+

subsection \<open>Splitting\<close>

text \<open>\<open>split\<close> is undone by joining with the separator, and no part contains it.\<close>

fun join_on :: "unit16 \<Rightarrow> jstring list \<Rightarrow> jstring" where
  "join_on c [] = []"
| "join_on c [p] = p"
| "join_on c (p # q # ps) = p @ c # join_on c (q # ps)"

lemma split_on_neq_Nil [simp]: "split_on c s \<noteq> []"
  by (induction s) (auto split: list.splits)

lemma join_on_Cons: "ps \<noteq> [] \<Longrightarrow> join_on c (p # ps) = p @ c # join_on c ps"
  by (cases ps) auto

lemma join_on_split_on [simp]: "join_on c (split_on c s) = s"
proof (induction s)
  case (Cons u s)
  obtain p ps where p: "split_on c s = p # ps" by (cases "split_on c s") auto
  have "join_on c ((u # p) # ps) = u # join_on c (p # ps)" by (cases ps) auto
  with Cons p show ?case by (simp add: join_on_Cons)
qed simp

lemma split_on_no_sep: "p \<in> set (split_on c s) \<Longrightarrow> c \<notin> set p"
proof (induction s arbitrary: p)
  case (Cons u s)
  obtain q qs where "split_on c s = q # qs" by (cases "split_on c s") auto
  with Cons show ?case by (auto split: if_splits)
qed simp

lemma split_on_append: "c \<notin> set p \<Longrightarrow> split_on c (p @ c # s) = p # split_on c s"
  by (induction p) auto

lemma split_on_single: "c \<notin> set p \<Longrightarrow> split_on c p = [p]"
  by (induction p) auto

lemma split_on_join_on: "ps \<noteq> [] \<Longrightarrow> (\<forall>p \<in> set ps. c \<notin> set p) \<Longrightarrow> split_on c (join_on c ps) = ps"
  by (induction c ps rule: join_on.induct) (auto simp: split_on_append split_on_single)

lemma length_4: "length ps = 4 \<longleftrightarrow> (\<exists>a b c d. ps = [a, b, c, d])"
  by (auto simp: eval_nat_numeral length_Suc_conv)

lemma parse_uuid_Inr [simp]:
  "parseUuid v = Inr s \<longleftrightarrow> v = Some (JStr s) \<and> matches uuid_pattern s"
  by (auto simp: parseUuid_def split: if_splits)

lemma execution_token_Inr:
  "parseExecutionToken (Some v) = Inr t \<longleftrightarrow>
    (\<exists>machine epoch secret. v = JStr t \<and> split_on 0x2E t = [lit ''me1'', machine, epoch, secret]
      \<and> matches uuid_pattern machine \<and> positive_decimal epoch
      \<and> int (digits_value epoch) \<le> MAX_SAFE_INTEGER
      \<and> length secret = 43 \<and> list_all base64url secret)" (is "?l \<longleftrightarrow> ?r")
proof
  assume ?l
  then obtain parts where v: "v = JStr t" and parts: "split_on 0x2E t = parts" "length parts = 4"
    and rest: "parts ! 0 = lit ''me1''" "positive_decimal (parts ! 2)"
      "int (digits_value (parts ! 2)) \<le> MAX_SAFE_INTEGER" "length (parts ! 3) = 43"
      "list_all base64url (parts ! 3)" "matches uuid_pattern (parts ! 1)"
    by (auto simp: parseExecutionToken_def Let_def split: if_splits)
  from parts(2) obtain a b c d where "parts = [a, b, c, d]" by (auto simp: length_4)
  with v parts rest show ?r by auto
next
  assume ?r
  then obtain machine epoch secret where v: "v = JStr t"
    and s: "split_on 0x2E t = [lit ''me1'', machine, epoch, secret]"
    and ok: "matches uuid_pattern machine" "positive_decimal epoch"
      "int (digits_value epoch) \<le> MAX_SAFE_INTEGER" "length secret = 43" "list_all base64url secret"
    by blast
  have "\<not> list_all js_space t"
  proof
    assume "list_all js_space t"
    moreover have "t = join_on 0x2E [lit ''me1'', machine, epoch, secret]"
      using s by (metis join_on_split_on)
    ultimately show False by (simp add: lit_def js_space_def)
  qed
  with v s ok show ?l by (simp add: parseExecutionToken_def Let_def not_less)
qed

subsection \<open>What a harness plans is what a worker accepts\<close>

lemma bash_tool_input_Inr:
  assumes "parseBashToolInput v = Inr a"
  shows "0 \<notin> set (bt_command a) \<and> (\<forall>x. bt_timeout a = Some x \<longrightarrow> timeout_ok x)"
proof -
  define args where "args r = (case field r ''command'' of
       Some (JStr command) \<Rightarrow>
         if 0 \<in> set command then bad INVALID_REQUEST (lit ''command must be a string without NUL bytes.'')
         else (case field r ''timeout'' of
           None \<Rightarrow> Inr \<lparr>bt_command = command, bt_timeout = None\<rparr>
         | Some (JNum x) \<Rightarrow> if timeout_ok x then Inr \<lparr>bt_command = command, bt_timeout = Some x\<rparr>
             else bad INVALID_REQUEST TIMEOUT_MESSAGE
         | Some _ \<Rightarrow> bad INVALID_REQUEST TIMEOUT_MESSAGE)
     | _ \<Rightarrow> bad INVALID_REQUEST (lit ''command must be a string without NUL bytes.''))" for r
  obtain r where "args r = Inr a"
    using assms unfolding parseBashToolInput_def bindR_eq_Inr args_def by blast
  then show ?thesis
    unfolding args_def by (simp split: option.splits json.splits if_splits) auto
qed

definition placement_ok :: "placement \<Rightarrow> bool" where
  "placement_ok p \<longleftrightarrow> matches uuid_pattern (pl_machineId p) \<and> trim (pl_cwd p) \<noteq> []
     \<and> isAbsoluteMachinePath (pl_cwd p) \<and> length (pl_cwd p) \<le> 8192"

lemma placed_fields:
  assumes "placement_ok p" and "set (map fst r) \<subseteq> set (map lit ks)"
    and "''machineId'' \<notin> set ks" and "''cwd'' \<notin> set ks"
    and "parse (r @ place_fields p) = Inr a"
  shows "placed_input (Some (JObj (r @ place_fields p))) ks path parse = Inr (p, a)"
proof -
  have none: "map_of r (lit k) = None" if "k \<notin> set ks" for k
    using assms(2) that by (auto simp: map_of_eq_None_iff)
  have f: "field (r @ place_fields p) ''machineId'' = Some (JStr (pl_machineId p))"
    "field (r @ place_fields p) ''cwd'' = Some (JStr (pl_cwd p))"
    using none assms(3,4) by (simp_all add: field_def place_fields_def map_add_def split: option.splits)
  have "js_record (Some (JObj (r @ place_fields p))) ([''machineId'', ''cwd''] @ ks) path INVALID_REQUEST
      = Inr (r @ place_fields p)"
    using assms(2) by (intro js_record_JObj) (auto simp: place_fields_def)
  with f assms(1,5) show ?thesis
    by (simp add: placed_input_def placement_ok_def parseUuid_def)
qed

lemma bash_fields_accepted:
  assumes "parseBashToolInput v = Inr a" and "placement_ok p"
  shows "parseBashInput (Some (JObj (bash_fields a @ place_fields p))) = Inr (p, a)"
  unfolding parseBashInput_def
  using bash_tool_input_Inr [OF assms(1)] assms(2)
  by (intro placed_fields; cases a; cases "bt_timeout a")
    (auto simp: bash_fields_def opt_field_def place_fields_def rebuilt_with_def parseBashToolInput_def
      js_record_JObj split: option.splits)

section \<open>Properties\<close>

text \<open>The machine execution secrets the parser accepts are exactly the strings
  \<open>me1.<machine uuid>.<epoch>.<43 base64url characters>\<close> with a positive safe-integer epoch, so the
  second part the harness configurations compare with \<open>machineId\<close> is the machine's UUID.\<close>

theorem execution_token_language:
  "parseExecutionToken (Some v) = Inr t \<longleftrightarrow>
    (\<exists>machine epoch secret. v = JStr t
      \<and> split_on 0x2E t = [lit ''me1'', machine, epoch, secret]
      \<and> matches uuid_pattern machine \<and> positive_decimal epoch
      \<and> int (digits_value epoch) \<le> MAX_SAFE_INTEGER
      \<and> length secret = 43 \<and> list_all base64url secret)"
  by (rule execution_token_Inr)

text \<open>The bash arguments a harness validated, spread together with its machine and working
  directory, are accepted by the bash worker's own input parser and read back unchanged.\<close>

theorem planned_bash_accepted:
  assumes "parseBashToolInput v = Inr a" and "placement_ok p"
  shows "parseBashInput (Some (JObj (bash_fields a @ place_fields p))) = Inr (p, a)"
  using assms by (rule bash_fields_accepted)

theorem planned_bash_accepted_witness:
  "parseBashInput (Some (JObj (bash_fields \<lparr>bt_command = lit ''ls'', bt_timeout = Some (NFrac 5 1)\<rparr>
       @ place_fields \<lparr>pl_machineId = lit ''0a0a0a0a-0b0b-4c0c-8d0d-0e0e0e0e0e0e'', pl_cwd = lit ''/w''\<rparr>)))
   = Inr (\<lparr>pl_machineId = lit ''0a0a0a0a-0b0b-4c0c-8d0d-0e0e0e0e0e0e'', pl_cwd = lit ''/w''\<rparr>,
       \<lparr>bt_command = lit ''ls'', bt_timeout = Some (NFrac 5 1)\<rparr>)"
proof (rule planned_bash_accepted)
  show "parseBashToolInput (Some (obj [(''command'', str ''ls''), (''timeout'', JNum (NFrac 5 1))]))
      = Inr \<lparr>bt_command = lit ''ls'', bt_timeout = Some (NFrac 5 1)\<rparr>"
    by code_simp
  show "placement_ok \<lparr>pl_machineId = lit ''0a0a0a0a-0b0b-4c0c-8d0d-0e0e0e0e0e0e'', pl_cwd = lit ''/w''\<rparr>"
    by code_simp
qed

end
