(* ===== verification/Storage.thy ===== *)
theory Storage
  imports Contracts
begin

text \<open>
  The runtime's SQLite tables and their access functions: \<open>packages/session-runtime/src/storage\<close>.
  \<^item> A table is the list of its rows in insertion order; \<open>ORDER BY\<close> is \<open>sort_key\<close>. The schema's
    constraints are tests an insertion can fail, and the constraint that ties \<open>consumed_at\<close> to
    \<open>event_json\<close> is the sum type \<open>inbox_content\<close>: a row either holds its event or the time it
    was consumed. JSON columns hold the JSON value.
  \<^item> \<open>inbox_ok\<close> is the table's invariant: unique keys, constraints, and every consumed row older than
    every waiting one.
  \<^item> The locale \<open>event_queue\<close> is the contract the runtime relies on: a first-in-first-out queue of
    waiting events beside a permanent log of admitted ones. It is interpreted on the table.
\<close>

section \<open>Tables\<close>

definition MAX_INLINE_ROW_BYTES :: nat where
  "MAX_INLINE_ROW_BYTES = 1950000"

datatype inbox_content = Waiting event_body | ConsumedAt int

record inbox_row =
  ib_sequence :: int
  ib_event_id :: jstring
  ib_received_at :: int
  ib_event_hash :: jstring
  ib_content :: inbox_content
  ib_retry_at :: "int option"
  ib_retry_count :: int
  ib_last_error :: "jstring option"
  ib_blocked :: bool

record pending_operation =
  po_operationId :: jstring
  po_sourceInputSequence :: int
  po_key :: jstring
  po_provider :: jstring
  po_jobId :: jstring

record 'h store =
  st_session :: "session_info option"
  st_inbox :: "inbox_row list"
  st_pending :: "pending_operation list"
  st_harness :: 'h

record input_record =
  rec_eventId :: jstring
  rec_sequence :: int
  rec_receivedAt :: int
  rec_hash :: jstring
  rec_consumed :: bool

record processing_status =
  ps_pendingEventId :: "jstring option"
  ps_failures :: int
  ps_retryAt :: "int option"
  ps_blocked :: bool
  ps_lastError :: "jstring option"

section \<open>inbox.ts\<close>

definition waiting :: "inbox_row \<Rightarrow> bool" where
  "waiting r \<longleftrightarrow> (case ib_content r of Waiting e \<Rightarrow> True | ConsumedAt t \<Rightarrow> False)"

text \<open>\<open>WHERE consumed_at IS NULL ORDER BY sequence\<close>.\<close>

definition waiting_rows :: "inbox_row list \<Rightarrow> inbox_row list" where
  "waiting_rows rows = sort_key ib_sequence (List.filter waiting rows)"

definition head_row :: "inbox_row list \<Rightarrow> inbox_row option" where
  "head_row rows = (case waiting_rows rows of [] \<Rightarrow> None | r # _ \<Rightarrow> Some r)"

definition row_record :: "inbox_row \<Rightarrow> input_record" where
  "row_record r = \<lparr>rec_eventId = ib_event_id r, rec_sequence = ib_sequence r,
     rec_receivedAt = ib_received_at r, rec_hash = ib_event_hash r, rec_consumed = (\<not> waiting r)\<rparr>"

definition findInput :: "inbox_row list \<Rightarrow> jstring \<Rightarrow> input_record option" where
  "findInput rows eventId = map_option row_record (find (\<lambda>r. ib_event_id r = eventId) rows)"

definition envelope :: "inbox_row \<Rightarrow> event_body \<Rightarrow> input_envelope" where
  "envelope r e = \<lparr>en_eventId = ib_event_id r, en_sequence = ib_sequence r,
     en_receivedAt = ib_received_at r, en_event = e\<rparr>"

definition row_envelope :: "inbox_row \<Rightarrow> input_envelope option" where
  "row_envelope r = (case ib_content r of Waiting e \<Rightarrow> Some (envelope r e) | ConsumedAt t \<Rightarrow> None)"

definition nextInput :: "inbox_row list \<Rightarrow> input_envelope option" where
  "nextInput rows = Option.bind (head_row rows) row_envelope"

definition max_sequence :: "inbox_row list \<Rightarrow> int" where
  "max_sequence rows = (case rows of [] \<Rightarrow> 0 | r # rs \<Rightarrow> foldr (max \<circ> ib_sequence) rs (ib_sequence r))"

definition allocateSequence :: "inbox_row list \<Rightarrow> int res" where
  "allocateSequence rows = (let sequence = max_sequence rows + 1 in
     if sequence > MAX_SAFE_INTEGER \<or> sequence < 1
     then Inl (JsError (lit ''input sequence exhausted or invalid.'')) else Inr sequence)"

text \<open>A violated table constraint is an error of the storage.\<close>

definition constraint :: "bool \<Rightarrow> unit res" where
  "constraint b = guardR b (JsError (lit ''SQLITE_CONSTRAINT''))"

definition insertInput :: "inbox_row list \<Rightarrow> input_envelope \<Rightarrow> jstring \<Rightarrow> inbox_row list res" where
  "insertInput rows input hash =
     (if json_bytes (event_json (en_event input)) + utf8Bytes (en_eventId input) + length hash
         > MAX_INLINE_ROW_BYTES
      then bad INVALID_INPUT (lit ''Input exceeds the inline SQLite row limit.'')
      else bindR (constraint (1 \<le> en_sequence input \<and> en_sequence input \<le> MAX_SAFE_INTEGER
          \<and> en_sequence input \<notin> ib_sequence ` set rows \<and> en_eventId input \<notin> ib_event_id ` set rows
          \<and> 0 \<le> en_receivedAt input \<and> length hash = 64)) (\<lambda>_.
        Inr (rows @ [\<lparr>ib_sequence = en_sequence input, ib_event_id = en_eventId input,
          ib_received_at = en_receivedAt input, ib_event_hash = hash, ib_content = Waiting (en_event input),
          ib_retry_at = None, ib_retry_count = 0, ib_last_error = None, ib_blocked = False\<rparr>])))"

text \<open>\<open>UPDATE runtime_inbox SET ... WHERE event_id = ? AND consumed_at IS NULL\<close>.\<close>

definition update_waiting :: "(inbox_row \<Rightarrow> inbox_row) \<Rightarrow> jstring \<Rightarrow> inbox_row list \<Rightarrow> inbox_row list" where
  "update_waiting f eventId rows =
     map (\<lambda>r. if ib_event_id r = eventId \<and> waiting r then f r else r) rows"

definition consumed_row :: "int \<Rightarrow> inbox_row \<Rightarrow> inbox_row" where
  "consumed_row at r = r\<lparr>ib_content := ConsumedAt at, ib_retry_at := None, ib_retry_count := 0,
     ib_last_error := None, ib_blocked := False\<rparr>"

definition consumeInput :: "inbox_row list \<Rightarrow> input_envelope \<Rightarrow> int \<Rightarrow> inbox_row list" where
  "consumeInput rows input consumedAt = update_waiting (consumed_row consumedAt) (en_eventId input) rows"

section \<open>progress.ts\<close>

definition processingStatus :: "inbox_row list \<Rightarrow> processing_status" where
  "processingStatus rows = (case head_row rows of
     Some r \<Rightarrow> \<lparr>ps_pendingEventId = Some (ib_event_id r), ps_failures = ib_retry_count r,
       ps_retryAt = ib_retry_at r, ps_blocked = ib_blocked r, ps_lastError = ib_last_error r\<rparr>
   | None \<Rightarrow> \<lparr>ps_pendingEventId = None, ps_failures = 0, ps_retryAt = None, ps_blocked = False,
       ps_lastError = None\<rparr>)"

definition resetProcessing :: "inbox_row list \<Rightarrow> inbox_row list" where
  "resetProcessing rows = (case head_row rows of None \<Rightarrow> rows
     | Some h \<Rightarrow> map (\<lambda>r. if ib_event_id r = ib_event_id h \<and> (ib_retry_count r \<noteq> 0 \<or> ib_blocked r)
         then r\<lparr>ib_retry_at := None, ib_retry_count := 0, ib_blocked := False, ib_last_error := None\<rparr>
         else r) rows)"

definition failed_row :: "int \<Rightarrow> bool \<Rightarrow> jstring \<Rightarrow> inbox_row \<Rightarrow> inbox_row" where
  "failed_row due blocked message r = r\<lparr>ib_retry_count := ib_retry_count r + 1,
     ib_retry_at := (if blocked then None else Some due), ib_blocked := blocked,
     ib_last_error := Some message\<rparr>"

definition failProcessing ::
  "inbox_row list \<Rightarrow> processing_status \<Rightarrow> int \<Rightarrow> bool \<Rightarrow> jstring \<Rightarrow> inbox_row list" where
  "failProcessing rows status due blocked message = (case ps_pendingEventId status of
     None \<Rightarrow> rows
   | Some eventId \<Rightarrow> update_waiting (failed_row due blocked message) eventId rows)"

section \<open>operations.ts and session.ts\<close>

definition po_find :: "pending_operation list \<Rightarrow> jstring \<Rightarrow> pending_operation option" where
  "po_find ps oid = find (\<lambda>p. po_operationId p = oid) ps"

text \<open>SQLite compares text by its UTF-8 bytes, which is the order of code points.\<close>

fun code_points :: "jstring \<Rightarrow> nat list" where
  "code_points [] = []"
| "code_points [u] = [unat u]"
| "code_points (u # v # s) = (if high_surrogate u \<and> low_surrogate v
     then (0x10000 + (unat u - 0xD800) * 0x400 + (unat v - 0xDC00)) # code_points s
     else unat u # code_points (v # s))"

definition po_list :: "pending_operation list \<Rightarrow> pending_operation list" where
  "po_list ps = sort_key po_sourceInputSequence (sort_key (code_points \<circ> po_key) ps)"

definition po_insert :: "inbox_row list \<Rightarrow> pending_operation list \<Rightarrow> pending_operation \<Rightarrow> pending_operation list res" where
  "po_insert rows ps p =
     bindR (constraint (po_operationId p \<notin> po_operationId ` set ps
       \<and> po_sourceInputSequence p \<in> ib_sequence ` set rows)) (\<lambda>_. Inr (ps @ [p]))"

definition po_delete :: "pending_operation list \<Rightarrow> jstring \<Rightarrow> pending_operation list" where
  "po_delete ps oid = List.filter (\<lambda>p. po_operationId p \<noteq> oid) ps"

definition findSession :: "'h store \<Rightarrow> session_info option" where
  "findSession st = st_session st"

definition insertSession :: "'h store \<Rightarrow> session_info \<Rightarrow> 'h store res" where
  "insertSession st info =
     bindR (constraint (st_session st = None \<and> 0 \<le> sn_createdAt info)) (\<lambda>_.
     Inr (st\<lparr>st_session := Some info\<rparr>))"

section \<open>The table's invariant\<close>

definition row_ok :: "inbox_row \<Rightarrow> bool" where
  "row_ok r \<longleftrightarrow> 1 \<le> ib_sequence r \<and> ib_sequence r \<le> MAX_SAFE_INTEGER \<and> 0 \<le> ib_received_at r
     \<and> length (ib_event_hash r) = 64"

definition inbox_ok :: "inbox_row list \<Rightarrow> bool" where
  "inbox_ok rows \<longleftrightarrow> list_all row_ok rows \<and> sorted_wrt (<) (map ib_sequence rows)
     \<and> distinct (map ib_event_id rows)
     \<and> (\<exists>done todo. rows = done @ todo \<and> list_all (Not \<circ> waiting) done \<and> list_all waiting todo)"

lemma waiting_rows_eq:
  assumes "sorted_wrt (<) (map ib_sequence rows)"
  shows "waiting_rows rows = List.filter waiting rows"
proof -
  have "sorted (map ib_sequence (List.filter waiting rows))"
    using assms by (induction rows) (auto simp: less_imp_le)
  then show ?thesis by (simp add: waiting_rows_def sorted_sort_id sort_key_id_if_sorted)
qed

definition queue :: "inbox_row list \<Rightarrow> input_envelope list" where
  "queue rows = List.map_filter row_envelope (waiting_rows rows)"

lemma waiting_iff_envelope: "waiting r \<longleftrightarrow> (\<exists>e. row_envelope r = Some e)"
  by (simp add: waiting_def row_envelope_def split: inbox_content.splits)

lemma inbox_okD:
  assumes "inbox_ok rows"
  obtains don todo where "rows = don @ todo" "list_all (Not \<circ> waiting) don" "list_all waiting todo"
    "waiting_rows rows = todo"
proof -
  from assms obtain don todo where r: "rows = don @ todo" "list_all (Not \<circ> waiting) don" "list_all waiting todo"
    by (auto simp: inbox_ok_def)
  have "waiting_rows rows = List.filter waiting rows"
    using assms by (intro waiting_rows_eq) (simp add: inbox_ok_def)
  also have "\<dots> = todo" using r by (simp add: list_all_iff filter_id_conv filter_empty_conv)
  finally show thesis using r that by blast
qed

lemma filter_waiting_queue:
  "sorted_wrt (<) (map ib_sequence rows) \<Longrightarrow> queue rows = List.map_filter row_envelope rows"
proof -
  have "List.map_filter row_envelope (List.filter waiting xs) = List.map_filter row_envelope xs" for xs
    by (induction xs)
      (auto simp: List.map_filter_simps waiting_iff_envelope)
  then show "sorted_wrt (<) (map ib_sequence rows) \<Longrightarrow> ?thesis"
    by (simp add: queue_def waiting_rows_eq)
qed

lemma inbox_ok_sorted: "inbox_ok rows \<Longrightarrow> sorted_wrt (<) (map ib_sequence rows)"
  by (simp add: inbox_ok_def)

lemma head_row_waiting: "head_row rows = Some r \<Longrightarrow> waiting r \<and> r \<in> set rows"
proof -
  assume "head_row rows = Some r"
  then have "r \<in> set (waiting_rows rows)" by (auto simp: head_row_def split: list.splits)
  then show ?thesis by (simp add: waiting_rows_def)
qed

lemma nextInput_queue: "nextInput rows = (case queue rows of [] \<Rightarrow> None | e # _ \<Rightarrow> Some e)"
proof (cases "waiting_rows rows")
  case (Cons r rs)
  then have "waiting r" using head_row_waiting [of rows r] by (simp add: head_row_def)
  then obtain e where "row_envelope r = Some e" by (auto simp: waiting_iff_envelope)
  with Cons show ?thesis
    by (simp add: nextInput_def head_row_def queue_def List.map_filter_simps)
qed (simp add: nextInput_def head_row_def queue_def List.map_filter_simps)

lemma findInput_None: "findInput rows i = None \<longleftrightarrow> i \<notin> ib_event_id ` set rows"
  by (auto simp: findInput_def find_None_iff)

lemma findInput_Some: "distinct (map ib_event_id rows) \<Longrightarrow>
    findInput rows i = Some d \<longleftrightarrow> (\<exists>r \<in> set rows. ib_event_id r = i \<and> row_record r = d)"
proof (induction rows)
  case (Cons a rows)
  have "ib_event_id r \<noteq> ib_event_id a" if "r \<in> set rows" for r
    using Cons.prems that by (auto simp: image_iff)
  with Cons show ?case by (cases "ib_event_id a = i") (auto simp: findInput_def)
qed (simp add: findInput_def)

lemma findInput_append:
  "findInput (rows @ [r]) i = (case findInput rows i of Some d \<Rightarrow> Some d
     | None \<Rightarrow> if ib_event_id r = i then Some (row_record r) else None)"
  by (induction rows) (auto simp: findInput_def)

lemma max_sequence_upper: "r \<in> set rows \<Longrightarrow> ib_sequence r \<le> max_sequence rows"
proof -
  have "ib_sequence r \<le> foldr (max \<circ> ib_sequence) rs b" if "r \<in> set rs" for rs b
    using that by (induction rs) (auto simp: le_max_iff_disj)
  moreover have "b \<le> foldr (max \<circ> ib_sequence) rs b" for rs b
    by (induction rs) (auto simp: le_max_iff_disj)
  ultimately show "r \<in> set rows \<Longrightarrow> ?thesis"
    by (auto simp: max_sequence_def split: list.splits)
qed

lemma allocateSequence_above:
  "allocateSequence rows = Inr n \<Longrightarrow> r \<in> set rows \<Longrightarrow> ib_sequence r < n"
  using max_sequence_upper [of r rows] by (auto simp: allocateSequence_def Let_def split: if_splits)

text \<open>The row an admission adds.\<close>

definition new_row :: "input_envelope \<Rightarrow> jstring \<Rightarrow> inbox_row" where
  "new_row input hash = \<lparr>ib_sequence = en_sequence input, ib_event_id = en_eventId input,
     ib_received_at = en_receivedAt input, ib_event_hash = hash, ib_content = Waiting (en_event input),
     ib_retry_at = None, ib_retry_count = 0, ib_last_error = None, ib_blocked = False\<rparr>"

lemma insertInput_Inr: "insertInput rows input hash = Inr rows' \<longleftrightarrow>
    rows' = rows @ [new_row input hash]
    \<and> json_bytes (event_json (en_event input)) + utf8Bytes (en_eventId input) + length hash \<le> MAX_INLINE_ROW_BYTES
    \<and> en_sequence input \<notin> ib_sequence ` set rows \<and> en_eventId input \<notin> ib_event_id ` set rows
    \<and> row_ok (new_row input hash)"
  by (auto simp: insertInput_def constraint_def new_row_def row_ok_def)

lemma new_row_simps [simp]:
  "waiting (new_row e h)" "ib_event_id (new_row e h) = en_eventId e" "ib_sequence (new_row e h) = en_sequence e"
  "row_envelope (new_row e h) = Some e" "ib_event_hash (new_row e h) = h" "ib_received_at (new_row e h) = en_receivedAt e"
  "ib_content (new_row e h) = Waiting (en_event e)"
  by (simp_all add: new_row_def row_envelope_def envelope_def waiting_def)

lemma inbox_ok_snoc:
  assumes ok: "inbox_ok rows" and fresh: "\<And>r. r \<in> set rows \<Longrightarrow> ib_sequence r < en_sequence e"
    and new: "en_eventId e \<notin> ib_event_id ` set rows" "row_ok (new_row e h)"
  shows "inbox_ok (rows @ [new_row e h])"
proof -
  obtain don todo where "rows = don @ todo" "list_all (Not \<circ> waiting) don" "list_all waiting todo"
    using ok by (auto simp: inbox_ok_def)
  then have "\<exists>don todo. rows @ [new_row e h] = don @ todo \<and> list_all (Not \<circ> waiting) don \<and> list_all waiting todo"
    by (intro exI [of _ don] exI [of _ "todo @ [new_row e h]"]) (simp)
  with ok fresh new show ?thesis
    by (auto simp: inbox_ok_def sorted_wrt_append)
qed

text \<open>Updates of a waiting row that keep its identity.\<close>

definition same_key :: "inbox_row \<Rightarrow> inbox_row \<Rightarrow> bool" where
  "same_key r r' \<longleftrightarrow> ib_sequence r' = ib_sequence r \<and> ib_event_id r' = ib_event_id r
     \<and> ib_received_at r' = ib_received_at r \<and> ib_event_hash r' = ib_event_hash r"

lemma consumed_row_simps [simp]: "same_key r (consumed_row t r)" "\<not> waiting (consumed_row t r)"
  by (simp_all add: same_key_def consumed_row_def waiting_def)

definition same_content :: "inbox_row \<Rightarrow> inbox_row \<Rightarrow> bool" where
  "same_content r r' \<longleftrightarrow> same_key r r' \<and> ib_content r' = ib_content r"

lemma same_content_maps:
  assumes "list_all2 same_content rows rows'"
  shows "map ib_sequence rows' = map ib_sequence rows" "map ib_event_id rows' = map ib_event_id rows"
    "map waiting rows' = map waiting rows" "map row_ok rows' = map row_ok rows"
    "map row_envelope rows' = map row_envelope rows" "findInput rows' = findInput rows"
  using assms
  by (induction rows rows' rule: list_all2_induct)
    (auto simp: same_content_def same_key_def row_ok_def row_envelope_def envelope_def row_record_def
      waiting_def findInput_def fun_eq_iff split: inbox_content.splits)

lemma prefix_split_iff:
  "(\<exists>don todo. xs = don @ todo \<and> list_all (Not \<circ> P) don \<and> list_all P todo)
    \<longleftrightarrow> (\<exists>n. list_all Not (take n (map P xs)) \<and> list_all id (drop n (map P xs)))" (is "?l \<longleftrightarrow> ?r")
proof
  assume ?l
  then obtain don todo where "xs = don @ todo" "list_all (Not \<circ> P) don" "list_all P todo" by blast
  then show ?r by (intro exI [of _ "length don"]) (simp add: list_all_iff)
next
  assume ?r
  then obtain n where "list_all Not (take n (map P xs))" "list_all id (drop n (map P xs))" by blast
  then show ?l
    by (intro exI [of _ "take n xs"] exI [of _ "drop n xs"]) (simp add: take_map drop_map list_all_iff)
qed

lemma map_filter_map: "List.map_filter f xs = List.map_filter id (map f xs)"
  by (simp add: List.map_filter_def o_def filter_map)

lemma max_sequence_map: "max_sequence rows = (case map ib_sequence rows of [] \<Rightarrow> 0 | n # ns \<Rightarrow> foldr max ns n)"
  by (cases rows) (simp_all add: max_sequence_def foldr_map)

lemma same_content_rows:
  assumes same: "list_all2 same_content rows rows'"
  shows "inbox_ok rows' = inbox_ok rows" "inbox_ok rows \<Longrightarrow> queue rows' = queue rows"
    "max_sequence rows' = max_sequence rows" "ib_sequence ` set rows' = ib_sequence ` set rows"
proof -
  note maps = same_content_maps [OF same]
  have all: "list_all row_ok xs \<longleftrightarrow> list_all id (map row_ok xs)" for xs by (simp add: list_all_iff)
  show ok: "inbox_ok rows' = inbox_ok rows"
    unfolding inbox_ok_def prefix_split_iff all maps ..
  show "queue rows' = queue rows" if "inbox_ok rows"
    using that ok filter_waiting_queue [OF inbox_ok_sorted] maps(5)
    by (simp add: map_filter_map [of row_envelope])
  show "max_sequence rows' = max_sequence rows" by (simp add: max_sequence_map maps)
  show "ib_sequence ` set rows' = ib_sequence ` set rows" using maps(1) by (metis set_map)
qed

lemma update_same_content:
  "(\<And>r. same_content r (f r)) \<Longrightarrow> list_all2 same_content rows (update_waiting f i rows)"
  by (auto simp: update_waiting_def list_all2_conv_all_nth same_content_def same_key_def)

lemma failProcessing_same: "list_all2 same_content rows (failProcessing rows st due b m)"
proof -
  have "same_content r (failed_row due b m r)" for r
    by (simp add: same_content_def same_key_def failed_row_def)
  moreover have "list_all2 same_content rows rows"
    by (simp add: list_all2_conv_all_nth same_content_def same_key_def)
  ultimately show ?thesis
    by (auto simp: failProcessing_def intro: update_same_content split: option.splits)
qed

lemma resetProcessing_same: "list_all2 same_content rows (resetProcessing rows)"
  by (auto simp: resetProcessing_def list_all2_conv_all_nth same_content_def same_key_def split: option.splits)

text \<open>Consuming the head moves it from the waiting part to the consumed part.\<close>

lemma consumeInput_head:
  assumes ok: "inbox_ok rows" and nxt: "nextInput rows = Some e"
  obtains don r todo where "rows = don @ r # todo" "list_all (Not \<circ> waiting) don" "list_all waiting (r # todo)"
    "row_envelope r = Some e" "consumeInput rows e t = don @ consumed_row t r # todo"
proof -
  obtain don todo where rows: "rows = don @ todo" "list_all (Not \<circ> waiting) don" "list_all waiting todo"
    "waiting_rows rows = todo" using ok by (rule inbox_okD)
  then obtain r todo' where todo: "todo = r # todo'" "row_envelope r = Some e"
    using nxt by (cases todo) (auto simp: nextInput_def head_row_def)
  have id: "en_eventId e = ib_event_id r"
    using todo(2) by (auto simp: row_envelope_def envelope_def split: inbox_content.splits)
  have "update_waiting (consumed_row t) (ib_event_id r) don = don"
    using rows(2) by (simp add: update_waiting_def map_idI list_all_iff)
  moreover have "update_waiting (consumed_row t) (ib_event_id r) todo' = todo'"
  proof -
    have "ib_event_id r' \<noteq> ib_event_id r" if "r' \<in> set todo'" for r'
    proof -
      have "distinct (map ib_event_id (don @ r # todo'))"
        using ok unfolding inbox_ok_def rows(1) todo(1) by blast
      with that show ?thesis by (metis distinct.simps(2) distinct_append image_eqI list.simps(9) map_append set_map)
    qed
    then show ?thesis by (simp add: update_waiting_def map_idI)
  qed
  ultimately have "consumeInput rows e t = don @ consumed_row t r # todo'"
    using rows todo id by (simp add: consumeInput_def update_waiting_def)
  with rows todo that show thesis by blast
qed

lemma findInput_replace:
  "same_key r r' \<Longrightarrow> distinct (map ib_event_id (xs @ r # ys)) \<Longrightarrow>
    findInput (xs @ r' # ys) = (findInput (xs @ r # ys))(ib_event_id r \<mapsto> row_record r')"
  by (induction xs) (auto simp: findInput_def fun_eq_iff same_key_def split: if_splits)

section \<open>The queue contract\<close>

text \<open>What the runtime relies on. \<open>pending\<close> is the abstract queue and \<open>recorded\<close> the permanent log of
  admitted events.\<close>

definition fresh_record :: "input_envelope \<Rightarrow> jstring \<Rightarrow> input_record" where
  "fresh_record e h = \<lparr>rec_eventId = en_eventId e, rec_sequence = en_sequence e,
     rec_receivedAt = en_receivedAt e, rec_hash = h, rec_consumed = False\<rparr>"

locale event_queue =
  fixes wf :: "'s \<Rightarrow> bool"
    and pending :: "'s \<Rightarrow> input_envelope list"
    and recorded :: "'s \<Rightarrow> jstring \<Rightarrow> input_record option"
    and next_input :: "'s \<Rightarrow> input_envelope option"
    and allocate :: "'s \<Rightarrow> int res"
    and admit :: "'s \<Rightarrow> input_envelope \<Rightarrow> jstring \<Rightarrow> 's res"
    and consume :: "'s \<Rightarrow> input_envelope \<Rightarrow> int \<Rightarrow> 's"
  assumes next_head: "next_input s = (case pending s of [] \<Rightarrow> None | e # _ \<Rightarrow> Some e)"
    and allocate_above: "wf s \<Longrightarrow> allocate s = Inr n \<Longrightarrow> recorded s i = Some d \<Longrightarrow> rec_sequence d < n"
    and admit_new: "wf s \<Longrightarrow> allocate s = Inr (en_sequence e) \<Longrightarrow> admit s e h = Inr t \<Longrightarrow>
      wf t \<and> pending t = pending s @ [e] \<and> recorded s (en_eventId e) = None
      \<and> recorded t = (recorded s)(en_eventId e \<mapsto> fresh_record e h)"
    and consume_head: "wf s \<Longrightarrow> next_input s = Some e \<Longrightarrow>
      wf (consume s e at) \<and> pending (consume s e at) = tl (pending s)
      \<and> (\<exists>d. recorded s (en_eventId e) = Some d \<and> \<not> rec_consumed d \<and> rec_sequence d = en_sequence e
          \<and> recorded (consume s e at) = (recorded s)(en_eventId e \<mapsto> d\<lparr>rec_consumed := True\<rparr>))"
begin

text \<open>An admission never overtakes: the event being processed stays the next one.\<close>

lemma admit_keeps_next:
  "wf s \<Longrightarrow> allocate s = Inr (en_sequence e) \<Longrightarrow> admit s e h = Inr t \<Longrightarrow> next_input s = Some x \<Longrightarrow>
    next_input t = Some x"
  by (auto simp: next_head dest: admit_new split: list.splits)

lemma admit_keeps_record:
  "wf s \<Longrightarrow> allocate s = Inr (en_sequence e) \<Longrightarrow> admit s e h = Inr t \<Longrightarrow> recorded s i = Some d \<Longrightarrow>
    recorded t i = Some d"
  using admit_new by fastforce

lemma admit_records:
  "wf s \<Longrightarrow> allocate s = Inr (en_sequence e) \<Longrightarrow> admit s e h = Inr t \<Longrightarrow>
    recorded t (en_eventId e) = Some (fresh_record e h)"
  using admit_new by fastforce

lemma admit_wf:
  "wf s \<Longrightarrow> allocate s = Inr (en_sequence e) \<Longrightarrow> admit s e h = Inr t \<Longrightarrow> wf t"
  using admit_new by blast

text \<open>A consumed event keeps its record, apart from the mark that it was consumed.\<close>

lemma consume_keeps_record:
  "wf s \<Longrightarrow> next_input s = Some e \<Longrightarrow> recorded s i = Some d \<Longrightarrow>
    \<exists>d'. recorded (consume s e at) i = Some d' \<and> d'\<lparr>rec_consumed := rec_consumed d\<rparr> = d
      \<and> (rec_consumed d \<longrightarrow> rec_consumed d')"
  by (drule (1) consume_head [where at = at]) fastforce

lemma consume_wf: "wf s \<Longrightarrow> next_input s = Some e \<Longrightarrow> wf (consume s e at)"
  using consume_head by blast

end

lemma inbox_ok_consume:
  assumes ok: "inbox_ok (don @ r # todo)" and "list_all (Not \<circ> waiting) don" and "list_all waiting todo"
  shows "inbox_ok (don @ consumed_row t r # todo)"
proof -
  have "row_ok (consumed_row t r) = row_ok r" by (simp add: row_ok_def consumed_row_def)
  moreover have "ib_sequence (consumed_row t r) = ib_sequence r" "ib_event_id (consumed_row t r) = ib_event_id r"
    by (simp_all add: consumed_row_def)
  moreover have "\<exists>don' todo'. don @ consumed_row t r # todo = don' @ todo'
      \<and> list_all (Not \<circ> waiting) don' \<and> list_all waiting todo'"
    using assms(2,3) by (intro exI [of _ "don @ [consumed_row t r]"] exI [of _ todo]) simp
  ultimately show ?thesis using ok by (simp add: inbox_ok_def)
qed

interpretation inbox: event_queue inbox_ok queue findInput nextInput allocateSequence insertInput consumeInput
proof unfold_locales
  show "nextInput s = (case queue s of [] \<Rightarrow> None | e # _ \<Rightarrow> Some e)" for s
    by (rule nextInput_queue)
next
  fix s n i d
  assume ok: "inbox_ok s" and n: "allocateSequence s = Inr n" and d: "findInput s i = Some d"
  then obtain r where "r \<in> set s" "row_record r = d"
    by (auto simp: inbox_ok_def findInput_Some)
  with allocateSequence_above [OF n] show "rec_sequence d < n" by (auto simp: row_record_def)
next
  fix s e h t
  assume ok: "inbox_ok s" and n: "allocateSequence s = Inr (en_sequence e)" and ins: "insertInput s e h = Inr t"
  have t: "t = s @ [new_row e h]" "en_eventId e \<notin> ib_event_id ` set s" "row_ok (new_row e h)"
    using ins by (simp_all add: insertInput_Inr)
  have wf: "inbox_ok t"
    unfolding t(1) using ok allocateSequence_above [OF n] t(2,3) by (rule inbox_ok_snoc)
  have "queue t = queue s @ [e]"
    using wf ok filter_waiting_queue [OF inbox_ok_sorted] t(1)
    by (simp add: List.map_filter_def)
  moreover have "findInput t = (findInput s)(en_eventId e \<mapsto> fresh_record e h)"
    using t findInput_None [of s "en_eventId e"]
    by (auto simp: fun_eq_iff findInput_append row_record_def fresh_record_def split: option.splits)
  ultimately show "inbox_ok t \<and> queue t = queue s @ [e] \<and> findInput s (en_eventId e) = None
      \<and> findInput t = (findInput s)(en_eventId e \<mapsto> fresh_record e h)"
    using wf t(2) by (simp add: findInput_None)
next
  fix s e at
  assume ok: "inbox_ok s" and nxt: "nextInput s = Some e"
  then obtain don r todo where s: "s = don @ r # todo" "list_all (Not \<circ> waiting) don" "list_all waiting (r # todo)"
      "row_envelope r = Some e" "consumeInput s e at = don @ consumed_row at r # todo"
    by (rule consumeInput_head)
  have wf: "inbox_ok (consumeInput s e at)"
    using ok s by (simp add: inbox_ok_consume)
  have nowait: "List.map_filter row_envelope don = []" "row_envelope (consumed_row at r) = None"
    using s(2) consumed_row_simps(2) [of at r]
    by (auto simp: List.map_filter_def list_all_iff waiting_iff_envelope filter_empty_conv simp del: consumed_row_simps)
  have q: "queue (consumeInput s e at) = tl (queue s)"
    using wf ok filter_waiting_queue [OF inbox_ok_sorted] s(1,4,5) nowait
    by (simp add: List.map_filter_def)
  have id: "en_eventId e = ib_event_id r" "en_sequence e = ib_sequence r"
    using s(4) by (auto simp: row_envelope_def envelope_def split: inbox_content.splits)
  have dist: "distinct (map ib_event_id (don @ r # todo))" using ok s(1) by (simp add: inbox_ok_def)
  have found: "findInput s (en_eventId e) = Some (row_record r)"
    using dist unfolding s(1) id by (subst findInput_Some) auto
  have "findInput (consumeInput s e at) = (findInput s)(en_eventId e \<mapsto> row_record (consumed_row at r))"
    unfolding s(5) unfolding s(1) id by (rule findInput_replace [OF _ dist]) simp
  moreover have "row_record (consumed_row at r) = (row_record r)\<lparr>rec_consumed := True\<rparr>"
    "\<not> rec_consumed (row_record r)"
    using s(3) by (simp_all add: row_record_def consumed_row_def waiting_def)
  ultimately show "inbox_ok (consumeInput s e at) \<and> queue (consumeInput s e at) = tl (queue s)
      \<and> (\<exists>d. findInput s (en_eventId e) = Some d \<and> \<not> rec_consumed d \<and> rec_sequence d = en_sequence e
          \<and> findInput (consumeInput s e at) = (findInput s)(en_eventId e \<mapsto> d\<lparr>rec_consumed := True\<rparr>))"
    using wf q found id by (auto simp: row_record_def)
qed

end
