(* ===== verification/Runtime.thy ===== *)
theory Runtime
  imports ToolContracts Storage
begin

text \<open>
  \<open>packages/session-runtime/src\<close>: values.ts, operation-identity.ts, operation-definitions.ts,
  input-hash.ts, bootstrap.ts, context.ts and runtime.ts, with the harness interface of
  \<open>packages/harness-api/src\<close>.
  \<^item> The state of a \<open>SessionRuntime\<close> is its durable store and its two in-memory caches, the session
    and the prepared transition. A transaction that throws restores the store only: the caches keep
    what was written to them, as in the code.
  \<^item> A harness is the record of its hooks, polymorphic in its tables \<open>'h\<close> and its planned changes
    \<open>'c\<close>. Planning is a function of the tables, so it cannot write.
  \<^item> SHA-256 over the UTF-8 text, in hexadecimal, is the parameter \<open>sha\<close>; \<open>Date.now()\<close>, which does
    not advance during synchronous code, is the parameter \<open>now\<close>.
\<close>

section \<open>Identities and hashes\<close>

definition hex64 :: "(jstring \<Rightarrow> jstring) \<Rightarrow> bool" where
  "hex64 sha \<longleftrightarrow> (\<forall>s. length (sha s) = 64 \<and> list_all is_lower_hex (sha s))"

definition inputHash :: "(jstring \<Rightarrow> jstring) \<Rightarrow> event_body \<Rightarrow> jstring" where
  "inputHash sha event = sha (canonical (event_json event))"

definition operation_text :: "session_identity \<Rightarrow> int \<Rightarrow> jstring \<Rightarrow> jstring" where
  "operation_text session sequence key = stringify (JArr [JStr (si_sessionId session),
     JStr (hi_id (si_harness session)), JStr (hi_version (si_harness session)), JNum (NInt sequence), JStr key])"

definition operationId :: "(jstring \<Rightarrow> jstring) \<Rightarrow> session_identity \<Rightarrow> int \<Rightarrow> jstring \<Rightarrow> jstring res" where
  "operationId sha session sequence key =
     (if key = [] \<or> length key > 2048
      then Inl (JsError (lit ''Operation keys must contain 1'' @ [0x2013] @ lit ''2048 characters.''))
      else Inr (lit ''replay-v1:'' @ int_text sequence @ lit '':'' @ sha (operation_text session sequence key)))"

definition operationIdentity :: "jstring \<Rightarrow> int res" where
  "operationIdentity oid = (case split_on 0x3A oid of
     [tag, digits, hex] \<Rightarrow>
       if tag = lit ''replay-v1'' \<and> positive_decimal digits \<and> length hex = 64 \<and> list_all is_lower_hex hex
          \<and> int (digits_value digits) \<le> MAX_SAFE_INTEGER
       then Inr (int (digits_value digits))
       else bad COMPLETION_CONFLICT (lit ''Operation does not belong to this session/namespace.'')
   | _ \<Rightarrow> bad COMPLETION_CONFLICT (lit ''Operation does not belong to this session/namespace.''))"

definition operationKey :: "operation_definition \<Rightarrow> jstring" where
  "operationKey d = stringify (JArr [JStr (od_provider d), JStr (od_type d), JStr (od_version d)])"

fun distinct_definitions :: "json list \<Rightarrow> jstring list \<Rightarrow> operation_definition list res" where
  "distinct_definitions [] seen = Inr []"
| "distinct_definitions (v # vs) seen =
     bindR (parseOperationDefinition (Some v)) (\<lambda>d.
     if operationKey d \<in> set seen
     then Inl (JsError (lit ''Duplicate harness operation: '' @ operationKey d))
     else bindR (distinct_definitions vs (operationKey d # seen)) (\<lambda>ds. Inr (d # ds)))"

definition operationDefinitions :: "json option \<Rightarrow> operation_definition list res" where
  "operationDefinitions value =
     bindR (parseJsonValue INVALID_REQUEST value) (\<lambda>v. case v of
       JArr vs \<Rightarrow> distinct_definitions vs []
     | _ \<Rightarrow> Inl (JsError (lit ''Harness operations must be an array.'')))"

definition timestamp :: "int \<Rightarrow> int res" where
  "timestamp now = (if now > MAX_SAFE_INTEGER \<or> now < 0
     then Inl (JsError (lit ''Invalid runtime timestamp.'')) else Inr now)"

section \<open>The harness interface\<close>

record harness_context =
  hc_session :: session_identity
  hc_config :: json

record planned_operation = operation_request +
  pn_key :: jstring

record 'c transition_plan =
  tp_changes :: 'c
  tp_operations :: "planned_operation list"
  tp_status :: "harness_status option"

record ('h, 'c) harness =
  h_identity :: harness_identity
  h_schema :: 'h
  h_operations :: "operation_definition list"
  h_parseConfig :: "json \<Rightarrow> json res"
  h_parseInput :: "event_body \<Rightarrow> event_body res"
  h_initialize :: "harness_context \<Rightarrow> ('h, unit) act"
  h_handle :: "input_envelope \<Rightarrow> harness_context \<Rightarrow> (jstring \<Rightarrow> jstring res) \<Rightarrow> 'h \<Rightarrow> 'c transition_plan res"
  h_apply :: "'c \<Rightarrow> harness_context \<Rightarrow> ('h, unit) act"

definition definition_json :: "operation_definition \<Rightarrow> json" where
  "definition_json d = JObj [(lit ''provider'', JStr (od_provider d)), (lit ''type'', JStr (od_type d)),
     (lit ''version'', JStr (od_version d))]"

text \<open>A planned operation without its key.\<close>

definition planned_request_json :: "planned_operation \<Rightarrow> json" where
  "planned_request_json p = JObj [(lit ''provider'', JStr (od_provider p)), (lit ''type'', JStr (od_type p)),
     (lit ''version'', JStr (od_version p)), (lit ''input'', or_input p)]"

section \<open>State\<close>

record prepared_operation =
  pp_key :: jstring
  pp_operationId :: jstring
  pp_request :: operation_request

record 'c prepared_transition =
  pr_input :: input_envelope
  pr_changes :: 'c
  pr_operations :: "prepared_operation list"
  pr_status :: "harness_status option"

record ('h, 'c) runtime =
  rt_store :: "'h store"
  rt_session :: "session_info option"
  rt_prepared :: "'c prepared_transition option"

type_synonym ('h, 'c, 'a) rt_act = "(('h, 'c) runtime, 'a) act"

record completed_event =
  ce_operationId :: jstring
  ce_provider :: jstring
  ce_jobId :: "jstring option"
  ce_outcome :: operation_outcome

record process_next_result =
  pn_eventId :: jstring
  pn_sequence :: int
  pn_status :: "harness_status option"

text \<open>\<open>storage.transactionSync(body)\<close>.\<close>

definition transactionSync :: "('h, 'c, 'a) rt_act \<Rightarrow> ('h, 'c, 'a) rt_act" where
  "transactionSync m = (\<lambda>rt. case m rt of
     (Inl e, rt') \<Rightarrow> (Inl e, rt'\<lparr>rt_store := rt_store rt\<rparr>) | (Inr a, rt') \<Rightarrow> (Inr a, rt'))"

definition set_store :: "('h store \<Rightarrow> 'h store) \<Rightarrow> ('h, 'c, unit) rt_act" where
  "set_store f = modifyA (\<lambda>rt. rt\<lparr>rt_store := f (rt_store rt)\<rparr>)"

text \<open>A statement on the inbox that may throw.\<close>

definition inbox_stmt :: "(inbox_row list \<Rightarrow> inbox_row list res) \<Rightarrow> ('h, 'c, unit) rt_act" where
  "inbox_stmt f = bindA (getA (st_inbox \<circ> rt_store)) (\<lambda>rows.
     bindA (liftR (f rows)) (\<lambda>rows'. set_store (\<lambda>st. st\<lparr>st_inbox := rows'\<rparr>)))"

text \<open>A hook that writes the harness tables.\<close>

definition harness_hook :: "('h, unit) act \<Rightarrow> ('h, 'c, unit) rt_act" where
  "harness_hook m = bindA (getA (st_harness \<circ> rt_store)) (\<lambda>h.
     bindA (set_store (\<lambda>st. st\<lparr>st_harness := snd (m h)\<rparr>)) (\<lambda>_. liftR (fst (m h))))"

section \<open>Sessions\<close>

definition checkHarness :: "('h, 'c) harness \<Rightarrow> harness_identity \<Rightarrow> unit res" where
  "checkHarness H identity =
     guardR (hi_id identity = hi_id (h_identity H) \<and> hi_version identity = hi_version (h_identity H))
       (ContractException INITIALIZATION_CONFLICT (lit ''Session harness does not match this runtime.''))"

definition loadSession :: "('h, 'c) harness \<Rightarrow> ('h, 'c, session_info option) rt_act" where
  "loadSession H = bindA (getA rt_session) (\<lambda>cached. case cached of
     Some info \<Rightarrow> retA (Some info)
   | None \<Rightarrow> bindA (getA (findSession \<circ> rt_store)) (\<lambda>existing. case existing of
       None \<Rightarrow> retA None
     | Some info \<Rightarrow>
         bindA (liftR (checkHarness H (si_harness (sn_identity info)))) (\<lambda>_.
         bindA (modifyA (\<lambda>rt. rt\<lparr>rt_session := Some info\<rparr>)) (\<lambda>_. retA (Some info)))))"

definition requireSession :: "('h, 'c) harness \<Rightarrow> ('h, 'c, session_info) rt_act" where
  "requireSession H = bindA (loadSession H) (\<lambda>session. case session of
     None \<Rightarrow> throwA (ContractException SESSION_NOT_INITIALIZED (lit ''Initialize the session first.''))
   | Some info \<Rightarrow> retA info)"

definition context_of :: "session_info \<Rightarrow> harness_context" where
  "context_of info = \<lparr>hc_session = sn_identity info, hc_config = sn_config info\<rparr>"

text \<open>The constructor, on storage whose tables may not exist yet.\<close>

definition bootstrap :: "'h store option \<Rightarrow> 'h \<Rightarrow> 'h store" where
  "bootstrap storage harnessSchema = (case storage of Some st \<Rightarrow> st
     | None \<Rightarrow> \<lparr>st_session = None, st_inbox = [], st_pending = [], st_harness = harnessSchema\<rparr>)"

definition newRuntime :: "('h, 'c) harness \<Rightarrow> 'h store option \<Rightarrow> ('h, 'c) runtime res" where
  "newRuntime H storage =
     bindR (operationDefinitions (Some (JArr (map definition_json (h_operations H))))) (\<lambda>_.
     bindR (parseInitializeSessionRequest (Some (obj [(''session'', obj [(''sessionId'', str ''runtime''),
         (''harness'', obj [(''id'', JStr (hi_id (h_identity H))), (''version'', JStr (hi_version (h_identity H)))])]),
         (''config'', JNull)]))) (\<lambda>_.
     let st = bootstrap storage (h_schema H);
         rt = (\<lambda>session. \<lparr>rt_store = st, rt_session = session, rt_prepared = None\<rparr>) in
     case findSession st of
       None \<Rightarrow> Inr (rt None)
     | Some info \<Rightarrow> bindR (checkHarness H (si_harness (sn_identity info))) (\<lambda>_. Inr (rt (Some info)))))"

definition initialize_body ::
  "('h, 'c) harness \<Rightarrow> initialize_session_request \<Rightarrow> int \<Rightarrow> ('h, 'c, session_info \<times> bool) rt_act" where
  "initialize_body H request now =
     bindA (loadSession H) (\<lambda>existing. case existing of
       Some info \<Rightarrow>
         if \<not> jsonEquals (identity_json (sn_identity info)) (identity_json (is_session request))
         then throwA (ContractException INITIALIZATION_CONFLICT (lit ''Session identity differs.''))
         else retA (info, True)
     | None \<Rightarrow>
         bindA (liftR (h_parseConfig H (is_config request))) (\<lambda>config.
         bindA (liftR (timestamp now)) (\<lambda>createdAt.
         let info = \<lparr>sn_identity = is_session request, sn_config = config, sn_createdAt = createdAt\<rparr> in
         bindA (getA rt_store) (\<lambda>st.
         bindA (liftR (insertSession st info)) (\<lambda>st'.
         bindA (set_store (\<lambda>_. st')) (\<lambda>_.
         bindA (harness_hook (h_initialize H (context_of info))) (\<lambda>_.
         retA (info, False))))))))"

definition initialize ::
  "('h, 'c) harness \<Rightarrow> json option \<Rightarrow> int \<Rightarrow> ('h, 'c, session_info \<times> bool) rt_act" where
  "initialize H value now =
     bindA (liftR (parseInitializeSessionRequest value)) (\<lambda>request.
     bindA (liftR (checkHarness H (si_harness (is_session request)))) (\<lambda>_.
     bindA (transactionSync (initialize_body H request now)) (\<lambda>result.
     bindA (modifyA (\<lambda>rt. rt\<lparr>rt_session := Some (fst result)\<rparr>)) (\<lambda>_. retA result))))"

definition getSession :: "('h, 'c) harness \<Rightarrow> ('h, 'c, session_info) rt_act" where
  "getSession H = requireSession H"

definition getPendingOperations :: "('h, 'c, pending_operation list) rt_act" where
  "getPendingOperations = getA (po_list \<circ> st_pending \<circ> rt_store)"

section \<open>Admission\<close>

definition receipt_of :: "session_info \<Rightarrow> jstring \<Rightarrow> int \<Rightarrow> int \<Rightarrow> bool \<Rightarrow> input_receipt" where
  "receipt_of info eventId sequence receivedAt duplicate =
     \<lparr>ir_sessionId = si_sessionId (sn_identity info), ir_eventId = eventId, ir_sequence = sequence,
      ir_receivedAt = receivedAt, ir_duplicate = duplicate\<rparr>"

text \<open>Allocate the next sequence and insert the event under it.\<close>

definition insert_event :: "int \<Rightarrow> jstring \<Rightarrow> event_body \<Rightarrow> jstring \<Rightarrow> ('h, 'c, input_envelope) rt_act" where
  "insert_event now eventId event hash =
     bindA (getA (st_inbox \<circ> rt_store)) (\<lambda>rows.
     bindA (liftR (allocateSequence rows)) (\<lambda>sequence.
     bindA (liftR (timestamp now)) (\<lambda>receivedAt.
     let input = \<lparr>en_eventId = eventId, en_sequence = sequence, en_receivedAt = receivedAt, en_event = event\<rparr> in
     bindA (inbox_stmt (\<lambda>rows. insertInput rows input hash)) (\<lambda>_. retA input))))"

definition admit_body ::
  "(jstring \<Rightarrow> jstring) \<Rightarrow> ('h, 'c) harness \<Rightarrow> submit_input_request \<Rightarrow> int \<Rightarrow> ('h, 'c, input_receipt) rt_act" where
  "admit_body sha H request now =
     (let hash = inputHash sha (sr_event request) in
      bindA (requireSession H) (\<lambda>info.
      bindA (getA (\<lambda>rt. findInput (st_inbox (rt_store rt)) (sr_eventId request))) (\<lambda>found. case found of
        Some existing \<Rightarrow>
          if rec_hash existing \<noteq> hash
          then throwA (ContractException INPUT_CONFLICT (lit ''Event ID was already used for different content.''))
          else retA (receipt_of info (rec_eventId existing) (rec_sequence existing) (rec_receivedAt existing) True)
      | None \<Rightarrow>
          bindA (liftR (h_parseInput H (sr_event request))) (\<lambda>parsed.
          bindA (liftR (parseEventBody (Some (event_json parsed)))) (\<lambda>validated.
          if ev_type validated \<noteq> ev_type (sr_event request)
             \<or> \<not> jsonEquals (ev_payload validated) (ev_payload (sr_event request))
          then throwA (ContractException INVALID_INPUT (lit ''parseInput must preserve event content.''))
          else bindA (insert_event now (sr_eventId request) (sr_event request) hash) (\<lambda>input.
            retA (receipt_of info (en_eventId input) (en_sequence input) (en_receivedAt input) False)))))))"

text \<open>The closure \<open>prepareInput\<close> returns, on a validated request.\<close>

definition admitInput ::
  "(jstring \<Rightarrow> jstring) \<Rightarrow> ('h, 'c) harness \<Rightarrow> submit_input_request \<Rightarrow> int \<Rightarrow> ('h, 'c, input_receipt) rt_act" where
  "admitInput sha H request now =
     (if startsWith (ev_type (sr_event request)) RUNTIME_EVENT_PREFIX
         \<or> startsWith (sr_eventId request) RUNTIME_EVENT_ID_PREFIX
      then throwA (ContractException INVALID_INPUT (lit ''Runtime event types and event IDs are reserved.''))
      else transactionSync (admit_body sha H request now))"

definition appendInput ::
  "(jstring \<Rightarrow> jstring) \<Rightarrow> ('h, 'c) harness \<Rightarrow> json option \<Rightarrow> int \<Rightarrow> ('h, 'c, input_receipt) rt_act" where
  "appendInput sha H value now =
     bindA (liftR (parseSubmitInputRequest value)) (\<lambda>request. admitInput sha H request now)"

section \<open>Completion events\<close>

definition completionEventId :: "jstring \<Rightarrow> jstring" where
  "completionEventId oid = RUNTIME_EVENT_ID_PREFIX @ lit ''operation:'' @ oid"

definition completionEvent :: "jstring \<Rightarrow> jstring \<Rightarrow> jstring option \<Rightarrow> operation_outcome \<Rightarrow> event_body" where
  "completionEvent oid provider jobId outcome = \<lparr>ev_type = COMPLETED_EVENT,
     ev_payload = JObj [(lit ''operationId'', JStr oid), (lit ''provider'', JStr provider),
       (lit ''jobId'', (case jobId of None \<Rightarrow> JNull | Some j \<Rightarrow> JStr j)), (lit ''outcome'', outcome_json outcome)]\<rparr>"

text \<open>Reading the payload the runtime stored: the cast \<open>input.event as RuntimeEvent\<close>.\<close>

definition read_failure :: "json \<Rightarrow> operation_failure option" where
  "read_failure v = (case v of JObj r \<Rightarrow> (case (field r ''code'', field r ''message'') of
       (Some (JStr c), Some (JStr m)) \<Rightarrow> Some \<lparr>of_code = c, of_message = m, of_details = field r ''details''\<rparr>
     | _ \<Rightarrow> None) | _ \<Rightarrow> None)"

definition read_outcome :: "json \<Rightarrow> operation_outcome option" where
  "read_outcome v = (case v of JObj r \<Rightarrow>
     if field r ''status'' = Some (JStr (lit ''succeeded'')) then map_option Succeeded (field r ''result'')
     else if field r ''status'' = Some (JStr (lit ''failed'')) then
       (case (parse_origin (field r ''origin''), Option.bind (field r ''error'') read_failure) of
          (Some og, Some f) \<Rightarrow> Some (Failed og f) | _ \<Rightarrow> None)
     else if field r ''status'' = Some (JStr (lit ''cancelled'')) then Some Cancelled else None
   | _ \<Rightarrow> None)"

definition read_completed :: "event_body \<Rightarrow> completed_event res" where
  "read_completed event = (case ev_payload event of
     JObj r \<Rightarrow> (case (field r ''operationId'', field r ''provider'', field r ''jobId'', Option.bind (field r ''outcome'') read_outcome) of
       (Some (JStr oid), Some (JStr provider), Some job, Some outcome) \<Rightarrow>
         Inr \<lparr>ce_operationId = oid, ce_provider = provider,
              ce_jobId = (case job of JStr j \<Rightarrow> Some j | _ \<Rightarrow> None), ce_outcome = outcome\<rparr>
     | _ \<Rightarrow> Inl (JsError (lit ''TypeError'')))
   | _ \<Rightarrow> Inl (JsError (lit ''TypeError'')))"

definition queueCompletion ::
  "(jstring \<Rightarrow> jstring) \<Rightarrow> int \<Rightarrow> jstring \<Rightarrow> jstring \<Rightarrow> jstring option \<Rightarrow> operation_outcome \<Rightarrow> ('h, 'c, completion_receipt) rt_act" where
  "queueCompletion sha now oid provider jobId outcome =
     (let eventId = completionEventId oid; event = completionEvent oid provider jobId outcome;
          hash = inputHash sha event in
      bindA (getA (\<lambda>rt. findInput (st_inbox (rt_store rt)) eventId)) (\<lambda>found. case found of
        Some existing \<Rightarrow>
          if rec_hash existing \<noteq> hash
          then throwA (ContractException COMPLETION_CONFLICT (lit ''Completion content changed.''))
          else retA \<lparr>cr_operationId = oid, cr_eventId = eventId, cr_duplicate = True\<rparr>
      | None \<Rightarrow> bindA (insert_event now eventId event hash) (\<lambda>_.
          retA \<lparr>cr_operationId = oid, cr_eventId = eventId, cr_duplicate = False\<rparr>)))"

section \<open>Preparation\<close>

definition declared :: "('h, 'c) harness \<Rightarrow> jstring set" where
  "declared H = operationKey ` set (h_operations H)"

fun prepare_operations ::
  "(jstring \<Rightarrow> jstring res) \<Rightarrow> jstring set \<Rightarrow> jstring list \<Rightarrow> planned_operation list \<Rightarrow> prepared_operation list res" where
  "prepare_operations oid decl keys [] = Inr []"
| "prepare_operations oid decl keys (op # ops) =
     bindR (oid (pn_key op)) (\<lambda>i.
     if pn_key op \<in> set keys then Inl (JsError (lit ''Duplicate operation key in transition.''))
     else bindR (parseOperationRequest (Some (planned_request_json op))) (\<lambda>request.
     if operationKey (operation_definition.truncate request) \<notin> decl
     then bad INVALID_REQUEST (lit ''Harness has not declared this operation.'')
     else bindR (prepare_operations oid decl (pn_key op # keys) ops) (\<lambda>rest.
       Inr (\<lparr>pp_key = pn_key op, pp_operationId = i, pp_request = request\<rparr> # rest))))"

definition correlate :: "pending_operation list \<Rightarrow> input_envelope \<Rightarrow> unit res" where
  "correlate pending input =
     (if ev_type (en_event input) = COMPLETED_EVENT then
        bindR (read_completed (en_event input)) (\<lambda>completion.
        case ce_outcome completion of
          Failed Submission f \<Rightarrow> Inr ()
        | _ \<Rightarrow> (case po_find pending (ce_operationId completion) of
            Some p \<Rightarrow>
              if po_provider p = ce_provider completion \<and> Some (po_jobId p) = ce_jobId completion then Inr ()
              else bad COMPLETION_CONFLICT (lit ''Completion does not match its committed acceptance.'')
          | None \<Rightarrow> bad COMPLETION_CONFLICT (lit ''Completion does not match its committed acceptance.'')))
      else Inr ())"

text \<open>Planning an input: a function of the durable store.\<close>

definition plan_input ::
  "(jstring \<Rightarrow> jstring) \<Rightarrow> ('h, 'c) harness \<Rightarrow> session_info \<Rightarrow> 'h store \<Rightarrow> input_envelope \<Rightarrow> 'c prepared_transition res" where
  "plan_input sha H info st input =
     bindR (correlate (st_pending st) input) (\<lambda>_.
     let oid = operationId sha (sn_identity info) (en_sequence input) in
     bindR (h_handle H input (context_of info) oid (st_harness st)) (\<lambda>plan.
     bindR (prepare_operations oid (declared H) [] (tp_operations plan)) (\<lambda>operations.
     Inr \<lparr>pr_input = input, pr_changes = tp_changes plan, pr_operations = operations,
          pr_status = tp_status plan\<rparr>)))"

definition prepare ::
  "(jstring \<Rightarrow> jstring) \<Rightarrow> ('h, 'c) harness \<Rightarrow> ('h, 'c, 'c prepared_transition option) rt_act" where
  "prepare sha H =
     bindA (requireSession H) (\<lambda>info.
     bindA (getA rt_prepared) (\<lambda>cached. case cached of
       Some p \<Rightarrow> retA (Some p)
     | None \<Rightarrow>
         bindA (getA (\<lambda>rt. nextInput (st_inbox (rt_store rt)))) (\<lambda>nxt. case nxt of
           None \<Rightarrow> retA None
         | Some input \<Rightarrow>
             bindA (getA (\<lambda>rt. plan_input sha H info (rt_store rt) input)) (\<lambda>planned.
             bindA (liftR planned) (\<lambda>p.
             bindA (modifyA (\<lambda>rt. rt\<lparr>rt_prepared := Some p\<rparr>)) (\<lambda>_. retA (Some p)))))))"

section \<open>Commit\<close>

fun collect_receipts ::
  "prepared_operation list \<Rightarrow> (jstring \<times> json) list \<Rightarrow> (jstring \<times> submit_result) list \<Rightarrow> (jstring \<times> submit_result) list res" where
  "collect_receipts ops [] acc = Inr acc"
| "collect_receipts ops ((oid, v) # rs) acc =
     (if oid \<in> fst ` set acc \<or> oid \<notin> pp_operationId ` set ops
      then Inl (JsError (lit ''Invalid or duplicate submission receipt.''))
      else bindR (parseProviderSubmitResult (Some v)) (\<lambda>r. collect_receipts ops rs (acc @ [(oid, r)])))"

definition insert_pending :: "pending_operation \<Rightarrow> ('h, 'c, unit) rt_act" where
  "insert_pending p = bindA (getA rt_store) (\<lambda>st.
     bindA (liftR (po_insert (st_inbox st) (st_pending st) p)) (\<lambda>ps.
     set_store (\<lambda>st. st\<lparr>st_pending := ps\<rparr>)))"

definition settle ::
  "(jstring \<Rightarrow> jstring) \<Rightarrow> int \<Rightarrow> int \<Rightarrow> (jstring \<times> submit_result) list \<Rightarrow> prepared_operation \<Rightarrow> ('h, 'c, unit) rt_act" where
  "settle sha now sequence results op = (case map_of results (pp_operationId op) of
     None \<Rightarrow> throwA (JsError (lit ''TypeError''))
   | Some (Rejected error) \<Rightarrow>
       bindA (queueCompletion sha now (pp_operationId op) (od_provider (pp_request op)) None
         (Failed Submission error)) (\<lambda>_. retA ())
   | Some (Accepted jobId) \<Rightarrow>
       insert_pending \<lparr>po_operationId = pp_operationId op, po_sourceInputSequence = sequence,
         po_key = pp_key op, po_provider = od_provider (pp_request op), po_jobId = jobId\<rparr>
   | Some (Completed jobId outcome) \<Rightarrow>
       bindA (insert_pending \<lparr>po_operationId = pp_operationId op, po_sourceInputSequence = sequence,
         po_key = pp_key op, po_provider = od_provider (pp_request op), po_jobId = jobId\<rparr>) (\<lambda>_.
       bindA (queueCompletion sha now (pp_operationId op) (od_provider (pp_request op)) (Some jobId) outcome) (\<lambda>_.
       retA ())))"

definition finish_completed :: "input_envelope \<Rightarrow> ('h, 'c, unit) rt_act" where
  "finish_completed input =
     (if ev_type (en_event input) = COMPLETED_EVENT then
        bindA (liftR (read_completed (en_event input))) (\<lambda>completion.
        set_store (\<lambda>st. st\<lparr>st_pending := po_delete (st_pending st) (ce_operationId completion)\<rparr>))
      else retA ())"

definition commit_body ::
  "(jstring \<Rightarrow> jstring) \<Rightarrow> ('h, 'c) harness \<Rightarrow> session_info \<Rightarrow> 'c prepared_transition \<Rightarrow>
    (jstring \<times> submit_result) list \<Rightarrow> int \<Rightarrow> ('h, 'c, process_next_result) rt_act" where
  "commit_body sha H info prepared results now =
     bindA (getA (\<lambda>rt. head_row (st_inbox (rt_store rt)))) (\<lambda>head.
     if map_option ib_event_id head \<noteq> Some (en_eventId (pr_input prepared))
     then throwA (JsError (lit ''Transition is no longer the inbox head.''))
     else
       bindA (harness_hook (h_apply H (pr_changes prepared) (context_of info))) (\<lambda>_.
       bindA (forA (pr_operations prepared) (settle sha now (en_sequence (pr_input prepared)) results)) (\<lambda>_.
       bindA (finish_completed (pr_input prepared)) (\<lambda>_.
       bindA (liftR (timestamp now)) (\<lambda>consumedAt.
       bindA (inbox_stmt (\<lambda>rows. Inr (consumeInput rows (pr_input prepared) consumedAt))) (\<lambda>_.
       retA \<lparr>pn_eventId = en_eventId (pr_input prepared), pn_sequence = en_sequence (pr_input prepared),
         pn_status = pr_status prepared\<rparr>))))))"

definition commit ::
  "(jstring \<Rightarrow> jstring) \<Rightarrow> ('h, 'c) harness \<Rightarrow> 'c prepared_transition \<Rightarrow> (jstring \<times> json) list \<Rightarrow> int \<Rightarrow>
    ('h, 'c, process_next_result) rt_act" where
  "commit sha H prepared receipts now =
     bindA (getA rt_prepared) (\<lambda>cached.
     if cached \<noteq> Some prepared then throwA (JsError (lit ''Transition does not belong to this runtime.''))
     else bindA (liftR (collect_receipts (pr_operations prepared) receipts [])) (\<lambda>results.
     if length results \<noteq> length (pr_operations prepared)
     then throwA (JsError (lit ''Every submission must be resolved before commit.''))
     else bindA (requireSession H) (\<lambda>info.
     bindA (transactionSync (commit_body sha H info prepared results now)) (\<lambda>result.
     bindA (modifyA (\<lambda>rt. rt\<lparr>rt_prepared := None\<rparr>)) (\<lambda>_. retA result)))))"

section \<open>Completions from workers\<close>

datatype admission = KnownCompletion bool completion_receipt | NewCompletion jstring event_body jstring

text \<open>The check \<open>prepareCompletion\<close> returns; \<open>commit_admission\<close> is the \<open>commit\<close> it returns in turn.\<close>

definition check_completion ::
  "(jstring \<Rightarrow> jstring) \<Rightarrow> ('h, 'c) harness \<Rightarrow> operation_completion \<Rightarrow> ('h, 'c, admission) rt_act" where
  "check_completion sha H completion =
     (let oid = oc_operationId completion; eventId = completionEventId oid;
          event = completionEvent oid (oc_provider completion) (Some (oc_jobId completion)) (oc_outcome completion);
          hash = inputHash sha event in
      bindA (requireSession H) (\<lambda>_.
      bindA (liftR (operationIdentity oid)) (\<lambda>sequence.
      if oc_submissionId completion \<noteq> oid
      then throwA (ContractException COMPLETION_CONFLICT (lit ''Submission identity must equal the derived operation identity.''))
      else bindA (getA (\<lambda>rt. findInput (st_inbox (rt_store rt)) eventId)) (\<lambda>found. case found of
        Some existing \<Rightarrow>
          if rec_hash existing \<noteq> hash
          then throwA (ContractException COMPLETION_CONFLICT (lit ''Completion content changed.''))
          else retA (KnownCompletion (rec_consumed existing)
            \<lparr>cr_operationId = oid, cr_eventId = eventId, cr_duplicate = True\<rparr>)
      | None \<Rightarrow>
          bindA (getA (\<lambda>rt. po_find (st_pending (rt_store rt)) oid)) (\<lambda>pending. case pending of
            Some p \<Rightarrow>
              if po_provider p \<noteq> oc_provider completion \<or> po_jobId p \<noteq> oc_jobId completion
              then throwA (ContractException COMPLETION_CONFLICT (lit ''Completion differs from accepted provider/job.''))
              else retA (NewCompletion eventId event hash)
          | None \<Rightarrow>
              bindA (prepare sha H) (\<lambda>prepared.
              if (case prepared of None \<Rightarrow> True | Some p \<Rightarrow> en_sequence (pr_input p) \<noteq> sequence
                  \<or> (case find (\<lambda>op. pp_operationId op = oid) (pr_operations p) of None \<Rightarrow> True
                     | Some op \<Rightarrow> od_provider (pp_request op) \<noteq> oc_provider completion))
              then throwA (ContractException OPERATION_NOT_FOUND (lit ''Completion has no pending or prepared operation.''))
              else retA (NewCompletion eventId event hash)))))))"

definition commit_admission :: "int \<Rightarrow> jstring \<Rightarrow> admission \<Rightarrow> ('h, 'c, completion_receipt) rt_act" where
  "commit_admission now oid adm = (case adm of
     KnownCompletion consumed receipt \<Rightarrow> retA receipt
   | NewCompletion eventId event hash \<Rightarrow>
       transactionSync (bindA (insert_event now eventId event hash) (\<lambda>_.
         retA \<lparr>cr_operationId = oid, cr_eventId = eventId, cr_duplicate = False\<rparr>)))"

definition acceptCompletion ::
  "(jstring \<Rightarrow> jstring) \<Rightarrow> ('h, 'c) harness \<Rightarrow> json option \<Rightarrow> int \<Rightarrow> ('h, 'c, completion_receipt) rt_act" where
  "acceptCompletion sha H value now =
     bindA (liftR (parseOperationCompletion value)) (\<lambda>completion.
     bindA (check_completion sha H completion) (\<lambda>adm.
     commit_admission now (oc_operationId completion) adm))"

end
