(* ===== verification/MinimalBash.thy ===== *)
theory MinimalBash
  imports Runtime
begin

text \<open>
  The minimal-bash harness, \<open>packages/harness-minimal-bash/src\<close>: contracts.ts, schema.ts, state.ts,
  openai.ts, instructions.ts and harness.ts.
  \<^item> \<open>mb_tables\<close> are its three SQLite tables, \<open>mb_changes\<close> the planned changes.
  \<^item> The mutable context and state object of \<open>handle\<close> are the record \<open>mb_work\<close>; the planning functions
    are actions on it, so a \<open>HarnessFailure\<close> keeps what was already appended, as in the code.
  \<^item> \<open>mb_env\<close> holds what planning only reads. \<open>JSON.parse\<close> of a model's argument text is its field
    \<open>me_JSON_parse\<close>: which text it rejects and with which message is the engine's.
\<close>

section \<open>contracts.ts\<close>

definition MINIMAL_BASH_IDENTITY :: harness_identity where
  "MINIMAL_BASH_IDENTITY = \<lparr>hi_id = lit ''minimal-bash'', hi_version = lit ''v7''\<rparr>"

definition REASONING_LEVELS :: "jstring list" where
  "REASONING_LEVELS = map lit [''low'', ''medium'', ''high'', ''xhigh'', ''max'']"

text \<open>The catalog: model IDs with \<open>maxTokens\<close>.\<close>

definition OPENAI_MODELS :: "(jstring \<times> int) list" where
  "OPENAI_MODELS = map (\<lambda>m. (lit m, 128000)) [''gpt-6-astra'', ''gpt-5.6-sol'', ''gpt-5.6-terra'', ''gpt-5.6-luna'']"

record minimal_bash_config =
  mc_modelId :: jstring
  mc_accountId :: jstring
  mc_reasoning :: jstring
  mc_machineId :: jstring
  mc_executionGatewayUrl :: jstring
  mc_executionToken :: jstring
  mc_cwd :: jstring

definition config_fields :: "json option \<Rightarrow> string list \<Rightarrow> fields res" where
  "config_fields value keys =
     bindR (parseJsonValue INVALID_REQUEST value) (\<lambda>v. case v of
       JObj r \<Rightarrow> if \<exists>k \<in> set (map fst r). k \<notin> set (map lit keys)
         then Inl (JsError (lit ''Unexpected fields or non-object value.'')) else Inr r
     | _ \<Rightarrow> Inl (JsError (lit ''Unexpected fields or non-object value.'')))"

text \<open>\<open>try { ... } catch (error) { throw new ContractException(code, error.message) }\<close>.\<close>

definition rewrap :: "contract_code \<Rightarrow> 'a res \<Rightarrow> 'a res" where
  "rewrap code r = (case r of Inl e \<Rightarrow> Inl (ContractException code (exn_message e)) | Inr a \<Rightarrow> Inr a)"

definition js_error :: "string \<Rightarrow> 'a res" where
  "js_error m = Inl (JsError (lit m))"

definition parse_reasoning :: "fields \<Rightarrow> jstring res" where
  "parse_reasoning c = (case field c ''reasoning'' of
     None \<Rightarrow> Inr (lit ''medium'')
   | Some JNull \<Rightarrow> js_error ''reasoning cannot be null.''
   | Some (JStr s) \<Rightarrow> if s \<in> set REASONING_LEVELS then Inr s
       else js_error ''reasoning must be low, medium, high, xhigh or max.''
   | Some _ \<Rightarrow> js_error ''reasoning must be low, medium, high, xhigh or max.'')"

definition parse_cwd :: "fields \<Rightarrow> jstring res" where
  "parse_cwd c = (case field c ''cwd'' of
     Some (JStr s) \<Rightarrow> if s = [] \<or> length s > 8192 \<or> \<not> isAbsoluteMachinePath s
       then js_error ''cwd must be an absolute machine path.'' else Inr s
   | _ \<Rightarrow> js_error ''cwd must be an absolute machine path.'')"

definition parseMinimalBashConfig :: "url_parser \<Rightarrow> json \<Rightarrow> minimal_bash_config res" where
  "parseMinimalBashConfig new_URL value = rewrap INVALID_CONFIG
     (bindR (config_fields (Some value) [''provider'', ''modelId'', ''accountId'', ''reasoning'', ''machineId'',
        ''executionGatewayUrl'', ''executionToken'', ''cwd'']) (\<lambda>c.
      if field c ''provider'' \<noteq> Some (JStr (lit ''openai'')) then js_error ''provider must be openai.''
      else case field c ''modelId'' of
        Some (JStr modelId) \<Rightarrow>
          if modelId \<notin> set (map fst OPENAI_MODELS) then js_error ''modelId must belong to the OpenAI catalog.''
          else
            bindR (parse_reasoning c) (\<lambda>reasoning.
            bindR (parse_cwd c) (\<lambda>cwd.
            bindR (parseUuid (field c ''machineId'')) (\<lambda>machineId.
            bindR (parseExecutionToken (field c ''executionToken'')) (\<lambda>token.
            if split_on 0x2E token ! 1 \<noteq> machineId then js_error ''executionToken must belong to machineId.''
            else
              bindR (parseUuid (field c ''accountId'')) (\<lambda>accountId.
              bindR (parseExecutionGatewayUrl new_URL (field c ''executionGatewayUrl'')) (\<lambda>url.
              Inr \<lparr>mc_modelId = modelId, mc_accountId = accountId, mc_reasoning = reasoning, mc_machineId = machineId,
                   mc_executionGatewayUrl = url, mc_executionToken = token, mc_cwd = cwd\<rparr>))))))
      | _ \<Rightarrow> js_error ''modelId must belong to the OpenAI catalog.''))"

text \<open>The configuration as the JSON the runtime stores, and reading it back.\<close>

definition mb_config_json :: "minimal_bash_config \<Rightarrow> json" where
  "mb_config_json c = obj [(''provider'', str ''openai''), (''modelId'', JStr (mc_modelId c)),
     (''accountId'', JStr (mc_accountId c)), (''reasoning'', JStr (mc_reasoning c)),
     (''machineId'', JStr (mc_machineId c)), (''executionToken'', JStr (mc_executionToken c)),
     (''executionGatewayUrl'', JStr (mc_executionGatewayUrl c)), (''cwd'', JStr (mc_cwd c))]"

definition text_field :: "json \<Rightarrow> string \<Rightarrow> jstring" where
  "text_field v k = (case v of JObj r \<Rightarrow> (case field r k of Some (JStr s) \<Rightarrow> s | _ \<Rightarrow> []) | _ \<Rightarrow> [])"

definition mb_read_config :: "json \<Rightarrow> minimal_bash_config" where
  "mb_read_config v = \<lparr>mc_modelId = text_field v ''modelId'', mc_accountId = text_field v ''accountId'',
     mc_reasoning = text_field v ''reasoning'', mc_machineId = text_field v ''machineId'',
     mc_executionGatewayUrl = text_field v ''executionGatewayUrl'',
     mc_executionToken = text_field v ''executionToken'', mc_cwd = text_field v ''cwd''\<rparr>"

definition nonempty_user_message :: "json \<Rightarrow> bool" where
  "nonempty_user_message m = (case m of JObj r \<Rightarrow> field r ''role'' = Some (JStr (lit ''user''))
     \<and> (case field r ''content'' of Some (JArr xs) \<Rightarrow> xs \<noteq> [] | _ \<Rightarrow> False) | _ \<Rightarrow> False)"

definition valid_run_id :: "json option \<Rightarrow> bool" where
  "valid_run_id v = (case v of Some (JStr s) \<Rightarrow> trim s \<noteq> [] \<and> length s \<le> 2048 | _ \<Rightarrow> False)"

definition parseMinimalBashInput :: "event_body \<Rightarrow> event_body res" where
  "parseMinimalBashInput value = rewrap INVALID_INPUT
     (bindR (parseEventBody (Some (event_json value))) (\<lambda>event.
      if ev_type event = lit ''minimal_bash.message'' then
        bindR (config_fields (Some (ev_payload event)) [''message'']) (\<lambda>p.
        bindR (parseLlmMessage (field p ''message'')) (\<lambda>message.
        if \<not> nonempty_user_message message then js_error ''Expected a nonempty user message content array.''
        else Inr event))
      else if ev_type event = lit ''minimal_bash.cancel'' then
        bindR (config_fields (Some (ev_payload event)) [''runId'']) (\<lambda>p.
        if \<not> valid_run_id (field p ''runId'') then js_error ''runId is required.'' else Inr event)
      else if ev_type event = lit ''minimal_bash.resume'' then
        bindR (config_fields (Some (ev_payload event)) []) (\<lambda>_. Inr event)
      else js_error ''Unsupported minimal bash input.''))"

section \<open>schema.ts and state.ts\<close>

datatype mb_phase = Mb_idle | Mb_llm | Mb_bash | Mb_cancelled | Mb_failed

record mb_state =
  ms_phase :: mb_phase
  ms_run_id :: "jstring option"
  ms_active_operation_id :: "jstring option"
  ms_active_assistant_sequence :: "int option"
  ms_next_tool_index :: nat
  ms_turn_count :: nat
  ms_cancel_requested :: bool
  ms_last_error_json :: "json option"

record message_row =
  mr_sequence :: int
  mr_message :: json
  mr_in_context :: bool
  mr_run_id :: "jstring option"
  mr_source_event_id :: "jstring option"
  mr_source_operation_id :: "jstring option"
  mr_response_metadata :: "json option"

record steering_row =
  sg_event_id :: jstring
  sg_input_sequence :: int
  sg_message :: json

record mb_tables =
  mt_state :: "mb_state option"
  mt_messages :: "message_row list"
  mt_pending :: "steering_row list"

definition minimalBashSchema :: mb_tables where
  "minimalBashSchema = \<lparr>mt_state = None, mt_messages = [], mt_pending = []\<rparr>"

definition readState :: "mb_tables \<Rightarrow> mb_state res" where
  "readState t = (case mt_state t of Some s \<Rightarrow> Inr s | None \<Rightarrow> js_error ''Expected exactly one result.'')"

record mb_view =
  mv_phase :: mb_phase
  mv_runId :: "jstring option"
  mv_activeOperationId :: "jstring option"
  mv_turnCount :: nat
  mv_cancelRequested :: bool
  mv_error :: json
  mv_pendingMessageCount :: nat

definition readMinimalBashState :: "mb_tables \<Rightarrow> mb_view res" where
  "readMinimalBashState t = bindR (readState t) (\<lambda>s. Inr \<lparr>mv_phase = ms_phase s, mv_runId = ms_run_id s,
     mv_activeOperationId = ms_active_operation_id s, mv_turnCount = ms_turn_count s,
     mv_cancelRequested = ms_cancel_requested s,
     mv_error = (case ms_last_error_json s of None \<Rightarrow> JNull | Some e \<Rightarrow> e),
     mv_pendingMessageCount = length (mt_pending t)\<rparr>)"

definition PAGE_JSON_BYTES :: nat where
  "PAGE_JSON_BYTES = 2 * 1024 * 1024"

fun page_loop :: "'a list \<Rightarrow> nat \<Rightarrow> ('a \<Rightarrow> nat) \<Rightarrow> 'a list \<Rightarrow> nat \<Rightarrow> 'a list \<times> bool" where
  "page_loop [] limit sz rows bytes = (rows, False)"
| "page_loop (r # rs) limit sz rows bytes =
     (if length rows \<ge> limit \<or> (rows \<noteq> [] \<and> bytes + sz r > PAGE_JSON_BYTES) then (rows, True)
      else page_loop rs limit sz (rows @ [r]) (bytes + sz r))"

definition pageRows :: "'a list \<Rightarrow> nat \<Rightarrow> ('a \<Rightarrow> nat) \<Rightarrow> 'a list \<times> bool" where
  "pageRows cursor limit sz = page_loop cursor limit sz [] 0"

definition readMinimalBashMessages ::
  "mb_tables \<Rightarrow> int \<Rightarrow> nat \<Rightarrow> (message_row list \<times> int option \<times> mb_view) res" where
  "readMinimalBashMessages t after limit =
     (let rows = take (limit + 1) (sort_key mr_sequence (List.filter (\<lambda>r. mr_sequence r > after) (mt_messages t)));
          (page, hasMore) = pageRows rows limit (\<lambda>r. json_bytes (mr_message r)
            + (case mr_response_metadata r of None \<Rightarrow> 4 | Some m \<Rightarrow> json_bytes m)) in
      bindR (readMinimalBashState t) (\<lambda>view.
      Inr (page, if hasMore then Some (mr_sequence (last page)) else None, view)))"

definition readPendingMessages ::
  "mb_tables \<Rightarrow> int \<Rightarrow> nat \<Rightarrow> (steering_row list \<times> int option \<times> mb_view) res" where
  "readPendingMessages t after limit =
     (let rows = take (limit + 1) (sort_key sg_input_sequence (List.filter (\<lambda>r. sg_input_sequence r > after) (mt_pending t)));
          (page, hasMore) = pageRows rows limit (\<lambda>r. json_bytes (sg_message r)) in
      bindR (readMinimalBashState t) (\<lambda>view.
      Inr (page, if hasMore then Some (sg_input_sequence (last page)) else None, view)))"

record message_change =
  mg_message :: json
  mg_runId :: "jstring option"
  mg_inContext :: bool
  mg_eventId :: "jstring option"
  mg_operationId :: "jstring option"
  mg_responseMetadata :: "json option"

definition next_sequence :: "message_row list \<Rightarrow> int" where
  "next_sequence rows = foldr (max \<circ> mr_sequence) rows 0 + 1"

definition appendMessage :: "message_row list \<Rightarrow> message_change \<Rightarrow> message_row list" where
  "appendMessage rows c = rows @ [\<lparr>mr_sequence = next_sequence rows, mr_message = mg_message c,
     mr_in_context = mg_inContext c, mr_run_id = mg_runId c, mr_source_event_id = mg_eventId c,
     mr_source_operation_id = mg_operationId c, mr_response_metadata = mg_responseMetadata c\<rparr>]"

section \<open>openai.ts and instructions.ts\<close>

record tool_call =
  tl_callId :: jstring
  tl_arguments :: jstring

definition harness_failure :: "string \<Rightarrow> string \<Rightarrow> 'a res" where
  "harness_failure c m = Inl (HarnessFailure (lit c) (lit m))"

definition message_content :: "json \<Rightarrow> json list" where
  "message_content m = (case m of JObj r \<Rightarrow> (case field r ''content'' of Some (JArr xs) \<Rightarrow> xs | _ \<Rightarrow> []) | _ \<Rightarrow> [])"

definition bash_call :: "fields \<Rightarrow> jstring list \<Rightarrow> tool_call res" where
  "bash_call item ids =
     (case (field item ''call_id'', field item ''arguments'') of
        (Some (JStr callId), Some (JStr args)) \<Rightarrow>
          if field item ''name'' \<noteq> Some (JStr (lit ''bash'')) \<or> callId = [] \<or> length callId > 2048 \<or> callId \<in> set ids
             \<or> (field item ''status'' \<noteq> None \<and> field item ''status'' \<noteq> Some (JStr (lit ''completed'')))
          then harness_failure ''INVALID_TOOL_CALL'' ''Expected complete, uniquely identified bash function calls.''
          else Inr \<lparr>tl_callId = callId, tl_arguments = args\<rparr>
      | _ \<Rightarrow> harness_failure ''INVALID_TOOL_CALL'' ''Expected complete, uniquely identified bash function calls.'')"

fun tool_calls_from :: "json list \<Rightarrow> jstring list \<Rightarrow> tool_call list res" where
  "tool_calls_from [] ids = Inr []"
| "tool_calls_from (raw # items) ids = (case raw of
     JObj item \<Rightarrow> (case field item ''type'' of
       Some (JStr ty) \<Rightarrow>
         if ty = lit ''function_call'' then
           bindR (bash_call item ids) (\<lambda>call.
           bindR (tool_calls_from items (tl_callId call # ids)) (\<lambda>calls. Inr (call # calls)))
         else if ty \<noteq> lit ''message'' \<and> ty \<noteq> lit ''reasoning'' then
           Inl (HarnessFailure (lit ''UNSUPPORTED_LLM_ITEM'') (lit ''Unsupported assistant item type: '' @ ty @ lit ''.''))
         else tool_calls_from items ids
     | _ \<Rightarrow> harness_failure ''INVALID_LLM_RESPONSE'' ''Malformed native assistant item.'')
   | _ \<Rightarrow> harness_failure ''INVALID_LLM_RESPONSE'' ''Malformed native assistant item.'')"

definition toolCalls :: "json \<Rightarrow> tool_call list res" where
  "toolCalls message = tool_calls_from (message_content message) []"

definition createInstructions :: "jstring \<Rightarrow> jstring" where
  "createInstructions cwd = lit ''You are a coding agent. Help the user inspect, understand, modify, and test code using the bash tool. ''
     @ lit ''Only bash is available. Each invocation is an independent shell starting in the configured working directory; shell state does not persist. ''
     @ lit ''Use tool results as evidence, do not claim unperformed actions, and provide a concise final explanation of your changes and checks.''
     @ [10] @ lit ''Working directory: '' @ cwd"

text \<open>\<open>Array.from(s).slice(0, n).join("")\<close>: the first code points.\<close>

fun first_code_points :: "nat \<Rightarrow> jstring \<Rightarrow> jstring" where
  "first_code_points 0 s = []"
| "first_code_points (Suc n) [] = []"
| "first_code_points (Suc n) [u] = [u]"
| "first_code_points (Suc n) (u # v # s) = (if high_surrogate u \<and> low_surrogate v
     then u # v # first_code_points n s else u # first_code_points n (v # s))"

lemma first_code_points_code [code]:
  "first_code_points n s = (if n = 0 then [] else case s of [] \<Rightarrow> [] | [u] \<Rightarrow> [u]
     | u # v # r \<Rightarrow> (if high_surrogate u \<and> low_surrogate v then u # v # first_code_points (n - 1) r
         else u # first_code_points (n - 1) (v # r)))"
  by (cases "(n, s)" rule: first_code_points.cases) simp_all

definition is_custom :: "json \<Rightarrow> bool" where
  "is_custom m = (case m of JObj r \<Rightarrow> field r ''role'' = Some (JStr (lit ''custom'')) | _ \<Rightarrow> False)"

text \<open>The scan of the stored transcript; \<open>bytes\<close> counts the stored text of the messages in context.\<close>

fun transcript :: "message_row list \<Rightarrow> nat \<Rightarrow> json list res" where
  "transcript [] bytes = Inr []"
| "transcript (r # rs) bytes =
     (if \<not> mr_in_context r then transcript rs bytes
      else let bytes' = bytes + json_bytes (mr_message r) in
        if bytes' > MAX_OPERATION_INPUT_BYTES
        then harness_failure ''OPERATION_INPUT_TOO_LARGE'' ''Conversation exceeds the 8 MiB operation input limit. Compaction is not implemented.''
        else if is_custom (mr_message r) then js_error ''Harness lifecycle messages must not enter model context.''
        else bindR (transcript rs bytes') (\<lambda>ms. Inr (mr_message r # ms)))"

definition model_request :: "minimal_bash_config \<Rightarrow> jstring \<Rightarrow> json list \<Rightarrow> json" where
  "model_request config sessionId messages = obj [(''previousJobId'', JNull), (''accountId'', JStr (mc_accountId config)),
     (''modelId'', JStr (mc_modelId config)), (''instructions'', JStr (createInstructions (mc_cwd config))),
     (''messages'', JArr messages), (''tools'', JArr [PI_BASH_TOOL]),
     (''providerOptions'', obj [(''store'', JBool False),
       (''reasoning'', obj [(''effort'', JStr (mc_reasoning config)), (''summary'', str ''auto'')]),
       (''include'', JArr [str ''reasoning.encrypted_content'']),
       (''prompt_cache_key'', JStr (first_code_points 64 sessionId)),
       (''max_output_tokens'', JNum (NInt (case map_of OPENAI_MODELS (mc_modelId config) of Some n \<Rightarrow> n | None \<Rightarrow> 0))),
       (''tool_choice'', str ''auto''), (''parallel_tool_calls'', JBool False)])]"

definition buildLlmInput :: "mb_tables \<Rightarrow> minimal_bash_config \<Rightarrow> jstring \<Rightarrow> json list \<Rightarrow> json res" where
  "buildLlmInput t config sessionId appended =
     bindR (transcript (sort_key mr_sequence (mt_messages t)) 0) (\<lambda>stored.
     if list_ex is_custom appended then js_error ''Lifecycle messages must not enter model context.''
     else let input = model_request config sessionId (stored @ appended) in
       if json_bytes input > MAX_OPERATION_INPUT_BYTES
       then harness_failure ''OPERATION_INPUT_TOO_LARGE'' ''Conversation and request settings exceed the 8 MiB operation input limit.''
       else Inr input)"

section \<open>harness.ts: planning\<close>

record steering_change =
  sc_eventId :: jstring
  sc_sequence :: int
  sc_message :: json

record mb_changes =
  ch_state :: "mb_state option"
  ch_messages :: "message_change list"
  ch_pending :: "steering_change option"
  ch_promotePending :: bool

record mb_env =
  me_tables :: mb_tables
  me_config :: minimal_bash_config
  me_sessionId :: jstring
  me_operationId :: "jstring \<Rightarrow> jstring res"
  me_JSON_parse :: "jstring \<Rightarrow> json res"

record mb_work =
  w_state :: mb_state
  w_messages :: "message_change list"
  w_pending :: "steering_change option"
  w_promotePending :: bool
  w_operations :: "planned_operation list"
  w_status :: "harness_status option"
  w_calls :: "tool_call list option"

type_synonym 'a plan_act = "(mb_work, 'a) act"

definition set_state :: "(mb_state \<Rightarrow> mb_state) \<Rightarrow> unit plan_act" where
  "set_state f = modifyA (\<lambda>w. w\<lparr>w_state := f (w_state w)\<rparr>)"

definition set_status :: "harness_status \<Rightarrow> unit plan_act" where
  "set_status st = modifyA (\<lambda>w. w\<lparr>w_status := Some st\<rparr>)"

definition opt_text :: "jstring option \<Rightarrow> json" where
  "opt_text x = (case x of None \<Rightarrow> JNull | Some s \<Rightarrow> JStr s)"

definition assertMessageSize :: "json list \<Rightarrow> unit res" where
  "assertMessageSize fs = (if json_bytes (JArr fs) > MAX_OPERATION_OUTCOME_BYTES
     then harness_failure ''MESSAGE_TOO_LARGE'' ''Message and metadata exceed the 1,900,000-byte inline storage limit. The oversized message was not stored.''
     else Inr ())"

text \<open>The result is the local reference \<open>-changes.messages.length\<close>.\<close>

definition append_message :: "message_change \<Rightarrow> int plan_act" where
  "append_message c =
     bindA (liftR (assertMessageSize [mg_message c, (case mg_responseMetadata c of None \<Rightarrow> JNull | Some m \<Rightarrow> m),
       opt_text (mg_runId c), opt_text (mg_eventId c), opt_text (mg_operationId c)])) (\<lambda>_.
     bindA (modifyA (\<lambda>w. w\<lparr>w_messages := w_messages w @ [c]\<rparr>)) (\<lambda>_.
     getA (\<lambda>w. - int (length (w_messages w)))))"

definition plan_operation :: "mb_env \<Rightarrow> jstring \<Rightarrow> operation_definition \<Rightarrow> json \<Rightarrow> jstring plan_act" where
  "plan_operation env key op input =
     bindA (modifyA (\<lambda>w. w\<lparr>w_operations := w_operations w @ [\<lparr>od_provider = od_provider op, od_type = od_type op,
       od_version = od_version op, or_input = input, pn_key = key\<rparr>]\<rparr>)) (\<lambda>_.
     liftR (me_operationId env key))"

definition error_json :: "jstring \<Rightarrow> jstring \<Rightarrow> json" where
  "error_json code message = obj [(''code'', JStr code), (''message'', JStr message)]"

definition fail_run :: "jstring \<Rightarrow> jstring \<Rightarrow> unit plan_act" where
  "fail_run code message =
     bindA (set_status St_failed) (\<lambda>_.
     set_state (\<lambda>s. s\<lparr>ms_phase := Mb_failed, ms_active_operation_id := None, ms_active_assistant_sequence := None,
       ms_next_tool_index := 0, ms_last_error_json := Some (error_json code message), ms_cancel_requested := False\<rparr>))"

definition promoteSteering :: "mb_env \<Rightarrow> nat plan_act" where
  "promoteSteering env =
     (let rows = sort_key sg_input_sequence (mt_pending (me_tables env)) in
      bindA (getA (ms_run_id \<circ> w_state)) (\<lambda>run.
      bindA (forA rows (\<lambda>row. bindA (append_message \<lparr>mg_message = sg_message row, mg_runId = run, mg_inContext = True,
        mg_eventId = Some (sg_event_id row), mg_operationId = None, mg_responseMetadata = None\<rparr>) (\<lambda>_. retA ()))) (\<lambda>_.
      bindA (modifyA (\<lambda>w. w\<lparr>w_promotePending := (w_promotePending w \<or> length rows > 0)\<rparr>)) (\<lambda>_.
      retA (length rows)))))"

definition requestLlm :: "mb_env \<Rightarrow> unit plan_act" where
  "requestLlm env =
     bindA (getA (\<lambda>w. map mg_message (List.filter mg_inContext (w_messages w)))) (\<lambda>appended.
     bindA (liftR (buildLlmInput (me_tables env) (me_config env) (me_sessionId env) appended)) (\<lambda>input.
     bindA (plan_operation env (lit ''llm'') LLM_OPERATION input) (\<lambda>oid.
     set_state (\<lambda>s. s\<lparr>ms_active_operation_id := Some oid, ms_phase := Mb_llm, ms_turn_count := ms_turn_count s + 1,
       ms_active_assistant_sequence := None, ms_next_tool_index := 0\<rparr>))))"

definition finishTurn :: "mb_env \<Rightarrow> bool \<Rightarrow> unit plan_act" where
  "finishTurn env hadTools =
     bindA (set_state (\<lambda>s. s\<lparr>ms_active_operation_id := None, ms_active_assistant_sequence := None,
       ms_next_tool_index := 0\<rparr>)) (\<lambda>_.
     bindA (getA (ms_cancel_requested \<circ> w_state)) (\<lambda>cancel.
     if cancel then
       bindA (set_status St_cancelled) (\<lambda>_.
       set_state (\<lambda>s. s\<lparr>ms_phase := Mb_cancelled, ms_cancel_requested := False\<rparr>))
     else
       bindA (promoteSteering env) (\<lambda>inserted.
       if hadTools \<or> inserted > 0 then requestLlm env
       else bindA (set_state (\<lambda>s. s\<lparr>ms_phase := Mb_idle\<rparr>)) (\<lambda>_. set_status St_idle))))"

definition find_message :: "mb_tables \<Rightarrow> int \<Rightarrow> json res" where
  "find_message t sequence = (case find (\<lambda>r. mr_sequence r = sequence) (mt_messages t) of
     Some r \<Rightarrow> Inr (mr_message r) | None \<Rightarrow> js_error ''Expected exactly one result.'')"

definition currentCalls :: "mb_env \<Rightarrow> tool_call list plan_act" where
  "currentCalls env =
     bindA (getA w_calls) (\<lambda>cached. case cached of
       Some calls \<Rightarrow> retA calls
     | None \<Rightarrow>
         bindA (getA (ms_active_assistant_sequence \<circ> w_state)) (\<lambda>active. case active of
           None \<Rightarrow> liftR (js_error ''Missing active assistant message.'')
         | Some sequence \<Rightarrow>
             bindA (liftR (find_message (me_tables env) sequence)) (\<lambda>message.
             bindA (liftR (toolCalls message)) (\<lambda>calls.
             bindA (modifyA (\<lambda>w. w\<lparr>w_calls := Some calls\<rparr>)) (\<lambda>_. retA calls)))))"

definition tool_result_json :: "jstring \<Rightarrow> json \<Rightarrow> jstring option \<Rightarrow> json \<Rightarrow> json" where
  "tool_result_json callId content error details = obj [(''role'', str ''tool_result''), (''toolName'', str ''bash''),
     (''toolCallId'', JStr callId), (''content'', content), (''details'', details),
     (''outcome'', (case error of None \<Rightarrow> obj [(''status'', str ''success'')]
       | Some m \<Rightarrow> obj [(''status'', str ''error''), (''error'', obj [(''name'', str ''BashError''), (''message'', JStr m)])]))]"

definition toolResult :: "jstring \<Rightarrow> json \<Rightarrow> jstring option \<Rightarrow> json \<Rightarrow> jstring option \<Rightarrow> unit plan_act" where
  "toolResult callId content error details opId =
     bindA (liftR (parseLlmMessage (Some (tool_result_json callId content error details)))) (\<lambda>message.
     bindA (getA (ms_run_id \<circ> w_state)) (\<lambda>run.
     bindA (append_message \<lparr>mg_message = message, mg_runId = run, mg_inContext = True, mg_eventId = None,
       mg_operationId = opId, mg_responseMetadata = None\<rparr>) (\<lambda>_. retA ())))"

definition errorResult :: "jstring \<Rightarrow> jstring \<Rightarrow> json \<Rightarrow> jstring option \<Rightarrow> unit plan_act" where
  "errorResult callId message details opId =
     toolResult callId (JArr [obj [(''type'', str ''text''), (''text'', JStr message)]]) (Some message) details opId"

definition bash_request :: "mb_env \<Rightarrow> tool_call \<Rightarrow> operation_request res" where
  "bash_request env call =
     bindR (me_JSON_parse env (tl_arguments call)) (\<lambda>value.
     bindR (parseBashToolInput (Some value)) (\<lambda>args.
     parseOperationRequest (Some (JObj [(lit ''provider'', JStr (od_provider PI_BASH_OPERATION)),
       (lit ''type'', JStr (od_type PI_BASH_OPERATION)), (lit ''version'', JStr (od_version PI_BASH_OPERATION)),
       (lit ''input'', JObj (bash_fields args @ place_fields \<lparr>pl_machineId = mc_machineId (me_config env),
         pl_cwd = mc_cwd (me_config env)\<rparr>))]))))"

text \<open>\<open>error instanceof SyntaxError || error instanceof ContractException\<close>.\<close>

definition argument_error :: "exn \<Rightarrow> bool" where
  "argument_error e = (case e of SyntaxError m \<Rightarrow> True | ContractException c m \<Rightarrow> True | _ \<Rightarrow> False)"

text \<open>The loop over the calls from \<open>next_tool_index\<close> on.\<close>

fun advance_calls :: "mb_env \<Rightarrow> tool_call list \<Rightarrow> unit plan_act" where
  "advance_calls env [] = finishTurn env True"
| "advance_calls env (call # calls) = (case bash_request env call of
     Inl e \<Rightarrow>
       if \<not> argument_error e then throwA e
       else bindA (errorResult (tl_callId call) (lit ''Invalid bash arguments: '' @ exn_message e)
           (obj [(''executed'', JBool False)]) None) (\<lambda>_.
         bindA (set_state (\<lambda>s. s\<lparr>ms_next_tool_index := ms_next_tool_index s + 1\<rparr>)) (\<lambda>_.
         advance_calls env calls))
   | Inr request \<Rightarrow>
       bindA (plan_operation env (lit ''bash:'' @ tl_callId call) (operation_definition.truncate request) (or_input request)) (\<lambda>oid.
       set_state (\<lambda>s. s\<lparr>ms_active_operation_id := Some oid, ms_phase := Mb_bash\<rparr>)))"

definition advanceTools :: "mb_env \<Rightarrow> unit plan_act" where
  "advanceTools env =
     bindA (currentCalls env) (\<lambda>calls.
     bindA (getA (ms_next_tool_index \<circ> w_state)) (\<lambda>i. advance_calls env (drop i calls)))"

text \<open>\<open>{ ...r, key: v }\<close> and \<open>const { key, ...rest } = r\<close>.\<close>

definition put_field :: "fields \<Rightarrow> string \<Rightarrow> json \<Rightarrow> fields" where
  "put_field r k v = (if field r k = None then r @ [(lit k, v)]
     else map (\<lambda>(k', v'). if k' = lit k then (k', v) else (k', v')) r)"

definition drop_field :: "fields \<Rightarrow> string \<Rightarrow> fields" where
  "drop_field r k = List.filter (\<lambda>(k', v). k' \<noteq> lit k) r"

definition read_response :: "operation_outcome \<Rightarrow> (jstring \<times> fields) res" where
  "read_response outcome = (case outcome of
     Succeeded value \<Rightarrow>
       (let r = (case value of
            JObj r \<Rightarrow> (case field r ''gatewayJobId'' of
              Some (JStr job) \<Rightarrow> bindR (parseLlmResponse (field r ''response'')) (\<lambda>response. Inr (job, response))
            | _ \<Rightarrow> js_error ''Expected a gateway response.'')
          | _ \<Rightarrow> js_error ''Expected a gateway response.'') in
        case r of Inl e \<Rightarrow> Inl (HarnessFailure (lit ''INVALID_LLM_RESPONSE'') (exn_message e)) | Inr x \<Rightarrow> Inr x)
   | Failed og f \<Rightarrow> Inl (HarnessFailure (lit ''LLM_FAILED'') (of_message f))
   | Cancelled \<Rightarrow> harness_failure ''LLM_FAILED'' ''LLM operation was cancelled upstream.'')"

definition INCOMPLETE_REASONS :: "jstring list" where
  "INCOMPLETE_REASONS = map lit [''length'', ''content_filter'', ''pause_turn'']"

text \<open>The checks of a response once its message is kept outside the context.\<close>

definition check_response :: "minimal_bash_config \<Rightarrow> fields \<Rightarrow> tool_call list res" where
  "check_response config response =
     (let message = (case field response ''message'' of Some m \<Rightarrow> m | None \<Rightarrow> JNull);
          stop = text_field (JObj response) ''stopReason'' in
      if text_field message ''provider'' \<noteq> lit ''openai'' \<or> text_field (JObj response) ''modelId'' \<noteq> mc_modelId config
      then harness_failure ''LLM_MODEL_MISMATCH'' ''Response does not match the configured provider/model.''
      else if stop \<in> set INCOMPLETE_REASONS
      then Inl (HarnessFailure (lit ''LLM_INCOMPLETE'') (lit ''Model stopped with '' @ stop
        @ lit ''; no tool calls were executed. The response is retained outside model context.''))
      else bindR (toolCalls message) (\<lambda>calls.
        if (stop = lit ''tool_use'') \<noteq> (calls \<noteq> [])
        then harness_failure ''INVALID_LLM_RESPONSE'' ''Tool calls and stop reason disagree.''
        else Inr calls))"

definition completeLlm :: "mb_env \<Rightarrow> operation_outcome \<Rightarrow> jstring \<Rightarrow> unit plan_act" where
  "completeLlm env outcome opId =
     bindA (liftR (read_response outcome)) (\<lambda>(job, response).
     let message = (case field response ''message'' of Some m \<Rightarrow> m | None \<Rightarrow> JNull);
         metadata = JObj (put_field (drop_field response ''message'') ''gatewayJobId'' (JStr job)) in
     bindA (getA (ms_run_id \<circ> w_state)) (\<lambda>run.
     bindA (append_message \<lparr>mg_message = message, mg_runId = run, mg_inContext = False, mg_eventId = None,
       mg_operationId = Some opId, mg_responseMetadata = Some metadata\<rparr>) (\<lambda>row.
     bindA (liftR (check_response (me_config env) response)) (\<lambda>calls.
     bindA (modifyA (\<lambda>w. w\<lparr>w_messages := (w_messages w)[nat (- row - 1) := (w_messages w ! nat (- row - 1))\<lparr>mg_inContext := True\<rparr>],
       w_calls := Some calls\<rparr>)) (\<lambda>_.
     bindA (set_state (\<lambda>s. s\<lparr>ms_active_operation_id := None\<rparr>)) (\<lambda>_.
     if calls \<noteq> [] then
       bindA (set_state (\<lambda>s. s\<lparr>ms_active_assistant_sequence := Some row, ms_next_tool_index := 0\<rparr>)) (\<lambda>_.
       advanceTools env)
     else finishTurn env False))))))"

definition text_part :: "json \<Rightarrow> bool" where
  "text_part part = (case part of JObj p \<Rightarrow> field p ''type'' = Some (JStr (lit ''text''))
     \<and> (case field p ''text'' of Some (JStr t) \<Rightarrow> True | _ \<Rightarrow> False) | _ \<Rightarrow> False)"

text \<open>The validated fields \<open>isError\<close>, \<open>content\<close> and \<open>details\<close> of a bash result.\<close>

definition read_bash_result :: "json \<Rightarrow> (bool \<times> json list \<times> fields) option" where
  "read_bash_result result = (case result of JObj r \<Rightarrow>
     (case (field r ''isError'', field r ''content'', field r ''details'') of
        (Some (JBool b), Some (JArr xs), Some (JObj d)) \<Rightarrow> if list_all text_part xs then Some (b, xs, d) else None
      | _ \<Rightarrow> None) | _ \<Rightarrow> None)"

definition bash_unknown :: exn where
  "bash_unknown = HarnessFailure (lit ''BASH_EXECUTION_UNKNOWN'') (lit ''Execution outcome is unknown. Inspect the machine before explicitly resuming; the command will not be automatically rerun.'')"

definition bash_invalid_message :: jstring where
  "bash_invalid_message = lit ''Bash result could not be validated. Execution may have occurred; inspect the machine before resuming.''"

text \<open>Records the result of the current call; the value is the failure to throw afterwards, if any.\<close>

definition record_bash_outcome :: "jstring \<Rightarrow> operation_outcome \<Rightarrow> jstring \<Rightarrow> exn option plan_act" where
  "record_bash_outcome callId outcome opId =
     (let invalid = bindA (errorResult callId bash_invalid_message (obj [(''outcomeUnknown'', JBool True)]) (Some opId)) (\<lambda>_.
            retA (Some (HarnessFailure (lit ''INVALID_BASH_RESULT'') bash_invalid_message)));
          failed = (\<lambda>code message. bindA (errorResult callId message (outcome_json outcome) (Some opId)) (\<lambda>_.
            retA (Some (HarnessFailure code message)))) in
      case outcome of
        Succeeded result \<Rightarrow> (case read_bash_result result of
          None \<Rightarrow> invalid
        | Some (isError, content, details) \<Rightarrow>
            catchA
              (bindA (toolResult callId (JArr content) (if isError then Some (lit ''Bash command failed; see tool output.'') else None)
                (JObj details) (Some opId)) (\<lambda>_.
               retA (if field details ''reason'' = Some (JStr (lit ''lost'')) then Some bash_unknown else None)))
              (\<lambda>e. case e of ContractException c m \<Rightarrow> invalid | _ \<Rightarrow> throwA e))
      | Failed og f \<Rightarrow> failed (of_code f) (of_message f)
      | Cancelled \<Rightarrow> failed (lit ''BASH_CANCELLED'') (lit ''Bash operation was cancelled upstream.''))"

definition completeBash :: "mb_env \<Rightarrow> operation_outcome \<Rightarrow> jstring \<Rightarrow> unit plan_act" where
  "completeBash env outcome opId =
     bindA (currentCalls env) (\<lambda>calls.
     bindA (getA (ms_next_tool_index \<circ> w_state)) (\<lambda>i.
     if length calls \<le> i then liftR (js_error ''Missing active bash call.'')
     else
       bindA (record_bash_outcome (tl_callId (calls ! i)) outcome opId) (\<lambda>failure.
       bindA (set_state (\<lambda>s. s\<lparr>ms_active_operation_id := None, ms_next_tool_index := ms_next_tool_index s + 1\<rparr>)) (\<lambda>_.
       case failure of
         Some e \<Rightarrow>
           bindA (forA (drop (Suc i) calls) (\<lambda>skipped. errorResult (tl_callId skipped)
             (lit ''Not executed: the preceding bash operation could not be safely completed.'')
             (obj [(''executed'', JBool False)]) None)) (\<lambda>_. throwA e)
       | None \<Rightarrow> advanceTools env))))"

definition begin_run :: "int \<Rightarrow> unit plan_act" where
  "begin_run sequence =
     bindA (set_status St_running) (\<lambda>_.
     set_state (\<lambda>s. s\<lparr>ms_run_id := Some (lit ''run_'' @ int_text sequence), ms_turn_count := 0,
       ms_last_error_json := None, ms_cancel_requested := False\<rparr>))"

definition payload_field :: "event_body \<Rightarrow> string \<Rightarrow> json res" where
  "payload_field event k = (case ev_payload event of JObj r \<Rightarrow> (case field r k of Some v \<Rightarrow> Inr v
     | None \<Rightarrow> js_error ''TypeError'') | _ \<Rightarrow> js_error ''TypeError'')"

definition handle_message :: "mb_env \<Rightarrow> input_envelope \<Rightarrow> unit plan_act" where
  "handle_message env input =
     bindA (liftR (payload_field (en_event input) ''message'')) (\<lambda>message.
     bindA (getA (ms_phase \<circ> w_state)) (\<lambda>phase.
     if phase = Mb_idle then
       bindA (begin_run (en_sequence input)) (\<lambda>_.
       bindA (getA (ms_run_id \<circ> w_state)) (\<lambda>run.
       bindA (append_message \<lparr>mg_message = message, mg_runId = run, mg_inContext = True,
         mg_eventId = Some (en_eventId input), mg_operationId = None, mg_responseMetadata = None\<rparr>) (\<lambda>_.
       requestLlm env)))
     else
       bindA (liftR (assertMessageSize [message, JStr (en_eventId input)])) (\<lambda>_.
       modifyA (\<lambda>w. w\<lparr>w_pending := Some \<lparr>sc_eventId = en_eventId input, sc_sequence = en_sequence input,
         sc_message = message\<rparr>\<rparr>))))"

definition handle_cancel :: "input_envelope \<Rightarrow> unit plan_act" where
  "handle_cancel input =
     bindA (liftR (payload_field (en_event input) ''runId'')) (\<lambda>runId.
     bindA (getA w_state) (\<lambda>s.
     whenA (runId = opt_text (ms_run_id s) \<and> ms_run_id s \<noteq> None \<and> (ms_phase s = Mb_llm \<or> ms_phase s = Mb_bash) \<and> \<not> ms_cancel_requested s)
       (bindA (set_status St_cancelling) (\<lambda>_. set_state (\<lambda>s. s\<lparr>ms_cancel_requested := True\<rparr>)))))"

definition handle_resume :: "mb_env \<Rightarrow> input_envelope \<Rightarrow> unit plan_act" where
  "handle_resume env input =
     bindA (getA (ms_phase \<circ> w_state)) (\<lambda>phase.
     whenA (phase = Mb_cancelled \<or> phase = Mb_failed)
       (bindA (begin_run (en_sequence input)) (\<lambda>_.
        bindA (promoteSteering env) (\<lambda>_. requestLlm env))))"

definition handle_completed :: "mb_env \<Rightarrow> input_envelope \<Rightarrow> unit plan_act" where
  "handle_completed env input =
     bindA (liftR (read_completed (en_event input))) (\<lambda>c.
     bindA (getA w_state) (\<lambda>s.
     whenA (Some (ce_operationId c) = ms_active_operation_id s)
       (case ms_phase s of
          Mb_llm \<Rightarrow> completeLlm env (ce_outcome c) (ce_operationId c)
        | Mb_bash \<Rightarrow> completeBash env (ce_outcome c) (ce_operationId c)
        | _ \<Rightarrow> liftR (js_error ''Completion arrived without an active model turn.''))))"

definition handle_event :: "mb_env \<Rightarrow> input_envelope \<Rightarrow> unit plan_act" where
  "handle_event env input =
     (let ty = ev_type (en_event input) in
      if ty = lit ''minimal_bash.message'' then handle_message env input
      else if ty = lit ''minimal_bash.cancel'' then handle_cancel input
      else if ty = lit ''minimal_bash.resume'' then handle_resume env input
      else if ty = COMPLETED_EVENT then handle_completed env input
      else retA ())"

definition start_work :: "mb_state \<Rightarrow> mb_work" where
  "start_work s = \<lparr>w_state = s, w_messages = [], w_pending = None, w_promotePending = False, w_operations = [],
     w_status = None, w_calls = None\<rparr>"

text \<open>\<open>try { ... } catch (error) { if (!(error instanceof HarnessFailure)) throw error; fail(...) }\<close>.\<close>

definition guarded :: "unit plan_act \<Rightarrow> unit plan_act" where
  "guarded m = catchA m (\<lambda>e. case e of HarnessFailure c msg \<Rightarrow> fail_run c msg | _ \<Rightarrow> throwA e)"

definition mb_handle :: "mb_env \<Rightarrow> input_envelope \<Rightarrow> mb_changes transition_plan res" where
  "mb_handle env input =
     bindR (readState (me_tables env)) (\<lambda>s.
     case guarded (handle_event env input) (start_work s) of
       (Inl e, w) \<Rightarrow> Inl e
     | (Inr _, w) \<Rightarrow> Inr \<lparr>tp_changes = \<lparr>ch_state = (if w_state w \<noteq> s then Some (w_state w) else None),
         ch_messages = w_messages w, ch_pending = w_pending w, ch_promotePending = w_promotePending w\<rparr>,
         tp_operations = w_operations w, tp_status = w_status w\<rparr>)"

section \<open>harness.ts: applying\<close>

definition save_state :: "mb_tables \<Rightarrow> mb_state \<Rightarrow> mb_tables" where
  "save_state t s = t\<lparr>mt_state := map_option (\<lambda>_. s) (mt_state t)\<rparr>"

fun append_all :: "message_row list \<Rightarrow> message_change list \<Rightarrow> message_row list \<times> int list" where
  "append_all rows [] = (rows, [])"
| "append_all rows (c # cs) =
     (let rows' = appendMessage rows c; (rows'', qs) = append_all rows' cs in (rows'', next_sequence rows # qs))"

definition insert_steering :: "steering_row list \<Rightarrow> steering_change \<Rightarrow> steering_row list res" where
  "insert_steering rows p = bindR (constraint (sc_eventId p \<notin> sg_event_id ` set rows
       \<and> sc_sequence p \<notin> sg_input_sequence ` set rows)) (\<lambda>_.
     Inr (rows @ [\<lparr>sg_event_id = sc_eventId p, sg_input_sequence = sc_sequence p, sg_message = sc_message p\<rparr>]))"

definition resolve_sequence :: "int list \<Rightarrow> mb_state \<Rightarrow> mb_state" where
  "resolve_sequence sequences s = (case ms_active_assistant_sequence s of
     Some q \<Rightarrow> if q < 0 then s\<lparr>ms_active_assistant_sequence := Some (sequences ! nat (- q - 1))\<rparr> else s
   | None \<Rightarrow> s)"

definition mb_apply :: "mb_changes \<Rightarrow> (mb_tables, unit) act" where
  "mb_apply changes =
     bindA (getA (\<lambda>t. append_all (mt_messages t) (ch_messages changes))) (\<lambda>(rows, sequences).
     bindA (modifyA (\<lambda>t. t\<lparr>mt_messages := rows\<rparr>)) (\<lambda>_.
     bindA (whenA (ch_promotePending changes) (modifyA (\<lambda>t. t\<lparr>mt_pending := []\<rparr>))) (\<lambda>_.
     bindA (case ch_pending changes of None \<Rightarrow> retA ()
       | Some p \<Rightarrow> bindA (getA mt_pending) (\<lambda>ps. bindA (liftR (insert_steering ps p)) (\<lambda>ps'.
           modifyA (\<lambda>t. t\<lparr>mt_pending := ps'\<rparr>)))) (\<lambda>_.
     case ch_state changes of None \<Rightarrow> retA ()
     | Some s \<Rightarrow> modifyA (\<lambda>t. save_state t (resolve_sequence sequences s))))))"

definition mb_initialize :: "(mb_tables, unit) act" where
  "mb_initialize =
     bindA (getA mt_state) (\<lambda>s.
     bindA (liftR (constraint (s = None))) (\<lambda>_.
     modifyA (\<lambda>t. t\<lparr>mt_state := Some \<lparr>ms_phase = Mb_idle, ms_run_id = None, ms_active_operation_id = None,
       ms_active_assistant_sequence = None, ms_next_tool_index = 0, ms_turn_count = 0, ms_cancel_requested = False,
       ms_last_error_json = None\<rparr>\<rparr>)))"

text \<open>The harness as the runtime sees it.\<close>

definition minimalBashHarness :: "url_parser \<Rightarrow> (jstring \<Rightarrow> json res) \<Rightarrow> (mb_tables, mb_changes) harness" where
  "minimalBashHarness new_URL JSON_parse = \<lparr>h_identity = MINIMAL_BASH_IDENTITY, h_schema = minimalBashSchema,
     h_operations = [LLM_OPERATION, PI_BASH_OPERATION],
     h_parseConfig = (\<lambda>v. bindR (parseMinimalBashConfig new_URL v) (\<lambda>c. Inr (mb_config_json c))),
     h_parseInput = parseMinimalBashInput,
     h_initialize = (\<lambda>ctx. mb_initialize),
     h_handle = (\<lambda>input ctx oid t. mb_handle \<lparr>me_tables = t, me_config = mb_read_config (hc_config ctx),
       me_sessionId = si_sessionId (hc_session ctx), me_operationId = oid, me_JSON_parse = JSON_parse\<rparr> input),
     h_apply = (\<lambda>changes ctx. mb_apply changes)\<rparr>"

end
