(* ===== verification/Hoare.thy ===== *)
theory Hoare
  imports Prelude
begin

text \<open>
  Weakest preconditions for the stateful actions. \<open>wp m Q E s\<close> holds when running \<open>m\<close> in the state \<open>s\<close>
  either returns a value with \<open>Q\<close> or throws an exception with \<open>E\<close>. The equations \<open>wp_simps\<close> compute the
  precondition of straight-line code; a procedure is used through its specification by \<open>wp_call\<close>; a
  loop needs an invariant (\<open>wp_forA\<close>).
\<close>

named_theorems wp_simps \<open>weakest preconditions of the primitive actions\<close>

definition wp :: "('s, 'a) act \<Rightarrow> ('a \<Rightarrow> 's \<Rightarrow> bool) \<Rightarrow> (exn \<Rightarrow> 's \<Rightarrow> bool) \<Rightarrow> 's \<Rightarrow> bool" where
  "wp m Q E s = (case m s of (Inl e, t) \<Rightarrow> E e t | (Inr a, t) \<Rightarrow> Q a t)"

lemma wp_retA [wp_simps]: "wp (retA a) Q E s = Q a s"
  by (simp add: wp_def retA_def)

lemma wp_throwA [wp_simps]: "wp (throwA e) Q E s = E e s"
  by (simp add: wp_def throwA_def)

lemma wp_getA [wp_simps]: "wp (getA f) Q E s = Q (f s) s"
  by (simp add: wp_def getA_def)

lemma wp_modifyA [wp_simps]: "wp (modifyA f) Q E s = Q () (f s)"
  by (simp add: wp_def modifyA_def)

lemma wp_liftR [wp_simps]: "wp (liftR r) Q E s = (case r of Inl e \<Rightarrow> E e s | Inr a \<Rightarrow> Q a s)"
  by (simp add: wp_def liftR_def)

lemma wp_bindA [wp_simps]: "wp (bindA m f) Q E s = wp m (\<lambda>a. wp (f a) Q E) E s"
  by (simp add: wp_def bindA_def split: prod.splits sum.splits)

lemma wp_catchA [wp_simps]: "wp (catchA m h) Q E s = wp m Q (\<lambda>e. wp (h e) Q E) s"
  by (simp add: wp_def catchA_def split: prod.splits sum.splits)

lemma wp_whenA [wp_simps]: "wp (whenA b m) Q E s = (if b then wp m Q E s else Q () s)"
  by (simp add: whenA_def wp_retA)

lemma wp_if [wp_simps]: "wp (if b then m else n) Q E s = (if b then wp m Q E s else wp n Q E s)"
  by simp

lemma wp_case_option [wp_simps]:
  "wp (case x of None \<Rightarrow> m | Some a \<Rightarrow> f a) Q E s = (case x of None \<Rightarrow> wp m Q E s | Some a \<Rightarrow> wp (f a) Q E s)"
  by (simp split: option.split)

lemma wp_case_prod [wp_simps]: "wp (case x of (a, b) \<Rightarrow> f a b) Q E s = (case x of (a, b) \<Rightarrow> wp (f a b) Q E s)"
  by (simp split: prod.split)

lemma wp_case_sum [wp_simps]:
  "wp (case x of Inl e \<Rightarrow> g e | Inr a \<Rightarrow> f a) Q E s = (case x of Inl e \<Rightarrow> wp (g e) Q E s | Inr a \<Rightarrow> wp (f a) Q E s)"
  by (simp split: sum.split)

lemma wp_call:
  "wp m Q' E' s \<Longrightarrow> (\<And>a t. Q' a t \<Longrightarrow> Q a t) \<Longrightarrow> (\<And>e t. E' e t \<Longrightarrow> E e t) \<Longrightarrow> wp m Q E s"
  by (auto simp: wp_def split: prod.splits sum.splits)

lemma wp_conj: "wp m Q E s \<Longrightarrow> wp m Q' E' s \<Longrightarrow> wp m (\<lambda>a t. Q a t \<and> Q' a t) (\<lambda>e t. E e t \<and> E' e t) s"
  by (auto simp: wp_def split: prod.splits sum.splits)

lemma wp_Inr: "wp m Q E s \<Longrightarrow> m s = (Inr a, t) \<Longrightarrow> Q a t"
  by (simp add: wp_def)

lemma wp_Inl: "wp m Q E s \<Longrightarrow> m s = (Inl e, t) \<Longrightarrow> E e t"
  by (simp add: wp_def)

lemma wpI: "(\<And>a t. m s = (Inr a, t) \<Longrightarrow> Q a t) \<Longrightarrow> (\<And>e t. m s = (Inl e, t) \<Longrightarrow> E e t) \<Longrightarrow> wp m Q E s"
  by (auto simp: wp_def split: prod.splits sum.splits)

text \<open>The invariant of a loop is indexed by the elements already visited.\<close>

lemma wp_forA_from:
  assumes step: "\<And>done x rest s. done @ x # rest = all \<Longrightarrow> I done s \<Longrightarrow> wp (f x) (\<lambda>_. I (done @ [x])) E s"
    and all: "before @ xs = all" and inv: "I before s"
  shows "wp (forA xs f) (\<lambda>_. I all) E s"
  using all inv
proof (induction xs arbitrary: before s)
  case Nil
  then show ?case by (simp add: wp_retA)
next
  case (Cons x xs)
  from Cons.prems have "wp (f x) (\<lambda>_. I (before @ [x])) E s" by (intro step) auto
  then have "wp (f x) (\<lambda>_. wp (forA xs f) (\<lambda>_. I all) E) E s"
    by (rule wp_call) (use Cons in auto)
  then show ?case by (simp add: wp_bindA)
qed

lemma wp_forA:
  assumes "\<And>done x rest s. done @ x # rest = xs \<Longrightarrow> I done s \<Longrightarrow> wp (f x) (\<lambda>_. I (done @ [x])) E s"
    and "I [] s"
  shows "wp (forA xs f) (\<lambda>_. I xs) E s"
  by (rule wp_forA_from [OF assms(1) append_Nil assms(2)])

end
