(* ===== verification/MinimalBashSafety.thy ===== *)
theory MinimalBashSafety
  imports MinimalBash Hoare
begin

text \<open>
  The invariant of the minimal-bash harness. \<open>mb_ok\<close> is the well-formedness of its tables and \<open>plan_ok\<close>
  of the work of one planned transition. Each planning function has a specification in terms of \<open>wp\<close>;
  \<open>mb_handle_ok\<close> joins them, and \<open>mb_apply_ok\<close> shows that applying a planned transition to the tables it
  was planned on keeps \<open>mb_ok\<close>.
\<close>

section \<open>Invariants\<close>

definition mb_running :: "mb_state \<Rightarrow> bool" where
  "mb_running s \<longleftrightarrow> ms_phase s = Mb_llm \<or> ms_phase s = Mb_bash"

text \<open>\<open>calls q cs\<close>: the assistant message of the reference \<open>q\<close> has the tool calls \<open>cs\<close>.\<close>

definition state_ok :: "(int \<Rightarrow> tool_call list \<Rightarrow> bool) \<Rightarrow> mb_state \<Rightarrow> bool" where
  "state_ok calls s \<longleftrightarrow>
     (ms_active_operation_id s \<noteq> None \<longleftrightarrow> mb_running s)
   \<and> (mb_running s \<longrightarrow> ms_run_id s \<noteq> None)
   \<and> (ms_cancel_requested s \<longrightarrow> mb_running s)
   \<and> (ms_last_error_json s \<noteq> None \<longleftrightarrow> ms_phase s = Mb_failed)
   \<and> (if ms_phase s = Mb_bash
      then \<exists>q cs. ms_active_assistant_sequence s = Some q \<and> calls q cs \<and> ms_next_tool_index s < length cs
      else ms_active_assistant_sequence s = None \<and> ms_next_tool_index s = 0)"

definition stored_calls :: "message_row list \<Rightarrow> int \<Rightarrow> tool_call list \<Rightarrow> bool" where
  "stored_calls rows q cs \<longleftrightarrow> (\<exists>r \<in> set rows. mr_sequence r = q \<and> toolCalls (mr_message r) = Inr cs)"

definition planned_calls :: "message_row list \<Rightarrow> message_change list \<Rightarrow> int \<Rightarrow> tool_call list \<Rightarrow> bool" where
  "planned_calls rows msgs q cs \<longleftrightarrow> (if q < 0
     then nat (- q - 1) < length msgs \<and> toolCalls (mg_message (msgs ! nat (- q - 1))) = Inr cs
     else stored_calls rows q cs)"

definition mb_ok :: "mb_tables \<Rightarrow> bool" where
  "mb_ok t \<longleftrightarrow> (\<exists>s. mt_state t = Some s \<and> state_ok (stored_calls (mt_messages t)) s
       \<and> (ms_phase s = Mb_idle \<longrightarrow> mt_pending t = []))
     \<and> sorted_wrt (<) (0 # map mr_sequence (mt_messages t))"

definition promoted :: "jstring option \<Rightarrow> steering_row \<Rightarrow> message_change" where
  "promoted run row = \<lparr>mg_message = sg_message row, mg_runId = run, mg_inContext = True,
     mg_eventId = Some (sg_event_id row), mg_operationId = None, mg_responseMetadata = None\<rparr>"

definition steering_queue :: "mb_tables \<Rightarrow> steering_row list" where
  "steering_queue t = sort_key sg_input_sequence (mt_pending t)"

text \<open>The steering table is emptied only by a transition that appends all of it, in order.\<close>

definition carries :: "mb_tables \<Rightarrow> message_change list \<Rightarrow> bool" where
  "carries t ms \<longleftrightarrow> (\<exists>pre run post. ms = pre @ map (promoted run) (steering_queue t) @ post)"

definition promotion_ok :: "mb_tables \<Rightarrow> mb_work \<Rightarrow> bool" where
  "promotion_ok t w \<longleftrightarrow> (w_promotePending w \<longrightarrow> carries t (w_messages w))"

lemma carries_append: "carries t ms \<Longrightarrow> carries t (ms @ ns)"
  unfolding carries_def by (metis append.assoc)

lemma carries_promoted: "carries t (ms @ map (promoted run) (steering_queue t))"
  unfolding carries_def by (metis append_Nil2)

definition operations_ok :: "mb_env \<Rightarrow> mb_state \<Rightarrow> mb_work \<Rightarrow> bool" where
  "operations_ok env s w \<longleftrightarrow>
     (w_operations w = [] \<and> ms_active_operation_id (w_state w) \<in> {None, ms_active_operation_id s})
   \<or> (\<exists>op oid. w_operations w = [op] \<and> me_operationId env (pn_key op) = Inr oid
       \<and> ms_active_operation_id (w_state w) = Some oid)"

definition plan_ok :: "mb_env \<Rightarrow> mb_state \<Rightarrow> mb_work \<Rightarrow> bool" where
  "plan_ok env s w \<longleftrightarrow>
     state_ok (planned_calls (mt_messages (me_tables env)) (w_messages w)) (w_state w)
   \<and> (ms_phase (w_state w) = Mb_idle \<longrightarrow> w_pending w = None \<and> (w_promotePending w \<or> mt_pending (me_tables env) = []))
   \<and> promotion_ok (me_tables env) w
   \<and> operations_ok env s w"

definition harness_failing :: "exn \<Rightarrow> bool" where
  "harness_failing e \<longleftrightarrow> (\<exists>c m. e = HarnessFailure c m)"

text \<open>What holds of the work when a run fails: nothing was planned yet.\<close>

definition stopped :: "mb_env \<Rightarrow> exn \<Rightarrow> mb_work \<Rightarrow> bool" where
  "stopped env e w \<longleftrightarrow> (harness_failing e \<longrightarrow> w_operations w = [] \<and> promotion_ok (me_tables env) w)"

text \<open>The runtime's operation identities never fail with a \<open>HarnessFailure\<close>.\<close>

definition plain_ids :: "mb_env \<Rightarrow> bool" where
  "plain_ids env \<longleftrightarrow> (\<forall>key e. me_operationId env key = Inl e \<longrightarrow> \<not> harness_failing e)"

text \<open>An open turn: nothing planned, no steering taken, no error recorded.\<close>

definition open_turn :: "mb_work \<Rightarrow> bool" where
  "open_turn w \<longleftrightarrow> w_operations w = [] \<and> w_pending w = None \<and> \<not> w_promotePending w
     \<and> ms_last_error_json (w_state w) = None \<and> ms_run_id (w_state w) \<noteq> None"

section \<open>Specifications of the planning functions\<close>

definition adds :: "mb_work \<Rightarrow> message_change list \<Rightarrow> mb_work" where
  "adds w ms = w\<lparr>w_messages := w_messages w @ ms\<rparr>"

lemma adds_simps [simp]:
  "w_messages (adds w ms) = w_messages w @ ms" "w_state (adds w ms) = w_state w"
  "w_operations (adds w ms) = w_operations w" "w_pending (adds w ms) = w_pending w"
  "w_promotePending (adds w ms) = w_promotePending w" "w_calls (adds w ms) = w_calls w"
  "w_status (adds w ms) = w_status w" "adds w [] = w" "adds (adds w ms) ns = adds w (ms @ ns)"
  by (simp_all add: adds_def)

lemma append_message_spec:
  "wp (append_message c) (\<lambda>r t. r = - int (length (w_messages w)) - 1 \<and> t = adds w [c]) (\<lambda>e t. t = w) w"
  by (simp add: append_message_def wp_simps adds_def split: sum.split)

lemma toolResult_spec:
  "wp (toolResult callId content error details opId) (\<lambda>_ t. \<exists>m. t = adds w [m]) (\<lambda>e t. t = w) w"
  unfolding toolResult_def
  by (auto simp: wp_simps split: sum.split intro!: wp_call [OF append_message_spec])

lemma errorResult_spec:
  "wp (errorResult callId message details opId) (\<lambda>_ t. \<exists>m. t = adds w [m]) (\<lambda>e t. t = w) w"
  unfolding errorResult_def by (rule toolResult_spec)

lemma errorResults_spec:
  "wp (forA xs (\<lambda>x. errorResult (f x) (g x) (d x) (o' x))) (\<lambda>_ t. \<exists>ms. t = adds w ms) (\<lambda>e t. \<exists>ms. t = adds w ms) w"
proof (rule wp_forA [where I = "\<lambda>_ t. \<exists>ms. t = adds w ms"])
  show "\<exists>ms. w = adds w ms" by (rule exI [of _ "[]"]) simp
  fix s :: mb_work and x
  assume "\<exists>ms. s = adds w ms"
  then show "wp (errorResult (f x) (g x) (d x) (o' x)) (\<lambda>_ t. \<exists>ms. t = adds w ms) (\<lambda>e t. \<exists>ms. t = adds w ms) s"
    by (intro wp_call [OF errorResult_spec]) (auto intro: exI [of _ "ms @ [m]" for ms m])
qed

lemma promoteSteering_spec:
  "wp (promoteSteering env)
     (\<lambda>n t. n = length (mt_pending (me_tables env))
       \<and> t = (adds w (map (promoted (ms_run_id (w_state w))) (steering_queue (me_tables env))))
           \<lparr>w_promotePending := (w_promotePending w \<or> mt_pending (me_tables env) \<noteq> [])\<rparr>)
     (\<lambda>e t. \<exists>ms. t = adds w ms) w"
proof -
  let ?q = "steering_queue (me_tables env)"
  let ?p = "promoted (ms_run_id (w_state w))"
  have loop: "wp (forA ?q (\<lambda>row. bindA (append_message (?p row)) (\<lambda>_. retA ())))
      (\<lambda>_ t. t = adds w (map ?p ?q)) (\<lambda>e t. \<exists>ms. t = adds w ms) w"
    by (rule wp_forA [where I = "\<lambda>xs t. t = adds w (map ?p xs)"])
      (auto simp: wp_simps intro!: wp_call [OF append_message_spec])
  show ?thesis
    unfolding promoteSteering_def Let_def
    using loop
    by (auto simp: wp_simps promoted_def steering_queue_def elim!: wp_call)
qed

definition plans :: "mb_env \<Rightarrow> jstring \<Rightarrow> mb_work \<Rightarrow> (jstring \<Rightarrow> mb_state \<Rightarrow> mb_state) \<Rightarrow> mb_work \<Rightarrow> bool" where
  "plans env key w f t \<longleftrightarrow> (\<exists>op oid. pn_key op = key \<and> me_operationId env key = Inr oid
     \<and> t = w\<lparr>w_operations := w_operations w @ [op], w_state := f oid (w_state w)\<rparr>)"

lemma plan_operation_spec:
  assumes "plain_ids env"
  shows "wp (bindA (plan_operation env key op input) (\<lambda>oid. set_state (f oid)))
     (\<lambda>_. plans env key w f) (\<lambda>e t. \<not> harness_failing e) w"
proof -
  let ?op = "\<lparr>od_provider = od_provider op, od_type = od_type op, od_version = od_version op, or_input = input, pn_key = key\<rparr>"
  have "plans env key w f (w\<lparr>w_operations := w_operations w @ [?op], w_state := f oid (w_state w)\<rparr>)"
    if "me_operationId env key = Inr oid" for oid
    unfolding plans_def using that by (intro exI [of _ ?op] exI [of _ oid]) simp
  then show ?thesis
    unfolding plan_operation_def set_state_def
    using assms by (auto simp: wp_simps plain_ids_def split: sum.split)
qed

definition llm_state :: "jstring \<Rightarrow> mb_state \<Rightarrow> mb_state" where
  "llm_state oid s = s\<lparr>ms_active_operation_id := Some oid, ms_phase := Mb_llm, ms_turn_count := ms_turn_count s + 1,
     ms_active_assistant_sequence := None, ms_next_tool_index := 0\<rparr>"

lemma requestLlm_spec:
  assumes "plain_ids env"
  shows "wp (requestLlm env) (\<lambda>_. plans env (lit ''llm'') w llm_state) (\<lambda>e t. harness_failing e \<longrightarrow> t = w) w"
proof -
  have "wp (bindA (plan_operation env (lit ''llm'') LLM_OPERATION input) (\<lambda>oid. set_state (llm_state oid)))
     (\<lambda>_. plans env (lit ''llm'') w llm_state) (\<lambda>e t. harness_failing e \<longrightarrow> t = w) w" for input
    by (rule wp_call [OF plan_operation_spec [OF assms]]) auto
  then show ?thesis
    unfolding requestLlm_def llm_state_def by (simp add: wp_simps split: sum.split)
qed

section \<open>Turns\<close>

lemma promotion_ok_adds: "promotion_ok t w \<Longrightarrow> promotion_ok t (adds w ms)"
  unfolding promotion_ok_def by (simp add: carries_append)

lemma planned_calls_adds: "planned_calls rows msgs q cs \<Longrightarrow> planned_calls rows (msgs @ ms) q cs"
  by (auto simp: planned_calls_def nth_append split: if_splits)

lemma open_turn_stopped: "open_turn w \<Longrightarrow> stopped env e (adds w ms)"
  by (simp add: open_turn_def stopped_def promotion_ok_def)

lemma plans_llm_ok:
  assumes "plans env (lit ''llm'') w llm_state t" and "w_operations w = []" and "promotion_ok (me_tables env) w"
    and "ms_last_error_json (w_state w) = None" and "ms_run_id (w_state w) \<noteq> None"
  shows "plan_ok env s t"
  using assms
  by (auto simp: plans_def llm_state_def plan_ok_def state_ok_def mb_running_def promotion_ok_def operations_ok_def)

lemma promoted_open:
  assumes "open_turn w"
  shows "promotion_ok t ((adds w (map (promoted run) (steering_queue t)))\<lparr>w_promotePending := b\<rparr>)"
  by (simp add: promotion_ok_def carries_promoted)

lemma finishTurn_spec:
  assumes ids: "plain_ids env" and "open_turn w"
  shows "wp (finishTurn env hadTools) (\<lambda>_. plan_ok env s) (stopped env) w"
proof -
  define w1 where "w1 = w\<lparr>w_state := (w_state w)\<lparr>ms_active_operation_id := None, ms_active_assistant_sequence := None,
       ms_next_tool_index := 0\<rparr>\<rparr>"
  have w1: "open_turn w1" using assms(2) by (simp add: open_turn_def w1_def)
  let ?w2 = "(adds w1 (map (promoted (ms_run_id (w_state w1))) (steering_queue (me_tables env))))
           \<lparr>w_promotePending := (w_promotePending w1 \<or> mt_pending (me_tables env) \<noteq> [])\<rparr>"
  have stop: "stopped env e ?w2" for e using w1 promoted_open [OF w1] by (simp add: stopped_def open_turn_def)
  have request: "wp (requestLlm env) (\<lambda>_. plan_ok env s) (stopped env) ?w2"
    by (rule wp_call [OF requestLlm_spec [OF ids]])
      (use w1 promoted_open [OF w1] stop in \<open>auto intro!: plans_llm_ok simp: open_turn_def stopped_def\<close>)
  have idle: "plan_ok env s (?w2\<lparr>w_state := (w_state ?w2)\<lparr>ms_phase := Mb_idle\<rparr>, w_status := Some St_idle\<rparr>)"
    if "mt_pending (me_tables env) = []" and "\<not> ms_cancel_requested (w_state w1)"
    using that w1
    by (simp add: plan_ok_def state_ok_def mb_running_def promotion_ok_def operations_ok_def open_turn_def w1_def)
  have cancelled: "plan_ok env s (w1\<lparr>w_status := Some St_cancelled,
      w_state := (w_state w1)\<lparr>ms_phase := Mb_cancelled, ms_cancel_requested := False\<rparr>\<rparr>)"
    using w1 by (simp add: plan_ok_def state_ok_def mb_running_def promotion_ok_def operations_ok_def open_turn_def w1_def)
  have "wp (promoteSteering env) (\<lambda>inserted. wp (if hadTools \<or> inserted > 0 then requestLlm env
        else bindA (set_state (\<lambda>s. s\<lparr>ms_phase := Mb_idle\<rparr>)) (\<lambda>_. set_status St_idle)) (\<lambda>_. plan_ok env s) (stopped env))
      (stopped env) w1" if "\<not> ms_cancel_requested (w_state w1)"
    by (rule wp_call [OF promoteSteering_spec])
      (use request idle that open_turn_stopped [OF w1] in \<open>auto simp: wp_simps set_state_def set_status_def\<close>)
  with cancelled show ?thesis
    unfolding finishTurn_def by (simp add: wp_simps set_state_def set_status_def w1_def [symmetric])
qed

text \<open>The open tool turn: the calls still to be advanced are those from the next index on.\<close>

definition tool_turn :: "mb_env \<Rightarrow> tool_call list \<Rightarrow> mb_work \<Rightarrow> bool" where
  "tool_turn env cs w \<longleftrightarrow> open_turn w \<and> (\<exists>q. ms_active_assistant_sequence (w_state w) = Some q
     \<and> planned_calls (mt_messages (me_tables env)) (w_messages w) q cs)"

definition bash_state :: "jstring \<Rightarrow> mb_state \<Rightarrow> mb_state" where
  "bash_state oid s = s\<lparr>ms_active_operation_id := Some oid, ms_phase := Mb_bash\<rparr>"

lemma tool_turn_adds: "tool_turn env cs w \<Longrightarrow> tool_turn env cs (adds w ms)"
  by (auto simp: tool_turn_def open_turn_def intro: planned_calls_adds)

lemma plans_bash_ok:
  assumes "plans env key w bash_state t" and "tool_turn env cs w" and "ms_next_tool_index (w_state w) < length cs"
  shows "plan_ok env s t"
  using assms
  by (auto simp: plans_def bash_state_def plan_ok_def state_ok_def mb_running_def promotion_ok_def operations_ok_def
      tool_turn_def open_turn_def)

lemma advance_calls_spec:
  assumes ids: "plain_ids env"
  shows "tool_turn env cs w \<Longrightarrow> rest = drop (ms_next_tool_index (w_state w)) cs \<Longrightarrow>
    wp (advance_calls env rest) (\<lambda>_. plan_ok env s) (stopped env) w"
proof (induction rest arbitrary: w)
  case Nil
  then show ?case using finishTurn_spec [OF ids] by (simp add: tool_turn_def)
next
  case (Cons call rest)
  then have idx: "ms_next_tool_index (w_state w) < length cs"
    by (metis drop_all list.distinct(1) not_le)
  have open': "open_turn w" using Cons.prems by (simp add: tool_turn_def)
  show ?case
  proof (cases "bash_request env call")
    case (Inr request)
    have "wp (bindA (plan_operation env (lit ''bash:'' @ tl_callId call) (operation_definition.truncate request) (or_input request))
        (\<lambda>oid. set_state (bash_state oid))) (\<lambda>_. plan_ok env s) (stopped env) w"
      by (rule wp_call [OF plan_operation_spec [OF ids]])
        (use Cons.prems idx in \<open>auto intro: plans_bash_ok simp: stopped_def\<close>)
    with Inr show ?thesis by (simp add: bash_state_def [abs_def])
  next
    case (Inl e)
    have "wp (errorResult (tl_callId call) m d None) (\<lambda>_. wp (bindA (set_state (\<lambda>s. s\<lparr>ms_next_tool_index := ms_next_tool_index s + 1\<rparr>))
        (\<lambda>_. advance_calls env rest)) (\<lambda>_. plan_ok env s) (stopped env)) (stopped env) w" for m d
    proof (rule wp_call [OF errorResult_spec])
      fix a t
      assume "\<exists>m. t = adds w [m]"
      then obtain m where t: "t = adds w [m]" ..
      let ?t = "t\<lparr>w_state := (w_state t)\<lparr>ms_next_tool_index := ms_next_tool_index (w_state t) + 1\<rparr>\<rparr>"
      have "tool_turn env cs ?t" using tool_turn_adds [OF Cons.prems(1)] by (simp add: t tool_turn_def open_turn_def)
      moreover have "rest = drop (ms_next_tool_index (w_state ?t)) cs"
        using Cons.prems(2) by (simp add: t) (metis drop_Suc list.sel(3) tl_drop)
      ultimately have "wp (advance_calls env rest) (\<lambda>_. plan_ok env s) (stopped env) ?t" by (rule Cons.IH)
      then show "wp (bindA (set_state (\<lambda>s. s\<lparr>ms_next_tool_index := ms_next_tool_index s + 1\<rparr>))
        (\<lambda>_. advance_calls env rest)) (\<lambda>_. plan_ok env s) (stopped env) t"
        by (simp add: wp_simps set_state_def)
    next
      fix e t
      assume "t = w"
      then show "stopped env e t" using open_turn_stopped [OF open', of env e "[]"] by simp
    qed
    moreover have "stopped env e w" using open_turn_stopped [OF open', of env e "[]"] by simp
    ultimately show ?thesis using Inl by (simp add: wp_simps)
  qed
qed

lemma find_message_stored:
  assumes "sorted_wrt (<) (0 # map mr_sequence (mt_messages t))" and "stored_calls (mt_messages t) q cs"
  shows "\<exists>m. find_message t q = Inr m \<and> toolCalls m = Inr cs"
proof -
  from assms(2) obtain r where r: "r \<in> set (mt_messages t)" "mr_sequence r = q" "toolCalls (mr_message r) = Inr cs"
    by (auto simp: stored_calls_def)
  have "distinct (map mr_sequence (mt_messages t))"
    using assms(1) by (simp add: strict_sorted_iff)
  then have uniq: "r' = r" if "r' \<in> set (mt_messages t)" "mr_sequence r' = q" for r'
    using that r by (auto simp: distinct_map inj_on_def)
  obtain r' where f: "find (\<lambda>r. mr_sequence r = q) (mt_messages t) = Some r'"
    using r by (cases "find (\<lambda>r. mr_sequence r = q) (mt_messages t)") (auto simp: find_None_iff)
  then have "r' = r" using uniq by (auto simp: find_Some_iff)
  with f r show ?thesis by (simp add: find_message_def)
qed

lemma advanceTools_spec:
  assumes ids: "plain_ids env" and turn: "tool_turn env cs w" and calls: "w_calls w = Some cs"
  shows "wp (advanceTools env) (\<lambda>_. plan_ok env s) (stopped env) w"
  unfolding advanceTools_def currentCalls_def
  using advance_calls_spec [OF ids turn refl] calls by (simp add: wp_simps)

section \<open>Completions\<close>

lemma completeLlm_spec:
  assumes ids: "plain_ids env" and w: "open_turn w" "w_messages w = []"
  shows "wp (completeLlm env outcome opId) (\<lambda>_. plan_ok env s) (stopped env) w"
proof -
  have stop: "stopped env e (adds w ms)" for e ms using open_turn_stopped [OF w(1)] .
  have a: "wp (advanceTools env) (\<lambda>_. plan_ok env s) (stopped env) t"
    if "open_turn t" "w_messages t = [c]" "toolCalls (mg_message c) = Inr calls" "w_calls t = Some calls"
      "ms_active_assistant_sequence (w_state t) = Some (- 1)" for t c calls
    using advanceTools_spec [OF ids _ that(4)] that by (simp add: tool_turn_def planned_calls_def)
  have f: "wp (finishTurn env False) (\<lambda>_. plan_ok env s) (stopped env) t" if "open_turn t" for t
    using finishTurn_spec [OF ids that] .
  have check: "toolCalls (case field response ''message'' of Some m \<Rightarrow> m | None \<Rightarrow> JNull) = Inr calls"
    if "check_response config response = Inr calls" for config response calls
    using that by (auto simp: check_response_def harness_failure_def Let_def bindR_def split: if_splits sum.splits)
  show ?thesis
    unfolding completeLlm_def Let_def set_state_def
    using w by (auto simp: wp_simps stop stop [of _ "[]", simplified] open_turn_def check split: sum.split
        intro!: wp_call [OF append_message_spec] a f)
qed

lemma record_bash_outcome_spec:
  "wp (record_bash_outcome callId outcome opId) (\<lambda>_ t. \<exists>m. t = adds w [m]) (\<lambda>e t. t = w) w"
proof -
  have r: "wp (errorResult c m d p) (\<lambda>_. Q) E w" if "\<And>m. Q (adds w [m])" "\<And>e. E e w" for c m d p Q E
    by (rule wp_call [OF errorResult_spec]) (use that in auto)
  have tr: "wp (toolResult c m d p q) (\<lambda>_. Q) E w" if "\<And>m. Q (adds w [m])" "\<And>e. E e w" for c m d p q Q E
    by (rule wp_call [OF toolResult_spec]) (use that in auto)
  show ?thesis
    unfolding record_bash_outcome_def Let_def
    by (auto simp: wp_simps split: operation_outcome.split option.split exn.split intro!: r tr; blast)
qed

lemma completeBash_spec:
  assumes ids: "plain_ids env" and sorted: "sorted_wrt (<) (0 # map mr_sequence (mt_messages (me_tables env)))"
    and w: "open_turn w" "w_calls w = None"
    and active: "ms_active_assistant_sequence (w_state w) = Some q" "stored_calls (mt_messages (me_tables env)) q cs"
  shows "wp (completeBash env outcome opId) (\<lambda>_. plan_ok env s) (stopped env) w"
proof -
  obtain m where m: "find_message (me_tables env) q = Inr m" "toolCalls m = Inr cs"
    using find_message_stored [OF sorted active(2)] by auto
  have q: "0 < q" using active(2) sorted by (auto simp: stored_calls_def)
  let ?w = "w\<lparr>w_calls := Some cs\<rparr>"
  have w': "open_turn ?w" using w by (simp add: open_turn_def)
  have stop: "stopped env e (adds ?w ms)" for e ms using open_turn_stopped [OF w'] .
  let ?next = "\<lambda>t. t\<lparr>w_state := (w_state t)\<lparr>ms_active_operation_id := None, ms_next_tool_index := ms_next_tool_index (w_state t) + 1\<rparr>\<rparr>"
  have skip: "wp (forA xs (\<lambda>x. errorResult (g x) (h x) (d x) None)) (\<lambda>_. wp (throwA e) (\<lambda>_::unit. plan_ok env s) (stopped env)) (stopped env) (?next (adds ?w ms))"
    for xs e ms g h d
  proof (rule wp_call [OF errorResults_spec])
    have "open_turn (?next (adds ?w ms))" using w by (simp add: open_turn_def)
    then show "\<exists>ns. t = adds (?next (adds ?w ms)) ns \<Longrightarrow> wp (throwA e) (\<lambda>_::unit. plan_ok env s) (stopped env) t"
      and "\<exists>ns. t = adds (?next (adds ?w ms)) ns \<Longrightarrow> stopped env e' t" for e' t
      unfolding wp_throwA using open_turn_stopped by blast+
  qed
  have advance: "wp (advanceTools env) (\<lambda>_. plan_ok env s) (stopped env) (?next (adds ?w ms))" for ms
    by (rule advanceTools_spec [OF ids, of cs]) (use w q active in \<open>auto simp: tool_turn_def open_turn_def planned_calls_def\<close>)
  show ?thesis
    unfolding completeBash_def currentCalls_def set_state_def
    using w active m stop [of _ "[]"]
    by (auto simp: wp_simps js_error_def stop simp del: adds_simps(9) split: option.split
        intro!: wp_call [OF record_bash_outcome_spec] advance [simplified] skip [simplified])
qed

section \<open>The handler\<close>

lemma start_work_simps [simp]:
  "w_state (start_work s) = s" "w_messages (start_work s) = []" "w_operations (start_work s) = []"
  "w_pending (start_work s) = None" "\<not> w_promotePending (start_work s)" "w_calls (start_work s) = None"
  "w_status (start_work s) = None"
  by (simp_all add: start_work_def)

definition starting :: "mb_env \<Rightarrow> mb_state \<Rightarrow> bool" where
  "starting env s \<longleftrightarrow> plain_ids env \<and> mb_ok (me_tables env) \<and> mt_state (me_tables env) = Some s"

lemma starting_state:
  assumes "starting env s"
  shows "state_ok (stored_calls (mt_messages (me_tables env))) s"
    and "ms_phase s = Mb_idle \<Longrightarrow> mt_pending (me_tables env) = []"
    and "sorted_wrt (<) (0 # map mr_sequence (mt_messages (me_tables env)))"
    and "plain_ids env"
  using assms by (auto simp: starting_def mb_ok_def)

lemma stored_planned: "sorted_wrt (<) (0 # map mr_sequence rows) \<Longrightarrow> stored_calls rows q cs \<Longrightarrow> planned_calls rows msgs q cs"
  by (auto simp: planned_calls_def stored_calls_def)

lemma state_ok_mono: "state_ok P s \<Longrightarrow> (\<And>q cs. P q cs \<Longrightarrow> P' q cs) \<Longrightarrow> state_ok P' s"
  unfolding state_ok_def by (auto split: if_splits)

lemma starting_stopped: "starting env s \<Longrightarrow> stopped env e (start_work s)"
  by (simp add: stopped_def promotion_ok_def)

lemma starting_planned: "starting env s \<Longrightarrow> state_ok (planned_calls (mt_messages (me_tables env)) msgs) s"
  using starting_state(1,3) by (blast intro: state_ok_mono stored_planned)

lemma unchanged_ok: "starting env s \<Longrightarrow> plan_ok env s (start_work s)"
  using starting_planned [of env s] starting_state(2) [of env s]
  by (simp add: plan_ok_def promotion_ok_def operations_ok_def)

lemma begin_run_open:
  "w_operations w = [] \<Longrightarrow> w_pending w = None \<Longrightarrow> \<not> w_promotePending w \<Longrightarrow>
    wp (begin_run q) (\<lambda>_ t. open_turn t \<and> w_messages t = w_messages w) E w"
  by (simp add: begin_run_def wp_simps set_state_def set_status_def open_turn_def)

lemma requestLlm_open:
  assumes "plain_ids env" and "open_turn w"
  shows "wp (requestLlm env) (\<lambda>_. plan_ok env s) (stopped env) (adds w ms)"
proof (rule wp_call [OF requestLlm_spec [OF assms(1)]])
  fix a t
  assume "plans env (lit ''llm'') (adds w ms) llm_state t"
  then show "plan_ok env s t" by (rule plans_llm_ok) (use assms in \<open>auto simp: open_turn_def promotion_ok_def\<close>)
next
  fix e t
  assume "harness_failing e \<longrightarrow> t = adds w ms"
  then show "stopped env e t" using open_turn_stopped [OF assms(2)] by (auto simp: stopped_def)
qed

lemma handle_message_spec:
  assumes "starting env s"
  shows "wp (handle_message env input) (\<lambda>_. plan_ok env s) (stopped env) (start_work s)"
proof -
  note ids = starting_state(4) [OF assms]
  have size: "plan_ok env s ((start_work s)\<lparr>w_pending := Some p\<rparr>)" if "ms_phase s \<noteq> Mb_idle" for p
    using unchanged_ok [OF assms] that by (simp add: plan_ok_def promotion_ok_def operations_ok_def)
  have fresh: "wp (begin_run (en_sequence input)) (\<lambda>_. wp (bindA (getA (ms_run_id \<circ> w_state)) (\<lambda>run.
       bindA (append_message (c run)) (\<lambda>_. requestLlm env))) (\<lambda>_. plan_ok env s) (stopped env)) (stopped env) (start_work s)" for c
  proof (rule wp_call [OF begin_run_open])
    fix t
    assume "open_turn t \<and> w_messages t = w_messages (start_work s)"
    then have t: "open_turn t" by simp
    show "wp (bindA (getA (ms_run_id \<circ> w_state)) (\<lambda>run. bindA (append_message (c run)) (\<lambda>_. requestLlm env)))
        (\<lambda>_. plan_ok env s) (stopped env) t"
      using requestLlm_open [OF ids t] open_turn_stopped [OF t, of env _ "[]"]
      by (auto simp: wp_simps intro!: wp_call [OF append_message_spec])
  qed auto
  show ?thesis
    unfolding handle_message_def
    using fresh starting_stopped [OF assms] size by (auto simp: wp_simps split: sum.split)
qed

lemma handle_cancel_spec:
  assumes "starting env s"
  shows "wp (handle_cancel input) (\<lambda>_. plan_ok env s) (stopped env) (start_work s)"
proof -
  have "plan_ok env s ((start_work s)\<lparr>w_status := Some St_cancelling, w_state := s\<lparr>ms_cancel_requested := True\<rparr>\<rparr>)"
    if "mb_running s"
    using unchanged_ok [OF assms] that
    by (auto simp: plan_ok_def state_ok_def mb_running_def promotion_ok_def operations_ok_def)
  then show ?thesis
    unfolding handle_cancel_def
    using unchanged_ok [OF assms] starting_stopped [OF assms]
    by (auto simp: wp_simps set_state_def set_status_def mb_running_def split: sum.split)
qed

lemma handle_resume_spec:
  assumes "starting env s"
  shows "wp (handle_resume env input) (\<lambda>_. plan_ok env s) (stopped env) (start_work s)"
proof -
  note ids = starting_state(4) [OF assms]
  have request: "wp (requestLlm env) (\<lambda>_. plan_ok env s) (stopped env)
      ((adds t (map (promoted run) (steering_queue (me_tables env))))\<lparr>w_promotePending := b\<rparr>)" (is "wp _ _ _ ?t")
    if "open_turn t" for t run b
  proof (rule wp_call [OF requestLlm_spec [OF ids]])
    have ok: "promotion_ok (me_tables env) ?t" using promoted_open [OF that] .
    show "plans env (lit ''llm'') ?t llm_state u \<Longrightarrow> plan_ok env s u" for u
      using that ok by (auto intro!: plans_llm_ok simp: open_turn_def)
    show "harness_failing e \<longrightarrow> u = ?t \<Longrightarrow> stopped env e u" for e u
      using that ok by (auto simp: stopped_def open_turn_def)
  qed
  have "wp (begin_run (en_sequence input)) (\<lambda>_. wp (bindA (promoteSteering env) (\<lambda>_. requestLlm env))
      (\<lambda>_. plan_ok env s) (stopped env)) (stopped env) (start_work s)"
  proof (rule wp_call [OF begin_run_open])
    fix t
    assume "open_turn t \<and> w_messages t = w_messages (start_work s)"
    then have t: "open_turn t" by simp
    show "wp (bindA (promoteSteering env) (\<lambda>_. requestLlm env)) (\<lambda>_. plan_ok env s) (stopped env) t"
      using request [OF t] open_turn_stopped [OF t] by (auto simp: wp_simps intro!: wp_call [OF promoteSteering_spec])
  qed auto
  then show ?thesis
    unfolding handle_resume_def using unchanged_ok [OF assms] by (auto simp: wp_simps)
qed

lemma handle_completed_spec:
  assumes "starting env s"
  shows "wp (handle_completed env input) (\<lambda>_. plan_ok env s) (stopped env) (start_work s)"
proof -
  note st = starting_state [OF assms]
  have open': "open_turn (start_work s)" if "ms_phase s = Mb_llm \<or> ms_phase s = Mb_bash"
    using st(1) that by (auto simp: state_ok_def mb_running_def open_turn_def)
  have "wp (completeLlm env outcome oid) (\<lambda>_. plan_ok env s) (stopped env) (start_work s)" if "ms_phase s = Mb_llm" for outcome oid
    using completeLlm_spec [OF st(4) open'] that by simp
  moreover have "wp (completeBash env outcome oid) (\<lambda>_. plan_ok env s) (stopped env) (start_work s)" if "ms_phase s = Mb_bash" for outcome oid
    using st(1) that by (auto simp: state_ok_def intro!: completeBash_spec [OF st(4,3) open'])
  ultimately show ?thesis
    unfolding handle_completed_def
    using unchanged_ok [OF assms] starting_stopped [OF assms]
    by (auto simp: wp_simps js_error_def split: sum.split mb_phase.split)
qed

lemma fail_run_ok:
  assumes "stopped env (HarnessFailure c m) w"
  shows "wp (fail_run code message) (\<lambda>_. plan_ok env s) E w"
  using assms
  by (simp add: fail_run_def wp_simps set_state_def set_status_def plan_ok_def state_ok_def mb_running_def
      promotion_ok_def operations_ok_def stopped_def harness_failing_def)

lemma guarded_spec:
  assumes "wp m (\<lambda>_. plan_ok env s) (stopped env) w"
  shows "wp (guarded m) (\<lambda>_. plan_ok env s) (\<lambda>e t. True) w"
  unfolding guarded_def wp_catchA
  by (rule wp_call [OF assms]) (auto simp: wp_simps split: exn.split intro: fail_run_ok)

lemma handle_event_spec:
  assumes "starting env s"
  shows "wp (guarded (handle_event env input)) (\<lambda>_. plan_ok env s) (\<lambda>e t. True) (start_work s)"
  by (rule guarded_spec)
    (use assms in \<open>simp add: handle_event_def Let_def handle_message_spec handle_cancel_spec handle_resume_spec
      handle_completed_spec unchanged_ok wp_retA\<close>)

lemma mb_handle_Inr:
  assumes "mb_handle env input = Inr plan" and "mt_state (me_tables env) = Some s"
  shows "\<exists>w. guarded (handle_event env input) (start_work s) = (Inr (), w)
    \<and> tp_changes plan = \<lparr>ch_state = (if w_state w \<noteq> s then Some (w_state w) else None), ch_messages = w_messages w,
        ch_pending = w_pending w, ch_promotePending = w_promotePending w\<rparr>
    \<and> tp_operations plan = w_operations w \<and> tp_status plan = w_status w"
  using assms by (auto simp: mb_handle_def readState_def split: prod.splits sum.splits)

section \<open>Applying a planned transition\<close>

definition appended_row :: "message_change \<Rightarrow> int \<Rightarrow> message_row" where
  "appended_row c q = \<lparr>mr_sequence = q, mr_message = mg_message c, mr_in_context = mg_inContext c, mr_run_id = mg_runId c,
     mr_source_event_id = mg_eventId c, mr_source_operation_id = mg_operationId c,
     mr_response_metadata = mg_responseMetadata c\<rparr>"

lemma appended_row_simps [simp]:
  "mr_sequence (appended_row c q) = q" "mr_message (appended_row c q) = mg_message c"
  "mr_in_context (appended_row c q) = mg_inContext c"
  by (simp_all add: appended_row_def)

lemma stored_callsI: "r \<in> set rows \<Longrightarrow> toolCalls (mr_message r) = Inr cs \<Longrightarrow> stored_calls rows (mr_sequence r) cs"
  by (auto simp: stored_calls_def)

lemma foldr_max_ge: "r \<in> set rows \<Longrightarrow> mr_sequence r \<le> foldr (max \<circ> mr_sequence) rows 0"
  by (induction rows) auto

lemma foldr_max_nonneg: "0 \<le> foldr (max \<circ> mr_sequence) rows (0 :: int)"
  by (induction rows) auto

lemma next_sequence_above: "r \<in> set rows \<Longrightarrow> mr_sequence r < next_sequence rows" "0 < next_sequence rows"
  using foldr_max_ge [of r rows] foldr_max_nonneg [of rows] by (auto simp: next_sequence_def)

lemma append_all_rows:
  "append_all rows cs = (rows', qs) \<Longrightarrow> rows' = rows @ map2 appended_row cs qs \<and> length qs = length cs
    \<and> (sorted_wrt (<) (0 # map mr_sequence rows) \<longrightarrow> sorted_wrt (<) (0 # map mr_sequence rows @ qs))"
proof (induction cs arbitrary: rows rows' qs)
  case Nil
  then show ?case by simp
next
  case (Cons c cs)
  obtain qs' where step: "append_all (appendMessage rows c) cs = (rows', qs')" "qs = next_sequence rows # qs'"
    using Cons.prems by (auto simp: Let_def split: prod.splits)
  have row: "appendMessage rows c = rows @ [appended_row c (next_sequence rows)]"
    by (simp add: appendMessage_def appended_row_def)
  have sorted: "sorted_wrt (<) (0 # map mr_sequence (appendMessage rows c))" if "sorted_wrt (<) (0 # map mr_sequence rows)"
    using that next_sequence_above by (simp add: row sorted_wrt_append)
  have seqs: "map mr_sequence (appendMessage rows c) = map mr_sequence rows @ [next_sequence rows]"
    by (simp add: row)
  note IH = Cons.IH [OF step(1)]
  have "sorted_wrt (<) (0 # map mr_sequence rows @ qs)" if "sorted_wrt (<) (0 # map mr_sequence rows)"
    using IH sorted [OF that] unfolding seqs step(2) by (metis append.assoc append_Cons append_Nil)
  moreover have "rows' = rows @ map2 appended_row (c # cs) qs" using IH by (simp add: step(2) row)
  moreover have "length qs = length (c # cs)" using IH by (simp add: step(2))
  ultimately show ?case by blast
qed

lemma mb_apply_Inr:
  assumes "mb_apply ch t = (Inr u, t')" and "append_all (mt_messages t) (ch_messages ch) = (rows, qs)"
  shows "mt_messages t' = rows
    \<and> mt_pending t' = (if ch_promotePending ch then [] else mt_pending t)
        @ (case ch_pending ch of None \<Rightarrow> [] | Some p \<Rightarrow> [\<lparr>sg_event_id = sc_eventId p, sg_input_sequence = sc_sequence p, sg_message = sc_message p\<rparr>])
    \<and> mt_state t' = (case ch_state ch of None \<Rightarrow> mt_state t | Some s \<Rightarrow> map_option (\<lambda>_. resolve_sequence qs s) (mt_state t))"
  using assms
  by (auto simp: mb_apply_def insert_steering_def save_state_def constraint_def guardR_def bindA_Inr prim_defs
      split: option.splits if_splits prod.splits)

lemma resolve_ok:
  assumes ok: "state_ok (planned_calls rows msgs) s" and qs: "length qs = length msgs" "\<And>q. q \<in> set qs \<Longrightarrow> 0 < q"
  shows "state_ok (stored_calls (rows @ map2 appended_row msgs qs)) (resolve_sequence qs s)"
proof (cases "ms_phase s = Mb_bash")
  case False
  then show ?thesis using ok by (auto simp: state_ok_def mb_running_def resolve_sequence_def split: option.split)
next
  case True
  then obtain q cs where q: "ms_active_assistant_sequence s = Some q" "planned_calls rows msgs q cs"
    "ms_next_tool_index s < length cs"
    using ok by (auto simp: state_ok_def)
  let ?q = "if q < 0 then qs ! nat (- q - 1) else q"
  have "stored_calls (rows @ map2 appended_row msgs qs) ?q cs"
  proof (cases "q < 0")
    case False
    with q(2) show ?thesis by (auto simp: planned_calls_def stored_calls_def)
  next
    case neg: True
    let ?i = "nat (- q - 1)"
    have i: "?i < length msgs" "toolCalls (mg_message (msgs ! ?i)) = Inr cs"
      using q(2) neg by (auto simp: planned_calls_def)
    then have "map2 appended_row msgs qs ! ?i \<in> set (map2 appended_row msgs qs)"
      using qs(1) by (intro nth_mem) simp
    with i(1) qs(1) have "appended_row (msgs ! ?i) (qs ! ?i) \<in> set (map2 appended_row msgs qs)"
      by simp
    then have "appended_row (msgs ! ?i) (qs ! ?i) \<in> set (rows @ map2 appended_row msgs qs)" by simp
    from stored_callsI [OF this] i(2) neg show ?thesis by simp
  qed
  moreover have "resolve_sequence qs s = s\<lparr>ms_active_assistant_sequence := Some ?q\<rparr>"
    using q(1) by (simp add: resolve_sequence_def)
  ultimately show ?thesis using ok True q by (auto simp: state_ok_def mb_running_def)
qed

lemma resolve_stored:
  assumes "sorted_wrt (<) (0 # map mr_sequence rows)" and "state_ok (stored_calls rows) s"
  shows "resolve_sequence qs s = s"
  using assms by (force simp: resolve_sequence_def state_ok_def stored_calls_def split: option.split if_splits)

lemma mb_apply_ok:
  assumes start: "starting env s" and ok: "plan_ok env s w"
    and ch: "ch = \<lparr>ch_state = (if w_state w \<noteq> s then Some (w_state w) else None), ch_messages = w_messages w,
        ch_pending = w_pending w, ch_promotePending = w_promotePending w\<rparr>"
    and run: "mb_apply ch (me_tables env) = (Inr u, t')"
  shows "mb_ok t' \<and> (\<exists>qs. length qs = length (w_messages w) \<and> mt_state t' = Some (resolve_sequence qs (w_state w))
      \<and> mt_messages t' = mt_messages (me_tables env) @ map2 appended_row (w_messages w) qs)"
proof -
  let ?t = "me_tables env"
  obtain rows qs where app: "append_all (mt_messages ?t) (w_messages w) = (rows, qs)" by fastforce
  note all = append_all_rows [OF app] and st = starting_state [OF start]
  have t': "mt_messages t' = rows" "mt_pending t' = (if w_promotePending w then [] else mt_pending ?t)
        @ (case w_pending w of None \<Rightarrow> [] | Some p \<Rightarrow> [\<lparr>sg_event_id = sc_eventId p, sg_input_sequence = sc_sequence p, sg_message = sc_message p\<rparr>])"
    "mt_state t' = (case ch_state ch of None \<Rightarrow> mt_state ?t | Some s \<Rightarrow> map_option (\<lambda>_. resolve_sequence qs s) (mt_state ?t))"
    using mb_apply_Inr [OF run, of rows qs] app by (simp_all add: ch)
  have state: "mt_state t' = Some (resolve_sequence qs (w_state w))"
    using start t'(3) resolve_stored [OF st(3,1)] by (auto simp: ch starting_def split: if_splits)
  have sorted: "sorted_wrt (<) (0 # map mr_sequence (mt_messages ?t) @ qs)" using all st(3) by simp
  have "state_ok (stored_calls rows) (resolve_sequence qs (w_state w))"
    using resolve_ok [of "mt_messages ?t" "w_messages w" "w_state w" qs] ok all sorted
    by (auto simp: plan_ok_def)
  moreover have "map mr_sequence rows = map mr_sequence (mt_messages ?t) @ qs"
    using all by (auto intro: nth_equalityI)
  moreover have "mt_pending t' = []" if "ms_phase (resolve_sequence qs (w_state w)) = Mb_idle"
    using that ok t'(2) by (auto simp: plan_ok_def resolve_sequence_def split: option.splits if_splits)
  ultimately have "mb_ok t'" using sorted t'(1) state by (simp add: mb_ok_def)
  with state all t'(1) show ?thesis by blast
qed

end
