(* ===== verification/RuntimeSafety.thy ===== *)
theory RuntimeSafety
  imports Runtime
begin

text \<open>
  What the session runtime guarantees, for every harness.
  \<^item> \<open>rt_ok\<close> is the runtime's invariant: the tables' invariant, only the runtime's own events in the
    reserved namespaces, and caches that agree with the store. In particular the cached transition
    is the one that would be planned again from the store.
  \<^item> \<open>rt_step\<close> is one call of the runtime, or a restart that loses the caches; \<open>rt_ok\<close> holds after
    every sequence of steps and the log of admitted events only grows.
  \<^item> The properties follow: admission is idempotent for good, a replayed transition is the same
    transition, commits are all-or-nothing, a completion is admitted at most once.
\<close>

section \<open>Growth of the inbox\<close>

text \<open>What the runtime admits: its own completion events under their derived event ID, and external
  events outside both reserved namespaces.\<close>

definition own_event :: "jstring \<Rightarrow> event_body \<Rightarrow> bool" where
  "own_event i ev \<longleftrightarrow> (\<exists>oid p j o'. i = completionEventId oid \<and> ev = completionEvent oid p j o')"

definition external_event :: "jstring \<Rightarrow> event_body \<Rightarrow> bool" where
  "external_event i ev \<longleftrightarrow> \<not> startsWith (ev_type ev) RUNTIME_EVENT_PREFIX \<and> \<not> startsWith i RUNTIME_EVENT_ID_PREFIX"

definition admissible :: "jstring \<Rightarrow> event_body \<Rightarrow> bool" where
  "admissible i ev \<longleftrightarrow> own_event i ev \<or> external_event i ev"

definition namespaced :: "inbox_row list \<Rightarrow> bool" where
  "namespaced rows \<longleftrightarrow> (\<forall>r \<in> set rows. \<forall>ev. ib_content r = Waiting ev \<longrightarrow> admissible (ib_event_id r) ev)"

inductive grows :: "(jstring \<Rightarrow> event_body \<Rightarrow> bool) \<Rightarrow> inbox_row list \<Rightarrow> inbox_row list \<Rightarrow> bool" for Q where
  grows_refl: "grows Q rows rows"
| grows_insert: "grows Q rows rows' \<Longrightarrow> allocateSequence rows' = Inr (en_sequence e) \<Longrightarrow>
    Q (en_eventId e) (en_event e) \<Longrightarrow> insertInput rows' e h = Inr rows'' \<Longrightarrow> grows Q rows rows''"

lemma grows_one: "allocateSequence rows = Inr (en_sequence e) \<Longrightarrow> Q (en_eventId e) (en_event e) \<Longrightarrow>
    insertInput rows e h = Inr rows' \<Longrightarrow> grows Q rows rows'"
  by (rule grows_insert [OF grows_refl])

lemma grows_namespaced: "grows admissible rows rows' \<Longrightarrow> namespaced rows \<Longrightarrow> namespaced rows'"
  by (induction rule: grows.induct) (auto simp: namespaced_def insertInput_Inr)

lemma grows_trans: "grows Q b c \<Longrightarrow> grows Q a b \<Longrightarrow> grows Q a c"
  by (induction rule: grows.induct) (auto intro: grows.intros)

lemma grows_ok: "grows Q rows rows' \<Longrightarrow> inbox_ok rows \<Longrightarrow> inbox_ok rows'"
  by (induction rule: grows.induct) (auto dest: inbox.admit_wf)

lemma grows_next: "grows Q rows rows' \<Longrightarrow> inbox_ok rows \<Longrightarrow> nextInput rows = Some x \<Longrightarrow> nextInput rows' = Some x"
  by (induction rule: grows.induct) (auto dest: grows_ok inbox.admit_keeps_next)

lemma grows_record: "grows Q rows rows' \<Longrightarrow> inbox_ok rows \<Longrightarrow> findInput rows i = Some d \<Longrightarrow> findInput rows' i = Some d"
  by (induction rule: grows.induct) (auto dest: grows_ok inbox.admit_keeps_record)

lemma grows_queue:
  "grows Q rows rows' \<Longrightarrow> inbox_ok rows \<Longrightarrow>
    \<exists>new. queue rows' = queue rows @ new \<and> (\<forall>e \<in> set new. Q (en_eventId e) (en_event e))"
proof (induction rule: grows.induct)
  case (grows_insert rows rows' e h rows'')
  then obtain new where "queue rows' = queue rows @ new" "\<forall>e \<in> set new. Q (en_eventId e) (en_event e)" by blast
  moreover have "queue rows'' = queue rows' @ [e]"
    using inbox.admit_new grows_ok grows_insert by blast
  ultimately show ?case using grows_insert(3) by (intro exI [of _ "new @ [e]"]) auto
qed simp

lemma grows_sequences: "grows Q rows rows' \<Longrightarrow> ib_sequence ` set rows \<subseteq> ib_sequence ` set rows'"
  by (induction rule: grows.induct) (auto simp: insertInput_Inr)

text \<open>The permanent log: an event's record never changes, except that it becomes consumed.\<close>

definition log_extends :: "inbox_row list \<Rightarrow> inbox_row list \<Rightarrow> bool" where
  "log_extends rows rows' \<longleftrightarrow> (\<forall>i d. findInput rows i = Some d \<longrightarrow>
     (\<exists>d'. findInput rows' i = Some d' \<and> d'\<lparr>rec_consumed := rec_consumed d\<rparr> = d
       \<and> (rec_consumed d \<longrightarrow> rec_consumed d')))"

lemma log_extends_refl [simp]: "log_extends rows rows"
  by (auto simp: log_extends_def)

lemma log_extends_trans:
  assumes "log_extends a b" and "log_extends b c"
  shows "log_extends a c"
  unfolding log_extends_def
proof (intro allI impI)
  fix i d assume "findInput a i = Some d"
  then obtain d1 where d1: "findInput b i = Some d1" "d1\<lparr>rec_consumed := rec_consumed d\<rparr> = d" "rec_consumed d \<longrightarrow> rec_consumed d1"
    using assms(1) unfolding log_extends_def by blast
  then obtain d2 where d2: "findInput c i = Some d2" "d2\<lparr>rec_consumed := rec_consumed d1\<rparr> = d1" "rec_consumed d1 \<longrightarrow> rec_consumed d2"
    using assms(2) unfolding log_extends_def by blast
  have "d2\<lparr>rec_consumed := rec_consumed d\<rparr> = (d2\<lparr>rec_consumed := rec_consumed d1\<rparr>)\<lparr>rec_consumed := rec_consumed d\<rparr>"
    by simp
  also have "\<dots> = d" unfolding d2(2) d1(2) ..
  finally show "\<exists>d'. findInput c i = Some d' \<and> d'\<lparr>rec_consumed := rec_consumed d\<rparr> = d \<and> (rec_consumed d \<longrightarrow> rec_consumed d')"
    using d1(3) d2(1,3) by blast
qed

lemma log_extends_grows: "grows Q rows rows' \<Longrightarrow> inbox_ok rows \<Longrightarrow> log_extends rows rows'"
  unfolding log_extends_def using grows_record by fastforce

lemma log_extends_consume:
  "inbox_ok rows \<Longrightarrow> nextInput rows = Some e \<Longrightarrow> log_extends rows (consumeInput rows e t)"
  unfolding log_extends_def by (intro allI impI inbox.consume_keeps_record)

section \<open>Behaviour of the building blocks\<close>

lemma read_failure_json [simp]: "read_failure (failure_json f) = Some f"
  by (cases f; cases "of_details f") (simp_all add: read_failure_def failure_json_def)

lemma read_outcome_json [simp]: "read_outcome (outcome_json o') = Some o'"
  by (cases o') (simp_all add: read_outcome_def outcome_json_def)

lemma read_completed_completionEvent [simp]:
  "read_completed (completionEvent oid p j o') =
    Inr \<lparr>ce_operationId = oid, ce_provider = p, ce_jobId = j, ce_outcome = o'\<rparr>"
  by (cases j) (simp_all add: read_completed_def completionEvent_def)

lemma insert_event_Inr:
  "insert_event now i ev h rt = (Inr e, rt') \<longleftrightarrow>
    (\<exists>rows. allocateSequence (st_inbox (rt_store rt)) = Inr (en_sequence e)
      \<and> insertInput (st_inbox (rt_store rt)) e h = Inr rows
      \<and> timestamp now = Inr (en_receivedAt e) \<and> en_eventId e = i \<and> en_event e = ev
      \<and> rt' = rt\<lparr>rt_store := (rt_store rt)\<lparr>st_inbox := rows\<rparr>\<rparr>)"
  by (cases e) (auto simp: insert_event_def inbox_stmt_def set_store_def Let_def bindA_Inr act_defs
      split: prod.splits sum.splits)

lemma insert_event_Inl: "insert_event now i ev h rt = (Inl x, rt') \<Longrightarrow> rt' = rt"
  by (auto simp: insert_event_def inbox_stmt_def set_store_def Let_def act_defs
      split: prod.splits sum.splits)

text \<open>Loading the session changes the session cache only, and agrees with the store.\<close>

definition session_coherent :: "('h, 'c) runtime \<Rightarrow> bool" where
  "session_coherent rt \<longleftrightarrow> (\<forall>i. rt_session rt = Some i \<longrightarrow> st_session (rt_store rt) = Some i)"

lemma loadSession_cases:
  assumes "loadSession H rt = (r, rt')" and "session_coherent rt"
  shows "\<exists>s. rt' = rt\<lparr>rt_session := s\<rparr> \<and> (s = rt_session rt \<or> s = st_session (rt_store rt))
    \<and> (\<forall>i. r = Inr (Some i) \<longrightarrow> s = Some i \<and> st_session (rt_store rt) = Some i)
    \<and> (r = Inr None \<longrightarrow> s = None \<and> st_session (rt_store rt) = None)"
  using assms
  by (cases rt) (auto simp: loadSession_def findSession_def session_coherent_def act_defs
      split: option.splits sum.splits prod.splits)

lemma loadSession_coherent:
  assumes "loadSession H rt = (r, rt')" and "session_coherent rt"
  shows "session_coherent rt' \<and> rt_store rt' = rt_store rt \<and> rt_prepared rt' = rt_prepared rt"
  using loadSession_cases [OF assms] assms(2) by (auto simp: session_coherent_def)

lemma requireSession_Inr:
  assumes "requireSession H rt = (Inr i, rt')" and "session_coherent rt"
  shows "rt' = rt\<lparr>rt_session := Some i\<rparr> \<and> st_session (rt_store rt) = Some i"
proof -
  from assms(1) obtain s where s: "loadSession H rt = (Inr s, rt')" "s = Some i"
    by (auto simp: requireSession_def bindA_Inr prim_defs split: option.splits)
  from loadSession_cases [OF s(1) assms(2)] s(2) show ?thesis by auto
qed

lemma requireSession_any:
  assumes "requireSession H rt = (r, rt')" and "session_coherent rt"
  shows "session_coherent rt' \<and> rt_store rt' = rt_store rt \<and> rt_prepared rt' = rt_prepared rt"
proof -
  obtain s rt'' where l: "loadSession H rt = (s, rt'')" by fastforce
  then have "rt' = rt''"
    using assms(1) by (auto simp: requireSession_def act_defs split: sum.splits option.splits)
  with loadSession_coherent [OF l assms(2)] show ?thesis by simp
qed

text \<open>A session already loaded is returned without any effect.\<close>

lemma requireSession_cached: "rt_session rt = Some i \<Longrightarrow> requireSession H rt = (Inr i, rt)"
  by (simp add: requireSession_def loadSession_def act_defs)

lemma requireSession_stored:
  "rt_session rt = None \<Longrightarrow> st_session (rt_store rt) = Some i \<Longrightarrow> checkHarness H (si_harness (sn_identity i)) = Inr () \<Longrightarrow>
    requireSession H rt = (Inr i, rt\<lparr>rt_session := Some i\<rparr>)"
  by (simp add: requireSession_def loadSession_def findSession_def act_defs)

lemma transactionSync_Inr: "transactionSync m rt = (Inr a, rt') \<longleftrightarrow> m rt = (Inr a, rt')"
  by (auto simp: transactionSync_def split: prod.splits sum.splits)

lemma transactionSync_Inl:
  "transactionSync m rt = (Inl e, rt') \<longleftrightarrow> (\<exists>rt1. m rt = (Inl e, rt1) \<and> rt' = rt1\<lparr>rt_store := rt_store rt\<rparr>)"
  by (auto simp: transactionSync_def split: prod.splits sum.splits)

section \<open>The invariant\<close>

definition pending_ok :: "'h store \<Rightarrow> bool" where
  "pending_ok st \<longleftrightarrow> distinct (map po_operationId (st_pending st))
     \<and> (\<forall>p \<in> set (st_pending st). po_sourceInputSequence p \<in> ib_sequence ` set (st_inbox st))"

definition store_ok :: "'h store \<Rightarrow> bool" where
  "store_ok st \<longleftrightarrow> inbox_ok (st_inbox st) \<and> namespaced (st_inbox st) \<and> pending_ok st"

definition prepared_coherent :: "(jstring \<Rightarrow> jstring) \<Rightarrow> ('h, 'c) harness \<Rightarrow> ('h, 'c) runtime \<Rightarrow> bool" where
  "prepared_coherent sha H rt \<longleftrightarrow> (\<forall>p. rt_prepared rt = Some p \<longrightarrow>
     (\<exists>info. st_session (rt_store rt) = Some info \<and> nextInput (st_inbox (rt_store rt)) = Some (pr_input p)
       \<and> plan_input sha H info (rt_store rt) (pr_input p) = Inr p))"

definition harness_ok :: "('h, 'c) harness \<Rightarrow> 'h store \<Rightarrow> bool" where
  "harness_ok H st \<longleftrightarrow> (\<forall>i. st_session st = Some i \<longrightarrow> checkHarness H (si_harness (sn_identity i)) = Inr ())"

definition rt_ok :: "(jstring \<Rightarrow> jstring) \<Rightarrow> ('h, 'c) harness \<Rightarrow> ('h, 'c) runtime \<Rightarrow> bool" where
  "rt_ok sha H rt \<longleftrightarrow> store_ok (rt_store rt) \<and> session_coherent rt \<and> prepared_coherent sha H rt
     \<and> harness_ok H (rt_store rt)"

subsection \<open>Effects inside a transaction\<close>

text \<open>Every statement of a transaction keeps the caches and the session row, and only adds to the inbox.\<close>

definition inner :: "('h, 'c) runtime \<Rightarrow> ('h, 'c) runtime \<Rightarrow> bool" where
  "inner rt rt' \<longleftrightarrow> rt_session rt' = rt_session rt \<and> rt_prepared rt' = rt_prepared rt
     \<and> st_session (rt_store rt') = st_session (rt_store rt)
     \<and> grows own_event (st_inbox (rt_store rt)) (st_inbox (rt_store rt'))"

lemma inner_refl [within_intros]: "reflp inner"
  by (simp add: reflp_def inner_def grows_refl)

lemma inner_trans [within_intros]: "transp inner"
  unfolding transp_def inner_def using grows_trans by metis

text \<open>An admission changes nothing but the inbox.\<close>

definition inbox_only :: "(jstring \<Rightarrow> event_body \<Rightarrow> bool) \<Rightarrow> ('h, 'c) runtime \<Rightarrow> ('h, 'c) runtime \<Rightarrow> bool" where
  "inbox_only Q rt rt' \<longleftrightarrow> (\<exists>rows. grows Q (st_inbox (rt_store rt)) rows
     \<and> rt' = rt\<lparr>rt_store := (rt_store rt)\<lparr>st_inbox := rows\<rparr>\<rparr>)"

lemma inbox_only_same [simp]: "inbox_only Q rt rt"
  unfolding inbox_only_def by (rule exI [of _ "st_inbox (rt_store rt)"]) (simp add: grows_refl)

lemma inbox_only_refl [within_intros]: "reflp (inbox_only Q)"
  by (simp add: reflp_def)

lemma inbox_only_trans [within_intros]: "transp (inbox_only Q)"
proof (rule transpI)
  fix a b c :: "('h, 'c) runtime"
  assume "inbox_only Q a b" and "inbox_only Q b c"
  then obtain rs qs where "grows Q (st_inbox (rt_store a)) rs" "b = a\<lparr>rt_store := (rt_store a)\<lparr>st_inbox := rs\<rparr>\<rparr>"
    "grows Q rs qs" "c = b\<lparr>rt_store := (rt_store b)\<lparr>st_inbox := qs\<rparr>\<rparr>"
    by (auto simp: inbox_only_def)
  then show "inbox_only Q a c" by (auto simp: inbox_only_def intro: grows_trans)
qed

lemma inbox_only_inner: "inbox_only own_event rt rt' \<Longrightarrow> inner rt rt'"
  by (auto simp: inbox_only_def inner_def)

lemma insert_event_inbox_only [within_intros]:
  assumes "Q i ev"
  shows "within (inbox_only Q) (insert_event now i ev h)"
proof (rule withinI)
  fix rt :: "('h, 'c) runtime" and r rt'
  assume run: "insert_event now i ev h rt = (r, rt')"
  show "inbox_only Q rt rt'"
  proof (cases r)
    case (Inl e)
    with run insert_event_Inl have "rt' = rt" by blast
    then show ?thesis by simp
  next
    case (Inr e)
    with run assms show ?thesis by (auto simp: insert_event_Inr inbox_only_def intro: grows_one)
  qed
qed

lemma within_insert_event [within_intros]:
  "own_event i ev \<Longrightarrow> within inner (insert_event now i ev h)"
  by (rule within_mono [OF insert_event_inbox_only inbox_only_inner])

lemma own_completion [simp]: "own_event (completionEventId oid) (completionEvent oid p j o')"
  by (auto simp: own_event_def)

lemma admissible_completion [simp]: "admissible (completionEventId oid) (completionEvent oid p j o')"
  by (simp add: admissible_def)

lemma grows_own: "grows own_event rows rows' \<Longrightarrow> grows admissible rows rows'"
  by (induction rule: grows.induct) (auto intro: grows.intros simp: admissible_def)

lemma within_queueCompletion [within_intros]:
  "within inner (queueCompletion sha now oid p j o')"
  unfolding queueCompletion_def Let_def
  by (intro within_intros own_completion)

lemma within_insert_pending [within_intros]: "within inner (insert_pending p)"
  unfolding insert_pending_def set_store_def
  by (intro within_intros) (simp add: inner_def grows_refl)

lemma within_settle [within_intros]: "within inner (settle sha now q results op)"
proof -
  have "within inner (case x of
     None \<Rightarrow> throwA (JsError (lit ''TypeError''))
   | Some (Rejected error) \<Rightarrow> bindA (queueCompletion sha now o1 p1 None (Failed Submission error)) (\<lambda>_. retA ())
   | Some (Accepted jobId) \<Rightarrow> insert_pending (f1 jobId)
   | Some (Completed jobId outcome) \<Rightarrow> bindA (insert_pending (f1 jobId)) (\<lambda>_.
       bindA (queueCompletion sha now o1 p1 (Some jobId) outcome) (\<lambda>_. retA ())))" for x o1 p1 f1
    by (cases x; (cases "the x")?) (auto intro!: within_intros)
  then show ?thesis unfolding settle_def .
qed

lemma within_finish_completed [within_intros]: "within inner (finish_completed input)"
  unfolding finish_completed_def set_store_def
  by (intro within_intros) (simp add: inner_def grows_refl)

lemma within_harness_hook [within_intros]: "within inner (harness_hook m)"
  unfolding harness_hook_def set_store_def
  by (intro within_intros) (simp add: inner_def grows_refl)

definition pending_inv :: "('h, 'c) runtime \<Rightarrow> bool" where
  "pending_inv rt \<longleftrightarrow> pending_ok (rt_store rt)"

lemma pending_insert_event [pres_intros]: "preserves pending_inv (insert_event now i ev h)"
proof (rule preservesI)
  fix rt :: "('h, 'c) runtime" and r rt'
  assume inv: "pending_inv rt" and run: "insert_event now i ev h rt = (r, rt')"
  show "pending_inv rt'"
  proof (cases r)
    case (Inl e)
    with run insert_event_Inl inv show ?thesis by blast
  next
    case (Inr e)
    with run inv show ?thesis
      by (auto simp: insert_event_Inr insertInput_Inr pending_inv_def pending_ok_def)
  qed
qed

lemma pending_queueCompletion [pres_intros]: "preserves pending_inv (queueCompletion sha now oid p j o')"
  unfolding queueCompletion_def Let_def by (intro pres_intros)

lemma pending_insert_pending [pres_intros]: "preserves pending_inv (insert_pending p)"
  by (rule preservesI)
    (auto simp: insert_pending_def set_store_def act_defs po_insert_def constraint_def guardR_def
      pending_inv_def pending_ok_def split: sum.splits prod.splits if_splits)

lemma pending_settle [pres_intros]: "preserves pending_inv (settle sha now q results op)"
proof -
  have "preserves pending_inv (case x of
     None \<Rightarrow> throwA (JsError (lit ''TypeError''))
   | Some (Rejected error) \<Rightarrow> bindA (queueCompletion sha now o1 p1 None (Failed Submission error)) (\<lambda>_. retA ())
   | Some (Accepted jobId) \<Rightarrow> insert_pending (f1 jobId)
   | Some (Completed jobId outcome) \<Rightarrow> bindA (insert_pending (f1 jobId)) (\<lambda>_.
       bindA (queueCompletion sha now o1 p1 (Some jobId) outcome) (\<lambda>_. retA ())))" for x o1 p1 f1
    by (cases x; (cases "the x")?) (auto intro!: pres_intros)
  then show ?thesis unfolding settle_def .
qed

lemma pending_finish_completed [pres_intros]: "preserves pending_inv (finish_completed input)"
  unfolding finish_completed_def set_store_def
  by (intro pres_intros) (auto simp: pending_inv_def pending_ok_def po_delete_def distinct_map_filter)

lemma pending_harness_hook [pres_intros]: "preserves pending_inv (harness_hook m)"
  unfolding harness_hook_def set_store_def
  by (intro pres_intros) (simp add: pending_inv_def pending_ok_def)

section \<open>The operations\<close>

text \<open>An operation that at most loads the session and admits events.\<close>

definition mild :: "('h, 'c) runtime \<Rightarrow> ('h, 'c) runtime \<Rightarrow> bool" where
  "mild rt rt' \<longleftrightarrow> session_coherent rt' \<and> rt_prepared rt' = rt_prepared rt
     \<and> (\<exists>rows. grows admissible (st_inbox (rt_store rt)) rows \<and> rt_store rt' = (rt_store rt)\<lparr>st_inbox := rows\<rparr>)"

lemma same_inbox [simp]: "st\<lparr>st_inbox := st_inbox st\<rparr> = st"
  by simp

lemma mildI_same:
  assumes "session_coherent rt'" and "rt_prepared rt' = rt_prepared rt" and "rt_store rt' = rt_store rt"
  shows "mild rt rt'"
  unfolding mild_def using assms grows_refl same_inbox by metis

lemma mild_inbox_only: "inbox_only admissible rt rt' \<Longrightarrow> session_coherent rt \<Longrightarrow> mild rt rt'"
  by (auto simp: inbox_only_def mild_def session_coherent_def)

lemma transaction_mild:
  assumes coh: "session_coherent rt" and body: "\<And>i. within (inbox_only admissible) (f i)"
    and run: "transactionSync (bindA (requireSession H) f) rt = (r, rt')"
  shows "mild rt rt'"
proof -
  obtain s rt1 where req: "requireSession H rt = (s, rt1)" by fastforce
  note after = requireSession_any [OF req coh]
  show ?thesis
  proof (cases s)
    case (Inl e)
    with run req have "rt' = rt1\<lparr>rt_store := rt_store rt\<rparr>"
      by (simp add: transactionSync_def bindA_def)
    with after show ?thesis by (intro mildI_same) (auto simp: session_coherent_def)
  next
    case (Inr i)
    obtain q rt2 where f: "f i rt1 = (q, rt2)" by fastforce
    have only: "inbox_only admissible rt1 rt2" using body f by (rule withinD)
    show ?thesis
    proof (cases q)
      case (Inl e)
      with run req Inr f have "rt' = rt2\<lparr>rt_store := rt_store rt\<rparr>"
        by (simp add: transactionSync_def bindA_def)
      with after only show ?thesis
        by (intro mildI_same) (auto simp: session_coherent_def inbox_only_def)
    next
      case inner: (Inr a)
      with run req Inr f have "rt' = rt2" by (simp add: transactionSync_def bindA_def)
      with mild_inbox_only [OF only] after show ?thesis by (simp add: mild_def)
    qed
  qed
qed

lemma transaction_inbox_only [within_intros]:
  "within (inbox_only Q) m \<Longrightarrow> within (inbox_only Q) (transactionSync m)"
proof (rule withinI)
  fix rt r rt'
  assume w: "within (inbox_only Q) m" and run: "transactionSync m rt = (r, rt')"
  obtain q rt1 where m: "m rt = (q, rt1)" by fastforce
  have only: "inbox_only Q rt rt1" using w m by (rule withinD)
  show "inbox_only Q rt rt'"
  proof (cases q)
    case (Inl e)
    with run m only have "rt' = rt" by (auto simp: transactionSync_def inbox_only_def)
    then show ?thesis by simp
  qed (use run m only in \<open>simp add: transactionSync_def\<close>)
qed

lemma admitInput_mild:
  assumes "session_coherent rt" and "admitInput sha H request now rt = (r, rt')"
  shows "mild rt rt'"
proof (cases "startsWith (ev_type (sr_event request)) RUNTIME_EVENT_PREFIX
    \<or> startsWith (sr_eventId request) RUNTIME_EVENT_ID_PREFIX")
  case True
  with assms show ?thesis by (auto simp: admitInput_def throwA_def intro: mildI_same)
next
  case False
  then have adm: "admissible (sr_eventId request) (sr_event request)"
    by (simp add: admissible_def external_event_def)
  from False assms(2) have run: "transactionSync (admit_body sha H request now) rt = (r, rt')"
    by (simp add: admitInput_def)
  show ?thesis
    by (rule transaction_mild [OF assms(1) _ run [unfolded admit_body_def Let_def]])
      (intro within_intros adm)
qed

lemma appendInput_mild:
  assumes "session_coherent rt" and "appendInput sha H v now rt = (r, rt')"
  shows "mild rt rt'"
proof (cases "parseSubmitInputRequest v")
  case (Inl e)
  with assms show ?thesis by (auto simp: appendInput_def act_defs intro: mildI_same)
next
  case (Inr q)
  with assms(2) have "admitInput sha H q now rt = (r, rt')" by (simp add: appendInput_def act_defs)
  with assms(1) show ?thesis by (rule admitInput_mild)
qed

subsection \<open>Preparation\<close>

lemma prepare_eq:
  "requireSession H rt = (Inr info, rt1) \<Longrightarrow> prepare sha H rt = (case rt_prepared rt1 of
     Some p \<Rightarrow> (Inr (Some p), rt1)
   | None \<Rightarrow> (case nextInput (st_inbox (rt_store rt1)) of
       None \<Rightarrow> (Inr None, rt1)
     | Some input \<Rightarrow> (case plan_input sha H info (rt_store rt1) input of
         Inl e \<Rightarrow> (Inl e, rt1)
       | Inr p \<Rightarrow> (Inr (Some p), rt1\<lparr>rt_prepared := Some p\<rparr>))))"
  by (auto simp: prepare_def act_defs split: option.splits sum.splits)

lemma prepare_run:
  assumes ok: "rt_ok sha H rt" and run: "prepare sha H rt = (r, rt')"
  shows "rt_ok sha H rt' \<and> rt_store rt' = rt_store rt
    \<and> (\<forall>p. r = Inr (Some p) \<longrightarrow> rt_prepared rt' = Some p)"
proof -
  have coh: "session_coherent rt" and prep: "prepared_coherent sha H rt" and st: "store_ok (rt_store rt)"
    and hok: "harness_ok H (rt_store rt)"
    using ok by (simp_all add: rt_ok_def)
  obtain s rt1 where req: "requireSession H rt = (s, rt1)" by fastforce
  note after = requireSession_any [OF req coh]
  have ok1: "rt_ok sha H rt1"
    using after prep st hok by (simp add: rt_ok_def prepared_coherent_def)
  show ?thesis
  proof (cases s)
    case (Inl e)
    with run req ok1 after show ?thesis by (auto simp: prepare_def bindA_def)
  next
    case (Inr info)
    have info: "st_session (rt_store rt1) = Some info"
      using requireSession_Inr [of H rt info rt1] req Inr coh after by simp
    note eq = prepare_eq [OF req [unfolded Inr], of sha, unfolded run]
    consider "rt' = rt1" "\<forall>p. r = Inr (Some p) \<longrightarrow> rt_prepared rt1 = Some p"
      | input p where "nextInput (st_inbox (rt_store rt1)) = Some input"
          "plan_input sha H info (rt_store rt1) input = Inr p" "rt' = rt1\<lparr>rt_prepared := Some p\<rparr>" "r = Inr (Some p)"
      using eq by (auto split: option.splits sum.splits)
    then show ?thesis
    proof cases
      case 1
      with ok1 after show ?thesis by simp
    next
      case 2
      then have "pr_input p = input" by (auto simp: plan_input_def Let_def)
      with 2 ok1 after info show ?thesis
        by (simp add: rt_ok_def prepared_coherent_def session_coherent_def)
    qed
  qed
qed

subsection \<open>Admission keeps the invariant\<close>

text \<open>What a step never takes back: the log of admitted events and the session.\<close>

definition advances :: "('h, 'c) runtime \<Rightarrow> ('h, 'c) runtime \<Rightarrow> bool" where
  "advances rt rt' \<longleftrightarrow> log_extends (st_inbox (rt_store rt)) (st_inbox (rt_store rt'))
     \<and> (\<forall>i. st_session (rt_store rt) = Some i \<longrightarrow> st_session (rt_store rt') = Some i)"

lemma advances_refl [simp]: "advances rt rt"
  by (simp add: advances_def)

lemma advances_trans: "advances a b \<Longrightarrow> advances b c \<Longrightarrow> advances a c"
  unfolding advances_def using log_extends_trans by blast

lemma advances_same_store: "rt_store rt' = rt_store rt \<Longrightarrow> advances rt rt'"
  by (simp add: advances_def)

lemma plan_input_inbox [simp]: "plan_input sha H info (st\<lparr>st_inbox := rows\<rparr>) input = plan_input sha H info st input"
  by (simp add: plan_input_def)

lemma store_ok_grows: "store_ok st \<Longrightarrow> grows admissible (st_inbox st) rows \<Longrightarrow> store_ok (st\<lparr>st_inbox := rows\<rparr>)"
  using grows_sequences
  by (fastforce simp: store_ok_def pending_ok_def intro: grows_ok grows_namespaced)

lemma mild_rt_ok:
  assumes ok: "rt_ok sha H rt" and mild: "mild rt rt'"
  shows "rt_ok sha H rt' \<and> advances rt rt'"
proof -
  from mild obtain rows where g: "grows admissible (st_inbox (rt_store rt)) rows" "rt_store rt' = (rt_store rt)\<lparr>st_inbox := rows\<rparr>"
    and c: "session_coherent rt'" "rt_prepared rt' = rt_prepared rt" by (auto simp: mild_def)
  have inb: "inbox_ok (st_inbox (rt_store rt))" using ok by (simp add: rt_ok_def store_ok_def)
  have "prepared_coherent sha H rt'"
    using ok g c grows_next [OF g(1) inb] by (fastforce simp: rt_ok_def prepared_coherent_def)
  moreover have "store_ok (rt_store rt')" using ok g by (simp add: rt_ok_def store_ok_grows)
  moreover have "harness_ok H (rt_store rt')" using ok g by (simp add: rt_ok_def harness_ok_def)
  ultimately show ?thesis using c g log_extends_grows [OF g(1) inb] by (simp add: rt_ok_def advances_def)
qed

subsection \<open>Completions\<close>

lemma check_completion_run:
  assumes ok: "rt_ok sha H rt" and run: "check_completion sha H c rt = (r, rt')"
  shows "rt_ok sha H rt' \<and> rt_store rt' = rt_store rt
    \<and> (\<forall>i ev h. r = Inr (NewCompletion i ev h) \<longrightarrow> i = completionEventId (oc_operationId c)
        \<and> ev = completionEvent (oc_operationId c) (oc_provider c) (Some (oc_jobId c)) (oc_outcome c)
        \<and> h = inputHash sha ev)"
proof -
  have coh: "session_coherent rt" using ok by (simp add: rt_ok_def)
  obtain s rt1 where req: "requireSession H rt = (s, rt1)" by fastforce
  have ok1: "rt_ok sha H rt1" "rt_store rt1 = rt_store rt"
    using requireSession_any [OF req coh] ok by (auto simp: rt_ok_def prepared_coherent_def)
  obtain q rt2 where prep: "prepare sha H rt1 = (q, rt2)" by fastforce
  note after = prepare_run [OF ok1(1) prep]
  have "rt' = rt1 \<or> rt' = rt2"
    using run req prep
    by (simp add: check_completion_def Let_def act_defs split: sum.splits option.splits if_splits)
  moreover have "i = completionEventId (oc_operationId c)
      \<and> ev = completionEvent (oc_operationId c) (oc_provider c) (Some (oc_jobId c)) (oc_outcome c)
      \<and> h = inputHash sha ev" if "r = Inr (NewCompletion i ev h)" for i ev h
    using run req prep that
    by (simp add: check_completion_def Let_def act_defs split: sum.splits option.splits if_splits) auto
  ultimately show ?thesis using ok1 after by auto
qed

lemma acceptCompletion_run:
  assumes ok: "rt_ok sha H rt" and run: "acceptCompletion sha H v now rt = (r, rt')"
  shows "rt_ok sha H rt' \<and> advances rt rt'"
proof (cases "parseOperationCompletion v")
  case (Inl e)
  with run ok show ?thesis by (auto simp: acceptCompletion_def act_defs)
next
  case (Inr c)
  obtain q rt1 where check: "check_completion sha H c rt = (q, rt1)" by fastforce
  note after = check_completion_run [OF ok check]
  have coh1: "session_coherent rt1" using after by (simp add: rt_ok_def)
  show ?thesis
  proof (cases q)
    case (Inl e)
    with run Inr check after show ?thesis by (auto simp: acceptCompletion_def act_defs advances_same_store)
  next
    case adm: (Inr adm)
    have com: "commit_admission now (oc_operationId c) adm rt1 = (r, rt')"
      using run Inr check adm by (simp add: acceptCompletion_def act_defs)
    have "within (inbox_only admissible) (commit_admission now (oc_operationId c) adm)"
    proof (cases adm)
      case (KnownCompletion b x)
      then show ?thesis by (auto simp: commit_admission_def intro: within_intros)
    next
      case (NewCompletion i ev h)
      with after adm have "admissible i ev" by simp
      with NewCompletion show ?thesis
        by (auto simp: commit_admission_def intro!: within_intros)
    qed
    from mild_inbox_only [OF withinD [OF this com] coh1]
    have "rt_ok sha H rt' \<and> advances rt1 rt'" using mild_rt_ok after by blast
    with after show ?thesis by (simp add: advances_def)
  qed
qed

subsection \<open>Initialization\<close>

lemma initialize_body_run:
  assumes ok: "rt_ok sha H rt" and run: "transactionSync (initialize_body H q now) rt = (r, rt')"
    and chk: "checkHarness H (si_harness (is_session q)) = Inr ()"
  shows "rt_ok sha H rt' \<and> st_inbox (rt_store rt') = st_inbox (rt_store rt)
    \<and> (\<forall>x. r = Inr x \<longrightarrow> st_session (rt_store rt') = Some (fst x))
    \<and> (\<forall>i. st_session (rt_store rt) = Some i \<longrightarrow> rt_store rt' = rt_store rt)"
proof -
  have coh: "session_coherent rt" and prep: "prepared_coherent sha H rt" and st: "store_ok (rt_store rt)"
    and hok: "harness_ok H (rt_store rt)"
    using ok by (simp_all add: rt_ok_def)
  obtain s rt1 where load: "loadSession H rt = (s, rt1)" by fastforce
  note after = loadSession_coherent [OF load coh] and cases = loadSession_cases [OF load coh]
  have ok1: "rt_ok sha H rt1" using after prep st hok by (simp add: rt_ok_def prepared_coherent_def)
  consider (err) e where "s = Inl e" | (known) i where "s = Inr (Some i)" | (new) "s = Inr None"
    by (metis option.exhaust sum.exhaust)
  then show ?thesis
  proof cases
    case err
    with run load after ok1 have "rt' = rt1\<lparr>rt_store := rt_store rt\<rparr>" "r = Inl e"
      by (auto simp: transactionSync_def initialize_body_def bindA_def)
    with after ok1 show ?thesis by (metis runtime.surjective runtime.update_convs(1) sum.distinct(1))
  next
    case known
    have "st_session (rt_store rt) = Some i" using cases known by auto
    moreover have "rt' = rt1\<lparr>rt_store := rt_store rt\<rparr> \<or> rt' = rt1" "\<forall>x. r = Inr x \<longrightarrow> fst x = i"
      using run load known by (auto simp: transactionSync_def initialize_body_def act_defs split: if_splits)
    moreover have "rt1\<lparr>rt_store := rt_store rt\<rparr> = rt1" using after by (cases rt1) simp
    ultimately show ?thesis using after ok1 by auto
  next
    case new
    then have none: "rt_session rt1 = None" "st_session (rt_store rt) = None" "rt_prepared rt1 = None"
      using cases after prep by (auto simp: prepared_coherent_def)
    show ?thesis
    proof (cases r)
      case (Inl e)
      then have "rt' = rt1"
        using run load new after none
        by (cases rt1)
          (auto simp: transactionSync_def initialize_body_def insertSession_def constraint_def guardR_def
            harness_hook_def set_store_def Let_def act_defs split: sum.splits prod.splits if_splits)
      with Inl ok1 after show ?thesis by auto
    next
      case (Inr x)
      then have "\<exists>info h. rt' = rt1\<lparr>rt_store := (rt_store rt)\<lparr>st_session := Some info, st_harness := h\<rparr>\<rparr> \<and> fst x = info
          \<and> sn_identity info = is_session q"
        using run load new after
        by (auto simp: transactionSync_def initialize_body_def insertSession_def constraint_def guardR_def
            harness_hook_def set_store_def Let_def act_defs split: sum.splits prod.splits if_splits)
      then obtain info h where rt': "rt' = rt1\<lparr>rt_store := (rt_store rt)\<lparr>st_session := Some info, st_harness := h\<rparr>\<rparr>"
        and x: "fst x = info" "sn_identity info = is_session q" by blast
      show ?thesis
        unfolding rt' using Inr x none st chk
        by (simp add: rt_ok_def session_coherent_def prepared_coherent_def store_ok_def pending_ok_def harness_ok_def)
    qed
  qed
qed

lemma initialize_run:
  assumes ok: "rt_ok sha H rt" and run: "initialize H v now rt = (r, rt')"
  shows "rt_ok sha H rt' \<and> advances rt rt'"
proof (cases "bindR (parseInitializeSessionRequest v) (\<lambda>q. bindR (checkHarness H (si_harness (is_session q))) (\<lambda>_. Inr q))")
  case (Inl e)
  with run ok show ?thesis by (auto simp: initialize_def act_defs bindR_eq_Inl)
next
  case (Inr q)
  obtain s rt1 where body: "transactionSync (initialize_body H q now) rt = (s, rt1)" by fastforce
  have "checkHarness H (si_harness (is_session q)) = Inr ()" using Inr by auto
  note after = initialize_body_run [OF ok body this]
  show ?thesis
  proof (cases s)
    case (Inl e)
    with run Inr body after show ?thesis by (auto simp: initialize_def act_defs advances_def)
  next
    case res: (Inr x)
    with run Inr body have "rt' = rt1\<lparr>rt_session := Some (fst x)\<rparr>" by (auto simp: initialize_def act_defs)
    with res after show ?thesis by (auto simp: rt_ok_def session_coherent_def prepared_coherent_def advances_def)
  qed
qed

subsection \<open>Commit\<close>

text \<open>The part of a commit between the check of the head and the consumption of the input.\<close>

definition commit_effects ::
  "(jstring \<Rightarrow> jstring) \<Rightarrow> ('h, 'c) harness \<Rightarrow> session_info \<Rightarrow> 'c prepared_transition \<Rightarrow>
    (jstring \<times> submit_result) list \<Rightarrow> int \<Rightarrow> ('h, 'c, int) rt_act" where
  "commit_effects sha H info p results now =
     bindA (harness_hook (h_apply H (pr_changes p) (context_of info))) (\<lambda>_.
     bindA (forA (pr_operations p) (settle sha now (en_sequence (pr_input p)) results)) (\<lambda>_.
     bindA (finish_completed (pr_input p)) (\<lambda>_. liftR (timestamp now))))"

lemma within_commit_effects [within_intros]: "within inner (commit_effects sha H info p results now)"
  unfolding commit_effects_def by (intro within_intros)

lemma pending_commit_effects [pres_intros]: "preserves pending_inv (commit_effects sha H info p results now)"
  unfolding commit_effects_def by (intro pres_intros)

lemma commit_body_Inr:
  "commit_body sha H info p results now rt = (Inr x, rt') \<longleftrightarrow>
    (\<exists>t rt1. map_option ib_event_id (head_row (st_inbox (rt_store rt))) = Some (en_eventId (pr_input p))
      \<and> commit_effects sha H info p results now rt = (Inr t, rt1)
      \<and> rt' = rt1\<lparr>rt_store := (rt_store rt1)\<lparr>st_inbox := consumeInput (st_inbox (rt_store rt1)) (pr_input p) t\<rparr>\<rparr>
      \<and> x = \<lparr>pn_eventId = en_eventId (pr_input p), pn_sequence = en_sequence (pr_input p), pn_status = pr_status p\<rparr>)"
  unfolding commit_body_def commit_effects_def inbox_stmt_def set_store_def
  by (auto simp: bindA_Inr prim_defs)

lemma commit_body_Inl_caches:
  assumes "commit_body sha H info p results now rt = (Inl e, rt')"
  shows "rt_session rt' = rt_session rt \<and> rt_prepared rt' = rt_prepared rt"
proof -
  have "within (\<lambda>a b. rt_session b = rt_session a \<and> rt_prepared b = rt_prepared a)
      (commit_body sha H info p results now)" (is "within ?R _")
  proof -
    have refl: "reflp ?R" and trans: "transp ?R" by (auto simp: reflp_def transp_def)
    have sub: "within ?R m" if "within inner m" for m :: "('a, 'b, 'z) rt_act"
      using that by (rule within_mono) (simp add: inner_def)
    show ?thesis
      unfolding commit_body_def inbox_stmt_def set_store_def
      by (intro within_intros refl trans sub [OF within_harness_hook] sub [OF within_settle]
          sub [OF within_finish_completed]) auto
  qed
  then show ?thesis using assms by (auto dest: withinD)
qed

lemma consume_keeps_keys: "map ib_sequence (consumeInput rows e t) = map ib_sequence rows"
  by (simp add: consumeInput_def update_waiting_def consumed_row_def)

lemma consume_namespaced: "namespaced rows \<Longrightarrow> namespaced (consumeInput rows e t)"
  by (auto simp: namespaced_def consumeInput_def update_waiting_def consumed_row_def)

lemma store_ok_consume:
  assumes "store_ok st" and "nextInput (st_inbox st) = Some e"
  shows "store_ok (st\<lparr>st_inbox := consumeInput (st_inbox st) e t\<rparr>)"
proof -
  have "ib_sequence ` set (consumeInput (st_inbox st) e t) = ib_sequence ` set (st_inbox st)"
    using consume_keeps_keys by (metis set_map)
  with assms show ?thesis
    by (simp add: store_ok_def pending_ok_def inbox.consume_wf consume_namespaced)
qed

text \<open>What a commit that starts from a cached transition does.\<close>

lemma commit_cases:
  assumes ok: "rt_ok sha H rt" and run: "commit sha H p receipts now rt = (r, rt')"
  obtains (throw) e where "r = Inl e" "rt_store rt' = rt_store rt" "rt_prepared rt' = rt_prepared rt" "session_coherent rt'"
    | (committed) results info t rt1 where "rt_prepared rt = Some p" "st_session (rt_store rt) = Some info"
        "collect_receipts (pr_operations p) receipts [] = Inr results" "length results = length (pr_operations p)"
        "nextInput (st_inbox (rt_store rt)) = Some (pr_input p)"
        "commit_effects sha H info p results now (rt\<lparr>rt_session := Some info\<rparr>) = (Inr t, rt1)"
        "rt' = rt1\<lparr>rt_store := (rt_store rt1)\<lparr>st_inbox := consumeInput (st_inbox (rt_store rt1)) (pr_input p) t\<rparr>,
          rt_prepared := None\<rparr>"
        "r = Inr \<lparr>pn_eventId = en_eventId (pr_input p), pn_sequence = en_sequence (pr_input p), pn_status = pr_status p\<rparr>"
proof -
  have coh: "session_coherent rt" using ok by (simp add: rt_ok_def)
  show thesis
  proof (cases "rt_prepared rt = Some p \<and> (\<exists>results. collect_receipts (pr_operations p) receipts [] = Inr results
      \<and> length results = length (pr_operations p))")
    case False
    then have "(\<exists>e. r = Inl e) \<and> rt' = rt"
      using run by (auto simp: commit_def act_defs split: if_splits sum.splits)
    with coh show thesis by (auto intro: throw)
  next
    case True
    then obtain results where res: "rt_prepared rt = Some p" "collect_receipts (pr_operations p) receipts [] = Inr results"
      "length results = length (pr_operations p)" by blast
    obtain s rt0 where req: "requireSession H rt = (s, rt0)" by fastforce
    show thesis
    proof (cases s)
      case (Inl e)
      with run res req have "r = Inl e" "rt' = rt0" by (auto simp: commit_def act_defs)
      with requireSession_any [OF req coh] show thesis by (auto intro: throw)
    next
      case (Inr info)
      then have rt0: "rt0 = rt\<lparr>rt_session := Some info\<rparr>" "st_session (rt_store rt) = Some info"
        using requireSession_Inr req coh by auto
      obtain b rt2 where body: "transactionSync (commit_body sha H info p results now) rt0 = (b, rt2)" by fastforce
      show thesis
      proof (cases b)
        case (Inl e)
        with run res req Inr body have "r = Inl e" "rt' = rt2" by (auto simp: commit_def act_defs)
        moreover from body Inl obtain rt3 where "commit_body sha H info p results now rt0 = (Inl e, rt3)"
          "rt2 = rt3\<lparr>rt_store := rt_store rt0\<rparr>" by (auto simp: transactionSync_Inl)
        ultimately show thesis
          using rt0 commit_body_Inl_caches [of sha H info p results now rt0 e rt3]
          by (intro throw [of e]) (auto simp: session_coherent_def)
      next
        case bb: (Inr x)
        with body have cb: "commit_body sha H info p results now rt0 = (Inr x, rt2)" by (simp add: transactionSync_Inr)
        have "r = Inr x" "rt' = rt2\<lparr>rt_prepared := None\<rparr>"
          using run res req Inr body bb by (auto simp: commit_def act_defs)
        moreover have "nextInput (st_inbox (rt_store rt)) = Some (pr_input p)"
          using ok res(1) by (auto simp: rt_ok_def prepared_coherent_def)
        ultimately show thesis
          using cb res rt0 unfolding commit_body_Inr by (auto intro: committed)
      qed
    qed
  qed
qed

lemma commit_run:
  assumes ok: "rt_ok sha H rt" and run: "commit sha H p receipts now rt = (r, rt')"
  shows "rt_ok sha H rt' \<and> advances rt rt'"
  using ok run
proof (cases rule: commit_cases)
  case (throw e)
  with ok show ?thesis by (auto simp: rt_ok_def prepared_coherent_def advances_same_store)
next
  case (committed results info t rt1)
  have st: "store_ok (rt_store rt)" using ok by (simp add: rt_ok_def)
  have inr: "inner (rt\<lparr>rt_session := Some info\<rparr>) rt1"
    using within_commit_effects committed(6) by (rule withinD)
  then have g: "grows own_event (st_inbox (rt_store rt)) (st_inbox (rt_store rt1))" by (simp add: inner_def)
  have "pending_ok (rt_store rt1)"
    using preservesD [OF pending_commit_effects _ committed(6)] st by (simp add: pending_inv_def store_ok_def)
  with st g have st1: "store_ok (rt_store rt1)"
    by (simp add: store_ok_def grows_ok grows_namespaced [OF grows_own])
  have nxt: "nextInput (st_inbox (rt_store rt1)) = Some (pr_input p)"
    using grows_next [OF g _ committed(5)] st by (simp add: store_ok_def)
  have "log_extends (st_inbox (rt_store rt1)) (consumeInput (st_inbox (rt_store rt1)) (pr_input p) t)"
    using st1 nxt by (simp add: store_ok_def log_extends_consume)
  moreover have "log_extends (st_inbox (rt_store rt)) (st_inbox (rt_store rt1))"
    using g st by (simp add: store_ok_def log_extends_grows)
  ultimately have "log_extends (st_inbox (rt_store rt)) (st_inbox (rt_store rt'))"
    using committed(7) log_extends_trans by simp
  moreover have "rt_ok sha H rt'"
    using store_ok_consume [OF st1 nxt] inr committed(2,7) ok
    by (simp add: rt_ok_def session_coherent_def prepared_coherent_def inner_def harness_ok_def)
  ultimately show ?thesis using inr committed(7) by (simp add: advances_def inner_def)
qed

section \<open>Runs of a session\<close>

text \<open>One call of the runtime (\<open>loadSession\<close> is what the getter \<open>initialized\<close> calls), a bookkeeping statement of the driver, or a restart: a new runtime on the
  same storage, which has lost both caches.\<close>

definition with_inbox :: "(inbox_row list \<Rightarrow> inbox_row list) \<Rightarrow> ('h, 'c) runtime \<Rightarrow> ('h, 'c) runtime" where
  "with_inbox f rt = rt\<lparr>rt_store := (rt_store rt)\<lparr>st_inbox := f (st_inbox (rt_store rt))\<rparr>\<rparr>"

inductive rt_step :: "(jstring \<Rightarrow> jstring) \<Rightarrow> ('h, 'c) harness \<Rightarrow> ('h, 'c) runtime \<Rightarrow> ('h, 'c) runtime \<Rightarrow> bool"
  for sha H where
  step_load: "loadSession H rt = (r, rt') \<Longrightarrow> rt_step sha H rt rt'"
| step_initialize: "initialize H v now rt = (r, rt') \<Longrightarrow> rt_step sha H rt rt'"
| step_append: "appendInput sha H v now rt = (r, rt') \<Longrightarrow> rt_step sha H rt rt'"
| step_complete: "acceptCompletion sha H v now rt = (r, rt') \<Longrightarrow> rt_step sha H rt rt'"
| step_prepare: "prepare sha H rt = (r, rt') \<Longrightarrow> rt_step sha H rt rt'"
| step_commit: "commit sha H p receipts now rt = (r, rt') \<Longrightarrow> rt_step sha H rt rt'"
| step_fail: "rt_step sha H rt (with_inbox (\<lambda>rows. failProcessing rows status due blocked message) rt)"
| step_reset: "rt_step sha H rt (with_inbox resetProcessing rt)"
| step_restart: "newRuntime H (Some (rt_store rt)) = Inr rt' \<Longrightarrow> rt_step sha H rt rt'"

inductive_cases rt_stepE: "rt_step sha H rt rt'"

lemma same_content_rt_ok:
  assumes ok: "rt_ok sha H rt" and same: "\<And>rows. list_all2 same_content rows (f rows)"
  shows "rt_ok sha H (with_inbox f rt) \<and> advances rt (with_inbox f rt)"
proof -
  let ?rows = "st_inbox (rt_store rt)"
  note rows = same_content_rows [OF same, of ?rows] and find = same_content_maps(6) [OF same, of ?rows]
  have inb: "inbox_ok ?rows" using ok by (simp add: rt_ok_def store_ok_def)
  have nxt: "nextInput (f ?rows) = nextInput ?rows" using rows(2) inb by (simp add: nextInput_queue)
  have "namespaced (f ?rows)"
  proof -
    have "namespaced ?rows" using ok by (simp add: rt_ok_def store_ok_def)
    moreover have "list_all2 same_content ?rows (f ?rows)" by (rule same)
    ultimately show ?thesis
      by (fastforce simp: namespaced_def list_all2_conv_all_nth in_set_conv_nth same_content_def same_key_def)
  qed
  with ok rows nxt find show ?thesis
    by (simp add: rt_ok_def with_inbox_def store_ok_def pending_ok_def session_coherent_def
        prepared_coherent_def harness_ok_def advances_def log_extends_def)
qed

lemma newRuntime_ok:
  assumes "newRuntime H (Some st) = Inr rt'" and "store_ok st" and "harness_ok H st"
  shows "rt_ok sha H rt' \<and> rt_store rt' = st"
  using assms
  by (auto simp: newRuntime_def bootstrap_def findSession_def Let_def rt_ok_def session_coherent_def
      prepared_coherent_def harness_ok_def split: option.splits)

lemma rt_step_ok: "rt_step sha H rt rt' \<Longrightarrow> rt_ok sha H rt \<Longrightarrow> rt_ok sha H rt' \<and> advances rt rt'"
proof (induction rule: rt_step.induct)
  case (step_load rt r rt')
  from step_load have coh: "session_coherent rt" by (simp add: rt_ok_def)
  from loadSession_coherent [OF step_load(1) coh] step_load(2) show ?case
    by (auto simp: rt_ok_def prepared_coherent_def advances_same_store)
next
  case (step_append v now rt r rt')
  then show ?case using appendInput_mild mild_rt_ok by (metis rt_ok_def)
next
  case (step_prepare rt r rt')
  then show ?case using prepare_run by (metis advances_same_store)
next
  case (step_restart rt rt')
  then show ?case using newRuntime_ok by (metis rt_ok_def advances_same_store)
next
  case (step_fail rt status due blocked message)
  then show ?case by (intro same_content_rt_ok failProcessing_same)
next
  case (step_reset rt)
  then show ?case by (intro same_content_rt_ok resetProcessing_same)
next
  case (step_initialize v now rt r rt')
  then show ?case using initialize_run by metis
next
  case (step_complete v now rt r rt')
  then show ?case using acceptCompletion_run by metis
next
  case (step_commit p receipts now rt r rt')
  then show ?case using commit_run by metis
qed

lemma rt_steps_ok:
  "(rt_step sha H)\<^sup>*\<^sup>* rt rt' \<Longrightarrow> rt_ok sha H rt \<Longrightarrow> rt_ok sha H rt' \<and> advances rt rt'"
  by (induction rule: rtranclp_induct) (auto dest: rt_step_ok intro: advances_trans)

lemma fresh_runtime_ok:
  assumes "newRuntime H None = Inr rt"
  shows "rt_ok sha H rt"
proof -
  have "rt = \<lparr>rt_store = \<lparr>st_session = None, st_inbox = [], st_pending = [], st_harness = h_schema H\<rparr>,
      rt_session = None, rt_prepared = None\<rparr>"
    using assms by (auto simp: newRuntime_def bootstrap_def findSession_def Let_def)
  then show ?thesis
    by (simp add: rt_ok_def store_ok_def inbox_ok_def pending_ok_def namespaced_def session_coherent_def
        prepared_coherent_def harness_ok_def)
qed

section \<open>Deduplication\<close>

lemma requireSession_ok:
  assumes ok: "rt_ok sha H rt" and st: "st_session (rt_store rt) = Some i"
  shows "requireSession H rt = (Inr i, rt\<lparr>rt_session := Some i\<rparr>)"
proof (cases "rt_session rt")
  case None
  then show ?thesis using ok st by (intro requireSession_stored) (auto simp: rt_ok_def harness_ok_def)
next
  case (Some j)
  with ok st have "j = i" by (simp add: rt_ok_def session_coherent_def)
  with Some have "rt\<lparr>rt_session := Some i\<rparr> = rt" by (cases rt) simp
  with Some \<open>j = i\<close> show ?thesis by (simp add: requireSession_cached)
qed

text \<open>Admitting a request whose event ID is already in the log.\<close>

lemma admitInput_known:
  assumes ok: "rt_ok sha H rt" and st: "st_session (rt_store rt) = Some i"
    and external: "external_event (sr_eventId q) (sr_event q)"
    and found: "findInput (st_inbox (rt_store rt)) (sr_eventId q) = Some d"
  shows "admitInput sha H q now rt =
    (if rec_hash d \<noteq> inputHash sha (sr_event q)
     then Inl (ContractException INPUT_CONFLICT (lit ''Event ID was already used for different content.''))
     else Inr (receipt_of i (rec_eventId d) (rec_sequence d) (rec_receivedAt d) True),
     rt\<lparr>rt_session := Some i\<rparr>)"
  using external found requireSession_ok [OF ok st]
  by (auto simp: admitInput_def external_event_def admit_body_def transactionSync_def Let_def act_defs)

lemma admitInput_Inr:
  assumes ok: "rt_ok sha H rt" and run: "admitInput sha H q now rt = (Inr receipt, rt')"
  shows "\<exists>i d. external_event (sr_eventId q) (sr_event q) \<and> st_session (rt_store rt') = Some i
    \<and> findInput (st_inbox (rt_store rt')) (sr_eventId q) = Some d
    \<and> rec_hash d = inputHash sha (sr_event q)
    \<and> receipt\<lparr>ir_duplicate := True\<rparr> = receipt_of i (rec_eventId d) (rec_sequence d) (rec_receivedAt d) True"
proof -
  have coh: "session_coherent rt" and inb: "inbox_ok (st_inbox (rt_store rt))"
    using ok by (simp_all add: rt_ok_def store_ok_def)
  have ext: "external_event (sr_eventId q) (sr_event q)"
    and body: "admit_body sha H q now rt = (Inr receipt, rt')"
    using run by (auto simp: admitInput_def external_event_def throwA_def transactionSync_Inr split: if_splits)
  from body obtain i rt1 where req: "requireSession H rt = (Inr i, rt1)"
    by (auto simp: admit_body_def Let_def bindA_Inr)
  note r1 = requireSession_Inr [OF req coh]
  show ?thesis
  proof (cases "findInput (st_inbox (rt_store rt)) (sr_eventId q)")
    case (Some d)
    with run have "rt' = rt\<lparr>rt_session := Some i\<rparr>" "rec_hash d = inputHash sha (sr_event q)"
      "receipt = receipt_of i (rec_eventId d) (rec_sequence d) (rec_receivedAt d) True"
      using admitInput_known [OF ok conjunct2 [OF r1] ext] by (auto split: if_splits)
    with Some ext r1 show ?thesis by (auto simp: receipt_of_def)
  next
    case None
    with body req r1 obtain e where
      ins: "insert_event now (sr_eventId q) (sr_event q) (inputHash sha (sr_event q)) rt1 = (Inr e, rt')"
      and rec: "receipt = receipt_of i (en_eventId e) (en_sequence e) (en_receivedAt e) False"
      by (auto simp: admit_body_def Let_def bindA_Inr prim_defs split: if_splits)
    then obtain rows where a: "allocateSequence (st_inbox (rt_store rt)) = Inr (en_sequence e)"
      "insertInput (st_inbox (rt_store rt)) e (inputHash sha (sr_event q)) = Inr rows"
      "en_eventId e = sr_eventId q" "st_inbox (rt_store rt') = rows" "st_session (rt_store rt') = Some i"
      using r1 by (auto simp: insert_event_Inr)
    from inbox.admit_records [OF inb a(1,2)] a rec ext show ?thesis
      by (auto simp: fresh_record_def receipt_of_def)
  qed
qed

lemma advances_found:
  assumes "advances rt rt'" and "findInput (st_inbox (rt_store rt)) i = Some d"
  obtains d' where "findInput (st_inbox (rt_store rt')) i = Some d'" "rec_hash d' = rec_hash d"
    "rec_eventId d' = rec_eventId d" "rec_sequence d' = rec_sequence d" "rec_receivedAt d' = rec_receivedAt d"
    "rec_consumed d \<longrightarrow> rec_consumed d'"
proof -
  obtain d' where d': "findInput (st_inbox (rt_store rt')) i = Some d'" "d'\<lparr>rec_consumed := rec_consumed d\<rparr> = d"
    "rec_consumed d \<longrightarrow> rec_consumed d'"
    using assms unfolding advances_def log_extends_def by blast
  then have "rec_hash d' = rec_hash d" "rec_eventId d' = rec_eventId d" "rec_sequence d' = rec_sequence d"
    "rec_receivedAt d' = rec_receivedAt d"
    by (metis input_record.select_convs input_record.surjective input_record.update_convs(5))+
  with d' that show thesis by blast
qed

text \<open>The same for a completion.\<close>

lemma check_completion_known:
  assumes ok: "rt_ok sha H rt" and st: "st_session (rt_store rt) = Some i"
    and ident: "operationIdentity (oc_operationId c) = Inr n" "oc_submissionId c = oc_operationId c"
    and found: "findInput (st_inbox (rt_store rt)) (completionEventId (oc_operationId c)) = Some d"
  shows "check_completion sha H c rt =
    (if rec_hash d \<noteq> inputHash sha (completionEvent (oc_operationId c) (oc_provider c) (Some (oc_jobId c)) (oc_outcome c))
     then Inl (ContractException COMPLETION_CONFLICT (lit ''Completion content changed.''))
     else Inr (KnownCompletion (rec_consumed d) \<lparr>cr_operationId = oc_operationId c,
       cr_eventId = completionEventId (oc_operationId c), cr_duplicate = True\<rparr>),
     rt\<lparr>rt_session := Some i\<rparr>)"
  using ident found requireSession_ok [OF ok st]
  by (auto simp: check_completion_def Let_def act_defs)

lemma acceptCompletion_Inr:
  assumes ok: "rt_ok sha H rt" and run: "acceptCompletion sha H v now rt = (Inr receipt, rt')"
    and parsed: "parseOperationCompletion v = Inr c"
  shows "\<exists>info d n. st_session (rt_store rt') = Some info
    \<and> findInput (st_inbox (rt_store rt')) (completionEventId (oc_operationId c)) = Some d
    \<and> rec_hash d = inputHash sha (completionEvent (oc_operationId c) (oc_provider c) (Some (oc_jobId c)) (oc_outcome c))
    \<and> receipt\<lparr>cr_duplicate := True\<rparr> = \<lparr>cr_operationId = oc_operationId c,
        cr_eventId = completionEventId (oc_operationId c), cr_duplicate = True\<rparr>
    \<and> operationIdentity (oc_operationId c) = Inr n \<and> oc_submissionId c = oc_operationId c"
proof -
  let ?i = "completionEventId (oc_operationId c)"
  let ?e = "completionEvent (oc_operationId c) (oc_provider c) (Some (oc_jobId c)) (oc_outcome c)"
  have coh: "session_coherent rt" using ok by (simp add: rt_ok_def)
  from run parsed obtain adm rt1 where check: "check_completion sha H c rt = (Inr adm, rt1)"
    and com: "commit_admission now (oc_operationId c) adm rt1 = (Inr receipt, rt')"
    by (auto simp: acceptCompletion_def bindA_Inr prim_defs)
  note st1 = check_completion_run [OF ok check]
  from check obtain info rt0 n where req: "requireSession H rt = (Inr info, rt0)"
    and ident: "operationIdentity (oc_operationId c) = Inr n" "oc_submissionId c = oc_operationId c"
    by (auto simp: check_completion_def Let_def bindA_Inr prim_defs split: if_splits)
  have info: "st_session (rt_store rt) = Some info" using requireSession_Inr [OF req coh] by simp
  show ?thesis
  proof (cases "findInput (st_inbox (rt_store rt)) ?i")
    case (Some d)
    from check check_completion_known [OF ok info ident Some] have "rec_hash d = inputHash sha ?e"
      "adm = KnownCompletion (rec_consumed d) \<lparr>cr_operationId = oc_operationId c, cr_eventId = ?i, cr_duplicate = True\<rparr>"
      by (auto split: if_splits)
    with com st1 Some info ident show ?thesis by (auto simp: commit_admission_def retA_def)
  next
    case None
    then have "findInput (st_inbox (rt_store rt0)) ?i = None" using requireSession_Inr [OF req coh] by simp
    with check req ident have "adm = NewCompletion ?i ?e (inputHash sha ?e)"
      by (auto simp: check_completion_def Let_def bindA_Inr prim_defs split: if_splits option.splits)
    with com obtain e where "insert_event now ?i ?e (inputHash sha ?e) rt1 = (Inr e, rt')"
      and rc: "receipt = \<lparr>cr_operationId = oc_operationId c, cr_eventId = ?i, cr_duplicate = False\<rparr>"
      by (auto simp: commit_admission_def transactionSync_Inr bindA_Inr prim_defs)
    then obtain rows where a: "allocateSequence (st_inbox (rt_store rt1)) = Inr (en_sequence e)"
      "insertInput (st_inbox (rt_store rt1)) e (inputHash sha ?e) = Inr rows" "en_eventId e = ?i"
      "rt' = rt1\<lparr>rt_store := (rt_store rt1)\<lparr>st_inbox := rows\<rparr>\<rparr>"
      by (auto simp: insert_event_Inr)
    have "inbox_ok (st_inbox (rt_store rt1))" using conjunct1 [OF st1] by (simp add: rt_ok_def store_ok_def)
    from inbox.admit_records [OF this a(1,2)] a rc info ident st1 show ?thesis by (auto simp: fresh_record_def)
  qed
qed

section \<open>Receipts and pending operations\<close>

definition pending_row :: "int \<Rightarrow> prepared_operation \<Rightarrow> submit_result \<Rightarrow> pending_operation list" where
  "pending_row sequence op result =
     (let row = (\<lambda>jobId. [\<lparr>po_operationId = pp_operationId op, po_sourceInputSequence = sequence, po_key = pp_key op,
        po_provider = od_provider (pp_request op), po_jobId = jobId\<rparr>]) in
      case result of Accepted jobId \<Rightarrow> row jobId | Completed jobId outcome \<Rightarrow> row jobId | Rejected error \<Rightarrow> [])"

text \<open>The completion event an answer that needs no callback puts in the inbox.\<close>

fun immediate_event :: "prepared_operation \<Rightarrow> submit_result \<Rightarrow> event_body option" where
  "immediate_event op (Accepted jobId) = None"
| "immediate_event op (Completed jobId outcome) =
     Some (completionEvent (pp_operationId op) (od_provider (pp_request op)) (Some jobId) outcome)"
| "immediate_event op (Rejected error) =
     Some (completionEvent (pp_operationId op) (od_provider (pp_request op)) None (Failed Submission error))"

definition event_logged :: "(jstring \<Rightarrow> jstring) \<Rightarrow> inbox_row list \<Rightarrow> prepared_operation \<Rightarrow> submit_result \<Rightarrow> bool" where
  "event_logged sha rows op result \<longleftrightarrow> (\<forall>ev. immediate_event op result = Some ev \<longrightarrow>
     (\<exists>d. findInput rows (completionEventId (pp_operationId op)) = Some d \<and> rec_hash d = inputHash sha ev))"

lemma queueCompletion_Inr:
  assumes ok: "inbox_ok (st_inbox (rt_store rt))"
    and run: "queueCompletion sha now oid p j o' rt = (Inr x, rt')"
  shows "st_pending (rt_store rt') = st_pending (rt_store rt)
    \<and> (\<exists>d. findInput (st_inbox (rt_store rt')) (completionEventId oid) = Some d
        \<and> rec_hash d = inputHash sha (completionEvent oid p j o'))"
proof (cases "findInput (st_inbox (rt_store rt)) (completionEventId oid)")
  case (Some d)
  with run show ?thesis by (auto simp: queueCompletion_def Let_def act_defs split: if_splits)
next
  case None
  with run obtain e where "insert_event now (completionEventId oid) (completionEvent oid p j o')
      (inputHash sha (completionEvent oid p j o')) rt = (Inr e, rt')"
    by (auto simp: queueCompletion_def Let_def bindA_Inr prim_defs)
  then obtain rows where a: "allocateSequence (st_inbox (rt_store rt)) = Inr (en_sequence e)"
    "insertInput (st_inbox (rt_store rt)) e (inputHash sha (completionEvent oid p j o')) = Inr rows"
    "en_eventId e = completionEventId oid" "rt' = rt\<lparr>rt_store := (rt_store rt)\<lparr>st_inbox := rows\<rparr>\<rparr>"
    by (auto simp: insert_event_Inr)
  from inbox.admit_records [OF ok a(1,2)] a show ?thesis by (auto simp: fresh_record_def)
qed

lemma insert_pending_Inr:
  "insert_pending p rt = (Inr u, rt') \<Longrightarrow> rt' = rt\<lparr>rt_store := (rt_store rt)\<lparr>st_pending := st_pending (rt_store rt) @ [p]\<rparr>\<rparr>"
  by (auto simp: insert_pending_def set_store_def po_insert_def constraint_def bindA_Inr prim_defs)

lemma settle_Inr:
  assumes ok: "inbox_ok (st_inbox (rt_store rt))" and run: "settle sha now q results op rt = (Inr u, rt')"
  shows "\<exists>res. map_of results (pp_operationId op) = Some res
    \<and> st_pending (rt_store rt') = st_pending (rt_store rt) @ pending_row q op res
    \<and> event_logged sha (st_inbox (rt_store rt')) op res"
proof -
  from run obtain res where res: "map_of results (pp_operationId op) = Some res"
    by (cases "map_of results (pp_operationId op)") (auto simp: settle_def throwA_def)
  show ?thesis
  proof (cases res)
    case (Accepted j)
    with run res show ?thesis
      by (auto simp: settle_def pending_row_def event_logged_def dest!: insert_pending_Inr)
  next
    case (Rejected f)
    with run res obtain x where "queueCompletion sha now (pp_operationId op) (od_provider (pp_request op)) None
        (Failed Submission f) rt = (Inr x, rt')"
      by (auto simp: settle_def bindA_Inr prim_defs)
    from queueCompletion_Inr [OF ok this] Rejected res show ?thesis
      by (simp add: pending_row_def event_logged_def)
  next
    case (Completed j o')
    with run res obtain rt1 x where ins: "insert_pending \<lparr>po_operationId = pp_operationId op,
        po_sourceInputSequence = q, po_key = pp_key op, po_provider = od_provider (pp_request op), po_jobId = j\<rparr> rt = (Inr (), rt1)"
      and que: "queueCompletion sha now (pp_operationId op) (od_provider (pp_request op)) (Some j) o' rt1 = (Inr x, rt')"
      by (auto simp: settle_def bindA_Inr prim_defs)
    have "inbox_ok (st_inbox (rt_store rt1))" using ok insert_pending_Inr [OF ins] by simp
    from queueCompletion_Inr [OF this que] insert_pending_Inr [OF ins] Completed res show ?thesis
      by (simp add: pending_row_def event_logged_def)
  qed
qed

lemma event_logged_grows:
  "event_logged sha rows op res \<Longrightarrow> grows Q rows rows' \<Longrightarrow> inbox_ok rows \<Longrightarrow> event_logged sha rows' op res"
  by (meson event_logged_def grows_record)

lemma settle_all:
  assumes "inbox_ok (st_inbox (rt_store rt))" and "forA ops (settle sha now q results) rt = (Inr u, rt')"
  shows "st_pending (rt_store rt') = st_pending (rt_store rt)
      @ concat (map (\<lambda>op. pending_row q op (the (map_of results (pp_operationId op)))) ops)
    \<and> (\<forall>op \<in> set ops. \<exists>res. map_of results (pp_operationId op) = Some res
        \<and> event_logged sha (st_inbox (rt_store rt')) op res)"
  using assms
proof (induction ops arbitrary: rt)
  case Nil
  then show ?case by (simp add: retA_def)
next
  case (Cons op ops)
  from Cons.prems(2) obtain u1 rt1 where one: "settle sha now q results op rt = (Inr u1, rt1)"
    and rest: "forA ops (settle sha now q results) rt1 = (Inr u, rt')"
    by (auto simp: bindA_Inr)
  have g1: "grows own_event (st_inbox (rt_store rt)) (st_inbox (rt_store rt1))"
    using withinD [OF within_settle one] by (simp add: inner_def)
  have ok1: "inbox_ok (st_inbox (rt_store rt1))" using grows_ok [OF g1 Cons.prems(1)] .
  have w: "within inner (forA ops (settle sha now q results))" by (intro within_intros)
  have g2: "grows own_event (st_inbox (rt_store rt1)) (st_inbox (rt_store rt'))"
    using withinD [OF w rest] by (simp add: inner_def)
  obtain res where res: "map_of results (pp_operationId op) = Some res"
    "st_pending (rt_store rt1) = st_pending (rt_store rt) @ pending_row q op res"
    "event_logged sha (st_inbox (rt_store rt1)) op res"
    using settle_Inr [OF Cons.prems(1) one] by blast
  with Cons.IH [OF ok1 rest] event_logged_grows [OF res(3) g2 ok1] show ?case by simp
qed

lemma event_logged_extends:
  "event_logged sha rows op res \<Longrightarrow> log_extends rows rows' \<Longrightarrow> event_logged sha rows' op res"
  unfolding event_logged_def log_extends_def
  by (metis input_record.select_convs(4) input_record.surjective input_record.update_convs(5))

text \<open>Each receipt answers one prepared operation, each operation has one.\<close>

lemma collect_receipts_keys:
  "collect_receipts ops rs acc = Inr results \<Longrightarrow> distinct (map fst acc) \<Longrightarrow> set (map fst acc) \<subseteq> pp_operationId ` set ops \<Longrightarrow>
    distinct (map fst results) \<and> set (map fst results) \<subseteq> pp_operationId ` set ops"
proof (induction ops rs acc rule: collect_receipts.induct)
  case (2 ops oid v rs acc)
  have new: "\<not> (oid \<in> fst ` set acc \<or> oid \<notin> pp_operationId ` set ops)"
    using "2.prems"(1) by (simp split: if_splits)
  with "2.prems"(1) obtain r where r: "parseProviderSubmitResult (Some v) = Inr r"
    "collect_receipts ops rs (acc @ [(oid, r)]) = Inr results" by auto
  show ?case
    by (rule "2.IH" [OF new r(2)]) (use new "2.prems"(2,3) in auto)
qed simp

lemma receipts_cover:
  assumes "collect_receipts ops rs [] = Inr results" and "length results = length ops"
  shows "distinct (map pp_operationId ops) \<and> set (map fst results) = set (map pp_operationId ops)"
proof -
  have keys: "distinct (map fst results)" "set (map fst results) \<subseteq> set (map pp_operationId ops)"
    using collect_receipts_keys [OF assms(1)] by auto
  have "length ops = card (set (map fst results))"
    using keys(1) assms(2) by (metis distinct_card length_map)
  also have "\<dots> \<le> card (set (map pp_operationId ops))" using keys(2) by (simp add: card_mono)
  finally have card: "card (set (map pp_operationId ops)) = length (map pp_operationId ops)"
    using card_length [of "map pp_operationId ops"] by simp
  then have "distinct (map pp_operationId ops)" by (rule card_distinct)
  moreover have "set (map fst results) = set (map pp_operationId ops)"
    using keys card \<open>length ops = card (set (map fst results))\<close> by (intro card_subset_eq) simp_all
  ultimately show ?thesis by simp
qed

text \<open>The pending table after the completed operation, if any, is deleted.\<close>

definition after_completion :: "input_envelope \<Rightarrow> pending_operation list \<Rightarrow> pending_operation list" where
  "after_completion input ps = (if ev_type (en_event input) = COMPLETED_EVENT
     then (case read_completed (en_event input) of Inr c \<Rightarrow> po_delete ps (ce_operationId c) | Inl e \<Rightarrow> ps) else ps)"

lemma finish_completed_Inr:
  "finish_completed input rt = (Inr u, rt') \<Longrightarrow>
    rt' = rt\<lparr>rt_store := (rt_store rt)\<lparr>st_pending := after_completion input (st_pending (rt_store rt))\<rparr>\<rparr>"
  by (auto simp: finish_completed_def set_store_def after_completion_def bindA_Inr prim_defs split: if_splits)

lemma harness_hook_Inr: "harness_hook m rt = (Inr u, rt') \<Longrightarrow>
    m (st_harness (rt_store rt)) = (Inr u, st_harness (rt_store rt'))
    \<and> rt' = rt\<lparr>rt_store := (rt_store rt)\<lparr>st_harness := st_harness (rt_store rt')\<rparr>\<rparr>"
  by (auto simp: harness_hook_def set_store_def bindA_Inr prim_defs intro: prod_eqI)

section \<open>Successful calls\<close>

text \<open>The straight-line behaviour of each call, under the conditions the code tests.\<close>

lemma initialize_new:
  assumes "parseInitializeSessionRequest v = Inr q" and "checkHarness H (si_harness (is_session q)) = Inr ()"
    and "rt_session rt = None" and "st_session (rt_store rt) = None"
    and "h_parseConfig H (is_config q) = Inr config" and "timestamp now = Inr t"
    and "h_initialize H (context_of \<lparr>sn_identity = is_session q, sn_config = config, sn_createdAt = t\<rparr>)
      (st_harness (rt_store rt)) = (Inr (), h)"
  shows "initialize H v now rt = (Inr (\<lparr>sn_identity = is_session q, sn_config = config, sn_createdAt = t\<rparr>, False),
    rt\<lparr>rt_store := (rt_store rt)\<lparr>st_session := Some \<lparr>sn_identity = is_session q, sn_config = config, sn_createdAt = t\<rparr>,
      st_harness := h\<rparr>, rt_session := Some \<lparr>sn_identity = is_session q, sn_config = config, sn_createdAt = t\<rparr>\<rparr>)"
proof -
  have "0 \<le> t" using assms(6) by (auto simp: timestamp_def split: if_splits)
  with assms show ?thesis
    by (simp add: initialize_def initialize_body_def transactionSync_def loadSession_def findSession_def
        insertSession_def constraint_def set_store_def harness_hook_def Let_def act_defs)
qed

lemma appendInput_new:
  assumes "parseSubmitInputRequest v = Inr q" and "external_event (sr_eventId q) (sr_event q)"
    and "rt_session rt = Some i" and "findInput (st_inbox (rt_store rt)) (sr_eventId q) = None"
    and "h_parseInput H (sr_event q) = Inr parsed" and "parseEventBody (Some (event_json parsed)) = Inr validated"
    and "ev_type validated = ev_type (sr_event q)" and "jsonEquals (ev_payload validated) (ev_payload (sr_event q))"
    and "allocateSequence (st_inbox (rt_store rt)) = Inr n" and "timestamp now = Inr t"
    and "insertInput (st_inbox (rt_store rt)) \<lparr>en_eventId = sr_eventId q, en_sequence = n, en_receivedAt = t,
      en_event = sr_event q\<rparr> (inputHash sha (sr_event q)) = Inr rows"
  shows "appendInput sha H v now rt =
    (Inr (receipt_of i (sr_eventId q) n t False), rt\<lparr>rt_store := (rt_store rt)\<lparr>st_inbox := rows\<rparr>\<rparr>)"
  using assms
  by (simp add: appendInput_def admitInput_def external_event_def admit_body_def requireSession_cached
      transactionSync_def insert_event_def inbox_stmt_def set_store_def Let_def act_defs)

lemma prepare_new:
  assumes "rt_session rt = Some i" and "rt_prepared rt = None" and "nextInput (st_inbox (rt_store rt)) = Some input"
    and "plan_input sha H i (rt_store rt) input = Inr p"
  shows "prepare sha H rt = (Inr (Some p), rt\<lparr>rt_prepared := Some p\<rparr>)"
  using assms by (simp add: prepare_eq [OF requireSession_cached])

lemma acceptCompletion_new:
  assumes "parseOperationCompletion v = Inr c" and "rt_session rt = Some i"
    and "operationIdentity (oc_operationId c) = Inr n" and "oc_submissionId c = oc_operationId c"
    and "findInput (st_inbox (rt_store rt)) (completionEventId (oc_operationId c)) = None"
    and "po_find (st_pending (rt_store rt)) (oc_operationId c) = Some p"
    and "po_provider p = oc_provider c" and "po_jobId p = oc_jobId c"
    and "allocateSequence (st_inbox (rt_store rt)) = Inr m" and "timestamp now = Inr t"
    and "ev = completionEvent (oc_operationId c) (oc_provider c) (Some (oc_jobId c)) (oc_outcome c)"
    and "insertInput (st_inbox (rt_store rt)) \<lparr>en_eventId = completionEventId (oc_operationId c), en_sequence = m,
      en_receivedAt = t, en_event = ev\<rparr> (inputHash sha ev) = Inr rows"
  shows "acceptCompletion sha H v now rt = (Inr \<lparr>cr_operationId = oc_operationId c,
      cr_eventId = completionEventId (oc_operationId c), cr_duplicate = False\<rparr>,
    rt\<lparr>rt_store := (rt_store rt)\<lparr>st_inbox := rows\<rparr>\<rparr>)"
  using assms
  by (simp add: acceptCompletion_def check_completion_def commit_admission_def requireSession_cached
      transactionSync_def insert_event_def inbox_stmt_def set_store_def Let_def act_defs)

section \<open>Identities\<close>

lemma no_colon:
  "0x3A \<notin> set (lit ''replay-v1'')" "list_all is_digit s \<Longrightarrow> 0x3A \<notin> set s" "list_all is_lower_hex s \<Longrightarrow> 0x3A \<notin> set s"
  by (auto simp: lit_def list_all_iff is_digit_def is_lower_hex_def)

lemma operationIdentity_operationId:
  assumes "operationId sha session n key = Inr oid" and "hex64 sha" and "1 \<le> n" and "n \<le> MAX_SAFE_INTEGER"
  shows "operationIdentity oid = Inr n"
proof -
  have oid: "oid = lit ''replay-v1'' @ 0x3A # nat_text (nat n) @ 0x3A # sha (operation_text session n key)"
    using assms(1,3) by (auto simp: operationId_def int_text_def lit_def split: if_splits)
  have hex: "length (sha t) = 64" "list_all is_lower_hex (sha t)" for t
    using assms(2) by (simp_all add: hex64_def)
  have "split_on 0x3A oid = [lit ''replay-v1'', nat_text (nat n), sha (operation_text session n key)]"
    unfolding oid using hex(2)
    by (simp add: split_on_append split_on_single no_colon(1) no_colon(2) [OF list_all_digit_nat_text] no_colon(3))
  moreover have "positive_decimal (nat_text (nat n))"
    using assms(3) by (simp add: positive_decimal_def hd_nat_text_nonzero)
  ultimately show ?thesis using assms(3,4) hex by (simp add: operationIdentity_def)
qed

lemma initialize_keeps:
  assumes "initialize H v now rt = (r, rt')"
  shows "rt_prepared rt' = rt_prepared rt \<and> st_inbox (rt_store rt') = st_inbox (rt_store rt)"
  using assms
  by (auto simp: initialize_def initialize_body_def loadSession_def insertSession_def constraint_def guardR_def
      transactionSync_def harness_hook_def set_store_def Let_def act_defs
      split: sum.splits prod.splits if_splits option.splits)

end
