(* ===== verification/HarnessContract.thy ===== *)
theory HarnessContract
  imports RuntimeSafety
begin

text \<open>
  The contract between the session runtime and a harness. The locale \<open>harness_contract\<close> fixes a harness
  and an invariant of its tables; the laws are that initialization establishes the invariant and that
  applying a plan to the tables it was planned on keeps it. The runtime's part is proved once, inside the
  locale: it applies a plan to no other tables, in no other order, so the invariant holds after every
  sequence of calls, failures and restarts.
\<close>

section \<open>Which operations touch the harness tables\<close>

definition same_tables :: "('h, 'c) runtime \<Rightarrow> ('h, 'c) runtime \<Rightarrow> bool" where
  "same_tables rt rt' \<longleftrightarrow> st_harness (rt_store rt') = st_harness (rt_store rt)
     \<and> st_session (rt_store rt') = st_session (rt_store rt)"

lemma same_tables_refl [within_intros]: "reflp same_tables"
  by (simp add: reflp_def same_tables_def)

lemma same_tables_trans [within_intros]: "transp same_tables"
  by (simp add: transp_def same_tables_def)

lemma same_store_tables: "rt_store rt' = rt_store rt \<Longrightarrow> same_tables rt rt'"
  by (simp add: same_tables_def)

lemma within_transactionSync [within_intros]:
  "within same_tables m \<Longrightarrow> within same_tables (transactionSync m)"
  unfolding within_def transactionSync_def same_tables_def by (auto split: prod.splits sum.splits) (metis snd_conv)+

lemma within_inbox_stmt [within_intros]: "within same_tables (inbox_stmt f)"
  unfolding inbox_stmt_def set_store_def by (intro within_intros) (simp add: same_tables_def)

lemma within_insert_pending_tables [within_intros]: "within same_tables (insert_pending p)"
  unfolding insert_pending_def set_store_def by (intro within_intros) (simp add: same_tables_def)

lemma within_case_completion [within_intros]:
  "(\<And>b x. a = KnownCompletion b x \<Longrightarrow> within R (f b x)) \<Longrightarrow> (\<And>i e h. a = NewCompletion i e h \<Longrightarrow> within R (g i e h)) \<Longrightarrow>
    within R (case a of KnownCompletion b x \<Rightarrow> f b x | NewCompletion i e h \<Rightarrow> g i e h)"
  by (cases a) auto

lemma within_queue [within_intros]: "within same_tables (queueCompletion sha now oid provider jobId outcome)"
  unfolding queueCompletion_def insert_event_def Let_def by (intro within_intros)

lemma within_settle_tables: "within same_tables (settle sha now q results op)"
  unfolding settle_def by (auto split: option.split submit_result.split intro!: within_intros)

lemma within_finish_tables: "within same_tables (finish_completed input)"
  unfolding finish_completed_def set_store_def by (intro within_intros) (simp add: same_tables_def)

lemma acceptCompletion_tables:
  assumes ok: "rt_ok sha H rt" and run: "acceptCompletion sha H v now rt = (r, rt')"
  shows "same_tables rt rt'"
proof (cases "parseOperationCompletion v")
  case (Inl e)
  with run show ?thesis by (simp add: acceptCompletion_def act_defs same_tables_def)
next
  case (Inr c)
  obtain q rt1 where check: "check_completion sha H c rt = (q, rt1)" by fastforce
  have store: "rt_store rt1 = rt_store rt" using check_completion_run [OF ok check] by simp
  show ?thesis
  proof (cases q)
    case (Inl e)
    with run Inr check store show ?thesis by (auto simp: acceptCompletion_def act_defs same_store_tables)
  next
    case adm: (Inr adm)
    have com: "commit_admission now (oc_operationId c) adm rt1 = (r, rt')"
      using run Inr check adm by (simp add: acceptCompletion_def act_defs)
    have "within same_tables (commit_admission now (oc_operationId c) adm)"
      unfolding commit_admission_def insert_event_def Let_def by (intro within_intros)
    from withinD [OF this com] store show ?thesis by (simp add: same_tables_def)
  qed
qed

lemma commit_tables:
  assumes ok: "rt_ok sha H rt" and run: "commit sha H p receipts now rt = (r, rt')"
  shows "same_tables rt rt' \<or> (\<exists>info plan u. st_session (rt_store rt) = Some info \<and> st_session (rt_store rt') = Some info
    \<and> nextInput (st_inbox (rt_store rt)) = Some (pr_input p)
    \<and> h_handle H (pr_input p) (context_of info) (operationId sha (sn_identity info) (en_sequence (pr_input p)))
        (st_harness (rt_store rt)) = Inr plan
    \<and> h_apply H (tp_changes plan) (context_of info) (st_harness (rt_store rt)) = (Inr u, st_harness (rt_store rt')))"
  using ok run
proof (cases rule: commit_cases)
  case (throw e)
  then show ?thesis by (simp add: same_store_tables)
next
  case (committed results info t rt1)
  let ?rt0 = "rt\<lparr>rt_session := Some info\<rparr>"
  have "plan_input sha H info (rt_store rt) (pr_input p) = Inr p"
    using ok committed(1,2) by (auto simp: rt_ok_def prepared_coherent_def)
  then obtain plan where plan: "h_handle H (pr_input p) (context_of info)
      (operationId sha (sn_identity info) (en_sequence (pr_input p))) (st_harness (rt_store rt)) = Inr plan"
    "tp_changes plan = pr_changes p"
    by (auto simp: plan_input_def Let_def bindR_eq_Inr dest: arg_cong [where f = pr_changes])
  from committed(6) obtain u rt2 where hook: "harness_hook (h_apply H (pr_changes p) (context_of info)) ?rt0 = (Inr u, rt2)"
    and rest: "bindA (forA (pr_operations p) (settle sha now (en_sequence (pr_input p)) results)) (\<lambda>_.
      bindA (finish_completed (pr_input p)) (\<lambda>_. liftR (timestamp now))) rt2 = (Inr t, rt1)"
    unfolding commit_effects_def bindA_Inr by blast
  have "within same_tables (bindA (forA (pr_operations p) (settle sha now (en_sequence (pr_input p)) results)) (\<lambda>_.
      bindA (finish_completed (pr_input p)) (\<lambda>_. liftR (timestamp now))))"
    by (intro within_intros within_settle_tables within_finish_tables)
  from withinD [OF this rest] harness_hook_Inr [OF hook]
  have "st_session (rt_store rt1) = Some info"
    and app: "h_apply H (pr_changes p) (context_of info) (st_harness (rt_store rt)) = (Inr u, st_harness (rt_store rt1))"
    using committed(2) by (auto simp: same_tables_def) (metis runtime.select_convs(1) store.select_convs(1) store.surjective store.update_convs(4) runtime.surjective runtime.update_convs(1))+
  with committed plan show ?thesis by auto
qed

lemma initialize_tables:
  assumes ok: "rt_ok sha H rt" and run: "initialize H v now rt = (r, rt')"
  shows "same_tables rt rt' \<or> (\<exists>info u. st_session (rt_store rt) = None \<and> st_session (rt_store rt') = Some info
    \<and> h_initialize H (context_of info) (st_harness (rt_store rt)) = (Inr u, st_harness (rt_store rt')))"
proof -
  have coh: "session_coherent rt" using ok by (simp add: rt_ok_def)
  obtain s rt1 where load: "loadSession H rt = (s, rt1)" by fastforce
  have after: "rt_store rt1 = rt_store rt" using loadSession_coherent [OF load coh] by simp
  have none: "st_session (rt_store rt) = None" if "s = Inr None" using loadSession_cases [OF load coh] that by auto
  show ?thesis
    using run load after none
    by (auto simp: initialize_def initialize_body_def transactionSync_def insertSession_def constraint_def guardR_def
        harness_hook_def set_store_def same_tables_def Let_def act_defs split: sum.splits prod.splits if_splits option.splits)
      (metis prod.collapse)+
qed

section \<open>What the inbox holds\<close>

text \<open>Every event that waits was made by the runtime itself or accepted by the harness's \<open>parseInput\<close>.\<close>

definition accepted_event :: "('h, 'c) harness \<Rightarrow> jstring \<Rightarrow> event_body \<Rightarrow> bool" where
  "accepted_event H i ev \<longleftrightarrow> own_event i ev \<or> (\<exists>p. h_parseInput H ev = Inr p)"

definition accepted :: "('h, 'c) harness \<Rightarrow> inbox_row list \<Rightarrow> bool" where
  "accepted H rows \<longleftrightarrow> (\<forall>r \<in> set rows. \<forall>ev. ib_content r = Waiting ev \<longrightarrow> accepted_event H (ib_event_id r) ev)"

lemma grows_accepted: "grows (accepted_event H) rows rows' \<Longrightarrow> accepted H rows \<Longrightarrow> accepted H rows'"
  by (induction rule: grows.induct) (auto simp: accepted_def insertInput_Inr)

lemma own_accepted: "grows own_event rows rows' \<Longrightarrow> grows (accepted_event H) rows rows'"
  by (induction rule: grows.induct) (auto intro: grows.intros simp: accepted_event_def)

lemma same_accepted: "list_all2 same_content rows rows' \<Longrightarrow> accepted H rows \<Longrightarrow> accepted H rows'"
  unfolding accepted_def list_all2_conv_all_nth same_content_def same_key_def by (metis in_set_conv_nth)

lemma consume_accepted: "accepted H rows \<Longrightarrow> accepted H (consumeInput rows e t)"
  by (auto simp: accepted_def consumeInput_def update_waiting_def consumed_row_def)

lemma next_accepted:
  assumes "accepted H rows" and "inbox_ok rows" and "nextInput rows = Some input"
  shows "accepted_event H (en_eventId input) (en_event input) \<and> 1 \<le> en_sequence input \<and> en_sequence input \<le> MAX_SAFE_INTEGER"
proof -
  from assms(3) obtain r where head: "head_row rows = Some r" by (cases "head_row rows") (auto simp: nextInput_def)
  with assms(3) obtain ev where r: "head_row rows = Some r" "ib_content r = Waiting ev" "input = envelope r ev"
    by (cases "ib_content r") (auto simp: nextInput_def row_envelope_def)
  have mem: "r \<in> set rows" using head_row_waiting [OF r(1)] by simp
  then have "row_ok r" using assms(2) by (auto simp: inbox_ok_def list_all_iff)
  with r mem assms(1) show ?thesis by (auto simp: accepted_def envelope_def row_ok_def)
qed

lemma admit_accepted:
  assumes ok: "rt_ok sha H rt" and run: "admitInput sha H q now rt = (r, rt')"
  shows "grows (accepted_event H) (st_inbox (rt_store rt)) (st_inbox (rt_store rt'))"
proof (cases "startsWith (ev_type (sr_event q)) RUNTIME_EVENT_PREFIX \<or> startsWith (sr_eventId q) RUNTIME_EVENT_ID_PREFIX")
  case True
  with run show ?thesis by (auto simp: admitInput_def throwA_def grows_refl)
next
  case False
  with run have tx: "transactionSync (admit_body sha H q now) rt = (r, rt')" by (simp add: admitInput_def)
  show ?thesis
  proof (cases r)
    case (Inl e)
    with tx show ?thesis by (auto simp: transactionSync_Inl grows_refl)
  next
    case (Inr receipt)
    with tx have body: "admit_body sha H q now rt = (Inr receipt, rt')" by (simp add: transactionSync_Inr)
    then obtain i rt1 where req: "requireSession H rt = (Inr i, rt1)" by (auto simp: admit_body_def Let_def bindA_Inr)
    have store: "rt_store rt1 = rt_store rt" using requireSession_any [OF req] ok by (simp add: rt_ok_def)
    show ?thesis
    proof (cases "findInput (st_inbox (rt_store rt)) (sr_eventId q)")
      case (Some d)
      with body req store have "rt' = rt1" by (auto simp: admit_body_def Let_def bindA_Inr prim_defs split: if_splits)
      with store show ?thesis by (simp add: grows_refl)
    next
      case None
      with body req store obtain e p where
        ins: "insert_event now (sr_eventId q) (sr_event q) (inputHash sha (sr_event q)) rt1 = (Inr e, rt')"
        and parsed: "h_parseInput H (sr_event q) = Inr p"
        by (auto simp: admit_body_def Let_def bindA_Inr prim_defs split: if_splits)
      then have "accepted_event H (sr_eventId q) (sr_event q)" by (auto simp: accepted_event_def)
      from withinD [OF insert_event_inbox_only [of "accepted_event H", OF this] ins] store show ?thesis
        by (auto simp: inbox_only_def)
    qed
  qed
qed

lemma complete_accepted:
  assumes ok: "rt_ok sha H rt" and run: "acceptCompletion sha H v now rt = (r, rt')"
  shows "grows own_event (st_inbox (rt_store rt)) (st_inbox (rt_store rt'))"
proof (cases "parseOperationCompletion v")
  case (Inl e)
  with run show ?thesis by (simp add: acceptCompletion_def act_defs grows_refl)
next
  case (Inr c)
  obtain q rt1 where check: "check_completion sha H c rt = (q, rt1)" by fastforce
  note after = check_completion_run [OF ok check]
  show ?thesis
  proof (cases q)
    case (Inl e)
    with run Inr check after show ?thesis by (auto simp: acceptCompletion_def act_defs grows_refl)
  next
    case adm: (Inr adm)
    have com: "commit_admission now (oc_operationId c) adm rt1 = (r, rt')"
      using run Inr check adm by (simp add: acceptCompletion_def act_defs)
    have "within (inbox_only own_event) (commit_admission now (oc_operationId c) adm)"
    proof (cases adm)
      case (KnownCompletion b x)
      then show ?thesis by (auto simp: commit_admission_def intro: within_intros)
    next
      case (NewCompletion i ev h)
      with after adm have "own_event i ev" by (auto simp: own_event_def)
      with NewCompletion show ?thesis by (auto simp: commit_admission_def intro!: within_intros)
    qed
    from withinD [OF this com] after show ?thesis by (auto simp: inbox_only_def)
  qed
qed

lemma commit_accepted:
  assumes ok: "rt_ok sha H rt" and run: "commit sha H p receipts now rt = (r, rt')" and acc: "accepted H (st_inbox (rt_store rt))"
  shows "accepted H (st_inbox (rt_store rt'))"
  using ok run
proof (cases rule: commit_cases)
  case (throw e)
  with acc show ?thesis by simp
next
  case (committed results info t rt1)
  have "inner (rt\<lparr>rt_session := Some info\<rparr>) rt1" using within_commit_effects committed(6) by (rule withinD)
  then have "grows own_event (st_inbox (rt_store rt)) (st_inbox (rt_store rt1))" by (simp add: inner_def)
  from grows_accepted [OF own_accepted [OF this] acc] have "accepted H (st_inbox (rt_store rt1))" .
  with committed(7) show ?thesis by (simp add: consume_accepted)
qed

lemma accepted_step:
  assumes step: "rt_step sha H rt rt'" and ok: "rt_ok sha H rt" and acc: "accepted H (st_inbox (rt_store rt))"
  shows "accepted H (st_inbox (rt_store rt'))"
  using step
proof (cases rule: rt_step.cases)
  case (step_load r)
  then show ?thesis using loadSession_coherent ok acc by (metis rt_ok_def)
next
  case (step_initialize v now r)
  from initialize_keeps [OF this] acc show ?thesis by simp
next
  case (step_append v now r)
  show ?thesis
  proof (cases "parseSubmitInputRequest v")
    case (Inl e)
    with step_append acc show ?thesis by (simp add: appendInput_def act_defs)
  next
    case (Inr q)
    with step_append have "admitInput sha H q now rt = (r, rt')" by (simp add: appendInput_def act_defs)
    from grows_accepted [OF admit_accepted [OF ok this] acc] show ?thesis .
  qed
next
  case (step_complete v now r)
  from grows_accepted [OF own_accepted [OF complete_accepted [OF ok this]] acc] show ?thesis .
next
  case (step_prepare r)
  then show ?thesis using prepare_run [OF ok] acc by simp
next
  case (step_commit p receipts now r)
  from commit_accepted [OF ok this acc] show ?thesis .
next
  case (step_fail status due blocked message)
  then show ?thesis using same_accepted [OF failProcessing_same acc] by (simp add: with_inbox_def)
next
  case step_reset
  then show ?thesis using same_accepted [OF resetProcessing_same acc] by (simp add: with_inbox_def)
next
  case step_restart
  then show ?thesis using newRuntime_ok [of H "rt_store rt" rt' sha] ok acc by (auto simp: rt_ok_def)
qed

section \<open>The contract\<close>

text \<open>\<open>good\<close> is what the harness needs of SHA-256 and \<open>fits\<close> what it needs of an input beyond being accepted by its
  \<open>parseInput\<close>; a harness that needs nothing takes both to be always true.\<close>

locale harness_contract =
  fixes H :: "('h, 'c) harness" and inv :: "'h \<Rightarrow> bool" and good :: "(jstring \<Rightarrow> jstring) \<Rightarrow> bool" and fits :: "input_envelope \<Rightarrow> bool"
  assumes initialize_inv: "h_initialize H ctx (h_schema H) = (Inr u, t) \<Longrightarrow> inv t"
    and apply_inv: "inv t \<Longrightarrow> good sha \<Longrightarrow> fits input \<Longrightarrow> accepted_event H (en_eventId input) (en_event input) \<Longrightarrow>
      1 \<le> en_sequence input \<Longrightarrow> en_sequence input \<le> MAX_SAFE_INTEGER \<Longrightarrow>
      h_handle H input ctx (operationId sha session (en_sequence input)) t = Inr plan \<Longrightarrow>
      h_apply H (tp_changes plan) ctx t = (Inr u, t') \<Longrightarrow> inv t'"
begin

text \<open>A step of a session whose next input, if any, fits.\<close>

definition fit_step :: "(jstring \<Rightarrow> jstring) \<Rightarrow> ('h, 'c) runtime \<Rightarrow> ('h, 'c) runtime \<Rightarrow> bool" where
  "fit_step sha rt rt' \<longleftrightarrow> rt_step sha H rt rt' \<and> (\<forall>input. nextInput (st_inbox (rt_store rt)) = Some input \<longrightarrow> fits input)"

definition tables_ok :: "('h, 'c) runtime \<Rightarrow> bool" where
  "tables_ok rt \<longleftrightarrow> (if st_session (rt_store rt) = None then st_harness (rt_store rt) = h_schema H
     else inv (st_harness (rt_store rt)))"

lemma tables_ok_same: "same_tables rt rt' \<Longrightarrow> tables_ok rt \<Longrightarrow> tables_ok rt'"
  by (simp add: same_tables_def tables_ok_def)

lemma tables_ok_step:
  assumes step: "fit_step sha rt rt'" and good: "good sha" and ok: "rt_ok sha H rt" and inv: "tables_ok rt"
    and acc: "accepted H (st_inbox (rt_store rt))"
  shows "tables_ok rt'"
  using step [unfolded fit_step_def, THEN conjunct1]
proof (cases rule: rt_step.cases)
  case (step_load r)
  then show ?thesis using loadSession_coherent ok inv tables_ok_same same_store_tables by (metis rt_ok_def)
next
  case (step_initialize v now r)
  from initialize_tables [OF ok this] show ?thesis
    using inv tables_ok_same initialize_inv by (auto simp: tables_ok_def)
next
  case (step_append v now r)
  then have "mild rt rt'" using ok appendInput_mild by (metis rt_ok_def)
  then have "same_tables rt rt'" by (auto simp: mild_def same_tables_def)
  then show ?thesis using inv by (rule tables_ok_same)
next
  case (step_complete v now r)
  then show ?thesis using acceptCompletion_tables [OF ok] inv tables_ok_same by blast
next
  case (step_prepare r)
  then show ?thesis using prepare_run [OF ok] inv tables_ok_same same_store_tables by blast
next
  case (step_commit p receipts now r)
  show ?thesis
  proof (cases "same_tables rt rt'")
    case True
    then show ?thesis using inv by (rule tables_ok_same)
  next
    case False
    with commit_tables [OF ok step_commit] obtain info plan u where c: "st_session (rt_store rt) = Some info"
      "st_session (rt_store rt') = Some info" "nextInput (st_inbox (rt_store rt)) = Some (pr_input p)"
      "h_handle H (pr_input p) (context_of info) (operationId sha (sn_identity info) (en_sequence (pr_input p)))
        (st_harness (rt_store rt)) = Inr plan"
      "h_apply H (tp_changes plan) (context_of info) (st_harness (rt_store rt)) = (Inr u, st_harness (rt_store rt'))" by blast
    have "fits (pr_input p)" using step c(3) by (simp add: fit_step_def)
    moreover have "inbox_ok (st_inbox (rt_store rt))" using ok by (simp add: rt_ok_def store_ok_def)
    ultimately show ?thesis
      using apply_inv [of "st_harness (rt_store rt)"] inv good c next_accepted [OF acc _ c(3)] by (auto simp: tables_ok_def)
  qed
next
  case step_restart
  then show ?thesis
    using newRuntime_ok [of H "rt_store rt" rt' sha] ok inv tables_ok_same same_store_tables by (metis rt_ok_def)
qed (use inv in \<open>auto simp: tables_ok_def with_inbox_def\<close>)

lemma tables_ok_run:
  assumes fresh: "newRuntime H None = Inr rt0" and good: "good sha" and run: "(fit_step sha)\<^sup>*\<^sup>* rt0 rt"
  shows "tables_ok rt \<and> rt_ok sha H rt \<and> accepted H (st_inbox (rt_store rt))"
  using run
proof (induction rule: rtranclp_induct)
  case base
  then show ?case using fresh fresh_runtime_ok [OF fresh]
    by (auto simp: tables_ok_def accepted_def newRuntime_def bootstrap_def findSession_def Let_def)
next
  case (step rt rt')
  then have "rt_step sha H rt rt'" by (simp add: fit_step_def)
  with step show ?case using tables_ok_step [OF step(2) good] rt_step_ok accepted_step by blast
qed

lemma session_inv:
  assumes "newRuntime H None = Inr rt0" and "good sha" and "(fit_step sha)\<^sup>*\<^sup>* rt0 rt" and "st_session (rt_store rt) = Some info"
  shows "inv (st_harness (rt_store rt))"
  using tables_ok_run [OF assms(1-3)] assms(4) by (simp add: tables_ok_def)

text \<open>Where every input fits, this is any run of the runtime.\<close>

lemma session_inv_all:
  assumes "\<And>input. fits input" and "newRuntime H None = Inr rt0" and "good sha" and "(rt_step sha H)\<^sup>*\<^sup>* rt0 rt"
    and "st_session (rt_store rt) = Some info"
  shows "inv (st_harness (rt_store rt))"
proof -
  have "fit_step sha = rt_step sha H" using assms(1) by (simp add: fit_step_def fun_eq_iff)
  with session_inv [OF assms(2,3)] assms(4,5) show ?thesis by simp
qed

end

end
