(* ===== verification/RuntimeProperties.thy ===== *)
theory RuntimeProperties
  imports RuntimeSafety
begin

text \<open>
  The properties of the session runtime. They quantify over the harness and over SHA-256; the
  witnesses run a small concrete session, \<open>echo_harness\<close>, that asks the language model once per
  input.
\<close>

section \<open>A concrete session\<close>

definition zero_sha :: "jstring \<Rightarrow> jstring" where
  "zero_sha s = replicate 64 48"

definition length_sha :: "jstring \<Rightarrow> jstring" where
  "length_sha s = replicate 60 48 @ map (\<lambda>d. digit_unit (length s div d mod 10)) [1000, 100, 10, 1]"

definition echo_plan :: "input_envelope \<Rightarrow> unit transition_plan" where
  "echo_plan input = \<lparr>tp_changes = (), tp_operations =
     (if ev_type (en_event input) = COMPLETED_EVENT then []
      else [\<lparr>od_provider = lit ''llm'', od_type = lit ''generate'', od_version = lit ''v1'',
             or_input = ev_payload (en_event input), pn_key = lit ''llm''\<rparr>]),
     tp_status = Some St_running\<rparr>"

definition echo_harness :: "(unit, unit) harness" where
  "echo_harness = \<lparr>h_identity = \<lparr>hi_id = lit ''echo'', hi_version = lit ''v1''\<rparr>, h_schema = (),
     h_operations = [LLM_OPERATION], h_parseConfig = Inr, h_parseInput = Inr,
     h_initialize = (\<lambda>ctx. retA ()), h_handle = (\<lambda>input ctx oid h. Inr (echo_plan input)),
     h_apply = (\<lambda>c ctx. retA ())\<rparr>"

definition demo_identity :: json where
  "demo_identity = obj [(''sessionId'', str ''s1''), (''harness'', obj [(''id'', str ''echo''), (''version'', str ''v1'')])]"

definition demo_event :: "string \<Rightarrow> string \<Rightarrow> json" where
  "demo_event i text = obj [(''eventId'', str i), (''event'', obj [(''type'', str ''say''), (''payload'', str text)])]"

definition demo_start :: "(unit, unit) runtime" where
  "demo_start = \<lparr>rt_store = \<lparr>st_session = None, st_inbox = [], st_pending = [], st_harness = ()\<rparr>,
     rt_session = None, rt_prepared = None\<rparr>"

definition demo_info :: session_info where
  "demo_info = \<lparr>sn_identity = \<lparr>si_sessionId = lit ''s1'', si_harness = \<lparr>hi_id = lit ''echo'', hi_version = lit ''v1''\<rparr>\<rparr>,
     sn_config = JNull, sn_createdAt = 5\<rparr>"

definition demo_open :: "(unit, unit) runtime" where
  "demo_open = \<lparr>rt_store = \<lparr>st_session = Some demo_info, st_inbox = [], st_pending = [], st_harness = ()\<rparr>,
     rt_session = Some demo_info, rt_prepared = None\<rparr>"

definition demo_body :: event_body where
  "demo_body = \<lparr>ev_type = lit ''say'', ev_payload = JStr (lit ''hi'')\<rparr>"

definition demo_input :: input_envelope where
  "demo_input = \<lparr>en_eventId = lit ''e1'', en_sequence = 1, en_receivedAt = 6, en_event = demo_body\<rparr>"

definition demo_said :: "(unit, unit) runtime" where
  "demo_said = demo_open\<lparr>rt_store := (rt_store demo_open)\<lparr>st_inbox := [new_row demo_input (inputHash length_sha demo_body)]\<rparr>\<rparr>"

definition demo_prepared :: "unit prepared_transition" where
  "demo_prepared = \<lparr>pr_input = demo_input, pr_changes = (), pr_operations = [\<lparr>pp_key = lit ''llm'',
     pp_operationId = lit ''replay-v1:1:'' @ length_sha (operation_text (sn_identity demo_info) 1 (lit ''llm'')),
     pp_request = \<lparr>od_provider = lit ''llm'', od_type = lit ''generate'', od_version = lit ''v1'',
       or_input = JStr (lit ''hi'')\<rparr>\<rparr>], pr_status = Some St_running\<rparr>"

definition demo_ready :: "(unit, unit) runtime" where
  "demo_ready = demo_said\<lparr>rt_prepared := Some demo_prepared\<rparr>"

lemma demo_definitions: "operationDefinitions (Some (JArr [definition_json LLM_OPERATION])) = Inr [LLM_OPERATION]"
  by code_simp

lemma demo_fresh: "newRuntime echo_harness None = Inr demo_start"
proof -
  have "parseInitializeSessionRequest (Some (obj [(''session'', obj [(''sessionId'', str ''runtime''),
      (''harness'', obj [(''id'', str ''echo''), (''version'', str ''v1'')])]), (''config'', JNull)])) =
      Inr \<lparr>is_session = \<lparr>si_sessionId = lit ''runtime'', si_harness = \<lparr>hi_id = lit ''echo'', hi_version = lit ''v1''\<rparr>\<rparr>,
        is_config = JNull\<rparr>" by code_simp
  with demo_definitions show ?thesis
    by (simp add: newRuntime_def echo_harness_def bootstrap_def findSession_def demo_start_def str_def Let_def)
qed

lemma demo_start_ok: "rt_ok sha echo_harness demo_start"
  using demo_fresh by (rule fresh_runtime_ok)

lemma demo_initialize:
  "initialize echo_harness (Some (obj [(''session'', demo_identity), (''config'', JNull)])) 5 demo_start
    = (Inr (demo_info, False), demo_open)"
proof -
  have "parseInitializeSessionRequest (Some (obj [(''session'', demo_identity), (''config'', JNull)]))
      = Inr \<lparr>is_session = sn_identity demo_info, is_config = JNull\<rparr>" by code_simp
  from initialize_new [OF this, where H = echo_harness and rt = demo_start and config = JNull and now = 5 and t = 5]
  show ?thesis
    by (simp add: checkHarness_def echo_harness_def demo_info_def demo_start_def demo_open_def timestamp_def
        MAX_SAFE_INTEGER_def retA_def)
qed

lemma demo_request: "parseSubmitInputRequest (Some (demo_event ''e1'' ''hi'')) = Inr \<lparr>sr_eventId = lit ''e1'', sr_event = demo_body\<rparr>"
  by code_simp

lemma demo_insert: "insertInput [] demo_input (inputHash length_sha demo_body) = Inr [new_row demo_input (inputHash length_sha demo_body)]"
  by code_simp

lemma demo_append:
  "appendInput length_sha echo_harness (Some (demo_event ''e1'' ''hi'')) 6 demo_open
    = (Inr (receipt_of demo_info (lit ''e1'') 1 6 False), demo_said)"
proof -
  have "parseEventBody (Some (event_json demo_body)) = Inr demo_body" by code_simp
  moreover have "external_event (lit ''e1'') demo_body" by code_simp
  ultimately show ?thesis
    using appendInput_new [OF demo_request, where H = echo_harness and rt = demo_open and parsed = demo_body
        and validated = demo_body and n = 1 and t = 6 and now = 6 and i = demo_info and sha = length_sha
        and rows = "[new_row demo_input (inputHash length_sha demo_body)]"] demo_insert
    by (simp add: demo_open_def demo_said_def echo_harness_def findInput_def allocateSequence_def max_sequence_def
        MAX_SAFE_INTEGER_def timestamp_def demo_input_def) (simp add: demo_body_def)
qed

lemma demo_plan: "plan_input length_sha echo_harness demo_info (rt_store demo_said) demo_input = Inr demo_prepared"
proof -
  have "parseOperationRequest (Some (JObj [(lit ''provider'', JStr (lit ''llm'')), (lit ''type'', JStr (lit ''generate'')),
      (lit ''version'', JStr (lit ''v1'')), (lit ''input'', JStr (lit ''hi''))])) =
      Inr \<lparr>od_provider = lit ''llm'', od_type = lit ''generate'', od_version = lit ''v1'', or_input = JStr (lit ''hi'')\<rparr>"
    by code_simp
  moreover have "int_text 1 = lit ''1''" by code_simp
  ultimately show ?thesis
    by (simp add: plan_input_def correlate_def echo_harness_def echo_plan_def demo_input_def demo_body_def
        COMPLETED_EVENT_def operationId_def planned_request_json_def declared_def demo_prepared_def
        LLM_OPERATION_def mk_operation_def operation_definition.defs lit_append [symmetric])
qed

lemma demo_prepare: "prepare length_sha echo_harness demo_said = (Inr (Some demo_prepared), demo_ready)"
proof -
  have "nextInput (st_inbox (rt_store demo_said)) = Some demo_input" by code_simp
  from prepare_new [OF _ _ this demo_plan] show ?thesis
    by (simp add: demo_said_def demo_open_def demo_ready_def)
qed

lemma demo_steps:
  "(rt_step length_sha echo_harness)\<^sup>*\<^sup>* demo_start demo_open"
  "(rt_step length_sha echo_harness)\<^sup>*\<^sup>* demo_open demo_said"
  "(rt_step length_sha echo_harness)\<^sup>*\<^sup>* demo_said demo_ready"
  using step_initialize [OF demo_initialize] step_append [OF demo_append] step_prepare [OF demo_prepare]
  by blast+

lemma demo_run: "(rt_step length_sha echo_harness)\<^sup>*\<^sup>* demo_start demo_said"
  using rtranclp_trans [OF demo_steps(1,2)] .

lemma demo_ok: "rt_ok length_sha echo_harness demo_open" "rt_ok length_sha echo_harness demo_said"
  "rt_ok length_sha echo_harness demo_ready"
  using rt_steps_ok [OF demo_steps(1) demo_start_ok] rt_steps_ok [OF demo_run demo_start_ok]
    rt_steps_ok [OF rtranclp_trans [OF demo_run demo_steps(3)] demo_start_ok] by blast+

section \<open>Invariant\<close>

text \<open>C1: From a fresh runtime, after any sequence of calls, driver bookkeeping and restarts (which
  lose the in-memory caches), the runtime's invariant holds: unique keys and schema constraints in
  the tables, consumed inputs are exactly the oldest ones, pending operations refer to admitted
  inputs, and both caches agree with the durable store.\<close>

theorem runtime_invariant:
  assumes "newRuntime H None = Inr rt0" and "(rt_step sha H)\<^sup>*\<^sup>* rt0 rt"
  shows "rt_ok sha H rt"
  using rt_steps_ok [OF assms(2) fresh_runtime_ok [OF assms(1)]] by blast

theorem runtime_invariant_witness: "rt_ok length_sha echo_harness demo_said"
  by (rule runtime_invariant [OF demo_fresh demo_run])

section \<open>Admission\<close>

text \<open>C5: Admission is idempotent for good. Once an input was admitted, submitting the same request again,
  at any later time and after any calls, commits and restarts, returns the original receipt marked as
  a duplicate and leaves the store untouched.\<close>

theorem admission_idempotent:
  assumes ok: "rt_ok sha H rt" and first: "appendInput sha H v now rt = (Inr receipt, rt1)"
    and later: "(rt_step sha H)\<^sup>*\<^sup>* rt1 rt2"
  shows "\<exists>rt3. appendInput sha H v now' rt2 = (Inr (receipt\<lparr>ir_duplicate := True\<rparr>), rt3)
    \<and> rt_store rt3 = rt_store rt2"
proof -
  from first obtain q where q: "parseSubmitInputRequest v = Inr q" "admitInput sha H q now rt = (Inr receipt, rt1)"
    by (auto simp: appendInput_def bindA_Inr prim_defs)
  have ok1: "rt_ok sha H rt1" using rt_step_ok [OF step_append [OF first] ok] by blast
  note later' = rt_steps_ok [OF later ok1]
  obtain i d where d: "external_event (sr_eventId q) (sr_event q)" "st_session (rt_store rt1) = Some i"
      "findInput (st_inbox (rt_store rt1)) (sr_eventId q) = Some d" "rec_hash d = inputHash sha (sr_event q)"
      "receipt\<lparr>ir_duplicate := True\<rparr> = receipt_of i (rec_eventId d) (rec_sequence d) (rec_receivedAt d) True"
    using admitInput_Inr [OF ok q(2)] by blast
  have "st_session (rt_store rt2) = Some i" using later' d(2) by (simp add: advances_def)
  moreover obtain d' where "findInput (st_inbox (rt_store rt2)) (sr_eventId q) = Some d'" "rec_hash d' = rec_hash d"
      "rec_eventId d' = rec_eventId d" "rec_sequence d' = rec_sequence d" "rec_receivedAt d' = rec_receivedAt d"
    using advances_found [OF conjunct2 [OF later'] d(3)] by metis
  ultimately show ?thesis
    using admitInput_known [OF conjunct1 [OF later'] _ d(1)] q(1) d(4,5) by (simp add: appendInput_def act_defs)
qed

theorem admission_idempotent_witness:
  "\<exists>rt3. appendInput length_sha echo_harness (Some (demo_event ''e1'' ''hi'')) 9 demo_ready
      = (Inr ((receipt_of demo_info (lit ''e1'') 1 6 False)\<lparr>ir_duplicate := True\<rparr>), rt3)
    \<and> rt_store rt3 = rt_store demo_ready"
  by (rule admission_idempotent [OF demo_ok(1) demo_append demo_steps(3)])

text \<open>C6: An event ID is never reused for different content: a request that repeats an admitted event ID
  with content that hashes differently is refused with \<open>INPUT_CONFLICT\<close> for good, and changes
  nothing in the store.\<close>

theorem conflicting_input_refused:
  assumes ok: "rt_ok sha H rt" and first: "appendInput sha H v now rt = (Inr receipt, rt1)"
    and later: "(rt_step sha H)\<^sup>*\<^sup>* rt1 rt2"
    and parsed: "parseSubmitInputRequest v = Inr q" "parseSubmitInputRequest v' = Inr q'"
    and same: "sr_eventId q' = sr_eventId q" and diff: "inputHash sha (sr_event q') \<noteq> inputHash sha (sr_event q)"
    and external: "\<not> startsWith (ev_type (sr_event q')) RUNTIME_EVENT_PREFIX"
  shows "\<exists>m rt3. appendInput sha H v' now' rt2 = (Inl (ContractException INPUT_CONFLICT m), rt3)
    \<and> rt_store rt3 = rt_store rt2"
proof -
  have adm: "admitInput sha H q now rt = (Inr receipt, rt1)"
    using first parsed(1) by (simp add: appendInput_def act_defs)
  have ok1: "rt_ok sha H rt1" using rt_step_ok [OF step_append [OF first] ok] by blast
  note later' = rt_steps_ok [OF later ok1]
  obtain i d where d: "external_event (sr_eventId q) (sr_event q)" "st_session (rt_store rt1) = Some i"
      "findInput (st_inbox (rt_store rt1)) (sr_eventId q) = Some d" "rec_hash d = inputHash sha (sr_event q)"
    using admitInput_Inr [OF ok adm] by blast
  have "external_event (sr_eventId q') (sr_event q')"
    using d(1) external same by (simp add: external_event_def)
  moreover have "st_session (rt_store rt2) = Some i" using later' d(2) by (simp add: advances_def)
  moreover obtain d' where "findInput (st_inbox (rt_store rt2)) (sr_eventId q) = Some d'" "rec_hash d' = rec_hash d"
    using advances_found [OF conjunct2 [OF later'] d(3)] by metis
  ultimately show ?thesis
    using admitInput_known [OF conjunct1 [OF later'], of i q'] parsed(2) d(4) same diff
    by (simp add: appendInput_def act_defs)
qed

theorem conflicting_input_refused_witness:
  "\<exists>m rt3. appendInput length_sha echo_harness (Some (demo_event ''e1'' ''hello'')) 9 demo_ready
      = (Inl (ContractException INPUT_CONFLICT m), rt3) \<and> rt_store rt3 = rt_store demo_ready"
proof -
  define q where "q = \<lparr>sr_eventId = lit ''e1'', sr_event = \<lparr>ev_type = lit ''say'', ev_payload = JStr (lit ''hello'')\<rparr>\<rparr>"
  have parse: "parseSubmitInputRequest (Some (demo_event ''e1'' ''hello'')) = Inr q"
    unfolding q_def by code_simp
  have hash: "inputHash length_sha (sr_event q) \<noteq> inputHash length_sha demo_body"
    unfolding q_def by code_simp
  show ?thesis
  proof (rule conflicting_input_refused [OF demo_ok(1) demo_append demo_steps(3) demo_request parse])
    show "inputHash length_sha (sr_event q) \<noteq> inputHash length_sha (sr_event \<lparr>sr_eventId = lit ''e1'', sr_event = demo_body\<rparr>)"
      using hash by simp
  qed (simp_all add: q_def RUNTIME_EVENT_PREFIX_def)
qed

section \<open>Transitions\<close>

text \<open>C7: A transition survives the loss of the activation that planned it: a runtime restarted on the
  same storage prepares exactly the same transition, with the same operation identities, so a
  resubmission can only repeat operations a worker already knows.\<close>

theorem replay_same_transition:
  assumes ok: "rt_ok sha H rt" and cached: "rt_prepared rt = Some p"
    and restart: "newRuntime H (Some (rt_store rt)) = Inr rt'"
  shows "prepare sha H rt' = (Inr (Some p), rt'\<lparr>rt_prepared := Some p\<rparr>)"
proof -
  obtain info where info: "st_session (rt_store rt) = Some info" "nextInput (st_inbox (rt_store rt)) = Some (pr_input p)"
      "plan_input sha H info (rt_store rt) (pr_input p) = Inr p"
    using ok cached by (auto simp: rt_ok_def prepared_coherent_def)
  have "rt' = \<lparr>rt_store = rt_store rt, rt_session = Some info, rt_prepared = None\<rparr>"
    using restart info(1) by (auto simp: newRuntime_def bootstrap_def findSession_def Let_def)
  with info show ?thesis by (intro prepare_new) simp_all
qed

lemma demo_restart: "newRuntime echo_harness (Some (rt_store demo_ready)) = Inr demo_said"
proof -
  have "operationDefinitions (Some (JArr [definition_json LLM_OPERATION])) = Inr [LLM_OPERATION]"
    by (rule demo_definitions)
  moreover have "parseInitializeSessionRequest (Some (obj [(''session'', obj [(''sessionId'', str ''runtime''),
      (''harness'', obj [(''id'', str ''echo''), (''version'', str ''v1'')])]), (''config'', JNull)])) =
      Inr \<lparr>is_session = \<lparr>si_sessionId = lit ''runtime'', si_harness = \<lparr>hi_id = lit ''echo'', hi_version = lit ''v1''\<rparr>\<rparr>,
        is_config = JNull\<rparr>" by code_simp
  ultimately show ?thesis
    by (simp add: newRuntime_def echo_harness_def bootstrap_def findSession_def demo_ready_def demo_said_def
        demo_open_def demo_info_def checkHarness_def str_def Let_def)
qed

theorem replay_same_transition_witness:
  "prepare length_sha echo_harness demo_said = (Inr (Some demo_prepared), demo_said\<lparr>rt_prepared := Some demo_prepared\<rparr>)"
  by (rule replay_same_transition [OF demo_ok(3) _ demo_restart]) (simp add: demo_ready_def)

text \<open>The answer a commit was given for an operation, read from its receipts.\<close>

definition receipt_answer :: "(jstring \<times> json) list \<Rightarrow> prepared_operation \<Rightarrow> submit_result option" where
  "receipt_answer receipts op = (case map_of receipts (pp_operationId op) of
     Some v \<Rightarrow> (case parseProviderSubmitResult (Some v) of Inr res \<Rightarrow> Some res | Inl e \<Rightarrow> None)
   | None \<Rightarrow> None)"

text \<open>The pending table after a transition: a row per accepted or completed operation is added, with the job the receipt named, and
  the operation whose completion was processed is removed.\<close>

definition settled_pending :: "'c prepared_transition \<Rightarrow> (jstring \<times> json) list \<Rightarrow> pending_operation list \<Rightarrow> pending_operation list" where
  "settled_pending p receipts ps = after_completion (pr_input p)
     (ps @ concat (map (\<lambda>op. pending_row (en_sequence (pr_input p)) op (the (receipt_answer receipts op))) (pr_operations p)))"

lemma collected_answers:
  assumes "collect_receipts ops rs acc = Inr results"
  shows "\<exists>new. results = acc @ new \<and> map fst new = map fst rs
    \<and> list_all2 (\<lambda>(i, v) (i', res). i' = i \<and> parseProviderSubmitResult (Some v) = Inr res) rs new"
  using assms
proof (induction ops rs acc arbitrary: results rule: collect_receipts.induct)
  case (2 ops oid v rs acc)
  then obtain res where res: "parseProviderSubmitResult (Some v) = Inr res" "collect_receipts ops rs (acc @ [(oid, res)]) = Inr results"
    "\<not> (oid \<in> fst ` set acc \<or> oid \<notin> pp_operationId ` set ops)"
    by (auto split: if_splits)
  from "2.IH" [OF res(3,2)] obtain new where "results = (acc @ [(oid, res)]) @ new" "map fst new = map fst rs"
    "list_all2 (\<lambda>(i, v) (i', res). i' = i \<and> parseProviderSubmitResult (Some v) = Inr res) rs new" by blast
  with res(1) show ?case by (intro exI [of _ "(oid, res) # new"]) simp
qed simp

lemma answer_of_result:
  assumes "list_all2 (\<lambda>(i, v) (i', res). i' = i \<and> parseProviderSubmitResult (Some v) = Inr res) rs results"
  shows "receipt_answer rs op = map_of results (pp_operationId op)"
  using assms by (induction rule: list_all2_induct) (auto simp: receipt_answer_def)

lemma tables_kept [pres_intros]:
  "preserves (\<lambda>rt. st_harness (rt_store rt) = h) (insert_event now i ev k)"
  "preserves (\<lambda>rt. st_harness (rt_store rt) = h) (insert_pending row)"
  "preserves (\<lambda>rt. st_harness (rt_store rt) = h) (queueCompletion sha now oid p j o')"
proof -
  show ie: "preserves (\<lambda>rt. st_harness (rt_store rt) = h) (insert_event now i ev k)" for now i ev k
    using insert_event_inbox_only [where Q = "\<lambda>_ _. True"] by (fastforce intro: preservesI dest: withinD simp: inbox_only_def)
  show "preserves (\<lambda>rt. st_harness (rt_store rt) = h) (insert_pending row)"
    unfolding insert_pending_def set_store_def by (intro pres_intros) simp
  show "preserves (\<lambda>rt. st_harness (rt_store rt) = h) (queueCompletion sha now oid p j o')"
    unfolding queueCompletion_def Let_def by (intro pres_intros ie)
qed

lemma tables_kept_settle: "preserves (\<lambda>rt. st_harness (rt_store rt) = h) (settle sha now q results op)"
proof (cases "map_of results (pp_operationId op)")
  case (Some res)
  then show ?thesis by (cases res) (auto simp: settle_def intro!: pres_intros)
qed (auto simp: settle_def intro!: pres_intros)

lemma commit_applied:
  assumes ok: "rt_ok sha H rt" and run: "commit sha H p receipts now rt = (Inr x, rt')"
  obtains info where "st_session (rt_store rt) = Some info" "st_session (rt_store rt') = Some info"
    "h_apply H (pr_changes p) (context_of info) (st_harness (rt_store rt)) = (Inr (), st_harness (rt_store rt'))"
    "distinct (map pp_operationId (pr_operations p))" "distinct (map fst receipts)"
    "set (map fst receipts) = set (map pp_operationId (pr_operations p))"
    "st_pending (rt_store rt') = settled_pending p receipts (st_pending (rt_store rt))"
    "\<forall>op \<in> set (pr_operations p). \<exists>res. receipt_answer receipts op = Some res \<and> event_logged sha (st_inbox (rt_store rt')) op res"
  using ok run
proof (cases rule: commit_cases)
  case (committed results info t rt1)
  let ?q = "en_sequence (pr_input p)" and ?ops = "pr_operations p" and ?rt0 = "rt\<lparr>rt_session := Some info\<rparr>"
  from committed(6) obtain rt2 rt3 where
    hook: "harness_hook (h_apply H (pr_changes p) (context_of info)) ?rt0 = (Inr (), rt2)"
    and ops: "forA ?ops (settle sha now ?q results) rt2 = (Inr (), rt3)"
    and fin: "finish_completed (pr_input p) rt3 = (Inr (), rt1)"
    by (auto simp: commit_effects_def bindA_Inr prim_defs)
  have inb: "inbox_ok (st_inbox (rt_store rt))" using ok by (simp add: rt_ok_def store_ok_def)
  have st2: "st_inbox (rt_store rt2) = st_inbox (rt_store rt)" "st_pending (rt_store rt2) = st_pending (rt_store rt)"
    using harness_hook_Inr [OF hook] by (metis runtime.select_convs(1) runtime.surjective runtime.update_convs(1,2)
        store.select_convs(2,3) store.surjective store.update_convs(4))+
  note settled = settle_all [OF _ ops, unfolded st2, OF inb]
  note rt1 = finish_completed_Inr [OF fin]
  have ok1: "inbox_ok (st_inbox (rt_store rt1))" and nxt: "nextInput (st_inbox (rt_store rt1)) = Some (pr_input p)"
    using withinD [OF within_commit_effects committed(6)] inb committed(5) by (auto simp: inner_def grows_ok grows_next)
  have logged: "log_extends (st_inbox (rt_store rt3)) (st_inbox (rt_store rt'))"
    using log_extends_consume [OF ok1 nxt, of t] rt1 committed(7) by simp
  obtain new where new: "results = [] @ new" "map fst new = map fst receipts"
      "list_all2 (\<lambda>(i, v) (i', res). i' = i \<and> parseProviderSubmitResult (Some v) = Inr res) receipts new"
    using collected_answers [OF committed(3)] by blast
  then have answers: "map_of results (pp_operationId op) = receipt_answer receipts op" for op
    using answer_of_result [of receipts new op] by simp
  have "within inner (forA ?ops (settle sha now ?q results))" by (intro within_intros)
  from withinD [OF this ops] have ses: "st_session (rt_store rt3) = st_session (rt_store rt2)" by (simp add: inner_def)
  have "preserves (\<lambda>rt. st_harness (rt_store rt) = st_harness (rt_store rt2)) (forA ?ops (settle sha now ?q results))"
    by (intro pres_intros tables_kept_settle)
  from preservesD [OF this refl ops] have same: "st_harness (rt_store rt3) = st_harness (rt_store rt2)" "st_session (rt_store rt3) = st_session (rt_store rt2)"
    using ses by simp_all
  show thesis
  proof (rule that)
    show "st_session (rt_store rt) = Some info" by (rule committed(2))
    show "st_session (rt_store rt') = Some info"
      using same(2) rt1 committed(2,7) harness_hook_Inr [OF hook]
      by (metis runtime.select_convs(1) runtime.surjective runtime.update_convs(1,2,3) store.select_convs(1) store.surjective store.update_convs(2,3,4))
    show "h_apply H (pr_changes p) (context_of info) (st_harness (rt_store rt)) = (Inr (), st_harness (rt_store rt'))"
      using harness_hook_Inr [OF hook] same(1) rt1 committed(7) by simp
    show "distinct (map pp_operationId ?ops)" using receipts_cover [OF committed(3,4)] by simp
    show "distinct (map fst receipts)" using collect_receipts_keys [OF committed(3)] new(1,2) by simp
    show "set (map fst receipts) = set (map pp_operationId ?ops)" using receipts_cover [OF committed(3,4)] new(1,2) by simp
    show "st_pending (rt_store rt') = settled_pending p receipts (st_pending (rt_store rt))"
      using settled rt1 committed(7) by (simp add: settled_pending_def answers)
    show "\<forall>op \<in> set ?ops. \<exists>res. receipt_answer receipts op = Some res \<and> event_logged sha (st_inbox (rt_store rt')) op res"
      using settled logged unfolding answers by (meson event_logged_extends)
  qed
qed simp

text \<open>The input of a commit is recorded as consumed, and only it leaves the queue.\<close>

lemma commit_consumes:
  assumes ok: "rt_ok sha H rt" and run: "commit sha H p receipts now rt = (Inr x, rt')"
  shows "rt_prepared rt = Some p \<and> rt_prepared rt' = None \<and> nextInput (st_inbox (rt_store rt)) = Some (pr_input p)
    \<and> (\<exists>d. findInput (st_inbox (rt_store rt')) (en_eventId (pr_input p)) = Some d \<and> rec_consumed d \<and> rec_sequence d = en_sequence (pr_input p))
    \<and> (\<exists>new. queue (st_inbox (rt_store rt')) = tl (queue (st_inbox (rt_store rt))) @ new
        \<and> (\<forall>e \<in> set new. own_event (en_eventId e) (en_event e)))"
  using ok run
proof (cases rule: commit_cases)
  case (committed results info t rt1)
  have inb: "inbox_ok (st_inbox (rt_store rt))" using ok by (simp add: rt_ok_def store_ok_def)
  have g: "grows own_event (st_inbox (rt_store rt)) (st_inbox (rt_store rt1))"
    using withinD [OF within_commit_effects committed(6)] by (simp add: inner_def)
  have ok1: "inbox_ok (st_inbox (rt_store rt1))" and nxt: "nextInput (st_inbox (rt_store rt1)) = Some (pr_input p)"
    using grows_ok [OF g inb] grows_next [OF g inb committed(5)] by simp_all
  obtain new where new: "queue (st_inbox (rt_store rt1)) = queue (st_inbox (rt_store rt)) @ new"
      "\<forall>e \<in> set new. own_event (en_eventId e) (en_event e)"
    using grows_queue [OF g inb] by blast
  have "queue (st_inbox (rt_store rt)) \<noteq> []"
    using committed(5) by (auto simp: nextInput_queue)
  then have q: "queue (consumeInput (st_inbox (rt_store rt1)) (pr_input p) t) = tl (queue (st_inbox (rt_store rt))) @ new"
    using inbox.consume_head [OF ok1 nxt] new(1) by simp
  have "\<exists>d. findInput (consumeInput (st_inbox (rt_store rt1)) (pr_input p) t) (en_eventId (pr_input p)) = Some d
      \<and> rec_consumed d \<and> rec_sequence d = en_sequence (pr_input p)"
    using inbox.consume_head [OF ok1 nxt, of t] by auto
  with q new(2) committed show ?thesis by auto
qed simp

text \<open>C2: A commit is all or nothing. When it throws, the durable store is untouched and the cached
  transition is kept for the next attempt. When it returns, the whole transition is in the store: the
  harness tables are those \<open>harness.apply\<close> made of the planned changes, the pending table is the old one
  with the answered operations, each answer that needs no callback has its event in the inbox, the
  processed input is recorded as consumed, and the waiting inputs are the remaining ones in their order
  followed by the completion events the commit itself queued. The session row is unchanged and the cache is empty.\<close>

theorem commit_all_or_nothing:
  assumes ok: "rt_ok sha H rt" and run: "commit sha H p receipts now rt = (r, rt')"
  shows "case r of
      Inl e \<Rightarrow> rt_store rt' = rt_store rt \<and> rt_prepared rt' = rt_prepared rt
    | Inr x \<Rightarrow> rt_prepared rt = Some p \<and> rt_prepared rt' = None
        \<and> (\<exists>info. st_session (rt_store rt) = Some info \<and> st_session (rt_store rt') = Some info
            \<and> h_apply H (pr_changes p) (context_of info) (st_harness (rt_store rt)) = (Inr (), st_harness (rt_store rt')))
        \<and> st_pending (rt_store rt') = settled_pending p receipts (st_pending (rt_store rt))
        \<and> (\<forall>op \<in> set (pr_operations p). \<exists>res. receipt_answer receipts op = Some res \<and> event_logged sha (st_inbox (rt_store rt')) op res)
        \<and> (\<exists>d. findInput (st_inbox (rt_store rt')) (en_eventId (pr_input p)) = Some d \<and> rec_consumed d)
        \<and> (\<exists>new. queue (st_inbox (rt_store rt')) = tl (queue (st_inbox (rt_store rt))) @ new
            \<and> (\<forall>e \<in> set new. own_event (en_eventId e) (en_event e)))"
proof (cases r)
  case (Inl e)
  from ok run show ?thesis by (cases rule: commit_cases) (simp_all add: Inl)
next
  case (Inr x)
  obtain info where applied: "st_session (rt_store rt) = Some info" "st_session (rt_store rt') = Some info"
    "h_apply H (pr_changes p) (context_of info) (st_harness (rt_store rt)) = (Inr (), st_harness (rt_store rt'))"
    "st_pending (rt_store rt') = settled_pending p receipts (st_pending (rt_store rt))"
    "\<forall>op \<in> set (pr_operations p). \<exists>res. receipt_answer receipts op = Some res \<and> event_logged sha (st_inbox (rt_store rt')) op res"
    by (rule commit_applied [OF ok run [unfolded Inr]])
  note consumed = commit_consumes [OF ok run [unfolded Inr]]
  have head: "\<exists>d. findInput (st_inbox (rt_store rt')) (en_eventId (pr_input p)) = Some d \<and> rec_consumed d" using consumed by blast
  show ?thesis unfolding Inr sum.case using applied head consumed by (intro conjI) (simp_all del: split_paired_Ex)
qed

definition demo_receipts :: "(jstring \<times> json) list" where
  "demo_receipts = [(pp_operationId (hd (pr_operations demo_prepared)), submit_result_json (Accepted (lit ''j1'')))]"

definition demo_job :: pending_operation where
  "demo_job = \<lparr>po_operationId = pp_operationId (hd (pr_operations demo_prepared)), po_sourceInputSequence = 1,
     po_key = lit ''llm'', po_provider = lit ''llm'', po_jobId = lit ''j1''\<rparr>"

definition demo_committed :: "(unit, unit) runtime" where
  "demo_committed = demo_open\<lparr>rt_store := (rt_store demo_open)\<lparr>st_pending := [demo_job],
     st_inbox := [consumed_row 7 (new_row demo_input (inputHash length_sha demo_body))]\<rparr>\<rparr>"

definition demo_result :: process_next_result where
  "demo_result = \<lparr>pn_eventId = lit ''e1'', pn_sequence = 1, pn_status = Some St_running\<rparr>"

lemma demo_commit:
  "commit length_sha echo_harness demo_prepared demo_receipts 7 demo_ready = (Inr demo_result, demo_committed)"
proof -
  have rec: "collect_receipts (pr_operations demo_prepared) demo_receipts []
      = Inr [(pp_operationId (hd (pr_operations demo_prepared)), Accepted (lit ''j1''))]" by code_simp
  have head: "head_row [new_row demo_input h] = Some (new_row demo_input h)" for h
    by (simp add: head_row_def waiting_rows_def)
  have com: "consumeInput [new_row demo_input (inputHash length_sha demo_body)] demo_input 7
      = [consumed_row 7 (new_row demo_input (inputHash length_sha demo_body))]"
    by (simp add: consumeInput_def update_waiting_def)
  have ids: "en_eventId demo_input = lit ''e1''" "en_sequence demo_input = 1" "ev_type (en_event demo_input) = lit ''say''"
    by (simp_all add: demo_input_def demo_body_def)
  have ops: "pr_operations demo_prepared = [hd (pr_operations demo_prepared)]" "pr_input demo_prepared = demo_input"
    "pr_status demo_prepared = Some St_running" "pp_key (hd (pr_operations demo_prepared)) = lit ''llm''"
    "od_provider (pp_request (hd (pr_operations demo_prepared))) = lit ''llm''"
    by (simp_all add: demo_prepared_def)
  have len: "length (pr_operations demo_prepared) = 1" by (simp add: demo_prepared_def)
  have loop: "forA (pr_operations demo_prepared) f = bindA (f (hd (pr_operations demo_prepared))) (\<lambda>_. retA ())" for f
    by (subst ops(1)) simp
  have hook: "h_apply echo_harness c ctx = retA ()" for c ctx by (simp add: echo_harness_def)
  have body: "commit_body length_sha echo_harness demo_info demo_prepared
      [(pp_operationId (hd (pr_operations demo_prepared)), Accepted (lit ''j1''))] 7 demo_ready
      = (Inr demo_result, demo_committed\<lparr>rt_prepared := Some demo_prepared\<rparr>)"
    unfolding commit_body_def loop hook
    by (simp add: ops(2-5) ids com head demo_ready_def demo_said_def demo_open_def harness_hook_def set_store_def settle_def
        insert_pending_def po_insert_def constraint_def finish_completed_def COMPLETED_EVENT_def timestamp_def
        MAX_SAFE_INTEGER_def inbox_stmt_def demo_committed_def demo_result_def demo_job_def act_defs)
  have "rt_prepared demo_ready = Some demo_prepared" "rt_session demo_ready = Some demo_info"
    by (simp_all add: demo_ready_def demo_said_def demo_open_def)
  moreover have "demo_committed\<lparr>rt_prepared := None\<rparr> = demo_committed"
    by (simp add: demo_committed_def demo_open_def)
  ultimately show ?thesis
    using rec body len by (simp add: commit_def requireSession_cached transactionSync_def act_defs)
qed

theorem commit_all_or_nothing_witness:
  "(\<exists>d. findInput (st_inbox (rt_store demo_committed)) (en_eventId (pr_input demo_prepared)) = Some d \<and> rec_consumed d)
    \<and> st_pending (rt_store demo_committed) = settled_pending demo_prepared demo_receipts []"
  using commit_all_or_nothing [OF demo_ok(3) demo_commit] by (simp add: demo_ready_def demo_said_def demo_open_def)

text \<open>C3: A commit settles every operation of its transition exactly once. The receipts answer the
  prepared operations one to one; the pending table becomes the old one plus a row per operation whose
  receipt says accepted or completed, with the job that receipt names, less the operation whose completion was
  processed; and every operation whose receipt says rejected or completed has its completion event in the
  inbox under its derived event ID, with the content that receipt gives.\<close>

theorem commit_settles_every_operation:
  assumes ok: "rt_ok sha H rt" and run: "commit sha H p receipts now rt = (Inr x, rt')"
  shows "distinct (map pp_operationId (pr_operations p)) \<and> distinct (map fst receipts)
    \<and> set (map fst receipts) = set (map pp_operationId (pr_operations p))
    \<and> st_pending (rt_store rt') = after_completion (pr_input p) (st_pending (rt_store rt)
        @ concat (map (\<lambda>op. pending_row (en_sequence (pr_input p)) op (the (receipt_answer receipts op))) (pr_operations p)))
    \<and> (\<forall>op \<in> set (pr_operations p). \<exists>v res. (pp_operationId op, v) \<in> set receipts
        \<and> parseProviderSubmitResult (Some v) = Inr res \<and> receipt_answer receipts op = Some res
        \<and> (\<forall>ev. immediate_event op res = Some ev \<longrightarrow> (\<exists>d. findInput (st_inbox (rt_store rt')) (completionEventId (pp_operationId op)) = Some d
            \<and> rec_hash d = inputHash sha ev)))"
proof -
  obtain info where c: "distinct (map pp_operationId (pr_operations p))" "distinct (map fst receipts)"
    "set (map fst receipts) = set (map pp_operationId (pr_operations p))"
    "st_pending (rt_store rt') = settled_pending p receipts (st_pending (rt_store rt))"
    "\<forall>op \<in> set (pr_operations p). \<exists>res. receipt_answer receipts op = Some res \<and> event_logged sha (st_inbox (rt_store rt')) op res"
    by (rule commit_applied [OF ok run])
  have "\<exists>v. (pp_operationId op, v) \<in> set receipts \<and> parseProviderSubmitResult (Some v) = Inr res"
    if "receipt_answer receipts op = Some res" for op res
    using that by (auto simp: receipt_answer_def dest: map_of_SomeD split: option.splits sum.splits)
  with c(5) have "\<forall>op \<in> set (pr_operations p). \<exists>v res. (pp_operationId op, v) \<in> set receipts
        \<and> parseProviderSubmitResult (Some v) = Inr res \<and> receipt_answer receipts op = Some res
        \<and> event_logged sha (st_inbox (rt_store rt')) op res" by blast
  with c(1-4) show ?thesis unfolding settled_pending_def event_logged_def by blast
qed

theorem commit_settles_every_operation_witness:
  "map fst demo_receipts = map pp_operationId (pr_operations demo_prepared)
    \<and> st_pending (rt_store demo_committed) = [demo_job]
    \<and> (\<exists>op res. pr_operations demo_prepared = [op] \<and> receipt_answer demo_receipts op = Some res \<and> pending_row 1 op res = [demo_job])"
proof -
  define op where "op = hd (pr_operations demo_prepared)"
  have op: "pr_operations demo_prepared = [op]" "pr_input demo_prepared = demo_input" by (simp_all add: demo_prepared_def op_def)
  note all = commit_settles_every_operation [OF demo_ok(3) demo_commit, unfolded op]
  then obtain res where res: "receipt_answer demo_receipts op = Some res" by auto
  have old: "st_pending (rt_store demo_ready) = []" by (simp add: demo_ready_def demo_said_def demo_open_def)
  have say: "ev_type (en_event demo_input) \<noteq> COMPLETED_EVENT" "en_sequence demo_input = 1" by (simp_all add: demo_input_def demo_body_def COMPLETED_EVENT_def)
  have "st_pending (rt_store demo_committed) = pending_row 1 op res"
    using all res old say by (simp add: after_completion_def)
  moreover have "st_pending (rt_store demo_committed) = [demo_job]" by (simp add: demo_committed_def)
  moreover have "map fst demo_receipts = [pp_operationId op]" by (simp add: demo_receipts_def op_def)
  ultimately show ?thesis using op(1) res by simp
qed

section \<open>Completions\<close>

definition demo_completion :: operation_completion where
  "demo_completion = \<lparr>oc_operationId = po_operationId demo_job, oc_submissionId = po_operationId demo_job,
     oc_provider = lit ''llm'', oc_jobId = lit ''j1'', oc_outcome = Cancelled\<rparr>"

definition demo_done_event :: event_body where
  "demo_done_event = completionEvent (po_operationId demo_job) (lit ''llm'') (Some (lit ''j1'')) Cancelled"

definition demo_done_input :: input_envelope where
  "demo_done_input = \<lparr>en_eventId = completionEventId (po_operationId demo_job), en_sequence = 2, en_receivedAt = 8,
     en_event = demo_done_event\<rparr>"

definition demo_done :: "(unit, unit) runtime" where
  "demo_done = demo_committed\<lparr>rt_store := (rt_store demo_committed)\<lparr>st_inbox := st_inbox (rt_store demo_committed)
     @ [new_row demo_done_input (inputHash length_sha demo_done_event)]\<rparr>\<rparr>"

lemma demo_parse_completion: "parseOperationCompletion (Some (completion_json demo_completion)) = Inr demo_completion"
  by code_simp

lemma demo_accept:
  "acceptCompletion length_sha echo_harness (Some (completion_json demo_completion)) 8 demo_committed
    = (Inr \<lparr>cr_operationId = po_operationId demo_job, cr_eventId = completionEventId (po_operationId demo_job),
        cr_duplicate = False\<rparr>, demo_done)"
proof -
  have c: "oc_operationId demo_completion = po_operationId demo_job" "oc_submissionId demo_completion = po_operationId demo_job"
    "oc_provider demo_completion = lit ''llm''" "oc_jobId demo_completion = lit ''j1''" "oc_outcome demo_completion = Cancelled"
    by (simp_all add: demo_completion_def)
  have "operationIdentity (oc_operationId demo_completion) = Inr 1" by code_simp
  moreover have "findInput (st_inbox (rt_store demo_committed)) (completionEventId (oc_operationId demo_completion)) = None"
    by code_simp
  moreover have "allocateSequence (st_inbox (rt_store demo_committed)) = Inr 2" by code_simp
  moreover have "timestamp 8 = Inr 8" by code_simp
  moreover have "insertInput (st_inbox (rt_store demo_committed)) demo_done_input (inputHash length_sha demo_done_event)
      = Inr (st_inbox (rt_store demo_committed) @ [new_row demo_done_input (inputHash length_sha demo_done_event)])"
    by code_simp
  moreover have "po_find (st_pending (rt_store demo_committed)) (oc_operationId demo_completion) = Some demo_job"
    by (simp add: demo_committed_def po_find_def c)
  moreover have "po_provider demo_job = oc_provider demo_completion" "po_jobId demo_job = oc_jobId demo_completion"
    "rt_session demo_committed = Some demo_info" "oc_submissionId demo_completion = oc_operationId demo_completion"
    by (simp_all add: demo_job_def demo_committed_def demo_open_def c)
  moreover have "demo_done_event = completionEvent (oc_operationId demo_completion) (oc_provider demo_completion)
      (Some (oc_jobId demo_completion)) (oc_outcome demo_completion)"
    by (simp add: demo_done_event_def c)
  ultimately have "acceptCompletion length_sha echo_harness (Some (completion_json demo_completion)) 8 demo_committed
      = (Inr \<lparr>cr_operationId = oc_operationId demo_completion, cr_eventId = completionEventId (oc_operationId demo_completion),
          cr_duplicate = False\<rparr>, demo_committed\<lparr>rt_store := (rt_store demo_committed)\<lparr>st_inbox := st_inbox (rt_store demo_committed)
          @ [new_row demo_done_input (inputHash length_sha demo_done_event)]\<rparr>\<rparr>)"
    using acceptCompletion_new [OF demo_parse_completion] unfolding demo_done_input_def c by blast
  then show ?thesis by (simp add: demo_done_def c)
qed

lemma demo_all: "(rt_step length_sha echo_harness)\<^sup>*\<^sup>* demo_start demo_committed"
  "(rt_step length_sha echo_harness)\<^sup>*\<^sup>* demo_start demo_done"
  using rtranclp_trans [OF demo_run demo_steps(3)] step_commit [OF demo_commit] step_complete [OF demo_accept]
  by (meson rtranclp.rtrancl_into_rtrancl)+

text \<open>C8: A worker may deliver a completion any number of times: once it was accepted, the same completion
  is acknowledged as a duplicate for good, with the same event ID, and changes nothing in the store;
  a completion for the same operation whose content hashes differently is refused.\<close>

theorem completion_accepted_once:
  assumes ok: "rt_ok sha H rt" and first: "acceptCompletion sha H v now rt = (Inr receipt, rt1)"
    and later: "(rt_step sha H)\<^sup>*\<^sup>* rt1 rt2"
    and parsed: "parseOperationCompletion v = Inr c" "parseOperationCompletion v' = Inr c'"
    and same: "oc_operationId c' = oc_operationId c" "oc_submissionId c' = oc_submissionId c"
  shows "\<exists>r rt3. acceptCompletion sha H v' now' rt2 = (r, rt3) \<and> rt_store rt3 = rt_store rt2
    \<and> r = (if inputHash sha (completionEvent (oc_operationId c) (oc_provider c) (Some (oc_jobId c)) (oc_outcome c))
             = inputHash sha (completionEvent (oc_operationId c) (oc_provider c') (Some (oc_jobId c')) (oc_outcome c'))
           then Inr (receipt\<lparr>cr_duplicate := True\<rparr>)
           else Inl (ContractException COMPLETION_CONFLICT (lit ''Completion content changed.'')))"
proof -
  let ?i = "completionEventId (oc_operationId c)"
  let ?h = "inputHash sha (completionEvent (oc_operationId c) (oc_provider c) (Some (oc_jobId c)) (oc_outcome c))"
  obtain info d n where k: "st_session (rt_store rt1) = Some info" "findInput (st_inbox (rt_store rt1)) ?i = Some d"
      "rec_hash d = ?h" "receipt\<lparr>cr_duplicate := True\<rparr> = \<lparr>cr_operationId = oc_operationId c, cr_eventId = ?i, cr_duplicate = True\<rparr>"
      "operationIdentity (oc_operationId c) = Inr n" "oc_submissionId c = oc_operationId c"
    using acceptCompletion_Inr [OF ok first parsed(1)] by blast
  have ok1: "rt_ok sha H rt1" using rt_step_ok [OF step_complete [OF first] ok] by blast
  note later' = rt_steps_ok [OF later ok1]
  have s2: "st_session (rt_store rt2) = Some info" using later' k(1) by (simp add: advances_def)
  obtain d' where d': "findInput (st_inbox (rt_store rt2)) ?i = Some d'" "rec_hash d' = rec_hash d"
    using advances_found [OF conjunct2 [OF later'] k(2)] by metis
  have "check_completion sha H c' rt2 = (if ?h \<noteq> inputHash sha (completionEvent (oc_operationId c) (oc_provider c') (Some (oc_jobId c')) (oc_outcome c'))
      then Inl (ContractException COMPLETION_CONFLICT (lit ''Completion content changed.''))
      else Inr (KnownCompletion (rec_consumed d') \<lparr>cr_operationId = oc_operationId c, cr_eventId = ?i, cr_duplicate = True\<rparr>),
      rt2\<lparr>rt_session := Some info\<rparr>)"
    using check_completion_known [OF conjunct1 [OF later'] s2, of c' n d'] k(3,5,6) d' same by simp
  then show ?thesis
    using parsed(2) k(4) same by (simp add: acceptCompletion_def commit_admission_def act_defs)
qed

theorem completion_accepted_once_witness:
  "\<exists>rt3. acceptCompletion length_sha echo_harness (Some (completion_json demo_completion)) 9 demo_done
      = (Inr \<lparr>cr_operationId = po_operationId demo_job, cr_eventId = completionEventId (po_operationId demo_job),
          cr_duplicate = True\<rparr>, rt3) \<and> rt_store rt3 = rt_store demo_done"
proof -
  have ok: "rt_ok length_sha echo_harness demo_committed"
    using rt_steps_ok [OF demo_all(1) demo_start_ok] by blast
  show ?thesis
    using completion_accepted_once [OF ok demo_accept rtranclp.rtrancl_refl demo_parse_completion demo_parse_completion refl refl, of 9]
    by simp
qed

text \<open>C9: The reserved namespaces belong to the runtime. Whatever external callers submit, an input that
  is about to be planned and has a runtime event type or a runtime event ID is a completion event the
  runtime built itself, under the event ID derived from its operation, and its payload reads back.\<close>

theorem reserved_events_are_own:
  assumes "newRuntime H None = Inr rt0" and "(rt_step sha H)\<^sup>*\<^sup>* rt0 rt"
    and "nextInput (st_inbox (rt_store rt)) = Some e"
    and "startsWith (ev_type (en_event e)) RUNTIME_EVENT_PREFIX \<or> startsWith (en_eventId e) RUNTIME_EVENT_ID_PREFIX"
  shows "\<exists>oid p j o'. en_eventId e = completionEventId oid \<and> en_event e = completionEvent oid p j o'
    \<and> read_completed (en_event e) = Inr \<lparr>ce_operationId = oid, ce_provider = p, ce_jobId = j, ce_outcome = o'\<rparr>"
proof -
  have "rt_ok sha H rt" using rt_steps_ok [OF assms(2) fresh_runtime_ok [OF assms(1)]] by blast
  then have ns: "namespaced (st_inbox (rt_store rt))" by (simp add: rt_ok_def store_ok_def)
  obtain r where r: "r \<in> set (st_inbox (rt_store rt))" "row_envelope r = Some e"
    using assms(3) by (auto simp: nextInput_def dest: head_row_waiting split: bind_splits)
  then have "ib_content r = Waiting (en_event e)" "ib_event_id r = en_eventId e"
    by (auto simp: row_envelope_def envelope_def split: inbox_content.splits)
  with ns r(1) have "admissible (en_eventId e) (en_event e)" by (auto simp: namespaced_def)
  with assms(4) show ?thesis by (auto simp: admissible_def external_event_def own_event_def)
qed

theorem reserved_events_are_own_witness:
  "\<exists>oid p j o'. en_event demo_done_input = completionEvent oid p j o'"
proof -
  have "nextInput (st_inbox (rt_store demo_done)) = Some demo_done_input" by code_simp
  moreover have "startsWith (ev_type (en_event demo_done_input)) RUNTIME_EVENT_PREFIX" by code_simp
  ultimately show ?thesis using reserved_events_are_own [OF demo_fresh demo_all(2)] by blast
qed

section \<open>Order\<close>

lemma next_is_oldest:
  assumes ok: "inbox_ok rows" and next_e: "nextInput rows = Some e" and r: "r \<in> set rows"
  shows "if waiting r then en_sequence e \<le> ib_sequence r else ib_sequence r < en_sequence e"
proof -
  obtain don h todo where rows: "rows = don @ h # todo" "list_all (Not \<circ> waiting) don"
      "list_all waiting (h # todo)" "row_envelope h = Some e"
    using consumeInput_head [OF ok next_e] by metis
  have seq: "en_sequence e = ib_sequence h"
    using rows(4) by (auto simp: row_envelope_def envelope_def split: inbox_content.splits)
  have sorted: "sorted_wrt (<) (map ib_sequence don @ ib_sequence h # map ib_sequence todo)"
    using ok rows(1) by (simp add: inbox_ok_def)
  show ?thesis
    using r rows seq sorted by (auto simp: list_all_iff sorted_wrt_append)
qed

text \<open>C4: Inputs are processed in admission order and each at most once. Whenever a session commits an input and, after any calls,
  retries, failures and restarts, commits another one, the second has the greater sequence number: no input is
  committed twice and none is overtaken. At each commit every older input has been consumed, every other input that waits is younger, and
  the committed one is recorded as consumed, which it stays.\<close>

theorem inputs_in_order:
  assumes fresh: "newRuntime H None = Inr rt0" and before: "(rt_step sha H)\<^sup>*\<^sup>* rt0 rt1"
    and first: "commit sha H p receipts now rt1 = (Inr x, rt2)" and between: "(rt_step sha H)\<^sup>*\<^sup>* rt2 rt3"
    and second: "commit sha H p' receipts' now' rt3 = (Inr x', rt4)"
  shows "en_sequence (pr_input p) < en_sequence (pr_input p')
    \<and> (\<forall>r \<in> set (st_inbox (rt_store rt3)). if waiting r then en_sequence (pr_input p') \<le> ib_sequence r else ib_sequence r < en_sequence (pr_input p'))
    \<and> (\<exists>r \<in> set (st_inbox (rt_store rt3)). ib_event_id r = en_eventId (pr_input p) \<and> ib_sequence r = en_sequence (pr_input p) \<and> \<not> waiting r)"
proof -
  have ok1: "rt_ok sha H rt1" using rt_steps_ok [OF before fresh_runtime_ok [OF fresh]] by blast
  have ok2: "rt_ok sha H rt2" using rt_step_ok [OF step_commit [OF first] ok1] by blast
  note later = rt_steps_ok [OF between ok2]
  then have inb: "inbox_ok (st_inbox (rt_store rt3))" by (simp add: rt_ok_def store_ok_def)
  obtain d where d: "findInput (st_inbox (rt_store rt2)) (en_eventId (pr_input p)) = Some d" "rec_consumed d" "rec_sequence d = en_sequence (pr_input p)"
    using commit_consumes [OF ok1 first] by blast
  obtain d' where "findInput (st_inbox (rt_store rt3)) (en_eventId (pr_input p)) = Some d'" "rec_consumed d'" "rec_sequence d' = en_sequence (pr_input p)"
    using advances_found [OF conjunct2 [OF later] d(1)] d(2,3) by metis
  then obtain r where r: "r \<in> set (st_inbox (rt_store rt3))" "ib_event_id r = en_eventId (pr_input p)" "ib_sequence r = en_sequence (pr_input p)" "\<not> waiting r"
    using inb by (auto simp: findInput_Some inbox_ok_def row_record_def)
  have oldest: "\<forall>r \<in> set (st_inbox (rt_store rt3)). if waiting r then en_sequence (pr_input p') \<le> ib_sequence r else ib_sequence r < en_sequence (pr_input p')"
    using next_is_oldest [OF inb] commit_consumes [OF conjunct1 [OF later] second] by blast
  with r have "en_sequence (pr_input p) < en_sequence (pr_input p')" by fastforce
  with oldest r show ?thesis by blast
qed

definition demo_last :: "unit prepared_transition" where
  "demo_last = \<lparr>pr_input = demo_done_input, pr_changes = (), pr_operations = [], pr_status = Some St_running\<rparr>"

lemma demo_finish: "\<exists>rt x rt'. (rt_step length_sha echo_harness)\<^sup>*\<^sup>* demo_committed rt \<and> commit length_sha echo_harness demo_last [] 9 rt = (Inr x, rt')"
proof -
  let ?rt = "demo_done\<lparr>rt_prepared := Some demo_last\<rparr>"
  let ?c = "\<lparr>ce_operationId = po_operationId demo_job, ce_provider = lit ''llm'', ce_jobId = Some (lit ''j1''), ce_outcome = Cancelled\<rparr>"
  have read: "read_completed (en_event demo_done_input) = Inr ?c" by code_simp
  have nxt: "nextInput (st_inbox (rt_store demo_done)) = Some demo_done_input" by code_simp
  have head: "map_option ib_event_id (head_row (st_inbox (rt_store demo_done))) = Some (en_eventId demo_done_input)" by code_simp
  have type: "ev_type (en_event demo_done_input) = COMPLETED_EVENT"
    by (simp add: demo_done_input_def demo_done_event_def completionEvent_def)
  have parts: "st_pending (rt_store demo_done) = [demo_job]" "rt_session demo_done = Some demo_info" "rt_prepared demo_done = None"
    by (simp_all add: demo_done_def demo_committed_def demo_open_def)
  have plan: "plan_input length_sha echo_harness demo_info (rt_store demo_done) demo_done_input = Inr demo_last"
    using read type by (simp add: plan_input_def correlate_def parts po_find_def echo_harness_def echo_plan_def demo_last_def demo_job_def Let_def)
  have "prepare length_sha echo_harness demo_done = (Inr (Some demo_last), ?rt)" by (rule prepare_new [OF parts(2,3) nxt plan])
  then have step: "(rt_step length_sha echo_harness)\<^sup>*\<^sup>* demo_committed ?rt"
    using step_complete [OF demo_accept] step_prepare by (meson converse_rtranclp_into_rtranclp r_into_rtranclp)
  have "\<exists>x rt'. commit length_sha echo_harness demo_last [] 9 ?rt = (Inr x, rt')"
    using head by (simp add: commit_def requireSession_cached parts demo_last_def transactionSync_def commit_body_def harness_hook_def echo_harness_def
        finish_completed_def type read timestamp_def MAX_SAFE_INTEGER_def inbox_stmt_def set_store_def act_defs)
  with step show ?thesis by blast
qed

theorem inputs_in_order_witness: "en_sequence demo_input < en_sequence demo_done_input"
proof -
  obtain rt x rt' where run: "(rt_step length_sha echo_harness)\<^sup>*\<^sup>* demo_committed rt" "commit length_sha echo_harness demo_last [] 9 rt = (Inr x, rt')"
    using demo_finish by blast
  from inputs_in_order [OF demo_fresh rtranclp_trans [OF demo_run demo_steps(3)] demo_commit run] show ?thesis
    by (simp add: demo_prepared_def demo_last_def)
qed

section \<open>Operation identities\<close>

text \<open>C10: An operation identity carries its input sequence: the identity derived for a safe sequence is
  accepted by the validator of callbacks, which recovers that sequence, so operations of different
  inputs never share an identity.\<close>

theorem operation_identity_round_trip:
  assumes "hex64 sha" and "1 \<le> n" and "n \<le> MAX_SAFE_INTEGER" and "operationId sha session n key = Inr oid"
  shows "operationIdentity oid = Inr n
    \<and> (\<forall>session' m key'. 1 \<le> m \<and> m \<le> MAX_SAFE_INTEGER \<and> operationId sha session' m key' = Inr oid \<longrightarrow> m = n)"
  using operationIdentity_operationId [OF assms(4,1,2,3)] operationIdentity_operationId [OF _ assms(1)]
  by (metis sum.inject(2))

theorem operation_identity_round_trip_witness:
  "operationIdentity (lit ''replay-v1:7:'' @ zero_sha []) = Inr 7"
proof -
  have "hex64 zero_sha" by (simp add: hex64_def zero_sha_def is_lower_hex_def is_digit_def list_all_iff)
  moreover have "operationId zero_sha (sn_identity demo_info) 7 (lit ''k'') = Inr (lit ''replay-v1:7:'' @ zero_sha [])"
    by code_simp
  ultimately show ?thesis
    using operation_identity_round_trip [of zero_sha 7] by (simp add: MAX_SAFE_INTEGER_def)
qed

end
