(* ===== verification/JsonSize.thy ===== *)
theory JsonSize
  imports Json "HOL-Library.Multiset"
begin

text \<open>
  A bound on the UTF-8 size of a JSON text that is computed from the lengths of its strings: at most six
  units per escaped unit and three bytes per unit. The size limits of the code are shown for concrete
  values with it. The second part: the size does not depend on the order of keys, so equal values in the sense of
  \<open>jsonEquals\<close> have texts of the same size.
\<close>

fun text_size :: "json \<Rightarrow> nat" and items_size :: "json list \<Rightarrow> nat" and fields_size :: "fields \<Rightarrow> nat" where
  "text_size (JArr xs) = 2 + items_size xs"
| "text_size (JObj kvs) = 2 + fields_size kvs"
| "text_size (JStr s) = 2 + 6 * length s"
| "text_size v = length (prim_text v)"
| "items_size [] = 0"
| "items_size (x # xs) = text_size x + 1 + items_size xs"
| "fields_size [] = 0"
| "fields_size ((k, v) # kvs) = 6 * length k + 4 + text_size v + fields_size kvs"

lemma unit_bytes_le: "unit_bytes u \<le> 3"
  by (simp add: unit_bytes_def)

lemma utf8Bytes_le: "utf8Bytes s \<le> 3 * length s"
proof (induction s rule: utf8Bytes.induct)
  case (2 u)
  then show ?case using unit_bytes_le [of u] by simp
next
  case (3 u v s)
  then show ?case using unit_bytes_le [of u] by auto
qed simp

lemma length_escape_unit: "length (escape_unit u) \<le> 6"
  by (simp add: escape_unit_def unicode_escape_def Let_def)

lemma length_escape: "length (escape s) \<le> 6 * length s"
proof (induction s rule: escape.induct)
  case (2 u)
  then show ?case using length_escape_unit [of u] by simp
next
  case (3 u v s)
  then show ?case using length_escape_unit [of u] by auto
qed simp

lemma length_quote: "length (quote s) \<le> 2 + 6 * length s"
  using length_escape [of s] by (simp add: quote_def)

lemma length_join: "length (join ts) \<le> sum_list (map (\<lambda>t. length t + 1) ts)"
  by (induction ts rule: induct_list012) (auto simp: join_def)

lemma stringify_le:
  "length (stringify v) \<le> text_size v"
  "sum_list (map (\<lambda>t. length t + 1) (stringify_items xs)) \<le> items_size xs"
  "sum_list (map (\<lambda>t. length t + 1) (map (\<lambda>(k, t). quote k @ lit '':'' @ t) (stringify_fields kvs))) \<le> fields_size kvs"
proof (induction v and xs and kvs rule: text_size_items_size_fields_size.induct)
  case (1 xs)
  then show ?case using length_join [of "stringify_items xs"] by simp
next
  case (2 kvs)
  then show ?case
    using length_join [of "map (\<lambda>(k, t). quote k @ lit '':'' @ t) (stringify_fields kvs)"] by simp
next
  fix k v kvs
  assume "length (stringify v) \<le> text_size v"
    and "sum_list (map (\<lambda>t. length t + 1) (map (\<lambda>(k, t). quote k @ lit '':'' @ t) (stringify_fields kvs))) \<le> fields_size kvs"
  then show "sum_list (map (\<lambda>t. length t + 1) (map (\<lambda>(k, t). quote k @ lit '':'' @ t) (stringify_fields ((k, v) # kvs))))
      \<le> fields_size ((k, v) # kvs)"
    using length_quote [of k] by simp
qed (use length_quote in auto)

lemma json_bytes_le: "json_bytes v \<le> 3 * text_size v"
  using utf8Bytes_le [of "stringify v"] stringify_le(1) [of v] by (simp add: json_bytes_def)

section \<open>The size does not depend on key order\<close>

definition ascii_head :: "jstring \<Rightarrow> bool" where
  "ascii_head s \<longleftrightarrow> s = [] \<or> hd s < 0x80"

lemma ascii_not_low: "u < (0x80 :: unit16) \<Longrightarrow> \<not> low_surrogate u" "u < (0x80 :: unit16) \<Longrightarrow> \<not> high_surrogate u"
  by (auto simp: low_surrogate_def high_surrogate_def word_less_def word_le_def)

lemma utf8Bytes_append: "ascii_head b \<Longrightarrow> utf8Bytes (a @ b) = utf8Bytes a + utf8Bytes b"
proof (induction a rule: utf8Bytes.induct)
  case (2 u)
  then show ?case by (cases b) (auto simp: ascii_head_def ascii_not_low)
qed auto

lemma ascii_head_simps [simp]:
  "ascii_head []" "ascii_head (u # s) \<longleftrightarrow> u < 0x80"
  by (simp_all add: ascii_head_def)

lemma ascii_head_append: "ascii_head a \<Longrightarrow> ascii_head b \<Longrightarrow> ascii_head (a @ b)"
  by (cases a) auto

lemma ascii_lit [simp]:
  "ascii_head (lit '','' @ s)" "ascii_head (lit '':'' @ s)" "ascii_head (lit ''['' @ s)" "ascii_head (lit '']'')"
  "ascii_head (lit ''{'' @ s)" "ascii_head (lit ''}'')" "ascii_head (lit ''null'')" "ascii_head (lit ''true'')"
  "ascii_head (lit ''false'')" "ascii_head (quote k)" "ascii_head (quote k @ s)"
  by (simp_all add: lit_def quote_def)

lemma utf8Bytes_lit [simp]:
  "utf8Bytes (lit '','') = 1" "utf8Bytes (lit '':'') = 1" "utf8Bytes (lit ''['') = 1" "utf8Bytes (lit '']'') = 1"
  "utf8Bytes (lit ''{'') = 1" "utf8Bytes (lit ''}'') = 1"
  by (simp_all add: lit_def unit_bytes_def)

lemma ascii_digit: "list_all is_digit s \<Longrightarrow> list_all (\<lambda>u. u < (0x80 :: unit16)) s"
  by (induction s) (auto simp: is_digit_def word_less_def word_le_def)

lemma nat_text_digits: "list_all is_digit (nat_text n)"
proof (induction n rule: nat_text.induct)
  case (1 n)
  then show ?case
    by (subst nat_text.simps) (simp add: is_digit_digit_unit)
qed

lemma ascii_head_all: "list_all (\<lambda>u. u < (0x80 :: unit16)) s \<Longrightarrow> ascii_head s"
  by (cases s) auto

definition ascii :: "jstring \<Rightarrow> bool" where
  "ascii s \<longleftrightarrow> list_all (\<lambda>u. u < 0x80) s"

lemma ascii_parts:
  "ascii s \<Longrightarrow> ascii (take i s)" "ascii s \<Longrightarrow> ascii (drop i s)" "ascii s \<Longrightarrow> ascii (strip_zeros s)"
  "ascii (a @ b) \<longleftrightarrow> ascii a \<and> ascii b" "ascii (replicate n 48)" "ascii (nat_text k)"
  "ascii (lit ''.'')" "ascii (lit ''e'')" "ascii (lit ''-'')" "ascii (lit ''+'')" "ascii (lit ''0.'')" "ascii []"
  by (auto simp: ascii_def list_all_iff strip_zeros_def lit_def dest: in_set_takeD in_set_dropD set_dropWhileD)
    (use ascii_digit [OF nat_text_digits] in \<open>auto simp: list_all_iff\<close>)

lemma ascii_exponent: "ascii s \<Longrightarrow> ascii (exponent_text s e)"
  by (simp add: exponent_text_def ascii_parts)

lemma ascii_abs_num: "ascii (abs_num_text x)"
  by (cases x) (simp_all only: abs_num_text_def number.case Let_def ascii_parts ascii_exponent simp_thms split: if_split)

lemma ascii_num_text: "ascii_head (num_text x)"
  by (rule ascii_head_all) (use ascii_abs_num [of x] in \<open>simp add: num_text_def ascii_def lit_def\<close>)

lemma ascii_stringify: "ascii_head (stringify v)"
  by (cases v) (auto simp: ascii_num_text)

lemma utf8Bytes_join:
  assumes "\<And>t. t \<in> set ts \<Longrightarrow> ascii_head t"
  shows "utf8Bytes (join ts) = sum_list (map utf8Bytes ts) + (length ts - 1) \<and> ascii_head (join ts)"
proof (cases ts)
  case Nil
  then show ?thesis by (simp add: join_def)
next
  case (Cons t us)
  have heads: "\<And>u. u \<in> set us \<Longrightarrow> ascii_head u" using assms Cons by simp
  have "utf8Bytes (concat (map (\<lambda>u. lit '','' @ u) us)) = sum_list (map utf8Bytes us) + length us
      \<and> ascii_head (concat (map (\<lambda>u. lit '','' @ u) us))"
    using heads by (induction us) (auto simp: utf8Bytes_append ascii_head_append)
  then show ?thesis using Cons assms by (simp add: join_def utf8Bytes_append ascii_head_append)
qed

lemma ascii_join_items: "ascii_head (join (stringify_items xs))"
  by (rule utf8Bytes_join [THEN conjunct2]) (auto simp: ascii_stringify list_forms)

lemma json_bytes_simps:
  "json_bytes (JArr xs) = 2 + sum_list (map json_bytes xs) + (length xs - 1)"
  "json_bytes (JObj kvs) = 2 + sum_list (map (\<lambda>(k, v). utf8Bytes (quote k) + 1 + json_bytes v) kvs) + (length kvs - 1)"
proof -
  have "utf8Bytes (join (map stringify xs)) = sum_list (map utf8Bytes (map stringify xs)) + (length (map stringify xs) - 1)"
    by (rule utf8Bytes_join [THEN conjunct1]) (auto simp: ascii_stringify)
  then have "utf8Bytes (join (stringify_items xs)) = sum_list (map json_bytes xs) + (length xs - 1)"
    by (simp add: list_forms json_bytes_def [abs_def] comp_def)
  then show "json_bytes (JArr xs) = 2 + sum_list (map json_bytes xs) + (length xs - 1)"
    using ascii_join_items [of xs] by (simp add: json_bytes_def utf8Bytes_append ascii_head_append)
  let ?ts = "map (\<lambda>(k, t). quote k @ lit '':'' @ t) (stringify_fields kvs)"
  have join: "utf8Bytes (join ?ts) = sum_list (map utf8Bytes ?ts) + (length ?ts - 1)" "ascii_head (join ?ts)"
    by (rule utf8Bytes_join [THEN conjunct1], auto) (rule utf8Bytes_join [THEN conjunct2], auto)
  have each: "map utf8Bytes ?ts = map (\<lambda>(k, v). utf8Bytes (quote k) + 1 + json_bytes v) kvs"
    by (auto simp: list_forms json_bytes_def utf8Bytes_append ascii_stringify ascii_head_append)
  have size: "length ?ts = length kvs" by (simp add: list_forms)
  have "json_bytes (JObj kvs) = 2 + utf8Bytes (join ?ts)"
    using join(2) by (simp add: json_bytes_def utf8Bytes_append ascii_head_append)
  then show "json_bytes (JObj kvs) = 2 + sum_list (map (\<lambda>(k, v). utf8Bytes (quote k) + 1 + json_bytes v) kvs) + (length kvs - 1)"
    by (simp only: join(1) each size)
qed

lemma sum_list_sort_key: "sum_list (map (f :: 'a \<Rightarrow> nat) (sort_key g xs)) = sum_list (map f xs)"
  by (metis mset_map mset_sort sum_mset_sum_list)

lemma json_bytes_norm:
  "json_bytes (norm v) = json_bytes v"
  "map json_bytes (norm_items xs) = map json_bytes xs"
  "map (\<lambda>(k, v). utf8Bytes (quote k) + 1 + json_bytes v) (norm_fields kvs)
    = map (\<lambda>(k, v). utf8Bytes (quote k) + 1 + json_bytes v) kvs"
proof (induction v and xs and kvs rule: norm_norm_items_norm_fields.induct)
  case (1 xs)
  have "length (norm_items xs) = length xs" by (simp add: list_forms)
  with 1 show ?case by (simp add: json_bytes_simps)
next
  case (2 kvs)
  then show ?case by (simp add: json_bytes_simps sum_list_sort_key)
qed auto

lemma json_bytes_equal:
  assumes "json_ok a" and "json_ok b" and "jsonEquals a b"
  shows "json_bytes a = json_bytes b"
  using assms jsonEquals_norm(1) json_bytes_norm(1) by metis

text \<open>Evaluation tries the bound before it builds the text.\<close>

definition exceeds :: "json \<Rightarrow> nat \<Rightarrow> bool" where
  "exceeds v n \<longleftrightarrow> n < json_bytes v"

lemma exceeds_code [code]: "exceeds v n = (if 3 * text_size v \<le> n then False else n < utf8Bytes (stringify v))"
  using json_bytes_le [of v] by (simp add: exceeds_def json_bytes_def)

lemma exceeds_unfold [code_unfold]: "n < json_bytes v \<longleftrightarrow> exceeds v n"
  by (simp add: exceeds_def)

end
