(* ===== verification/MinimalBashProperties.thy ===== *)
theory MinimalBashProperties
  imports MinimalBashSafety HarnessContract RuntimeProperties JsonSize
begin

text \<open>
  The properties of the minimal-bash harness: its invariant under the session runtime, what a transition
  may plan, steering, cancellation, late completions and the pages of its read views.
\<close>

section \<open>The harness keeps its contract\<close>

lemma operationId_plain: "operationId sha session q key = Inl e \<Longrightarrow> \<not> harness_failing e"
  by (auto simp: operationId_def harness_failing_def split: if_splits)

lemma mb_handle_plan:
  assumes ok: "mb_ok (me_tables env)" and ids: "plain_ids env" and run: "mb_handle env input = Inr plan"
  shows "\<exists>s w. starting env s \<and> guarded (handle_event env input) (start_work s) = (Inr (), w) \<and> plan_ok env s w
    \<and> tp_changes plan = \<lparr>ch_state = (if w_state w \<noteq> s then Some (w_state w) else None), ch_messages = w_messages w,
        ch_pending = w_pending w, ch_promotePending = w_promotePending w\<rparr>
    \<and> tp_operations plan = w_operations w \<and> tp_status plan = w_status w"
proof -
  from ok obtain s where s: "mt_state (me_tables env) = Some s" by (auto simp: mb_ok_def)
  then have start: "starting env s" using ok ids by (simp add: starting_def)
  from mb_handle_Inr [OF run s] obtain w where w: "guarded (handle_event env input) (start_work s) = (Inr (), w)"
    "tp_changes plan = \<lparr>ch_state = (if w_state w \<noteq> s then Some (w_state w) else None), ch_messages = w_messages w,
        ch_pending = w_pending w, ch_promotePending = w_promotePending w\<rparr>"
    "tp_operations plan = w_operations w" "tp_status plan = w_status w" by blast
  have "plan_ok env s w" using wp_Inr [OF handle_event_spec [OF start] w(1)] .
  with start w show ?thesis by blast
qed

lemma mb_transition_ok:
  assumes "mb_ok (me_tables env)" and "plain_ids env" and "mb_handle env input = Inr plan"
    and "mb_apply (tp_changes plan) (me_tables env) = (Inr u, t')"
  shows "mb_ok t'"
proof -
  from mb_handle_plan [OF assms(1-3)] obtain s w where "starting env s" "plan_ok env s w"
    "tp_changes plan = \<lparr>ch_state = (if w_state w \<noteq> s then Some (w_state w) else None), ch_messages = w_messages w,
        ch_pending = w_pending w, ch_promotePending = w_promotePending w\<rparr>" by blast
  from mb_apply_ok [OF this assms(4)] show ?thesis by simp
qed

interpretation minimal_bash: harness_contract "minimalBashHarness new_URL JSON_parse" mb_ok "\<lambda>sha. True" "\<lambda>input. True"
  for new_URL JSON_parse
proof unfold_locales
  fix ctx u t
  assume "h_initialize (minimalBashHarness new_URL JSON_parse) ctx (h_schema (minimalBashHarness new_URL JSON_parse)) = (Inr u, t)"
  then show "mb_ok t"
    by (auto simp: minimalBashHarness_def minimalBashSchema_def mb_initialize_def bindA_Inr prim_defs mb_ok_def
        state_ok_def mb_running_def)
next
  fix t sha input ctx session plan u t'
  assume ok: "mb_ok t"
    and handle: "h_handle (minimalBashHarness new_URL JSON_parse) input ctx (operationId sha session (en_sequence input)) t = Inr plan"
    and app: "h_apply (minimalBashHarness new_URL JSON_parse) (tp_changes plan) ctx t = (Inr u, t')"
  let ?env = "\<lparr>me_tables = t, me_config = mb_read_config (hc_config ctx), me_sessionId = si_sessionId (hc_session ctx),
    me_operationId = operationId sha session (en_sequence input), me_JSON_parse = JSON_parse\<rparr>"
  have "plain_ids ?env" by (simp add: plain_ids_def operationId_plain)
  then show "mb_ok t'"
    using mb_transition_ok [of ?env input plan u t'] ok handle app by (simp add: minimalBashHarness_def)
qed

section \<open>Pages\<close>

lemma page_loop_spec:
  "page_loop cursor limit sz rows bytes = (page, hasMore) \<Longrightarrow> bytes = sum_list (map sz rows) \<Longrightarrow>
    (\<exists>n. page = rows @ take n cursor \<and> n \<le> length cursor \<and> (hasMore \<longleftrightarrow> n < length cursor)
      \<and> (rows = [] \<and> 0 < limit \<and> cursor \<noteq> [] \<longrightarrow> 0 < n))
    \<and> (length rows \<le> limit \<longrightarrow> length page \<le> limit)
    \<and> (length rows \<le> 1 \<or> bytes \<le> PAGE_JSON_BYTES \<longrightarrow> length page \<le> 1 \<or> sum_list (map sz page) \<le> PAGE_JSON_BYTES)"
proof (induction cursor limit sz rows bytes rule: page_loop.induct)
  case (1 limit sz rows bytes)
  then show ?case by auto
next
  case (2 r rs limit sz rows bytes)
  show ?case
  proof (cases "length rows \<ge> limit \<or> (rows \<noteq> [] \<and> bytes + sz r > PAGE_JSON_BYTES)")
    case True
    with 2(2) have "page = rows @ take 0 (r # rs)" "hasMore" by auto
    with True 2(3) show ?thesis by (auto intro!: exI [of _ 0])
  next
    case False
    from False 2(2) have step: "page_loop rs limit sz (rows @ [r]) (bytes + sz r) = (page, hasMore)"
      by (auto split: if_splits)
    have sum: "bytes + sz r = sum_list (map sz (rows @ [r]))" using 2(3) by simp
    note IH = 2(1) [OF False step sum]
    from IH obtain n where "page = (rows @ [r]) @ take n rs" "n \<le> length rs" "hasMore \<longleftrightarrow> n < length rs" by blast
    then have "page = rows @ take (Suc n) (r # rs) \<and> Suc n \<le> length (r # rs) \<and> (hasMore \<longleftrightarrow> Suc n < length (r # rs))" by simp
    moreover have "length rows \<le> limit \<longrightarrow> length page \<le> limit" using IH False by auto
    moreover have "length (rows @ [r]) \<le> 1 \<or> bytes + sz r \<le> PAGE_JSON_BYTES" using False by auto
    ultimately show ?thesis using IH by blast
  qed
qed

lemma pageRows_spec:
  assumes "pageRows cursor limit sz = (page, hasMore)" and "0 < limit"
  shows "\<exists>n. page = take n cursor \<and> n \<le> length cursor \<and> (hasMore \<longleftrightarrow> n < length cursor) \<and> (cursor \<noteq> [] \<longrightarrow> 0 < n)"
    and "length page \<le> limit" and "length page \<le> 1 \<or> sum_list (map sz page) \<le> PAGE_JSON_BYTES"
  using page_loop_spec [of cursor limit sz "[]" 0 page hasMore] assms by (auto simp: pageRows_def)

lemma sorted_split:
  assumes "sorted_wrt (\<lambda>x y. (f x :: int) < f y) (xs @ x # ys)"
  shows "List.filter (\<lambda>y. f x < f y) (xs @ x # ys) = ys"
proof -
  have "List.filter (\<lambda>y. f x < f y) xs = []" using assms by (auto simp: sorted_wrt_append filter_empty_conv)
  moreover have "List.filter (\<lambda>y. f x < f y) ys = ys" using assms by (simp add: sorted_wrt_append)
  ultimately show ?thesis by simp
qed

lemma filter_last_page:
  assumes sorted: "sorted_wrt (\<lambda>x y. (f x :: int) < f y) xs" and n: "0 < n" "n < length (List.filter (\<lambda>x. a < f x) xs)"
  shows "List.filter (\<lambda>x. a < f x) xs = take n (List.filter (\<lambda>x. a < f x) xs)
      @ List.filter (\<lambda>x. f (last (take n (List.filter (\<lambda>x. a < f x) xs))) < f x) xs
    \<and> a < f (last (take n (List.filter (\<lambda>x. a < f x) xs)))"
proof -
  let ?ys = "List.filter (\<lambda>x. a < f x) xs"
  define l where "l = last (take n ?ys)"
  have "take n ?ys \<noteq> []" using n by auto
  then have split: "?ys = butlast (take n ?ys) @ l # drop n ?ys" and l: "l \<in> set (take n ?ys)"
    unfolding l_def by (metis append.assoc append_Cons append_Nil append_butlast_last_id append_take_drop_id, metis last_in_set)
  have la: "a < f l" using l set_take_subset [of n ?ys] by fastforce
  have "sorted_wrt (\<lambda>x y. f x < f y) ?ys" using sorted by (rule sorted_wrt_filter)
  then have "List.filter (\<lambda>y. f l < f y) ?ys = drop n ?ys" using sorted_split split by metis
  moreover have "List.filter (\<lambda>y. f l < f y) ?ys = List.filter (\<lambda>y. f l < f y) xs" using la by (auto intro: filter_cong)
  ultimately show ?thesis using la by (simp add: l_def) (metis append_take_drop_id)
qed

lemma messages_sorted:
  assumes "mb_ok t"
  shows "sorted_wrt (\<lambda>x y. mr_sequence x < mr_sequence y) (mt_messages t)"
  using assms by (auto simp: mb_ok_def sorted_wrt_map)

definition row_bytes :: "message_row \<Rightarrow> nat" where
  "row_bytes r = json_bytes (mr_message r) + (case mr_response_metadata r of None \<Rightarrow> 4 | Some m \<Rightarrow> json_bytes m)"

text \<open>C28: Reading the transcript page by page. A page has at most \<open>limit\<close> messages and, unless it is a single
  message, at most 2 MiB of stored JSON. Without a next cursor the page is everything after the requested
  position; with one, the page is not empty and everything after the position is the page followed by
  everything after the cursor. So following the cursors visits every message exactly once, in order, and ends.\<close>

theorem transcript_pages:
  assumes ok: "mb_ok t" and limit: "0 < limit"
    and read: "readMinimalBashMessages t after limit = Inr (page, cursor, view)"
  shows "length page \<le> limit \<and> (length page \<le> 1 \<or> sum_list (map row_bytes page) \<le> PAGE_JSON_BYTES)
    \<and> (case cursor of
          None \<Rightarrow> page = List.filter (\<lambda>r. mr_sequence r > after) (mt_messages t)
        | Some q \<Rightarrow> page \<noteq> [] \<and> after < q \<and> List.filter (\<lambda>r. mr_sequence r > after) (mt_messages t)
            = page @ List.filter (\<lambda>r. mr_sequence r > q) (mt_messages t))"
proof -
  let ?all = "List.filter (\<lambda>r. mr_sequence r > after) (mt_messages t)"
  note sorted = messages_sorted [OF ok]
  have "sorted_wrt (\<lambda>x y. mr_sequence x < mr_sequence y) ?all" using sorted by (rule sorted_wrt_filter)
  then have "sorted (map mr_sequence ?all)"
    by (metis (mono_tags, lifting) less_imp_le sorted_wrt_map sorted_wrt_mono_rel)
  then have sort: "sort_key mr_sequence ?all = ?all" by (simp add: sort_key_id_if_sorted)
  from read obtain hasMore where page: "pageRows (take (limit + 1) ?all) limit row_bytes = (page, hasMore)"
    and cursor: "cursor = (if hasMore then Some (mr_sequence (last page)) else None)"
    by (auto simp: readMinimalBashMessages_def row_bytes_def [abs_def] sort Let_def bindR_def split: prod.splits sum.splits)
  note spec = pageRows_spec [OF page limit]
  from spec(1) obtain n where n: "page = take n (take (limit + 1) ?all)" "n \<le> length (take (limit + 1) ?all)"
    "hasMore \<longleftrightarrow> n < length (take (limit + 1) ?all)" "take (limit + 1) ?all \<noteq> [] \<longrightarrow> 0 < n" by blast
  have nl: "n \<le> limit \<or> n = length ?all" using n spec(2) by auto
  show ?thesis
  proof (cases hasMore)
    case False
    then have "page = ?all" using n spec(2) by (auto simp: min_def split: if_splits)
    then show ?thesis using False cursor spec(2,3) by simp
  next
    case True
    then have nn: "0 < n" "n < length ?all" "page = take n ?all" using n spec(2) by (auto simp: min_def split: if_splits)
    from filter_last_page [OF sorted nn(1,2)] nn True cursor spec(2,3) show ?thesis by auto
  qed
qed

section \<open>What a transition may plan\<close>

text \<open>C25: A transition plans at most one operation. If it plans one, the state it leaves waits for exactly that
  operation; if it plans none, the harness waits for what it already waited for or for nothing. A
  transition that reports the run as failed plans nothing and leaves no active operation.\<close>

theorem one_operation_per_transition:
  assumes "mb_ok (me_tables env)" and "plain_ids env" and "mb_handle env input = Inr plan"
    and "mb_apply (tp_changes plan) (me_tables env) = (Inr u, t')"
  shows "\<exists>s s'. mt_state (me_tables env) = Some s \<and> mt_state t' = Some s'
    \<and> (case tp_operations plan of
          [] \<Rightarrow> ms_active_operation_id s' \<in> {None, ms_active_operation_id s}
        | [op] \<Rightarrow> (\<exists>oid. me_operationId env (pn_key op) = Inr oid \<and> ms_active_operation_id s' = Some oid)
        | _ \<Rightarrow> False)
    \<and> (ms_phase s' = Mb_failed \<longrightarrow> tp_operations plan = [] \<and> ms_active_operation_id s' = None)"
proof -
  from mb_handle_plan [OF assms(1-3)] obtain s w where w: "starting env s" "plan_ok env s w"
    "tp_changes plan = \<lparr>ch_state = (if w_state w \<noteq> s then Some (w_state w) else None), ch_messages = w_messages w,
        ch_pending = w_pending w, ch_promotePending = w_promotePending w\<rparr>" "tp_operations plan = w_operations w" by blast
  from mb_apply_ok [OF w(1-3) assms(4)] obtain qs where t': "mt_state t' = Some (resolve_sequence qs (w_state w))" by blast
  have res: "ms_active_operation_id (resolve_sequence qs (w_state w)) = ms_active_operation_id (w_state w)"
    "ms_phase (resolve_sequence qs (w_state w)) = ms_phase (w_state w)"
    by (simp_all add: resolve_sequence_def split: option.split)
  have ops: "operations_ok env s w" and st: "ms_active_operation_id (w_state w) \<noteq> None \<longleftrightarrow> mb_running (w_state w)"
    using w(2) by (simp_all add: plan_ok_def state_ok_def)
  have "mt_state (me_tables env) = Some s" using w(1) by (simp add: starting_def)
  moreover have "case w_operations w of
          [] \<Rightarrow> ms_active_operation_id (w_state w) \<in> {None, ms_active_operation_id s}
        | [op] \<Rightarrow> (\<exists>oid. me_operationId env (pn_key op) = Inr oid \<and> ms_active_operation_id (w_state w) = Some oid)
        | _ \<Rightarrow> False"
    using ops by (auto simp: operations_ok_def)
  moreover have "ms_phase (w_state w) = Mb_failed \<longrightarrow> w_operations w = [] \<and> ms_active_operation_id (w_state w) = None"
    using ops st by (auto simp: operations_ok_def mb_running_def)
  ultimately show ?thesis
    using t' res w(4) by - (rule exI [of _ s], rule exI [of _ "resolve_sequence qs (w_state w)"], simp split: list.splits)
qed

section \<open>Steering\<close>

lemma carries_rows:
  assumes "carries t ms" and "length qs = length ms" and "row \<in> set (mt_pending t)"
  shows "\<exists>m \<in> set (map2 appended_row ms qs). mr_message m = sg_message row \<and> mr_in_context m
    \<and> mr_source_event_id m = Some (sg_event_id row)"
proof -
  from assms(1) obtain pre run post where ms: "ms = pre @ map (promoted run) (steering_queue t) @ post"
    by (auto simp: carries_def)
  have "promoted run row \<in> set ms" using assms(3) by (simp add: ms steering_queue_def)
  then obtain i where i: "i < length ms" "ms ! i = promoted run row" by (auto simp: in_set_conv_nth)
  then have "map2 appended_row ms qs ! i \<in> set (map2 appended_row ms qs)" using assms(2) by (intro nth_mem) simp
  then have "appended_row (promoted run row) (qs ! i) \<in> set (map2 appended_row ms qs)" using i assms(2) by simp
  then show ?thesis by (rule bexI [rotated]) (simp add: promoted_def appended_row_def)
qed

text \<open>C26: The transcript is append-only and no steering message is lost: after a transition every message that was
  waiting as steering still waits, or is in the part of the transcript this transition appended, in the
  model's context and with its event ID.\<close>

theorem steering_never_lost:
  assumes "mb_ok (me_tables env)" and "plain_ids env" and "mb_handle env input = Inr plan"
    and "mb_apply (tp_changes plan) (me_tables env) = (Inr u, t')"
  shows "\<exists>new. mt_messages t' = mt_messages (me_tables env) @ new
    \<and> (\<forall>row \<in> set (mt_pending (me_tables env)). row \<in> set (mt_pending t')
        \<or> (\<exists>m \<in> set new. mr_message m = sg_message row \<and> mr_in_context m
            \<and> mr_source_event_id m = Some (sg_event_id row)))"
proof -
  from mb_handle_plan [OF assms(1-3)] obtain s w where w: "starting env s" "plan_ok env s w"
    "tp_changes plan = \<lparr>ch_state = (if w_state w \<noteq> s then Some (w_state w) else None), ch_messages = w_messages w,
        ch_pending = w_pending w, ch_promotePending = w_promotePending w\<rparr>" by blast
  from mb_apply_ok [OF w assms(4)] obtain qs where qs: "length qs = length (w_messages w)"
    "mt_messages t' = mt_messages (me_tables env) @ map2 appended_row (w_messages w) qs" by blast
  obtain rows qs' where app: "append_all (mt_messages (me_tables env)) (w_messages w) = (rows, qs')" by fastforce
  have pend: "set (mt_pending (me_tables env)) \<subseteq> set (mt_pending t')" if "\<not> w_promotePending w"
    using mb_apply_Inr [OF assms(4), of rows qs'] app that by (simp add: w(3))
  have "row \<in> set (mt_pending t') \<or> (\<exists>m \<in> set (map2 appended_row (w_messages w) qs). mr_message m = sg_message row
      \<and> mr_in_context m \<and> mr_source_event_id m = Some (sg_event_id row))"
    if "row \<in> set (mt_pending (me_tables env))" for row
    using that w(2) pend carries_rows [OF _ qs(1) that] by (cases "w_promotePending w") (auto simp: plan_ok_def promotion_ok_def)
  with qs(2) show ?thesis by blast
qed

section \<open>Cancellation\<close>

definition no_model_call :: "mb_work \<Rightarrow> bool" where
  "no_model_call w \<longleftrightarrow> (\<forall>op \<in> set (w_operations w). pn_key op \<noteq> lit ''llm'')"

definition cancelling :: "mb_work \<Rightarrow> bool" where
  "cancelling w \<longleftrightarrow> ms_cancel_requested (w_state w) \<and> no_model_call w"

lemma no_model_call_simps [simp]:
  "no_model_call (adds w ms) = no_model_call w" "no_model_call (w\<lparr>w_state := s\<rparr>) = no_model_call w"
  "no_model_call (w\<lparr>w_messages := ms\<rparr>) = no_model_call w" "no_model_call (w\<lparr>w_calls := c\<rparr>) = no_model_call w"
  "no_model_call (w\<lparr>w_status := st\<rparr>) = no_model_call w" "no_model_call (w\<lparr>w_pending := p\<rparr>) = no_model_call w"
  "no_model_call (w\<lparr>w_operations := w_operations w @ [op]\<rparr>) \<longleftrightarrow> no_model_call w \<and> pn_key op \<noteq> lit ''llm''"
  by (auto simp: no_model_call_def)

lemma bash_key: "lit ''bash:'' @ x \<noteq> lit ''llm''"
  by (simp add: lit_def)

lemma finishTurn_cancelling: "cancelling w \<Longrightarrow> wp (finishTurn env b) (\<lambda>_. no_model_call) (\<lambda>_. no_model_call) w"
  by (simp add: finishTurn_def wp_simps set_state_def set_status_def cancelling_def)

lemma advance_calls_cancelling:
  "cancelling w \<Longrightarrow> wp (advance_calls env calls) (\<lambda>_. no_model_call) (\<lambda>_. no_model_call) w"
proof (induction calls arbitrary: w)
  case Nil
  then show ?case by (simp add: finishTurn_cancelling)
next
  case (Cons call calls)
  have "wp (errorResult c m d p) (\<lambda>_. wp (bindA (set_state (\<lambda>s. s\<lparr>ms_next_tool_index := ms_next_tool_index s + 1\<rparr>))
      (\<lambda>_. advance_calls env calls)) (\<lambda>_. no_model_call) (\<lambda>_. no_model_call)) (\<lambda>_. no_model_call) w" for c m d p
    by (rule wp_call [OF errorResult_spec])
      (use Cons in \<open>auto simp: wp_simps set_state_def cancelling_def\<close>)
  then show ?case
    using Cons.prems bash_key [of "tl_callId call"]
    by (auto simp: wp_simps plan_operation_def set_state_def cancelling_def split: sum.split)
qed

lemma advanceTools_cancelling: "cancelling w \<Longrightarrow> wp (advanceTools env) (\<lambda>_. no_model_call) (\<lambda>_. no_model_call) w"
  unfolding advanceTools_def currentCalls_def
  by (auto simp: wp_simps js_error_def cancelling_def split: option.split sum.split
      intro!: advance_calls_cancelling)

lemma completeLlm_cancelling:
  assumes "cancelling w"
  shows "wp (completeLlm env outcome opId) (\<lambda>_. no_model_call) (\<lambda>_. no_model_call) w"
  using assms
  unfolding completeLlm_def Let_def set_state_def
  by (auto simp: wp_simps cancelling_def split: sum.split
      intro!: wp_call [OF append_message_spec] advanceTools_cancelling finishTurn_cancelling)

lemma completeBash_cancelling:
  assumes "cancelling w"
  shows "wp (completeBash env outcome opId) (\<lambda>_. no_model_call) (\<lambda>_. no_model_call) w"
proof -
  have skip: "wp (forA xs (\<lambda>x. errorResult (g x) (h x) (d x) None))
      (\<lambda>_. wp (throwA e) (\<lambda>_::unit. no_model_call) (\<lambda>_. no_model_call)) (\<lambda>_. no_model_call) t" if "no_model_call t" for xs e t g h d
    by (rule wp_call [OF errorResults_spec]) (use that in \<open>auto simp: wp_throwA\<close>)
  show ?thesis
    using assms
    unfolding completeBash_def currentCalls_def set_state_def
    by (auto simp: wp_simps js_error_def cancelling_def split: sum.split option.split
        intro!: wp_call [OF record_bash_outcome_spec] advanceTools_cancelling skip)
qed

text \<open>C27: A cancellation stops the run at the end of the model's turn. While it is requested no transition, whatever
  the input, plans another model call: the tool calls of the current turn still run, and then the run
  is cancelled.\<close>

theorem no_model_call_after_cancel:
  assumes ok: "mb_ok (me_tables env)" and "plain_ids env" and state: "mt_state (me_tables env) = Some s"
    and cancel: "ms_cancel_requested s" and run: "mb_handle env input = Inr plan"
  shows "\<forall>op \<in> set (tp_operations plan). pn_key op \<noteq> lit ''llm''"
proof -
  from mb_handle_Inr [OF run state] obtain w where w: "guarded (handle_event env input) (start_work s) = (Inr (), w)"
    "tp_operations plan = w_operations w" by blast
  have running: "mb_running s" using ok state cancel by (auto simp: mb_ok_def state_ok_def)
  have start: "cancelling (start_work s)" using cancel by (simp add: cancelling_def no_model_call_def)
  have "wp (handle_event env input) (\<lambda>_. no_model_call) (\<lambda>_. no_model_call) (start_work s)"
    using running cancel start
    unfolding handle_event_def handle_message_def handle_cancel_def handle_resume_def handle_completed_def
    by (auto simp: wp_simps js_error_def mb_running_def Let_def cancelling_def split: sum.split mb_phase.split
        intro!: completeLlm_cancelling completeBash_cancelling)
  then have "wp (guarded (handle_event env input)) (\<lambda>_. no_model_call) (\<lambda>_ _. True) (start_work s)"
    unfolding guarded_def wp_catchA
    by (rule wp_call) (auto simp: wp_simps fail_run_def set_state_def set_status_def split: exn.split)
  from wp_Inr [OF this w(1)] show ?thesis by (simp add: w(2) no_model_call_def)
qed

section \<open>Late completions\<close>

text \<open>The completion of an operation the harness no longer waits for changes nothing: no state, no message, no
  operation, no status.\<close>

theorem late_completion_ignored:
  assumes state: "mt_state (me_tables env) = Some s" and event: "ev_type (en_event input) = COMPLETED_EVENT"
    and read: "read_completed (en_event input) = Inr c" and late: "ms_active_operation_id s \<noteq> Some (ce_operationId c)"
  shows "mb_handle env input = Inr \<lparr>tp_changes = \<lparr>ch_state = None, ch_messages = [], ch_pending = None,
      ch_promotePending = False\<rparr>, tp_operations = [], tp_status = None\<rparr>"
proof -
  have types: "COMPLETED_EVENT \<noteq> lit ''minimal_bash.message''" "COMPLETED_EVENT \<noteq> lit ''minimal_bash.cancel''"
    "COMPLETED_EVENT \<noteq> lit ''minimal_bash.resume''" by (simp_all add: COMPLETED_EVENT_def lit_def)
  have "handle_event env input (start_work s) = (Inr (), start_work s)"
    using types event read late by (auto simp: handle_event_def handle_completed_def Let_def act_defs)
  then have "guarded (handle_event env input) (start_work s) = (Inr (), start_work s)"
    by (simp add: guarded_def catchA_def)
  with state show ?thesis by (simp add: mb_handle_def readState_def)
qed

section \<open>A concrete session\<close>

definition mb_demo_url :: url_parser where
  "mb_demo_url s = Some \<lparr>up_protocol = lit ''https:'', up_hostname = lit ''gw.example'', up_username = [], up_password = [],
     up_search = [], up_hash = [], up_pathname = lit ''/'', up_origin = lit ''https://gw.example''\<rparr>"

definition mb_demo_parse :: "jstring \<Rightarrow> json res" where
  "mb_demo_parse s = Inl (SyntaxError (lit ''Unexpected end of JSON input''))"

definition mb_demo_token :: jstring where
  "mb_demo_token = lit ''me1.0a0a0a0a-0b0b-4c0c-8d0d-0e0e0e0e0e0e.7.'' @ replicate 43 65"

definition mb_demo_config :: minimal_bash_config where
  "mb_demo_config = \<lparr>mc_modelId = lit ''gpt-5.6-sol'', mc_accountId = lit ''1a0a0a0a-0b0b-4c0c-8d0d-0e0e0e0e0e0e'',
     mc_reasoning = lit ''medium'', mc_machineId = lit ''0a0a0a0a-0b0b-4c0c-8d0d-0e0e0e0e0e0e'',
     mc_executionGatewayUrl = lit ''https://gw.example'', mc_executionToken = mb_demo_token, mc_cwd = lit ''/work''\<rparr>"

definition mb_idle_state :: mb_state where
  "mb_idle_state = \<lparr>ms_phase = Mb_idle, ms_run_id = None, ms_active_operation_id = None, ms_active_assistant_sequence = None,
     ms_next_tool_index = 0, ms_turn_count = 0, ms_cancel_requested = False, ms_last_error_json = None\<rparr>"

definition mb_demo_tables :: mb_tables where
  "mb_demo_tables = \<lparr>mt_state = Some mb_idle_state, mt_messages = [], mt_pending = []\<rparr>"

definition mb_demo_harness :: "(mb_tables, mb_changes) harness" where
  "mb_demo_harness = minimalBashHarness mb_demo_url mb_demo_parse"

definition mb_demo_start :: "(mb_tables, mb_changes) runtime" where
  "mb_demo_start = \<lparr>rt_store = \<lparr>st_session = None, st_inbox = [], st_pending = [], st_harness = minimalBashSchema\<rparr>,
     rt_session = None, rt_prepared = None\<rparr>"

definition mb_demo_info :: session_info where
  "mb_demo_info = \<lparr>sn_identity = \<lparr>si_sessionId = lit ''s1'', si_harness = MINIMAL_BASH_IDENTITY\<rparr>,
     sn_config = mb_config_json mb_demo_config, sn_createdAt = 5\<rparr>"

definition mb_demo_open :: "(mb_tables, mb_changes) runtime" where
  "mb_demo_open = \<lparr>rt_store = \<lparr>st_session = Some mb_demo_info, st_inbox = [], st_pending = [], st_harness = mb_demo_tables\<rparr>,
     rt_session = Some mb_demo_info, rt_prepared = None\<rparr>"

definition mb_demo_request :: json where
  "mb_demo_request = obj [(''session'', obj [(''sessionId'', str ''s1''),
     (''harness'', obj [(''id'', str ''minimal-bash''), (''version'', str ''v7'')])]), (''config'', mb_config_json mb_demo_config)]"

lemma mb_demo_fresh: "newRuntime mb_demo_harness None = Inr mb_demo_start"
proof -
  have "operationDefinitions (Some (JArr [definition_json LLM_OPERATION, definition_json PI_BASH_OPERATION]))
      = Inr [LLM_OPERATION, PI_BASH_OPERATION]" by code_simp
  moreover have "parseInitializeSessionRequest (Some (obj [(''session'', obj [(''sessionId'', str ''runtime''),
      (''harness'', obj [(''id'', JStr (hi_id MINIMAL_BASH_IDENTITY)), (''version'', JStr (hi_version MINIMAL_BASH_IDENTITY))])]),
      (''config'', JNull)])) =
      Inr \<lparr>is_session = \<lparr>si_sessionId = lit ''runtime'', si_harness = MINIMAL_BASH_IDENTITY\<rparr>, is_config = JNull\<rparr>" by code_simp
  ultimately show ?thesis
    by (simp add: newRuntime_def mb_demo_harness_def minimalBashHarness_def bootstrap_def findSession_def mb_demo_start_def Let_def)
qed

lemma mb_demo_initialize:
  "initialize mb_demo_harness (Some mb_demo_request) 5 mb_demo_start = (Inr (mb_demo_info, False), mb_demo_open)"
proof -
  have "parseInitializeSessionRequest (Some mb_demo_request)
      = Inr \<lparr>is_session = sn_identity mb_demo_info, is_config = mb_config_json mb_demo_config\<rparr>" by code_simp
  moreover have "parseMinimalBashConfig mb_demo_url (mb_config_json mb_demo_config) = Inr mb_demo_config" by code_simp
  ultimately show ?thesis
    using initialize_new [of "Some mb_demo_request" "\<lparr>is_session = sn_identity mb_demo_info, is_config = mb_config_json mb_demo_config\<rparr>"
        mb_demo_harness mb_demo_start "mb_config_json mb_demo_config" 5 5 mb_demo_tables]
    by (simp add: checkHarness_def mb_demo_harness_def minimalBashHarness_def mb_demo_info_def mb_demo_start_def mb_demo_open_def
        timestamp_def MAX_SAFE_INTEGER_def mb_initialize_def constraint_def guardR_def act_defs minimalBashSchema_def
        mb_demo_tables_def mb_idle_state_def)
qed

text \<open>C24: Whatever the inputs, completions, failures and restarts of a session of the minimal-bash harness, its tables
  are well-formed: the harness waits for an operation exactly while a run is in the model or tool phase,
  cancellation is requested only then, an error is recorded exactly in the failed phase, a tool phase
  has a stored assistant message whose current call exists, an idle session has no waiting steering, and
  the transcript is numbered in increasing order.\<close>

theorem minimal_bash_invariant:
  assumes "newRuntime (minimalBashHarness new_URL JSON_parse) None = Inr rt0"
    and "(rt_step sha (minimalBashHarness new_URL JSON_parse))\<^sup>*\<^sup>* rt0 rt"
    and "st_session (rt_store rt) = Some info"
  shows "mb_ok (st_harness (rt_store rt))"
  using minimal_bash.session_inv_all [OF _ assms(1) _ assms(2,3)] by simp

theorem minimal_bash_invariant_witness: "mb_ok (st_harness (rt_store mb_demo_open))"
proof (rule minimal_bash_invariant)
  show "newRuntime (minimalBashHarness mb_demo_url mb_demo_parse) None = Inr mb_demo_start"
    using mb_demo_fresh by (simp add: mb_demo_harness_def)
  show "(rt_step length_sha (minimalBashHarness mb_demo_url mb_demo_parse))\<^sup>*\<^sup>* mb_demo_start mb_demo_open"
    using step_initialize [OF mb_demo_initialize] by (auto simp: mb_demo_harness_def)
  show "st_session (rt_store mb_demo_open) = Some mb_demo_info" by (simp add: mb_demo_open_def)
qed

subsection \<open>Resuming a cancelled run with waiting steering\<close>

definition mb_demo_env :: "mb_tables \<Rightarrow> mb_env" where
  "mb_demo_env t = \<lparr>me_tables = t, me_config = mb_demo_config, me_sessionId = lit ''s1'',
     me_operationId = operationId length_sha (sn_identity mb_demo_info) 3, me_JSON_parse = mb_demo_parse\<rparr>"

definition mb_demo_message :: json where
  "mb_demo_message = obj [(''role'', str ''user''), (''content'', JArr [obj [(''type'', str ''text''), (''text'', str ''go on'')]])]"

definition mb_demo_row :: steering_row where
  "mb_demo_row = \<lparr>sg_event_id = lit ''e2'', sg_input_sequence = 2, sg_message = mb_demo_message\<rparr>"

definition mb_stopped_tables :: mb_tables where
  "mb_stopped_tables = \<lparr>mt_state = Some (mb_idle_state\<lparr>ms_phase := Mb_cancelled\<rparr>), mt_messages = [], mt_pending = [mb_demo_row]\<rparr>"

definition mb_resume :: input_envelope where
  "mb_resume = \<lparr>en_eventId = lit ''e3'', en_sequence = 3, en_receivedAt = 9,
     en_event = \<lparr>ev_type = lit ''minimal_bash.resume'', ev_payload = JObj []\<rparr>\<rparr>"

definition mb_resumed_input :: json where
  "mb_resumed_input = model_request mb_demo_config (lit ''s1'') [mb_demo_message]"

definition mb_resumed_state :: mb_state where
  "mb_resumed_state = mb_idle_state\<lparr>ms_run_id := Some (lit ''run_3''), ms_active_operation_id :=
     Some (lit ''replay-v1:3:'' @ length_sha (operation_text (sn_identity mb_demo_info) 3 (lit ''llm''))),
     ms_phase := Mb_llm, ms_turn_count := 1\<rparr>"

definition mb_resumed_plan :: "mb_changes transition_plan" where
  "mb_resumed_plan = \<lparr>tp_changes = \<lparr>ch_state = Some mb_resumed_state, ch_messages = [promoted (Some (lit ''run_3'')) mb_demo_row],
     ch_pending = None, ch_promotePending = True\<rparr>, tp_operations = [\<lparr>od_provider = od_provider LLM_OPERATION,
       od_type = od_type LLM_OPERATION, od_version = od_version LLM_OPERATION, or_input = mb_resumed_input, pn_key = lit ''llm''\<rparr>],
     tp_status = Some St_running\<rparr>"

definition mb_resumed_tables :: mb_tables where
  "mb_resumed_tables = \<lparr>mt_state = Some mb_resumed_state,
     mt_messages = [appended_row (promoted (Some (lit ''run_3'')) mb_demo_row) 1], mt_pending = []\<rparr>"

lemma mb_demo_ids: "plain_ids (mb_demo_env t)"
  by (simp add: plain_ids_def mb_demo_env_def operationId_plain)

lemma mb_stopped_ok: "mb_ok (me_tables (mb_demo_env mb_stopped_tables))"
  by (simp add: mb_ok_def mb_demo_env_def mb_stopped_tables_def mb_idle_state_def state_ok_def mb_running_def)

lemma mb_resumed_llm:
  "buildLlmInput mb_stopped_tables mb_demo_config (lit ''s1'') [mb_demo_message] = Inr mb_resumed_input"
proof -
  have "length (first_code_points 64 (lit ''s1'')) = 2" and "length (num_text (NInt 128000)) = 6" by code_simp+
  then have "text_size mb_resumed_input \<le> 30000"
    by (simp add: mb_resumed_input_def model_request_def mb_demo_config_def mb_demo_token_def mb_demo_message_def obj_def str_def
        PI_BASH_TOOL_def function_tool_def schema_object_def schema_prop_def createInstructions_def OPENAI_MODELS_def lit_def)
  with json_bytes_le [of mb_resumed_input] have "\<not> MAX_OPERATION_INPUT_BYTES < json_bytes mb_resumed_input"
    by (simp add: MAX_OPERATION_INPUT_BYTES_def)
  moreover have "\<not> is_custom mb_demo_message" by code_simp
  ultimately show ?thesis
    by (simp add: buildLlmInput_def mb_stopped_tables_def mb_resumed_input_def Let_def)
qed

lemma mb_resume_handled: "mb_handle (mb_demo_env mb_stopped_tables) mb_resume = Inr mb_resumed_plan"
proof -
  have size: "assertMessageSize [mb_demo_message, JNull, JStr (lit ''run_3''), JStr (lit ''e2''), JNull] = Inr ()" by code_simp
  have run: "lit ''run_'' @ int_text 3 = lit ''run_3''" by code_simp
  have oid: "operationId length_sha (sn_identity mb_demo_info) 3 (lit ''llm'')
      = Inr (lit ''replay-v1:3:'' @ length_sha (operation_text (sn_identity mb_demo_info) 3 (lit ''llm'')))"
  proof -
    have "int_text 3 = lit ''3''" by code_simp
    then show ?thesis by (simp add: operationId_def lit_def)
  qed
  have types: "lit ''minimal_bash.resume'' \<noteq> lit ''minimal_bash.message''" "lit ''minimal_bash.resume'' \<noteq> lit ''minimal_bash.cancel''"
    by (simp_all add: lit_def)
  show ?thesis
    unfolding mb_handle_def guarded_def handle_event_def handle_resume_def begin_run_def promoteSteering_def requestLlm_def
      plan_operation_def append_message_def set_state_def set_status_def Let_def
    using size run oid types mb_resumed_llm
    by (simp add: readState_def mb_demo_env_def mb_stopped_tables_def [unfolded mb_demo_row_def] mb_resume_def act_defs opt_text_def start_work_def
        mb_idle_state_def mb_resumed_plan_def mb_resumed_state_def promoted_def mb_demo_row_def)
qed

lemma mb_resume_applied:
  "mb_apply (tp_changes mb_resumed_plan) (me_tables (mb_demo_env mb_stopped_tables)) = (Inr (), mb_resumed_tables)"
  by (simp add: mb_apply_def mb_resumed_plan_def mb_demo_env_def mb_stopped_tables_def mb_resumed_tables_def act_defs save_state_def
      appendMessage_def next_sequence_def resolve_sequence_def mb_resumed_state_def mb_idle_state_def promoted_def appended_row_def)

theorem one_operation_per_transition_witness:
  "\<exists>oid. me_operationId (mb_demo_env mb_stopped_tables) (lit ''llm'') = Inr oid
    \<and> ms_active_operation_id mb_resumed_state = Some oid"
  using one_operation_per_transition [OF mb_stopped_ok mb_demo_ids mb_resume_handled mb_resume_applied]
  by (simp add: mb_resumed_plan_def mb_resumed_tables_def)

theorem steering_never_lost_witness:
  "mt_pending mb_resumed_tables = [] \<and> (\<exists>m \<in> set (mt_messages mb_resumed_tables). mr_message m = mb_demo_message
    \<and> mr_in_context m \<and> mr_source_event_id m = Some (lit ''e2''))"
  using steering_never_lost [OF mb_stopped_ok mb_demo_ids mb_resume_handled mb_resume_applied]
  by (simp add: mb_demo_env_def mb_stopped_tables_def mb_demo_row_def) (simp add: mb_resumed_tables_def)

theorem transcript_pages_witness:
  "length (mt_messages mb_resumed_tables) \<le> 1 \<and> mt_messages mb_resumed_tables
    = List.filter (\<lambda>r. mr_sequence r > 0) (mt_messages mb_resumed_tables)"
proof -
  have ok: "mb_ok mb_resumed_tables"
    by (simp add: mb_ok_def mb_resumed_tables_def mb_resumed_state_def mb_idle_state_def state_ok_def mb_running_def)
  have "readMinimalBashMessages mb_resumed_tables 0 1 = Inr (mt_messages mb_resumed_tables, None,
      \<lparr>mv_phase = Mb_llm, mv_runId = ms_run_id mb_resumed_state, mv_activeOperationId = ms_active_operation_id mb_resumed_state,
       mv_turnCount = 1, mv_cancelRequested = False, mv_error = JNull, mv_pendingMessageCount = 0\<rparr>)"
    by (simp add: readMinimalBashMessages_def readMinimalBashState_def readState_def mb_resumed_tables_def pageRows_def Let_def)
      (simp add: mb_resumed_state_def mb_idle_state_def)
  from transcript_pages [OF ok _ this] show ?thesis by simp
qed

subsection \<open>A run being cancelled\<close>

definition mb_cancelling_state :: mb_state where
  "mb_cancelling_state = mb_idle_state\<lparr>ms_run_id := Some (lit ''run_1''), ms_active_operation_id := Some (lit ''op-1''),
     ms_phase := Mb_llm, ms_turn_count := 1, ms_cancel_requested := True\<rparr>"

definition mb_cancelling_tables :: mb_tables where
  "mb_cancelling_tables = \<lparr>mt_state = Some mb_cancelling_state, mt_messages = [], mt_pending = []\<rparr>"

definition mb_completion :: "string \<Rightarrow> input_envelope" where
  "mb_completion oid = \<lparr>en_eventId = lit ''e4'', en_sequence = 4, en_receivedAt = 9,
     en_event = completionEvent (lit oid) (lit ''llm'') (Some (lit ''j'')) Cancelled\<rparr>"

definition mb_failed_state :: mb_state where
  "mb_failed_state = mb_cancelling_state\<lparr>ms_phase := Mb_failed, ms_active_operation_id := None, ms_active_assistant_sequence := None,
     ms_next_tool_index := 0, ms_last_error_json := Some (error_json (lit ''LLM_FAILED'') (lit ''LLM operation was cancelled upstream.'')),
     ms_cancel_requested := False\<rparr>"

lemma mb_completion_read: "read_completed (en_event (mb_completion ''op-1'')) = Inr \<lparr>ce_operationId = lit ''op-1'', ce_provider = lit ''llm'',
    ce_jobId = Some (lit ''j''), ce_outcome = Cancelled\<rparr>"
  "read_completed (en_event (mb_completion ''op-0'')) = Inr \<lparr>ce_operationId = lit ''op-0'', ce_provider = lit ''llm'',
    ce_jobId = Some (lit ''j''), ce_outcome = Cancelled\<rparr>"
  by code_simp+

lemma mb_completion_type: "ev_type (en_event (mb_completion oid)) = COMPLETED_EVENT"
  by (simp add: mb_completion_def completionEvent_def)

lemma mb_cancelling_ok: "mb_ok (me_tables (mb_demo_env mb_cancelling_tables))"
  by (simp add: mb_ok_def mb_demo_env_def mb_cancelling_tables_def mb_cancelling_state_def mb_idle_state_def state_ok_def mb_running_def)

lemma mb_cancelling_failed:
  "mb_handle (mb_demo_env mb_cancelling_tables) (mb_completion ''op-1'') = Inr \<lparr>tp_changes = \<lparr>ch_state = Some mb_failed_state,
     ch_messages = [], ch_pending = None, ch_promotePending = False\<rparr>, tp_operations = [], tp_status = Some St_failed\<rparr>"
proof -
  have types: "COMPLETED_EVENT \<noteq> lit ''minimal_bash.message''" "COMPLETED_EVENT \<noteq> lit ''minimal_bash.cancel''"
    "COMPLETED_EVENT \<noteq> lit ''minimal_bash.resume''" by (simp_all add: COMPLETED_EVENT_def lit_def)
  show ?thesis
    unfolding mb_handle_def guarded_def handle_event_def handle_completed_def completeLlm_def fail_run_def set_state_def set_status_def Let_def
    using types
    by (simp add: readState_def mb_demo_env_def mb_cancelling_tables_def mb_completion_read mb_completion_type act_defs start_work_def
        mb_cancelling_state_def mb_idle_state_def mb_failed_state_def read_response_def harness_failure_def)
qed

text \<open>The same while the first of two tool calls runs: its completion starts the second call.\<close>

definition mb_call_item :: "string \<Rightarrow> json" where
  "mb_call_item c = obj [(''type'', str ''function_call''), (''name'', str ''bash''), (''call_id'', str c),
     (''arguments'', str ''ls''), (''status'', str ''completed'')]"

definition mb_tool_state :: mb_state where
  "mb_tool_state = mb_cancelling_state\<lparr>ms_phase := Mb_bash, ms_active_assistant_sequence := Some 1\<rparr>"

definition mb_tool_tables :: mb_tables where
  "mb_tool_tables = \<lparr>mt_state = Some mb_tool_state, mt_messages = [\<lparr>mr_sequence = 1,
     mr_message = obj [(''content'', JArr [mb_call_item ''c1'', mb_call_item ''c2''])], mr_in_context = True,
     mr_run_id = Some (lit ''run_1''), mr_source_event_id = None, mr_source_operation_id = None, mr_response_metadata = None\<rparr>],
     mt_pending = []\<rparr>"

definition mb_tool_env :: mb_env where
  "mb_tool_env = (mb_demo_env mb_tool_tables)\<lparr>me_JSON_parse := (\<lambda>s. Inr (obj [(''command'', str ''ls'')]))\<rparr>"

definition mb_tool_result :: json where
  "mb_tool_result = obj [(''isError'', JBool False), (''content'', JArr [obj [(''type'', str ''text''), (''text'', str ''a'')]]),
     (''details'', JObj [])]"

definition mb_tool_completion :: input_envelope where
  "mb_tool_completion = \<lparr>en_eventId = lit ''e4'', en_sequence = 4, en_receivedAt = 9,
     en_event = completionEvent (lit ''op-1'') (lit ''bash'') (Some (lit ''j'')) (Succeeded mb_tool_result)\<rparr>"

definition mb_tool_calls :: "tool_call list" where
  "mb_tool_calls = [\<lparr>tl_callId = lit ''c1'', tl_arguments = lit ''ls''\<rparr>, \<lparr>tl_callId = lit ''c2'', tl_arguments = lit ''ls''\<rparr>]"

lemma mb_tool_calls_stored: "toolCalls (obj [(''content'', JArr [mb_call_item ''c1'', mb_call_item ''c2''])]) = Inr mb_tool_calls"
  by code_simp

lemma mb_tool_ok: "mb_ok (me_tables mb_tool_env)"
  using mb_tool_calls_stored
  by (simp add: mb_ok_def mb_tool_env_def mb_demo_env_def mb_tool_tables_def mb_tool_state_def mb_cancelling_state_def mb_idle_state_def
      state_ok_def mb_running_def stored_calls_def) (simp add: mb_tool_calls_def)

definition mb_tool_message :: json where
  "mb_tool_message = tool_result_json (lit ''c1'') (JArr [obj [(''type'', str ''text''), (''text'', str ''a'')]]) None (JObj [])"

lemma mb_tool_handled:
  "\<exists>plan request. mb_handle mb_tool_env mb_tool_completion = Inr plan \<and> tp_operations plan = [request] \<and> pn_key request = lit ''bash:c2''"
proof -
  have types: "COMPLETED_EVENT \<noteq> lit ''minimal_bash.message''" "COMPLETED_EVENT \<noteq> lit ''minimal_bash.cancel''"
    "COMPLETED_EVENT \<noteq> lit ''minimal_bash.resume''" by (simp_all add: COMPLETED_EVENT_def lit_def)
  have read: "read_completed (en_event mb_tool_completion) = Inr \<lparr>ce_operationId = lit ''op-1'', ce_provider = lit ''bash'',
    ce_jobId = Some (lit ''j''), ce_outcome = Succeeded mb_tool_result\<rparr>" by code_simp
  have ty: "ev_type (en_event mb_tool_completion) = COMPLETED_EVENT" by (simp add: mb_tool_completion_def completionEvent_def)
  have msg: "parseLlmMessage (Some mb_tool_message) = Inr mb_tool_message" by code_simp
  have size: "assertMessageSize [mb_tool_message, JNull, JStr (lit ''run_1''), JNull, JStr (lit ''op-1'')] = Inr ()" by code_simp
  have result: "read_bash_result mb_tool_result = Some (False, [obj [(''type'', str ''text''), (''text'', str ''a'')]], [])" by code_simp
  have "\<exists>r. parseBashToolInput (Some (obj [(''command'', str ''ls'')])) = Inr r \<and> (\<exists>q. parseOperationRequest (Some (JObj [(lit ''provider'', JStr (od_provider PI_BASH_OPERATION)),
       (lit ''type'', JStr (od_type PI_BASH_OPERATION)), (lit ''version'', JStr (od_version PI_BASH_OPERATION)),
       (lit ''input'', JObj (bash_fields r @ place_fields \<lparr>pl_machineId = mc_machineId mb_demo_config, pl_cwd = mc_cwd mb_demo_config\<rparr>))])) = Inr q)"
  proof -
    have "parseBashToolInput (Some (obj [(''command'', str ''ls'')])) = Inr \<lparr>bt_command = lit ''ls'', bt_timeout = None\<rparr>" by code_simp
    moreover have "\<not> (case parseOperationRequest (Some (JObj [(lit ''provider'', JStr (od_provider PI_BASH_OPERATION)),
       (lit ''type'', JStr (od_type PI_BASH_OPERATION)), (lit ''version'', JStr (od_version PI_BASH_OPERATION)),
       (lit ''input'', JObj (bash_fields \<lparr>bt_command = lit ''ls'', bt_timeout = None\<rparr> @ place_fields \<lparr>pl_machineId = mc_machineId mb_demo_config, pl_cwd = mc_cwd mb_demo_config\<rparr>))]))
       of Inl e \<Rightarrow> True | Inr q \<Rightarrow> False)" by code_simp
    ultimately show ?thesis by (auto split: sum.splits)
  qed
  then obtain r q where req: "parseBashToolInput (Some (obj [(''command'', str ''ls'')])) = Inr r"
    "parseOperationRequest (Some (JObj [(lit ''provider'', JStr (od_provider PI_BASH_OPERATION)),
       (lit ''type'', JStr (od_type PI_BASH_OPERATION)), (lit ''version'', JStr (od_version PI_BASH_OPERATION)),
       (lit ''input'', JObj (bash_fields r @ place_fields \<lparr>pl_machineId = mc_machineId mb_demo_config, pl_cwd = mc_cwd mb_demo_config\<rparr>))])) = Inr q" by blast
  have key: "lit ''bash:'' @ lit ''c2'' = lit ''bash:c2''" by (simp add: lit_def)
  have oid: "\<exists>x. operationId length_sha (sn_identity mb_demo_info) 3 (lit ''bash:c2'') = Inr x"
    by (simp add: operationId_def)
  then obtain x where x: "operationId length_sha (sn_identity mb_demo_info) 3 (lit ''bash:c2'') = Inr x" ..
  show ?thesis
    unfolding mb_handle_def guarded_def handle_event_def handle_completed_def completeBash_def currentCalls_def record_bash_outcome_def
      toolResult_def append_message_def advanceTools_def plan_operation_def set_state_def Let_def
    using types read ty msg size result mb_tool_calls_stored req key x
    by (simp add: readState_def mb_tool_env_def mb_demo_env_def mb_tool_tables_def act_defs start_work_def find_message_def opt_text_def
        mb_tool_state_def mb_cancelling_state_def mb_idle_state_def mb_tool_calls_def mb_tool_message_def [symmetric] bash_request_def plan_operation_def set_state_def)
qed

theorem no_model_call_after_cancel_witness:
  "\<exists>plan request. mb_handle mb_tool_env mb_tool_completion = Inr plan \<and> tp_operations plan = [request]
    \<and> pn_key request = lit ''bash:c2'' \<and> pn_key request \<noteq> lit ''llm''"
proof -
  obtain plan request where run: "mb_handle mb_tool_env mb_tool_completion = Inr plan" "tp_operations plan = [request]"
    "pn_key request = lit ''bash:c2''" using mb_tool_handled by blast
  have ids: "plain_ids mb_tool_env" using mb_demo_ids by (simp add: plain_ids_def mb_tool_env_def)
  have "mt_state (me_tables mb_tool_env) = Some mb_tool_state" "ms_cancel_requested mb_tool_state"
    by (simp_all add: mb_tool_env_def mb_demo_env_def mb_tool_tables_def mb_tool_state_def mb_cancelling_state_def)
  from no_model_call_after_cancel [OF mb_tool_ok ids this run(1)] run show ?thesis by auto
qed

theorem late_completion_ignored_witness:
  "mb_handle (mb_demo_env mb_cancelling_tables) (mb_completion ''op-0'') = Inr \<lparr>tp_changes = \<lparr>ch_state = None, ch_messages = [],
     ch_pending = None, ch_promotePending = False\<rparr>, tp_operations = [], tp_status = None\<rparr>"
proof (rule late_completion_ignored)
  show "mt_state (me_tables (mb_demo_env mb_cancelling_tables)) = Some mb_cancelling_state"
    by (simp add: mb_demo_env_def mb_cancelling_tables_def)
  show "ms_active_operation_id mb_cancelling_state \<noteq> Some (ce_operationId \<lparr>ce_operationId = lit ''op-0'', ce_provider = lit ''llm'',
    ce_jobId = Some (lit ''j''), ce_outcome = Cancelled\<rparr>)" by (simp add: mb_cancelling_state_def lit_def)
qed (simp_all add: mb_completion_type mb_completion_read)

end
