(* ===== verification/PiHarness.thy ===== *)
theory PiHarness
  imports MinimalBash
begin

text \<open>
  The pi-no-compaction harness, \<open>packages/harness-pi-no-compaction/src\<close>: contracts.ts, schema.ts, state.ts,
  tools.ts, llm.ts, instructions.ts and harness.ts. One model turn may call several tools; the calls of a
  turn are the rows of a batch table and run concurrently, except that file mutations run one at a time.
  \<^item> Message rows, steering rows and the planned changes of them are the records of the minimal-bash
    harness, and so are the helper functions whose text is the same in both packages.
  \<^item> The row objects of a batch are shared, in the code, between the batch and the list of changed rows.
    The model keeps the rows in \<open>pw_batch\<close> and, of the changed rows, their indices in \<open>pw_changed\<close>; the planned
    change is what the rows are at the end.
\<close>

section \<open>contracts.ts\<close>

definition PI_NO_COMPACTION_IDENTITY :: harness_identity where
  "PI_NO_COMPACTION_IDENTITY = \<lparr>hi_id = lit ''pi-no-compaction'', hi_version = lit ''v1''\<rparr>"

definition PI_OPENAI_MODELS :: "(jstring \<times> int) list" where
  "PI_OPENAI_MODELS = map (\<lambda>m. (lit m, 128000)) [''gpt-6-astra'', ''gpt-5.6-sol'', ''gpt-5.6-terra'', ''gpt-5.6-luna'']"

definition FIREWORKS_MODELS :: "(jstring \<times> int) list" where
  "FIREWORKS_MODELS = [(lit ''accounts/fireworks/models/glm-5p3-flash'', 1048576),
     (lit ''accounts/fireworks/models/kimi-k3'', 1048576), (lit ''accounts/fireworks/models/deepseek-v4p1-flash'', 393216)]"

datatype pi_provider = Openai | Fireworks

record pi_config =
  pc_provider :: pi_provider
  pc_modelId :: jstring
  pc_accountId :: jstring
  pc_reasoning :: jstring
  pc_machineId :: jstring
  pc_executionGatewayUrl :: jstring
  pc_executionToken :: jstring
  pc_cwd :: jstring
  pc_maxOutputTokens :: int

definition provider_text :: "pi_provider \<Rightarrow> jstring" where
  "provider_text p = (case p of Openai \<Rightarrow> lit ''openai'' | Fireworks \<Rightarrow> lit ''fireworks'')"

definition pi_catalog :: "pi_provider \<Rightarrow> (jstring \<times> int) list" where
  "pi_catalog p = (case p of Openai \<Rightarrow> PI_OPENAI_MODELS | Fireworks \<Rightarrow> FIREWORKS_MODELS)"

definition parse_provider :: "fields \<Rightarrow> pi_provider res" where
  "parse_provider c = (if field c ''provider'' = Some (JStr (lit ''openai'')) then Inr Openai
     else if field c ''provider'' = Some (JStr (lit ''fireworks'')) then Inr Fireworks
     else js_error ''provider must be openai or fireworks.'')"

definition pi_reasoning :: "fields \<Rightarrow> jstring res" where
  "pi_reasoning c = (case field c ''reasoning'' of
     None \<Rightarrow> Inr (lit ''medium'')
   | Some (JStr s) \<Rightarrow> if s \<in> set REASONING_LEVELS then Inr s
       else js_error ''reasoning must be low, medium, high, xhigh or max.''
   | Some _ \<Rightarrow> js_error ''reasoning must be low, medium, high, xhigh or max.'')"

definition pi_max_tokens :: "fields \<Rightarrow> pi_provider \<Rightarrow> int \<Rightarrow> int res" where
  "pi_max_tokens c provider limit =
     (let wrong = Inl (JsError (lit ''maxOutputTokens must be an integer between 1 and '' @ int_text limit @ lit ''.''));
          check = (\<lambda>n. if n < 1 \<or> n > limit then wrong else Inr n) in
      case field c ''maxOutputTokens'' of
        None \<Rightarrow> check (case provider of Openai \<Rightarrow> 128000 | Fireworks \<Rightarrow> 32768)
      | Some (JNum x) \<Rightarrow> (case safe_integer x of Some n \<Rightarrow> check n | None \<Rightarrow> wrong)
      | Some _ \<Rightarrow> wrong)"

definition parsePiNoCompactionConfig :: "url_parser \<Rightarrow> json \<Rightarrow> pi_config res" where
  "parsePiNoCompactionConfig new_URL value = rewrap INVALID_CONFIG
     (bindR (config_fields (Some value) [''provider'', ''modelId'', ''accountId'', ''reasoning'', ''machineId'',
        ''executionGatewayUrl'', ''executionToken'', ''cwd'', ''maxOutputTokens'']) (\<lambda>c.
      bindR (parse_provider c) (\<lambda>provider.
      bindR (case field c ''modelId'' of
          Some (JStr m) \<Rightarrow> (case map_of (pi_catalog provider) m of Some limit \<Rightarrow> Inr (m, limit)
            | None \<Rightarrow> js_error ''modelId must belong to the selected provider's vision-capable catalog.'')
        | _ \<Rightarrow> js_error ''modelId must belong to the selected provider's vision-capable catalog.'') (\<lambda>(modelId, limit).
      bindR (pi_reasoning c) (\<lambda>reasoning.
      bindR (parse_cwd c) (\<lambda>cwd.
      bindR (pi_max_tokens c provider limit) (\<lambda>maxOutputTokens.
      bindR (parseUuid (field c ''machineId'')) (\<lambda>machineId.
      bindR (parseExecutionToken (field c ''executionToken'')) (\<lambda>token.
      if split_on 0x2E token ! 1 \<noteq> machineId then js_error ''executionToken must belong to machineId.''
      else
        bindR (parseUuid (field c ''accountId'')) (\<lambda>accountId.
        bindR (parseExecutionGatewayUrl new_URL (field c ''executionGatewayUrl'')) (\<lambda>url.
        Inr \<lparr>pc_provider = provider, pc_modelId = modelId, pc_accountId = accountId, pc_reasoning = reasoning,
             pc_machineId = machineId, pc_executionGatewayUrl = url, pc_executionToken = token, pc_cwd = cwd,
             pc_maxOutputTokens = maxOutputTokens\<rparr>)))))))))))"

text \<open>The configuration as the JSON the runtime stores, and reading it back.\<close>

definition pi_config_json :: "pi_config \<Rightarrow> json" where
  "pi_config_json c = obj [(''provider'', JStr (provider_text (pc_provider c))), (''modelId'', JStr (pc_modelId c)),
     (''accountId'', JStr (pc_accountId c)), (''reasoning'', JStr (pc_reasoning c)),
     (''machineId'', JStr (pc_machineId c)), (''executionToken'', JStr (pc_executionToken c)),
     (''executionGatewayUrl'', JStr (pc_executionGatewayUrl c)), (''cwd'', JStr (pc_cwd c)),
     (''maxOutputTokens'', JNum (NInt (pc_maxOutputTokens c)))]"

definition pi_read_config :: "json \<Rightarrow> pi_config" where
  "pi_read_config v = \<lparr>pc_provider = (if text_field v ''provider'' = lit ''openai'' then Openai else Fireworks),
     pc_modelId = text_field v ''modelId'', pc_accountId = text_field v ''accountId'',
     pc_reasoning = text_field v ''reasoning'', pc_machineId = text_field v ''machineId'',
     pc_executionGatewayUrl = text_field v ''executionGatewayUrl'',
     pc_executionToken = text_field v ''executionToken'', pc_cwd = text_field v ''cwd'',
     pc_maxOutputTokens = (case v of JObj r \<Rightarrow> (case field r ''maxOutputTokens'' of Some (JNum (NInt n)) \<Rightarrow> n | _ \<Rightarrow> 0) | _ \<Rightarrow> 0)\<rparr>"

definition parsePiNoCompactionInput :: "event_body \<Rightarrow> event_body res" where
  "parsePiNoCompactionInput value = rewrap INVALID_INPUT
     (bindR (parseEventBody (Some (event_json value))) (\<lambda>event.
      if json_bytes (event_json event) > 1800000 then js_error ''Input exceeds the 1,800,000-byte harness input limit.''
      else if ev_type event = lit ''pi_no_compaction.message'' then
        bindR (config_fields (Some (ev_payload event)) [''message'']) (\<lambda>p.
        bindR (parseLlmMessage (field p ''message'')) (\<lambda>message.
        if \<not> nonempty_user_message message then js_error ''Expected a nonempty user message content array.''
        else Inr event))
      else if ev_type event = lit ''pi_no_compaction.cancel'' then
        bindR (config_fields (Some (ev_payload event)) [''runId'']) (\<lambda>p.
        if \<not> valid_run_id (field p ''runId'') then js_error ''runId is required.'' else Inr event)
      else if ev_type event = lit ''pi_no_compaction.resume'' then
        bindR (config_fields (Some (ev_payload event)) []) (\<lambda>_. Inr event)
      else js_error ''Unsupported Pi input.''))"

section \<open>tools.ts\<close>

datatype tool_name = Bash | Read | Edit | Write

record pi_call =
  tc_callId :: jstring
  tc_name :: tool_name
  tc_arguments :: jstring

definition TOOLS :: "json list" where
  "TOOLS = [PI_READ_TOOL, PI_BASH_TOOL, PI_EDIT_TOOL, PI_WRITE_TOOL]"

definition TOOL_OPERATIONS :: "operation_definition list" where
  "TOOL_OPERATIONS = [PI_BASH_OPERATION, PI_READ_OPERATION, PI_EDIT_OPERATION, PI_WRITE_OPERATION]"

definition tool_name_text :: "tool_name \<Rightarrow> jstring" where
  "tool_name_text n = (case n of Bash \<Rightarrow> lit ''bash'' | Read \<Rightarrow> lit ''read'' | Edit \<Rightarrow> lit ''edit'' | Write \<Rightarrow> lit ''write'')"

definition isToolName :: "json option \<Rightarrow> tool_name option" where
  "isToolName v = (if v = Some (JStr (lit ''bash'')) then Some Bash else if v = Some (JStr (lit ''read'')) then Some Read
     else if v = Some (JStr (lit ''edit'')) then Some Edit else if v = Some (JStr (lit ''write'')) then Some Write else None)"

definition isMutation :: "tool_name \<Rightarrow> bool" where
  "isMutation n \<longleftrightarrow> n = Edit \<or> n = Write"

definition tool_operation :: "tool_name \<Rightarrow> operation_definition" where
  "tool_operation n = (case n of Bash \<Rightarrow> PI_BASH_OPERATION | Read \<Rightarrow> PI_READ_OPERATION
     | Edit \<Rightarrow> PI_EDIT_OPERATION | Write \<Rightarrow> PI_WRITE_OPERATION)"

definition tool_arguments :: "tool_name \<Rightarrow> json \<Rightarrow> fields res" where
  "tool_arguments n v = (case n of
     Bash \<Rightarrow> bindR (parseBashToolInput (Some v)) (\<lambda>a. Inr (bash_fields a))
   | Read \<Rightarrow> bindR (parseReadToolInput (Some v)) (\<lambda>a. Inr (read_fields a))
   | Edit \<Rightarrow> bindR (parseEditToolInput (Some v)) (\<lambda>a. Inr (edit_fields a))
   | Write \<Rightarrow> bindR (parseWriteToolInput (Some v)) (\<lambda>a. Inr (write_fields a)))"

definition toolRequest :: "(jstring \<Rightarrow> json res) \<Rightarrow> pi_config \<Rightarrow> pi_call \<Rightarrow> operation_request res" where
  "toolRequest JSON_parse config call =
     bindR (JSON_parse (tc_arguments call)) (\<lambda>value.
     bindR (tool_arguments (tc_name call) value) (\<lambda>args.
     let op = tool_operation (tc_name call) in
     parseOperationRequest (Some (JObj [(lit ''provider'', JStr (od_provider op)), (lit ''type'', JStr (od_type op)),
       (lit ''version'', JStr (od_version op)),
       (lit ''input'', JObj (args @ place_fields \<lparr>pl_machineId = pc_machineId config, pl_cwd = pc_cwd config\<rparr>))]))))"

section \<open>instructions.ts and llm.ts\<close>

definition join_lines :: "jstring list \<Rightarrow> jstring" where
  "join_lines ls = concat (case ls of [] \<Rightarrow> [] | l # rest \<Rightarrow> l # map (\<lambda>r. [10] @ r) rest)"

definition pi_createInstructions :: "jstring \<Rightarrow> jstring" where
  "pi_createInstructions cwd = join_lines (
     map lit [''You are an expert coding assistant operating inside a coding agent harness. You help users by reading files, executing commands, editing code, and writing new files.'',
       '''',
       ''<tools>'',
       ''- read: Read file contents'',
       ''- bash: Execute bash commands (ls, grep, find, etc.)'',
       ''- edit: Make precise file edits with exact text replacement, including multiple disjoint edits in one call'',
       ''- write: Create or overwrite files'',
       ''</tools>'',
       '''',
       ''<rules>'',
       ''- Use bash for file operations like ls, rg, find.'',
       ''- Use read to examine files instead of cat or sed.'',
       ''- Use edit for precise changes (edits[].oldText must match exactly).'',
       ''- When changing multiple separate locations in one file, use one edit call with multiple entries in edits[] instead of multiple edit calls.'',
       ''- Each edits[].oldText is matched against the original file, not after earlier edits are applied. Do not emit overlapping or nested edits. Merge nearby changes into one edit.'',
       ''- Keep edits[].oldText as small as possible while still being unique in the file. Do not pad with large unchanged regions.'',
       ''- Use write only for new files or complete rewrites.'',
       ''- Each bash invocation starts in the configured working directory. Shell state does not persist between invocations.'',
       ''- Tool calls in one response may run concurrently. Put dependent reads, commands, and mutations in separate turns. Edit and write calls execute in their listed order.'',
       ''- Be concise in your responses.'',
       ''- Show file paths clearly when working with files.'',
       ''</rules>'',
       '''',
       ''<cwd>'']
     @ [cwd]
     @ map lit [''</cwd>''])"

definition native_object :: "json option \<Rightarrow> fields res" where
  "native_object v = (case v of Some (JObj r) \<Rightarrow> Inr r
     | _ \<Rightarrow> harness_failure ''INVALID_LLM_RESPONSE'' ''Malformed native assistant item.'')"

text \<open>\<open>add(id, name, args)\<close>: the call, given the identities already used.\<close>

definition add_call :: "jstring list \<Rightarrow> json option \<Rightarrow> json option \<Rightarrow> json option \<Rightarrow> pi_call res" where
  "add_call ids i name args = (case (i, isToolName name, args) of
     (Some (JStr callId), Some tool, Some (JStr a)) \<Rightarrow>
       if trim callId = [] \<or> length callId > 2048 \<or> callId \<in> set ids
       then harness_failure ''INVALID_TOOL_CALL'' ''Expected uniquely identified calls to read, bash, edit or write with JSON argument strings.''
       else Inr \<lparr>tc_callId = callId, tc_name = tool, tc_arguments = a\<rparr>
   | _ \<Rightarrow> harness_failure ''INVALID_TOOL_CALL'' ''Expected uniquely identified calls to read, bash, edit or write with JSON argument strings.'')"

fun openai_calls :: "json list \<Rightarrow> jstring list \<Rightarrow> pi_call list res" where
  "openai_calls [] ids = Inr []"
| "openai_calls (raw # items) ids =
     bindR (native_object (Some raw)) (\<lambda>item.
     if field item ''type'' = Some (JStr (lit ''function_call'')) then
       if field item ''status'' \<noteq> None \<and> field item ''status'' \<noteq> Some (JStr (lit ''completed''))
       then harness_failure ''INVALID_TOOL_CALL'' ''Incomplete function call.''
       else bindR (add_call ids (field item ''call_id'') (field item ''name'') (field item ''arguments'')) (\<lambda>call.
         bindR (openai_calls items (tc_callId call # ids)) (\<lambda>calls. Inr (call # calls)))
     else if field item ''type'' \<noteq> Some (JStr (lit ''message'')) \<and> field item ''type'' \<noteq> Some (JStr (lit ''reasoning''))
     then harness_failure ''UNSUPPORTED_LLM_ITEM'' ''Unsupported OpenAI assistant item.''
     else openai_calls items ids)"

fun fireworks_calls :: "json list \<Rightarrow> jstring list \<Rightarrow> pi_call list res" where
  "fireworks_calls [] ids = Inr []"
| "fireworks_calls (raw # items) ids =
     bindR (native_object (Some raw)) (\<lambda>call.
     bindR (native_object (field call ''function'')) (\<lambda>fn.
     if field call ''type'' \<noteq> Some (JStr (lit ''function''))
     then harness_failure ''INVALID_TOOL_CALL'' ''Unsupported Fireworks tool type.''
     else bindR (add_call ids (field call ''id'') (field fn ''name'') (field fn ''arguments'')) (\<lambda>c.
       bindR (fireworks_calls items (tc_callId c # ids)) (\<lambda>calls. Inr (c # calls)))))"

definition optional_text :: "json option \<Rightarrow> bool" where
  "optional_text v = (case v of None \<Rightarrow> True | Some JNull \<Rightarrow> True | Some (JStr s) \<Rightarrow> True | _ \<Rightarrow> False)"

definition fireworks_message :: "json list \<Rightarrow> pi_call list res" where
  "fireworks_message content =
     (if length content \<noteq> 1 then harness_failure ''INVALID_LLM_RESPONSE'' ''Expected one native Fireworks assistant message.''
      else bindR (native_object (Some (hd content))) (\<lambda>item.
        if field item ''role'' \<noteq> Some (JStr (lit ''assistant'')) \<or> \<not> optional_text (field item ''content'')
           \<or> \<not> optional_text (field item ''reasoning_content'')
        then harness_failure ''INVALID_LLM_RESPONSE'' ''Malformed Fireworks assistant message.''
        else case field item ''tool_calls'' of
          None \<Rightarrow> Inr []
        | Some JNull \<Rightarrow> Inr []
        | Some (JArr raws) \<Rightarrow> fireworks_calls raws []
        | Some _ \<Rightarrow> harness_failure ''INVALID_TOOL_CALL'' ''Malformed Fireworks tool calls.''))"

definition pi_toolCalls :: "json \<Rightarrow> pi_call list res" where
  "pi_toolCalls message =
     (if text_field message ''provider'' = lit ''openai'' then openai_calls (message_content message) []
      else if text_field message ''provider'' = lit ''fireworks'' then fireworks_message (message_content message)
      else harness_failure ''LLM_MODEL_MISMATCH'' ''Unsupported assistant provider.'')"

definition provider_options :: "pi_config \<Rightarrow> jstring \<Rightarrow> json" where
  "provider_options config sessionId = (case pc_provider config of
     Openai \<Rightarrow> obj [(''store'', JBool False),
       (''reasoning'', obj [(''effort'', JStr (pc_reasoning config)), (''summary'', str ''auto'')]),
       (''include'', JArr [str ''reasoning.encrypted_content'']),
       (''prompt_cache_key'', JStr (first_code_points 64 sessionId)),
       (''max_output_tokens'', JNum (NInt (pc_maxOutputTokens config))),
       (''tool_choice'', str ''auto''), (''parallel_tool_calls'', JBool True)]
   | Fireworks \<Rightarrow> obj [(''reasoning_effort'', JStr (pc_reasoning config)),
       (''max_tokens'', JNum (NInt (pc_maxOutputTokens config))),
       (''prompt_cache_key'', JStr (first_code_points 64 sessionId)),
       (''tool_choice'', str ''auto''), (''parallel_tool_calls'', JBool True),
       (''context_length_exceeded_behavior'', str ''error'')])"

definition pi_request :: "pi_config \<Rightarrow> jstring \<Rightarrow> json list \<Rightarrow> json" where
  "pi_request config sessionId messages = obj [(''previousJobId'', JNull), (''accountId'', JStr (pc_accountId config)),
     (''modelId'', JStr (pc_modelId config)), (''instructions'', JStr (pi_createInstructions (pc_cwd config))),
     (''messages'', JArr messages), (''tools'', JArr TOOLS), (''providerOptions'', provider_options config sessionId)]"

definition pi_buildLlmInput :: "message_row list \<Rightarrow> pi_config \<Rightarrow> jstring \<Rightarrow> json list \<Rightarrow> json res" where
  "pi_buildLlmInput rows config sessionId appended =
     bindR (transcript (sort_key mr_sequence rows) 0) (\<lambda>stored.
     if list_ex is_custom appended then js_error ''Lifecycle messages must not enter model context.''
     else let input = pi_request config sessionId (stored @ appended) in
       if json_bytes input > MAX_OPERATION_INPUT_BYTES
       then harness_failure ''OPERATION_INPUT_TOO_LARGE'' ''Conversation and request settings exceed the 8 MiB operation input limit.''
       else Inr input)"

section \<open>schema.ts and state.ts\<close>

datatype pi_phase = Pi_idle | Pi_llm | Pi_tools | Pi_cancelled | Pi_failed

record pi_state =
  ps_phase :: pi_phase
  ps_run_id :: "jstring option"
  ps_active_operation_id :: "jstring option"
  ps_active_assistant_sequence :: "int option"
  ps_next_tool_index :: nat
  ps_turn_count :: nat
  ps_cancel_requested :: bool
  ps_last_error_json :: "json option"

datatype batch_status = Queued | Active | Done

record batch_row =
  br_call_index :: nat
  br_status :: batch_status
  br_operation_id :: "jstring option"
  br_result_json :: "json option"

record pi_tables =
  pt_state :: "pi_state option"
  pt_messages :: "message_row list"
  pt_pending :: "steering_row list"
  pt_batch :: "batch_row list"

definition piNoCompactionSchema :: pi_tables where
  "piNoCompactionSchema = \<lparr>pt_state = None, pt_messages = [], pt_pending = [], pt_batch = []\<rparr>"

definition pi_readState :: "pi_tables \<Rightarrow> pi_state res" where
  "pi_readState t = (case pt_state t of Some s \<Rightarrow> Inr s | None \<Rightarrow> js_error ''Expected exactly one result.'')"

definition readBatch :: "pi_tables \<Rightarrow> batch_row list" where
  "readBatch t = sort_key br_call_index (pt_batch t)"

record pi_view =
  pv_phase :: pi_phase
  pv_runId :: "jstring option"
  pv_activeOperationId :: "jstring option"
  pv_turnCount :: nat
  pv_cancelRequested :: bool
  pv_error :: json
  pv_activeToolCount :: nat
  pv_pendingMessageCount :: nat

definition readPiNoCompactionState :: "pi_tables \<Rightarrow> pi_view res" where
  "readPiNoCompactionState t = bindR (pi_readState t) (\<lambda>s. Inr \<lparr>pv_phase = ps_phase s, pv_runId = ps_run_id s,
     pv_activeOperationId = ps_active_operation_id s, pv_turnCount = ps_turn_count s,
     pv_cancelRequested = ps_cancel_requested s,
     pv_error = (case ps_last_error_json s of None \<Rightarrow> JNull | Some e \<Rightarrow> e),
     pv_activeToolCount = length (List.filter (\<lambda>r. br_status r = Active) (pt_batch t)),
     pv_pendingMessageCount = length (pt_pending t)\<rparr>)"

definition readPiNoCompactionMessages ::
  "pi_tables \<Rightarrow> int \<Rightarrow> nat \<Rightarrow> (message_row list \<times> int option \<times> pi_view) res" where
  "readPiNoCompactionMessages t after limit =
     (let rows = take (limit + 1) (sort_key mr_sequence (List.filter (\<lambda>r. mr_sequence r > after) (pt_messages t)));
          (page, hasMore) = pageRows rows limit (\<lambda>r. json_bytes (mr_message r)
            + (case mr_response_metadata r of None \<Rightarrow> 4 | Some m \<Rightarrow> json_bytes m)) in
      bindR (readPiNoCompactionState t) (\<lambda>view.
      Inr (page, if hasMore then Some (mr_sequence (last page)) else None, view)))"

definition pi_readPendingMessages ::
  "pi_tables \<Rightarrow> int \<Rightarrow> nat \<Rightarrow> (steering_row list \<times> int option \<times> pi_view) res" where
  "pi_readPendingMessages t after limit =
     (let rows = take (limit + 1) (sort_key sg_input_sequence (List.filter (\<lambda>r. sg_input_sequence r > after) (pt_pending t)));
          (page, hasMore) = pageRows rows limit (\<lambda>r. json_bytes (sg_message r)) in
      bindR (readPiNoCompactionState t) (\<lambda>view.
      Inr (page, if hasMore then Some (sg_input_sequence (last page)) else None, view)))"

section \<open>harness.ts: planning\<close>

record pi_changes =
  pg_batch :: "batch_row list"
  pg_clearBatch :: bool
  pg_state :: "pi_state option"
  pg_messages :: "message_change list"
  pg_pending :: "steering_change option"
  pg_promotePending :: bool

record pi_env =
  pe_tables :: pi_tables
  pe_config :: pi_config
  pe_sessionId :: jstring
  pe_operationId :: "jstring \<Rightarrow> jstring res"
  pe_JSON_parse :: "jstring \<Rightarrow> json res"

record pi_work =
  pw_state :: pi_state
  pw_messages :: "message_change list"
  pw_pending :: "steering_change option"
  pw_promotePending :: bool
  pw_operations :: "planned_operation list"
  pw_status :: "harness_status option"
  pw_calls :: "pi_call list option"
  pw_batch :: "batch_row list option"
  pw_changed :: "nat list"
  pw_clearBatch :: bool

type_synonym 'a pi_act = "(pi_work, 'a) act"

definition pi_set :: "(pi_state \<Rightarrow> pi_state) \<Rightarrow> unit pi_act" where
  "pi_set f = modifyA (\<lambda>w. w\<lparr>pw_state := f (pw_state w)\<rparr>)"

definition pi_status :: "harness_status \<Rightarrow> unit pi_act" where
  "pi_status st = modifyA (\<lambda>w. w\<lparr>pw_status := Some st\<rparr>)"

definition pi_append :: "message_change \<Rightarrow> int pi_act" where
  "pi_append c =
     bindA (liftR (assertMessageSize [mg_message c, (case mg_responseMetadata c of None \<Rightarrow> JNull | Some m \<Rightarrow> m),
       opt_text (mg_runId c), opt_text (mg_eventId c), opt_text (mg_operationId c)])) (\<lambda>_.
     bindA (modifyA (\<lambda>w. w\<lparr>pw_messages := pw_messages w @ [c]\<rparr>)) (\<lambda>_.
     getA (\<lambda>w. - int (length (pw_messages w)))))"

definition pi_operation :: "pi_env \<Rightarrow> jstring \<Rightarrow> operation_definition \<Rightarrow> json \<Rightarrow> jstring pi_act" where
  "pi_operation env key op input =
     bindA (modifyA (\<lambda>w. w\<lparr>pw_operations := pw_operations w @ [\<lparr>od_provider = od_provider op, od_type = od_type op,
       od_version = od_version op, or_input = input, pn_key = key\<rparr>]\<rparr>)) (\<lambda>_.
     liftR (pe_operationId env key))"

definition pi_fail :: "jstring \<Rightarrow> jstring \<Rightarrow> unit pi_act" where
  "pi_fail code message =
     bindA (pi_status St_failed) (\<lambda>_.
     pi_set (\<lambda>s. s\<lparr>ps_phase := Pi_failed, ps_active_operation_id := None, ps_active_assistant_sequence := None,
       ps_next_tool_index := 0, ps_last_error_json := Some (error_json code message), ps_cancel_requested := False\<rparr>))"

definition pi_promoteSteering :: "pi_env \<Rightarrow> nat pi_act" where
  "pi_promoteSteering env =
     (let rows = sort_key sg_input_sequence (pt_pending (pe_tables env)) in
      bindA (getA (ps_run_id \<circ> pw_state)) (\<lambda>run.
      bindA (forA rows (\<lambda>row. bindA (pi_append \<lparr>mg_message = sg_message row, mg_runId = run, mg_inContext = True,
        mg_eventId = Some (sg_event_id row), mg_operationId = None, mg_responseMetadata = None\<rparr>) (\<lambda>_. retA ()))) (\<lambda>_.
      bindA (modifyA (\<lambda>w. w\<lparr>pw_promotePending := (pw_promotePending w \<or> length rows > 0)\<rparr>)) (\<lambda>_.
      retA (length rows)))))"

definition pi_requestLlm :: "pi_env \<Rightarrow> unit pi_act" where
  "pi_requestLlm env =
     bindA (getA (\<lambda>w. map mg_message (List.filter mg_inContext (pw_messages w)))) (\<lambda>appended.
     bindA (liftR (pi_buildLlmInput (pt_messages (pe_tables env)) (pe_config env) (pe_sessionId env) appended)) (\<lambda>input.
     bindA (pi_operation env (lit ''llm'') LLM_OPERATION input) (\<lambda>oid.
     pi_set (\<lambda>s. s\<lparr>ps_active_operation_id := Some oid, ps_phase := Pi_llm, ps_turn_count := ps_turn_count s + 1,
       ps_active_assistant_sequence := None, ps_next_tool_index := 0\<rparr>))))"

definition pi_finishTurn :: "pi_env \<Rightarrow> bool \<Rightarrow> unit pi_act" where
  "pi_finishTurn env hadTools =
     bindA (pi_set (\<lambda>s. s\<lparr>ps_active_operation_id := None, ps_active_assistant_sequence := None,
       ps_next_tool_index := 0\<rparr>)) (\<lambda>_.
     bindA (getA (ps_cancel_requested \<circ> pw_state)) (\<lambda>cancel.
     if cancel then
       bindA (pi_status St_cancelled) (\<lambda>_.
       pi_set (\<lambda>s. s\<lparr>ps_phase := Pi_cancelled, ps_cancel_requested := False\<rparr>))
     else
       bindA (pi_promoteSteering env) (\<lambda>inserted.
       if hadTools \<or> inserted > 0 then pi_requestLlm env
       else bindA (pi_set (\<lambda>s. s\<lparr>ps_phase := Pi_idle\<rparr>)) (\<lambda>_. pi_status St_idle))))"

definition pi_find_message :: "message_row list \<Rightarrow> int \<Rightarrow> json res" where
  "pi_find_message rows sequence = (case find (\<lambda>r. mr_sequence r = sequence) rows of
     Some r \<Rightarrow> Inr (mr_message r) | None \<Rightarrow> js_error ''Expected exactly one result.'')"

definition pi_currentCalls :: "pi_env \<Rightarrow> pi_call list pi_act" where
  "pi_currentCalls env =
     bindA (getA pw_calls) (\<lambda>cached. case cached of
       Some calls \<Rightarrow> retA calls
     | None \<Rightarrow>
         bindA (getA (ps_active_assistant_sequence \<circ> pw_state)) (\<lambda>active. case active of
           None \<Rightarrow> liftR (js_error ''Missing active assistant message.'')
         | Some sequence \<Rightarrow>
             bindA (liftR (pi_find_message (pt_messages (pe_tables env)) sequence)) (\<lambda>message.
             bindA (liftR (pi_toolCalls message)) (\<lambda>calls.
             bindA (modifyA (\<lambda>w. w\<lparr>pw_calls := Some calls\<rparr>)) (\<lambda>_. retA calls)))))"

definition tool_result :: "pi_call \<Rightarrow> json \<Rightarrow> json \<Rightarrow> jstring option \<Rightarrow> json" where
  "tool_result call content details error = obj [(''role'', str ''tool_result''), (''toolName'', JStr (tool_name_text (tc_name call))),
     (''toolCallId'', JStr (tc_callId call)), (''content'', content), (''details'', details),
     (''outcome'', (case error of None \<Rightarrow> obj [(''status'', str ''success'')]
       | Some m \<Rightarrow> obj [(''status'', str ''error''), (''error'', obj [(''name'', str ''ToolError''), (''message'', JStr m)])]))]"

definition pi_errorResult :: "pi_call \<Rightarrow> jstring \<Rightarrow> json \<Rightarrow> json" where
  "pi_errorResult call text0 details =
     (let text = take 16384 text0 in
      tool_result call (JArr [obj [(''type'', str ''text''), (''text'', JStr text)]]) details (Some text))"

definition pi_batch :: "pi_env \<Rightarrow> batch_row list pi_act" where
  "pi_batch env = bindA (getA pw_batch) (\<lambda>cached. case cached of
     Some rows \<Rightarrow> retA rows
   | None \<Rightarrow> bindA (modifyA (\<lambda>w. w\<lparr>pw_batch := Some (readBatch (pe_tables env))\<rparr>)) (\<lambda>_. retA (readBatch (pe_tables env))))"

definition batch_rows :: "pi_work \<Rightarrow> batch_row list" where
  "batch_rows w = (case pw_batch w of Some rows \<Rightarrow> rows | None \<Rightarrow> [])"

text \<open>Assigning to fields of the row object at a position, followed by \<open>changed(ctx, row)\<close>.\<close>

definition change_row :: "nat \<Rightarrow> (batch_row \<Rightarrow> batch_row) \<Rightarrow> unit pi_act" where
  "change_row i f = modifyA (\<lambda>w. w\<lparr>pw_batch := Some ((batch_rows w)[i := f (batch_rows w ! i)]),
     pw_changed := (let k = br_call_index (batch_rows w ! i) in
       if k \<in> set (pw_changed w) then pw_changed w else pw_changed w @ [k])\<rparr>)"

definition pi_done :: "nat \<Rightarrow> json \<Rightarrow> unit pi_act" where
  "pi_done i message =
     bindA (getA (\<lambda>w. (ps_run_id (pw_state w), br_operation_id (batch_rows w ! i)))) (\<lambda>(run, oid).
     bindA (liftR (assertMessageSize [message, JNull, opt_text run, JNull, opt_text oid])) (\<lambda>_.
     change_row i (\<lambda>r. r\<lparr>br_status := Done, br_result_json := Some message\<rparr>)))"

definition call_at :: "pi_call list \<Rightarrow> nat \<Rightarrow> pi_call res" where
  "call_at calls i = (if i < length calls then Inr (calls ! i) else js_error ''TypeError'')"

fun mutation_busy :: "pi_call list \<Rightarrow> batch_row list \<Rightarrow> bool res" where
  "mutation_busy calls [] = Inr False"
| "mutation_busy calls (r # rs) =
     (if br_status r = Active
      then bindR (call_at calls (br_call_index r)) (\<lambda>call. if isMutation (tc_name call) then Inr True else mutation_busy calls rs)
      else mutation_busy calls rs)"

text \<open>The first loop of \<open>advanceTools\<close>, over the positions of the batch.\<close>

fun dispatch :: "pi_env \<Rightarrow> pi_call list \<Rightarrow> nat list \<Rightarrow> bool \<Rightarrow> unit pi_act" where
  "dispatch env calls [] busy = retA ()"
| "dispatch env calls (i # is) busy =
     bindA (getA (\<lambda>w. batch_rows w ! i)) (\<lambda>row.
     if br_status row \<noteq> Queued then dispatch env calls is busy
     else bindA (liftR (call_at calls (br_call_index row))) (\<lambda>call.
     bindA (getA (ps_last_error_json \<circ> pw_state)) (\<lambda>err.
     if err \<noteq> None then
       bindA (pi_done i (pi_errorResult call (lit ''Not executed: a tool operation could not be safely completed.'')
         (obj [(''executed'', JBool False)]))) (\<lambda>_. dispatch env calls is busy)
     else if isMutation (tc_name call) \<and> busy then dispatch env calls is busy
     else case toolRequest (pe_JSON_parse env) (pe_config env) call of
       Inl e \<Rightarrow>
         if \<not> argument_error e then throwA e
         else bindA (pi_done i (pi_errorResult call (lit ''Invalid '' @ tool_name_text (tc_name call) @ lit '' arguments: '' @ exn_message e)
             (obj [(''executed'', JBool False)]))) (\<lambda>_. dispatch env calls is busy)
     | Inr request \<Rightarrow>
         bindA (pi_operation env (lit ''tool:'' @ int_text (int (br_call_index row))) (operation_definition.truncate request)
           (or_input request)) (\<lambda>oid.
         bindA (change_row i (\<lambda>r. r\<lparr>br_operation_id := Some oid, br_status := Active\<rparr>)) (\<lambda>_.
         dispatch env calls is (busy \<or> isMutation (tc_name call)))))))"

text \<open>The second loop: flush the done results that come next in call order.\<close>

fun flush_results :: "nat list \<Rightarrow> unit pi_act" where
  "flush_results [] = retA ()"
| "flush_results (i # is) =
     bindA (getA (\<lambda>w. (batch_rows w ! i, ps_run_id (pw_state w)))) (\<lambda>(row, run).
     if br_status row \<noteq> Done then retA ()
     else case br_result_json row of
       None \<Rightarrow> liftR (js_error ''Missing unflushed tool result.'')
     | Some message \<Rightarrow>
         bindA (pi_append \<lparr>mg_message = message, mg_runId = run, mg_inContext = True, mg_eventId = None,
           mg_operationId = br_operation_id row, mg_responseMetadata = None\<rparr>) (\<lambda>_.
         bindA (change_row i (\<lambda>r. r\<lparr>br_result_json := None\<rparr>)) (\<lambda>_.
         bindA (pi_set (\<lambda>s. s\<lparr>ps_next_tool_index := ps_next_tool_index s + 1\<rparr>)) (\<lambda>_.
         flush_results is))))"

definition settle_batch :: "pi_env \<Rightarrow> nat \<Rightarrow> unit pi_act" where
  "settle_batch env n =
     bindA (getA pw_state) (\<lambda>s.
     if ps_next_tool_index s \<noteq> n then retA ()
     else
       bindA (modifyA (\<lambda>w. w\<lparr>pw_clearBatch := True, pw_changed := []\<rparr>)) (\<lambda>_.
       case ps_last_error_json s of
         Some e \<Rightarrow> pi_fail (text_field e ''code'') (text_field e ''message'')
       | None \<Rightarrow> pi_finishTurn env True))"

definition pi_advanceTools :: "pi_env \<Rightarrow> unit pi_act" where
  "pi_advanceTools env =
     bindA (pi_currentCalls env) (\<lambda>calls.
     bindA (pi_batch env) (\<lambda>rows.
     bindA (liftR (mutation_busy calls rows)) (\<lambda>busy.
     bindA (dispatch env calls [0..<length rows] busy) (\<lambda>_.
     bindA (getA (ps_next_tool_index \<circ> pw_state)) (\<lambda>k.
     bindA (flush_results [k..<length rows]) (\<lambda>_.
     settle_batch env (length rows)))))))"

definition pi_check_response :: "pi_config \<Rightarrow> fields \<Rightarrow> pi_call list res" where
  "pi_check_response config response =
     (let message = (case field response ''message'' of Some m \<Rightarrow> m | None \<Rightarrow> JNull);
          stop = text_field (JObj response) ''stopReason'' in
      if text_field message ''provider'' \<noteq> provider_text (pc_provider config)
         \<or> text_field (JObj response) ''modelId'' \<noteq> pc_modelId config
      then harness_failure ''LLM_MODEL_MISMATCH'' ''Response does not match the configured provider/model.''
      else if stop \<in> set INCOMPLETE_REASONS
      then Inl (HarnessFailure (lit ''LLM_INCOMPLETE'') (lit ''Model stopped with '' @ stop
        @ lit ''; no tool calls were executed. The response is retained outside model context.''))
      else bindR (pi_toolCalls message) (\<lambda>calls.
        if (stop = lit ''tool_use'') \<noteq> (calls \<noteq> [])
        then harness_failure ''INVALID_LLM_RESPONSE'' ''Tool calls and stop reason disagree.''
        else Inr calls))"

definition queued_row :: "nat \<Rightarrow> batch_row" where
  "queued_row i = \<lparr>br_call_index = i, br_status = Queued, br_operation_id = None, br_result_json = None\<rparr>"

definition pi_completeLlm :: "pi_env \<Rightarrow> operation_outcome \<Rightarrow> jstring \<Rightarrow> unit pi_act" where
  "pi_completeLlm env outcome opId =
     bindA (liftR (read_response outcome)) (\<lambda>(job, response).
     let message = (case field response ''message'' of Some m \<Rightarrow> m | None \<Rightarrow> JNull);
         metadata = JObj (put_field (drop_field response ''message'') ''gatewayJobId'' (JStr job)) in
     bindA (getA (ps_run_id \<circ> pw_state)) (\<lambda>run.
     bindA (pi_append \<lparr>mg_message = message, mg_runId = run, mg_inContext = False, mg_eventId = None,
       mg_operationId = Some opId, mg_responseMetadata = Some metadata\<rparr>) (\<lambda>row.
     bindA (liftR (pi_check_response (pe_config env) response)) (\<lambda>calls.
     bindA (modifyA (\<lambda>w. w\<lparr>pw_messages := (pw_messages w)[nat (- row - 1) := (pw_messages w ! nat (- row - 1))\<lparr>mg_inContext := True\<rparr>],
       pw_calls := Some calls\<rparr>)) (\<lambda>_.
     bindA (pi_set (\<lambda>s. s\<lparr>ps_active_operation_id := None\<rparr>)) (\<lambda>_.
     if calls \<noteq> [] then
       bindA (pi_set (\<lambda>s. s\<lparr>ps_phase := Pi_tools, ps_active_assistant_sequence := Some row, ps_next_tool_index := 0\<rparr>)) (\<lambda>_.
       bindA (modifyA (\<lambda>w. w\<lparr>pw_batch := Some (map queued_row [0..<length calls]), pw_changed := [0..<length calls]\<rparr>)) (\<lambda>_.
       pi_advanceTools env))
     else pi_finishTurn env False))))))"

definition text_typed :: "json \<Rightarrow> bool" where
  "text_typed part = (case part of JObj p \<Rightarrow> field p ''type'' = Some (JStr (lit ''text'')) | _ \<Rightarrow> False)"

text \<open>The validated message of a tool result, and whether the execution was lost; every error in here is caught.\<close>

definition retained_result :: "pi_call \<Rightarrow> jstring option \<Rightarrow> jstring option \<Rightarrow> json \<Rightarrow> (json \<times> bool) res" where
  "retained_result call run oid result = (case result of JObj r \<Rightarrow>
     (case (field r ''isError'', field r ''content'', field r ''details'') of
        (Some (JBool isError), Some (JArr xs), Some (JObj details)) \<Rightarrow>
          if xs = [] then js_error ''Malformed tool result.''
          else if tc_name call \<noteq> Read \<and> \<not> list_all text_typed xs then js_error ''Unexpected non-text tool result.''
          else bindR (parseLlmMessage (Some (tool_result call (JArr xs) (JObj details)
              (if isError then Some (tool_name_text (tc_name call) @ lit '' failed; see tool output.'') else None)))) (\<lambda>message.
            bindR (assertMessageSize [message, JNull, opt_text run, JNull, opt_text oid]) (\<lambda>_.
            Inr (message, tc_name call = Bash \<and> field details ''reason'' = Some (JStr (lit ''lost'')))))
      | _ \<Rightarrow> js_error ''Malformed tool result.'')
   | _ \<Rightarrow> js_error ''Malformed tool result.'')"

definition INVALID_TOOL_RESULT_MESSAGE :: jstring where
  "INVALID_TOOL_RESULT_MESSAGE = lit ''Tool result could not be retained or validated. Execution may have occurred; inspect the machine before resuming.''"

text \<open>The message to keep for a completed call and the failure it means, code and message.\<close>

definition settle_outcome :: "pi_call \<Rightarrow> jstring option \<Rightarrow> jstring option \<Rightarrow> operation_outcome \<Rightarrow> json \<times> (jstring \<times> jstring) option" where
  "settle_outcome call run oid outcome =
     (let unknown = (\<lambda>code message. (pi_errorResult call message (obj [(''outcomeUnknown'', JBool True)]), Some (code, message))) in
      case outcome of
        Succeeded result \<Rightarrow> (case retained_result call run oid result of
          Inr (message, lost) \<Rightarrow> (message, if lost
            then Some (lit ''BASH_EXECUTION_UNKNOWN'', lit ''Execution outcome is unknown. Inspect the machine before resuming.'') else None)
        | Inl e \<Rightarrow> unknown (lit ''INVALID_TOOL_RESULT'') INVALID_TOOL_RESULT_MESSAGE)
      | Failed og f \<Rightarrow> unknown (of_code f) (take 16384 (of_message f))
      | Cancelled \<Rightarrow> unknown (lit ''TOOL_CANCELLED'') (lit ''Tool operation was cancelled upstream.''))"

definition active_position :: "batch_row list \<Rightarrow> jstring \<Rightarrow> nat option" where
  "active_position rows opId = find (\<lambda>i. br_operation_id (rows ! i) = Some opId \<and> br_status (rows ! i) = Active) [0..<length rows]"

definition completeTool :: "pi_env \<Rightarrow> operation_outcome \<Rightarrow> jstring \<Rightarrow> unit pi_act" where
  "completeTool env outcome opId =
     bindA (pi_batch env) (\<lambda>rows. case active_position rows opId of
       None \<Rightarrow> retA ()
     | Some i \<Rightarrow>
         bindA (pi_currentCalls env) (\<lambda>calls.
         bindA (liftR (call_at calls (br_call_index (rows ! i)))) (\<lambda>call.
         bindA (getA (ps_run_id \<circ> pw_state)) (\<lambda>run.
         let (message, failure) = settle_outcome call run (br_operation_id (rows ! i)) outcome in
         bindA (pi_done i message) (\<lambda>_.
         bindA (case failure of None \<Rightarrow> retA ()
           | Some (code, text) \<Rightarrow> pi_set (\<lambda>s. if ps_last_error_json s = None
               then s\<lparr>ps_last_error_json := Some (error_json (take 1024 code) text)\<rparr> else s)) (\<lambda>_.
         pi_advanceTools env))))))"

definition pi_begin_run :: "int \<Rightarrow> unit pi_act" where
  "pi_begin_run sequence =
     bindA (pi_status St_running) (\<lambda>_.
     pi_set (\<lambda>s. s\<lparr>ps_run_id := Some (lit ''run_'' @ int_text sequence), ps_turn_count := 0,
       ps_last_error_json := None, ps_cancel_requested := False\<rparr>))"

definition pi_handle_message :: "pi_env \<Rightarrow> input_envelope \<Rightarrow> unit pi_act" where
  "pi_handle_message env input =
     bindA (liftR (payload_field (en_event input) ''message'')) (\<lambda>message.
     bindA (getA (ps_phase \<circ> pw_state)) (\<lambda>phase.
     if phase = Pi_idle then
       bindA (pi_begin_run (en_sequence input)) (\<lambda>_.
       bindA (getA (ps_run_id \<circ> pw_state)) (\<lambda>run.
       bindA (pi_append \<lparr>mg_message = message, mg_runId = run, mg_inContext = True,
         mg_eventId = Some (en_eventId input), mg_operationId = None, mg_responseMetadata = None\<rparr>) (\<lambda>_.
       pi_requestLlm env)))
     else
       bindA (liftR (assertMessageSize [message, JStr (en_eventId input)])) (\<lambda>_.
       modifyA (\<lambda>w. w\<lparr>pw_pending := Some \<lparr>sc_eventId = en_eventId input, sc_sequence = en_sequence input,
         sc_message = message\<rparr>\<rparr>))))"

definition pi_handle_cancel :: "input_envelope \<Rightarrow> unit pi_act" where
  "pi_handle_cancel input =
     bindA (liftR (payload_field (en_event input) ''runId'')) (\<lambda>runId.
     bindA (getA pw_state) (\<lambda>s.
     whenA (runId = opt_text (ps_run_id s) \<and> ps_run_id s \<noteq> None \<and> (ps_phase s = Pi_llm \<or> ps_phase s = Pi_tools) \<and> \<not> ps_cancel_requested s)
       (bindA (pi_status St_cancelling) (\<lambda>_. pi_set (\<lambda>s. s\<lparr>ps_cancel_requested := True\<rparr>)))))"

definition pi_handle_resume :: "pi_env \<Rightarrow> input_envelope \<Rightarrow> unit pi_act" where
  "pi_handle_resume env input =
     bindA (getA (ps_phase \<circ> pw_state)) (\<lambda>phase.
     whenA (phase = Pi_cancelled \<or> phase = Pi_failed)
       (bindA (pi_begin_run (en_sequence input)) (\<lambda>_.
        bindA (pi_promoteSteering env) (\<lambda>_. pi_requestLlm env))))"

definition pi_handle_completed :: "pi_env \<Rightarrow> input_envelope \<Rightarrow> unit pi_act" where
  "pi_handle_completed env input =
     bindA (liftR (read_completed (en_event input))) (\<lambda>c.
     bindA (getA pw_state) (\<lambda>s.
     if ps_phase s = Pi_tools then completeTool env (ce_outcome c) (ce_operationId c)
     else whenA (ps_phase s = Pi_llm \<and> Some (ce_operationId c) = ps_active_operation_id s)
       (pi_completeLlm env (ce_outcome c) (ce_operationId c))))"

definition pi_handle_event :: "pi_env \<Rightarrow> input_envelope \<Rightarrow> unit pi_act" where
  "pi_handle_event env input =
     (let ty = ev_type (en_event input) in
      if ty = lit ''pi_no_compaction.message'' then pi_handle_message env input
      else if ty = lit ''pi_no_compaction.cancel'' then pi_handle_cancel input
      else if ty = lit ''pi_no_compaction.resume'' then pi_handle_resume env input
      else if ty = COMPLETED_EVENT then pi_handle_completed env input
      else retA ())"

definition pi_start :: "pi_state \<Rightarrow> pi_work" where
  "pi_start s = \<lparr>pw_state = s, pw_messages = [], pw_pending = None, pw_promotePending = False, pw_operations = [],
     pw_status = None, pw_calls = None, pw_batch = None, pw_changed = [], pw_clearBatch = False\<rparr>"

definition pi_guarded :: "unit pi_act \<Rightarrow> unit pi_act" where
  "pi_guarded m = catchA m (\<lambda>e. case e of HarnessFailure c msg \<Rightarrow> pi_fail c msg | _ \<Rightarrow> throwA e)"

definition changed_rows :: "pi_work \<Rightarrow> batch_row list" where
  "changed_rows w = List.map_filter (\<lambda>k. find (\<lambda>r. br_call_index r = k) (batch_rows w)) (pw_changed w)"

definition pi_handle :: "pi_env \<Rightarrow> input_envelope \<Rightarrow> pi_changes transition_plan res" where
  "pi_handle env input =
     bindR (pi_readState (pe_tables env)) (\<lambda>s.
     case pi_guarded (pi_handle_event env input) (pi_start s) of
       (Inl e, w) \<Rightarrow> Inl e
     | (Inr _, w) \<Rightarrow> Inr \<lparr>tp_changes = \<lparr>pg_batch = changed_rows w, pg_clearBatch = pw_clearBatch w,
         pg_state = (if pw_state w \<noteq> s then Some (pw_state w) else None),
         pg_messages = pw_messages w, pg_pending = pw_pending w, pg_promotePending = pw_promotePending w\<rparr>,
         tp_operations = pw_operations w, tp_status = pw_status w\<rparr>)"

section \<open>harness.ts: applying\<close>

definition pi_save :: "pi_tables \<Rightarrow> pi_state \<Rightarrow> pi_tables" where
  "pi_save t s = t\<lparr>pt_state := map_option (\<lambda>_. s) (pt_state t)\<rparr>"

text \<open>\<open>INSERT ... ON CONFLICT(call_index) DO UPDATE\<close>, under the unique operation IDs of the table.\<close>

definition upsert_row :: "batch_row list \<Rightarrow> batch_row \<Rightarrow> batch_row list res" where
  "upsert_row rows r =
     bindR (constraint (br_operation_id r = None
       \<or> (\<forall>x \<in> set rows. br_call_index x \<noteq> br_call_index r \<longrightarrow> br_operation_id x \<noteq> br_operation_id r))) (\<lambda>_.
     Inr (if br_call_index r \<in> br_call_index ` set rows
       then map (\<lambda>x. if br_call_index x = br_call_index r then r else x) rows else rows @ [r]))"

fun upsert_rows :: "batch_row list \<Rightarrow> batch_row list \<Rightarrow> batch_row list res" where
  "upsert_rows rows [] = Inr rows"
| "upsert_rows rows (r # rs) = bindR (upsert_row rows r) (\<lambda>rows'. upsert_rows rows' rs)"

definition pi_resolve :: "int list \<Rightarrow> pi_state \<Rightarrow> pi_state" where
  "pi_resolve sequences s = (case ps_active_assistant_sequence s of
     Some q \<Rightarrow> if q < 0 then s\<lparr>ps_active_assistant_sequence := Some (sequences ! nat (- q - 1))\<rparr> else s
   | None \<Rightarrow> s)"

definition pi_apply :: "pi_changes \<Rightarrow> (pi_tables, unit) act" where
  "pi_apply changes =
     bindA (if pg_clearBatch changes then modifyA (\<lambda>t. t\<lparr>pt_batch := []\<rparr>)
       else bindA (getA pt_batch) (\<lambda>rows. bindA (liftR (upsert_rows rows (pg_batch changes))) (\<lambda>rows'.
         modifyA (\<lambda>t. t\<lparr>pt_batch := rows'\<rparr>)))) (\<lambda>_.
     bindA (getA (\<lambda>t. append_all (pt_messages t) (pg_messages changes))) (\<lambda>(rows, sequences).
     bindA (modifyA (\<lambda>t. t\<lparr>pt_messages := rows\<rparr>)) (\<lambda>_.
     bindA (whenA (pg_promotePending changes) (modifyA (\<lambda>t. t\<lparr>pt_pending := []\<rparr>))) (\<lambda>_.
     bindA (case pg_pending changes of None \<Rightarrow> retA ()
       | Some p \<Rightarrow> bindA (getA pt_pending) (\<lambda>ps. bindA (liftR (insert_steering ps p)) (\<lambda>ps'.
           modifyA (\<lambda>t. t\<lparr>pt_pending := ps'\<rparr>)))) (\<lambda>_.
     case pg_state changes of None \<Rightarrow> retA ()
     | Some s \<Rightarrow> modifyA (\<lambda>t. pi_save t (pi_resolve sequences s)))))))"

definition pi_initialize :: "(pi_tables, unit) act" where
  "pi_initialize =
     bindA (getA pt_state) (\<lambda>s.
     bindA (liftR (constraint (s = None))) (\<lambda>_.
     modifyA (\<lambda>t. t\<lparr>pt_state := Some \<lparr>ps_phase = Pi_idle, ps_run_id = None, ps_active_operation_id = None,
       ps_active_assistant_sequence = None, ps_next_tool_index = 0, ps_turn_count = 0, ps_cancel_requested = False,
       ps_last_error_json = None\<rparr>\<rparr>)))"

text \<open>The harness as the runtime sees it.\<close>

definition piNoCompactionHarness :: "url_parser \<Rightarrow> (jstring \<Rightarrow> json res) \<Rightarrow> (pi_tables, pi_changes) harness" where
  "piNoCompactionHarness new_URL JSON_parse = \<lparr>h_identity = PI_NO_COMPACTION_IDENTITY, h_schema = piNoCompactionSchema,
     h_operations = LLM_OPERATION # TOOL_OPERATIONS,
     h_parseConfig = (\<lambda>v. bindR (parsePiNoCompactionConfig new_URL v) (\<lambda>c. Inr (pi_config_json c))),
     h_parseInput = parsePiNoCompactionInput,
     h_initialize = (\<lambda>ctx. pi_initialize),
     h_handle = (\<lambda>input ctx oid t. pi_handle \<lparr>pe_tables = t, pe_config = pi_read_config (hc_config ctx),
       pe_sessionId = si_sessionId (hc_session ctx), pe_operationId = oid, pe_JSON_parse = JSON_parse\<rparr> input),
     h_apply = (\<lambda>changes ctx. pi_apply changes)\<rparr>"

end
