(* ===== verification/PiSafety.thy ===== *)
theory PiSafety
  imports PiHarness MinimalBashSafety JsonSize
begin

text \<open>
  The invariant of the pi-no-compaction harness. \<open>pi_ok\<close> is the well-formedness of its tables: the control state, the
  batch of tool calls (\<open>batch_ok\<close>, \<open>settled\<close>), and the transcript, in which every tool call in the model's context is
  answered once, in call order, before anything else is said (\<open>open_calls\<close>). \<open>pi_plan_ok\<close> is the same of
  the work of one planned transition. The planning functions have specifications in terms of \<open>wp\<close>.
\<close>

section \<open>The transcript\<close>

text \<open>What a message is, by the columns the harness fills: an event of a user, a response of the model with the
  identities of its calls, or the result of a call.\<close>

datatype entry = UserEntry | ModelEntry "jstring list" | ResultEntry jstring

definition call_ids :: "json \<Rightarrow> jstring list" where
  "call_ids m = (case pi_toolCalls m of Inr cs \<Rightarrow> map tc_callId cs | Inl e \<Rightarrow> [])"

definition row_entry :: "message_row \<Rightarrow> entry" where
  "row_entry r = (if mr_source_event_id r \<noteq> None then UserEntry
     else if mr_response_metadata r \<noteq> None then ModelEntry (call_ids (mr_message r))
     else ResultEntry (text_field (mr_message r) ''toolCallId''))"

definition change_entry :: "message_change \<Rightarrow> entry" where
  "change_entry c = (if mg_eventId c \<noteq> None then UserEntry
     else if mg_responseMetadata c \<noteq> None then ModelEntry (call_ids (mg_message c))
     else ResultEntry (text_field (mg_message c) ''toolCallId''))"

text \<open>The calls still unanswered after a transcript; \<open>None\<close> when the transcript speaks over an unanswered call or
  answers a call out of order or twice.\<close>

fun open_calls :: "jstring list \<Rightarrow> entry list \<Rightarrow> jstring list option" where
  "open_calls us [] = Some us"
| "open_calls us (UserEntry # es) = (if us = [] then open_calls [] es else None)"
| "open_calls us (ModelEntry cs # es) = (if us = [] then open_calls cs es else None)"
| "open_calls us (ResultEntry c # es) = (case us of [] \<Rightarrow> None | u # us' \<Rightarrow> if u = c then open_calls us' es else None)"

definition context_entries :: "message_row list \<Rightarrow> entry list" where
  "context_entries rows = map row_entry (List.filter mr_in_context rows)"

definition change_entries :: "message_change list \<Rightarrow> entry list" where
  "change_entries ms = map change_entry (List.filter mg_inContext ms)"

lemma open_calls_append:
  "open_calls us (xs @ ys) = (case open_calls us xs of None \<Rightarrow> None | Some vs \<Rightarrow> open_calls vs ys)"
  by (induction us xs rule: open_calls.induct) (auto split: list.split)

lemma open_calls_users: "list_all (\<lambda>e. e = UserEntry) es \<Longrightarrow> open_calls [] es = Some []"
  by (induction es) auto

lemma open_calls_results: "open_calls (cs @ us) (map ResultEntry cs) = Some us"
  by (induction cs) auto

lemma row_entry_appended: "row_entry (appended_row c q) = change_entry c"
  by (simp add: row_entry_def change_entry_def appended_row_def)

lemma context_appended:
  "length qs = length ms \<Longrightarrow> context_entries (map2 appended_row ms qs) = change_entries ms"
proof (induction qs ms rule: list_induct2)
  case (Cons q qs m ms)
  then show ?case by (simp add: context_entries_def change_entries_def row_entry_appended)
qed (simp add: context_entries_def change_entries_def)

lemma context_entries_append: "context_entries (a @ b) = context_entries a @ context_entries b"
  by (simp add: context_entries_def)

lemma change_entries_append: "change_entries (a @ b) = change_entries a @ change_entries b"
  by (simp add: change_entries_def)

section \<open>The batch\<close>

definition mutates :: "pi_call list \<Rightarrow> nat \<Rightarrow> bool" where
  "mutates cs i \<longleftrightarrow> isMutation (tc_name (cs ! i))"

text \<open>A message that answers a call and that the transcript can store.\<close>

definition answers :: "pi_call \<Rightarrow> jstring \<Rightarrow> jstring option \<Rightarrow> json \<Rightarrow> bool" where
  "answers c run oid m \<longleftrightarrow> text_field m ''toolCallId'' = tc_callId c
     \<and> assertMessageSize [m, JNull, JStr run, JNull, opt_text oid] = Inr ()"

definition short :: "jstring option \<Rightarrow> bool" where
  "short oid \<longleftrightarrow> (case oid of None \<Rightarrow> True | Some s \<Rightarrow> length s \<le> 128)"

definition cell_ok :: "jstring \<Rightarrow> pi_call \<Rightarrow> bool \<Rightarrow> batch_row \<Rightarrow> bool" where
  "cell_ok run c flushed r \<longleftrightarrow> short (br_operation_id r) \<and> (case br_status r of
     Queued \<Rightarrow> \<not> flushed \<and> br_operation_id r = None \<and> br_result_json r = None
   | Active \<Rightarrow> \<not> flushed \<and> br_operation_id r \<noteq> None \<and> br_result_json r = None
   | Done \<Rightarrow> (if flushed then br_result_json r = None
       else \<exists>m. br_result_json r = Some m \<and> answers c run (br_operation_id r) m))"

text \<open>The mutations run one at a time, in call order: none is active while an earlier one is not done.\<close>

definition lane_ok :: "pi_call list \<Rightarrow> batch_row list \<Rightarrow> bool" where
  "lane_ok cs rows \<longleftrightarrow> (\<forall>i j. i < j \<and> j < length cs \<and> mutates cs i \<and> mutates cs j \<and> br_status (rows ! i) \<noteq> Done \<longrightarrow>
     br_status (rows ! j) \<noteq> Active)"

definition batch_ok :: "jstring \<Rightarrow> nat \<Rightarrow> pi_call list \<Rightarrow> batch_row list \<Rightarrow> bool" where
  "batch_ok run k cs rows \<longleftrightarrow> map br_call_index rows = [0..<length cs] \<and> k \<le> length cs
     \<and> (\<forall>i < length cs. cell_ok run (cs ! i) (i < k) (rows ! i)) \<and> lane_ok cs rows"

definition lane_busy :: "pi_call list \<Rightarrow> batch_row list \<Rightarrow> bool" where
  "lane_busy cs rows \<longleftrightarrow> (\<exists>j < length cs. br_status (rows ! j) = Active \<and> mutates cs j)"

definition lane_waits :: "json option \<Rightarrow> pi_call list \<Rightarrow> batch_row list \<Rightarrow> nat \<Rightarrow> bool" where
  "lane_waits err cs rows n \<longleftrightarrow> (\<forall>j < n. br_status (rows ! j) = Queued \<longrightarrow> err = None \<and> mutates cs j \<and> lane_busy cs rows)"

text \<open>A batch at rest: the next result is not there yet, and what is queued waits for the mutation under way.\<close>

definition settled :: "json option \<Rightarrow> nat \<Rightarrow> pi_call list \<Rightarrow> batch_row list \<Rightarrow> bool" where
  "settled err k cs rows \<longleftrightarrow> k < length cs \<and> br_status (rows ! k) \<noteq> Done \<and> lane_waits err cs rows (length cs)"

lemma settled_active:
  assumes "settled err k cs rows"
  shows "\<exists>j < length cs. br_status (rows ! j) = Active"
  using assms by (cases "br_status (rows ! k)") (auto simp: settled_def lane_waits_def lane_busy_def)

lemma indexed_length: "map f xs = [0..<n] \<Longrightarrow> length xs = n"
  by (metis diff_zero length_map length_upt)

lemma indexed_nth: "map f xs = [0..<n] \<Longrightarrow> i < n \<Longrightarrow> f (xs ! i) = i"
  by (metis indexed_length nth_map nth_upt add_0)

lemma batch_ok_length: "batch_ok run k cs rows \<Longrightarrow> length rows = length cs"
  unfolding batch_ok_def using indexed_length by blast

lemma batch_ok_index: "batch_ok run k cs rows \<Longrightarrow> i < length cs \<Longrightarrow> br_call_index (rows ! i) = i"
  unfolding batch_ok_def using indexed_nth by blast

lemma batch_ok_cell: "batch_ok run k cs rows \<Longrightarrow> i < length cs \<Longrightarrow> cell_ok run (cs ! i) (i < k) (rows ! i)"
  by (simp add: batch_ok_def)

text \<open>Replacing one row.\<close>

lemma batch_ok_update:
  assumes ok: "batch_ok run k cs rows" and i: "i < length cs" "br_call_index r = i"
    and cell: "cell_ok run (cs ! i) (i < k') r" and k: "k' \<le> length cs" "\<And>j. j < length cs \<Longrightarrow> j \<noteq> i \<Longrightarrow> (j < k') = (j < k)"
    and lane: "br_status r = Active \<Longrightarrow> br_status (rows ! i) \<noteq> Active \<Longrightarrow> mutates cs i \<Longrightarrow>
        \<not> lane_busy cs rows \<and> (\<forall>j < i. mutates cs j \<longrightarrow> br_status (rows ! j) = Done)"
      "br_status (rows ! i) = Done \<Longrightarrow> br_status r = Done"
  shows "batch_ok run k' cs (rows[i := r])"
proof -
  have len: "length rows = length cs" using ok by (rule batch_ok_length)
  have "map br_call_index (rows[i := r]) = map br_call_index rows"
    using i len batch_ok_index [OF ok] by (simp add: list_eq_iff_nth_eq nth_list_update)
  moreover have "lane_ok cs (rows[i := r])"
    using ok lane i len unfolding batch_ok_def lane_ok_def lane_busy_def by (auto simp: nth_list_update)
  moreover have "cell_ok run (cs ! j) (j < k') (rows[i := r] ! j)" if "j < length cs" for j
    using that cell k(2) [OF that] batch_ok_cell [OF ok that] i len by (cases "j = i") auto
  ultimately show ?thesis using ok k by (simp add: batch_ok_def)
qed

section \<open>What is planned for the batch table\<close>

definition tracked :: "batch_row list \<Rightarrow> batch_row list \<Rightarrow> nat list \<Rightarrow> bool" where
  "tracked old rows ch \<longleftrightarrow> set ch \<subseteq> {..<length rows}
     \<and> (old = [] \<and> ch = [0..<length rows]
        \<or> map br_call_index old = [0..<length rows] \<and> (\<forall>i < length rows. i \<notin> set ch \<longrightarrow> old ! i = rows ! i))"

lemma tracked_update:
  assumes "tracked old rows ch" and "i < length rows"
  shows "tracked old (rows[i := r]) (if i \<in> set ch then ch else ch @ [i])"
  using assms by (auto simp: tracked_def nth_list_update)

lemma upsert_new:
  assumes "upsert_rows (take m rows) (drop m rows) = Inr new" and "map br_call_index rows = [0..<length rows]"
  shows "new = rows"
  using assms(1)
proof (induction "length rows - m" arbitrary: m)
  case 0
  then show ?case by simp
next
  case (Suc d)
  then have m: "m < length rows" by simp
  note idx = indexed_nth [OF assms(2)]
  have "br_call_index x \<noteq> m" if "x \<in> set (take m rows)" for x
    using that m idx by (auto simp: in_set_conv_nth)
  then have "br_call_index (rows ! m) \<notin> br_call_index ` set (take m rows)"
    using idx [OF m] by auto
  moreover have "drop m rows = rows ! m # drop (Suc m) rows" using m by (simp add: Cons_nth_drop_Suc)
  ultimately have "upsert_rows (take (Suc m) rows) (drop (Suc m) rows) = Inr new"
    using Suc.prems m by (auto simp: upsert_row_def take_Suc_conv_app_nth)
  moreover have "d = length rows - Suc m" using Suc.hyps(2) by simp
  ultimately show ?case by (intro Suc.hyps(1))
qed

lemma upsert_changed:
  assumes "upsert_rows old (map ((!) rows) ch) = Inr new" and "map br_call_index old = [0..<length rows]"
    and "\<And>i. i < length rows \<Longrightarrow> br_call_index (rows ! i) = i" and "set ch \<subseteq> {..<length rows}"
    and "\<And>i. i < length rows \<Longrightarrow> i \<notin> set ch \<Longrightarrow> old ! i = rows ! i"
  shows "new = rows"
  using assms
proof (induction ch arbitrary: old)
  case Nil
  have "length old = length rows" using Nil.prems(2) by (rule indexed_length)
  with Nil show ?case by (auto intro: nth_equalityI)
next
  case (Cons k ch)
  have len: "length old = length rows" using Cons.prems(2) by (rule indexed_length)
  have k: "k < length rows" using Cons.prems(4) by simp
  note idx = indexed_nth [OF Cons.prems(2)]
  let ?old = "map (\<lambda>x. if br_call_index x = k then rows ! k else x) old"
  have "k \<in> br_call_index ` set old" using idx [OF k] k len by (metis image_eqI nth_mem)
  then have step: "upsert_rows ?old (map ((!) rows) ch) = Inr new"
    using Cons.prems(1,3) k by (auto simp: upsert_row_def)
  show ?case
  proof (rule Cons.IH [OF step _ Cons.prems(3)])
    show "map br_call_index ?old = [0..<length rows]"
      using Cons.prems(2,3) k by (auto simp: comp_def if_distrib cong: if_cong)
    show "set ch \<subseteq> {..<length rows}" using Cons.prems(4) by simp
    show "?old ! i = rows ! i" if "i < length rows" "i \<notin> set ch" for i
      using Cons.prems(5) [OF that(1)] that idx [OF that(1)] len by (cases "i = k") auto
  qed
qed

section \<open>Sizes\<close>

lemma length_nat_text: "n < 10 ^ Suc k \<Longrightarrow> length (nat_text n) \<le> Suc k"
proof (induction n arbitrary: k rule: nat_text.induct)
  case (1 n)
  show ?case
  proof (cases "n < 10")
    case True
    then show ?thesis by (subst nat_text.simps) simp
  next
    case False
    then obtain k' where k: "k = Suc k'" using "1.prems" by (cases k) auto
    have "n div 10 < 10 ^ Suc k'" using "1.prems" by (simp add: k)
    from "1.IH" [OF False this] False show ?thesis by (subst nat_text.simps) (simp add: k)
  qed
qed

lemma length_sequence_text: "1 \<le> q \<Longrightarrow> q \<le> MAX_SAFE_INTEGER \<Longrightarrow> length (int_text q) \<le> 16"
  using length_nat_text [of "nat q" 15] by (simp add: int_text_def MAX_SAFE_INTEGER_def)

definition calls_short :: "pi_call list \<Rightarrow> bool" where
  "calls_short cs \<longleftrightarrow> (\<forall>c \<in> set cs. length (tc_callId c) \<le> 2048)"

lemma add_call_short: "add_call ids i name args = Inr c \<Longrightarrow> length (tc_callId c) \<le> 2048"
  by (auto simp: add_call_def harness_failure_def split: option.splits json.splits if_splits)

lemma calls_short_simps [simp]: "calls_short []" "calls_short (c # cs) \<longleftrightarrow> length (tc_callId c) \<le> 2048 \<and> calls_short cs"
  by (simp_all add: calls_short_def)

lemma openai_calls_short: "openai_calls items ids = Inr cs \<Longrightarrow> calls_short cs"
proof (induction items arbitrary: ids cs)
  case (Cons raw items)
  then show ?case
    by (auto simp: harness_failure_def bindR_eq_Inr dest: add_call_short split: if_splits)
qed simp

lemma fireworks_calls_short: "fireworks_calls items ids = Inr cs \<Longrightarrow> calls_short cs"
proof (induction items arbitrary: ids cs)
  case (Cons raw items)
  then show ?case
    by (auto simp: harness_failure_def bindR_eq_Inr dest: add_call_short split: if_splits)
qed simp

lemma toolCalls_short: "pi_toolCalls m = Inr cs \<Longrightarrow> calls_short cs"
  by (auto simp: pi_toolCalls_def fireworks_message_def harness_failure_def bindR_eq_Inr
      dest: openai_calls_short fireworks_calls_short split: if_splits option.splits json.splits)

lemma tool_name_length: "length (tool_name_text n) \<le> 5"
  by (cases n) (simp_all add: tool_name_text_def lit_def)

lemma error_result_answers:
  assumes "length (tc_callId c) \<le> 2048" and "length run \<le> 64" and "short oid" and "text_size details \<le> 200"
  shows "answers c run oid (pi_errorResult c text details)"
proof -
  let ?m = "pi_errorResult c text details"
  have "text_size (opt_text oid) \<le> 800"
    using assms(3) by (auto simp: short_def opt_text_def lit_def split: option.splits)
  then have "text_size (JArr [?m, JNull, JStr run, JNull, opt_text oid]) \<le> 230000"
    using assms tool_name_length [of "tc_name c"]
    by (simp add: pi_errorResult_def tool_result_def obj_def str_def Let_def lit_def min_def)
  then have "json_bytes (JArr [?m, JNull, JStr run, JNull, opt_text oid]) \<le> 1900000"
    using json_bytes_le [of "JArr [?m, JNull, JStr run, JNull, opt_text oid]"] by linarith
  moreover have "text_field ?m ''toolCallId'' = tc_callId c"
    by (simp add: pi_errorResult_def tool_result_def Let_def text_field_def obj_def field_def)
  ultimately show ?thesis by (simp add: answers_def assertMessageSize_def MAX_OPERATION_OUTCOME_BYTES_def)
qed

lemma parseLlmMessage_same: "parseLlmMessage (Some w) = Inr m \<Longrightarrow> m = w"
  by (cases w) (auto simp: parseLlmMessage_def llm_message_def js_object_def bindR_eq_Inr invalid_request_def bad_def split: if_splits)

lemma retained_answers:
  assumes "retained_result c (Some run) oid result = Inr (m, lost)"
  shows "answers c run oid m"
proof -
  from assms obtain r where r: "result = JObj r" by (cases result) (simp_all add: retained_result_def js_error_def)
  obtain isError xs details where f: "field r ''isError'' = Some (JBool isError)" "field r ''content'' = Some (JArr xs)"
    "field r ''details'' = Some (JObj details)"
    using assms unfolding r retained_result_def js_error_def by (auto split: option.splits json.splits)
  let ?w = "tool_result c (JArr xs) (JObj details)
    (if isError then Some (tool_name_text (tc_name c) @ lit '' failed; see tool output.'') else None)"
  have "parseLlmMessage (Some ?w) = Inr m" and size: "assertMessageSize [m, JNull, opt_text (Some run), JNull, opt_text oid] = Inr ()"
    using assms unfolding r retained_result_def js_error_def json.case f option.case prod.case
    by (auto simp: bindR_eq_Inr split: if_splits)
  then have "m = ?w" by (intro parseLlmMessage_same)
  then have "text_field m ''toolCallId'' = tc_callId c" by (simp add: text_field_def tool_result_def obj_def field_def)
  with size show ?thesis by (simp add: answers_def opt_text_def [of "Some run"])
qed

lemma settle_outcome_answers:
  assumes "length (tc_callId c) \<le> 2048" and "length run \<le> 64" and "short oid"
  shows "answers c run oid (fst (settle_outcome c (Some run) oid outcome))"
proof -
  have "text_size (obj [(''outcomeUnknown'', JBool True)]) \<le> 200"
    by (simp add: obj_def lit_def)
  from error_result_answers [OF assms this] show ?thesis
    by (auto simp: settle_outcome_def Let_def split: operation_outcome.split sum.split dest: retained_answers)
qed

section \<open>Invariants\<close>

definition pi_running :: "pi_state \<Rightarrow> bool" where
  "pi_running s \<longleftrightarrow> ps_phase s = Pi_llm \<or> ps_phase s = Pi_tools"

definition control_ok :: "pi_state \<Rightarrow> bool" where
  "control_ok s \<longleftrightarrow>
     (ps_active_operation_id s \<noteq> None \<longleftrightarrow> ps_phase s = Pi_llm)
   \<and> (pi_running s \<longrightarrow> ps_run_id s \<noteq> None) \<and> (\<forall>run. ps_run_id s = Some run \<longrightarrow> length run \<le> 64)
   \<and> (ps_cancel_requested s \<longrightarrow> pi_running s)
   \<and> (ps_phase s = Pi_failed \<longrightarrow> ps_last_error_json s \<noteq> None)
   \<and> (ps_last_error_json s \<noteq> None \<longrightarrow> ps_phase s = Pi_failed \<or> ps_phase s = Pi_tools)
   \<and> (ps_phase s \<noteq> Pi_tools \<longrightarrow> ps_active_assistant_sequence s = None \<and> ps_next_tool_index s = 0)"

text \<open>The batch belongs to the calls of the active assistant message, and the calls not yet flushed are
  the unanswered ones of the transcript; outside the tools phase there is neither.\<close>

definition phase_ok :: "(int \<Rightarrow> pi_call list \<Rightarrow> bool) \<Rightarrow> jstring list option \<Rightarrow> batch_row list \<Rightarrow> pi_state \<Rightarrow> bool" where
  "phase_ok calls unanswered rows s \<longleftrightarrow> (if ps_phase s = Pi_tools
     then \<exists>q cs. ps_active_assistant_sequence s = Some q \<and> calls q cs
       \<and> batch_ok (the (ps_run_id s)) (ps_next_tool_index s) cs rows
       \<and> settled (ps_last_error_json s) (ps_next_tool_index s) cs rows
       \<and> unanswered = Some (map tc_callId (drop (ps_next_tool_index s) cs))
     else rows = [] \<and> unanswered = Some [])"

definition pi_stored :: "message_row list \<Rightarrow> int \<Rightarrow> pi_call list \<Rightarrow> bool" where
  "pi_stored rows q cs \<longleftrightarrow> (\<exists>r \<in> set rows. mr_sequence r = q \<and> pi_toolCalls (mr_message r) = Inr cs)"

definition pi_planned :: "message_row list \<Rightarrow> message_change list \<Rightarrow> int \<Rightarrow> pi_call list \<Rightarrow> bool" where
  "pi_planned rows msgs q cs \<longleftrightarrow> (if q < 0
     then nat (- q - 1) < length msgs \<and> pi_toolCalls (mg_message (msgs ! nat (- q - 1))) = Inr cs
     else pi_stored rows q cs)"

definition pi_ok :: "pi_tables \<Rightarrow> bool" where
  "pi_ok t \<longleftrightarrow> (\<exists>s. pt_state t = Some s \<and> control_ok s
       \<and> phase_ok (pi_stored (pt_messages t)) (open_calls [] (context_entries (pt_messages t))) (pt_batch t) s
       \<and> (ps_phase s = Pi_idle \<longrightarrow> pt_pending t = []))
     \<and> sorted_wrt (<) (0 # map mr_sequence (pt_messages t))"

definition unanswered :: "pi_env \<Rightarrow> message_change list \<Rightarrow> jstring list option" where
  "unanswered env msgs = open_calls [] (context_entries (pt_messages (pe_tables env)) @ change_entries msgs)"

fun batch_or :: "batch_row list \<Rightarrow> batch_row list option \<Rightarrow> batch_row list" where
  "batch_or old None = old"
| "batch_or old (Some rows) = rows"

fun tracked_opt :: "batch_row list \<Rightarrow> batch_row list option \<Rightarrow> nat list \<Rightarrow> bool" where
  "tracked_opt old None ch = (ch = [])"
| "tracked_opt old (Some rows) ch = (map br_call_index rows = [0..<length rows] \<and> tracked old rows ch)"

definition planned_batch :: "pi_env \<Rightarrow> pi_work \<Rightarrow> batch_row list" where
  "planned_batch env w = (if pw_clearBatch w then [] else batch_or (pt_batch (pe_tables env)) (pw_batch w))"

definition batch_tracked :: "pi_env \<Rightarrow> pi_work \<Rightarrow> bool" where
  "batch_tracked env w \<longleftrightarrow> (\<not> pw_clearBatch w \<longrightarrow> tracked_opt (pt_batch (pe_tables env)) (pw_batch w) (pw_changed w))"

lemma batch_frame [simp]:
  "planned_batch env (w\<lparr>pw_state := s\<rparr>) = planned_batch env w" "planned_batch env (w\<lparr>pw_status := st\<rparr>) = planned_batch env w"
  "planned_batch env (w\<lparr>pw_calls := c\<rparr>) = planned_batch env w" "planned_batch env (w\<lparr>pw_pending := p\<rparr>) = planned_batch env w"
  "planned_batch env (w\<lparr>pw_promotePending := b\<rparr>) = planned_batch env w" "planned_batch env (w\<lparr>pw_messages := ms\<rparr>) = planned_batch env w"
  "planned_batch env (w\<lparr>pw_operations := ops\<rparr>) = planned_batch env w"
  "batch_tracked env (w\<lparr>pw_state := s\<rparr>) = batch_tracked env w" "batch_tracked env (w\<lparr>pw_status := st\<rparr>) = batch_tracked env w"
  "batch_tracked env (w\<lparr>pw_calls := c\<rparr>) = batch_tracked env w" "batch_tracked env (w\<lparr>pw_pending := p\<rparr>) = batch_tracked env w"
  "batch_tracked env (w\<lparr>pw_promotePending := b\<rparr>) = batch_tracked env w" "batch_tracked env (w\<lparr>pw_messages := ms\<rparr>) = batch_tracked env w"
  "batch_tracked env (w\<lparr>pw_operations := ops\<rparr>) = batch_tracked env w"
  by (simp_all add: planned_batch_def batch_tracked_def)

definition pi_queue :: "pi_tables \<Rightarrow> steering_row list" where
  "pi_queue t = sort_key sg_input_sequence (pt_pending t)"

definition pi_carries :: "pi_tables \<Rightarrow> message_change list \<Rightarrow> bool" where
  "pi_carries t ms \<longleftrightarrow> (\<exists>pre run post. ms = pre @ map (promoted run) (pi_queue t) @ post)"

definition pi_promotion_ok :: "pi_env \<Rightarrow> pi_work \<Rightarrow> bool" where
  "pi_promotion_ok env w \<longleftrightarrow> (pw_promotePending w \<longrightarrow> pi_carries (pe_tables env) (pw_messages w))"

definition tool_key :: "nat \<Rightarrow> jstring" where
  "tool_key i = lit ''tool:'' @ int_text (int i)"

lemma tool_key_inject [simp]: "tool_key i = tool_key j \<longleftrightarrow> i = j"
  by (simp add: tool_key_def int_text_def)

text \<open>The rows of the stored batch whose operations are under way.\<close>

definition under_way :: "pi_env \<Rightarrow> nat \<Rightarrow> bool" where
  "under_way env i \<longleftrightarrow> i < length (pt_batch (pe_tables env)) \<and> br_status (pt_batch (pe_tables env) ! i) = Active"

text \<open>The operations planned for a batch are those of its newly active rows, each planned once. A queued row has no
  operation under way.\<close>

definition tool_ops :: "pi_env \<Rightarrow> batch_row list \<Rightarrow> planned_operation list \<Rightarrow> bool" where
  "tool_ops env rows ops \<longleftrightarrow>
     (\<forall>op \<in> set ops. \<exists>i oid. i < length rows \<and> pn_key op = tool_key i \<and> pe_operationId env (tool_key i) = Inr oid
        \<and> br_status (rows ! i) = Active \<and> br_operation_id (rows ! i) = Some oid \<and> \<not> under_way env i)
   \<and> (\<forall>i < length rows. br_status (rows ! i) = Active \<longrightarrow>
        i < length (pt_batch (pe_tables env)) \<and> pt_batch (pe_tables env) ! i = rows ! i
      \<or> (\<exists>op \<in> set ops. pn_key op = tool_key i))
   \<and> (\<forall>i < length rows. br_status (rows ! i) = Queued \<longrightarrow> \<not> under_way env i) \<and> distinct (map pn_key ops)"

lemma tool_ops_planned:
  assumes "tool_ops env rows ops" and "op \<in> set ops"
  obtains i oid where "i < length rows" and "pn_key op = tool_key i" and "pe_operationId env (tool_key i) = Inr oid"
    and "br_status (rows ! i) = Active" and "br_operation_id (rows ! i) = Some oid" and "\<not> under_way env i"
  using assms unfolding tool_ops_def by blast

definition pi_operations_ok :: "pi_env \<Rightarrow> pi_state \<Rightarrow> pi_work \<Rightarrow> bool" where
  "pi_operations_ok env s w \<longleftrightarrow> (case ps_phase (pw_state w) of
     Pi_tools \<Rightarrow> tool_ops env (planned_batch env w) (pw_operations w)
   | Pi_llm \<Rightarrow> pw_operations w = [] \<and> ps_active_operation_id (pw_state w) = ps_active_operation_id s
       \<or> (\<exists>op oid. pw_operations w = [op] \<and> pn_key op = lit ''llm'' \<and> pe_operationId env (lit ''llm'') = Inr oid
           \<and> ps_active_operation_id (pw_state w) = Some oid)
   | _ \<Rightarrow> pw_operations w = [])"

definition pi_plan_ok :: "pi_env \<Rightarrow> pi_state \<Rightarrow> pi_work \<Rightarrow> bool" where
  "pi_plan_ok env s w \<longleftrightarrow> control_ok (pw_state w)
   \<and> phase_ok (pi_planned (pt_messages (pe_tables env)) (pw_messages w)) (unanswered env (pw_messages w)) (planned_batch env w) (pw_state w)
   \<and> (ps_phase (pw_state w) = Pi_idle \<longrightarrow> pw_pending w = None \<and> (pw_promotePending w \<or> pt_pending (pe_tables env) = []))
   \<and> batch_tracked env w \<and> pi_promotion_ok env w \<and> pi_operations_ok env s w"

text \<open>What holds of the work when a run fails: no operation was planned, no batch is left and no call is unanswered.\<close>

definition quiet :: "pi_env \<Rightarrow> pi_work \<Rightarrow> bool" where
  "quiet env w \<longleftrightarrow> pw_operations w = [] \<and> pi_promotion_ok env w \<and> planned_batch env w = [] \<and> batch_tracked env w
     \<and> unanswered env (pw_messages w) = Some [] \<and> (\<forall>run. ps_run_id (pw_state w) = Some run \<longrightarrow> length run \<le> 64)"

definition pi_stopped :: "pi_env \<Rightarrow> exn \<Rightarrow> pi_work \<Rightarrow> bool" where
  "pi_stopped env e w \<longleftrightarrow> (harness_failing e \<longrightarrow> quiet env w)"

text \<open>What the harness relies on: operation identities are short, and neither they nor \<open>JSON.parse\<close> fail with a
  \<open>HarnessFailure\<close>.\<close>

definition pi_env_ok :: "pi_env \<Rightarrow> bool" where
  "pi_env_ok env \<longleftrightarrow> (\<forall>key e. pe_operationId env key = Inl e \<longrightarrow> \<not> harness_failing e)
     \<and> (\<forall>key oid. pe_operationId env key = Inr oid \<longrightarrow> length oid \<le> 128)
     \<and> (\<forall>text e. pe_JSON_parse env text = Inl e \<longrightarrow> \<not> harness_failing e)"

section \<open>Turns\<close>

definition padds :: "pi_work \<Rightarrow> message_change list \<Rightarrow> pi_work" where
  "padds w ms = w\<lparr>pw_messages := pw_messages w @ ms\<rparr>"

lemma padds_simps [simp]:
  "pw_messages (padds w ms) = pw_messages w @ ms" "pw_state (padds w ms) = pw_state w"
  "pw_operations (padds w ms) = pw_operations w" "pw_pending (padds w ms) = pw_pending w"
  "pw_promotePending (padds w ms) = pw_promotePending w" "pw_calls (padds w ms) = pw_calls w"
  "pw_batch (padds w ms) = pw_batch w" "pw_changed (padds w ms) = pw_changed w" "pw_clearBatch (padds w ms) = pw_clearBatch w"
  "padds w [] = w" "padds (padds w ms) ns = padds w (ms @ ns)"
  "planned_batch env (padds w ms) = planned_batch env w" "batch_tracked env (padds w ms) = batch_tracked env w"
  by (simp_all add: padds_def)

lemma pi_append_spec:
  "wp (pi_append c) (\<lambda>r t. r = - int (length (pw_messages w)) - 1 \<and> t = padds w [c]) (\<lambda>e t. t = w) w"
  by (simp add: pi_append_def wp_simps padds_def split: sum.split)

lemma unanswered_append:
  "unanswered env (a @ b) = (case unanswered env a of None \<Rightarrow> None | Some us \<Rightarrow> open_calls us (change_entries b))"
  by (simp add: unanswered_def change_entries_append open_calls_append split: option.split)

lemma pi_carries_append: "pi_carries t ms \<Longrightarrow> pi_carries t (ms @ ns)"
  unfolding pi_carries_def by (metis append.assoc)

lemma pi_carries_promoted: "pi_carries t (ms @ map (promoted run) (pi_queue t))"
  unfolding pi_carries_def by (metis append_Nil2)

definition users :: "message_change list \<Rightarrow> bool" where
  "users ms \<longleftrightarrow> list_all (\<lambda>c. mg_eventId c \<noteq> None) ms"

lemma users_simps [simp]:
  "users []" "users (c # ms) \<longleftrightarrow> mg_eventId c \<noteq> None \<and> users ms" "users (ms @ ns) \<longleftrightarrow> users ms \<and> users ns"
  "users (map (promoted run) rows)"
  by (auto simp: users_def list_all_iff promoted_def)

lemma unanswered_users: "users ms \<Longrightarrow> unanswered env a = Some [] \<Longrightarrow> unanswered env (a @ ms) = Some []"
  by (auto simp: unanswered_append users_def change_entries_def change_entry_def list_all_iff intro!: open_calls_users)

lemma quiet_users: "quiet env w \<Longrightarrow> users ms \<Longrightarrow> quiet env (padds w ms)"
  unfolding quiet_def pi_promotion_ok_def by (auto simp: pi_carries_append unanswered_users)

lemma pi_promoteSteering_spec:
  "wp (pi_promoteSteering env)
     (\<lambda>n t. n = length (pt_pending (pe_tables env))
       \<and> t = (padds w (map (promoted (ps_run_id (pw_state w))) (pi_queue (pe_tables env))))
           \<lparr>pw_promotePending := (pw_promotePending w \<or> pt_pending (pe_tables env) \<noteq> [])\<rparr>)
     (\<lambda>e t. \<exists>ms. users ms \<and> t = padds w ms) w"
proof -
  let ?q = "pi_queue (pe_tables env)"
  let ?p = "promoted (ps_run_id (pw_state w))"
  have loop: "wp (forA ?q (\<lambda>row. bindA (pi_append (?p row)) (\<lambda>_. retA ())))
      (\<lambda>_ t. t = padds w (map ?p ?q)) (\<lambda>e t. \<exists>ms. users ms \<and> t = padds w ms) w"
    by (rule wp_forA [where I = "\<lambda>xs t. t = padds w (map ?p xs)"])
      (auto simp: wp_simps intro!: wp_call [OF pi_append_spec] exI [of _ "map ?p xs" for xs])
  show ?thesis
    unfolding pi_promoteSteering_def Let_def
    using loop
    by (auto simp: wp_simps promoted_def pi_queue_def elim!: wp_call)
qed

definition pi_llm_state :: "jstring \<Rightarrow> pi_state \<Rightarrow> pi_state" where
  "pi_llm_state oid s = s\<lparr>ps_active_operation_id := Some oid, ps_phase := Pi_llm, ps_turn_count := ps_turn_count s + 1,
     ps_active_assistant_sequence := None, ps_next_tool_index := 0\<rparr>"

definition pi_asks :: "pi_env \<Rightarrow> pi_work \<Rightarrow> pi_work \<Rightarrow> bool" where
  "pi_asks env w t \<longleftrightarrow> (\<exists>op oid. pn_key op = lit ''llm'' \<and> pe_operationId env (lit ''llm'') = Inr oid
     \<and> t = w\<lparr>pw_operations := pw_operations w @ [op], pw_state := pi_llm_state oid (pw_state w)\<rparr>)"

lemma pi_requestLlm_spec:
  assumes "pi_env_ok env"
  shows "wp (pi_requestLlm env) (\<lambda>_. pi_asks env w) (\<lambda>e t. harness_failing e \<longrightarrow> t = w) w"
proof -
  let ?op = "\<lambda>input. \<lparr>od_provider = od_provider LLM_OPERATION, od_type = od_type LLM_OPERATION, od_version = od_version LLM_OPERATION,
    or_input = input, pn_key = lit ''llm''\<rparr>"
  have "pi_asks env w (w\<lparr>pw_operations := pw_operations w @ [?op input], pw_state := pi_llm_state oid (pw_state w)\<rparr>)"
    if "pe_operationId env (lit ''llm'') = Inr oid" for oid input
    unfolding pi_asks_def using that by (intro exI [of _ "?op input"] exI [of _ oid]) simp
  then show ?thesis
    unfolding pi_requestLlm_def pi_operation_def pi_set_def
    using assms by (auto simp: wp_simps pi_env_ok_def pi_llm_state_def split: sum.split)
qed

definition pi_open :: "pi_env \<Rightarrow> pi_work \<Rightarrow> bool" where
  "pi_open env w \<longleftrightarrow> quiet env w \<and> pw_pending w = None \<and> \<not> pw_promotePending w \<and> ps_last_error_json (pw_state w) = None
     \<and> ps_run_id (pw_state w) \<noteq> None"

lemma pi_asks_ok:
  assumes "pi_asks env w t" and "quiet env w" and "ps_last_error_json (pw_state w) = None" and "ps_run_id (pw_state w) \<noteq> None"
  shows "pi_plan_ok env s t"
  using assms
  by (auto simp: pi_asks_def pi_llm_state_def pi_plan_ok_def control_ok_def pi_running_def phase_ok_def quiet_def
      pi_promotion_ok_def pi_operations_ok_def)

lemma quiet_stopped: "quiet env w \<Longrightarrow> pi_stopped env e w"
  by (simp add: pi_stopped_def)

lemma quiet_state:
  "quiet env w \<Longrightarrow> ps_run_id (f (pw_state w)) = ps_run_id (pw_state w) \<Longrightarrow> quiet env (w\<lparr>pw_state := f (pw_state w)\<rparr>)"
  by (simp add: quiet_def pi_promotion_ok_def)

lemma quiet_flags [simp]:
  "quiet env (w\<lparr>pw_status := x\<rparr>) = quiet env w" "quiet env (w\<lparr>pw_calls := y\<rparr>) = quiet env w"
  "quiet env (w\<lparr>pw_pending := z\<rparr>) = quiet env w"
  by (simp_all add: quiet_def pi_promotion_ok_def)

lemma quiet_promoted:
  assumes "quiet env w"
  shows "quiet env ((padds w (map (promoted run) (pi_queue (pe_tables env))))\<lparr>pw_promotePending := b\<rparr>)"
  using quiet_users [OF assms, of "map (promoted run) (pi_queue (pe_tables env))"]
  by (simp add: quiet_def pi_promotion_ok_def pi_carries_promoted)

lemma pi_requestLlm_quiet:
  assumes "pi_env_ok env" and "quiet env w" and "ps_last_error_json (pw_state w) = None" and "ps_run_id (pw_state w) \<noteq> None"
  shows "wp (pi_requestLlm env) (\<lambda>_. pi_plan_ok env s) (pi_stopped env) w"
  by (rule wp_call [OF pi_requestLlm_spec [OF assms(1)]])
    (use assms pi_asks_ok in \<open>auto simp: pi_stopped_def\<close>)

lemma pi_finishTurn_spec:
  assumes ids: "pi_env_ok env" and w: "pi_open env w"
  shows "wp (pi_finishTurn env hadTools) (\<lambda>_. pi_plan_ok env s) (pi_stopped env) w"
proof -
  define w1 where "w1 = w\<lparr>pw_state := (pw_state w)\<lparr>ps_active_operation_id := None, ps_active_assistant_sequence := None,
       ps_next_tool_index := 0\<rparr>\<rparr>"
  have w1: "pi_open env w1"
    using w quiet_state [of env w "\<lambda>s. s\<lparr>ps_active_operation_id := None, ps_active_assistant_sequence := None, ps_next_tool_index := 0\<rparr>"]
    by (simp add: pi_open_def w1_def)
  let ?w2 = "(padds w1 (map (promoted (ps_run_id (pw_state w1))) (pi_queue (pe_tables env))))
           \<lparr>pw_promotePending := (pw_promotePending w1 \<or> pt_pending (pe_tables env) \<noteq> [])\<rparr>"
  have quiet2: "quiet env ?w2" using w1 quiet_promoted by (simp add: pi_open_def)
  have request: "wp (pi_requestLlm env) (\<lambda>_. pi_plan_ok env s) (pi_stopped env) ?w2"
    by (rule pi_requestLlm_quiet [OF ids quiet2]) (use w1 in \<open>auto simp: pi_open_def\<close>)
  have idle: "pi_plan_ok env s (?w2\<lparr>pw_state := (pw_state ?w2)\<lparr>ps_phase := Pi_idle\<rparr>, pw_status := Some St_idle\<rparr>)"
    if "pt_pending (pe_tables env) = []" and "\<not> ps_cancel_requested (pw_state w1)"
    using that w1 quiet2
    by (simp add: pi_plan_ok_def control_ok_def pi_running_def phase_ok_def pi_open_def quiet_def pi_promotion_ok_def pi_operations_ok_def w1_def)
  have cancelled: "pi_plan_ok env s (w1\<lparr>pw_status := Some St_cancelled,
      pw_state := (pw_state w1)\<lparr>ps_phase := Pi_cancelled, ps_cancel_requested := False\<rparr>\<rparr>)"
    using w1
    by (simp add: pi_plan_ok_def control_ok_def pi_running_def phase_ok_def pi_open_def quiet_def pi_promotion_ok_def pi_operations_ok_def w1_def)
  have stop: "pi_stopped env e (padds w1 ms)" if "users ms" for e ms
    using w1 that quiet_users by (simp add: pi_open_def quiet_stopped)
  have "wp (pi_promoteSteering env) (\<lambda>inserted. wp (if hadTools \<or> inserted > 0 then pi_requestLlm env
        else bindA (pi_set (\<lambda>s. s\<lparr>ps_phase := Pi_idle\<rparr>)) (\<lambda>_. pi_status St_idle)) (\<lambda>_. pi_plan_ok env s) (pi_stopped env))
      (pi_stopped env) w1" if "\<not> ps_cancel_requested (pw_state w1)"
    by (rule wp_call [OF pi_promoteSteering_spec])
      (use request idle that stop in \<open>auto simp: wp_simps pi_set_def pi_status_def\<close>)
  with cancelled show ?thesis
    unfolding pi_finishTurn_def by (simp add: wp_simps pi_set_def pi_status_def w1_def [symmetric])
qed

section \<open>Dispatching the calls of a batch\<close>

definition mark :: "nat list \<Rightarrow> nat \<Rightarrow> nat list" where
  "mark ch i = (if i \<in> set ch then ch else ch @ [i])"

definition with_batch :: "pi_work \<Rightarrow> batch_row list \<Rightarrow> nat list \<Rightarrow> planned_operation list \<Rightarrow> pi_work" where
  "with_batch w rows ch ops = w\<lparr>pw_batch := Some rows, pw_changed := ch, pw_operations := ops\<rparr>"

lemma with_batch_simps [simp]:
  "pw_batch (with_batch w rows ch ops) = Some rows" "pw_changed (with_batch w rows ch ops) = ch"
  "pw_operations (with_batch w rows ch ops) = ops" "pw_state (with_batch w rows ch ops) = pw_state w"
  "pw_messages (with_batch w rows ch ops) = pw_messages w" "pw_calls (with_batch w rows ch ops) = pw_calls w"
  "pw_clearBatch (with_batch w rows ch ops) = pw_clearBatch w" "pw_pending (with_batch w rows ch ops) = pw_pending w"
  "pw_promotePending (with_batch w rows ch ops) = pw_promotePending w" "batch_rows (with_batch w rows ch ops) = rows"
  "with_batch (with_batch w rows ch ops) rows' ch' ops' = with_batch w rows' ch' ops'"
  by (simp_all add: with_batch_def batch_rows_def)

lemma with_batch_id: "pw_batch w = Some rows \<Longrightarrow> with_batch w rows (pw_changed w) (pw_operations w) = w"
  by (simp add: with_batch_def)

definition dispatched ::
  "pi_env \<Rightarrow> jstring \<Rightarrow> nat \<Rightarrow> pi_call list \<Rightarrow> json option \<Rightarrow> nat \<Rightarrow> batch_row list \<Rightarrow> nat list \<Rightarrow> planned_operation list \<Rightarrow> bool" where
  "dispatched env run k cs err i rows ch ops \<longleftrightarrow> batch_ok run k cs rows \<and> lane_waits err cs rows i
     \<and> tracked (pt_batch (pe_tables env)) rows ch \<and> tool_ops env rows ops"

lemma change_row_spec:
  "wp (change_row i f) (\<lambda>_ t. t = with_batch w (rows[i := f (rows ! i)]) (mark ch (br_call_index (rows ! i))) ops)
     (\<lambda>e t. False) (with_batch w rows ch ops)"
  by (simp add: change_row_def wp_simps with_batch_def batch_rows_def mark_def Let_def)

lemma pi_done_spec:
  assumes "ps_run_id (pw_state w) = Some run" and "answers c run (br_operation_id (rows ! i)) m"
  shows "wp (pi_done i m) (\<lambda>_ t. t = with_batch w (rows[i := (rows ! i)\<lparr>br_status := Done, br_result_json := Some m\<rparr>])
      (mark ch (br_call_index (rows ! i))) ops) (\<lambda>e t. False) (with_batch w rows ch ops)"
  unfolding pi_done_def using assms
  by (auto simp: wp_simps answers_def opt_text_def [of "Some run"] intro!: wp_call [OF change_row_spec])

lemma toolRequest_plain:
  assumes "pi_env_ok env" and "toolRequest (pe_JSON_parse env) config call = Inl e"
  shows "\<not> harness_failing e"
proof -
  have args: "contract_only (tool_arguments (tc_name call) v)" for v
    unfolding tool_arguments_def by (cases "tc_name call") (auto intro!: contract_intros)
  have "(\<exists>text. pe_JSON_parse env text = Inl e) \<or> (\<exists>code m. e = ContractException code m)"
    using assms(2) args contract_only_operation'(1)
    unfolding toolRequest_def bindR_eq_Inl Let_def contract_only_def by blast
  moreover have "\<not> harness_failing e" if "pe_JSON_parse env s = Inl e" for s using assms(1) that by (simp add: pi_env_ok_def)
  moreover have "\<not> harness_failing (ContractException code m)" for code m by (simp add: harness_failing_def)
  ultimately show ?thesis by blast
qed

lemma dispatched_skip:
  assumes "dispatched env run k cs err i rows ch ops"
    and "br_status (rows ! i) = Queued \<Longrightarrow> err = None \<and> mutates cs i \<and> lane_busy cs rows"
  shows "dispatched env run k cs err (Suc i) rows ch ops"
  using assms by (auto simp: dispatched_def lane_waits_def less_Suc_eq)

lemma lane_busy_update:
  "length rows = length cs \<Longrightarrow> i < length cs \<Longrightarrow> br_status (rows ! i) \<noteq> Active \<Longrightarrow>
    lane_busy cs (rows[i := r]) \<longleftrightarrow> lane_busy cs rows \<or> br_status r = Active \<and> mutates cs i"
  by (auto simp: lane_busy_def nth_list_update)

lemma dispatched_update:
  assumes d: "dispatched env run k cs err i rows ch ops" and i: "i < length cs" and q: "br_status (rows ! i) = Queued"
    and idx: "br_call_index r = i" and cell: "cell_ok run (cs ! i) (i < k) r" and st: "br_status r \<noteq> Queued"
    and lane: "br_status r = Active \<Longrightarrow> mutates cs i \<Longrightarrow> \<not> lane_busy cs rows"
    and ops: "br_status r = Active \<Longrightarrow> \<exists>op oid. ops' = ops @ [op] \<and> pn_key op = tool_key i
        \<and> pe_operationId env (tool_key i) = Inr oid \<and> br_operation_id r = Some oid"
      "br_status r \<noteq> Active \<Longrightarrow> ops' = ops"
  shows "dispatched env run k cs err (Suc i) (rows[i := r]) (mark ch i) ops'"
proof -
  have ok: "batch_ok run k cs rows" and waits: "lane_waits err cs rows i" using d by (simp_all add: dispatched_def)
  have len: "length rows = length cs" using ok by (rule batch_ok_length)
  have before: "br_status (rows ! j) = Done" if "j < i" "mutates cs j" "\<not> lane_busy cs rows" for j
    using that waits i by (cases "br_status (rows ! j)") (auto simp: lane_waits_def lane_busy_def)
  have "batch_ok run k cs (rows[i := r])"
    by (rule batch_ok_update [OF ok i idx cell]) (use ok lane before q in \<open>auto simp: batch_ok_def\<close>)
  moreover have "lane_waits err cs (rows[i := r]) (Suc i)"
    using waits st lane_busy_update [OF len i] q len i by (auto simp: lane_waits_def less_Suc_eq nth_list_update)
  moreover have "tracked (pt_batch (pe_tables env)) (rows[i := r]) (mark ch i)"
    unfolding mark_def by (rule tracked_update) (use d i len in \<open>auto simp: dispatched_def\<close>)
  moreover have "tool_ops env (rows[i := r]) ops'"
  proof (cases "br_status r = Active")
    case True
    with ops(1) obtain op oid where op: "ops' = ops @ [op]" "pn_key op = tool_key i"
      "pe_operationId env (tool_key i) = Inr oid" "br_operation_id r = Some oid" by blast
    have old: "tool_ops env rows ops" using d by (simp add: dispatched_def)
    have idle: "\<not> under_way env i" using old q i len unfolding tool_ops_def by metis
    have fresh: "pn_key x \<noteq> tool_key i" if "x \<in> set ops" for x
      using tool_ops_planned [OF old that] q by (metis batch_status.distinct(1) tool_key_inject)
    show ?thesis
      unfolding tool_ops_def
    proof (intro conjI ballI allI impI)
      fix x
      assume "x \<in> set ops'"
      then consider "x = op" | "x \<in> set ops" using op(1) by auto
      then show "\<exists>i' oid. i' < length (rows[i := r]) \<and> pn_key x = tool_key i' \<and> pe_operationId env (tool_key i') = Inr oid
          \<and> br_status (rows[i := r] ! i') = Active \<and> br_operation_id (rows[i := r] ! i') = Some oid \<and> \<not> under_way env i'"
      proof cases
        case 1
        with op True i len idle show ?thesis by (intro exI [of _ i] exI [of _ oid]) simp
      next
        case 2
        from tool_ops_planned [OF old this] obtain i' oid' where x: "i' < length rows" "pn_key x = tool_key i'"
          "pe_operationId env (tool_key i') = Inr oid'" "br_status (rows ! i') = Active" "br_operation_id (rows ! i') = Some oid'"
          "\<not> under_way env i'" .
        with q have "i' \<noteq> i" by auto
        with x show ?thesis by (intro exI [of _ i'] exI [of _ oid']) simp
      qed
    next
      fix j
      assume "j < length (rows[i := r])" "br_status (rows[i := r] ! j) = Active"
      with old op show "j < length (pt_batch (pe_tables env)) \<and> pt_batch (pe_tables env) ! j = rows[i := r] ! j
          \<or> (\<exists>x \<in> set ops'. pn_key x = tool_key j)"
        by (cases "j = i") (auto simp: tool_ops_def)
    next
      fix j
      assume "j < length (rows[i := r])" "br_status (rows[i := r] ! j) = Queued"
      with old st i len show "\<not> under_way env j" by (cases "j = i") (auto simp: tool_ops_def)
    next
      show "distinct (map pn_key ops')" using old op fresh by (auto simp: tool_ops_def)
    qed
  next
    case False
    then have "ops' = ops" by (rule ops(2))
    with False d q i len show ?thesis
      by (auto simp: dispatched_def tool_ops_def nth_list_update) (metis batch_status.distinct(1))
  qed
  ultimately show ?thesis by (simp add: dispatched_def)
qed

lemma queued_cell: "cell_ok run c b r \<Longrightarrow> br_status r = Queued \<Longrightarrow> \<not> b \<and> br_operation_id r = None \<and> br_result_json r = None"
  by (simp add: cell_ok_def)

lemma dispatch_spec:
  assumes env: "pi_env_ok env" and run: "ps_run_id (pw_state w) = Some run" "length run \<le> 64" and short: "calls_short cs"
  shows "dispatched env run k cs (ps_last_error_json (pw_state w)) i rows ch ops \<Longrightarrow> i \<le> length cs \<Longrightarrow> busy = lane_busy cs rows \<Longrightarrow>
    wp (dispatch env cs [i..<length cs] busy)
      (\<lambda>_ t. \<exists>rows' ch' ops'. t = with_batch w rows' ch' ops'
         \<and> dispatched env run k cs (ps_last_error_json (pw_state w)) (length cs) rows' ch' ops')
      (\<lambda>e t. \<not> harness_failing e) (with_batch w rows ch ops)"
proof (induction "length cs - i" arbitrary: i rows ch ops busy)
  case 0
  then show ?case by (auto simp: wp_simps)
next
  case (Suc d)
  let ?err = "ps_last_error_json (pw_state w)" and ?r = "rows ! i" and ?c = "cs ! i"
  let ?Q = "\<lambda>_ t. \<exists>rows' ch' ops'. t = with_batch w rows' ch' ops' \<and> dispatched env run k cs ?err (length cs) rows' ch' ops'"
  let ?E = "\<lambda>e (t :: pi_work). \<not> harness_failing e"
  have i: "i < length cs" using Suc.hyps(2) by simp
  then have upt: "[i..<length cs] = i # [Suc i..<length cs]" by (simp add: upt_conv_Cons)
  have ok: "batch_ok run k cs rows" using Suc.prems(1) by (simp add: dispatched_def)
  have idx: "br_call_index ?r = i" using batch_ok_index [OF ok i] .
  have at: "call_at cs i = Inr ?c" using i by (simp add: call_at_def)
  have callId: "length (tc_callId ?c) \<le> 2048" using short i by (simp add: calls_short_def)
  have IH: "wp (dispatch env cs [Suc i..<length cs] b) ?Q ?E (with_batch w rows' ch' ops')"
    if "dispatched env run k cs ?err (Suc i) rows' ch' ops'" "b = lane_busy cs rows'" for rows' ch' ops' b
    using Suc.hyps(1) [of "Suc i" rows' ch' ops' b] Suc.hyps(2) that i by simp
  show ?case
  proof (cases "br_status ?r = Queued")
    case False
    with IH [OF dispatched_skip [OF Suc.prems(1)] Suc.prems(3)] show ?thesis unfolding upt by (simp add: wp_simps)
  next
    case True
    note cell = queued_cell [OF batch_ok_cell [OF ok i] True]
    have answer: "wp (pi_done i (pi_errorResult ?c msg (obj [(''executed'', JBool False)])))
        (\<lambda>_. wp (dispatch env cs [Suc i..<length cs] busy) ?Q ?E) ?E (with_batch w rows ch ops)" for msg
    proof -
      have "text_size (obj [(''executed'', JBool False)]) \<le> 200" by (simp add: obj_def lit_def)
      then have ans: "answers ?c run (br_operation_id ?r) (pi_errorResult ?c msg (obj [(''executed'', JBool False)]))"
        by (intro error_result_answers) (use callId run cell in \<open>auto simp: short_def\<close>)
      let ?m = "pi_errorResult ?c msg (obj [(''executed'', JBool False)])"
      let ?r' = "?r\<lparr>br_status := Done, br_result_json := Some ?m\<rparr>"
      have "dispatched env run k cs ?err (Suc i) (rows[i := ?r']) (mark ch i) ops"
        by (rule dispatched_update [OF Suc.prems(1) i True]) (use cell ans idx in \<open>auto simp: cell_ok_def short_def\<close>)
      moreover have "busy = lane_busy cs (rows[i := ?r'])"
        using lane_busy_update [OF batch_ok_length [OF ok] i] True Suc.prems(3) by simp
      ultimately have "wp (dispatch env cs [Suc i..<length cs] busy) ?Q ?E (with_batch w (rows[i := ?r']) (mark ch i) ops)"
        by (rule IH)
      then show ?thesis by (intro wp_call [OF pi_done_spec [OF run(1) ans]]) (simp_all add: idx)
    qed
    show ?thesis
    proof (cases "?err = None")
      case False
      with answer True show ?thesis unfolding upt by (simp add: wp_simps idx at)
    next
      case err: True
      show ?thesis
      proof (cases "isMutation (tc_name ?c) \<and> busy")
        case wait: True
        have "dispatched env run k cs ?err (Suc i) rows ch ops"
          by (rule dispatched_skip [OF Suc.prems(1)]) (use err wait Suc.prems(3) in \<open>auto simp: mutates_def\<close>)
        from IH [OF this Suc.prems(3)] show ?thesis unfolding upt using True err wait by (simp add: wp_simps idx at)
      next
        case free: False
        show ?thesis
        proof (cases "toolRequest (pe_JSON_parse env) (pe_config env) ?c")
          case (Inl e)
          have "\<not> harness_failing e" using toolRequest_plain [OF env Inl] .
          with answer True err free Inl show ?thesis unfolding upt by (auto simp: wp_simps idx at)
        next
          case (Inr request)
          let ?op = "\<lparr>od_provider = od_provider request, od_type = od_type request, od_version = od_version request,
            or_input = or_input request, pn_key = tool_key i\<rparr>"
          have start: "wp (dispatch env cs [Suc i..<length cs] (busy \<or> isMutation (tc_name ?c))) ?Q ?E
              (with_batch w (rows[i := ?r\<lparr>br_operation_id := Some oid, br_status := Active\<rparr>]) (mark ch i) (ops @ [?op]))"
            if oid: "pe_operationId env (tool_key i) = Inr oid" for oid
          proof (rule IH)
            have "length oid \<le> 128" using env oid by (auto simp: pi_env_ok_def)
            then show "dispatched env run k cs ?err (Suc i) (rows[i := ?r\<lparr>br_operation_id := Some oid, br_status := Active\<rparr>])
                (mark ch i) (ops @ [?op])"
              by (intro dispatched_update [OF Suc.prems(1) i True])
                (use cell idx oid free Suc.prems(3) in \<open>auto simp: cell_ok_def short_def mutates_def\<close>)
            show "(busy \<or> isMutation (tc_name ?c)) = lane_busy cs (rows[i := ?r\<lparr>br_operation_id := Some oid, br_status := Active\<rparr>])"
              using lane_busy_update [OF batch_ok_length [OF ok] i] True Suc.prems(3) by (simp add: mutates_def)
          qed
          have same: "(with_batch w rows ch ops)\<lparr>pw_operations := ops @ [x]\<rparr> = with_batch w rows ch (ops @ [x])" for x
            by (simp add: with_batch_def)
          show ?thesis
            unfolding upt using True err free Inr start env
            by (auto simp: wp_simps idx at pi_operation_def tool_key_def [symmetric] same operation_definition.truncate_def
                pi_env_ok_def split: sum.split intro!: wp_call [OF change_row_spec])
        qed
      qed
    qed
  qed
qed

section \<open>Flushing results in call order\<close>

lemma pi_append_fits:
  assumes "assertMessageSize [mg_message c, (case mg_responseMetadata c of None \<Rightarrow> JNull | Some m \<Rightarrow> m),
       opt_text (mg_runId c), opt_text (mg_eventId c), opt_text (mg_operationId c)] = Inr ()"
  shows "wp (pi_append c) (\<lambda>_ t. t = padds w [c]) (\<lambda>e t. False) w"
  using assms by (simp add: pi_append_def wp_simps padds_def)

definition flushed_to ::
  "pi_env \<Rightarrow> jstring \<Rightarrow> pi_call list \<Rightarrow> batch_row list \<Rightarrow> nat \<Rightarrow> nat \<Rightarrow> batch_row list \<Rightarrow> nat list \<Rightarrow> message_change list \<Rightarrow> bool" where
  "flushed_to env run cs rows k k' rows' ch ms \<longleftrightarrow> k \<le> k' \<and> batch_ok run k' cs rows' \<and> tracked (pt_batch (pe_tables env)) rows' ch
     \<and> (\<forall>i < length cs. br_status (rows' ! i) = br_status (rows ! i) \<and> (br_status (rows ! i) \<noteq> Done \<longrightarrow> rows' ! i = rows ! i))
     \<and> change_entries ms = map (ResultEntry \<circ> tc_callId) (drop k (take k' cs))"

definition flush_state :: "pi_work \<Rightarrow> batch_row list \<Rightarrow> nat list \<Rightarrow> message_change list \<Rightarrow> nat \<Rightarrow> pi_work" where
  "flush_state w rows ch ms k = padds ((with_batch w rows ch (pw_operations w))
     \<lparr>pw_state := (pw_state w)\<lparr>ps_next_tool_index := k\<rparr>\<rparr>) ms"

lemma flush_state_simps [simp]:
  "pw_state (flush_state w rows ch ms k) = (pw_state w)\<lparr>ps_next_tool_index := k\<rparr>"
  "pw_messages (flush_state w rows ch ms k) = pw_messages w @ ms" "pw_operations (flush_state w rows ch ms k) = pw_operations w"
  "pw_pending (flush_state w rows ch ms k) = pw_pending w" "pw_promotePending (flush_state w rows ch ms k) = pw_promotePending w"
  "pw_clearBatch (flush_state w rows ch ms k) = pw_clearBatch w" "pw_batch (flush_state w rows ch ms k) = Some rows"
  "pw_changed (flush_state w rows ch ms k) = ch"
  by (simp_all add: flush_state_def)

lemma flush_spec:
  assumes run: "ps_run_id (pw_state w) = Some run"
  shows "flushed_to env run cs rows0 k0 k rows ch ms \<Longrightarrow> k0 \<le> k \<Longrightarrow> k \<le> length cs \<Longrightarrow>
    wp (flush_results [k..<length cs])
      (\<lambda>_ t. \<exists>k' rows' ch' ms'. t = flush_state w rows' ch' ms' k' \<and> flushed_to env run cs rows0 k0 k' rows' ch' ms'
         \<and> (k' < length cs \<longrightarrow> br_status (rows' ! k') \<noteq> Done))
      (\<lambda>e t. False) (flush_state w rows ch ms k)"
proof (induction "length cs - k" arbitrary: k rows ch ms)
  case 0
  then show ?case by (auto simp: wp_simps)
next
  case (Suc d)
  let ?Q = "\<lambda>_ t. \<exists>k' rows' ch' ms'. t = flush_state w rows' ch' ms' k' \<and> flushed_to env run cs rows0 k0 k' rows' ch' ms'
         \<and> (k' < length cs \<longrightarrow> br_status (rows' ! k') \<noteq> Done)"
  let ?r = "rows ! k" and ?c = "cs ! k"
  have k: "k < length cs" using Suc.hyps(2) by simp
  then have upt: "[k..<length cs] = k # [Suc k..<length cs]" by (simp add: upt_conv_Cons)
  have ok: "batch_ok run k cs rows" using Suc.prems(1) by (simp add: flushed_to_def)
  have len: "length rows = length cs" using ok by (rule batch_ok_length)
  have idx: "br_call_index ?r = k" using batch_ok_index [OF ok k] .
  have look: "batch_rows (flush_state w rows ch ms k) = rows" "ps_run_id (pw_state (flush_state w rows ch ms k)) = Some run"
    using run by (simp_all add: flush_state_def batch_rows_def)
  show ?case
  proof (cases "br_status ?r = Done")
    case False
    with Suc.prems have "?Q () (flush_state w rows ch ms k)" by blast
    with False show ?thesis unfolding upt by (simp add: wp_simps look)
  next
    case True
    then obtain m where m: "br_result_json ?r = Some m" "answers ?c run (br_operation_id ?r) m"
      using batch_ok_cell [OF ok k] by (auto simp: cell_ok_def)
    let ?change = "\<lparr>mg_message = m, mg_runId = Some run, mg_inContext = True, mg_eventId = None,
      mg_operationId = br_operation_id ?r, mg_responseMetadata = None\<rparr>"
    let ?r' = "?r\<lparr>br_result_json := None\<rparr>"
    have "batch_ok run (Suc k) cs (rows[k := ?r'])"
      by (rule batch_ok_update [OF ok k]) (use True k idx batch_ok_cell [OF ok k] in \<open>auto simp: cell_ok_def\<close>)
    moreover have "tracked (pt_batch (pe_tables env)) (rows[k := ?r']) (mark ch k)"
      unfolding mark_def by (rule tracked_update) (use Suc.prems(1) k len in \<open>auto simp: flushed_to_def\<close>)
    moreover have "change_entry ?change = ResultEntry (tc_callId ?c)" using m(2) by (simp add: change_entry_def answers_def)
    moreover have "take (Suc k) cs = take k cs @ [?c]" using k by (simp add: take_Suc_conv_app_nth)
    ultimately have next_ok: "flushed_to env run cs rows0 k0 (Suc k) (rows[k := ?r']) (mark ch k) (ms @ [?change])"
      using Suc.prems True k len by (auto simp: flushed_to_def nth_list_update change_entries_append) (simp_all add: change_entries_def)
    from Suc.hyps(1) [of "Suc k", OF _ this] Suc.hyps(2) Suc.prems(2) k
    have rest: "wp (flush_results [Suc k..<length cs]) ?Q (\<lambda>e t. False) (flush_state w (rows[k := ?r']) (mark ch k) (ms @ [?change]) (Suc k))"
      by simp
    have step: "(with_batch (padds (flush_state w rows ch ms k) [?change]) (rows[k := ?r']) (mark ch k) (pw_operations w))
        \<lparr>pw_state := (pw_state w)\<lparr>ps_next_tool_index := Suc k\<rparr>\<rparr> = flush_state w (rows[k := ?r']) (mark ch k) (ms @ [?change]) (Suc k)"
      by (simp add: flush_state_def with_batch_def padds_def)
    have form: "padds (flush_state w rows ch ms k) [?change] = with_batch (padds (flush_state w rows ch ms k) [?change]) rows ch (pw_operations w)"
      by (simp add: flush_state_def with_batch_def padds_def)
    have append: "wp (pi_append ?change) (\<lambda>_ t. t = padds (flush_state w rows ch ms k) [?change]) (\<lambda>e t. False) (flush_state w rows ch ms k)"
      by (rule pi_append_fits) (use m(2) in \<open>simp add: answers_def opt_text_def [of "Some run"] opt_text_def [of None]\<close>)
    have state: "pw_state (padds (flush_state w rows ch ms k) [?change]) = (pw_state w)\<lparr>ps_next_tool_index := k\<rparr>"
      by (simp add: flush_state_def)
    have "wp (change_row k (\<lambda>r. r\<lparr>br_result_json := None\<rparr>)) (\<lambda>_. wp (bindA (pi_set (\<lambda>s. s\<lparr>ps_next_tool_index := ps_next_tool_index s + 1\<rparr>))
        (\<lambda>_. flush_results [Suc k..<length cs])) ?Q (\<lambda>e t. False)) (\<lambda>e t. False) (padds (flush_state w rows ch ms k) [?change])"
      by (subst form, rule wp_call [OF change_row_spec]) (use rest state in \<open>simp_all add: wp_simps pi_set_def idx step\<close>)
    with True m look show ?thesis
      unfolding upt by (auto simp: wp_simps intro!: wp_call [OF append])
  qed
qed

lemma mutation_busy_eq:
  assumes "list_all (\<lambda>r. br_call_index r < length cs) rows"
  shows "mutation_busy cs rows = Inr (\<exists>r \<in> set rows. br_status r = Active \<and> isMutation (tc_name (cs ! br_call_index r)))"
  using assms by (induction rows) (auto simp: call_at_def)

lemma mutation_busy_lane:
  assumes "batch_ok run k cs rows"
  shows "mutation_busy cs rows = Inr (lane_busy cs rows)"
proof -
  note len = batch_ok_length [OF assms] and idx = batch_ok_index [OF assms]
  have "list_all (\<lambda>r. br_call_index r < length cs) rows" using len idx by (auto simp: list_all_length)
  moreover have "(\<exists>r \<in> set rows. br_status r = Active \<and> isMutation (tc_name (cs ! br_call_index r))) \<longleftrightarrow> lane_busy cs rows"
    unfolding lane_busy_def mutates_def set_conv_nth using len idx by (auto simp: Bex_def)
  ultimately show ?thesis using mutation_busy_eq by simp
qed

section \<open>Advancing a batch\<close>

definition tool_open :: "pi_env \<Rightarrow> pi_call list \<Rightarrow> jstring \<Rightarrow> batch_row list \<Rightarrow> pi_work \<Rightarrow> bool" where
  "tool_open env cs run rows w \<longleftrightarrow> ps_phase (pw_state w) = Pi_tools \<and> ps_active_operation_id (pw_state w) = None
     \<and> pw_calls w = Some cs \<and> calls_short cs \<and> pw_batch w = Some rows
     \<and> ps_run_id (pw_state w) = Some run \<and> length run \<le> 64
     \<and> (\<exists>q. ps_active_assistant_sequence (pw_state w) = Some q \<and> pi_planned (pt_messages (pe_tables env)) (pw_messages w) q cs)
     \<and> pw_pending w = None \<and> \<not> pw_promotePending w \<and> \<not> pw_clearBatch w \<and> pw_operations w = []
     \<and> batch_ok run (ps_next_tool_index (pw_state w)) cs rows \<and> tracked (pt_batch (pe_tables env)) rows (pw_changed w)
     \<and> tool_ops env rows [] \<and> unanswered env (pw_messages w) = Some (map tc_callId (drop (ps_next_tool_index (pw_state w)) cs))"

lemma pi_planned_append: "pi_planned rows msgs q cs \<Longrightarrow> pi_planned rows (msgs @ ms) q cs"
  by (auto simp: pi_planned_def nth_append split: if_splits)

lemma lane_waits_same:
  assumes "\<forall>i < length cs. br_status (rows' ! i) = br_status (rows ! i)" and "lane_waits err cs rows (length cs)"
  shows "lane_waits err cs rows' (length cs)"
proof -
  have "lane_busy cs rows' = lane_busy cs rows" using assms(1) unfolding lane_busy_def by metis
  with assms show ?thesis by (simp add: lane_waits_def)
qed

lemma tool_ops_same:
  assumes "\<forall>i < length cs. br_status (rows' ! i) = br_status (rows ! i) \<and> (br_status (rows ! i) \<noteq> Done \<longrightarrow> rows' ! i = rows ! i)"
    and "length rows = length cs" and "length rows' = length cs" and "tool_ops env rows ops"
  shows "tool_ops env rows' ops"
  unfolding tool_ops_def
proof (intro conjI ballI allI impI)
  fix op
  assume "op \<in> set ops"
  from tool_ops_planned [OF assms(4) this] obtain i oid where i: "i < length rows" "pn_key op = tool_key i"
    "pe_operationId env (tool_key i) = Inr oid" "br_status (rows ! i) = Active" "br_operation_id (rows ! i) = Some oid"
    "\<not> under_way env i" .
  moreover have "rows' ! i = rows ! i" using i assms(1,2) by simp
  ultimately show "\<exists>i oid. i < length rows' \<and> pn_key op = tool_key i \<and> pe_operationId env (tool_key i) = Inr oid
      \<and> br_status (rows' ! i) = Active \<and> br_operation_id (rows' ! i) = Some oid \<and> \<not> under_way env i"
    using assms(2,3) by (intro exI [of _ i] exI [of _ oid]) simp
next
  fix i
  assume i: "i < length rows'" "br_status (rows' ! i) = Active"
  then have "rows' ! i = rows ! i" using assms(1,3) by (metis batch_status.distinct(5))
  with i assms(2,3,4) show "i < length (pt_batch (pe_tables env)) \<and> pt_batch (pe_tables env) ! i = rows' ! i
      \<or> (\<exists>op \<in> set ops. pn_key op = tool_key i)" unfolding tool_ops_def by simp
next
  fix i
  assume "i < length rows'" "br_status (rows' ! i) = Queued"
  with assms show "\<not> under_way env i" by (simp add: tool_ops_def)
next
  show "distinct (map pn_key ops)" using assms(4) by (simp add: tool_ops_def)
qed

lemma all_flushed:
  assumes "batch_ok run (length cs) cs rows" and "tool_ops env rows ops"
  shows "ops = []"
proof -
  have "br_status (rows ! i) = Done" if "i < length cs" for i
    using batch_ok_cell [OF assms(1) that] that by (cases "br_status (rows ! i)") (auto simp: cell_ok_def)
  with assms batch_ok_length [OF assms(1)] show ?thesis
    using tool_ops_planned [OF assms(2)] by (metis batch_status.distinct(5) list.set_intros(1) neq_Nil_conv)
qed

lemma pi_fail_ok:
  assumes "quiet env w"
  shows "wp (pi_fail code message) (\<lambda>_. pi_plan_ok env s) E w"
  using assms
  by (simp add: pi_fail_def wp_simps pi_set_def pi_status_def pi_plan_ok_def control_ok_def pi_running_def phase_ok_def
      pi_promotion_ok_def pi_operations_ok_def quiet_def)

lemma settle_batch_spec:
  assumes env: "pi_env_ok env" and w: "tool_open env cs run rows w"
    and d: "dispatched env run k cs (ps_last_error_json (pw_state w)) (length cs) rows1 ch1 ops" "k = ps_next_tool_index (pw_state w)"
    and f: "flushed_to env run cs rows1 k k' rows' ch' ms" "k' < length cs \<longrightarrow> br_status (rows' ! k') \<noteq> Done"
  shows "wp (settle_batch env (length cs)) (\<lambda>_. pi_plan_ok env s) (pi_stopped env) (flush_state (with_batch w rows1 ch1 ops) rows' ch' ms k')"
proof -
  let ?w = "flush_state (with_batch w rows1 ch1 ops) rows' ch' ms k'"
  have ok: "batch_ok run k' cs rows'" using f(1) by (simp add: flushed_to_def)
  have len: "length rows1 = length cs" "length rows' = length cs"
    using d(1) batch_ok_length [OF ok] batch_ok_length by (auto simp: dispatched_def)
  have idx: "map br_call_index rows' = [0..<length rows']" using ok len by (simp add: batch_ok_def)
  have ops: "tool_ops env rows' ops" by (rule tool_ops_same) (use f(1) d(1) len in \<open>auto simp: flushed_to_def dispatched_def\<close>)
  have waits: "lane_waits (ps_last_error_json (pw_state w)) cs rows' (length cs)"
    by (rule lane_waits_same [of cs rows' rows1]) (use f(1) d(1) in \<open>auto simp: flushed_to_def dispatched_def\<close>)
  have kk: "k \<le> k'" "k' \<le> length cs" using f(1) ok by (auto simp: flushed_to_def batch_ok_def)
  have "drop k cs = drop k (take k' cs) @ drop k' cs" using kk by (metis append_take_drop_id drop_append drop_take le_add_diff_inverse length_take min.absorb2 diff_is_0_eq drop_0)
  then have split: "map tc_callId (drop k cs) = map tc_callId (drop k (take k' cs)) @ map tc_callId (drop k' cs)" by (metis map_append)
  have open': "unanswered env (pw_messages w @ ms) = Some (map tc_callId (drop k' cs))"
    using w d(2) f(1) split open_calls_results [of "map tc_callId (drop k (take k' cs))" "map tc_callId (drop k' cs)"]
    by (simp add: tool_open_def unanswered_append flushed_to_def comp_def)
  have state: "pw_state ?w = (pw_state w)\<lparr>ps_next_tool_index := k'\<rparr>" "pw_messages ?w = pw_messages w @ ms"
    "pw_operations ?w = ops" "pw_pending ?w = None" "\<not> pw_promotePending ?w"
    using w by (simp_all add: flush_state_def tool_open_def)
  show ?thesis
  proof (cases "k' = length cs")
    case False
    have batch: "planned_batch env ?w = rows'" "batch_tracked env ?w"
      using w f(1) idx by (simp_all add: planned_batch_def batch_tracked_def flush_state_def tool_open_def flushed_to_def)
    obtain q where q: "ps_active_assistant_sequence (pw_state w) = Some q" "pi_planned (pt_messages (pe_tables env)) (pw_messages w) q cs"
      using w by (auto simp: tool_open_def)
    have "settled (ps_last_error_json (pw_state w)) k' cs rows'" using False kk f(2) waits by (simp add: settled_def)
    with w ok open' q pi_planned_append [OF q(2)]
    have "phase_ok (pi_planned (pt_messages (pe_tables env)) (pw_messages w @ ms)) (unanswered env (pw_messages w @ ms)) rows'
        ((pw_state w)\<lparr>ps_next_tool_index := k'\<rparr>)" by (auto simp: phase_ok_def tool_open_def)
    with w ops have "pi_plan_ok env s ?w"
      unfolding pi_plan_ok_def state batch
      by (simp add: control_ok_def pi_running_def tool_open_def pi_promotion_ok_def pi_operations_ok_def batch state)
    with False show ?thesis by (simp add: settle_batch_def wp_simps state)
  next
    case True
    have none: "ops = []" using all_flushed [of run cs rows' env ops] ok ops True by simp
    let ?w1 = "?w\<lparr>pw_clearBatch := True, pw_changed := []\<rparr>"
    have batch1: "planned_batch env ?w1 = []" "batch_tracked env ?w1" by (simp_all add: planned_batch_def batch_tracked_def)
    have quiet: "quiet env ?w1"
      using batch1 w open' True none by (simp add: quiet_def pi_promotion_ok_def state tool_open_def)
    have "wp (case ps_last_error_json (pw_state w) of Some e \<Rightarrow> pi_fail (text_field e ''code'') (text_field e ''message'')
        | None \<Rightarrow> pi_finishTurn env True) (\<lambda>_. pi_plan_ok env s) (pi_stopped env) ?w1"
    proof (cases "ps_last_error_json (pw_state w)")
      case None
      have "pi_open env ?w1" using quiet w None by (simp add: pi_open_def state tool_open_def)
      from pi_finishTurn_spec [OF env this] None show ?thesis by simp
    next
      case (Some e)
      with pi_fail_ok [OF quiet] show ?thesis by simp
    qed
    then show ?thesis using True by (simp add: settle_batch_def wp_simps state)
  qed
qed

lemma pi_advanceTools_spec:
  assumes env: "pi_env_ok env" and w: "tool_open env cs run rows w"
  shows "wp (pi_advanceTools env) (\<lambda>_. pi_plan_ok env s) (pi_stopped env) w"
proof -
  let ?k = "ps_next_tool_index (pw_state w)" and ?err = "ps_last_error_json (pw_state w)"
  let ?rest = "bindA (getA (ps_next_tool_index \<circ> pw_state)) (\<lambda>k. bindA (flush_results [k..<length cs]) (\<lambda>_. settle_batch env (length cs)))"
  have ok: "batch_ok run ?k cs rows" and run: "ps_run_id (pw_state w) = Some run" "length run \<le> 64" and short: "calls_short cs"
    and calls: "pw_calls w = Some cs" "pw_batch w = Some rows"
    using w by (simp_all add: tool_open_def)
  have len: "length rows = length cs" using ok by (rule batch_ok_length)
  have same: "with_batch w rows (pw_changed w) [] = w" using calls w with_batch_id [of w rows] by (simp add: tool_open_def)
  have "dispatched env run ?k cs ?err 0 rows (pw_changed w) []"
    using w by (simp add: dispatched_def tool_open_def lane_waits_def)
  from dispatch_spec [OF env run short this]
  have go: "wp (dispatch env cs [0..<length cs] (lane_busy cs rows)) (\<lambda>_ t. \<exists>rows' ch' ops'. t = with_batch w rows' ch' ops'
        \<and> dispatched env run ?k cs ?err (length cs) rows' ch' ops') (\<lambda>e t. \<not> harness_failing e) w"
    by (simp add: same)
  have flush: "wp ?rest (\<lambda>_. pi_plan_ok env s) (pi_stopped env) (with_batch w rows1 ch1 ops)"
    if d: "dispatched env run ?k cs ?err (length cs) rows1 ch1 ops" for rows1 ch1 ops
  proof -
    let ?w1 = "with_batch w rows1 ch1 ops"
    have ok1: "batch_ok run ?k cs rows1" using d by (simp add: dispatched_def)
    have "flushed_to env run cs rows1 ?k ?k rows1 ch1 []" using d by (simp add: flushed_to_def dispatched_def change_entries_def)
    from flush_spec [OF _ this] ok1 run
    have "wp (flush_results [?k..<length cs]) (\<lambda>_ t. \<exists>k' rows' ch' ms'. t = flush_state ?w1 rows' ch' ms' k'
         \<and> flushed_to env run cs rows1 ?k k' rows' ch' ms' \<and> (k' < length cs \<longrightarrow> br_status (rows' ! k') \<noteq> Done))
      (\<lambda>e t. False) (flush_state ?w1 rows1 ch1 [] ?k)" by (simp add: batch_ok_def)
    moreover have "flush_state ?w1 rows1 ch1 [] ?k = ?w1" by (simp add: flush_state_def with_batch_def)
    ultimately have "wp (flush_results [?k..<length cs]) (\<lambda>_. wp (settle_batch env (length cs)) (\<lambda>_. pi_plan_ok env s) (pi_stopped env))
      (pi_stopped env) ?w1"
      by (auto elim!: wp_call intro: settle_batch_spec [OF env w d refl])
    then show ?thesis by (simp add: wp_simps)
  qed
  have "wp (dispatch env cs [0..<length cs] (lane_busy cs rows)) (\<lambda>_. wp ?rest (\<lambda>_. pi_plan_ok env s) (pi_stopped env)) (pi_stopped env) w"
    by (rule wp_call [OF go]) (use flush in \<open>auto simp: pi_stopped_def\<close>)
  then show ?thesis
    unfolding pi_advanceTools_def pi_currentCalls_def pi_batch_def
    by (simp add: wp_simps calls len mutation_busy_lane [OF ok])
qed

section \<open>Completions\<close>

definition pi_starting :: "pi_env \<Rightarrow> pi_state \<Rightarrow> bool" where
  "pi_starting env s \<longleftrightarrow> pi_env_ok env \<and> pi_ok (pe_tables env) \<and> pt_state (pe_tables env) = Some s"

lemma pi_start_simps [simp]:
  "pw_state (pi_start s) = s" "pw_messages (pi_start s) = []" "pw_operations (pi_start s) = []"
  "pw_pending (pi_start s) = None" "\<not> pw_promotePending (pi_start s)" "pw_calls (pi_start s) = None"
  "pw_status (pi_start s) = None" "pw_batch (pi_start s) = None" "pw_changed (pi_start s) = []" "\<not> pw_clearBatch (pi_start s)"
  "planned_batch env (pi_start s) = pt_batch (pe_tables env)" "batch_tracked env (pi_start s)"
  by (simp_all add: pi_start_def planned_batch_def batch_tracked_def)

lemma pi_starting_state:
  assumes "pi_starting env s"
  shows "control_ok s" and "pi_env_ok env" and "sorted_wrt (<) (0 # map mr_sequence (pt_messages (pe_tables env)))"
    and "phase_ok (pi_stored (pt_messages (pe_tables env))) (unanswered env []) (pt_batch (pe_tables env)) s"
    and "ps_phase s = Pi_idle \<Longrightarrow> pt_pending (pe_tables env) = []"
  using assms by (auto simp: pi_starting_def pi_ok_def unanswered_def change_entries_def)

lemma start_quiet:
  assumes "pi_starting env s" and "ps_phase s \<noteq> Pi_tools"
  shows "quiet env (pi_start s)"
  using pi_starting_state [OF assms(1)] assms(2) by (simp add: quiet_def pi_promotion_ok_def phase_ok_def control_ok_def)

lemma start_run:
  assumes "pi_starting env s" and "pi_running s"
  shows "\<exists>run. ps_run_id s = Some run \<and> length run \<le> 64"
  using pi_starting_state(1) [OF assms(1)] assms(2) by (auto simp: control_ok_def)

lemma check_response_calls:
  "pi_check_response config response = Inr calls \<Longrightarrow>
    pi_toolCalls (case field response ''message'' of Some m \<Rightarrow> m | None \<Rightarrow> JNull) = Inr calls"
  by (auto simp: pi_check_response_def harness_failure_def Let_def bindR_def split: if_splits sum.splits)

lemma queued_batch_ok: "batch_ok run 0 cs (map queued_row [0..<length cs])"
  by (auto simp: batch_ok_def cell_ok_def queued_row_def lane_ok_def short_def comp_def)

lemma new_batch_open:
  assumes start: "pi_starting env s" "ps_phase s = Pi_llm" and calls: "pi_toolCalls (mg_message c) = Inr cs"
    and c: "mg_eventId c = None" "mg_responseMetadata c \<noteq> None" "mg_inContext c"
    and t: "t = (pi_start s)\<lparr>pw_messages := [c], pw_calls := Some cs, pw_state := s\<lparr>ps_active_operation_id := None, ps_phase := Pi_tools,
        ps_active_assistant_sequence := Some (- 1), ps_next_tool_index := 0\<rparr>,
        pw_batch := Some (map queued_row [0..<length cs]), pw_changed := [0..<length cs]\<rparr>"
  shows "\<exists>run. tool_open env cs run (map queued_row [0..<length cs]) t"
proof -
  obtain run where run: "ps_run_id s = Some run" "length run \<le> 64" using start_run [OF start(1)] start(2) by (auto simp: pi_running_def)
  have none: "pt_batch (pe_tables env) = []" "unanswered env [] = Some []"
    using pi_starting_state(4) [OF start(1)] start(2) by (auto simp: phase_ok_def)
  have "unanswered env [c] = Some (map tc_callId cs)"
    using none(2) unanswered_append [of env "[]" "[c]"] c calls by (simp add: change_entries_def change_entry_def call_ids_def)
  moreover have "tool_ops env (map queued_row [0..<length cs]) []" using none(1) by (simp add: tool_ops_def queued_row_def under_way_def)
  moreover have "tracked (pt_batch (pe_tables env)) (map queued_row [0..<length cs]) [0..<length cs]"
    using none(1) by (simp add: tracked_def lessThan_atLeast0)
  ultimately show ?thesis
    using run queued_batch_ok calls toolCalls_short [OF calls]
    by (intro exI [of _ run]) (simp add: t tool_open_def pi_planned_def)
qed

lemma pi_completeLlm_spec:
  assumes start: "pi_starting env s" and phase: "ps_phase s = Pi_llm"
  shows "wp (pi_completeLlm env outcome opId) (\<lambda>_. pi_plan_ok env s') (pi_stopped env) (pi_start s)"
proof -
  note env = pi_starting_state(2) [OF start]
  have q0: "quiet env (pi_start s)" using start_quiet [OF start] phase by simp
  have err: "ps_last_error_json s = None" using pi_starting_state(1) [OF start] phase by (auto simp: control_ok_def)
  obtain run where run: "ps_run_id s = Some run" using start_run [OF start] phase by (auto simp: pi_running_def)
  have outside: "quiet env (padds (pi_start s) [c])" if "\<not> mg_inContext c" for c
    using q0 that unanswered_append [of env "[]" "[c]"] by (simp add: quiet_def pi_promotion_ok_def change_entries_def)
  have tools: "wp (pi_advanceTools env) (\<lambda>_. pi_plan_ok env s') (pi_stopped env)
      ((padds (pi_start s) [c])\<lparr>pw_messages := [c\<lparr>mg_inContext := True\<rparr>], pw_calls := Some calls, pw_state := s\<lparr>ps_active_operation_id := None,
        ps_phase := Pi_tools, ps_active_assistant_sequence := Some (- 1), ps_next_tool_index := 0\<rparr>,
        pw_batch := Some (map queued_row [0..<length calls]), pw_changed := [0..<length calls]\<rparr>)" (is "wp _ _ _ ?t")
    if cc: "pi_toolCalls (mg_message c) = Inr calls" "mg_eventId c = None" "mg_responseMetadata c \<noteq> None" for c calls
  proof -
    obtain run where "tool_open env calls run (map queued_row [0..<length calls]) ?t"
      using new_batch_open [OF start phase, of "c\<lparr>mg_inContext := True\<rparr>" calls ?t] cc by (auto simp: padds_def)
    then show ?thesis by (rule pi_advanceTools_spec [OF env])
  qed
  have finish: "wp (pi_finishTurn env False) (\<lambda>_. pi_plan_ok env s') (pi_stopped env)
      ((padds (pi_start s) [c])\<lparr>pw_messages := [c\<lparr>mg_inContext := True\<rparr>], pw_calls := Some [], pw_state := s\<lparr>ps_active_operation_id := None\<rparr>\<rparr>)"
    (is "wp _ _ _ ?t")
    if "pi_toolCalls (mg_message c) = Inr []" "mg_eventId c = None" "mg_responseMetadata c \<noteq> None" for c
  proof (rule pi_finishTurn_spec [OF env])
    have "unanswered env [c\<lparr>mg_inContext := True\<rparr>] = Some []"
      using q0 that unanswered_append [of env "[]" "[c\<lparr>mg_inContext := True\<rparr>]"]
      by (simp add: quiet_def change_entries_def change_entry_def call_ids_def)
    with q0 err run show "pi_open env ?t"
      by (simp add: pi_open_def quiet_def pi_promotion_ok_def padds_def)
  qed
  note tools' = tools [of "\<lparr>mg_message = m, mg_runId = r, mg_inContext = False, mg_eventId = None, mg_operationId = o',
      mg_responseMetadata = Some d\<rparr>" for m r o' d, simplified]
    and finish' = finish [of "\<lparr>mg_message = m, mg_runId = r, mg_inContext = False, mg_eventId = None, mg_operationId = o',
      mg_responseMetadata = Some d\<rparr>" for m r o' d, simplified]
  show ?thesis
    unfolding pi_completeLlm_def Let_def pi_set_def
    using quiet_stopped [OF q0] quiet_stopped [OF outside]
    by (auto simp: wp_simps split: sum.split dest: check_response_calls
        intro!: wp_call [OF pi_append_spec] tools' finish')
qed

lemma pi_find_stored:
  assumes "sorted_wrt (<) (0 # map mr_sequence rows)" and "pi_stored rows q cs"
  shows "\<exists>m. pi_find_message rows q = Inr m \<and> pi_toolCalls m = Inr cs"
proof -
  from assms(2) obtain r where r: "r \<in> set rows" "mr_sequence r = q" "pi_toolCalls (mr_message r) = Inr cs"
    by (auto simp: pi_stored_def)
  have "distinct (map mr_sequence rows)" using assms(1) by (simp add: strict_sorted_iff)
  then have uniq: "r' = r" if "r' \<in> set rows" "mr_sequence r' = q" for r'
    using that r by (auto simp: distinct_map inj_on_def)
  obtain r' where f: "find (\<lambda>r. mr_sequence r = q) rows = Some r'"
    using r by (cases "find (\<lambda>r. mr_sequence r = q) rows") (auto simp: find_None_iff)
  then have "r' = r" using uniq by (auto simp: find_Some_iff)
  with f r show ?thesis by (simp add: pi_find_message_def)
qed

lemma readBatch_indexed: "map br_call_index (pt_batch t) = [0..<n] \<Longrightarrow> readBatch t = pt_batch t"
  by (simp add: readBatch_def sort_key_id_if_sorted)

lemma active_position_Some:
  assumes "active_position rows opId = Some i"
  shows "i < length rows \<and> br_status (rows ! i) = Active \<and> br_operation_id (rows ! i) = Some opId"
proof -
  have "find P xs = Some x \<Longrightarrow> P x \<and> x \<in> set xs" for P and xs :: "nat list" and x by (auto simp: find_Some_iff)
  from this [OF assms [unfolded active_position_def]] show ?thesis by auto
qed

lemma tracked_self: "map br_call_index rows = [0..<length rows] \<Longrightarrow> tracked rows rows []"
  by (simp add: tracked_def)

lemma completeTool_spec:
  assumes start: "pi_starting env s" and phase: "ps_phase s = Pi_tools"
  shows "wp (completeTool env outcome opId) (\<lambda>_. pi_plan_ok env s) (pi_stopped env) (pi_start s)"
proof -
  let ?old = "pt_batch (pe_tables env)" and ?k = "ps_next_tool_index s"
  note st = pi_starting_state [OF start]
  obtain q cs where q: "ps_active_assistant_sequence s = Some q" "pi_stored (pt_messages (pe_tables env)) q cs"
    and ok: "batch_ok (the (ps_run_id s)) ?k cs ?old" and rest: "settled (ps_last_error_json s) ?k cs ?old"
    and open': "unanswered env [] = Some (map tc_callId (drop ?k cs))"
    using st(4) phase by (auto simp: phase_ok_def)
  obtain run where run: "ps_run_id s = Some run" "length run \<le> 64" using start_run [OF start] phase by (auto simp: pi_running_def)
  have ok: "batch_ok run ?k cs ?old" using ok run by simp
  have len: "length ?old = length cs" using ok by (rule batch_ok_length)
  have idx: "map br_call_index ?old = [0..<length ?old]" using ok len by (simp add: batch_ok_def)
  have read: "readBatch (pe_tables env) = ?old" using readBatch_indexed [OF idx] .
  obtain m where m: "pi_find_message (pt_messages (pe_tables env)) q = Inr m" "pi_toolCalls m = Inr cs"
    using pi_find_stored [OF st(3) q(2)] by blast
  have short: "calls_short cs" using toolCalls_short [OF m(2)] .
  have pos: "0 < q" using q(2) st(3) by (auto simp: pi_stored_def)
  have plan: "pi_planned (pt_messages (pe_tables env)) [] q cs" using q(2) pos by (simp add: pi_planned_def)
  have ignored: "pi_plan_ok env s ((pi_start s)\<lparr>pw_batch := Some ?old\<rparr>)"
    using st(1) st(4) phase q plan ok run rest open' tracked_self [OF idx] idx
    by (auto simp: pi_plan_ok_def planned_batch_def batch_tracked_def pi_promotion_ok_def pi_operations_ok_def tool_ops_def under_way_def phase_ok_def)
  let ?w = "(pi_start s)\<lparr>pw_calls := Some cs\<rparr>"
  have advance: "wp (pi_advanceTools env) (\<lambda>_. pi_plan_ok env s) (pi_stopped env)
      ((with_batch ?w (?old[i := (?old ! i)\<lparr>br_status := Done, br_result_json := Some msg\<rparr>]) (mark [] i) [])\<lparr>pw_state := s\<lparr>ps_last_error_json := err\<rparr>\<rparr>)"
    (is "wp _ _ _ ?t")
    if i: "i < length cs" "br_status (?old ! i) = Active" "answers (cs ! i) run (br_operation_id (?old ! i)) msg" for i msg err
  proof (rule pi_advanceTools_spec [OF st(2)])
    let ?r = "(?old ! i)\<lparr>br_status := Done, br_result_json := Some msg\<rparr>"
    have "batch_ok run ?k cs (?old[i := ?r])"
      by (rule batch_ok_update [OF ok i(1)]) (use i ok batch_ok_index [OF ok i(1)] batch_ok_cell [OF ok i(1)] in \<open>auto simp: cell_ok_def batch_ok_def\<close>)
    moreover have "tracked ?old (?old[i := ?r]) (mark [] i)"
      unfolding mark_def by (rule tracked_update [OF tracked_self [OF idx]]) (use i len in simp)
    moreover have "tool_ops env (?old[i := ?r]) []" using i len by (auto simp: tool_ops_def under_way_def nth_list_update)
    ultimately show "tool_open env cs run (?old[i := ?r]) ?t"
      using phase st(1) short run q plan open' by (simp add: tool_open_def control_ok_def)
  qed
  have "wp (pi_done i (fst (settle_outcome (cs ! i) (Some run) (br_operation_id (?old ! i)) outcome)))
      (\<lambda>_. wp (bindA (case snd (settle_outcome (cs ! i) (Some run) (br_operation_id (?old ! i)) outcome) of None \<Rightarrow> retA ()
           | Some (code, text) \<Rightarrow> pi_set (\<lambda>s. if ps_last_error_json s = None
               then s\<lparr>ps_last_error_json := Some (error_json (take 1024 code) text)\<rparr> else s)) (\<lambda>_. pi_advanceTools env))
         (\<lambda>_. pi_plan_ok env s) (pi_stopped env)) (pi_stopped env) (with_batch ?w ?old [] [])"
    if i: "active_position ?old opId = Some i" for i
  proof -
    let ?out = "settle_outcome (cs ! i) (Some run) (br_operation_id (?old ! i)) outcome"
    have act: "i < length cs" "br_status (?old ! i) = Active" using active_position_Some [OF i] len by auto
    have "short (br_operation_id (?old ! i))" using batch_ok_cell [OF ok act(1)] by (simp add: cell_ok_def)
    then have ans: "answers (cs ! i) run (br_operation_id (?old ! i)) (fst ?out)"
      using short act by (intro settle_outcome_answers) (auto simp: calls_short_def run)
    note go = advance [OF act ans]
    have same: "(with_batch ?w rows ch ops)\<lparr>pw_state := s\<rparr> = with_batch ?w rows ch ops" for rows ch ops
      by (simp add: with_batch_def pi_start_def)
    show ?thesis
      by (rule wp_call [OF pi_done_spec [where run = run and c = "cs ! i"]])
        (use run ans go go [of "ps_last_error_json s"] batch_ok_index [OF ok act(1)] in
          \<open>auto simp: wp_simps pi_set_def same split: option.split prod.split\<close>)
  qed
  moreover have "call_at cs (br_call_index (?old ! i)) = Inr (cs ! i)" if "active_position ?old opId = Some i" for i
    using active_position_Some [OF that] len batch_ok_index [OF ok] by (simp add: call_at_def)
  moreover have "(pi_start s)\<lparr>pw_batch := Some ?old, pw_calls := Some cs\<rparr> = with_batch ?w ?old [] []"
    by (simp add: with_batch_def pi_start_def)
  ultimately show ?thesis
    unfolding completeTool_def pi_batch_def pi_currentCalls_def
    using ignored q m run by (auto simp: wp_simps read Let_def case_prod_beta split: option.split)
qed

end
