(* ===== verification/PiTransitions.thy ===== *)
theory PiTransitions
  imports PiSafety HarnessContract
begin

text \<open>
  The transitions of the pi-no-compaction harness. The specifications of the event handlers are joined in
  \<open>pi_handle_ok\<close>: what is planned for an accepted input is \<open>pi_plan_ok\<close>. \<open>pi_apply_ok\<close> shows that applying a planned transition to the
  tables it was planned on keeps \<open>pi_ok\<close>.
\<close>

section \<open>The handler\<close>

lemma phase_ok_mono:
  assumes "phase_ok calls us rows s" and "\<And>q cs. calls q cs \<Longrightarrow> calls' q cs"
  shows "phase_ok calls' us rows s"
  using assms unfolding phase_ok_def by (metis (no_types, lifting))

lemma stored_pi_planned: "sorted_wrt (<) (0 # map mr_sequence rows) \<Longrightarrow> pi_stored rows q cs \<Longrightarrow> pi_planned rows msgs q cs"
  by (auto simp: pi_planned_def pi_stored_def)

lemma pi_unchanged_ok:
  assumes "pi_starting env s"
  shows "pi_plan_ok env s (pi_start s)"
proof -
  note st = pi_starting_state [OF assms]
  have "phase_ok (pi_planned (pt_messages (pe_tables env)) []) (unanswered env []) (pt_batch (pe_tables env)) s"
    by (rule phase_ok_mono [OF st(4) stored_pi_planned [OF st(3)]])
  with st show ?thesis
    by (auto simp: pi_plan_ok_def pi_promotion_ok_def pi_operations_ok_def tool_ops_def under_way_def control_ok_def split: pi_phase.split)
qed

lemma start_plain: "\<not> harness_failing e \<Longrightarrow> pi_stopped env e w"
  by (simp add: pi_stopped_def)

lemma payload_field_plain: "payload_field ev k = Inl e \<Longrightarrow> \<not> harness_failing e"
  by (auto simp: payload_field_def js_error_def harness_failing_def split: json.splits option.splits)

lemma read_completed_plain: "read_completed ev = Inl e \<Longrightarrow> \<not> harness_failing e"
  by (auto simp: read_completed_def harness_failing_def split: json.splits option.splits)

lemma pi_begin_run_quiet:
  assumes "quiet env w" and "1 \<le> q" and "q \<le> MAX_SAFE_INTEGER"
  shows "wp (pi_begin_run q) (\<lambda>_ t. quiet env t \<and> ps_last_error_json (pw_state t) = None \<and> ps_run_id (pw_state t) \<noteq> None) E w"
  using assms(1) length_sequence_text [OF assms(2,3)]
  by (simp add: pi_begin_run_def wp_simps pi_set_def pi_status_def quiet_def pi_promotion_ok_def lit_def)

text \<open>A message that arrives while a batch is under way must fit the steering table: otherwise the handler fails the run
  and leaves the batch as it is.\<close>

definition steering_fits :: "input_envelope \<Rightarrow> bool" where
  "steering_fits input \<longleftrightarrow> (\<forall>message. payload_field (en_event input) ''message'' = Inr message \<longrightarrow>
     assertMessageSize [message, JStr (en_eventId input)] = Inr ())"

lemma pi_handle_message_spec:
  assumes start: "pi_starting env s" and seq: "1 \<le> en_sequence input" "en_sequence input \<le> MAX_SAFE_INTEGER"
    and fits: "ps_phase s = Pi_tools \<Longrightarrow> steering_fits input"
  shows "wp (pi_handle_message env input) (\<lambda>_. pi_plan_ok env s) (pi_stopped env) (pi_start s)"
proof -
  note st = pi_starting_state [OF start]
  have steer: "pi_plan_ok env s ((pi_start s)\<lparr>pw_pending := Some p\<rparr>)" if "ps_phase s \<noteq> Pi_idle" for p
    using pi_unchanged_ok [OF start] that by (auto simp: pi_plan_ok_def pi_promotion_ok_def pi_operations_ok_def split: pi_phase.splits)
  have fresh: "wp (pi_begin_run (en_sequence input)) (\<lambda>_. wp (bindA (getA (ps_run_id \<circ> pw_state)) (\<lambda>run.
       bindA (pi_append (c run)) (\<lambda>_. pi_requestLlm env))) (\<lambda>_. pi_plan_ok env s) (pi_stopped env)) (pi_stopped env) (pi_start s)"
    if idle: "ps_phase s = Pi_idle" and c: "\<And>run. mg_eventId (c run) \<noteq> None" for c
  proof (rule wp_call [OF pi_begin_run_quiet [OF start_quiet [OF start] seq]])
    show "ps_phase s \<noteq> Pi_tools" using idle by simp
    fix t
    assume t: "quiet env t \<and> ps_last_error_json (pw_state t) = None \<and> ps_run_id (pw_state t) \<noteq> None"
    have ask: "wp (pi_requestLlm env) (\<lambda>_. pi_plan_ok env s) (pi_stopped env) (padds t [c run])" for run
      by (rule pi_requestLlm_quiet [OF st(2) quiet_users]) (use t c in auto)
    show "wp (bindA (getA (ps_run_id \<circ> pw_state)) (\<lambda>run. bindA (pi_append (c run)) (\<lambda>_. pi_requestLlm env)))
        (\<lambda>_. pi_plan_ok env s) (pi_stopped env) t"
      using ask t quiet_stopped by (auto simp: wp_simps intro!: wp_call [OF pi_append_spec])
  qed auto
  have refused: "pi_stopped env e (pi_start s)"
    if "payload_field (en_event input) ''message'' = Inr m" "assertMessageSize [m, JStr (en_eventId input)] = Inl e" for m e
    using that fits quiet_stopped [OF start_quiet [OF start]] by (cases "ps_phase s = Pi_tools") (auto simp: steering_fits_def)
  show ?thesis
    unfolding pi_handle_message_def
    using fresh steer start_plain payload_field_plain refused
    by (auto simp: wp_simps split: sum.split)
qed

lemma pi_handle_cancel_spec:
  assumes start: "pi_starting env s"
  shows "wp (pi_handle_cancel input) (\<lambda>_. pi_plan_ok env s) (pi_stopped env) (pi_start s)"
proof -
  have "pi_plan_ok env s ((pi_start s)\<lparr>pw_status := x, pw_state := s\<lparr>ps_cancel_requested := True\<rparr>\<rparr>)"
    if "pi_running s" for x
    using pi_unchanged_ok [OF start] that
    by (auto simp: pi_plan_ok_def control_ok_def pi_running_def phase_ok_def pi_promotion_ok_def pi_operations_ok_def)
  with pi_unchanged_ok [OF start] start_plain payload_field_plain show ?thesis
    unfolding pi_handle_cancel_def
    by (auto simp: wp_simps pi_set_def pi_status_def pi_running_def split: sum.split)
qed

lemma pi_handle_resume_spec:
  assumes start: "pi_starting env s" and seq: "1 \<le> en_sequence input" "en_sequence input \<le> MAX_SAFE_INTEGER"
  shows "wp (pi_handle_resume env input) (\<lambda>_. pi_plan_ok env s) (pi_stopped env) (pi_start s)"
proof (cases "ps_phase s = Pi_cancelled \<or> ps_phase s = Pi_failed")
  case False
  with pi_unchanged_ok [OF start] show ?thesis by (simp add: pi_handle_resume_def wp_simps)
next
  case True
  note st = pi_starting_state [OF start]
  have quiet: "quiet env (pi_start s)" using start_quiet [OF start] True by auto
  have "wp (pi_begin_run (en_sequence input)) (\<lambda>_. wp (bindA (pi_promoteSteering env) (\<lambda>_. pi_requestLlm env))
      (\<lambda>_. pi_plan_ok env s) (pi_stopped env)) (pi_stopped env) (pi_start s)"
  proof (rule wp_call [OF pi_begin_run_quiet [OF quiet seq]])
    fix t
    assume t: "quiet env t \<and> ps_last_error_json (pw_state t) = None \<and> ps_run_id (pw_state t) \<noteq> None"
    have stop: "pi_stopped env e (padds t ms)" if "users ms" for e ms
      using t that quiet_users by (simp add: quiet_stopped)
    have "wp (pi_requestLlm env) (\<lambda>_. pi_plan_ok env s) (pi_stopped env)
        ((padds t (map (promoted (ps_run_id (pw_state t))) (pi_queue (pe_tables env))))\<lparr>pw_promotePending := b\<rparr>)" for b
      by (rule pi_requestLlm_quiet [OF st(2) quiet_promoted]) (use t in auto)
    then show "wp (bindA (pi_promoteSteering env) (\<lambda>_. pi_requestLlm env)) (\<lambda>_. pi_plan_ok env s) (pi_stopped env) t"
      unfolding wp_bindA by (intro wp_call [OF pi_promoteSteering_spec]) (use stop in auto)
  qed auto
  with True show ?thesis by (auto simp: pi_handle_resume_def wp_simps)
qed

lemma pi_handle_completed_spec:
  assumes start: "pi_starting env s"
  shows "wp (pi_handle_completed env input) (\<lambda>_. pi_plan_ok env s) (pi_stopped env) (pi_start s)"
  unfolding pi_handle_completed_def
  using completeTool_spec [OF start] pi_completeLlm_spec [OF start] pi_unchanged_ok [OF start] start_plain read_completed_plain
  by (auto simp: wp_simps split: sum.split)

lemma pi_handle_event_spec:
  assumes start: "pi_starting env s" and seq: "1 \<le> en_sequence input" "en_sequence input \<le> MAX_SAFE_INTEGER"
    and fits: "ev_type (en_event input) = lit ''pi_no_compaction.message'' \<Longrightarrow> ps_phase s = Pi_tools \<Longrightarrow> steering_fits input"
  shows "wp (pi_handle_event env input) (\<lambda>_. pi_plan_ok env s) (pi_stopped env) (pi_start s)"
  unfolding pi_handle_event_def Let_def
  using pi_handle_message_spec [OF start seq fits] pi_handle_cancel_spec [OF start] pi_handle_resume_spec [OF start seq]
    pi_handle_completed_spec [OF start] pi_unchanged_ok [OF start]
  by (simp add: wp_simps)

text \<open>The one transition that leaves a batch behind: a message that does not fit while a batch is under way.\<close>

definition steering_overflow :: "pi_env \<Rightarrow> input_envelope \<Rightarrow> bool" where
  "steering_overflow env input \<longleftrightarrow> map_option ps_phase (pt_state (pe_tables env)) = Some Pi_tools
     \<and> ev_type (en_event input) = lit ''pi_no_compaction.message'' \<and> \<not> steering_fits input"

lemma assertMessageSize_Inl: "assertMessageSize ms = Inl e \<Longrightarrow> \<exists>c m. e = HarnessFailure c m"
  by (auto simp: assertMessageSize_def harness_failure_def split: if_splits)

lemma overflow_guarded:
  assumes "steering_overflow env input" and "pt_state (pe_tables env) = Some s"
  shows "\<exists>e x. pi_guarded (pi_handle_event env input) (pi_start s) = (Inr (), (pi_start s)\<lparr>pw_status := x,
      pw_state := s\<lparr>ps_phase := Pi_failed, ps_active_operation_id := None, ps_active_assistant_sequence := None,
        ps_next_tool_index := 0, ps_last_error_json := Some e, ps_cancel_requested := False\<rparr>\<rparr>)"
proof -
  from assms have ty: "ev_type (en_event input) = lit ''pi_no_compaction.message''" "ps_phase s = Pi_tools"
    by (auto simp: steering_overflow_def)
  from assms(1) obtain m e where "payload_field (en_event input) ''message'' = Inr m" and "assertMessageSize [m, JStr (en_eventId input)] = Inl e"
    unfolding steering_overflow_def steering_fits_def by (metis old.unit.exhaust sum.exhaust)
  with assertMessageSize_Inl [OF this(2)] ty show ?thesis
    by (auto simp: pi_guarded_def pi_handle_event_def pi_handle_message_def prim_defs bindA_def catchA_def pi_fail_def pi_set_def pi_status_def pi_start_def)
qed

lemma pi_guarded_spec:
  assumes "wp m (\<lambda>_. pi_plan_ok env s) (pi_stopped env) w"
  shows "wp (pi_guarded m) (\<lambda>_. pi_plan_ok env s) (\<lambda>e t. True) w"
  unfolding pi_guarded_def wp_catchA
proof (rule wp_call [OF assms])
  fix e t
  assume "pi_stopped env e t"
  then show "wp (case e of HarnessFailure c msg \<Rightarrow> pi_fail c msg | _ \<Rightarrow> throwA e) (\<lambda>_. pi_plan_ok env s) (\<lambda>e t. True) t"
    by (cases e) (auto simp: wp_simps pi_stopped_def harness_failing_def intro: pi_fail_ok)
qed

lemma pi_handle_Inr:
  assumes "pi_handle env input = Inr plan" and "pt_state (pe_tables env) = Some s"
  shows "\<exists>w. pi_guarded (pi_handle_event env input) (pi_start s) = (Inr (), w)
    \<and> tp_changes plan = \<lparr>pg_batch = changed_rows w, pg_clearBatch = pw_clearBatch w,
         pg_state = (if pw_state w \<noteq> s then Some (pw_state w) else None),
         pg_messages = pw_messages w, pg_pending = pw_pending w, pg_promotePending = pw_promotePending w\<rparr>
    \<and> tp_operations plan = pw_operations w \<and> tp_status plan = pw_status w"
  using assms by (auto simp: pi_handle_def pi_readState_def split: prod.splits sum.splits)

section \<open>Applying a planned transition\<close>

lemma find_indexed:
  assumes "map br_call_index rows = [0..<length rows]" and "i < length rows"
  shows "find (\<lambda>r. br_call_index r = i) rows = Some (rows ! i)"
proof -
  have "br_call_index (rows ! j) \<noteq> i" if "j < i" for j using indexed_nth [OF assms(1), of j] that assms(2) by simp
  then show ?thesis using indexed_nth [OF assms] assms(2) by (auto simp: find_Some_iff)
qed

lemma changed_rows_indexed:
  assumes "pw_batch w = Some rows" and "map br_call_index rows = [0..<length rows]" and "set (pw_changed w) \<subseteq> {..<length rows}"
  shows "changed_rows w = map ((!) rows) (pw_changed w)"
proof -
  have "List.map_filter (\<lambda>k. find (\<lambda>r. br_call_index r = k) rows) ch = map ((!) rows) ch" if "set ch \<subseteq> {..<length rows}" for ch
    using that by (induction ch) (auto simp: find_indexed [OF assms(2)] List.map_filter_simps)
  with assms show ?thesis by (simp add: changed_rows_def batch_rows_def)
qed

lemma upsert_planned:
  assumes ok: "batch_tracked env w" and clear: "\<not> pw_clearBatch w"
    and run: "upsert_rows (pt_batch (pe_tables env)) (changed_rows w) = Inr new"
  shows "new = planned_batch env w"
proof (cases "pw_batch w")
  case None
  with ok clear have "changed_rows w = []" by (simp add: batch_tracked_def changed_rows_def List.map_filter_simps)
  with run None clear show ?thesis by (simp add: planned_batch_def)
next
  case (Some rows)
  have idx: "map br_call_index rows = [0..<length rows]" and tr: "tracked (pt_batch (pe_tables env)) rows (pw_changed w)"
    using ok clear Some by (simp_all add: batch_tracked_def)
  have ch: "set (pw_changed w) \<subseteq> {..<length rows}" using tr by (simp add: tracked_def)
  have run': "upsert_rows (pt_batch (pe_tables env)) (map ((!) rows) (pw_changed w)) = Inr new"
    using run changed_rows_indexed [OF Some idx ch] by simp
  from tr consider (fresh) "pt_batch (pe_tables env) = []" "pw_changed w = [0..<length rows]"
    | (old) "map br_call_index (pt_batch (pe_tables env)) = [0..<length rows]"
      "\<And>i. i < length rows \<Longrightarrow> i \<notin> set (pw_changed w) \<Longrightarrow> pt_batch (pe_tables env) ! i = rows ! i"
    unfolding tracked_def by blast
  then have "new = rows"
  proof cases
    case fresh
    then have "upsert_rows (take 0 rows) (drop 0 rows) = Inr new" using run' by (simp add: map_nth)
    then show ?thesis using idx by (rule upsert_new)
  next
    case old
    from upsert_changed [OF run' old(1) indexed_nth [OF idx] ch old(2)] show ?thesis .
  qed
  with Some clear show ?thesis by (simp add: planned_batch_def)
qed

lemma pi_apply_Inr:
  assumes "pi_apply ch t = (Inr u, t')" and "append_all (pt_messages t) (pg_messages ch) = (rows, qs)"
  shows "pt_messages t' = rows"
    and "pt_pending t' = (if pg_promotePending ch then [] else pt_pending t)
        @ (case pg_pending ch of None \<Rightarrow> [] | Some p \<Rightarrow> [\<lparr>sg_event_id = sc_eventId p, sg_input_sequence = sc_sequence p, sg_message = sc_message p\<rparr>])"
    and "pt_state t' = (case pg_state ch of None \<Rightarrow> pt_state t | Some s \<Rightarrow> map_option (\<lambda>_. pi_resolve qs s) (pt_state t))"
    and "if pg_clearBatch ch then pt_batch t' = [] else upsert_rows (pt_batch t) (pg_batch ch) = Inr (pt_batch t')"
proof -
  let ?pending = "case pg_pending ch of None \<Rightarrow> [] | Some p \<Rightarrow> [\<lparr>sg_event_id = sc_eventId p, sg_input_sequence = sc_sequence p, sg_message = sc_message p\<rparr>]"
  have "wp (pi_apply ch) (\<lambda>_ t'. pt_messages t' = rows \<and> pt_pending t' = (if pg_promotePending ch then [] else pt_pending t) @ ?pending
      \<and> pt_state t' = (case pg_state ch of None \<Rightarrow> pt_state t | Some s \<Rightarrow> map_option (\<lambda>_. pi_resolve qs s) (pt_state t))
      \<and> (if pg_clearBatch ch then pt_batch t' = [] else upsert_rows (pt_batch t) (pg_batch ch) = Inr (pt_batch t'))) (\<lambda>e t. True) t"
    using assms(2)
    by (simp add: pi_apply_def wp_simps insert_steering_def pi_save_def constraint_def guardR_def bindR_def split: option.split sum.split)
  from wp_Inr [OF this assms(1)]
  show "pt_messages t' = rows"
    and "pt_pending t' = (if pg_promotePending ch then [] else pt_pending t) @ ?pending"
    and "pt_state t' = (case pg_state ch of None \<Rightarrow> pt_state t | Some s \<Rightarrow> map_option (\<lambda>_. pi_resolve qs s) (pt_state t))"
    and "if pg_clearBatch ch then pt_batch t' = [] else upsert_rows (pt_batch t) (pg_batch ch) = Inr (pt_batch t')"
    by simp_all
qed

lemma pi_resolve_frame [simp]:
  "ps_phase (pi_resolve qs s) = ps_phase s" "ps_run_id (pi_resolve qs s) = ps_run_id s"
  "ps_active_operation_id (pi_resolve qs s) = ps_active_operation_id s" "ps_cancel_requested (pi_resolve qs s) = ps_cancel_requested s"
  "ps_last_error_json (pi_resolve qs s) = ps_last_error_json s" "ps_next_tool_index (pi_resolve qs s) = ps_next_tool_index s"
  by (auto simp: pi_resolve_def split: option.split)

lemma pi_resolve_none: "ps_active_assistant_sequence s = None \<Longrightarrow> pi_resolve qs s = s"
  by (simp add: pi_resolve_def)

lemma control_ok_resolve: "control_ok s \<Longrightarrow> control_ok (pi_resolve qs s)"
  using pi_resolve_none [of s qs] by (auto simp: control_ok_def pi_running_def)

lemma planned_pi_stored:
  assumes "pi_planned rows msgs q cs" and "length qs = length msgs"
  shows "pi_stored (rows @ map2 appended_row msgs qs) (if q < 0 then qs ! nat (- q - 1) else q) cs"
proof (cases "q < 0")
  case False
  with assms show ?thesis by (auto simp: pi_planned_def pi_stored_def)
next
  case True
  let ?i = "nat (- q - 1)"
  have i: "?i < length msgs" "pi_toolCalls (mg_message (msgs ! ?i)) = Inr cs" using assms(1) True by (auto simp: pi_planned_def)
  then have "map2 appended_row msgs qs ! ?i \<in> set (map2 appended_row msgs qs)" using assms(2) by (intro nth_mem) simp
  with i assms(2) have "appended_row (msgs ! ?i) (qs ! ?i) \<in> set (rows @ map2 appended_row msgs qs)" by simp
  moreover have "pi_toolCalls (mr_message (appended_row (msgs ! ?i) (qs ! ?i))) = Inr cs"
    "mr_sequence (appended_row (msgs ! ?i) (qs ! ?i)) = qs ! ?i" using i by (simp_all add: appended_row_def)
  ultimately show ?thesis using True unfolding pi_stored_def by (metis (no_types, lifting))
qed

lemma phase_ok_resolve:
  assumes ok: "phase_ok (pi_planned rows msgs) us batch s" and qs: "length qs = length msgs"
  shows "phase_ok (pi_stored (rows @ map2 appended_row msgs qs)) us batch (pi_resolve qs s)"
proof (cases "ps_phase s = Pi_tools")
  case False
  with ok show ?thesis by (simp add: phase_ok_def)
next
  case True
  then obtain q cs where q: "ps_active_assistant_sequence s = Some q" "pi_planned rows msgs q cs"
    "batch_ok (the (ps_run_id s)) (ps_next_tool_index s) cs batch" "settled (ps_last_error_json s) (ps_next_tool_index s) cs batch"
    "us = Some (map tc_callId (drop (ps_next_tool_index s) cs))"
    using ok by (auto simp: phase_ok_def)
  have "ps_active_assistant_sequence (pi_resolve qs s) = Some (if q < 0 then qs ! nat (- q - 1) else q)"
    using q(1) by (simp add: pi_resolve_def)
  with q planned_pi_stored [OF q(2) qs] True show ?thesis by (auto simp: phase_ok_def)
qed

lemma pi_resolve_start:
  assumes "pi_starting env s"
  shows "pi_resolve qs s = s"
proof (cases "ps_phase s = Pi_tools")
  case True
  then obtain q cs where "ps_active_assistant_sequence s = Some q" "pi_stored (pt_messages (pe_tables env)) q cs"
    using pi_starting_state(4) [OF assms] by (auto simp: phase_ok_def)
  moreover then have "0 < q" using pi_starting_state(3) [OF assms] by (auto simp: pi_stored_def)
  ultimately show ?thesis by (simp add: pi_resolve_def)
next
  case False
  with pi_starting_state(1) [OF assms] show ?thesis by (intro pi_resolve_none) (simp add: control_ok_def)
qed

lemma pi_apply_ok:
  assumes start: "pi_starting env s" and ok: "pi_plan_ok env s w"
    and ch: "ch = \<lparr>pg_batch = changed_rows w, pg_clearBatch = pw_clearBatch w,
         pg_state = (if pw_state w \<noteq> s then Some (pw_state w) else None),
         pg_messages = pw_messages w, pg_pending = pw_pending w, pg_promotePending = pw_promotePending w\<rparr>"
    and run: "pi_apply ch (pe_tables env) = (Inr u, t')"
  shows "pi_ok t' \<and> (\<exists>qs. length qs = length (pw_messages w) \<and> pt_state t' = Some (pi_resolve qs (pw_state w))
      \<and> pt_messages t' = pt_messages (pe_tables env) @ map2 appended_row (pw_messages w) qs)
    \<and> pt_batch t' = planned_batch env w"
proof -
  let ?t = "pe_tables env"
  obtain rows qs where app: "append_all (pt_messages ?t) (pw_messages w) = (rows, qs)" by fastforce
  note all = append_all_rows [OF app] and st = pi_starting_state [OF start]
  have len: "length qs = length (pw_messages w)" using all by simp
  note t' = pi_apply_Inr [OF run, of rows qs, unfolded ch, simplified, OF app]
  have state: "pt_state t' = Some (pi_resolve qs (pw_state w))"
    using start t'(3) pi_resolve_start [OF start] by (auto simp: pi_starting_def split: if_splits)
  have batch: "pt_batch t' = planned_batch env w"
    using t'(4) ok upsert_planned [of env w "pt_batch t'"] by (auto simp: pi_plan_ok_def planned_batch_def split: if_splits)
  have msgs: "pt_messages t' = pt_messages ?t @ map2 appended_row (pw_messages w) qs" using all t'(1) by simp
  have "open_calls [] (context_entries (pt_messages t')) = unanswered env (pw_messages w)"
    by (simp add: msgs unanswered_def context_entries_append context_appended [OF len])
  then have "phase_ok (pi_stored (pt_messages t')) (open_calls [] (context_entries (pt_messages t'))) (pt_batch t') (pi_resolve qs (pw_state w))"
    using phase_ok_resolve [OF _ len] ok by (simp add: pi_plan_ok_def batch msgs)
  moreover have "control_ok (pi_resolve qs (pw_state w))" using ok by (simp add: pi_plan_ok_def control_ok_resolve)
  moreover have "pt_pending t' = []" if "ps_phase (pi_resolve qs (pw_state w)) = Pi_idle"
    using that ok t'(2) by (auto simp: pi_plan_ok_def)
  moreover have "map mr_sequence (pt_messages t') = map mr_sequence (pt_messages ?t) @ qs"
    using len by (auto simp: msgs appended_row_def intro: nth_equalityI)
  moreover have "sorted_wrt (<) (0 # map mr_sequence (pt_messages ?t) @ qs)" using all st(3) by simp
  ultimately have "pi_ok t'" using state by (simp add: pi_ok_def)
  with state len msgs batch show ?thesis by blast
qed

end
