(* ===== verification/PiProperties.thy ===== *)
theory PiProperties
  imports PiTransitions RuntimeProperties
begin

text \<open>
  The properties of the pi-no-compaction harness: its invariant under the session runtime, the answers of
  tool calls, the order of file mutations, the progress of a batch and the operations of a transition.
\<close>

section \<open>The harness keeps its contract\<close>

text \<open>An input has a position in the inbox.\<close>

definition pi_input_ok :: "input_envelope \<Rightarrow> bool" where
  "pi_input_ok input \<longleftrightarrow> 1 \<le> en_sequence input \<and> en_sequence input \<le> MAX_SAFE_INTEGER"

definition pi_handled :: "pi_env \<Rightarrow> input_envelope \<Rightarrow> pi_state \<Rightarrow> pi_work \<Rightarrow> pi_changes transition_plan \<Rightarrow> bool" where
  "pi_handled env input s w plan \<longleftrightarrow> pi_starting env s \<and> pi_plan_ok env s w
     \<and> pi_guarded (pi_handle_event env input) (pi_start s) = (Inr (), w)
     \<and> tp_changes plan = \<lparr>pg_batch = changed_rows w, pg_clearBatch = pw_clearBatch w,
         pg_state = (if pw_state w \<noteq> s then Some (pw_state w) else None),
         pg_messages = pw_messages w, pg_pending = pw_pending w, pg_promotePending = pw_promotePending w\<rparr>
     \<and> tp_operations plan = pw_operations w \<and> tp_status plan = pw_status w"

lemma pi_handle_plan:
  assumes ok: "pi_ok (pe_tables env)" and env: "pi_env_ok env" and input: "pi_input_ok input" "\<not> steering_overflow env input"
    and run: "pi_handle env input = Inr plan"
  shows "\<exists>s w. pi_handled env input s w plan"
proof -
  from ok obtain s where s: "pt_state (pe_tables env) = Some s" by (auto simp: pi_ok_def)
  then have start: "pi_starting env s" using ok env by (simp add: pi_starting_def)
  from pi_handle_Inr [OF run s] obtain w where w: "pi_guarded (pi_handle_event env input) (pi_start s) = (Inr (), w)"
    "tp_changes plan = \<lparr>pg_batch = changed_rows w, pg_clearBatch = pw_clearBatch w,
         pg_state = (if pw_state w \<noteq> s then Some (pw_state w) else None),
         pg_messages = pw_messages w, pg_pending = pw_pending w, pg_promotePending = pw_promotePending w\<rparr>"
    "tp_operations plan = pw_operations w" "tp_status plan = pw_status w" by blast
  have "wp (pi_handle_event env input) (\<lambda>_. pi_plan_ok env s) (pi_stopped env) (pi_start s)"
    using input s by (intro pi_handle_event_spec [OF start]) (auto simp: pi_input_ok_def steering_overflow_def)
  from wp_Inr [OF pi_guarded_spec [OF this] w(1)] start w show ?thesis by (auto simp: pi_handled_def)
qed

text \<open>A transition of the harness: planning on its tables and applying the plan to them. \<open>pi_transition\<close> leaves out the
  message that does not fit the steering table while a batch is under way.\<close>

definition pi_any_transition :: "pi_env \<Rightarrow> input_envelope \<Rightarrow> pi_changes transition_plan \<Rightarrow> pi_tables \<Rightarrow> bool" where
  "pi_any_transition env input plan t' \<longleftrightarrow> pi_ok (pe_tables env) \<and> pi_env_ok env \<and> pi_input_ok input
     \<and> pi_handle env input = Inr plan \<and> pi_apply (tp_changes plan) (pe_tables env) = (Inr (), t')"

definition pi_transition :: "pi_env \<Rightarrow> input_envelope \<Rightarrow> pi_changes transition_plan \<Rightarrow> pi_tables \<Rightarrow> bool" where
  "pi_transition env input plan t' \<longleftrightarrow> pi_any_transition env input plan t' \<and> \<not> steering_overflow env input"

lemma pi_transition_result:
  assumes "pi_transition env input plan t'"
  obtains s w qs where "pi_handled env input s w plan" and "pi_ok t'" and "pt_batch t' = planned_batch env w"
    and "pt_state t' = Some (pi_resolve qs (pw_state w))" and "length qs = length (pw_messages w)"
    and "pt_messages t' = pt_messages (pe_tables env) @ map2 appended_row (pw_messages w) qs"
proof -
  from assms pi_handle_plan obtain s w where h: "pi_handled env input s w plan"
    unfolding pi_transition_def pi_any_transition_def by blast
  have "pi_starting env s" "pi_plan_ok env s w" and ch: "tp_changes plan = \<lparr>pg_batch = changed_rows w, pg_clearBatch = pw_clearBatch w,
         pg_state = (if pw_state w \<noteq> s then Some (pw_state w) else None),
         pg_messages = pw_messages w, pg_pending = pw_pending w, pg_promotePending = pw_promotePending w\<rparr>"
    using h by (simp_all add: pi_handled_def)
  from pi_apply_ok [OF this] assms h that show thesis unfolding pi_transition_def pi_any_transition_def by blast
qed

text \<open>What that message does: the run fails, and the batch and the transcript stay as they were.\<close>

lemma overflow_result:
  assumes "pi_any_transition env input plan t'" and over: "steering_overflow env input"
  shows "tp_operations plan = [] \<and> pt_batch t' = pt_batch (pe_tables env) \<and> pt_messages t' = pt_messages (pe_tables env)
    \<and> (\<exists>s'. pt_state t' = Some s' \<and> ps_phase s' = Pi_failed \<and> ps_active_operation_id s' = None \<and> \<not> ps_cancel_requested s'
        \<and> ps_last_error_json s' \<noteq> None)"
proof -
  from assms(1) have run: "pi_handle env input = Inr plan" "pi_apply (tp_changes plan) (pe_tables env) = (Inr (), t')"
    by (simp_all add: pi_any_transition_def)
  from over obtain s where s: "pt_state (pe_tables env) = Some s" "ps_phase s = Pi_tools" by (auto simp: steering_overflow_def)
  from overflow_guarded [OF over s(1)] obtain e x where w: "pi_guarded (pi_handle_event env input) (pi_start s) = (Inr (), (pi_start s)\<lparr>pw_status := x,
      pw_state := s\<lparr>ps_phase := Pi_failed, ps_active_operation_id := None, ps_active_assistant_sequence := None,
        ps_next_tool_index := 0, ps_last_error_json := Some e, ps_cancel_requested := False\<rparr>\<rparr>)" by blast
  define s' where "s' = s\<lparr>ps_phase := Pi_failed, ps_active_operation_id := None, ps_active_assistant_sequence := None,
    ps_next_tool_index := 0, ps_last_error_json := Some e, ps_cancel_requested := False\<rparr>"
  have s': "ps_phase s' = Pi_failed" "ps_active_operation_id s' = None" "\<not> ps_cancel_requested s'" "ps_last_error_json s' \<noteq> None"
    "ps_active_assistant_sequence s' = None" by (simp_all add: s'_def)
  then have "s' \<noteq> s" using s(2) by auto
  then have plan: "tp_operations plan = []" "tp_changes plan = \<lparr>pg_batch = [], pg_clearBatch = False, pg_state = Some s', pg_messages = [],
      pg_pending = None, pg_promotePending = False\<rparr>"
    using pi_handle_Inr [OF run(1) s(1)] w [folded s'_def] by (auto simp: pi_start_def changed_rows_def map_filter_simps)
  note t' = pi_apply_Inr [OF run(2) [unfolded plan(2)], of "pt_messages (pe_tables env)" "[]"]
  show ?thesis using t' plan(1) s' s(1) by (simp add: pi_resolve_none)
qed

lemma pi_transition_messages:
  assumes "pi_handled env input s w plan" and "length qs = length (pw_messages w)"
    and "pt_messages t' = pt_messages (pe_tables env) @ map2 appended_row (pw_messages w) qs"
  shows "open_calls [] (context_entries (pt_messages t')) = unanswered env (pw_messages w)"
  by (simp add: assms(3) unanswered_def context_entries_append context_appended [OF assms(2)])

section \<open>What the runtime gives the harness\<close>

lemma accepted_field_bytes: "map_of kvs k = Some v \<Longrightarrow> json_bytes v \<le> json_bytes (JObj kvs)"
proof -
  assume "map_of kvs k = Some v"
  then have "(k, v) \<in> set kvs" by (rule map_of_SomeD)
  then have "utf8Bytes (quote k) + 1 + json_bytes v \<in> set (map (\<lambda>(k, v). utf8Bytes (quote k) + 1 + json_bytes v) kvs)" by force
  from member_le_sum_list [OF this] show ?thesis by (simp add: json_bytes_simps)
qed

lemma event_payload_bytes:
  assumes "payload_field ev k = Inr v"
  shows "json_bytes v \<le> json_bytes (event_json ev)"
proof -
  from assms obtain r where r: "ev_payload ev = JObj r" "map_of r (lit k) = Some v"
    by (auto simp: payload_field_def field_def js_error_def split: json.splits option.splits)
  have "map_of [(lit ''type'', JStr (ev_type ev)), (lit ''payload'', ev_payload ev)] (lit ''payload'') = Some (JObj r)"
    using r(1) by (simp add: lit_def)
  from accepted_field_bytes [OF this] accepted_field_bytes [OF r(2)] show ?thesis by (simp add: event_json_def)
qed

lemma parsed_input_bytes:
  assumes "parsePiNoCompactionInput ev = Inr p"
  shows "json_bytes (event_json ev) \<le> 1800000"
proof -
  have same: "parseEventBody (Some (event_json ev)) = Inr e \<Longrightarrow> e = ev" for e
    by (auto simp: parseEventBody_def parseJsonValue_def eventBody_def event_json_def js_record_def bindR_eq_Inr nonemptyString_def bad_def
        split: if_splits option.splits)
  from assms obtain e where "parseEventBody (Some (event_json ev)) = Inr e" "\<not> json_bytes (event_json e) > 1800000"
    by (auto simp: parsePiNoCompactionInput_def rewrap_def bindR_eq_Inr js_error_def split: if_splits sum.splits)
  with same show ?thesis by auto
qed

definition short_id :: "input_envelope \<Rightarrow> bool" where
  "short_id input \<longleftrightarrow> length (en_eventId input) \<le> 4096"

lemma accepted_fits:
  assumes acc: "accepted_event (piNoCompactionHarness new_URL JSON_parse) (en_eventId input) (en_event input)" and "short_id input"
    and ty: "ev_type (en_event input) = lit ''pi_no_compaction.message''"
  shows "steering_fits input"
  unfolding steering_fits_def
proof (intro allI impI)
  fix message
  assume m: "payload_field (en_event input) ''message'' = Inr message"
  have "\<not> own_event (en_eventId input) (en_event input)"
    using ty by (auto simp: own_event_def completionEvent_def COMPLETED_EVENT_def lit_def)
  with acc obtain p where "parsePiNoCompactionInput (en_event input) = Inr p"
    by (auto simp: accepted_event_def piNoCompactionHarness_def)
  then have "json_bytes message \<le> 1800000" using parsed_input_bytes event_payload_bytes [OF m] by fastforce
  moreover have "json_bytes (JStr (en_eventId input)) \<le> 73734"
    using json_bytes_le [of "JStr (en_eventId input)"] assms(2) by (simp add: short_id_def)
  ultimately show "assertMessageSize [message, JStr (en_eventId input)] = Inr ()"
    by (simp add: assertMessageSize_def json_bytes_simps MAX_OPERATION_OUTCOME_BYTES_def)
qed

text \<open>\<open>JSON.parse\<close> throws a \<open>SyntaxError\<close>, never the harness's own failure.\<close>

definition plain_parse :: "(jstring \<Rightarrow> json res) \<Rightarrow> bool" where
  "plain_parse JSON_parse \<longleftrightarrow> (\<forall>s e. JSON_parse s = Inl e \<longrightarrow> \<not> harness_failing e)"

lemma operationId_env:
  assumes "hex64 sha" and "plain_parse JSON_parse" and "1 \<le> q" and "q \<le> MAX_SAFE_INTEGER"
  shows "pi_env_ok \<lparr>pe_tables = t, pe_config = config, pe_sessionId = i, pe_operationId = operationId sha session q, pe_JSON_parse = JSON_parse\<rparr>"
  using assms length_sequence_text [OF assms(3,4)]
  by (auto simp: pi_env_ok_def plain_parse_def operationId_def harness_failing_def hex64_def lit_def split: if_splits)

interpretation pi: harness_contract "piNoCompactionHarness new_URL JSON_parse" pi_ok
  "\<lambda>sha. hex64 sha \<and> plain_parse JSON_parse" short_id
  for new_URL JSON_parse
proof unfold_locales
  fix ctx u t
  assume "h_initialize (piNoCompactionHarness new_URL JSON_parse) ctx (h_schema (piNoCompactionHarness new_URL JSON_parse)) = (Inr u, t)"
  then show "pi_ok t"
    by (auto simp: piNoCompactionHarness_def piNoCompactionSchema_def pi_initialize_def bindA_Inr prim_defs pi_ok_def
        control_ok_def pi_running_def phase_ok_def context_entries_def)
next
  fix t sha input ctx session plan u t'
  let ?H = "piNoCompactionHarness new_URL JSON_parse"
  assume ok: "pi_ok t" and good: "hex64 sha \<and> plain_parse JSON_parse" and fits: "short_id input"
    and acc: "accepted_event ?H (en_eventId input) (en_event input)" and seq: "1 \<le> en_sequence input" "en_sequence input \<le> MAX_SAFE_INTEGER"
    and handle: "h_handle ?H input ctx (operationId sha session (en_sequence input)) t = Inr plan"
    and app: "h_apply ?H (tp_changes plan) ctx t = (Inr u, t')"
  let ?env = "\<lparr>pe_tables = t, pe_config = pi_read_config (hc_config ctx), pe_sessionId = si_sessionId (hc_session ctx),
    pe_operationId = operationId sha session (en_sequence input), pe_JSON_parse = JSON_parse\<rparr>"
  have "pi_env_ok ?env" using good seq by (intro operationId_env) auto
  moreover have "pi_input_ok input" "\<not> steering_overflow ?env input"
    using accepted_fits [OF acc fits] seq by (auto simp: pi_input_ok_def steering_overflow_def)
  ultimately have "pi_transition ?env input plan t'"
    using ok handle app by (simp add: pi_transition_def pi_any_transition_def piNoCompactionHarness_def)
  then show "pi_ok t'" by (rule pi_transition_result)
qed

section \<open>Reading the invariant\<close>

lemma pi_ok_tools:
  assumes "pi_ok t" and "pt_state t = Some s" and "ps_phase s = Pi_tools"
  obtains r cs where "r \<in> set (pt_messages t)" and "ps_active_assistant_sequence s = Some (mr_sequence r)"
    and "pi_toolCalls (mr_message r) = Inr cs" and "batch_ok (the (ps_run_id s)) (ps_next_tool_index s) cs (pt_batch t)"
    and "settled (ps_last_error_json s) (ps_next_tool_index s) cs (pt_batch t)"
    and "open_calls [] (context_entries (pt_messages t)) = Some (map tc_callId (drop (ps_next_tool_index s) cs))"
  using assms that unfolding pi_ok_def phase_ok_def pi_stored_def by auto

lemma pi_ok_elsewhere:
  assumes "pi_ok t" and "pt_state t = Some s" and "ps_phase s \<noteq> Pi_tools"
  shows "pt_batch t = []" and "open_calls [] (context_entries (pt_messages t)) = Some []"
  using assms by (auto simp: pi_ok_def phase_ok_def)

lemma tool_key_llm: "tool_key i \<noteq> lit ''llm''"
  by (simp add: tool_key_def lit_def)

lemma pi_transition_operations:
  assumes "pi_handled env input s w plan" and "op \<in> set (tp_operations plan)"
  shows "ps_phase (pw_state w) = Pi_llm \<and> pn_key op = lit ''llm'' \<or> ps_phase (pw_state w) = Pi_tools \<and> (\<exists>i. pn_key op = tool_key i)"
  using assms
  by (cases "ps_phase (pw_state w)") (auto simp: pi_handled_def pi_plan_ok_def pi_operations_ok_def tool_ops_def)

section \<open>Properties\<close>

text \<open>C19: Before every model call, every tool call of the context has been answered exactly once, in call order, before
  anything else was said: when a transition plans a model call, the stored transcript has no unanswered call, and
  the batch table is empty.\<close>

theorem model_sees_answered_calls:
  assumes "pi_transition env input plan t'" and "op \<in> set (tp_operations plan)" and "pn_key op = lit ''llm''"
  shows "open_calls [] (context_entries (pt_messages t')) = Some [] \<and> pt_batch t' = []"
proof -
  from assms(1) obtain s w qs where h: "pi_handled env input s w plan" and ok: "pi_ok t'"
    and st: "pt_state t' = Some (pi_resolve qs (pw_state w))" by (rule pi_transition_result)
  have "ps_phase (pw_state w) = Pi_llm" using pi_transition_operations [OF h assms(2)] assms(3) tool_key_llm by metis
  with pi_ok_elsewhere [OF ok st] show ?thesis by simp
qed

text \<open>C20: File mutations run one at a time and in call order. After any transition into or within the tools phase, the batch has
  one row for each call of the active assistant message, in order, and while an edit or write call is active every earlier
  edit or write call is done; so no two mutations are ever active together.\<close>

theorem mutations_in_order:
  assumes "pi_transition env input plan t'" and "pt_state t' = Some s'" and "ps_phase s' = Pi_tools"
  shows "\<exists>r cs. r \<in> set (pt_messages t') \<and> ps_active_assistant_sequence s' = Some (mr_sequence r)
    \<and> pi_toolCalls (mr_message r) = Inr cs \<and> map br_call_index (pt_batch t') = [0..<length cs]
    \<and> (\<forall>i j. i < j \<and> j < length cs \<and> isMutation (tc_name (cs ! i)) \<and> isMutation (tc_name (cs ! j))
        \<and> br_status (pt_batch t' ! j) = Active \<longrightarrow> br_status (pt_batch t' ! i) = Done)"
proof -
  from assms(1) have ok: "pi_ok t'" by (rule pi_transition_result)
  from pi_ok_tools [OF ok assms(2,3)] obtain r cs where r: "r \<in> set (pt_messages t')"
    "ps_active_assistant_sequence s' = Some (mr_sequence r)" "pi_toolCalls (mr_message r) = Inr cs"
    "batch_ok (the (ps_run_id s')) (ps_next_tool_index s') cs (pt_batch t')" .
  then show ?thesis unfolding batch_ok_def lane_ok_def mutates_def by blast
qed

text \<open>C21: A run is never stuck. After any transition, a run in the model phase waits for a planned operation; a run in the tools
  phase has a call that is active under an operation identity, and every call still queued is a mutation that
  waits for an active mutation. So some completion is always under way that moves the run.\<close>

theorem run_never_stuck:
  assumes "pi_transition env input plan t'" and "pt_state t' = Some s'"
  shows "(ps_phase s' = Pi_llm \<longrightarrow> ps_active_operation_id s' \<noteq> None)
    \<and> (ps_phase s' = Pi_tools \<longrightarrow> (\<exists>r \<in> set (pt_batch t'). br_status r = Active \<and> br_operation_id r \<noteq> None)
        \<and> (\<forall>r \<in> set (pt_batch t'). br_status r = Queued \<longrightarrow> ps_last_error_json s' = None
            \<and> (\<exists>m cs. m \<in> set (pt_messages t') \<and> ps_active_assistant_sequence s' = Some (mr_sequence m)
                \<and> pi_toolCalls (mr_message m) = Inr cs \<and> isMutation (tc_name (cs ! br_call_index r))
                \<and> (\<exists>r' \<in> set (pt_batch t'). br_status r' = Active \<and> isMutation (tc_name (cs ! br_call_index r'))))))"
proof -
  from assms(1) have ok: "pi_ok t'" by (rule pi_transition_result)
  have "control_ok s'" using ok assms(2) by (auto simp: pi_ok_def)
  moreover have "(\<exists>r \<in> set (pt_batch t'). br_status r = Active \<and> br_operation_id r \<noteq> None)
      \<and> (\<forall>r \<in> set (pt_batch t'). br_status r = Queued \<longrightarrow> ps_last_error_json s' = None
            \<and> (\<exists>m cs. m \<in> set (pt_messages t') \<and> ps_active_assistant_sequence s' = Some (mr_sequence m)
                \<and> pi_toolCalls (mr_message m) = Inr cs \<and> isMutation (tc_name (cs ! br_call_index r))
                \<and> (\<exists>r' \<in> set (pt_batch t'). br_status r' = Active \<and> isMutation (tc_name (cs ! br_call_index r')))))"
    if tools: "ps_phase s' = Pi_tools"
  proof -
    from pi_ok_tools [OF ok assms(2) tools] obtain m cs where m: "m \<in> set (pt_messages t')"
      "ps_active_assistant_sequence s' = Some (mr_sequence m)" "pi_toolCalls (mr_message m) = Inr cs"
      and b: "batch_ok (the (ps_run_id s')) (ps_next_tool_index s') cs (pt_batch t')"
      and set: "settled (ps_last_error_json s') (ps_next_tool_index s') cs (pt_batch t')" .
    note len = batch_ok_length [OF b] and idx = batch_ok_index [OF b]
    obtain j where j: "j < length cs" "br_status (pt_batch t' ! j) = Active" using settled_active [OF set] by blast
    then have "br_operation_id (pt_batch t' ! j) \<noteq> None" using batch_ok_cell [OF b j(1)] by (simp add: cell_ok_def)
    then have "\<exists>r \<in> set (pt_batch t'). br_status r = Active \<and> br_operation_id r \<noteq> None" using j len by (metis nth_mem)
    moreover have "ps_last_error_json s' = None \<and> isMutation (tc_name (cs ! br_call_index r))
        \<and> (\<exists>r' \<in> set (pt_batch t'). br_status r' = Active \<and> isMutation (tc_name (cs ! br_call_index r')))"
      if "r \<in> set (pt_batch t')" "br_status r = Queued" for r
    proof -
      obtain i where i: "i < length cs" "r = pt_batch t' ! i" using \<open>r \<in> set (pt_batch t')\<close> len by (metis in_set_conv_nth)
      with set \<open>br_status r = Queued\<close> have w: "ps_last_error_json s' = None" "mutates cs i" "lane_busy cs (pt_batch t')"
        unfolding settled_def lane_waits_def by blast+
      then show ?thesis using i idx len unfolding mutates_def lane_busy_def by (metis nth_mem)
    qed
    ultimately show ?thesis using m by blast
  qed
  ultimately show ?thesis by (auto simp: control_ok_def)
qed

text \<open>C22: The operations of a transition are exactly what its tables newly wait for, each planned once. A planned model call has the
  operation identity the state waits for, and a state that waits for a model call with none planned waited for the same one before. A
  planned tool operation belongs to a row of the batch that is active under its identity and was not active before, and every
  active row was active before, unchanged, or has its operation planned now: no call is started twice and none is marked active
  without an operation.\<close>

theorem operations_match_tables:
  assumes "pi_transition env input plan t'" and "pt_state (pe_tables env) = Some s" and "pt_state t' = Some s'"
  shows "distinct (map pn_key (tp_operations plan))
    \<and> (\<forall>op \<in> set (tp_operations plan). \<exists>oid. pe_operationId env (pn_key op) = Inr oid
      \<and> (ps_phase s' = Pi_llm \<and> pn_key op = lit ''llm'' \<and> ps_active_operation_id s' = Some oid
         \<or> ps_phase s' = Pi_tools \<and> (\<exists>i < length (pt_batch t'). pn_key op = tool_key i \<and> br_status (pt_batch t' ! i) = Active
             \<and> br_operation_id (pt_batch t' ! i) = Some oid
             \<and> \<not> (i < length (pt_batch (pe_tables env)) \<and> br_status (pt_batch (pe_tables env) ! i) = Active))))
    \<and> (ps_phase s' = Pi_llm \<and> tp_operations plan = [] \<longrightarrow> ps_active_operation_id s' = ps_active_operation_id s)
    \<and> (\<forall>i < length (pt_batch t'). br_status (pt_batch t' ! i) = Active \<longrightarrow>
         i < length (pt_batch (pe_tables env)) \<and> pt_batch (pe_tables env) ! i = pt_batch t' ! i
       \<or> (\<exists>op \<in> set (tp_operations plan). pn_key op = tool_key i))"
proof -
  from assms(1) obtain s0 w qs where h: "pi_handled env input s0 w plan" and batch: "pt_batch t' = planned_batch env w"
    and st: "pt_state t' = Some (pi_resolve qs (pw_state w))" and ok: "pi_ok t'" by (rule pi_transition_result)
  have s: "s0 = s" using h assms(2) by (simp add: pi_handled_def pi_starting_def)
  have ops: "pi_operations_ok env s w" "tp_operations plan = pw_operations w" using h s by (simp_all add: pi_handled_def pi_plan_ok_def)
  have s': "ps_phase s' = ps_phase (pw_state w)" "ps_active_operation_id s' = ps_active_operation_id (pw_state w)"
    using assms(3) st by auto
  show ?thesis
  proof (cases "ps_phase (pw_state w) = Pi_tools")
    case True
    with ops have t: "tool_ops env (pt_batch t') (tp_operations plan)" by (simp add: pi_operations_ok_def batch)
    with True show ?thesis unfolding s' tool_ops_def under_way_def by auto
  next
    case False
    with pi_ok_elsewhere [OF ok st] have "pt_batch t' = []" by simp
    with ops False show ?thesis unfolding s' by (cases "ps_phase (pw_state w)") (auto simp: pi_operations_ok_def)
  qed
qed

text \<open>C23: A transition into a failed or cancelled run plans no operation, waits for none, clears the cancellation request and records an error
  exactly when the run failed. It leaves nothing of the run behind: the batch is empty and no call of the context is unanswered.
  The one exception is a message that arrives while a batch is under way and does not fit the steering table: it fails the
  run, and the batch and the transcript, with the unanswered calls in it, stay exactly as they were.\<close>

theorem stopped_run_is_clean:
  assumes "pi_any_transition env input plan t'" and "pt_state t' = Some s'" and "ps_phase s' = Pi_failed \<or> ps_phase s' = Pi_cancelled"
  shows "tp_operations plan = [] \<and> ps_active_operation_id s' = None \<and> \<not> ps_cancel_requested s'
    \<and> (ps_last_error_json s' \<noteq> None \<longleftrightarrow> ps_phase s' = Pi_failed)
    \<and> (if steering_overflow env input
        then ps_phase s' = Pi_failed \<and> pt_batch t' = pt_batch (pe_tables env) \<and> pt_messages t' = pt_messages (pe_tables env)
        else pt_batch t' = [] \<and> open_calls [] (context_entries (pt_messages t')) = Some [])"
proof (cases "steering_overflow env input")
  case True
  with overflow_result [OF assms(1)] assms(2) show ?thesis by auto
next
  case False
  with assms(1) have tr: "pi_transition env input plan t'" by (simp add: pi_transition_def)
  then obtain s w qs where h: "pi_handled env input s w plan" and ok: "pi_ok t'"
    and st: "pt_state t' = Some (pi_resolve qs (pw_state w))" by (rule pi_transition_result)
  have "control_ok s'" using ok assms(2) by (auto simp: pi_ok_def)
  moreover have "tp_operations plan = []" using h st assms(2,3) by (auto simp: pi_handled_def pi_plan_ok_def pi_operations_ok_def)
  moreover have "ps_phase s' \<noteq> Pi_tools" using assms(3) by auto
  ultimately show ?thesis using False pi_ok_elsewhere [OF ok assms(2)] assms(3) by (auto simp: control_ok_def pi_running_def)
qed

section \<open>A concrete session\<close>

definition pi_demo_parse :: "jstring \<Rightarrow> json res" where
  "pi_demo_parse s = Inr (if s = lit ''w'' then obj [(''path'', str ''/a''), (''content'', str ''x'')] else obj [(''path'', str ''/a'')])"

definition pi_demo_config :: pi_config where
  "pi_demo_config = \<lparr>pc_provider = Openai, pc_modelId = lit ''gpt-5.6-sol'', pc_accountId = lit ''1a0a0a0a-0b0b-4c0c-8d0d-0e0e0e0e0e0e'',
     pc_reasoning = lit ''medium'', pc_machineId = lit ''0a0a0a0a-0b0b-4c0c-8d0d-0e0e0e0e0e0e'',
     pc_executionGatewayUrl = lit ''https://gw.example'', pc_executionToken = lit ''me1.0a0a0a0a-0b0b-4c0c-8d0d-0e0e0e0e0e0e.7.'' @ replicate 43 65,
     pc_cwd = lit ''/work'', pc_maxOutputTokens = 128000\<rparr>"

definition pi_demo_state :: pi_state where
  "pi_demo_state = \<lparr>ps_phase = Pi_llm, ps_run_id = Some (lit ''run_1''), ps_active_operation_id = Some (lit ''op-1''),
     ps_active_assistant_sequence = None, ps_next_tool_index = 0, ps_turn_count = 1, ps_cancel_requested = False, ps_last_error_json = None\<rparr>"

definition pi_demo_user :: message_row where
  "pi_demo_user = \<lparr>mr_sequence = 1, mr_message = obj [(''role'', str ''user''), (''content'', JArr [obj [(''type'', str ''text''), (''text'', str ''go'')]])],
     mr_in_context = True, mr_run_id = Some (lit ''run_1''), mr_source_event_id = Some (lit ''e1''), mr_source_operation_id = None,
     mr_response_metadata = None\<rparr>"

definition pi_demo_tables :: pi_tables where
  "pi_demo_tables = \<lparr>pt_state = Some pi_demo_state, pt_messages = [pi_demo_user], pt_pending = [], pt_batch = []\<rparr>"

definition pi_demo_env :: "pi_tables \<Rightarrow> pi_env" where
  "pi_demo_env t = \<lparr>pe_tables = t, pe_config = pi_demo_config, pe_sessionId = lit ''s1'',
     pe_operationId = (\<lambda>key. Inr (take 100 key)), pe_JSON_parse = pi_demo_parse\<rparr>"

definition pi_demo_item :: "string \<Rightarrow> string \<Rightarrow> string \<Rightarrow> json" where
  "pi_demo_item c n a = obj [(''type'', str ''function_call''), (''name'', str n), (''call_id'', str c),
     (''arguments'', str a), (''status'', str ''completed'')]"

definition pi_demo_assistant :: "json list \<Rightarrow> json" where
  "pi_demo_assistant items = obj [(''role'', str ''assistant''), (''provider'', str ''openai''), (''content'', JArr items)]"

text \<open>Two writes and a read.\<close>

definition pi_demo_response :: json where
  "pi_demo_response = obj [(''gatewayJobId'', str ''j''), (''response'', obj [(''id'', str ''r1''), (''modelId'', str ''gpt-5.6-sol''),
     (''message'', pi_demo_assistant [pi_demo_item ''c1'' ''write'' ''w'', pi_demo_item ''c2'' ''write'' ''w'',
       pi_demo_item ''c3'' ''read'' ''r'']), (''stopReason'', str ''tool_use''), (''durationMs'', JNum (NInt 3)), (''timestamp'', JNum (NInt 9))])]"

definition pi_demo_completion :: "operation_outcome \<Rightarrow> input_envelope" where
  "pi_demo_completion outcome = \<lparr>en_eventId = lit ''e4'', en_sequence = 2, en_receivedAt = 9,
     en_event = completionEvent (lit ''op-1'') (lit ''p'') (Some (lit ''j'')) outcome\<rparr>"


definition pi_demo_result :: json where
  "pi_demo_result = obj [(''isError'', JBool False), (''content'', JArr [obj [(''type'', str ''text''), (''text'', str ''a'')]]),
     (''details'', JObj [])]"

text \<open>The tables while a single read call runs.\<close>

definition pi_tool_row :: message_row where
  "pi_tool_row = \<lparr>mr_sequence = 2, mr_message = pi_demo_assistant [pi_demo_item ''c1'' ''read'' ''r''],
     mr_in_context = True, mr_run_id = Some (lit ''run_1''), mr_source_event_id = None, mr_source_operation_id = Some (lit ''op-0''),
     mr_response_metadata = Some JNull\<rparr>"

definition pi_tool_state :: pi_state where
  "pi_tool_state = pi_demo_state\<lparr>ps_phase := Pi_tools, ps_active_operation_id := None, ps_active_assistant_sequence := Some 2\<rparr>"

definition pi_tool_tables :: pi_tables where
  "pi_tool_tables = \<lparr>pt_state = Some pi_tool_state,
     pt_messages = [pi_demo_user, pi_tool_row], pt_pending = [],
     pt_batch = [\<lparr>br_call_index = 0, br_status = Active, br_operation_id = Some (lit ''op-1''), br_result_json = None\<rparr>]\<rparr>"

definition pi_demo_run :: "pi_tables \<Rightarrow> operation_outcome \<Rightarrow> (pi_changes transition_plan \<times> pi_tables) option" where
  "pi_demo_run t outcome = (case pi_handle (pi_demo_env t) (pi_demo_completion outcome) of Inl e \<Rightarrow> None
     | Inr plan \<Rightarrow> (case pi_apply (tp_changes plan) t of (Inl e, t') \<Rightarrow> None | (Inr u, t') \<Rightarrow> Some (plan, t')))"

lemma pi_demo_env_ok: "pi_env_ok (pi_demo_env t)"
  by (auto simp: pi_env_ok_def pi_demo_env_def pi_demo_parse_def min_def)

lemma pi_demo_input_ok: "pi_input_ok (pi_demo_completion outcome)"
  by (simp add: pi_input_ok_def pi_demo_completion_def MAX_SAFE_INTEGER_def)

lemma pi_demo_no_overflow: "\<not> steering_overflow env (pi_demo_completion outcome)"
  by (simp add: steering_overflow_def pi_demo_completion_def completionEvent_def COMPLETED_EVENT_def lit_def)

lemma pi_demo_transition:
  assumes "pi_ok t" and "pi_demo_run t outcome = Some (plan, t')"
  shows "pi_transition (pi_demo_env t) (pi_demo_completion outcome) plan t'"
  using assms pi_demo_env_ok pi_demo_input_ok pi_demo_no_overflow
  by (auto simp: pi_demo_run_def pi_transition_def pi_any_transition_def pi_demo_env_def split: sum.splits prod.splits)

lemma pi_demo_tables_ok: "pi_ok pi_demo_tables"
  by (simp add: pi_ok_def pi_demo_tables_def pi_demo_state_def control_ok_def pi_running_def phase_ok_def context_entries_def
      row_entry_def pi_demo_user_def lit_def)

definition pi_tool_calls :: "pi_call list" where
  "pi_tool_calls = [\<lparr>tc_callId = lit ''c1'', tc_name = Read, tc_arguments = lit ''r''\<rparr>]"

lemma pi_tool_tables_ok: "pi_ok pi_tool_tables"
proof -
  have calls: "pi_toolCalls (pi_demo_assistant [pi_demo_item ''c1'' ''read'' ''r'']) = Inr pi_tool_calls" by code_simp
  have batch: "batch_ok (lit ''run_1'') 0 pi_tool_calls (pt_batch pi_tool_tables)"
    by (simp add: batch_ok_def pi_tool_calls_def pi_tool_tables_def cell_ok_def lane_ok_def short_def lit_def)
  moreover have "settled None 0 pi_tool_calls (pt_batch pi_tool_tables)"
    by (simp add: settled_def lane_waits_def pi_tool_calls_def pi_tool_tables_def)
  moreover have "open_calls [] (context_entries (pt_messages pi_tool_tables)) = Some (map tc_callId pi_tool_calls)"
    using calls by (simp add: context_entries_def row_entry_def pi_tool_tables_def pi_demo_user_def pi_tool_row_def call_ids_def)
  moreover have "pi_stored (pt_messages pi_tool_tables) 2 pi_tool_calls"
    using calls by (simp add: pi_stored_def pi_tool_tables_def pi_tool_row_def)
  ultimately have "phase_ok (pi_stored (pt_messages pi_tool_tables)) (open_calls [] (context_entries (pt_messages pi_tool_tables)))
      (pt_batch pi_tool_tables) pi_tool_state"
    by (simp add: phase_ok_def pi_tool_state_def pi_demo_state_def) blast
  moreover have "control_ok pi_tool_state"
    by (simp add: pi_tool_state_def pi_demo_state_def control_ok_def pi_running_def lit_def)
  moreover have "pt_state pi_tool_tables = Some pi_tool_state" "ps_phase pi_tool_state \<noteq> Pi_idle"
    "sorted_wrt (<) (0 # map mr_sequence (pt_messages pi_tool_tables))"
    by (simp_all add: pi_tool_tables_def pi_tool_state_def pi_demo_user_def pi_tool_row_def)
  ultimately show ?thesis unfolding pi_ok_def by blast
qed

lemma pi_demo_batch:
  "\<exists>plan t' s'. pi_demo_run pi_demo_tables (Succeeded pi_demo_response) = Some (plan, t') \<and> pt_state t' = Some s'
    \<and> ps_phase s' = Pi_tools \<and> map br_status (pt_batch t') = [Active, Queued, Active]
    \<and> map pn_key (tp_operations plan) = [lit ''tool:0'', lit ''tool:2'']"
proof -
  have "case pi_demo_run pi_demo_tables (Succeeded pi_demo_response) of None \<Rightarrow> False | Some (plan, t') \<Rightarrow>
      map_option ps_phase (pt_state t') = Some Pi_tools \<and> map br_status (pt_batch t') = [Active, Queued, Active]
      \<and> map pn_key (tp_operations plan) = [lit ''tool:0'', lit ''tool:2'']" by code_simp
  then show ?thesis by (auto split: option.splits prod.splits)
qed

theorem model_sees_answered_calls_witness:
  "\<exists>plan t'. pi_demo_run pi_tool_tables (Succeeded pi_demo_result) = Some (plan, t') \<and> map pn_key (tp_operations plan) = [lit ''llm'']
    \<and> open_calls [] (context_entries (pt_messages t')) = Some [] \<and> pt_batch t' = []"
proof -
  have "case pi_demo_run pi_tool_tables (Succeeded pi_demo_result) of None \<Rightarrow> False | Some (plan, t') \<Rightarrow>
      map pn_key (tp_operations plan) = [lit ''llm'']" by code_simp
  then obtain plan t' where run: "pi_demo_run pi_tool_tables (Succeeded pi_demo_result) = Some (plan, t')"
    and ops: "map pn_key (tp_operations plan) = [lit ''llm'']" by (auto split: option.splits prod.splits)
  from ops obtain op where "op \<in> set (tp_operations plan)" "pn_key op = lit ''llm''" by (auto simp: map_eq_Cons_conv)
  from model_sees_answered_calls [OF pi_demo_transition [OF pi_tool_tables_ok run] this] run ops show ?thesis by (intro exI [of _ plan] exI [of _ t']) simp
qed

theorem mutations_in_order_witness:
  "\<exists>plan t' r cs. pi_demo_run pi_demo_tables (Succeeded pi_demo_response) = Some (plan, t') \<and> r \<in> set (pt_messages t')
    \<and> pi_toolCalls (mr_message r) = Inr cs \<and> map br_call_index (pt_batch t') = [0..<length cs]"
proof -
  obtain plan t' s' where run: "pi_demo_run pi_demo_tables (Succeeded pi_demo_response) = Some (plan, t')"
    and s: "pt_state t' = Some s'" "ps_phase s' = Pi_tools" using pi_demo_batch by (elim exE conjE)
  from mutations_in_order [OF pi_demo_transition [OF pi_demo_tables_ok run] s] run show ?thesis by blast
qed

theorem run_never_stuck_witness:
  "\<exists>plan t'. pi_demo_run pi_demo_tables (Succeeded pi_demo_response) = Some (plan, t')
    \<and> (\<exists>r \<in> set (pt_batch t'). br_status r = Active \<and> br_operation_id r \<noteq> None)"
proof -
  obtain plan t' s' where run: "pi_demo_run pi_demo_tables (Succeeded pi_demo_response) = Some (plan, t')"
    and s: "pt_state t' = Some s'" "ps_phase s' = Pi_tools" using pi_demo_batch by (elim exE conjE)
  from run_never_stuck [OF pi_demo_transition [OF pi_demo_tables_ok run] s(1)] s(2) run show ?thesis by blast
qed

theorem operations_match_tables_witness:
  "\<exists>plan t'. pi_demo_run pi_demo_tables (Succeeded pi_demo_response) = Some (plan, t')
    \<and> map pn_key (tp_operations plan) = [lit ''tool:0'', lit ''tool:2'']
    \<and> (\<exists>r \<in> set (pt_batch t'). br_status r = Active \<and> br_operation_id r = Some (lit ''tool:2''))"
proof -
  obtain plan t' s' where run: "pi_demo_run pi_demo_tables (Succeeded pi_demo_response) = Some (plan, t')"
    and s: "pt_state t' = Some s'" "ps_phase s' = Pi_tools" and ops: "map pn_key (tp_operations plan) = [lit ''tool:0'', lit ''tool:2'']"
    using pi_demo_batch by (elim exE conjE)
  have len: "length (tp_operations plan) = 2" using arg_cong [OF ops, of length] by simp
  then have "pn_key (tp_operations plan ! 1) = lit ''tool:2''" using arg_cong [OF ops, of "\<lambda>l. l ! 1"] by simp
  moreover have "tp_operations plan ! 1 \<in> set (tp_operations plan)" using len by simp
  ultimately obtain op where op: "op \<in> set (tp_operations plan)" "pn_key op = lit ''tool:2''" by simp
  have old: "pt_state (pe_tables (pi_demo_env pi_demo_tables)) = Some pi_demo_state" by (simp add: pi_demo_env_def pi_demo_tables_def)
  have key: "pe_operationId (pi_demo_env pi_demo_tables) (lit ''tool:2'') = Inr (lit ''tool:2'')" by (simp add: pi_demo_env_def lit_def)
  have "\<forall>op \<in> set (tp_operations plan). \<exists>oid. pe_operationId (pi_demo_env pi_demo_tables) (pn_key op) = Inr oid
      \<and> (\<exists>i < length (pt_batch t'). br_status (pt_batch t' ! i) = Active \<and> br_operation_id (pt_batch t' ! i) = Some oid)"
    using operations_match_tables [OF pi_demo_transition [OF pi_demo_tables_ok run] old s(1)] s(2) by fastforce
  from bspec [OF this op(1)] obtain i where "i < length (pt_batch t')" "br_status (pt_batch t' ! i) = Active"
    "br_operation_id (pt_batch t' ! i) = Some (lit ''tool:2'')" by (auto simp: op(2) key)
  then have "\<exists>r \<in> set (pt_batch t'). br_status r = Active \<and> br_operation_id r = Some (lit ''tool:2'')" by (metis nth_mem)
  with run ops show ?thesis by (intro exI [of _ plan] exI [of _ t']) simp
qed

theorem stopped_run_is_clean_witness:
  "\<exists>plan t'. pi_demo_run pi_demo_tables Cancelled = Some (plan, t') \<and> map_option ps_phase (pt_state t') = Some Pi_failed
    \<and> tp_operations plan = [] \<and> pt_batch t' = [] \<and> open_calls [] (context_entries (pt_messages t')) = Some []"
proof -
  have "case pi_demo_run pi_demo_tables Cancelled of None \<Rightarrow> False | Some (plan, t') \<Rightarrow>
      map_option ps_phase (pt_state t') = Some Pi_failed" by code_simp
  then obtain plan t' s' where run: "pi_demo_run pi_demo_tables Cancelled = Some (plan, t')"
    and s: "pt_state t' = Some s'" "ps_phase s' = Pi_failed" by (auto split: option.splits prod.splits)
  have "pi_any_transition (pi_demo_env pi_demo_tables) (pi_demo_completion Cancelled) plan t'"
    using pi_demo_transition [OF pi_demo_tables_ok run] by (simp add: pi_transition_def)
  from stopped_run_is_clean [OF this s(1)] s pi_demo_no_overflow run show ?thesis by (intro exI [of _ plan] exI [of _ t']) simp
qed

section \<open>The invariant of a session\<close>

text \<open>A step of the runtime with the harness, in a session whose next input, if any, has an event ID of at most 4096 units.\<close>

definition pi_session_step ::
  "(jstring \<Rightarrow> jstring) \<Rightarrow> url_parser \<Rightarrow> (jstring \<Rightarrow> json res) \<Rightarrow> (pi_tables, pi_changes) runtime \<Rightarrow> (pi_tables, pi_changes) runtime \<Rightarrow> bool" where
  "pi_session_step sha new_URL JSON_parse rt rt' \<longleftrightarrow> rt_step sha (piNoCompactionHarness new_URL JSON_parse) rt rt'
     \<and> (\<forall>input. nextInput (st_inbox (rt_store rt)) = Some input \<longrightarrow> short_id input)"

lemma pi_session_step_fit: "pi_session_step sha new_URL JSON_parse = pi.fit_step new_URL JSON_parse sha"
  by (simp add: fun_eq_iff pi_session_step_def pi.fit_step_def)

text \<open>C18: As long as every input that reaches the head of its inbox has an event ID of at most 4096 units, the tables of a session of the
  pi-no-compaction harness are well-formed after any sequence of inputs, completions, failures and restarts:
  the model operation, the run, the cancellation flag, the recorded error and the batch are those of the phase; the batch has one row
  for each call of the active assistant message, finished results are stored until their turn and then cleared; the calls not
  yet flushed are exactly the unanswered calls of the transcript; an idle session has no waiting steering; and the transcript is
  numbered in increasing order. The bound keeps a message and its event ID within the
  steering table's limit; it also relies on SHA-256 giving 64 hex digits and on \<open>JSON.parse\<close> throwing errors of its own.\<close>

theorem pi_invariant:
  assumes "newRuntime (piNoCompactionHarness new_URL JSON_parse) None = Inr rt0" and "hex64 sha" and "plain_parse JSON_parse"
    and "(pi_session_step sha new_URL JSON_parse)\<^sup>*\<^sup>* rt0 rt" and "st_session (rt_store rt) = Some info"
  shows "pi_ok (st_harness (rt_store rt))"
  using pi.session_inv [OF assms(1) _ _ assms(5)] assms(2-4) by (simp add: pi_session_step_fit)

definition pi_demo_url :: url_parser where
  "pi_demo_url s = Some \<lparr>up_protocol = lit ''https:'', up_hostname = lit ''gw.example'', up_username = [], up_password = [],
     up_search = [], up_hash = [], up_pathname = lit ''/'', up_origin = lit ''https://gw.example''\<rparr>"

definition pi_demo_harness :: "(pi_tables, pi_changes) harness" where
  "pi_demo_harness = piNoCompactionHarness pi_demo_url pi_demo_parse"

definition pi_demo_start :: "(pi_tables, pi_changes) runtime" where
  "pi_demo_start = \<lparr>rt_store = \<lparr>st_session = None, st_inbox = [], st_pending = [], st_harness = piNoCompactionSchema\<rparr>,
     rt_session = None, rt_prepared = None\<rparr>"

definition pi_demo_info :: session_info where
  "pi_demo_info = \<lparr>sn_identity = \<lparr>si_sessionId = lit ''s1'', si_harness = PI_NO_COMPACTION_IDENTITY\<rparr>,
     sn_config = pi_config_json pi_demo_config, sn_createdAt = 5\<rparr>"

definition pi_fresh_tables :: pi_tables where
  "pi_fresh_tables = \<lparr>pt_state = Some \<lparr>ps_phase = Pi_idle, ps_run_id = None, ps_active_operation_id = None,
       ps_active_assistant_sequence = None, ps_next_tool_index = 0, ps_turn_count = 0, ps_cancel_requested = False,
       ps_last_error_json = None\<rparr>, pt_messages = [], pt_pending = [], pt_batch = []\<rparr>"

definition pi_demo_open :: "(pi_tables, pi_changes) runtime" where
  "pi_demo_open = \<lparr>rt_store = \<lparr>st_session = Some pi_demo_info, st_inbox = [], st_pending = [], st_harness = pi_fresh_tables\<rparr>,
     rt_session = Some pi_demo_info, rt_prepared = None\<rparr>"

definition pi_demo_request :: json where
  "pi_demo_request = obj [(''session'', obj [(''sessionId'', str ''s1''),
     (''harness'', obj [(''id'', str ''pi-no-compaction''), (''version'', str ''v1'')])]), (''config'', pi_config_json pi_demo_config)]"

lemma pi_demo_fresh: "newRuntime pi_demo_harness None = Inr pi_demo_start"
proof -
  have "operationDefinitions (Some (JArr (map definition_json (LLM_OPERATION # TOOL_OPERATIONS)))) = Inr (LLM_OPERATION # TOOL_OPERATIONS)"
    by code_simp
  moreover have "parseInitializeSessionRequest (Some (obj [(''session'', obj [(''sessionId'', str ''runtime''),
      (''harness'', obj [(''id'', JStr (hi_id PI_NO_COMPACTION_IDENTITY)), (''version'', JStr (hi_version PI_NO_COMPACTION_IDENTITY))])]),
      (''config'', JNull)])) =
      Inr \<lparr>is_session = \<lparr>si_sessionId = lit ''runtime'', si_harness = PI_NO_COMPACTION_IDENTITY\<rparr>, is_config = JNull\<rparr>" by code_simp
  ultimately show ?thesis
    by (simp add: newRuntime_def pi_demo_harness_def piNoCompactionHarness_def bootstrap_def findSession_def pi_demo_start_def Let_def)
qed

lemma pi_demo_initialize: "initialize pi_demo_harness (Some pi_demo_request) 5 pi_demo_start = (Inr (pi_demo_info, False), pi_demo_open)"
proof -
  have "parseInitializeSessionRequest (Some pi_demo_request)
      = Inr \<lparr>is_session = sn_identity pi_demo_info, is_config = pi_config_json pi_demo_config\<rparr>" by code_simp
  moreover have "parsePiNoCompactionConfig pi_demo_url (pi_config_json pi_demo_config) = Inr pi_demo_config" by code_simp
  ultimately show ?thesis
    using initialize_new [of "Some pi_demo_request" "\<lparr>is_session = sn_identity pi_demo_info, is_config = pi_config_json pi_demo_config\<rparr>"
        pi_demo_harness pi_demo_start "pi_config_json pi_demo_config" 5 5 pi_fresh_tables]
    by (simp add: checkHarness_def pi_demo_harness_def piNoCompactionHarness_def pi_demo_info_def pi_demo_start_def pi_demo_open_def
        timestamp_def MAX_SAFE_INTEGER_def pi_initialize_def constraint_def guardR_def act_defs piNoCompactionSchema_def pi_fresh_tables_def)
qed

theorem pi_invariant_witness: "pi_ok (st_harness (rt_store pi_demo_open))"
proof (rule pi_invariant)
  show "newRuntime (piNoCompactionHarness pi_demo_url pi_demo_parse) None = Inr pi_demo_start"
    using pi_demo_fresh by (simp add: pi_demo_harness_def)
  show "hex64 zero_sha" by (simp add: hex64_def zero_sha_def is_lower_hex_def is_digit_def list_all_iff)
  show "plain_parse pi_demo_parse" by (simp add: plain_parse_def pi_demo_parse_def)
  have "nextInput (st_inbox (rt_store pi_demo_start)) = None" by (simp add: pi_demo_start_def nextInput_def head_row_def waiting_rows_def)
  then show "(pi_session_step zero_sha pi_demo_url pi_demo_parse)\<^sup>*\<^sup>* pi_demo_start pi_demo_open"
    using step_initialize [OF pi_demo_initialize] by (auto simp: pi_session_step_def pi_demo_harness_def)
  show "st_session (rt_store pi_demo_open) = Some pi_demo_info" by (simp add: pi_demo_open_def)
qed

end
