(* ===== verification/Doubles.thy ===== *)
theory Doubles
  imports Main "HOL-Library.Code_Target_Numeral"
begin

text \<open>
  JavaScript numbers where the code computes with fractions. A nonnegative number is a fraction \<open>(p, q)\<close> with \<open>q > 0\<close>; the result of
  an arithmetic operation is the double nearest to the exact result (53 bits, ties to even). The exponent range is not reached by
  the numbers of the code. \<open>nearest_double\<close> never crosses a multiple of one half, which is what bounds on rounded results rest on.
\<close>

fun bit_count :: "nat \<Rightarrow> nat" where
  "bit_count n = (if n = 0 then 0 else Suc (bit_count (n div 2)))"

declare bit_count.simps [simp del]

definition round_half_even :: "nat \<Rightarrow> nat \<Rightarrow> nat" where
  "round_half_even p q = (let d = p div q; r = p mod q in if 2 * r < q \<or> 2 * r = q \<and> even d then d else d + 1)"

definition scale_two :: "nat \<times> nat \<Rightarrow> int \<Rightarrow> nat \<times> nat" where
  "scale_two x s = (if s \<ge> 0 then (fst x * 2 ^ nat s, snd x) else (fst x, snd x * 2 ^ nat (- s)))"

definition nearest_double :: "nat \<times> nat \<Rightarrow> nat \<times> nat" where
  "nearest_double x = (if fst x = 0 then (0, 1) else
     let s0 = 53 - (int (bit_count (fst x)) - int (bit_count (snd x)));
         y0 = scale_two x s0;
         s = (if fst y0 \<ge> 2 ^ 53 * snd y0 then s0 - 1 else s0);
         y = scale_two x s in
     scale_two (round_half_even (fst y) (snd y), 1) (- s))"

text \<open>\<open>Math.round\<close>: half up.\<close>

definition math_round :: "nat \<times> nat \<Rightarrow> nat" where
  "math_round x = (2 * fst x + snd x) div (2 * snd x)"

section \<open>Rounding keeps bounds\<close>

lemma bit_count_bounds: "n < 2 ^ bit_count n" "0 < n \<Longrightarrow> 2 ^ bit_count n \<le> 2 * n"
proof (induction n rule: bit_count.induct)
  case (1 n)
  show "n < 2 ^ bit_count n"
    using 1(1) by (cases "n = 0") (subst bit_count.simps; simp; linarith)+
  show "2 ^ bit_count n \<le> 2 * n" if "0 < n"
  proof (cases "n div 2 = 0")
    case True
    with that have "n = 1" by simp
    then show ?thesis by (simp add: bit_count.simps)
  next
    case False
    then have "2 ^ bit_count (n div 2) \<le> 2 * (n div 2)" using 1(2) that by simp
    then show ?thesis using that by (subst bit_count.simps) simp
  qed
qed

lemma round_half_even_ge: "0 < q \<Longrightarrow> n * q \<le> p \<Longrightarrow> n \<le> round_half_even p q"
  by (auto simp: round_half_even_def Let_def less_eq_div_iff_mult_less_eq intro: le_SucI)

lemma round_half_even_le:
  assumes "0 < q" and "p \<le> n * q"
  shows "round_half_even p q \<le> n"
proof (cases "p div q = n")
  case True
  then have "p mod q = 0" using assms by (metis div_mult_mod_eq le_add_same_cancel1 le_antisym add.right_neutral nat_add_left_cancel_le zero_le)
  with True assms show ?thesis by (simp add: round_half_even_def)
next
  case False
  moreover have "p div q \<le> n" using assms by (metis div_le_mono div_mult_self_is_m)
  ultimately show ?thesis by (auto simp: round_half_even_def Let_def)
qed

text \<open>The scale of a number below \<open>2 ^ 52\<close> has at least one binary place.\<close>

lemma nearest_double_scale:
  assumes "0 < p" and "0 < q" and "p < 2 ^ 52 * q"
  obtains k where "nearest_double (p, q) = (round_half_even (p * 2 ^ Suc k) q, 2 ^ Suc k)"
proof -
  define s0 where "s0 = 53 - (int (bit_count p) - int (bit_count q))"
  define s where "s = (if fst (scale_two (p, q) s0) \<ge> 2 ^ 53 * snd (scale_two (p, q) s0) then s0 - 1 else s0)"
  have pos: "s0 \<ge> 1"
  proof (rule ccontr)
    assume "\<not> s0 \<ge> 1"
    then have "bit_count p \<ge> bit_count q + 53" unfolding s0_def by linarith
    then have "2 ^ (bit_count q + 53) \<le> (2 ^ bit_count p :: nat)" by (intro power_increasing) auto
    also have "\<dots> \<le> 2 * p" using bit_count_bounds(2) assms(1) by blast
    finally have "2 ^ 53 * 2 ^ bit_count q \<le> 2 * p" by (simp add: power_add mult.commute)
    moreover have "2 ^ 53 * q < 2 ^ 53 * 2 ^ bit_count q" using bit_count_bounds(1) [of q] by simp
    ultimately show False using assms(3) by simp
  qed
  have "s \<ge> 1"
  proof (cases "s0 = 1")
    case True
    with assms(3) show ?thesis by (simp add: s_def scale_two_def)
  next
    case False
    with pos show ?thesis by (simp add: s_def)
  qed
  then have k: "s = int (Suc (nat (s - 1)))" by simp
  have "nearest_double (p, q) = scale_two (round_half_even (fst (scale_two (p, q) s)) (snd (scale_two (p, q) s)), 1) (- s)"
    using assms(1) unfolding nearest_double_def s_def s0_def by (simp add: Let_def)
  also have "\<dots> = (round_half_even (p * 2 ^ Suc (nat (s - 1))) q, 2 ^ Suc (nat (s - 1)))"
    by (subst (1 2 3) k, unfold scale_two_def) (simp del: of_nat_Suc power_Suc)
  finally show thesis by (rule that)
qed

lemma nearest_double_bounds:
  assumes "0 < q" and "p < 2 ^ 52 * q" and "nearest_double (p, q) = (r, t)"
  shows "0 < t" "m * q \<le> 2 * p \<Longrightarrow> m * t \<le> 2 * r" "2 * p \<le> m * q \<Longrightarrow> 2 * r \<le> m * t"
proof -
  show "0 < t" "m * q \<le> 2 * p \<Longrightarrow> m * t \<le> 2 * r" "2 * p \<le> m * q \<Longrightarrow> 2 * r \<le> m * t"
  proof (atomize (full), cases "p = 0")
    case True
    then show "0 < t \<and> (m * q \<le> 2 * p \<longrightarrow> m * t \<le> 2 * r) \<and> (2 * p \<le> m * q \<longrightarrow> 2 * r \<le> m * t)"
      using assms by (simp add: nearest_double_def)
  next
    case False
    then obtain k where k: "r = round_half_even (p * 2 ^ Suc k) q" "t = 2 ^ Suc k"
      using nearest_double_scale [of p q] assms by auto
    have "m * 2 ^ k \<le> r" if "m * q \<le> 2 * p"
      unfolding k using that assms(1) by (intro round_half_even_ge) (simp_all add: mult.assoc mult.left_commute)
    moreover have "r \<le> m * 2 ^ k" if "2 * p \<le> m * q"
      unfolding k using that assms(1) by (intro round_half_even_le) (simp_all add: mult.assoc mult.left_commute mult.commute)
    ultimately show "0 < t \<and> (m * q \<le> 2 * p \<longrightarrow> m * t \<le> 2 * r) \<and> (2 * p \<le> m * q \<longrightarrow> 2 * r \<le> m * t)"
      unfolding k(2) by auto
  qed
qed

lemma math_round_bounds:
  assumes "0 < q"
  shows "m * q \<le> 2 * p \<Longrightarrow> m \<le> 2 * math_round (p, q)" "p \<le> n * q \<Longrightarrow> math_round (p, q) \<le> n"
proof -
  show "math_round (p, q) \<le> n" if "p \<le> n * q"
  proof -
    have "2 * p + q < 2 * (n * q) + 2 * q" using that assms by linarith
    then have "2 * p + q < (n + 1) * (2 * q)" by (simp add: algebra_simps)
    then have "(2 * p + q) div (2 * q) < n + 1" using assms by (simp add: div_less_iff_less_mult)
    then show ?thesis by (simp add: math_round_def)
  qed
  show "m \<le> 2 * math_round (p, q)" if "m * q \<le> 2 * p"
  proof -
    let ?r = "(2 * p + q) div (2 * q)"
    have "2 * p + q < (?r + 1) * (2 * q)" using assms dividend_less_div_times [of "2 * q" "2 * p + q"] by (simp add: algebra_simps)
    with that have "m * q + q < (?r + 1) * (2 * q)" by linarith
    then have "(m + 1) * q < (2 * ?r + 2) * q" by (simp add: algebra_simps)
    then have "m + 1 < 2 * ?r + 2" by (simp only: mult_less_cancel2)
    then show ?thesis by (simp add: math_round_def)
  qed
qed

end
