(* ===== verification/Driver.thy ===== *)
theory Driver
  imports RuntimeSafety Doubles
begin

text \<open>
  \<open>packages/session-runtime/src/driver.ts\<close>: the session driver, which admits inputs and completions, drains the
  inbox one transition at a time, submits the planned operations to their providers and keeps an alarm for
  recovery.
  \<^item> The driver's lock runs one section of code at a time, including the alarm calls it awaits, so each locked
    section is one function on the driver's state. Between sections the driver's promises interleave freely:
    \<open>dr_step\<close> is the relation of all interleavings, with losses of the activation at any point.
  \<^item> A drain is the datatype \<open>drain\<close>: where its code is between two sections. During a submission the operations
    not yet begun, those in flight and the errors so far are its state.
  \<^item> What a provider answers, or that its answer is an error or a timeout, is any value: it is an argument of the
    step (\<open>json_ok\<close>: no object of it has a key twice, as in JavaScript). What \<open>Math.random()\<close> returns is an
    argument, a fraction; the text of an error (\<open>error.name: error.message\<close>) is the parameter \<open>describe\<close>.
  \<^item> The platform delivers an alarm at least once: that it fires and that the handler arms the next one is one
    step. The logger and the status callback are not modelled.
\<close>

section \<open>Policy\<close>

record driver_policy =
  dp_maxSteps :: int
  dp_maxSliceMs :: int
  dp_providerTimeoutMs :: int
  dp_submissionConcurrency :: int
  dp_recoveryMs :: int
  dp_continuationMs :: int
  dp_retryBaseMs :: int
  dp_retryMaxMs :: int
  dp_maxHandlerFailures :: int

definition DEFAULT_DRIVER_POLICY :: driver_policy where
  "DEFAULT_DRIVER_POLICY = \<lparr>dp_maxSteps = 32, dp_maxSliceMs = 250, dp_providerTimeoutMs = 10000,
     dp_submissionConcurrency = 8, dp_recoveryMs = 30000, dp_continuationMs = 1, dp_retryBaseMs = 500,
     dp_retryMaxMs = 60000, dp_maxHandlerFailures = 5\<rparr>"

definition policy_entries :: "driver_policy \<Rightarrow> (string \<times> int) list" where
  "policy_entries p = [(''maxSteps'', dp_maxSteps p), (''maxSliceMs'', dp_maxSliceMs p),
     (''providerTimeoutMs'', dp_providerTimeoutMs p), (''submissionConcurrency'', dp_submissionConcurrency p),
     (''recoveryMs'', dp_recoveryMs p), (''continuationMs'', dp_continuationMs p), (''retryBaseMs'', dp_retryBaseMs p),
     (''retryMaxMs'', dp_retryMaxMs p), (''maxHandlerFailures'', dp_maxHandlerFailures p)]"

definition check_policy :: "driver_policy \<Rightarrow> unit res" where
  "check_policy p = (case find (\<lambda>(name, v). v < 1 \<or> v > 2147483647) (policy_entries p) of
     Some (name, v) \<Rightarrow> Inl (JsError (lit ''Invalid driver policy: '' @ lit name @ lit ''.''))
   | None \<Rightarrow> if dp_retryMaxMs p < dp_retryBaseMs p
       then Inl (JsError (lit ''retryMaxMs must be >= retryBaseMs.'')) else Inr ())"

fun check_providers :: "jstring set \<Rightarrow> operation_definition list \<Rightarrow> unit res" where
  "check_providers providers [] = Inr ()"
| "check_providers providers (d # ds) = (if od_provider d \<notin> providers
     then Inl (JsError (lit ''Provider is not configured for declared harness operations: '' @ od_provider d))
     else check_providers providers ds)"

section \<open>State\<close>

record 'c work =
  wk_prepared :: "'c prepared_transition"
  wk_progress :: processing_status

datatype 'c drain =
    Resting
  | Looping nat int
  | Submitting nat int "'c work" "prepared_operation list" "prepared_operation list" "exn list"
  | Finishing
  | Ended

record ('h, 'c) driver =
  dr_rt :: "('h, 'c) runtime"
  dr_alarm :: "int option"
  dr_receiptInput :: "jstring option"
  dr_receipts :: "(jstring \<times> submit_result) list"
  dr_requested :: bool
  dr_drain :: "'c drain"

definition newDriver ::
  "driver_policy \<Rightarrow> jstring set \<Rightarrow> ('h, 'c) harness \<Rightarrow> 'h store option \<Rightarrow> int option \<Rightarrow> ('h, 'c) driver res" where
  "newDriver policy providers H storage alarm =
     bindR (check_policy policy) (\<lambda>_.
     bindR (operationDefinitions (Some (JArr (map definition_json (h_operations H))))) (\<lambda>ds.
     bindR (check_providers providers ds) (\<lambda>_.
     bindR (newRuntime H storage) (\<lambda>rt.
     Inr \<lparr>dr_rt = rt, dr_alarm = alarm, dr_receiptInput = None, dr_receipts = [], dr_requested = False,
          dr_drain = Resting\<rparr>))))"

section \<open>Locked sections\<close>

definition arm :: "driver_policy \<Rightarrow> int \<Rightarrow> ('h, 'c) driver \<Rightarrow> ('h, 'c) driver" where
  "arm policy now d = (let due = now + dp_recoveryMs policy in
     case dr_alarm d of
       None \<Rightarrow> d\<lparr>dr_alarm := Some due\<rparr>
     | Some existing \<Rightarrow> if existing > due then d\<lparr>dr_alarm := Some due\<rparr> else d)"

text \<open>\<open>Math.round(cap * (0.5 + Math.random() * 0.5))\<close>: each product and the sum are rounded to doubles.\<close>

definition jitter :: "nat \<times> nat \<Rightarrow> int \<Rightarrow> int" where
  "jitter random cap =
     (let half = nearest_double (fst random, 2 * snd random);
          factor = nearest_double (snd half + 2 * fst half, 2 * snd half) in
      int (math_round (nearest_double (nat cap * fst factor, snd factor))))"

definition backoff :: "nat \<times> nat \<Rightarrow> driver_policy \<Rightarrow> int \<Rightarrow> int" where
  "backoff random policy attempt =
     (let cap = min (dp_retryMaxMs policy) (dp_retryBaseMs policy * 2 ^ nat (min 30 (attempt - 1))) in
      max 1 (jitter random cap))"

definition errorMessage :: "(exn \<Rightarrow> jstring) \<Rightarrow> exn \<Rightarrow> jstring" where
  "errorMessage describe e = take 2048 (describe e)"

definition failed ::
  "nat \<times> nat \<Rightarrow> (exn \<Rightarrow> jstring) \<Rightarrow> driver_policy \<Rightarrow> int \<Rightarrow> processing_status \<Rightarrow> exn \<Rightarrow> bool \<Rightarrow>
    ('h, 'c) driver \<Rightarrow> ('h, 'c) driver" where
  "failed random describe policy now progress error handlerFailure d =
     (let attempt = ps_failures progress + 1;
          blocked = (handlerFailure \<and> attempt \<ge> dp_maxHandlerFailures policy) in
      d\<lparr>dr_rt := with_inbox (\<lambda>rows. failProcessing rows progress (now + backoff random policy attempt) blocked
        (errorMessage describe error)) (dr_rt d)\<rparr>)"

definition start :: "int \<Rightarrow> ('h, 'c) driver \<Rightarrow> ('h, 'c) driver" where
  "start now d = (if dr_drain d = Resting then d\<lparr>dr_drain := Looping 0 now\<rparr> else d)"

definition kick :: "int \<Rightarrow> ('h, 'c) driver \<Rightarrow> ('h, 'c) driver" where
  "kick now d = (if dr_drain d = Resting then start now d else d\<lparr>dr_requested := True\<rparr>)"

definition admit :: "driver_policy \<Rightarrow> int \<Rightarrow> ('h, 'c, 'a) rt_act \<Rightarrow> (('h, 'c) driver, 'a) act" where
  "admit policy now m d =
     (let d1 = arm policy now d in
      case m (dr_rt d1) of
        (Inl e, rt) \<Rightarrow> (Inl e, d1\<lparr>dr_rt := rt\<rparr>)
      | (Inr a, rt) \<Rightarrow> (Inr a, kick now (d1\<lparr>dr_rt := rt\<rparr>)))"

definition driver_initialize :: "('h, 'c) harness \<Rightarrow> json option \<Rightarrow> int \<Rightarrow> (('h, 'c) driver, session_info \<times> bool) act" where
  "driver_initialize H v now d = (case initialize H v now (dr_rt d) of (r, rt) \<Rightarrow> (r, d\<lparr>dr_rt := rt\<rparr>))"

definition driver_appendInput ::
  "(jstring \<Rightarrow> jstring) \<Rightarrow> ('h, 'c) harness \<Rightarrow> driver_policy \<Rightarrow> json option \<Rightarrow> int \<Rightarrow> (('h, 'c) driver, input_receipt) act" where
  "driver_appendInput sha H policy v now d = (case parseSubmitInputRequest v of
     Inl e \<Rightarrow> (Inl e, d)
   | Inr request \<Rightarrow> admit policy now (admitInput sha H request now) d)"

definition already_consumed :: "admission \<Rightarrow> bool" where
  "already_consumed adm = (case adm of KnownCompletion consumed receipt \<Rightarrow> consumed | NewCompletion i e h \<Rightarrow> False)"

definition driver_acceptCompletion ::
  "(jstring \<Rightarrow> jstring) \<Rightarrow> ('h, 'c) harness \<Rightarrow> driver_policy \<Rightarrow> json option \<Rightarrow> int \<Rightarrow> (('h, 'c) driver, completion_receipt) act" where
  "driver_acceptCompletion sha H policy v now d = (case parseOperationCompletion v of
     Inl e \<Rightarrow> (Inl e, d)
   | Inr c \<Rightarrow> (case check_completion sha H c (dr_rt d) of
       (Inl e, rt) \<Rightarrow> (Inl e, d\<lparr>dr_rt := rt\<rparr>)
     | (Inr adm, rt) \<Rightarrow>
         let d1 = d\<lparr>dr_rt := rt\<rparr>; d2 = (if already_consumed adm then d1 else arm policy now d1) in
         case commit_admission now (oc_operationId c) adm (dr_rt d2) of
           (Inl e, rt') \<Rightarrow> (Inl e, d2\<lparr>dr_rt := rt'\<rparr>)
         | (Inr receipt, rt') \<Rightarrow>
             (Inr receipt, (if already_consumed adm then (\<lambda>x. x) else kick now) (d2\<lparr>dr_rt := rt'\<rparr>))))"

definition resumeProcessing :: "('h, 'c) harness \<Rightarrow> driver_policy \<Rightarrow> int \<Rightarrow> (('h, 'c) driver, unit) act" where
  "resumeProcessing H policy now = admit policy now
     (bindA (getSession H) (\<lambda>_. modifyA (with_inbox resetProcessing)))"

definition driver_alarm :: "driver_policy \<Rightarrow> int \<Rightarrow> ('h, 'c) driver \<Rightarrow> ('h, 'c) driver" where
  "driver_alarm policy now d = start now (arm policy now (d\<lparr>dr_alarm := None\<rparr>))"

definition driver_run :: "driver_policy \<Rightarrow> int \<Rightarrow> ('h, 'c) driver \<Rightarrow> ('h, 'c) driver" where
  "driver_run policy now d = (if dr_drain d = Resting then start now (arm policy now d) else d)"

section \<open>The drain\<close>

text \<open>The operations of a transition without a receipt; receipts of another input are dropped first.\<close>

definition unsubmitted :: "('h, 'c) driver \<Rightarrow> 'c prepared_transition \<Rightarrow> prepared_operation list" where
  "unsubmitted d p = List.filter (\<lambda>op. pp_operationId op \<notin> fst ` set (dr_receipts d)) (pr_operations p)"

definition begin_submit :: "nat \<Rightarrow> int \<Rightarrow> 'c work \<Rightarrow> ('h, 'c) driver \<Rightarrow> ('h, 'c) driver" where
  "begin_submit step started wk d =
     (let eventId = en_eventId (pr_input (wk_prepared wk));
          d1 = (if dr_receiptInput d \<noteq> Some eventId then d\<lparr>dr_receipts := [], dr_receiptInput := Some eventId\<rparr> else d) in
      d1\<lparr>dr_drain := Submitting step started wk (unsubmitted d1 (wk_prepared wk)) [] []\<rparr>)"

text \<open>One turn of the loop up to the submission; \<open>clock\<close> is the time its condition reads.\<close>

definition prepare_section ::
  "(jstring \<Rightarrow> jstring) \<Rightarrow> ('h, 'c) harness \<Rightarrow> nat \<times> nat \<Rightarrow> (exn \<Rightarrow> jstring) \<Rightarrow> driver_policy \<Rightarrow> nat \<Rightarrow> int \<Rightarrow> int \<Rightarrow> int \<Rightarrow>
    ('h, 'c) driver \<Rightarrow> ('h, 'c) driver" where
  "prepare_section sha H random describe policy step started clock now d =
     (if \<not> (int step < dp_maxSteps policy \<and> clock - started < dp_maxSliceMs policy) then d\<lparr>dr_drain := Finishing\<rparr>
      else case loadSession H (dr_rt d) of
        (Inl e, rt) \<Rightarrow> d\<lparr>dr_rt := rt, dr_drain := Ended\<rparr>
      | (Inr None, rt) \<Rightarrow> d\<lparr>dr_rt := rt, dr_drain := Finishing\<rparr>
      | (Inr (Some info), rt) \<Rightarrow>
          let progress = processingStatus (st_inbox (rt_store rt)) in
          if ps_pendingEventId progress = None \<or> ps_blocked progress
             \<or> (case ps_retryAt progress of None \<Rightarrow> False | Some t \<Rightarrow> t > now)
          then d\<lparr>dr_rt := rt, dr_drain := Finishing\<rparr>
          else case prepare sha H rt of
            (Inl e, rt') \<Rightarrow> (failed random describe policy now progress e True (d\<lparr>dr_rt := rt'\<rparr>))\<lparr>dr_drain := Finishing\<rparr>
          | (Inr None, rt') \<Rightarrow> d\<lparr>dr_rt := rt', dr_drain := Finishing\<rparr>
          | (Inr (Some p), rt') \<Rightarrow> begin_submit step started \<lparr>wk_prepared = p, wk_progress = progress\<rparr> (d\<lparr>dr_rt := rt'\<rparr>))"

text \<open>One of the concurrent submitters takes the next operation.\<close>

definition take_operation :: "driver_policy \<Rightarrow> ('h, 'c) driver \<Rightarrow> ('h, 'c) driver" where
  "take_operation policy d = (case dr_drain d of
     Submitting step started wk (op # todo) flying errors \<Rightarrow>
       if int (length flying) < dp_submissionConcurrency policy
       then d\<lparr>dr_drain := Submitting step started wk todo (flying @ [op]) errors\<rparr> else d
   | _ \<Rightarrow> d)"

definition set_receipt :: "(jstring \<times> submit_result) list \<Rightarrow> jstring \<Rightarrow> submit_result \<Rightarrow> (jstring \<times> submit_result) list" where
  "set_receipt rs k r = List.filter (\<lambda>x. fst x \<noteq> k) rs @ [(k, r)]"

text \<open>The provider's answer to the operation at a position in flight, or the error of the attempt.\<close>

definition answer :: "nat \<Rightarrow> json res \<Rightarrow> ('h, 'c) driver \<Rightarrow> ('h, 'c) driver" where
  "answer i reply d = (case dr_drain d of
     Submitting step started wk todo flying errors \<Rightarrow>
       if i < length flying then
         let rest = take i flying @ drop (Suc i) flying in
         case bindR reply (\<lambda>v. parseProviderSubmitResult (Some v)) of
           Inl e \<Rightarrow> d\<lparr>dr_drain := Submitting step started wk todo rest (errors @ [e])\<rparr>
         | Inr r \<Rightarrow> d\<lparr>dr_receipts := set_receipt (dr_receipts d) (pp_operationId (flying ! i)) r,
             dr_drain := Submitting step started wk todo rest errors\<rparr>
       else d
   | _ \<Rightarrow> d)"

definition receipts_for :: "('h, 'c) driver \<Rightarrow> 'c prepared_transition \<Rightarrow> (jstring \<times> json) list" where
  "receipts_for d p = map (\<lambda>op. (pp_operationId op,
     case map_of (dr_receipts d) (pp_operationId op) of Some r \<Rightarrow> submit_result_json r | None \<Rightarrow> JNull)) (pr_operations p)"

definition commit_section ::
  "(jstring \<Rightarrow> jstring) \<Rightarrow> ('h, 'c) harness \<Rightarrow> nat \<times> nat \<Rightarrow> (exn \<Rightarrow> jstring) \<Rightarrow> driver_policy \<Rightarrow> int \<Rightarrow>
    ('h, 'c) driver \<Rightarrow> ('h, 'c) driver" where
  "commit_section sha H random describe policy now d = (case dr_drain d of
     Submitting step started wk [] [] errors \<Rightarrow>
       (case errors of
          e # _ \<Rightarrow> (failed random describe policy now (wk_progress wk) e False d)\<lparr>dr_drain := Finishing\<rparr>
        | [] \<Rightarrow> (case commit sha H (wk_prepared wk) (receipts_for d (wk_prepared wk)) now (dr_rt d) of
            (Inl e, rt) \<Rightarrow> (failed random describe policy now (wk_progress wk) e True (d\<lparr>dr_rt := rt\<rparr>))\<lparr>dr_drain := Finishing\<rparr>
          | (Inr result, rt) \<Rightarrow> d\<lparr>dr_rt := rt, dr_receipts := [], dr_receiptInput := None,
              dr_drain := Looping (Suc step) started\<rparr>))
   | _ \<Rightarrow> d)"

definition final_section :: "driver_policy \<Rightarrow> int \<Rightarrow> ('h, 'c) driver \<Rightarrow> ('h, 'c) driver" where
  "final_section policy now d =
     (let progress = processingStatus (st_inbox (rt_store (dr_rt d))) in
      d\<lparr>dr_alarm := (if ps_pendingEventId progress = None \<or> ps_blocked progress then None
          else Some (max (now + dp_continuationMs policy) (case ps_retryAt progress of None \<Rightarrow> now | Some t \<Rightarrow> t))),
        dr_drain := Ended\<rparr>)"

text \<open>The \<open>finally\<close> of a drain.\<close>

definition end_drain :: "int \<Rightarrow> ('h, 'c) driver \<Rightarrow> ('h, 'c) driver" where
  "end_drain now d = (if dr_requested d
     then kick now (d\<lparr>dr_drain := Resting, dr_requested := False\<rparr>) else d\<lparr>dr_drain := Resting\<rparr>)"

section \<open>Interleavings\<close>

inductive dr_step ::
  "(jstring \<Rightarrow> jstring) \<Rightarrow> ('h, 'c) harness \<Rightarrow> (exn \<Rightarrow> jstring) \<Rightarrow> driver_policy \<Rightarrow>
    ('h, 'c) driver \<Rightarrow> ('h, 'c) driver \<Rightarrow> bool"
  for sha H describe policy where
  dr_initialize: "driver_initialize H v now d = (r, d') \<Longrightarrow> dr_step sha H describe policy d d'"
| dr_append: "driver_appendInput sha H policy v now d = (r, d') \<Longrightarrow> dr_step sha H describe policy d d'"
| dr_accept: "driver_acceptCompletion sha H policy v now d = (r, d') \<Longrightarrow> dr_step sha H describe policy d d'"
| dr_resume: "resumeProcessing H policy now d = (r, d') \<Longrightarrow> dr_step sha H describe policy d d'"
| dr_alarm: "dr_step sha H describe policy d (driver_alarm policy now d)"
| dr_run: "dr_step sha H describe policy d (driver_run policy now d)"
| dr_prepare: "dr_drain d = Looping step started \<Longrightarrow>
    dr_step sha H describe policy d (prepare_section sha H random describe policy step started clock now d)"
| dr_take: "dr_step sha H describe policy d (take_operation policy d)"
| dr_answer: "(\<forall>v. reply = Inr v \<longrightarrow> json_ok v) \<Longrightarrow> dr_step sha H describe policy d (answer i reply d)"
| dr_commit: "dr_step sha H describe policy d (commit_section sha H random describe policy now d)"
| dr_final: "dr_drain d = Finishing \<Longrightarrow> dr_step sha H describe policy d (final_section policy now d)"
| dr_end: "dr_drain d = Ended \<Longrightarrow> dr_step sha H describe policy d (end_drain now d)"
| dr_lost: "newDriver policy providers H (Some (rt_store (dr_rt d))) (dr_alarm d) = Inr d' \<Longrightarrow>
    dr_step sha H describe policy d d'"

inductive_cases dr_stepE: "dr_step sha H describe policy d d'"

end
