(* ===== verification/DriverSafety.thy ===== *)
theory DriverSafety
  imports Driver JsonSize
begin

text \<open>
  Facts about the session driver: every step of it is a sequence of calls of the runtime
  (\<open>dr_step_runtime\<close>), its invariant \<open>driver_ok\<close>, and the bounds of its retries.
\<close>

section \<open>The driver uses the runtime through its calls\<close>

lemma arm_simps [simp]:
  "dr_rt (arm policy now d) = dr_rt d" "dr_drain (arm policy now d) = dr_drain d" "\<exists>t. dr_alarm (arm policy now d) = Some t"
  "dr_receipts (arm policy now d) = dr_receipts d" "dr_receiptInput (arm policy now d) = dr_receiptInput d"
  by (simp_all add: arm_def Let_def split: option.split)

lemma kick_simps [simp]:
  "dr_rt (kick now d) = dr_rt d" "dr_alarm (kick now d) = dr_alarm d" "dr_rt (start now d) = dr_rt d"
  "dr_alarm (start now d) = dr_alarm d" "dr_receipts (kick now d) = dr_receipts d" "dr_receipts (start now d) = dr_receipts d"
  "dr_receiptInput (kick now d) = dr_receiptInput d" "dr_receiptInput (start now d) = dr_receiptInput d"
  by (simp_all add: kick_def start_def)

lemma kick_drain:
  "dr_drain (kick now d) = (if dr_drain d = Resting then Looping 0 now else dr_drain d)"
  "dr_drain (start now d) = (if dr_drain d = Resting then Looping 0 now else dr_drain d)"
  by (simp_all add: kick_def start_def)

lemma admit_rt:
  assumes "admit policy now m d = (r, d')" and "m (dr_rt d) = (q, rt)"
  shows "dr_rt d' = rt \<and> r = q \<and> dr_alarm d' \<noteq> None \<and> dr_receipts d' = dr_receipts d \<and> dr_receiptInput d' = dr_receiptInput d
    \<and> (dr_drain d' = dr_drain d \<or> dr_drain d = Resting \<and> dr_drain d' = Looping 0 now)"
  using assms by (cases q) (auto simp: admit_def Let_def kick_drain split: prod.splits sum.splits if_splits)

lemma appendInput_admit:
  "parseSubmitInputRequest v = Inr q \<Longrightarrow> appendInput sha H v now rt = admitInput sha H q now rt"
  by (simp add: appendInput_def act_defs)

lemma failed_rt: "rt_step sha H (dr_rt d) (dr_rt (failed random describe policy now progress e b d))"
  unfolding failed_def Let_def by (simp add: step_fail)

lemma failed_simps [simp]:
  "dr_drain (failed random describe policy now progress e b d) = dr_drain d"
  "dr_alarm (failed random describe policy now progress e b d) = dr_alarm d"
  "dr_receipts (failed random describe policy now progress e b d) = dr_receipts d"
  "dr_receiptInput (failed random describe policy now progress e b d) = dr_receiptInput d"
  "rt_prepared (dr_rt (failed random describe policy now progress e b d)) = rt_prepared (dr_rt d)"
  by (simp_all add: failed_def Let_def with_inbox_def)

lemma getSession_reset:
  assumes "bindA (getSession H) (\<lambda>_. modifyA (with_inbox resetProcessing)) rt = (r, rt')"
  shows "(rt_step sha H)\<^sup>*\<^sup>* rt rt' \<and> rt_prepared rt' = rt_prepared rt"
proof -
  obtain q rt1 where load: "loadSession H rt = (q, rt1)" by fastforce
  have keep: "rt_prepared rt1 = rt_prepared rt"
    using load by (auto simp: loadSession_def act_defs split: option.splits sum.splits)
  have "rt' = rt1 \<or> rt' = with_inbox resetProcessing rt1"
    using assms load by (auto simp: getSession_def requireSession_def act_defs split: sum.splits option.splits)
  then show ?thesis using step_load [OF load, of sha] step_reset [of sha H rt1] keep
    by (auto simp: with_inbox_def intro: rtranclp.rtrancl_into_rtrancl)
qed

lemma driver_accept_rt:
  assumes "driver_acceptCompletion sha H policy v now d = (r, d')"
  shows "\<exists>q. acceptCompletion sha H v now (dr_rt d) = (q, dr_rt d')"
  using assms
  by (auto simp: driver_acceptCompletion_def acceptCompletion_def act_defs Let_def split: sum.splits prod.splits if_splits)

lemma prepare_section_rt:
  "(rt_step sha H)\<^sup>*\<^sup>* (dr_rt d) (dr_rt (prepare_section sha H random describe policy step started clock now d))"
proof -
  obtain q rt where load: "loadSession H (dr_rt d) = (q, rt)" by fastforce
  obtain p rt' where prep: "prepare sha H rt = (p, rt')" by fastforce
  have one: "(rt_step sha H)\<^sup>*\<^sup>* (dr_rt d) rt" using step_load [OF load] by blast
  have two: "(rt_step sha H)\<^sup>*\<^sup>* (dr_rt d) rt'" using one step_prepare [OF prep] by (rule rtranclp.rtrancl_into_rtrancl)
  have three: "(rt_step sha H)\<^sup>*\<^sup>* (dr_rt d) (dr_rt (failed random describe policy now progress e True (d\<lparr>dr_rt := rt'\<rparr>)))" for progress e
    using two failed_rt [of sha H "d\<lparr>dr_rt := rt'\<rparr>"] by (simp add: rtranclp.rtrancl_into_rtrancl)
  show ?thesis
    using one two three load prep
    by (auto simp: prepare_section_def begin_submit_def Let_def split: sum.splits option.splits)
qed

lemma commit_section_rt:
  "(rt_step sha H)\<^sup>*\<^sup>* (dr_rt d) (dr_rt (commit_section sha H random describe policy now d))"
proof (cases "dr_drain d")
  case (Submitting step started wk todo flying errors)
  obtain q rt where com: "commit sha H (wk_prepared wk) (receipts_for d (wk_prepared wk)) now (dr_rt d) = (q, rt)" by fastforce
  have one: "(rt_step sha H)\<^sup>*\<^sup>* (dr_rt d) rt" using step_commit [OF com] by blast
  have two: "(rt_step sha H)\<^sup>*\<^sup>* (dr_rt d) (dr_rt (failed random describe policy now progress e True (d\<lparr>dr_rt := rt\<rparr>)))" for progress e
    using one failed_rt [of sha H "d\<lparr>dr_rt := rt\<rparr>"] by (simp add: rtranclp.rtrancl_into_rtrancl)
  show ?thesis
    using Submitting com one two failed_rt [of sha H d random describe policy now]
    by (auto simp: commit_section_def split: list.splits sum.splits)
qed (simp_all add: commit_section_def)

lemma dr_step_runtime:
  assumes "dr_step sha H describe policy d d'"
  shows "(rt_step sha H)\<^sup>*\<^sup>* (dr_rt d) (dr_rt d')"
  using assms
proof (cases rule: dr_step.cases)
  case (dr_initialize v now r)
  then show ?thesis by (auto simp: driver_initialize_def split: prod.splits intro!: r_into_rtranclp step_initialize)
next
  case (dr_append v now r)
  show ?thesis
  proof (cases "parseSubmitInputRequest v")
    case (Inl e)
    with dr_append show ?thesis by (simp add: driver_appendInput_def)
  next
    case (Inr q)
    obtain x rt where adm: "admitInput sha H q now (dr_rt d) = (x, rt)" by fastforce
    have "admit policy now (admitInput sha H q now) d = (r, d')" using dr_append Inr by (simp add: driver_appendInput_def)
    from admit_rt [OF this adm] have "dr_rt d' = rt" by simp
    then show ?thesis using adm appendInput_admit [OF Inr] step_append by (metis r_into_rtranclp)
  qed
next
  case (dr_accept v now r)
  then show ?thesis using driver_accept_rt step_complete by (metis r_into_rtranclp)
next
  case (dr_resume now r)
  obtain x rt where run: "bindA (getSession H) (\<lambda>_. modifyA (with_inbox resetProcessing)) (dr_rt d) = (x, rt)" by fastforce
  from admit_rt [OF dr_resume [unfolded resumeProcessing_def] run] getSession_reset [OF run] show ?thesis by simp
next
  case (dr_answer i reply)
  then show ?thesis by (auto simp: answer_def Let_def split: drain.splits sum.splits)
next
  case dr_take
  then show ?thesis by (auto simp: take_operation_def split: drain.splits list.splits)
next
  case (dr_lost providers)
  then have "newRuntime H (Some (rt_store (dr_rt d))) = Inr (dr_rt d')" by (auto simp: newDriver_def)
  then show ?thesis by (blast intro: step_restart)
qed (simp_all add: prepare_section_rt commit_section_rt driver_alarm_def driver_run_def final_section_def end_drain_def Let_def)

section \<open>A receipt parses again\<close>

text \<open>The receipts of the driver are values the contract parser has returned; the commit parses them again. The
  second parse sees the wire form of the result, which has the size of the value the provider sent.\<close>

lemma outcome_json_ok:
  assumes "json_ok v" and "parseOperationOutcome (Some v) = Inr o'"
  shows "json_ok (outcome_json o')"
proof -
  from assms obtain r where r: "v = JObj r"
    unfolding parseOperationOutcome_def bindR_eq_Inr js_record_Inr by auto
  have res: "json_ok x" if "o' = Succeeded x" for x
    using assms that r json_ok_field [of r "''result''" x]
    by (auto simp: parseOperationOutcome_def js_record_Inr js_required_def bad_def split: if_splits option.splits)
  have det: "json_ok x" if "o' = Failed og f" "of_details f = Some x" for og f x
  proof -
    from assms(2) that r obtain w where w: "field r ''error'' = Some w" "parseOperationFailure (Some w) = Inr f"
      unfolding parseOperationOutcome_def bindR_eq_Inr parseJsonValue_simps parseOperationFailure_def
      by (auto simp: js_record_Inr split: option.splits if_splits)
    have "json_ok w" using json_ok_field w(1) assms(1) r by blast
    with w(2) that(2) show ?thesis unfolding parse_failure_Inr using json_ok_field by metis
  qed
  show ?thesis
    using res det by (cases o') (auto simp: outcome_json_def failure_json_def split: option.splits)
qed

lemma parse_outcome_valid:
  assumes "json_ok v" and "parseOperationOutcome (Some v) = Inr o'"
  shows "outcome_valid o'"
  using parse_outcome_exact [OF assms] json_bytes_equal [OF outcome_json_ok [OF assms] assms(1)]
  by (simp add: outcome_valid_def)

lemma parse_submit_result_valid:
  assumes "json_ok v" and "parseProviderSubmitResult (Some v) = Inr r"
  shows "submit_result_valid r"
proof -
  from assms(2) obtain fs where fs: "v = JObj fs"
    unfolding parseProviderSubmitResult_def bindR_eq_Inr js_record_Inr by auto
  consider (acc) j where "r = Accepted j" "trim j \<noteq> []"
    | (com) j o' w where "r = Completed j o'" "trim j \<noteq> []" "field fs ''outcome'' = Some w" "parseJobOutcome (Some w) = Inr o'"
    | (rej) w f where "r = Rejected f" "field fs ''error'' = Some w" "parseOperationFailure (Some w) = Inr f"
    using assms(2) fs unfolding parseProviderSubmitResult_def bindR_eq_Inr parseJsonValue_simps nonemptyString_Inr
    by (auto simp: js_record_Inr parseJobOutcome_def parseOperationOutcome_def parseOperationFailure_def bad_def split: if_splits)
  then show ?thesis
  proof cases
    case acc
    then show ?thesis by (simp add: submit_result_valid_def)
  next
    case (com j o' w)
    moreover have "json_ok w" using json_ok_field com(3) assms(1) fs by blast
    ultimately show ?thesis using parse_outcome_valid by (simp add: submit_result_valid_def parse_job_outcome_Inr)
  next
    case (rej w f)
    have "json_ok w" using json_ok_field rej(2) assms(1) fs by blast
    with parse_failure_exact rej show ?thesis by (simp add: submit_result_valid_def)
  qed
qed

section \<open>The invariant\<close>

text \<open>An input waits and its processing is not blocked.\<close>

definition work_waiting :: "('h, 'c) driver \<Rightarrow> bool" where
  "work_waiting d \<longleftrightarrow> (\<exists>r. head_row (st_inbox (rt_store (dr_rt d))) = Some r \<and> \<not> ib_blocked r)"

definition submitting :: "('h, 'c) driver \<Rightarrow> bool" where
  "submitting d \<longleftrightarrow> (case dr_drain d of Submitting step started wk todo flying errors \<Rightarrow> True | _ \<Rightarrow> False)"

definition alarm_ok :: "('h, 'c) driver \<Rightarrow> bool" where
  "alarm_ok d \<longleftrightarrow> (work_waiting d \<or> submitting d \<longrightarrow> dr_alarm d \<noteq> None)"

definition ids :: "prepared_operation list \<Rightarrow> jstring set" where
  "ids ops = pp_operationId ` set ops"

text \<open>The receipts kept are of operations of the prepared transition of their input.\<close>

definition receipts_ok :: "('h, 'c) driver \<Rightarrow> bool" where
  "receipts_ok d \<longleftrightarrow> (\<forall>x \<in> set (dr_receipts d). submit_result_valid (snd x))
     \<and> (dr_receipts d \<noteq> [] \<longrightarrow> (\<exists>p. rt_prepared (dr_rt d) = Some p \<and> dr_receiptInput d = Some (en_eventId (pr_input p))
          \<and> fst ` set (dr_receipts d) \<subseteq> ids (pr_operations p)))"

text \<open>A submission works on the transition the runtime keeps; what it has not begun and what is in flight are
  operations of it, each at most once and none with a receipt; while no attempt has failed, every other operation has
  one.\<close>

definition submitting_ok ::
  "driver_policy \<Rightarrow> ('h, 'c) driver \<Rightarrow> 'c prepared_transition \<Rightarrow> prepared_operation list \<Rightarrow> prepared_operation list \<Rightarrow> exn list \<Rightarrow> bool" where
  "submitting_ok policy d p todo flying errors \<longleftrightarrow>
     rt_prepared (dr_rt d) = Some p \<and> dr_receiptInput d = Some (en_eventId (pr_input p))
   \<and> mset (todo @ flying) \<subseteq># mset (pr_operations p)
   \<and> int (length flying) \<le> max 0 (dp_submissionConcurrency policy)
   \<and> (errors = [] \<longrightarrow> ids (pr_operations p) \<subseteq> fst ` set (dr_receipts d) \<union> ids (todo @ flying))
   \<and> (distinct (map pp_operationId (pr_operations p)) \<longrightarrow> ids (todo @ flying) \<inter> fst ` set (dr_receipts d) = {})"

definition submission_ok :: "driver_policy \<Rightarrow> ('h, 'c) driver \<Rightarrow> bool" where
  "submission_ok policy d \<longleftrightarrow> (case dr_drain d of
     Submitting step started wk todo flying errors \<Rightarrow> int step < dp_maxSteps policy \<and> submitting_ok policy d (wk_prepared wk) todo flying errors
   | _ \<Rightarrow> True)"

definition driver_ok :: "(jstring \<Rightarrow> jstring) \<Rightarrow> ('h, 'c) harness \<Rightarrow> driver_policy \<Rightarrow> ('h, 'c) driver \<Rightarrow> bool" where
  "driver_ok sha H policy d \<longleftrightarrow> rt_ok sha H (dr_rt d) \<and> alarm_ok d \<and> receipts_ok d \<and> submission_ok policy d"

subsection \<open>What the runtime keeps\<close>

definition keeps_prepared :: "('h, 'c) runtime \<Rightarrow> ('h, 'c) runtime \<Rightarrow> bool" where
  "keeps_prepared rt rt' \<longleftrightarrow> (\<forall>p. rt_prepared rt = Some p \<longrightarrow> rt_prepared rt' = Some p)"

lemma prepare_keeps:
  assumes "prepare sha H rt = (r, rt')" and "session_coherent rt"
  shows "keeps_prepared rt rt'"
proof -
  obtain q rt1 where req: "requireSession H rt = (q, rt1)" by fastforce
  with requireSession_any [OF req assms(2)] assms(1) show ?thesis
    by (auto simp: keeps_prepared_def prepare_def act_defs split: sum.splits option.splits)
qed

lemma check_completion_keeps:
  assumes run: "check_completion sha H c rt = (r, rt')" and coh: "session_coherent rt"
  shows "keeps_prepared rt rt'"
proof -
  obtain s rt1 where req: "requireSession H rt = (s, rt1)" by fastforce
  obtain q rt2 where prep: "prepare sha H rt1 = (q, rt2)" by fastforce
  have "rt' = rt1 \<or> rt' = rt2"
    using run req prep
    by (simp add: check_completion_def Let_def act_defs split: sum.splits option.splits if_splits)
  with requireSession_any [OF req coh] prepare_keeps [OF prep] show ?thesis by (auto simp: keeps_prepared_def)
qed

lemma commit_admission_keeps:
  assumes "commit_admission now oid adm rt = (r, rt')"
  shows "rt_prepared rt' = rt_prepared rt" and "already_consumed adm \<Longrightarrow> rt' = rt"
  using assms
  by (auto simp: commit_admission_def already_consumed_def transactionSync_def insert_event_def inbox_stmt_def
      set_store_def Let_def act_defs split: admission.splits prod.splits sum.splits)

subsection \<open>Preservation\<close>

lemma processing_waiting:
  "work_waiting d \<longleftrightarrow> ps_pendingEventId (processingStatus (st_inbox (rt_store (dr_rt d)))) \<noteq> None
     \<and> \<not> ps_blocked (processingStatus (st_inbox (rt_store (dr_rt d))))"
  by (auto simp: work_waiting_def processingStatus_def split: option.splits)

text \<open>A section that leaves the receipts alone and does not begin a submission.\<close>

lemma frame_ok:
  assumes "receipts_ok d" and "submission_ok policy d" and "keeps_prepared (dr_rt d) (dr_rt d')"
    and "dr_receipts d' = dr_receipts d" and "dr_receiptInput d' = dr_receiptInput d"
    and "dr_drain d' = dr_drain d \<or> \<not> submitting d'"
  shows "receipts_ok d'" and "submission_ok policy d'"
proof -
  show "receipts_ok d'" using assms(1,3,4,5) by (auto simp: receipts_ok_def keeps_prepared_def)
  show "submission_ok policy d'"
    using assms(2-6)
    by (auto simp: submission_ok_def submitting_ok_def keeps_prepared_def submitting_def split: drain.splits)
qed

lemma dr_step_rt_ok:
  "dr_step sha H describe policy d d' \<Longrightarrow> rt_ok sha H (dr_rt d) \<Longrightarrow> rt_ok sha H (dr_rt d')"
  using dr_step_runtime rt_steps_ok by blast

definition rest_ok :: "driver_policy \<Rightarrow> ('h, 'c) driver \<Rightarrow> bool" where
  "rest_ok policy d \<longleftrightarrow> alarm_ok d \<and> receipts_ok d \<and> submission_ok policy d"

lemma driver_ok_parts: "driver_ok sha H policy d \<longleftrightarrow> rt_ok sha H (dr_rt d) \<and> rest_ok policy d"
  by (simp add: driver_ok_def rest_ok_def)

lemma armed_ok:
  assumes "rest_ok policy d" and "keeps_prepared (dr_rt d) (dr_rt d')" and "dr_alarm d' \<noteq> None"
    and "dr_receipts d' = dr_receipts d" and "dr_receiptInput d' = dr_receiptInput d"
    and "dr_drain d' = dr_drain d \<or> \<not> submitting d'"
  shows "rest_ok policy d'"
  using assms frame_ok [of d policy d'] by (simp add: rest_ok_def alarm_ok_def)

lemma admit_ok:
  assumes "rest_ok policy d" and "admit policy now m d = (r, d')" and "m (dr_rt d) = (q, rt)"
    and "keeps_prepared (dr_rt d) rt"
  shows "rest_ok policy d'"
  by (rule armed_ok [OF assms(1)]) (use admit_rt [OF assms(2,3)] assms(4) in \<open>auto simp: submitting_def\<close>)

lemma accept_ok:
  assumes run: "driver_acceptCompletion sha H policy v now d = (r, d')" and ok: "rest_ok policy d"
    and rt: "rt_ok sha H (dr_rt d)"
  shows "rest_ok policy d'"
proof (cases "parseOperationCompletion v")
  case (Inl e)
  with run ok show ?thesis by (simp add: driver_acceptCompletion_def)
next
  case (Inr c)
  obtain q rt where check: "check_completion sha H c (dr_rt d) = (q, rt)" by fastforce
  have coh: "session_coherent (dr_rt d)" using assms(3) by (simp add: rt_ok_def)
  note keep = check_completion_keeps [OF check coh] and same = check_completion_run [OF assms(3) check]
  have same_ok: "rest_ok policy (d\<lparr>dr_rt := rt\<rparr>)"
    using ok keep same frame_ok [of d policy "d\<lparr>dr_rt := rt\<rparr>"]
    by (auto simp: rest_ok_def alarm_ok_def work_waiting_def submitting_def)
  show ?thesis
  proof (cases q)
    case (Inl e)
    with run Inr check same_ok show ?thesis by (auto simp: driver_acceptCompletion_def)
  next
    case adm: (Inr adm)
    show ?thesis
    proof (cases "already_consumed adm")
      case True
      with run Inr check adm commit_admission_keeps(2) have "d' = d\<lparr>dr_rt := rt\<rparr>"
        by (fastforce simp: driver_acceptCompletion_def Let_def split: prod.splits sum.splits)
      with same_ok show ?thesis by simp
    next
      case False
      obtain x rt' where com: "commit_admission now (oc_operationId c) adm rt = (x, rt')" by fastforce
      have "keeps_prepared (dr_rt d) rt'" using keep commit_admission_keeps(1) [OF com] by (simp add: keeps_prepared_def)
      moreover have "dr_rt d' = rt'" "dr_alarm d' \<noteq> None" "dr_receipts d' = dr_receipts d" "dr_receiptInput d' = dr_receiptInput d"
        "dr_drain d' = dr_drain d \<or> dr_drain d' = Looping 0 now"
        using run Inr check adm False com
        by (auto simp: driver_acceptCompletion_def Let_def kick_drain split: sum.splits)
      ultimately show ?thesis by (intro armed_ok [OF ok]) (auto simp: submitting_def)
    qed
  qed
qed

lemma begin_submit_ok:
  assumes ok: "rest_ok policy d" and prep: "rt_prepared (dr_rt d) = Some (wk_prepared wk)" and armed: "dr_alarm d \<noteq> None"
    and bound: "int step < dp_maxSteps policy"
  shows "rest_ok policy (begin_submit step started wk d)"
proof -
  let ?p = "wk_prepared wk"
  have sub: "mset (unsubmitted x ?p) \<subseteq># mset (pr_operations ?p)" for x :: "('a, 'b) driver"
    by (simp add: unsubmitted_def)
  show ?thesis
    using assms sub
    by (auto simp: rest_ok_def alarm_ok_def begin_submit_def Let_def receipts_ok_def submission_ok_def submitting_ok_def
        unsubmitted_def ids_def)
qed

lemma prepare_section_ok:
  assumes ok: "rest_ok policy d" and rt: "rt_ok sha H (dr_rt d)" and drain: "dr_drain d = Looping step started"
  shows "rest_ok policy (prepare_section sha H random describe policy step started clock now d)"
proof -
  obtain q rt where load: "loadSession H (dr_rt d) = (q, rt)" by fastforce
  have coh: "session_coherent (dr_rt d)" using assms(2) by (simp add: rt_ok_def)
  note after = loadSession_coherent [OF load coh]
  have rt1: "rt_ok sha H rt" using rt_step_ok [OF step_load [OF load] assms(2)] by simp
  obtain p rt' where prep: "prepare sha H rt = (p, rt')" by fastforce
  note ready = prepare_run [OF rt1 prep] and keep = prepare_keeps [OF prep]
  let ?d = "d\<lparr>dr_rt := rt'\<rparr>"
  have idle: "rest_ok policy (d\<lparr>dr_rt := x, dr_drain := y\<rparr>)"
    if "keeps_prepared (dr_rt d) x" "rt_store x = rt_store (dr_rt d)" "\<not> submitting (d\<lparr>dr_drain := y\<rparr>)" for x y
    using ok that frame_ok [of d policy "d\<lparr>dr_rt := x, dr_drain := y\<rparr>"]
    by (auto simp: rest_ok_def alarm_ok_def work_waiting_def submitting_def)
  have keeps: "keeps_prepared (dr_rt d) rt" "keeps_prepared (dr_rt d) rt'"
    using after keep by (auto simp: keeps_prepared_def)
  have armed: "dr_alarm d \<noteq> None" if "ps_pendingEventId (processingStatus (st_inbox (rt_store rt))) \<noteq> None"
    "\<not> ps_blocked (processingStatus (st_inbox (rt_store rt)))"
    using ok that after by (simp add: rest_ok_def alarm_ok_def processing_waiting)
  have fail: "rest_ok policy ((failed random describe policy now progress e True ?d)\<lparr>dr_drain := Finishing\<rparr>)"
    if "dr_alarm d \<noteq> None" for progress e
    by (rule armed_ok [OF ok]) (use that keeps(2) in \<open>auto simp: submitting_def keeps_prepared_def\<close>)
  have same: "rest_ok policy ?d"
    using ok keeps ready after frame_ok [of d policy ?d]
    by (auto simp: rest_ok_def alarm_ok_def work_waiting_def submitting_def)
  have start: "rest_ok policy (begin_submit step started \<lparr>wk_prepared = x, wk_progress = y\<rparr> ?d)"
    if "p = Inr (Some x)" "dr_alarm d \<noteq> None" "int step < dp_maxSteps policy" for x y
    using that same ready by (intro begin_submit_ok) auto
  show ?thesis
    unfolding prepare_section_def Let_def load prep
    using idle [OF keeps(1)] idle [OF keeps(2)] idle [of "dr_rt d" Finishing] armed fail start after ready
    by (auto simp: submitting_def keeps_prepared_def prep split: sum.splits option.splits)
qed

lemma take_ok:
  assumes ok: "rest_ok policy d"
  shows "rest_ok policy (take_operation policy d)"
proof (cases "dr_drain d")
  case (Submitting step started wk todo flying errors)
  show ?thesis
  proof (cases "\<exists>op todo'. todo = op # todo' \<and> int (length flying) < dp_submissionConcurrency policy")
    case True
    then obtain op todo' where t: "todo = op # todo'" "int (length flying) < dp_submissionConcurrency policy" by blast
    have sub: "int step < dp_maxSteps policy" "submitting_ok policy d (wk_prepared wk) todo flying errors" and rec: "receipts_ok d" and armed: "dr_alarm d \<noteq> None"
      using ok Submitting by (simp_all add: rest_ok_def submission_ok_def alarm_ok_def submitting_def)
    have d': "take_operation policy d = d\<lparr>dr_drain := Submitting step started wk todo' (flying @ [op]) errors\<rparr>"
      using Submitting t by (simp add: take_operation_def)
    have "ids (todo' @ flying @ [op]) = ids (todo @ flying)" by (auto simp: ids_def t)
    with sub t have "submitting_ok policy d (wk_prepared wk) todo' (flying @ [op]) errors"
      by (simp add: submitting_ok_def)
    with d' rec armed sub(1) show ?thesis
      by (simp add: rest_ok_def alarm_ok_def receipts_ok_def submission_ok_def submitting_ok_def)
  qed (use ok Submitting in \<open>auto simp: take_operation_def split: list.splits\<close>)
qed (use ok in \<open>simp_all add: take_operation_def\<close>)

text \<open>An answer takes one operation out of the flight.\<close>

lemma without_mset: "i < length xs \<Longrightarrow> mset xs = add_mset (xs ! i) (mset (take i xs @ drop (Suc i) xs))"
  by (metis id_take_nth_drop mset.simps(2) mset_append union_mset_add_mset_right)

lemma sub_mset_distinct:
  assumes "mset xs \<subseteq># mset ys" and "distinct (map f ys)"
  shows "distinct (map f xs)"
proof -
  obtain zs where "mset ys = mset (xs @ zs)"
    using assms(1) by (metis ex_mset mset_append mset_subset_eq_exists_conv)
  then have "mset (map f ys) = mset (map f (xs @ zs))" by (simp only: mset_map)
  then have "distinct (map f (xs @ zs))" using assms(2) mset_eq_imp_distinct_iff by blast
  then show ?thesis by simp
qed

lemma answer_ok:
  assumes ok: "rest_ok policy d" and reply: "\<forall>v. reply = Inr v \<longrightarrow> json_ok v"
  shows "rest_ok policy (answer i reply d)"
proof (cases "dr_drain d")
  case (Submitting step started wk todo flying errors)
  show ?thesis
  proof (cases "i < length flying")
    case True
    let ?rest = "take i flying @ drop (Suc i) flying" and ?op = "flying ! i" and ?p = "wk_prepared wk"
    have sub: "int step < dp_maxSteps policy" "submitting_ok policy d ?p todo flying errors" and rec: "receipts_ok d" and armed: "dr_alarm d \<noteq> None"
      using ok Submitting by (simp_all add: rest_ok_def submission_ok_def alarm_ok_def submitting_def)
    note m = without_mset [OF True]
    have set: "set flying = insert ?op (set ?rest)" using arg_cong [OF m, of set_mset] by simp
    have ms: "mset (todo @ ?rest) \<subseteq># mset (pr_operations ?p)"
      using sub m by (auto simp: submitting_ok_def intro: subset_mset.order_trans [rotated])
    have len: "length ?rest \<le> length flying" using True by simp
    have op: "?op \<in> set (pr_operations ?p)" using sub nth_mem [OF True] by (auto simp: submitting_ok_def simp del: nth_mem dest!: set_mset_mono)
    have new: "pp_operationId ?op \<notin> ids (todo @ ?rest)" if "distinct (map pp_operationId (pr_operations ?p))"
    proof -
      have "mset (?op # todo @ ?rest) \<subseteq># mset (pr_operations ?p)" using sub m by (simp add: submitting_ok_def)
      from sub_mset_distinct [OF this that] show ?thesis by (auto simp: ids_def)
    qed
    show ?thesis
    proof (cases "bindR reply (\<lambda>v. parseProviderSubmitResult (Some v))")
      case (Inl e)
      with Submitting True have d': "answer i reply d = d\<lparr>dr_drain := Submitting step started wk todo ?rest (errors @ [e])\<rparr>"
        by (simp add: answer_def Let_def)
      have "submitting_ok policy d ?p todo ?rest (errors @ [e])"
        using sub ms len set by (auto simp: submitting_ok_def ids_def)
      with d' rec armed sub(1) show ?thesis
        by (simp add: rest_ok_def alarm_ok_def receipts_ok_def submission_ok_def submitting_ok_def)
    next
      case (Inr r)
      then obtain v where v: "reply = Inr v" "parseProviderSubmitResult (Some v) = Inr r" by auto
      with reply parse_submit_result_valid have valid: "submit_result_valid r" by blast
      let ?rs = "set_receipt (dr_receipts d) (pp_operationId ?op) r"
      have keys: "fst ` set ?rs = insert (pp_operationId ?op) (fst ` set (dr_receipts d))"
        by (auto simp: set_receipt_def image_iff)
      from v Submitting True have d': "answer i reply d = d\<lparr>dr_receipts := ?rs, dr_drain := Submitting step started wk todo ?rest errors\<rparr>"
        by (simp add: answer_def Let_def)
      have sub': "submitting_ok policy (answer i reply d) ?p todo ?rest errors"
        using sub ms len set new unfolding d' submitting_ok_def by (simp add: keys ids_def)
      have "receipts_ok (answer i reply d)"
        using rec sub op valid unfolding d' receipts_ok_def
        by (auto simp: keys submitting_ok_def ids_def) (auto simp: set_receipt_def)
      with d' armed sub' sub(1) show ?thesis by (simp add: rest_ok_def alarm_ok_def submission_ok_def)
    qed
  qed (use Submitting ok in \<open>simp add: answer_def\<close>)
qed (use ok in \<open>simp_all add: answer_def\<close>)

lemma commit_section_ok:
  assumes ok: "rest_ok policy d" and rt: "rt_ok sha H (dr_rt d)"
  shows "rest_ok policy (commit_section sha H random describe policy now d)"
proof (cases "dr_drain d")
  case (Submitting step started wk todo flying errors)
  obtain q rt where com: "commit sha H (wk_prepared wk) (receipts_for d (wk_prepared wk)) now (dr_rt d) = (q, rt)" by fastforce
  have armed: "dr_alarm d \<noteq> None" using ok Submitting by (simp add: rest_ok_def alarm_ok_def submitting_def)
  have fail: "rest_ok policy ((failed random describe policy now progress e b d')\<lparr>dr_drain := Finishing\<rparr>)"
    if "keeps_prepared (dr_rt d) (dr_rt d')" "dr_alarm d' = dr_alarm d" "dr_receipts d' = dr_receipts d"
      "dr_receiptInput d' = dr_receiptInput d" for progress e b d'
    by (rule armed_ok [OF ok]) (use that armed in \<open>auto simp: submitting_def keeps_prepared_def\<close>)
  have keep: "keeps_prepared (dr_rt d) rt" if "q = Inl e" for e
    using assms(2) com that by (cases rule: commit_cases) (auto simp: keeps_prepared_def)
  have finished: "rest_ok policy (d\<lparr>dr_rt := rt, dr_receipts := [], dr_receiptInput := None, dr_drain := Looping (Suc step) started\<rparr>)"
    using armed by (simp add: rest_ok_def alarm_ok_def receipts_ok_def submission_ok_def)
  show ?thesis
    using Submitting com ok finished fail [of d] keep fail [of "d\<lparr>dr_rt := rt\<rparr>"]
    by (auto simp: commit_section_def keeps_prepared_def split: list.splits sum.splits)
qed (use ok in \<open>simp_all add: commit_section_def\<close>)

lemma final_ok: "rest_ok policy d \<Longrightarrow> rest_ok policy (final_section policy now d)"
  using processing_waiting [of d]
  by (auto simp: rest_ok_def final_section_def Let_def alarm_ok_def work_waiting_def submitting_def receipts_ok_def submission_ok_def)

lemma end_ok: "rest_ok policy d \<Longrightarrow> rest_ok policy (end_drain now d)"
  by (auto simp: rest_ok_def end_drain_def kick_def start_def alarm_ok_def work_waiting_def submitting_def receipts_ok_def submission_ok_def)

lemma newDriver_ok:
  assumes "newDriver policy providers H storage alarm = Inr d"
    and "alarm = None \<longrightarrow> (\<forall>r. (case storage of Some st \<Rightarrow> head_row (st_inbox st) = Some r \<and> \<not> ib_blocked r | None \<Rightarrow> False) \<longrightarrow> False)"
  shows "rest_ok policy d"
  using assms
  by (auto simp: newDriver_def newRuntime_def bootstrap_def Let_def rest_ok_def alarm_ok_def work_waiting_def submitting_def
      receipts_ok_def submission_ok_def head_row_def waiting_rows_def split: option.splits)

lemma dr_step_rest:
  assumes step: "dr_step sha H describe policy d d'" and ok: "rest_ok policy d" and rt: "rt_ok sha H (dr_rt d)"
  shows "rest_ok policy d'"
  using step
proof (cases rule: dr_step.cases)
  case (dr_initialize v now r)
  obtain x rt' where run: "initialize H v now (dr_rt d) = (x, rt')" by fastforce
  with dr_initialize have "d' = d\<lparr>dr_rt := rt'\<rparr>" by (simp add: driver_initialize_def)
  with initialize_keeps [OF run] ok frame_ok [of d policy d'] show ?thesis
    by (auto simp: rest_ok_def alarm_ok_def work_waiting_def submitting_def keeps_prepared_def)
next
  case (dr_append v now r)
  show ?thesis
  proof (cases "parseSubmitInputRequest v")
    case (Inl e)
    with dr_append ok show ?thesis by (simp add: driver_appendInput_def)
  next
    case (Inr q)
    obtain x rt' where adm: "admitInput sha H q now (dr_rt d) = (x, rt')" by fastforce
    have "admit policy now (admitInput sha H q now) d = (r, d')" using dr_append Inr by (simp add: driver_appendInput_def)
    moreover have "keeps_prepared (dr_rt d) rt'" using admitInput_mild [OF _ adm] rt by (simp add: rt_ok_def mild_def keeps_prepared_def)
    ultimately show ?thesis by (intro admit_ok [where m = "admitInput sha H q now", OF ok _ adm])
  qed
next
  case (dr_resume now r)
  obtain x rt' where run: "bindA (getSession H) (\<lambda>_. modifyA (with_inbox resetProcessing)) (dr_rt d) = (x, rt')" by fastforce
  have "keeps_prepared (dr_rt d) rt'" using getSession_reset [OF run] by (simp add: keeps_prepared_def)
  from admit_ok [OF ok dr_resume [unfolded resumeProcessing_def] run this] show ?thesis .
next
  case (dr_alarm now)
  show ?thesis
    by (rule armed_ok [OF ok]) (auto simp: dr_alarm driver_alarm_def keeps_prepared_def kick_drain submitting_def)
next
  case (dr_run now)
  show ?thesis
  proof (cases "dr_drain d = Resting")
    case True
    show ?thesis
      by (rule armed_ok [OF ok]) (auto simp: dr_run driver_run_def True keeps_prepared_def kick_drain submitting_def)
  qed (use dr_run ok in \<open>simp add: driver_run_def\<close>)
next
  case (dr_lost providers)
  show ?thesis
    by (rule newDriver_ok [OF dr_lost]) (use ok in \<open>auto simp: rest_ok_def alarm_ok_def work_waiting_def\<close>)
qed (use ok rt in \<open>auto intro: accept_ok prepare_section_ok take_ok answer_ok commit_section_ok final_ok end_ok\<close>)

lemma dr_step_ok:
  "dr_step sha H describe policy d d' \<Longrightarrow> driver_ok sha H policy d \<Longrightarrow> driver_ok sha H policy d'"
  unfolding driver_ok_parts using dr_step_rt_ok dr_step_rest by blast

lemma dr_steps_ok:
  "(dr_step sha H describe policy)\<^sup>*\<^sup>* d d' \<Longrightarrow> driver_ok sha H policy d \<Longrightarrow> driver_ok sha H policy d'"
  by (induction rule: rtranclp_induct) (auto intro: dr_step_ok)

lemma dr_steps_runtime:
  "(dr_step sha H describe policy)\<^sup>*\<^sup>* d d' \<Longrightarrow> (rt_step sha H)\<^sup>*\<^sup>* (dr_rt d) (dr_rt d')"
  by (induction rule: rtranclp_induct) (auto dest: dr_step_runtime)

lemma newDriver_runtime: "newDriver policy providers H storage alarm = Inr d \<Longrightarrow> newRuntime H storage = Inr (dr_rt d)"
  by (auto simp: newDriver_def)

lemma fresh_driver_ok:
  assumes "newDriver policy providers H None alarm = Inr d"
  shows "driver_ok sha H policy d"
  unfolding driver_ok_parts
  using newDriver_ok [OF assms] fresh_runtime_ok [OF newDriver_runtime [OF assms]] by simp

section \<open>Receipts\<close>

lemma collect_receipts_all:
  assumes "\<forall>op \<in> set ops. \<exists>r. map_of rs (pp_operationId op) = Some r \<and> submit_result_valid r"
    and "distinct (map fst acc @ map pp_operationId ops)" and "set ops \<subseteq> set all"
  shows "collect_receipts all (map (\<lambda>op. (pp_operationId op,
      case map_of rs (pp_operationId op) of Some r \<Rightarrow> submit_result_json r | None \<Rightarrow> JNull)) ops) acc
    = Inr (acc @ map (\<lambda>op. (pp_operationId op, the (map_of rs (pp_operationId op)))) ops)"
  using assms
proof (induction ops arbitrary: acc)
  case (Cons op ops)
  from Cons.prems(1) obtain r where r: "map_of rs (pp_operationId op) = Some r" "submit_result_valid r" by auto
  have new: "pp_operationId op \<notin> fst ` set acc" "pp_operationId op \<in> pp_operationId ` set all"
    using Cons.prems(2,3) by auto
  have "collect_receipts all (map (\<lambda>op. (pp_operationId op,
      case map_of rs (pp_operationId op) of Some r \<Rightarrow> submit_result_json r | None \<Rightarrow> JNull)) ops) (acc @ [(pp_operationId op, r)])
    = Inr ((acc @ [(pp_operationId op, r)]) @ map (\<lambda>op. (pp_operationId op, the (map_of rs (pp_operationId op)))) ops)"
    by (rule Cons.IH) (use Cons.prems in auto)
  then show ?case using r new by (simp add: parse_submit_result_json)
qed simp

section \<open>A failed attempt\<close>

lemma head_row_map:
  assumes ok: "inbox_ok rows" and keep: "\<And>r. ib_sequence (g r) = ib_sequence r" "\<And>r. waiting (g r) = waiting r"
  shows "head_row (map g rows) = map_option g (head_row rows)"
proof -
  have "sorted_wrt (<) (map ib_sequence rows)" using ok by (simp add: inbox_ok_def)
  moreover have "map ib_sequence (map g rows) = map ib_sequence rows" using keep(1) by simp
  moreover have "List.filter waiting (map g rows) = map g (List.filter waiting rows)"
    using keep(2) by (simp add: filter_map comp_def)
  ultimately show ?thesis
    by (simp only: head_row_def waiting_rows_eq) (simp split: list.split)
qed

lemma head_row_fail:
  assumes "inbox_ok rows" and "head_row rows = Some r" and "ps_pendingEventId progress = Some (ib_event_id r)"
  shows "head_row (failProcessing rows progress due blocked message) = Some (failed_row due blocked message r)"
proof -
  have "waiting r" using head_row_waiting [OF assms(2)] by simp
  then show ?thesis
    using assms(2,3) by (simp add: failProcessing_def update_waiting_def head_row_map [OF assms(1)] failed_row_def waiting_def)
qed

section \<open>Policy\<close>

lemma check_policy_pos:
  assumes "check_policy policy = Inr ()"
  shows "1 \<le> dp_submissionConcurrency policy" "1 \<le> dp_retryBaseMs policy" "dp_retryBaseMs policy \<le> dp_retryMaxMs policy"
    "dp_retryMaxMs policy \<le> 2147483647" "1 \<le> dp_maxSteps policy" "1 \<le> dp_maxHandlerFailures policy" "1 \<le> dp_continuationMs policy"
  using assms by (auto simp: check_policy_def policy_entries_def split: if_splits option.splits)

end
