(* ===== verification/DriverProperties.thy ===== *)
theory DriverProperties
  imports DriverSafety RuntimeProperties
begin

text \<open>
  The properties of the session driver: it refines the runtime, an input that can be processed always has an alarm,
  submissions are bounded and never repeated once answered, a finished submission is always committable, and the
  treatment and pace of failures. The witnesses run the driver on \<open>echo_harness\<close>.
\<close>

section \<open>A concrete run\<close>

definition demo_driver :: "(unit, unit) driver" where
  "demo_driver = \<lparr>dr_rt = demo_start, dr_alarm = None, dr_receiptInput = None, dr_receipts = [], dr_requested = False,
     dr_drain = Resting\<rparr>"

definition demo_driver_open :: "(unit, unit) driver" where
  "demo_driver_open = demo_driver\<lparr>dr_rt := demo_open\<rparr>"

definition demo_driver_said :: "(unit, unit) driver" where
  "demo_driver_said = demo_driver\<lparr>dr_rt := demo_said, dr_alarm := Some 30006, dr_drain := Looping 0 6\<rparr>"

definition demo_work :: "unit work" where
  "demo_work = \<lparr>wk_prepared = demo_prepared, wk_progress = processingStatus (st_inbox (rt_store demo_said))\<rparr>"

definition demo_submitting :: "prepared_operation list \<Rightarrow> prepared_operation list \<Rightarrow> (unit, unit) driver" where
  "demo_submitting todo flying = demo_driver_said\<lparr>dr_rt := demo_ready, dr_receiptInput := Some (lit ''e1''),
     dr_drain := Submitting 0 6 demo_work todo flying []\<rparr>"

abbreviation demo_step :: "(unit, unit) driver \<Rightarrow> (unit, unit) driver \<Rightarrow> bool" where
  "demo_step \<equiv> dr_step length_sha echo_harness (\<lambda>e. lit ''error'') DEFAULT_DRIVER_POLICY"

lemma demo_policy: "check_policy DEFAULT_DRIVER_POLICY = Inr ()"
  by code_simp

lemma demo_driver_new: "newDriver DEFAULT_DRIVER_POLICY {lit ''llm''} echo_harness None None = Inr demo_driver"
  using demo_policy demo_definitions demo_fresh
  by (simp add: newDriver_def demo_driver_def echo_harness_def LLM_OPERATION_def mk_operation_def)

lemma demo_driver_opens: "demo_step demo_driver demo_driver_open"
proof (rule dr_initialize)
  show "driver_initialize echo_harness (Some (obj [(''session'', demo_identity), (''config'', JNull)])) 5 demo_driver
      = (Inr (demo_info, False), demo_driver_open)"
    using demo_initialize by (simp add: driver_initialize_def demo_driver_def demo_driver_open_def)
qed

lemma demo_driver_appends: "demo_step demo_driver_open demo_driver_said"
proof (rule dr_append)
  have "admitInput length_sha echo_harness \<lparr>sr_eventId = lit ''e1'', sr_event = demo_body\<rparr> 6 demo_open
      = (Inr (receipt_of demo_info (lit ''e1'') 1 6 False), demo_said)"
    using demo_append appendInput_admit [OF demo_request] by metis
  then show "driver_appendInput length_sha echo_harness DEFAULT_DRIVER_POLICY (Some (demo_event ''e1'' ''hi'')) 6 demo_driver_open
      = (Inr (receipt_of demo_info (lit ''e1'') 1 6 False), demo_driver_said)"
    using demo_request
    by (simp add: driver_appendInput_def admit_def arm_def kick_def start_def demo_driver_open_def demo_driver_said_def
        demo_driver_def DEFAULT_DRIVER_POLICY_def Let_def)
qed

lemma demo_status: "processingStatus (st_inbox (rt_store demo_said)) = \<lparr>ps_pendingEventId = Some (lit ''e1''), ps_failures = 0,
    ps_retryAt = None, ps_blocked = False, ps_lastError = None\<rparr>"
  by code_simp

lemma demo_head: "head_row (st_inbox (rt_store demo_said)) = Some (new_row demo_input (inputHash length_sha demo_body))"
  by (simp add: demo_said_def head_row_def waiting_rows_def)

lemma demo_driver_prepares: "demo_step demo_driver_said (demo_submitting (pr_operations demo_prepared) [])"
proof -
  have "loadSession echo_harness demo_said = (Inr (Some demo_info), demo_said)"
    by (simp add: loadSession_def demo_said_def demo_open_def act_defs)
  then have "prepare_section length_sha echo_harness (0, 1) (\<lambda>e. lit ''error'') DEFAULT_DRIVER_POLICY 0 6 7 7 demo_driver_said
      = demo_submitting (pr_operations demo_prepared) []"
    using demo_prepare demo_status
    by (simp add: prepare_section_def begin_submit_def unsubmitted_def demo_driver_said_def demo_driver_def demo_submitting_def
        demo_work_def DEFAULT_DRIVER_POLICY_def Let_def demo_prepared_def demo_input_def)
  moreover have "dr_drain demo_driver_said = Looping 0 6" by (simp add: demo_driver_said_def)
  ultimately show ?thesis by (metis dr_prepare)
qed

lemma demo_driver_takes: "demo_step (demo_submitting (pr_operations demo_prepared) []) (demo_submitting [] (pr_operations demo_prepared))"
proof -
  have "take_operation DEFAULT_DRIVER_POLICY (demo_submitting (pr_operations demo_prepared) []) = demo_submitting [] (pr_operations demo_prepared)"
    by (simp add: take_operation_def demo_submitting_def DEFAULT_DRIVER_POLICY_def demo_prepared_def)
  then show ?thesis by (metis dr_take)
qed

lemma demo_driver_runs:
  "demo_step\<^sup>*\<^sup>* demo_driver demo_driver_said" "demo_step\<^sup>*\<^sup>* demo_driver (demo_submitting [] (pr_operations demo_prepared))"
  using demo_driver_opens demo_driver_appends demo_driver_prepares demo_driver_takes
  by (meson rtranclp.rtrancl_into_rtrancl rtranclp.rtrancl_refl)+

section \<open>Refinement and recovery\<close>

text \<open>C12: Refinement: whatever sections of the driver interleave, whatever the providers answer and whenever
  the activation is lost, the runtime's state is one a sequence of calls of the runtime's own interface reaches from
  the runtime the driver was created with, so that its invariant holds and every theorem about such sequences
  is one about driven sessions.\<close>

theorem driver_refines_runtime:
  assumes "newDriver policy providers H None alarm = Inr d0" and "(dr_step sha H describe policy)\<^sup>*\<^sup>* d0 d"
  shows "\<exists>rt0. newRuntime H None = Inr rt0 \<and> (rt_step sha H)\<^sup>*\<^sup>* rt0 (dr_rt d) \<and> rt_ok sha H (dr_rt d)"
  using newDriver_runtime [OF assms(1)] dr_steps_runtime [OF assms(2)] dr_steps_ok [OF assms(2) fresh_driver_ok [OF assms(1)]]
  by (auto simp: driver_ok_def)

theorem driver_refines_runtime_witness:
  "\<exists>rt0. newRuntime echo_harness None = Inr rt0 \<and> (rt_step length_sha echo_harness)\<^sup>*\<^sup>* rt0 demo_ready \<and> rt_ok length_sha echo_harness demo_ready"
  using driver_refines_runtime [OF demo_driver_new demo_driver_runs(2)] by (simp add: demo_submitting_def)

text \<open>C11: Recovery is always armed: in every reachable state in which an input waits and is not blocked, or in
  which operations are being submitted, an alarm is set, so that a crash at any point is followed by another attempt.
  In particular the alarm is deleted only when nothing can be done.\<close>

theorem recovery_always_armed:
  assumes "newDriver policy providers H None alarm = Inr d0" and "(dr_step sha H describe policy)\<^sup>*\<^sup>* d0 d"
    and "(\<exists>r. head_row (st_inbox (rt_store (dr_rt d))) = Some r \<and> \<not> ib_blocked r)
      \<or> (\<exists>step started wk todo flying errors. dr_drain d = Submitting step started wk todo flying errors)"
  shows "\<exists>due. dr_alarm d = Some due"
  using dr_steps_ok [OF assms(2) fresh_driver_ok [OF assms(1)]] assms(3)
  by (auto simp: driver_ok_def alarm_ok_def work_waiting_def submitting_def)

theorem recovery_always_armed_witness: "\<exists>due. dr_alarm demo_driver_said = Some due"
proof -
  have "\<exists>r. head_row (st_inbox (rt_store (dr_rt demo_driver_said))) = Some r \<and> \<not> ib_blocked r"
    using demo_head by (simp add: demo_driver_said_def new_row_def)
  with recovery_always_armed [OF demo_driver_new demo_driver_runs(1)] show ?thesis by blast
qed

section \<open>Submission\<close>

text \<open>C13: During a submission at most \<open>submissionConcurrency\<close> operations are in flight, all of them
  operations of the transition the runtime keeps prepared; and (operation ids being distinct) an operation is at most
  once among those to submit or in flight, and never there once its provider's answer is known, also
  over the retries of the same input.\<close>

theorem submission_bounded:
  assumes "newDriver policy providers H None alarm = Inr d0" and "(dr_step sha H describe policy)\<^sup>*\<^sup>* d0 d"
    and "dr_drain d = Submitting step started wk todo flying errors"
  shows "int (length flying) \<le> dp_submissionConcurrency policy \<and> rt_prepared (dr_rt d) = Some (wk_prepared wk)
    \<and> set (todo @ flying) \<subseteq> set (pr_operations (wk_prepared wk))
    \<and> (distinct (map pp_operationId (pr_operations (wk_prepared wk))) \<longrightarrow>
        distinct (map pp_operationId (todo @ flying)) \<and> pp_operationId ` set (todo @ flying) \<inter> fst ` set (dr_receipts d) = {})"
proof -
  let ?p = "wk_prepared wk"
  have sub: "submitting_ok policy d ?p todo flying errors"
    using dr_steps_ok [OF assms(2) fresh_driver_ok [OF assms(1)]] assms(3) by (simp add: driver_ok_def submission_ok_def)
  have "1 \<le> dp_submissionConcurrency policy"
    using assms(1) check_policy_pos [of policy] by (auto simp: newDriver_def)
  with sub have "int (length flying) \<le> dp_submissionConcurrency policy" by (simp add: submitting_ok_def)
  moreover have "set (todo @ flying) \<subseteq> set (pr_operations ?p)"
    using sub set_mset_mono [of "mset (todo @ flying)" "mset (pr_operations ?p)"] by (auto simp: submitting_ok_def)
  ultimately show ?thesis
    using sub sub_mset_distinct [of "todo @ flying" "pr_operations ?p" pp_operationId] by (simp add: submitting_ok_def ids_def)
qed

theorem submission_bounded_witness:
  "int (length (pr_operations demo_prepared)) \<le> dp_submissionConcurrency DEFAULT_DRIVER_POLICY
    \<and> rt_prepared demo_ready = Some demo_prepared"
proof -
  have "dr_drain (demo_submitting [] (pr_operations demo_prepared)) = Submitting 0 6 demo_work [] (pr_operations demo_prepared) []"
    by (simp add: demo_submitting_def)
  from submission_bounded [OF demo_driver_new demo_driver_runs(2) this] show ?thesis
    by (simp add: demo_work_def demo_submitting_def)
qed

text \<open>C14: A submission that has answered every operation without an error can be committed: the commit accepts the
  receipts kept, parses each of them again to the same result, and finds one for every operation, so it never fails for
  want of a receipt or on a receipt it does not understand (given distinct operation ids).\<close>

theorem finished_submission_commits:
  assumes "newDriver policy providers H None alarm = Inr d0" and "(dr_step sha H describe policy)\<^sup>*\<^sup>* d0 d"
    and "dr_drain d = Submitting step started wk [] [] []"
    and "distinct (map pp_operationId (pr_operations (wk_prepared wk)))"
  shows "\<exists>results. collect_receipts (pr_operations (wk_prepared wk)) (receipts_for d (wk_prepared wk)) [] = Inr results
    \<and> map fst results = map pp_operationId (pr_operations (wk_prepared wk))
    \<and> (\<forall>(oid, r) \<in> set results. map_of (dr_receipts d) oid = Some r)"
proof -
  let ?p = "wk_prepared wk"
  have inv: "submitting_ok policy d ?p [] [] []" "receipts_ok d"
    using dr_steps_ok [OF assms(2) fresh_driver_ok [OF assms(1)]] assms(3) by (simp_all add: driver_ok_def submission_ok_def)
  have "\<exists>r. map_of (dr_receipts d) (pp_operationId op) = Some r \<and> submit_result_valid r" if "op \<in> set (pr_operations ?p)" for op
    using inv that
    by (auto simp: submitting_ok_def receipts_ok_def ids_def map_of_eq_None_iff dest!: map_of_SomeD
        dest: subsetD split: option.splits) (metis (no_types, lifting) image_eqI in_mono map_of_SomeD not_Some_eq map_of_eq_None_iff snd_conv)
  then have "collect_receipts (pr_operations ?p) (receipts_for d ?p) []
      = Inr (map (\<lambda>op. (pp_operationId op, the (map_of (dr_receipts d) (pp_operationId op)))) (pr_operations ?p))
      \<and> (\<forall>op \<in> set (pr_operations ?p). \<exists>r. map_of (dr_receipts d) (pp_operationId op) = Some r)"
    using collect_receipts_all [of "pr_operations ?p" "dr_receipts d" "[]" "pr_operations ?p"] assms(4)
    by (auto simp: receipts_for_def)
  then show ?thesis by fastforce
qed

definition demo_answered :: "(unit, unit) driver" where
  "demo_answered = (demo_submitting [] [])\<lparr>dr_receipts := [(pp_operationId (hd (pr_operations demo_prepared)), Accepted (lit ''j1''))]\<rparr>"

lemma demo_driver_answers: "demo_step\<^sup>*\<^sup>* demo_driver demo_answered"
proof -
  have "parseProviderSubmitResult (Some (submit_result_json (Accepted (lit ''j1'')))) = Inr (Accepted (lit ''j1''))" by code_simp
  then have "answer 0 (Inr (submit_result_json (Accepted (lit ''j1'')))) (demo_submitting [] (pr_operations demo_prepared)) = demo_answered"
    by (simp add: answer_def demo_submitting_def demo_answered_def demo_prepared_def set_receipt_def demo_driver_said_def demo_driver_def)
  moreover have "json_ok (submit_result_json (Accepted (lit ''j1'')))" by code_simp
  ultimately have "demo_step (demo_submitting [] (pr_operations demo_prepared)) demo_answered"
    using dr_answer [of "Inr (submit_result_json (Accepted (lit ''j1'')))" length_sha echo_harness] by (metis sum.inject(2))
  with demo_driver_runs(2) show ?thesis by (rule rtranclp.rtrancl_into_rtrancl)
qed

theorem finished_submission_commits_witness:
  "\<exists>results. collect_receipts (pr_operations demo_prepared) (receipts_for demo_answered demo_prepared) [] = Inr results
    \<and> map fst results = map pp_operationId (pr_operations demo_prepared)"
proof -
  have "dr_drain demo_answered = Submitting 0 6 demo_work [] [] []" by (simp add: demo_answered_def demo_submitting_def)
  moreover have "distinct (map pp_operationId (pr_operations (wk_prepared demo_work)))"
    by (simp add: demo_work_def demo_prepared_def)
  moreover have "wk_prepared demo_work = demo_prepared" by (simp add: demo_work_def)
  ultimately show ?thesis using finished_submission_commits [OF demo_driver_new demo_driver_answers] by metis
qed

section \<open>Termination of a drain\<close>

text \<open>The sections of a drain that have something to do.\<close>

inductive drain_step ::
  "(jstring \<Rightarrow> jstring) \<Rightarrow> ('h, 'c) harness \<Rightarrow> (exn \<Rightarrow> jstring) \<Rightarrow> driver_policy \<Rightarrow>
    ('h, 'c) driver \<Rightarrow> ('h, 'c) driver \<Rightarrow> bool"
  for sha H describe policy where
  drain_prepare: "dr_drain d = Looping step started \<Longrightarrow>
    drain_step sha H describe policy d (prepare_section sha H random describe policy step started clock now d)"
| drain_take: "dr_drain d = Submitting step started wk (op # todo) flying errors \<Longrightarrow>
    int (length flying) < dp_submissionConcurrency policy \<Longrightarrow>
    drain_step sha H describe policy d (take_operation policy d)"
| drain_answer: "dr_drain d = Submitting step started wk todo flying errors \<Longrightarrow> i < length flying \<Longrightarrow>
    drain_step sha H describe policy d (answer i reply d)"
| drain_commit: "dr_drain d = Submitting step started wk [] [] errors \<Longrightarrow>
    drain_step sha H describe policy d (commit_section sha H random describe policy now d)"
| drain_final: "dr_drain d = Finishing \<Longrightarrow> drain_step sha H describe policy d (final_section policy now d)"

definition drain_rank :: "driver_policy \<Rightarrow> ('h, 'c) driver \<Rightarrow> nat \<times> nat" where
  "drain_rank policy d = (case dr_drain d of
     Looping step started \<Rightarrow> (2 * (nat (dp_maxSteps policy) - step) + 3, 0)
   | Submitting step started wk todo flying errors \<Rightarrow>
       (2 * (nat (dp_maxSteps policy) - step) + 2, 2 * length todo + length flying)
   | Finishing \<Rightarrow> (1, 0) | Ended \<Rightarrow> (0, 0) | Resting \<Rightarrow> (0, 0))"

lemma begin_drain:
  "dr_drain (begin_submit step started wk d)
    = Submitting step started wk (unsubmitted (begin_submit step started wk d) (wk_prepared wk)) [] []"
  by (simp add: begin_submit_def unsubmitted_def Let_def)

lemma prepare_section_drain:
  "dr_drain (prepare_section sha H random describe policy step started clock now d) \<in> {Finishing, Ended}
    \<or> (\<exists>wk todo. dr_drain (prepare_section sha H random describe policy step started clock now d)
          = Submitting step started wk todo [] [])"
proof -
  obtain q rt where load: "loadSession H (dr_rt d) = (q, rt)" by fastforce
  obtain p rt' where prep: "prepare sha H rt = (p, rt')" by fastforce
  show ?thesis
    unfolding prepare_section_def load Let_def
    by (cases q; cases p) (auto simp: prep begin_drain split: option.split)
qed

lemma drain_step_rank:
  assumes "drain_step sha H describe policy d d'" and "submission_ok policy d"
  shows "(drain_rank policy d', drain_rank policy d) \<in> less_than <*lex*> less_than"
  using assms
proof (cases rule: drain_step.cases)
  case (drain_prepare step started random clock now)
  then show ?thesis
    using prepare_section_drain [of sha H random describe policy step started clock now d]
    by (auto simp: drain_rank_def)
next
  case (drain_commit step started wk errors random now)
  with assms(2) show ?thesis
    by (auto simp: drain_rank_def commit_section_def submission_ok_def split: list.splits sum.splits prod.splits)
next
  case (drain_answer step started wk todo flying errors i reply)
  then show ?thesis
    by (auto simp: drain_rank_def answer_def Let_def split: sum.splits)
qed (auto simp: drain_rank_def take_operation_def final_section_def Let_def)

text \<open>C15: A drain ends: each section of it that has something to do, whatever the harness and the providers
  return and also when an attempt fails or times out, lowers a well-founded rank, admissions and alarms between them
  do not change it, and until the drain has ended there is such a section. One drain commits at most
  \<open>maxSteps\<close> transitions.\<close>

theorem drain_terminates:
  assumes "newDriver policy providers H None alarm = Inr d0" and "(dr_step sha H describe policy)\<^sup>*\<^sup>* d0 d"
    and "dr_drain d \<noteq> Resting" and "dr_drain d \<noteq> Ended"
  shows "(\<exists>d'. drain_step sha H describe policy d d')
    \<and> (\<forall>d'. drain_step sha H describe policy d d' \<longrightarrow>
         (drain_rank policy d', drain_rank policy d) \<in> less_than <*lex*> less_than)
    \<and> (\<forall>v now d'. d' = snd (driver_appendInput sha H policy v now d) \<or> d' = snd (driver_acceptCompletion sha H policy v now d)
         \<or> d' = driver_alarm policy now d \<longrightarrow> drain_rank policy d' = drain_rank policy d)"
proof -
  have sub: "submission_ok policy d"
    using dr_steps_ok [OF assms(2) fresh_driver_ok [OF assms(1)]] by (simp add: driver_ok_def)
  have one: "1 \<le> dp_submissionConcurrency policy"
    using assms(1) check_policy_pos [of policy] by (auto simp: newDriver_def)
  have "\<exists>d'. drain_step sha H describe policy d d'"
  proof (cases "dr_drain d")
    case (Submitting step started wk todo flying errors)
    show ?thesis
    proof (cases flying)
      case Nil
      with Submitting one show ?thesis
        by (cases todo) (auto intro!: exI drain_take drain_commit)
    next
      case (Cons x xs)
      then have "0 < length flying" by simp
      from drain_answer [OF Submitting this] show ?thesis by blast
    qed
  qed (use assms(3,4) in \<open>auto intro: drain_prepare drain_final\<close>)
  moreover have "dr_drain d' = dr_drain d" if "d' = snd (driver_appendInput sha H policy v now d)
      \<or> d' = snd (driver_acceptCompletion sha H policy v now d) \<or> d' = driver_alarm policy now d" for v now d'
    using that assms(3)
    by (auto simp: driver_appendInput_def admit_def driver_acceptCompletion_def driver_alarm_def kick_drain Let_def
        split: sum.splits prod.splits if_splits)
  ultimately show ?thesis using drain_step_rank [OF _ sub] by (simp add: drain_rank_def)
qed

theorem drain_terminates_witness: "\<exists>d'. drain_step length_sha echo_harness (\<lambda>e. lit ''error'') DEFAULT_DRIVER_POLICY demo_driver_said d'"
proof -
  have "dr_drain demo_driver_said \<noteq> Resting" "dr_drain demo_driver_said \<noteq> Ended" by (simp_all add: demo_driver_said_def)
  from drain_terminates [OF demo_driver_new demo_driver_runs(1) this] show ?thesis by blast
qed

section \<open>Failures\<close>



lemma check_policy_small: "check_policy policy = Inr () \<Longrightarrow> dp_retryMaxMs policy \<le> 2147483647"
  by (auto simp: check_policy_def policy_entries_def split: option.splits if_splits)

text \<open>The rounded factor \<open>0.5 + Math.random() * 0.5\<close> is between one half and one, so the rounded delay is between half and all of the cap.\<close>

lemma jitter_bounds:
  assumes "fst random < snd random" and "1 \<le> cap" and "cap < 2 ^ 51"
  shows "jitter random cap \<le> cap" "cap \<le> 2 * jitter random cap"
proof -
  obtain h h' where half: "nearest_double (fst random, 2 * snd random) = (h, h')" by fastforce
  have small: "fst random < 2 ^ 52 * (2 * snd random)" "0 < 2 * snd random" using assms(1) by simp_all
  have h: "0 < h'" "2 * h \<le> h'"
    using nearest_double_bounds(1) [OF small(2,1) half] nearest_double_bounds(3) [OF small(2,1) half, of 1] assms(1) by simp_all
  obtain f f' where factor: "nearest_double (h' + 2 * h, 2 * h') = (f, f')" by fastforce
  have bound: "h' + 2 * h < 2 ^ 52 * (2 * h')" "0 < 2 * h'" using h by simp_all
  have f: "0 < f'" "f' \<le> 2 * f" "2 * f \<le> 2 * f'"
    using nearest_double_bounds(1) [OF bound(2,1) factor] nearest_double_bounds(2) [OF bound(2,1) factor, of 1] nearest_double_bounds(3) [OF bound(2,1) factor, of 2] h by simp_all
  obtain x x' where product: "nearest_double (nat cap * f, f') = (x, x')" by fastforce
  have "nat cap < 2 ^ 51" using assms(2,3) by (simp add: nat_less_iff)
  then have "nat cap * f < 2 ^ 51 * (2 * f')" using f by (intro mult_less_le_imp_less) simp_all
  then have less: "nat cap * f < 2 ^ 52 * f'" by simp
  have "nat cap * f' \<le> 2 * (nat cap * f)" "2 * (nat cap * f) \<le> 2 * nat cap * f'" using f(2,3) by simp_all
  then have "0 < x'" "nat cap * x' \<le> 2 * x" "2 * x \<le> 2 * nat cap * x'"
    using nearest_double_bounds(1) [OF f(1) less product] nearest_double_bounds(2,3) [OF f(1) less product] by blast+
  then have "math_round (x, x') \<le> nat cap" "nat cap \<le> 2 * math_round (x, x')"
    using math_round_bounds(1) [of x' "nat cap" x] math_round_bounds(2) [of x' x "nat cap"] by simp_all
  moreover have "jitter random cap = int (math_round (x, x'))" by (simp add: jitter_def half factor product)
  ultimately show "jitter random cap \<le> cap" "cap \<le> 2 * jitter random cap" using assms(2) by linarith+
qed

text \<open>C17: The delay before a retry, \<open>Math.max(1, Math.round(cap * (0.5 + Math.random() * 0.5)))\<close> in rounded double arithmetic, is at least
  one millisecond, never above \<open>retryMaxMs\<close>, and between half and all of the exponential cap \<open>retryBaseMs * 2 ^ (attempt - 1)\<close>,
  whose exponent stops at 30. The random number is any fraction from 0 inclusive to 1 exclusive.\<close>

theorem retry_delay_bounds:
  assumes "check_policy policy = Inr ()" and "fst random < snd random" and "1 \<le> attempt"
    and "cap = min (dp_retryMaxMs policy) (dp_retryBaseMs policy * 2 ^ nat (min 30 (attempt - 1)))"
  shows "1 \<le> backoff random policy attempt \<and> backoff random policy attempt \<le> dp_retryMaxMs policy
    \<and> cap \<le> 2 * backoff random policy attempt \<and> backoff random policy attempt \<le> cap"
proof -
  note pos = check_policy_pos [OF assms(1)]
  have "dp_retryBaseMs policy * 1 \<le> dp_retryBaseMs policy * 2 ^ nat (min 30 (attempt - 1))"
    using pos(2) by (intro mult_left_mono) auto
  with pos(2) have "1 \<le> dp_retryBaseMs policy * 2 ^ nat (min 30 (attempt - 1))" by linarith
  with pos(2,3) assms(4) have cap: "1 \<le> cap" "cap \<le> dp_retryMaxMs policy" by auto
  have "dp_retryMaxMs policy < 2 ^ 51" using check_policy_small [OF assms(1)] by simp
  with jitter_bounds [OF assms(2) cap(1)] cap(2) have jit: "jitter random cap \<le> cap" "cap \<le> 2 * jitter random cap" by simp_all
  have "backoff random policy attempt = max 1 (jitter random cap)" unfolding assms(4) by (simp only: backoff_def Let_def)
  with jit cap show ?thesis by simp
qed

theorem retry_delay_bounds_witness:
  "backoff (3, 4) DEFAULT_DRIVER_POLICY 40 \<le> 60000 \<and> 500 \<le> 2 * backoff (3, 4) DEFAULT_DRIVER_POLICY 1"
  using retry_delay_bounds [OF demo_policy _ _ refl, of "(3, 4)" 40] retry_delay_bounds [OF demo_policy _ _ refl, of "(3, 4)" 1]
  by (simp add: DEFAULT_DRIVER_POLICY_def)

end
