(* ===== verification/Utf8.thy ===== *)
theory Utf8
  imports JsonSize ToolContracts
begin

text \<open>
  UTF-8, as the tool workers use it through \<open>TextEncoder\<close>, \<open>TextDecoder\<close> and \<open>Buffer\<close>. A byte is a
  natural number below 256. The encoder replaces a lone surrogate by U+FFFD; the decoder is the one of the
  WHATWG encoding standard, which replaces every maximal ill-formed subsequence by U+FFFD. The facts:
  the encoder's length is \<open>utf8Bytes\<close>, decoding an encoded text gives the text with its lone surrogates
  replaced, and an encoded text cut at a byte that is not a continuation is again an encoded text.
\<close>

type_synonym byte = nat

section \<open>Code points\<close>

definition scalar :: "nat \<Rightarrow> bool" where
  "scalar c \<longleftrightarrow> c < 0xD800 \<or> 0xE000 \<le> c \<and> c < 0x110000"

definition unit_scalar :: "unit16 \<Rightarrow> nat" where
  "unit_scalar u = (if high_surrogate u \<or> low_surrogate u then 0xFFFD else unat u)"

definition pair_scalar :: "unit16 \<Rightarrow> unit16 \<Rightarrow> nat" where
  "pair_scalar u v = 0x10000 + (unat u - 0xD800) * 0x400 + (unat v - 0xDC00)"

fun code_scalars :: "jstring \<Rightarrow> nat list" where
  "code_scalars [] = []"
| "code_scalars [u] = [unit_scalar u]"
| "code_scalars (u # v # s) =
     (if high_surrogate u \<and> low_surrogate v then pair_scalar u v # code_scalars s
      else unit_scalar u # code_scalars (v # s))"

definition scalar_units :: "nat \<Rightarrow> jstring" where
  "scalar_units c = (if c < 0x10000 then [of_nat c]
     else [of_nat (0xD800 + (c - 0x10000) div 0x400), of_nat (0xDC00 + (c - 0x10000) mod 0x400)])"

text \<open>\<open>String.prototype.toWellFormed\<close>.\<close>

definition toWellFormed :: "jstring \<Rightarrow> jstring" where
  "toWellFormed s = concat (map scalar_units (code_scalars s))"

section \<open>Encoding and decoding\<close>

definition scalar_bytes :: "nat \<Rightarrow> byte list" where
  "scalar_bytes c =
     (if c < 0x80 then [c]
      else if c < 0x800 then [0xC0 + c div 64, 0x80 + c mod 64]
      else if c < 0x10000 then [0xE0 + c div 4096, 0x80 + c div 64 mod 64, 0x80 + c mod 64]
      else [0xF0 + c div 262144, 0x80 + c div 4096 mod 64, 0x80 + c div 64 mod 64, 0x80 + c mod 64])"

definition utf8_encode :: "jstring \<Rightarrow> byte list" where
  "utf8_encode s = concat (map scalar_bytes (code_scalars s))"

text \<open>The decoder is at a boundary, or needs that many more continuation bytes, the next of them between two bounds, to
  complete a code point.\<close>

datatype decoder = Boundary | Needs nat byte byte nat

text \<open>What a byte at a boundary gives: a code point, or the start of a longer sequence.\<close>

definition lead :: "byte \<Rightarrow> decoder + nat" where
  "lead b =
     (if b < 0x80 then Inr b
      else if 0xC2 \<le> b \<and> b \<le> 0xDF then Inl (Needs 1 0x80 0xBF (b - 0xC0))
      else if 0xE0 \<le> b \<and> b \<le> 0xEF then
        Inl (Needs 2 (if b = 0xE0 then 0xA0 else 0x80) (if b = 0xED then 0x9F else 0xBF) (b - 0xE0))
      else if 0xF0 \<le> b \<and> b \<le> 0xF4 then
        Inl (Needs 3 (if b = 0xF0 then 0x90 else 0x80) (if b = 0xF4 then 0x8F else 0xBF) (b - 0xF0))
      else Inr 0xFFFD)"

fun decode_scalars :: "decoder \<Rightarrow> byte list \<Rightarrow> nat list" where
  "decode_scalars Boundary [] = []"
| "decode_scalars (Needs n lo up c) [] = [0xFFFD]"
| "decode_scalars Boundary (b # bs) = (case lead b of Inr c \<Rightarrow> c # decode_scalars Boundary bs | Inl d \<Rightarrow> decode_scalars d bs)"
| "decode_scalars (Needs n lo up c) (b # bs) =
     (if lo \<le> b \<and> b \<le> up then
        if n = 1 then (c * 64 + (b - 0x80)) # decode_scalars Boundary bs
        else decode_scalars (Needs (n - 1) 0x80 0xBF (c * 64 + (b - 0x80))) bs
      else 0xFFFD # (case lead b of Inr c' \<Rightarrow> c' # decode_scalars Boundary bs | Inl d \<Rightarrow> decode_scalars d bs))"

text \<open>\<open>Buffer.toString("utf8")\<close>; \<open>TextDecoder.decode\<close> also drops a leading byte order mark.\<close>

definition buffer_utf8 :: "byte list \<Rightarrow> jstring" where
  "buffer_utf8 bs = concat (map scalar_units (decode_scalars Boundary bs))"

definition textDecoder :: "byte list \<Rightarrow> jstring" where
  "textDecoder bs = buffer_utf8 (if take 3 bs = [0xEF, 0xBB, 0xBF] then drop 3 bs else bs)"

definition continuation :: "byte \<Rightarrow> bool" where
  "continuation b \<longleftrightarrow> 0x80 \<le> b \<and> b < 0xC0"

section \<open>Facts\<close>

lemma high_surrogate_unat: "high_surrogate u \<longleftrightarrow> 0xD800 \<le> unat u \<and> unat u < 0xDC00"
  by (simp add: high_surrogate_def word_le_nat_alt word_less_nat_alt)

lemma low_surrogate_unat: "low_surrogate u \<longleftrightarrow> 0xDC00 \<le> unat u \<and> unat u < 0xE000"
  by (simp add: low_surrogate_def word_le_nat_alt word_less_nat_alt)

lemma unat_unit16: "unat (u :: unit16) < 0x10000"
  using unsigned_less [of u] by simp

lemma scalar_unit: "scalar (unit_scalar u)"
  using unat_unit16 [of u] by (auto simp: scalar_def unit_scalar_def high_surrogate_unat low_surrogate_unat)

lemma scalar_pair:
  assumes "high_surrogate u" and "low_surrogate v"
  shows "scalar (pair_scalar u v)" and "0x10000 \<le> pair_scalar u v"
proof -
  have "(unat u - 0xD800) * 0x400 \<le> 0x3FF * 0x400" using assms(1) by (intro mult_le_mono1) (auto simp: high_surrogate_unat)
  then show "scalar (pair_scalar u v)" "0x10000 \<le> pair_scalar u v"
    using assms(2) by (auto simp: pair_scalar_def scalar_def low_surrogate_unat)
qed

lemma scalar_code_points: "list_all scalar (code_scalars s)"
  by (induction s rule: code_scalars.induct) (auto simp: scalar_unit scalar_pair)

lemma length_scalar_bytes: "length (scalar_bytes (unit_scalar u)) = unit_bytes u"
  using unat_unit16 [of u]
  by (auto simp: scalar_bytes_def unit_scalar_def unit_bytes_def high_surrogate_unat low_surrogate_unat word_less_nat_alt)

lemma length_utf8_encode [simp]: "length (utf8_encode s) = utf8Bytes s"
  unfolding utf8_encode_def
proof (induction s rule: code_scalars.induct)
  case (3 u v s)
  have "length (scalar_bytes (pair_scalar u v)) = 4" if "high_surrogate u" "low_surrogate v"
    using scalar_pair [OF that] by (simp add: scalar_bytes_def)
  with 3 show ?case by (auto simp: length_scalar_bytes)
qed (simp_all add: length_scalar_bytes)

subsection \<open>Decoding what was encoded\<close>

lemma split64: "c div 4096 * 64 + c div 64 mod 64 = c div (64 :: nat)" "c div 64 * 64 + c mod 64 = (c :: nat)"
  "c div 262144 * 64 + c div 4096 mod 64 = c div (4096 :: nat)"
proof -
  have "c div 4096 = c div 64 div 64" "c div 262144 = c div 4096 div 64" by (simp_all flip: div_mult2_eq)
  then show "c div 4096 * 64 + c div 64 mod 64 = c div 64" "c div 262144 * 64 + c div 4096 mod 64 = c div 4096" by simp_all
  show "c div 64 * 64 + c mod 64 = c" by simp
qed

lemma mod64: "c mod 64 \<le> (63 :: nat)"
  by (simp add: less_Suc_eq_le [symmetric])

lemmas div_bounds = less_eq_div_iff_mult_less_eq div_less_iff_less_mult

lemma decode_scalar_bytes:
  assumes "scalar c"
  shows "decode_scalars Boundary (scalar_bytes c @ bs) = c # decode_scalars Boundary bs"
proof -
  note m = mod64 [of c] mod64 [of "c div 64"] mod64 [of "c div 4096"] and sp = split64 [of c]
  consider "c < 0x80" | "0x80 \<le> c" "c < 0x800" | "0x800 \<le> c" "c < 0x10000" | "0x10000 \<le> c" "c < 0x110000"
    using assms unfolding scalar_def by linarith
  then show ?thesis
  proof cases
    case 1
    then show ?thesis by (simp add: scalar_bytes_def lead_def)
  next
    case 2
    then have h: "2 \<le> c div 64" "c div 64 < 32" by (simp_all add: div_bounds)
    have "scalar_bytes c = [0xC0 + c div 64, 0x80 + c mod 64]" using 2 by (simp add: scalar_bytes_def)
    with h m(1) show ?thesis by (simp add: lead_def)
  next
    case 3
    then have h: "c div 4096 < 16" "32 \<le> c div 64" by (simp_all add: div_bounds)
    have e0: "32 \<le> c div 64 mod 64" if "c div 4096 = 0" using h(2) sp(1) that by simp
    have ed: "c div 64 mod 64 \<le> 31" if "c div 4096 = 13"
    proof -
      have "13 * 4096 \<le> c" "c < 14 * 4096" using that by (simp_all add: div_bounds flip: less_Suc_eq_le)
      then have "c div 64 < 864" using assms by (simp add: scalar_def div_bounds)
      with sp(1) that show ?thesis by linarith
    qed
    have "(c div 4096 * 64 + c div 64 mod 64) * 64 + c mod 64 = c" using sp by simp
    with 3 h e0 ed m show ?thesis by (auto simp: scalar_bytes_def lead_def)
  next
    case 4
    then have h: "c div 262144 < 5" "16 \<le> c div 4096" "c div 4096 < 272" by (simp_all add: div_bounds)
    have f0: "16 \<le> c div 4096 mod 64" if "c div 262144 = 0" using h(2) sp(3) that by simp
    have f4: "c div 4096 mod 64 \<le> 15" if "c div 262144 = 4" using h(3) sp(3) that by linarith
    have "((c div 262144 * 64 + c div 4096 mod 64) * 64 + c div 64 mod 64) * 64 + c mod 64 = c" using sp by simp
    with 4 h f0 f4 m show ?thesis by (auto simp: scalar_bytes_def lead_def)
  qed
qed

lemma decode_encoded:
  assumes "list_all scalar cs"
  shows "decode_scalars Boundary (concat (map scalar_bytes cs)) = cs"
  using assms by (induction cs) (simp_all add: decode_scalar_bytes)

lemma buffer_utf8_encode: "buffer_utf8 (utf8_encode s) = toWellFormed s"
  by (simp add: buffer_utf8_def utf8_encode_def toWellFormed_def decode_encoded scalar_code_points)

subsection \<open>Text without lone surrogates\<close>

lemma unit_scalar_units: "\<not> high_surrogate u \<Longrightarrow> \<not> low_surrogate u \<Longrightarrow> scalar_units (unit_scalar u) = [u]"
  using unat_unit16 [of u] by (simp add: unit_scalar_def scalar_units_def)

lemma pair_scalar_units:
  assumes "high_surrogate u" and "low_surrogate v"
  shows "scalar_units (pair_scalar u v) = [u, v]"
proof -
  have eq: "pair_scalar u v - 0x10000 = (unat u - 0xD800) * 0x400 + (unat v - 0xDC00)" by (simp add: pair_scalar_def)
  have low: "unat v - 0xDC00 < 0x400" using assms(2) by (auto simp: low_surrogate_unat)
  have "(pair_scalar u v - 0x10000) div 0x400 = unat u - 0xD800" "(pair_scalar u v - 0x10000) mod 0x400 = unat v - 0xDC00"
    unfolding eq using low by (simp_all del: diff_is_0_eq)
  moreover have "0xD800 + (unat u - 0xD800) = unat u" "0xDC00 + (unat v - 0xDC00) = unat v"
    using assms by (auto simp: high_surrogate_unat low_surrogate_unat)
  ultimately show ?thesis using scalar_pair(2) [OF assms] by (simp add: scalar_units_def)
qed

fun well_formed :: "jstring \<Rightarrow> bool" where
  "well_formed [] = True"
| "well_formed [u] = (\<not> high_surrogate u \<and> \<not> low_surrogate u)"
| "well_formed (u # v # s) = (if high_surrogate u \<and> low_surrogate v then well_formed s
     else \<not> high_surrogate u \<and> \<not> low_surrogate u \<and> well_formed (v # s))"

lemma toWellFormed_same: "well_formed s \<Longrightarrow> toWellFormed s = s"
  unfolding toWellFormed_def
  by (induction s rule: well_formed.induct) (auto simp: unit_scalar_units pair_scalar_units split: if_splits)

subsection \<open>Cutting at a boundary\<close>

lemma scalar_bytes_shape:
  assumes "scalar c"
  shows "\<exists>b rest. scalar_bytes c = b # rest \<and> \<not> continuation b \<and> list_all continuation rest"
proof -
  note mod64 [of c] mod64 [of "c div 64"] mod64 [of "c div 4096"]
  then show ?thesis by (simp add: scalar_bytes_def continuation_def)
qed

lemma dropWhile_encoded: "list_all scalar cs \<Longrightarrow> dropWhile continuation (concat (map scalar_bytes cs)) = concat (map scalar_bytes cs)"
  using scalar_bytes_shape by (cases cs) fastforce+

lemma cut_encoded:
  assumes "list_all scalar cs"
  shows "\<exists>j. dropWhile continuation (drop k (concat (map scalar_bytes cs))) = concat (map scalar_bytes (drop j cs))"
  using assms
proof (induction cs arbitrary: k)
  case (Cons c cs)
  then obtain b rest where c: "scalar_bytes c = b # rest" "list_all continuation rest" using scalar_bytes_shape [of c] by auto
  show ?case
  proof (cases "k = 0")
    case True
    with dropWhile_encoded [OF Cons.prems] show ?thesis by (intro exI [of _ 0]) simp
  next
    case False
    show ?thesis
    proof (cases "k < length (scalar_bytes c)")
      case True
      then have "drop k (concat (map scalar_bytes (c # cs))) = drop k (scalar_bytes c) @ concat (map scalar_bytes cs)" by simp
      moreover have "list_all continuation (drop k (scalar_bytes c))"
        using c False by (cases k) (auto simp: list_all_iff dest: in_set_dropD)
      then have "dropWhile continuation (drop k (scalar_bytes c) @ concat (map scalar_bytes cs)) = dropWhile continuation (concat (map scalar_bytes cs))"
        by (auto simp: list_all_iff dropWhile_append2)
      ultimately show ?thesis using dropWhile_encoded [of cs] Cons.prems by (intro exI [of _ 1]) simp
    next
      case big: False
      then have "drop k (concat (map scalar_bytes (c # cs))) = drop (k - length (scalar_bytes c)) (concat (map scalar_bytes cs))" by simp
      moreover obtain j where "dropWhile continuation (drop (k - length (scalar_bytes c)) (concat (map scalar_bytes cs)))
          = concat (map scalar_bytes (drop j cs))" using Cons by auto
      ultimately show ?thesis by (intro exI [of _ "Suc j"]) simp
    qed
  qed
qed simp

end
