(* ===== verification/GatewayProtocol.thy ===== *)
theory GatewayProtocol
  imports Utf8
begin

text \<open>
  The execution gateway protocol, \<open>execution/packages/execution-gateway-protocol/src\<close>: the validators of validation.ts
  and protocol.ts, and of crypto.ts the machine secrets, the bearer header, the constant-time comparison and the
  digests. HMAC-SHA-256 is a parameter that gives the 32 bytes of a signature; SHA-256 is a parameter as
  elsewhere. Names that other parts of the program use too carry the prefix \<open>gw_\<close>.
\<close>

section \<open>validation.ts\<close>

definition gw_invalid :: "string \<Rightarrow> 'a res" where
  "gw_invalid message = Inl (GatewayError 400 (lit ''INVALID_REQUEST'') (lit message) False False)"

definition gw_object :: "json option \<Rightarrow> string list option \<Rightarrow> fields res" where
  "gw_object value allowed = (case value of
     Some (JObj r) \<Rightarrow> (case allowed of None \<Rightarrow> Inr r
       | Some ks \<Rightarrow> if \<exists>k \<in> set (map fst r). k \<notin> set (map lit ks) then gw_invalid ''Unexpected field.'' else Inr r)
   | _ \<Rightarrow> gw_invalid ''Expected an object.'')"

definition control_unit :: "unit16 \<Rightarrow> bool" where
  "control_unit u \<longleftrightarrow> u < 0x20 \<or> u = 0x7F"

definition gw_text :: "json option \<Rightarrow> nat \<Rightarrow> jstring res" where
  "gw_text value limit = (case value of
     Some (JStr s) \<Rightarrow> if s = [] \<or> length s > limit \<or> list_ex control_unit s
       then gw_invalid ''Expected a bounded nonempty string without control characters.'' else Inr s
   | _ \<Rightarrow> gw_invalid ''Expected a bounded nonempty string without control characters.'')"

definition messageText :: "json option \<Rightarrow> nat \<Rightarrow> jstring res" where
  "messageText value limit = (case value of
     Some (JStr s) \<Rightarrow> if s = [] \<or> length s > limit then gw_invalid ''Invalid error message.'' else Inr s
   | _ \<Rightarrow> gw_invalid ''Invalid error message.'')"

text \<open>\<open>/^[A-Za-z0-9][A-Za-z0-9_.:@-]*$/\<close>.\<close>

definition gw_identity_unit :: "unit16 \<Rightarrow> bool" where
  "gw_identity_unit u \<longleftrightarrow> is_alnum u \<or> u = 0x5F \<or> u = 0x2E \<or> u = 0x3A \<or> u = 0x40 \<or> u = 0x2D"

definition gw_identity :: "json option \<Rightarrow> jstring res" where
  "gw_identity value = bindR (gw_text value 128) (\<lambda>s.
     if is_alnum (hd s) \<and> list_all gw_identity_unit (tl s) then Inr s else gw_invalid ''Invalid identity.'')"

definition lower_uuid_pattern :: "(unit16 \<Rightarrow> bool) list" where
  "lower_uuid_pattern = replicate 8 is_lower_hex @ [is_dash] @ replicate 4 is_lower_hex @ [is_dash] @ replicate 4 is_lower_hex
     @ [is_dash] @ replicate 4 is_lower_hex @ [is_dash] @ replicate 12 is_lower_hex"

definition gw_uuid :: "json option \<Rightarrow> jstring res" where
  "gw_uuid value = bindR (gw_text value 36) (\<lambda>s.
     if matches lower_uuid_pattern s then Inr s else gw_invalid ''Expected a lowercase UUID.'')"

definition gw_integer :: "json option \<Rightarrow> int \<Rightarrow> int \<Rightarrow> int res" where
  "gw_integer value lo hi = (case value of
     Some (JNum x) \<Rightarrow> (case safe_integer x of
       Some n \<Rightarrow> if n < lo \<or> n > hi then gw_invalid ''Integer is out of range.'' else Inr n
     | None \<Rightarrow> gw_invalid ''Integer is out of range.'')
   | _ \<Rightarrow> gw_invalid ''Integer is out of range.'')"

definition gw_bool :: "json option \<Rightarrow> bool res" where
  "gw_bool value = (case value of Some (JBool b) \<Rightarrow> Inr b | _ \<Rightarrow> gw_invalid ''Expected boolean.'')"

text \<open>\<open>jsonValue\<close>: at most 100000 nodes, at most 64 levels deep. \<open>visit\<close> threads the counter of the closure.\<close>

fun visit :: "json \<Rightarrow> nat \<Rightarrow> nat \<Rightarrow> nat res" and visit_items :: "json list \<Rightarrow> nat \<Rightarrow> nat \<Rightarrow> nat res"
  and visit_fields :: "fields \<Rightarrow> nat \<Rightarrow> nat \<Rightarrow> nat res" where
  "visit (JArr xs) depth seen = (if seen + 1 > 100000 \<or> depth > 64 then gw_invalid ''JSON structure exceeds limits.''
     else visit_items xs (depth + 1) (seen + 1))"
| "visit (JObj kvs) depth seen = (if seen + 1 > 100000 \<or> depth > 64 then gw_invalid ''JSON structure exceeds limits.''
     else visit_fields kvs (depth + 1) (seen + 1))"
| "visit v depth seen = (if seen + 1 > 100000 \<or> depth > 64 then gw_invalid ''JSON structure exceeds limits.''
     else Inr (seen + 1))"
| "visit_items [] depth seen = Inr seen"
| "visit_items (x # xs) depth seen = bindR (visit x depth seen) (visit_items xs depth)"
| "visit_fields [] depth seen = Inr seen"
| "visit_fields ((k, v) # kvs) depth seen = bindR (visit v depth seen) (visit_fields kvs depth)"

definition jsonValue :: "json option \<Rightarrow> json res" where
  "jsonValue value = (case value of None \<Rightarrow> gw_invalid ''Expected JSON.'' | Some v \<Rightarrow> bindR (visit v 0 0) (\<lambda>_. Inr v))"

text \<open>\<open>configured\<close>: a limit from the environment, as a number or a decimal text.\<close>

definition configured :: "json option \<Rightarrow> int \<Rightarrow> int \<Rightarrow> int \<Rightarrow> int res" where
  "configured value fallback lo hi = (case value of
     None \<Rightarrow> Inr fallback
   | Some v \<Rightarrow>
       (let n = (case v of JStr s \<Rightarrow> if s \<noteq> [] \<and> list_all is_digit s then JNum (NInt (int (digits_value s))) else v | _ \<Rightarrow> v) in
        case gw_integer (Some n) lo hi of
          Inl e \<Rightarrow> Inl (GatewayError 503 (lit ''INVALID_CONFIGURATION'') (lit ''Invalid configured limit.'') False False)
        | Inr i \<Rightarrow> Inr i))"

section \<open>crypto.ts\<close>

datatype secret_kind = Daemon_secret | Execution_secret

definition secretKind :: "json option \<Rightarrow> secret_kind res" where
  "secretKind value = (if value = Some (JStr (lit ''daemon'')) then Inr Daemon_secret
     else if value = Some (JStr (lit ''execution'')) then Inr Execution_secret
     else gw_invalid ''Expected daemon or execution secret.'')"

text \<open>Unpadded base64url.\<close>

definition base64_unit :: "nat \<Rightarrow> unit16" where
  "base64_unit d = (if d < 26 then of_nat (65 + d) else if d < 52 then of_nat (71 + d) else if d < 62 then of_nat (d - 4)
     else if d = 62 then 0x2D else 0x5F)"

fun encode64 :: "byte list \<Rightarrow> jstring" where
  "encode64 [] = []"
| "encode64 [a] = map base64_unit [a div 4, a mod 4 * 16]"
| "encode64 [a, b] = map base64_unit [a div 4, a mod 4 * 16 + b div 16, b mod 16 * 4]"
| "encode64 (a # b # c # bs) = map base64_unit [a div 4, a mod 4 * 16 + b div 16, b mod 16 * 4 + c div 64, c mod 64] @ encode64 bs"

definition signing_key :: "jstring option \<Rightarrow> jstring res" where
  "signing_key secret = (case secret of
     Some s \<Rightarrow> if s = [] \<or> utf8Bytes s < 32
       then Inl (GatewayError 503 (lit ''AUTH_NOT_CONFIGURED'') (lit ''Signing secret must contain at least 32 bytes.'') False False) else Inr s
   | None \<Rightarrow> Inl (GatewayError 503 (lit ''AUTH_NOT_CONFIGURED'') (lit ''Signing secret must contain at least 32 bytes.'') False False))"

definition kind_prefix :: "secret_kind \<Rightarrow> jstring" where
  "kind_prefix kind = (case kind of Daemon_secret \<Rightarrow> lit ''md1'' | Execution_secret \<Rightarrow> lit ''me1'')"

definition invalid_secret :: "'a res" where
  "invalid_secret = Inl (GatewayError 401 (lit ''INVALID_SECRET'') (lit ''Invalid machine secret.'') False False)"

definition machineSecret :: "jstring \<Rightarrow> secret_kind \<Rightarrow> (jstring \<times> int) res" where
  "machineSecret value kind =
     (let parts = split_on 0x2E value in
      if length parts \<noteq> 4 \<or> parts ! 0 \<noteq> kind_prefix kind \<or> \<not> positive_decimal (parts ! 2)
         \<or> \<not> (length (parts ! 3) = 43 \<and> list_all base64url (parts ! 3))
      then invalid_secret
      else case gw_uuid (Some (JStr (parts ! 1))) of Inl e \<Rightarrow> invalid_secret
        | Inr machineId \<Rightarrow> (case gw_integer (Some (JNum (NInt (int (digits_value (parts ! 2)))))) 1 MAX_SAFE_INTEGER of
            Inl e \<Rightarrow> invalid_secret | Inr version \<Rightarrow> Inr (machineId, version)))"

definition issueMachineSecret ::
  "(jstring \<Rightarrow> jstring \<Rightarrow> byte list) \<Rightarrow> jstring option \<Rightarrow> jstring \<Rightarrow> secret_kind \<Rightarrow> int \<Rightarrow> jstring res" where
  "issueMachineSecret hmac secret machineId kind version =
     bindR (gw_uuid (Some (JStr machineId))) (\<lambda>_.
     bindR (gw_integer (Some (JNum (NInt version))) 1 MAX_SAFE_INTEGER) (\<lambda>_.
     let prefix = kind_prefix kind @ lit ''.'' @ machineId @ lit ''.'' @ int_text version in
     bindR (signing_key secret) (\<lambda>key.
     Inr (prefix @ lit ''.'' @ encode64 (hmac key (lit ''machine-credential-v1:'' @ prefix))))))"

text \<open>\<open>bearer\<close>, on the value of the Authorization header.\<close>

definition bearer_unit :: "unit16 \<Rightarrow> bool" where
  "bearer_unit u \<longleftrightarrow> is_alnum u \<or> u = 0x2E \<or> u = 0x5F \<or> u = 0x7E \<or> u = 0x2D"

definition bearer :: "jstring option \<Rightarrow> jstring res" where
  "bearer header =
     (let h = (case header of Some s \<Rightarrow> s | None \<Rightarrow> []); token = drop 7 h in
      if startsWith h (lit ''Bearer '') \<and> token \<noteq> [] \<and> list_all bearer_unit token \<and> length token \<le> 32768 then Inr token
      else Inl (GatewayError 401 (lit ''UNAUTHORIZED'') (lit ''Expected bearer token.'') False False))"

unbundle bit_operations_syntax

fun difference :: "jstring \<Rightarrow> jstring \<Rightarrow> unit16 \<Rightarrow> unit16" where
  "difference (u # a) (v # b) d = difference a b (d OR (u XOR v))"
| "difference _ _ d = d"

definition constantEqual :: "jstring \<Rightarrow> jstring \<Rightarrow> bool" where
  "constantEqual a b = (if length a \<noteq> length b then False else difference a b 0 = 0)"

definition authenticateManagement :: "(jstring \<Rightarrow> jstring) \<Rightarrow> jstring option \<Rightarrow> jstring option \<Rightarrow> unit res" where
  "authenticateManagement sha header secret = (case secret of
     Some s \<Rightarrow> if s = [] \<or> utf8Bytes s < 32
       then Inl (GatewayError 503 (lit ''AUTH_NOT_CONFIGURED'') (lit ''Management authentication is not configured.'') False False)
       else bindR (bearer header) (\<lambda>token. if constantEqual (sha token) (sha s) then Inr ()
         else Inl (GatewayError 401 (lit ''UNAUTHORIZED'') (lit ''Invalid management credential.'') False False))
   | None \<Rightarrow> Inl (GatewayError 503 (lit ''AUTH_NOT_CONFIGURED'') (lit ''Management authentication is not configured.'') False False))"

definition gw_digest :: "json option \<Rightarrow> jstring res" where
  "gw_digest value = bindR (gw_text value 64) (\<lambda>s.
     if length s = 64 \<and> list_all is_lower_hex s then Inr s else gw_invalid ''Expected SHA-256 digest.'')"

definition hashJson :: "(jstring \<Rightarrow> jstring) \<Rightarrow> json \<Rightarrow> jstring" where
  "hashJson sha v = sha (canonical v)"

section \<open>protocol.ts\<close>

definition MAX_NATIVE_BYTES :: nat where
  "MAX_NATIVE_BYTES = 8 * 1024 * 1024"

definition MAX_HTTP_BYTES :: nat where
  "MAX_HTTP_BYTES = MAX_NATIVE_BYTES + 64 * 1024"

definition MAX_FRAME_BYTES :: nat where
  "MAX_FRAME_BYTES = MAX_NATIVE_BYTES + 128 * 1024"

definition OPERATIONS :: "jstring list" where
  "OPERATIONS = map lit [''request.cancel'', ''runtime.capabilities'', ''execution.exec'', ''execution.interact'', ''execution.close'',
     ''filesystem.read'', ''filesystem.write'', ''filesystem.patch'', ''repl.execute'', ''repl.collect'', ''repl.interrupt'',
     ''repl.reset'', ''repl.close'']"

definition operationName :: "json option \<Rightarrow> jstring res" where
  "operationName value = (case value of
     Some (JStr s) \<Rightarrow> if s \<in> set OPERATIONS then Inr s else gw_invalid ''Unsupported native operation.''
   | _ \<Rightarrow> gw_invalid ''Unsupported native operation.'')"

record callback =
  cb_receiver :: jstring
  cb_context :: json

definition parse_callback :: "json option \<Rightarrow> callback res" where
  "parse_callback value =
     bindR (gw_object value (Some [''receiver'', ''context''])) (\<lambda>r.
     bindR (case field r ''context'' of None \<Rightarrow> Inr JNull | Some c \<Rightarrow> jsonValue (Some c)) (\<lambda>context.
     if json_bytes context > 8192 then gw_invalid ''Callback context exceeds 8 KiB.''
     else bindR (gw_identity (field r ''receiver'')) (\<lambda>receiver. Inr \<lparr>cb_receiver = receiver, cb_context = context\<rparr>)))"

record submission =
  sm_requestId :: jstring
  sm_runtimeGeneration :: jstring
  sm_operation :: jstring
  sm_params :: json
  sm_callback :: callback

definition parse_submission :: "json option \<Rightarrow> submission res" where
  "parse_submission value =
     bindR (gw_object value (Some [''requestId'', ''runtimeGeneration'', ''operation'', ''callback''])) (\<lambda>r.
     bindR (gw_object (field r ''operation'') (Some [''operation'', ''params''])) (\<lambda>op.
     bindR (gw_object (field op ''params'') None) (\<lambda>p.
     bindR (jsonValue (Some (JObj p))) (\<lambda>params.
     if json_bytes params > MAX_NATIVE_BYTES then gw_invalid ''Native parameters exceed limit.''
     else
       bindR (gw_identity (field r ''requestId'')) (\<lambda>requestId.
       bindR (gw_uuid (field r ''runtimeGeneration'')) (\<lambda>generation.
       bindR (operationName (field op ''operation'')) (\<lambda>name.
       bindR (parse_callback (field r ''callback'')) (\<lambda>cb.
       Inr \<lparr>sm_requestId = requestId, sm_runtimeGeneration = generation, sm_operation = name, sm_params = params, sm_callback = cb\<rparr>))))))))"

record routing_envelope =
  re_machineId :: jstring
  re_runtimeGeneration :: jstring
  re_requestId :: jstring
  re_requestHash :: jstring
  re_callback :: callback

definition routingFields :: "json option \<Rightarrow> routing_envelope res" where
  "routingFields value =
     bindR (gw_object value None) (\<lambda>r.
     bindR (gw_uuid (field r ''machineId'')) (\<lambda>machineId.
     bindR (gw_uuid (field r ''runtimeGeneration'')) (\<lambda>generation.
     bindR (gw_identity (field r ''requestId'')) (\<lambda>requestId.
     bindR (gw_digest (field r ''requestHash'')) (\<lambda>requestHash.
     bindR (parse_callback (field r ''callback'')) (\<lambda>cb.
     Inr \<lparr>re_machineId = machineId, re_runtimeGeneration = generation, re_requestId = requestId, re_requestHash = requestHash,
       re_callback = cb\<rparr>))))))"

record hello =
  he_runtimeGeneration :: jstring
  he_daemonVersion :: jstring
  he_os :: jstring
  he_arch :: jstring
  he_operations :: "jstring list"

definition parse_hello :: "json option \<Rightarrow> hello res" where
  "parse_hello value =
     bindR (gw_object value (Some [''type'', ''protocolVersion'', ''runtimeGeneration'', ''daemonVersion'', ''os'', ''arch'', ''operations''])) (\<lambda>r.
     case field r ''operations'' of
       Some (JArr names) \<Rightarrow>
         if field r ''type'' \<noteq> Some (JStr (lit ''hello'')) \<or> field r ''protocolVersion'' \<noteq> Some (JNum (NInt 1))
            \<or> length names > length OPERATIONS
         then gw_invalid ''Unsupported daemon hello.''
         else
           bindR (mapR (\<lambda>n. operationName (Some n)) names) (\<lambda>operations.
           if \<not> distinct operations then gw_invalid ''Duplicate capability.''
           else
             bindR (gw_uuid (field r ''runtimeGeneration'')) (\<lambda>generation.
             bindR (gw_text (field r ''daemonVersion'') 128) (\<lambda>version.
             bindR (gw_text (field r ''os'') 64) (\<lambda>os.
             bindR (gw_text (field r ''arch'') 64) (\<lambda>arch.
             Inr \<lparr>he_runtimeGeneration = generation, he_daemonVersion = version, he_os = os, he_arch = arch,
               he_operations = operations\<rparr>)))))
     | _ \<Rightarrow> gw_invalid ''Unsupported daemon hello.'')"

datatype native_outcome = NativeOk json | NativeError jstring jstring bool

definition parse_outcome :: "json option \<Rightarrow> native_outcome res" where
  "parse_outcome value =
     bindR (gw_object value None) (\<lambda>r.
     if field r ''status'' = Some (JStr (lit ''ok'')) then
       bindR (gw_object (Some (JObj r)) (Some [''status'', ''result''])) (\<lambda>_.
       bindR (jsonValue (field r ''result'')) (\<lambda>result. Inr (NativeOk result)))
     else if field r ''status'' = Some (JStr (lit ''error'')) then
       bindR (gw_object (Some (JObj r)) (Some [''status'', ''error''])) (\<lambda>_.
       bindR (gw_object (field r ''error'') (Some [''code'', ''message'', ''uncertain''])) (\<lambda>e.
       bindR (gw_identity (field e ''code'')) (\<lambda>code.
       bindR (messageText (field e ''message'') 8192) (\<lambda>message.
       bindR (gw_bool (field e ''uncertain'')) (\<lambda>uncertain.
       Inr (NativeError code message uncertain))))))
     else gw_invalid ''Invalid native outcome.'')"

text \<open>The validated values as the objects the code makes of them.\<close>

definition callback_json :: "callback \<Rightarrow> json" where
  "callback_json c = obj [(''receiver'', JStr (cb_receiver c)), (''context'', cb_context c)]"

definition submission_fields :: "submission \<Rightarrow> (string \<times> json) list" where
  "submission_fields s = [(''requestId'', JStr (sm_requestId s)), (''runtimeGeneration'', JStr (sm_runtimeGeneration s)),
     (''operation'', obj [(''operation'', JStr (sm_operation s)), (''params'', sm_params s)]), (''callback'', callback_json (sm_callback s))]"

definition outcome_native_json :: "native_outcome \<Rightarrow> json" where
  "outcome_native_json o' = (case o' of
     NativeOk result \<Rightarrow> obj [(''status'', str ''ok''), (''result'', result)]
   | NativeError code message uncertain \<Rightarrow> obj [(''status'', str ''error''),
       (''error'', obj [(''code'', JStr code), (''message'', JStr message), (''uncertain'', JBool uncertain)])])"

section \<open>Facts\<close>

lemma difference_zero: "length a = length b \<Longrightarrow> difference a b d = 0 \<longleftrightarrow> d = 0 \<and> a = b"
proof (induction a arbitrary: b d)
  case (Cons u a)
  then obtain v b' where b: "b = v # b'" "length a = length b'" by (cases b) auto
  have "d OR (u XOR v) = 0 \<longleftrightarrow> d = 0 \<and> u = v" by (metis or.right_neutral or_eq_0_iff xor_self_eq xor.right_neutral xor.assoc xor.left_neutral)
  with Cons.IH b show ?case by auto
qed simp

lemma constantEqual_iff [simp]: "constantEqual a b \<longleftrightarrow> a = b"
  by (auto simp: constantEqual_def difference_zero)

lemma base64_unit_ok: "d < 64 \<Longrightarrow> base64url (base64_unit d)"
proof -
  assume "d < 64"
  then have "d \<in> set [0..<64]" by simp
  moreover have "list_all (\<lambda>d. base64url (base64_unit d)) [0..<64]" by code_simp
  ultimately show ?thesis by (simp add: list_all_iff)
qed

lemma length_encode64: "length (encode64 bs) = (4 * length bs + 2) div 3"
  by (induction bs rule: encode64.induct) simp_all

lemma encode64_ok: "list_all (\<lambda>b. b < 256) bs \<Longrightarrow> list_all base64url (encode64 bs)"
proof (induction bs rule: encode64.induct)
  case (2 a)
  then have "a div 4 < 64" by (auto simp: div_bounds)
  then show ?case by (simp add: base64_unit_ok)
next
  case (3 a b)
  then have "a div 4 < 64" "b div 16 < 16" "a mod 4 < 4" by (auto simp: div_bounds)
  then show ?case by (auto intro!: base64_unit_ok)
next
  case (4 a b c bs)
  then have "a div 4 < 64" "b div 16 < 16" "a mod 4 < 4" "b mod 16 < 16" "c div 64 < 4" by (auto simp: div_bounds)
  with 4 show ?case by (auto intro!: base64_unit_ok)
qed simp

text \<open>None of the parts of a secret contains the separator.\<close>

lemma matches_set: "matches ps s \<Longrightarrow> u \<in> set s \<Longrightarrow> \<exists>p \<in> set ps. p u"
  unfolding matches_def by (induction rule: list_all2_induct) auto

lemma uuid_no_dot: "matches lower_uuid_pattern s \<Longrightarrow> 0x2E \<notin> set s"
  by (auto dest!: matches_set simp: lower_uuid_pattern_def is_dash_def is_lower_hex_def is_digit_def word_le_nat_alt)

lemma base64_no_dot: "list_all base64url s \<Longrightarrow> 0x2E \<notin> set s"
  by (auto simp: list_all_iff base64url_def char_class_defs word_le_nat_alt dest!: bspec)

lemma digits_no_dot: "list_all is_digit s \<Longrightarrow> 0x2E \<notin> set s"
  by (auto simp: list_all_iff is_digit_def word_le_nat_alt dest!: bspec)

lemma prefix_no_dot: "0x2E \<notin> set (kind_prefix kind)"
  by (cases kind) (simp_all add: kind_prefix_def lit_def)

lemma version_text:
  assumes "1 \<le> n"
  shows "positive_decimal (int_text n)" and "int (digits_value (int_text n)) = n" and "list_all is_digit (int_text n)"
  using assms hd_nat_text_nonzero [of "nat n"] by (simp_all add: positive_decimal_def int_text_def)

lemma gw_uuid_Inr: "gw_uuid v = Inr s \<longleftrightarrow> v = Some (JStr s) \<and> s \<noteq> [] \<and> length s \<le> 36 \<and> \<not> list_ex control_unit s \<and> matches lower_uuid_pattern s"
  by (auto simp: gw_uuid_def gw_text_def gw_invalid_def split: option.splits json.splits if_splits)

lemma gw_integer_Inr: "gw_integer (Some (JNum (NInt n))) lo hi = Inr m \<longleftrightarrow> m = n \<and> lo \<le> n \<and> n \<le> hi \<and> - MAX_SAFE_INTEGER \<le> n \<and> n \<le> MAX_SAFE_INTEGER"
  by (auto simp: gw_integer_def safe_integer_def gw_invalid_def)

section \<open>Machine secrets\<close>

definition hmac_ok :: "(jstring \<Rightarrow> jstring \<Rightarrow> byte list) \<Rightarrow> bool" where
  "hmac_ok hmac \<longleftrightarrow> (\<forall>key m. length (hmac key m) = 32 \<and> list_all (\<lambda>b. b < 256) (hmac key m))"

lemma issued_parts:
  assumes "hmac_ok hmac" and "issueMachineSecret hmac secret machineId kind version = Inr token"
  shows "\<exists>sig. split_on 0x2E token = [kind_prefix kind, machineId, int_text version, sig] \<and> length sig = 43 \<and> list_all base64url sig
    \<and> gw_uuid (Some (JStr machineId)) = Inr machineId \<and> 1 \<le> version \<and> version \<le> MAX_SAFE_INTEGER"
proof -
  from assms(2) obtain key where u: "gw_uuid (Some (JStr machineId)) = Inr machineId" and v: "1 \<le> version" "version \<le> MAX_SAFE_INTEGER"
    and tok: "token = kind_prefix kind @ lit ''.'' @ machineId @ lit ''.'' @ int_text version @ lit ''.''
      @ encode64 (hmac key (lit ''machine-credential-v1:'' @ kind_prefix kind @ lit ''.'' @ machineId @ lit ''.'' @ int_text version))"
    by (auto simp: issueMachineSecret_def Let_def gw_uuid_Inr gw_integer_Inr)
  let ?sig = "encode64 (hmac key (lit ''machine-credential-v1:'' @ kind_prefix kind @ lit ''.'' @ machineId @ lit ''.'' @ int_text version))"
  have sig: "length ?sig = 43" "list_all base64url ?sig"
    using assms(1) by (auto simp: hmac_ok_def length_encode64 intro!: encode64_ok)
  have dot: "lit ''.'' = [0x2E]" by (simp add: lit_def)
  have "0x2E \<notin> set machineId" "0x2E \<notin> set (int_text version)" "0x2E \<notin> set ?sig"
    using u uuid_no_dot digits_no_dot version_text(3) [OF v(1)] base64_no_dot [OF sig(2)] by (auto simp: gw_uuid_Inr)
  then have "split_on 0x2E token = [kind_prefix kind, machineId, int_text version, ?sig]"
    by (simp add: tok dot split_on_append split_on_single prefix_no_dot)
  with sig u v show ?thesis by blast
qed

text \<open>C34: A machine secret the gateway issues is read back by it: as a secret of the same kind it has the machine and
  the version it was issued for, and as a secret of the other kind it is refused. An execution secret is also
  accepted by the contracts of the harnesses, provided the machine ID is a UUID with an RFC version and variant.\<close>

theorem machine_secret_round_trip:
  assumes "hmac_ok hmac" and "issueMachineSecret hmac secret machineId kind version = Inr token"
  shows "machineSecret token kind = Inr (machineId, version)
    \<and> (\<forall>kind'. kind' \<noteq> kind \<longrightarrow> machineSecret token kind' = invalid_secret)
    \<and> (kind = Execution_secret \<and> matches uuid_pattern machineId \<longrightarrow> parseExecutionToken (Some (JStr token)) = Inr token)"
proof -
  from issued_parts [OF assms] obtain sig where p: "split_on 0x2E token = [kind_prefix kind, machineId, int_text version, sig]"
    "length sig = 43" "list_all base64url sig" and u: "gw_uuid (Some (JStr machineId)) = Inr machineId"
    and v: "1 \<le> version" "version \<le> MAX_SAFE_INTEGER" by blast
  note n = version_text [OF v(1)]
  have "gw_integer (Some (JNum (NInt version))) 1 MAX_SAFE_INTEGER = Inr version" using v by (simp add: gw_integer_Inr MAX_SAFE_INTEGER_def)
  then have "machineSecret token kind = Inr (machineId, version)" using p u n by (simp add: machineSecret_def Let_def)
  moreover have "kind_prefix kind' \<noteq> kind_prefix kind" if "kind' \<noteq> kind" for kind'
    using that by (cases kind; cases kind') (simp_all add: kind_prefix_def)
  then have "machineSecret token kind' = invalid_secret" if "kind' \<noteq> kind" for kind'
    using that p(1) not_sym [OF that] by (simp add: machineSecret_def Let_def) metis
  moreover have "token \<noteq> []" using p(1) by auto
  then have "parseExecutionToken (Some (JStr token)) = Inr token" if "kind = Execution_secret" "matches uuid_pattern machineId"
  proof -
    have "split_on 0x2E token = [lit ''me1'', machineId, int_text version, sig]" using p(1) that(1) by (simp add: kind_prefix_def)
    then have "token = join_on 0x2E [lit ''me1'', machineId, int_text version, sig]" by (metis join_on_split_on)
    then have "\<not> list_all js_space token" by (simp add: lit_def js_space_def)
    then show ?thesis using that p n v
      by (simp add: parseExecutionToken_def parseJsonValue_def nonemptyString_def Let_def kind_prefix_def parseUuid_def)
  qed
  ultimately show ?thesis by blast
qed

theorem machine_secret_round_trip_witness:
  "machineSecret (lit ''me1.0a0a0a0a-0b0b-4c0c-8d0d-0e0e0e0e0e0e.7.'' @ encode64 (replicate 32 9)) Execution_secret
    = Inr (lit ''0a0a0a0a-0b0b-4c0c-8d0d-0e0e0e0e0e0e'', 7)"
proof -
  have "hmac_ok (\<lambda>key m. replicate 32 9)" by (simp add: hmac_ok_def list_all_iff)
  moreover have "issueMachineSecret (\<lambda>key m. replicate 32 9) (Some (replicate 32 65)) (lit ''0a0a0a0a-0b0b-4c0c-8d0d-0e0e0e0e0e0e'') Execution_secret 7
      = Inr (lit ''me1.0a0a0a0a-0b0b-4c0c-8d0d-0e0e0e0e0e0e.7.'' @ encode64 (replicate 32 9))" by code_simp
  ultimately show ?thesis using machine_secret_round_trip by blast
qed

end
