(* ===== verification/GatewayWire.thy ===== *)
theory GatewayWire
  imports GatewayProtocol
begin

text \<open>
  The rest of the gateway protocol package: the signed routing envelope of crypto.ts, and the request and response
  helpers of validation.ts. \<open>JSON.parse\<close> is a parameter, a text to a value or an exception.
\<close>

section \<open>crypto.ts: the routing envelope\<close>

text \<open>\<open>decode\<close>: \<open>atob\<close> after the two replaced characters. A last group of one character is refused; the spare bits
  of a short last group are dropped.\<close>

definition base64_value :: "unit16 \<Rightarrow> nat" where
  "base64_value u = (if is_upper u then unat u - 65 else if is_lower u then unat u - 71 else if is_digit u then unat u + 4
     else if u = 0x2D then 62 else 63)"

fun decode_digits :: "nat list \<Rightarrow> byte list option" where
  "decode_digits [] = Some []"
| "decode_digits [a] = None"
| "decode_digits [a, b] = Some [a * 4 + b div 16]"
| "decode_digits [a, b, c] = Some [a * 4 + b div 16, b mod 16 * 16 + c div 4]"
| "decode_digits (a # b # c # d # ds) =
     map_option (\<lambda>bs. (a * 4 + b div 16) # (b mod 16 * 16 + c div 4) # (c mod 4 * 64 + d) # bs) (decode_digits ds)"

definition decode64 :: "jstring \<Rightarrow> byte list option" where
  "decode64 s = (if s \<noteq> [] \<and> list_all base64url s then decode_digits (map base64_value s) else None)"

text \<open>\<open>new TextDecoder("utf-8", { fatal: true })\<close>: a text whose bytes are not those of its characters is refused.\<close>

definition decode_fatal :: "byte list \<Rightarrow> jstring option" where
  "decode_fatal bs = (if concat (map scalar_bytes (decode_scalars Boundary bs)) = bs then Some (textDecoder bs) else None)"

definition envelope_header :: jstring where
  "envelope_header = lit ''eyJhbGciOiJIUzI1NiIsInR5cCI6IkpXVCJ9''"

text \<open>\<open>{ ...fields, [key]: value }\<close>.\<close>

definition with_field :: "fields \<Rightarrow> string \<Rightarrow> json \<Rightarrow> fields" where
  "with_field r key v = (if lit key \<in> fst ` set r then map (\<lambda>(k, w). (k, if k = lit key then v else w)) r else r @ [(lit key, v)])"

definition routing_claims :: "fields \<Rightarrow> fields" where
  "routing_claims kvs = with_field (with_field kvs ''kind'' (str ''routing'')) ''aud'' (str ''managed-execution-v1'')"

definition signRoutingEnvelope :: "(jstring \<Rightarrow> jstring \<Rightarrow> byte list) \<Rightarrow> jstring option \<Rightarrow> fields \<Rightarrow> jstring res" where
  "signRoutingEnvelope hmac secret claims =
     (let payload = encode64 (utf8_encode (stringify (JObj (routing_claims claims))));
          message = envelope_header @ lit ''.'' @ payload in
      bindR (signing_key secret) (\<lambda>key. Inr (message @ lit ''.'' @ encode64 (hmac key message))))"

definition invalid_envelope :: "'a res" where
  "invalid_envelope = Inl (GatewayError 401 (lit ''INVALID_ENVELOPE'') (lit ''Invalid routing envelope.'') False False)"

text \<open>Whether the signature is valid under the current key or, failing that, the previous one, when there is one.\<close>

definition signature_valid ::
  "(jstring \<Rightarrow> jstring \<Rightarrow> byte list) \<Rightarrow> jstring \<Rightarrow> jstring option \<Rightarrow> byte list \<Rightarrow> jstring \<Rightarrow> bool res" where
  "signature_valid hmac current previous signature message =
     (if hmac current message = signature then Inr True
      else case previous of None \<Rightarrow> Inr False
        | Some p \<Rightarrow> if p = [] then Inr False else bindR (signing_key (Some p)) (\<lambda>key. Inr (hmac key message = signature)))"

definition envelope_claims :: "(jstring \<Rightarrow> json res) \<Rightarrow> jstring \<Rightarrow> fields option" where
  "envelope_claims JSON_parse payload = (case decode64 payload of None \<Rightarrow> None
     | Some bs \<Rightarrow> (case decode_fatal bs of None \<Rightarrow> None
       | Some s \<Rightarrow> (case JSON_parse s of Inl e \<Rightarrow> None
         | Inr v \<Rightarrow> (case bindR (jsonValue (Some v)) (\<lambda>v. gw_object (Some v) None) of Inl e \<Rightarrow> None
           | Inr claims \<Rightarrow> if field claims ''kind'' = Some (str ''routing'') \<and> field claims ''aud'' = Some (str ''managed-execution-v1'')
               then Some claims else None))))"

definition verifyRoutingEnvelope ::
  "(jstring \<Rightarrow> jstring \<Rightarrow> byte list) \<Rightarrow> (jstring \<Rightarrow> json res) \<Rightarrow> jstring option \<Rightarrow> jstring option \<Rightarrow> jstring \<Rightarrow> fields res" where
  "verifyRoutingEnvelope hmac JSON_parse secret previous token =
     bindR (signing_key secret) (\<lambda>current.
     let parts = split_on 0x2E token in
     if length token > 32768 \<or> length parts \<noteq> 3 \<or> parts ! 0 \<noteq> envelope_header \<or> parts ! 1 = [] \<or> parts ! 2 = [] then invalid_envelope
     else case decode64 (parts ! 2) of None \<Rightarrow> invalid_envelope
       | Some signature \<Rightarrow>
           bindR (signature_valid hmac current previous signature (envelope_header @ lit ''.'' @ parts ! 1)) (\<lambda>valid.
           if \<not> valid then invalid_envelope
           else case envelope_claims JSON_parse (parts ! 1) of None \<Rightarrow> invalid_envelope | Some claims \<Rightarrow> Inr claims))"

section \<open>validation.ts: requests and responses\<close>

record http_response =
  rs_status :: int
  rs_body :: json
  rs_authenticate :: bool
  rs_retryAfter :: bool

definition jsonResponse :: "json \<Rightarrow> int \<Rightarrow> http_response" where
  "jsonResponse v status = \<lparr>rs_status = status, rs_body = v, rs_authenticate = False, rs_retryAfter = False\<rparr>"

text \<open>Any other exception is reported as a \<open>GatewayError\<close> that may be retried and whose outcome is uncertain.\<close>

definition gateway_fields :: "exn \<Rightarrow> int \<times> jstring \<times> jstring \<times> bool \<times> bool" where
  "gateway_fields e = (case e of GatewayError status code message retryable uncertain \<Rightarrow> (status, code, message, retryable, uncertain)
     | _ \<Rightarrow> (503, lit ''UNAVAILABLE'', lit ''Service unavailable; retry with the same request identity.'', True, True))"

definition errorResponse :: "exn \<Rightarrow> http_response" where
  "errorResponse e = (case gateway_fields e of (status, code, message, retryable, uncertain) \<Rightarrow>
     \<lparr>rs_status = status, rs_body = obj [(''error'', obj [(''code'', JStr code), (''message'', JStr message),
        (''retryable'', JBool retryable), (''uncertain'', JBool uncertain)])],
      rs_authenticate = (status = 401), rs_retryAfter = retryable\<rparr>)"

text \<open>\<open>readJson\<close>: the body arrives in chunks, within 8 seconds or not; \<open>accept_chunk\<close> is one turn of the loop over them.\<close>

datatype body = No_body | Body "byte list list" | Body_timeout

definition lower_unit :: "unit16 \<Rightarrow> unit16" where
  "lower_unit u = (if is_upper u then u + 32 else u)"

definition json_content :: "jstring option \<Rightarrow> unit res" where
  "json_content contentType = (case contentType of
     Some s \<Rightarrow> if map lower_unit (trim (hd (split_on 0x3B s))) = lit ''application/json'' then Inr ()
       else Inl (GatewayError 415 (lit ''CONTENT_TYPE'') (lit ''Use application/json.'') False False)
   | None \<Rightarrow> Inl (GatewayError 415 (lit ''CONTENT_TYPE'') (lit ''Use application/json.'') False False))"

definition accept_chunk :: "nat \<Rightarrow> byte list \<Rightarrow> byte list \<Rightarrow> byte list res" where
  "accept_chunk limit data chunk = (if length data + length chunk > limit
     then Inl (GatewayError 413 (lit ''BODY_TOO_LARGE'') (lit ''Request exceeds byte limit.'') False False) else Inr (data @ chunk))"

fun read_chunks :: "nat \<Rightarrow> byte list \<Rightarrow> byte list list \<Rightarrow> byte list res" where
  "read_chunks limit data [] = Inr data"
| "read_chunks limit data (c # cs) = bindR (accept_chunk limit data c) (\<lambda>data. read_chunks limit data cs)"

definition parse_body :: "(jstring \<Rightarrow> json res) \<Rightarrow> byte list \<Rightarrow> json res" where
  "parse_body JSON_parse data = (case decode_fatal data of None \<Rightarrow> gw_invalid ''Invalid JSON.''
     | Some s \<Rightarrow> (case JSON_parse s of Inl e \<Rightarrow> gw_invalid ''Invalid JSON.'' | Inr v \<Rightarrow> jsonValue (Some v)))"

definition body_timeout :: "'a res" where
  "body_timeout = Inl (GatewayError 408 (lit ''BODY_TIMEOUT'') (lit ''Request body deadline exceeded.'') False False)"

definition readJson :: "(jstring \<Rightarrow> json res) \<Rightarrow> jstring option \<Rightarrow> body \<Rightarrow> nat \<Rightarrow> json res" where
  "readJson JSON_parse contentType b limit =
     bindR (json_content contentType) (\<lambda>_. case b of
       No_body \<Rightarrow> gw_invalid ''Expected JSON body.''
     | Body_timeout \<Rightarrow> body_timeout
     | Body chunks \<Rightarrow> bindR (read_chunks limit [] chunks) (parse_body JSON_parse))"

end
