(* ===== verification/GatewayRegistry.thy ===== *)
theory GatewayRegistry
  imports GatewayWire
begin

text \<open>
  \<open>execution/apps/execution-gateway/src/registry.ts\<close> and credentials.ts: the one row a machine has, its operations,
  and the authorization of a machine secret. The row is absent until the machine is registered. \<open>Date.now()\<close> is an
  argument. The column \<open>daemon\<close>, a JSON text, is the value it encodes. An operation that throws leaves the row as
  it is. \<open>row_grows\<close> relates a row to every later one: whatever happens to a machine, its identity stays, its versions
  and its epoch do not fall, and a tombstone stays.
\<close>

record machine_row =
  mr_machine_id :: jstring
  mr_name :: jstring
  mr_deleted :: bool
  mr_daemon_hash :: jstring
  mr_execution_hash :: jstring
  mr_daemon_version :: int
  mr_execution_version :: int
  mr_connection_epoch :: int
  mr_created_at :: int
  mr_last_connected_at :: "int option"
  mr_last_disconnected_at :: "int option"
  mr_daemon :: "hello option"

type_synonym registry = "machine_row option"

definition row_version :: "secret_kind \<Rightarrow> machine_row \<Rightarrow> int" where
  "row_version kind row = (case kind of Daemon_secret \<Rightarrow> mr_daemon_version row | Execution_secret \<Rightarrow> mr_execution_version row)"

definition row_hash :: "secret_kind \<Rightarrow> machine_row \<Rightarrow> jstring" where
  "row_hash kind row = (case kind of Daemon_secret \<Rightarrow> mr_daemon_hash row | Execution_secret \<Rightarrow> mr_execution_hash row)"

definition registry_get :: "registry \<Rightarrow> machine_row res" where
  "registry_get reg = (case reg of
     None \<Rightarrow> Inl (GatewayError 404 (lit ''MACHINE_NOT_FOUND'') (lit ''Machine is not registered.'') False False)
   | Some row \<Rightarrow> if mr_deleted row then Inl (GatewayError 410 (lit ''MACHINE_DELETED'') (lit ''Machine has been deleted.'') False False)
       else Inr row)"

definition new_machine_row :: "jstring \<Rightarrow> jstring \<Rightarrow> jstring \<Rightarrow> jstring \<Rightarrow> int \<Rightarrow> machine_row" where
  "new_machine_row id' name daemonHash executionHash now = \<lparr>mr_machine_id = id', mr_name = name, mr_deleted = False,
     mr_daemon_hash = daemonHash, mr_execution_hash = executionHash, mr_daemon_version = 1, mr_execution_version = 1,
     mr_connection_epoch = 0, mr_created_at = now, mr_last_connected_at = None, mr_last_disconnected_at = None, mr_daemon = None\<rparr>"

definition registry_register ::
  "jstring \<Rightarrow> jstring \<Rightarrow> jstring \<Rightarrow> jstring \<Rightarrow> int \<Rightarrow> registry \<Rightarrow> (machine_row \<times> bool) res \<times> registry" where
  "registry_register id' name daemonHash executionHash now reg = (case reg of
     Some old \<Rightarrow>
       (bindR (registry_get reg) (\<lambda>_.
        if mr_machine_id old \<noteq> id' \<or> mr_name old \<noteq> name
          then Inl (GatewayError 409 (lit ''REGISTRATION_CONFLICT'') (lit ''Machine ID identifies different registration input.'') False False)
        else if mr_daemon_version old \<noteq> 1 \<or> mr_execution_version old \<noteq> 1
          then Inl (GatewayError 409 (lit ''REGISTRATION_ROTATED'')
            (lit ''Credentials have rotated; recover the rotation response or configure the current daemon secret.'') False False)
        else if mr_daemon_hash old \<noteq> daemonHash \<or> mr_execution_hash old \<noteq> executionHash
          then Inl (GatewayError 503 (lit ''ISSUANCE_KEY_CHANGED'')
            (lit ''Credential issuance key changed; rotate credentials explicitly.'') False False)
        else Inr (old, True)), reg)
   | None \<Rightarrow> (let reg' = Some (new_machine_row id' name daemonHash executionHash now) in (bindR (registry_get reg') (\<lambda>row. Inr (row, False)), reg')))"

definition set_secret :: "secret_kind \<Rightarrow> jstring \<Rightarrow> machine_row \<Rightarrow> machine_row" where
  "set_secret kind hash row = (case kind of
     Daemon_secret \<Rightarrow> row\<lparr>mr_daemon_version := mr_daemon_version row + 1, mr_daemon_hash := hash\<rparr>
   | Execution_secret \<Rightarrow> row\<lparr>mr_execution_version := mr_execution_version row + 1, mr_execution_hash := hash\<rparr>)"

definition registry_rotate :: "secret_kind \<Rightarrow> int \<Rightarrow> jstring \<Rightarrow> registry \<Rightarrow> (machine_row \<times> bool) res \<times> registry" where
  "registry_rotate kind expected hash reg = (case registry_get reg of
     Inl e \<Rightarrow> (Inl e, reg)
   | Inr row \<Rightarrow>
       if row_version kind row = expected + 1 then
         (if row_hash kind row \<noteq> hash then Inl (GatewayError 503 (lit ''ISSUANCE_KEY_CHANGED'') (lit ''Credential issuance key changed.'') False False)
          else Inr (row, False), reg)
       else if row_version kind row \<noteq> expected then
         (Inl (GatewayError 409 (lit ''VERSION_CONFLICT'') (lit ''Secret version changed.'') False False), reg)
       else (let reg' = map_option (set_secret kind hash) reg in (bindR (registry_get reg') (\<lambda>row. Inr (row, True)), reg')))"

definition registry_delete :: "registry \<Rightarrow> unit res \<times> registry" where
  "registry_delete reg = (case reg of
     None \<Rightarrow> (Inl (GatewayError 404 (lit ''MACHINE_NOT_FOUND'') (lit ''Machine is not registered.'') False False), reg)
   | Some row \<Rightarrow> (Inr (), Some (row\<lparr>mr_deleted := True, mr_daemon_hash := [], mr_execution_hash := []\<rparr>)))"

definition registry_connected :: "int \<Rightarrow> registry \<Rightarrow> machine_row res \<times> registry" where
  "registry_connected now reg = (case registry_get reg of
     Inl e \<Rightarrow> (Inl e, reg)
   | Inr _ \<Rightarrow> (let reg' = map_option (\<lambda>row. row\<lparr>mr_connection_epoch := mr_connection_epoch row + 1,
         mr_last_connected_at := Some now, mr_last_disconnected_at := None\<rparr>) reg in (registry_get reg', reg')))"

definition registry_disconnected :: "int \<Rightarrow> int \<Rightarrow> registry \<Rightarrow> registry" where
  "registry_disconnected epoch now reg =
     map_option (\<lambda>row. if mr_connection_epoch row = epoch then row\<lparr>mr_last_disconnected_at := Some now\<rparr> else row) reg"

definition registry_metadata :: "hello \<Rightarrow> registry \<Rightarrow> registry" where
  "registry_metadata h reg = map_option (\<lambda>row. row\<lparr>mr_daemon := Some h\<rparr>) reg"

section \<open>credentials.ts\<close>

definition authorize :: "(jstring \<Rightarrow> jstring) \<Rightarrow> registry \<Rightarrow> jstring \<Rightarrow> jstring \<Rightarrow> secret_kind \<Rightarrow> machine_row res" where
  "authorize sha reg id' token kind =
     bindR (machineSecret token kind) (\<lambda>(machineId, version).
     bindR (registry_get reg) (\<lambda>row.
     if machineId \<noteq> id' \<or> mr_machine_id row \<noteq> id' \<or> version \<noteq> row_version kind row \<or> \<not> constantEqual (sha token) (row_hash kind row)
     then Inl (GatewayError 401 (lit ''INVALID_SECRET'') (lit ''Machine secret is invalid or revoked.'') False False)
     else Inr row))"

section \<open>Facts\<close>

lemma registry_get_Inr [simp]: "registry_get reg = Inr row \<longleftrightarrow> reg = Some row \<and> \<not> mr_deleted row"
  by (auto simp: registry_get_def split: option.splits)

lemma authorize_Inr:
  "authorize sha reg id' token kind = Inr row \<longleftrightarrow> reg = Some row \<and> \<not> mr_deleted row \<and> mr_machine_id row = id'
     \<and> machineSecret token kind = Inr (id', row_version kind row) \<and> row_hash kind row = sha token"
  by (auto simp: authorize_def bindR_def registry_get_def split: if_splits prod.splits sum.splits option.splits)

definition row_grows :: "machine_row \<Rightarrow> machine_row \<Rightarrow> bool" where
  "row_grows r r' \<longleftrightarrow> mr_machine_id r' = mr_machine_id r \<and> mr_name r' = mr_name r \<and> (mr_deleted r \<longrightarrow> mr_deleted r')
     \<and> mr_connection_epoch r \<le> mr_connection_epoch r'
     \<and> (\<forall>kind. row_version kind r \<le> row_version kind r')
     \<and> (\<forall>kind. row_version kind r' = row_version kind r \<and> \<not> mr_deleted r' \<longrightarrow> row_hash kind r' = row_hash kind r)"

definition registry_grows :: "registry \<Rightarrow> registry \<Rightarrow> bool" where
  "registry_grows reg reg' \<longleftrightarrow> (\<forall>r. reg = Some r \<longrightarrow> (\<exists>r'. reg' = Some r' \<and> row_grows r r'))"

lemma row_grows_refl [simp]: "row_grows r r"
  by (simp add: row_grows_def)

lemma row_grows_trans: "row_grows r s \<Longrightarrow> row_grows s t \<Longrightarrow> row_grows r t"
  unfolding row_grows_def by (smt (verit) order_trans order_antisym)

lemma registry_grows_refl [simp]: "registry_grows reg reg"
  by (simp add: registry_grows_def)

lemma registry_grows_trans: "registry_grows a b \<Longrightarrow> registry_grows b c \<Longrightarrow> registry_grows a c"
  unfolding registry_grows_def by (metis row_grows_trans)

lemmas row_defs = row_version_def row_hash_def

lemma registry_register_grows: "registry_register i n d e now reg = (r, reg') \<Longrightarrow> registry_grows reg reg'"
  by (auto simp: registry_register_def registry_grows_def Let_def split: option.splits)

lemma set_secret_grows: "\<not> mr_deleted row \<Longrightarrow> row_grows row (set_secret kind hash row)"
  by (cases kind) (auto simp: set_secret_def row_grows_def row_defs split: secret_kind.splits)

lemma registry_rotate_grows: "registry_rotate kind expected hash reg = (r, reg') \<Longrightarrow> registry_grows reg reg'"
  by (auto simp: registry_rotate_def registry_grows_def Let_def set_secret_grows split: sum.splits if_splits)

lemma registry_delete_grows: "registry_delete reg = (r, reg') \<Longrightarrow> registry_grows reg reg'"
  by (auto simp: registry_delete_def registry_grows_def row_grows_def row_defs split: option.splits secret_kind.splits)

lemma registry_connected_grows: "registry_connected now reg = (r, reg') \<Longrightarrow> registry_grows reg reg'"
  by (auto simp: registry_connected_def registry_grows_def row_grows_def row_defs Let_def split: sum.splits secret_kind.splits)

lemma registry_disconnected_grows: "registry_grows reg (registry_disconnected epoch now reg)"
  by (auto simp: registry_disconnected_def registry_grows_def row_grows_def row_defs split: secret_kind.splits)

lemma registry_metadata_grows: "registry_grows reg (registry_metadata h reg)"
  by (auto simp: registry_metadata_def registry_grows_def row_grows_def row_defs split: secret_kind.splits)

lemmas grows_intros = registry_grows_refl registry_register_grows registry_rotate_grows registry_delete_grows
  registry_connected_grows registry_disconnected_grows registry_metadata_grows

text \<open>A secret that a later row accepts has that row's version, so an old one is refused for good.\<close>

lemma refused_later:
  assumes "registry_grows (Some r) reg'" and "machineSecret token kind = Inr (m, version)" and "version < row_version kind r \<or> mr_deleted r"
  shows "\<exists>e. authorize sha reg' id' token kind = Inl e"
proof -
  have "authorize sha reg' id' token kind \<noteq> Inr row" for row
    using assms by (auto simp: authorize_Inr registry_grows_def row_grows_def dest!: spec [of _ kind])
  then show ?thesis by (cases "authorize sha reg' id' token kind") auto
qed

end
