(* ===== verification/GatewayMachine.thy ===== *)
theory GatewayMachine
  imports GatewayRegistry Hoare "HOL-Library.AList"
begin

text \<open>
  \<open>execution/apps/execution-gateway/src/machine.ts\<close>, the durable object of one machine. Its state is the registry row, the
  daemon's web sockets with their attachments, the pending acceptance waits, the three counters, and the
  requests in flight: a submission and a delivery are tasks that stop at every \<open>await\<close>. \<open>machine_step\<close> runs one
  piece of code between two awaits; the input says which event let it go on, and any order of inputs is allowed.
  What the object shows to the outside is the list \<open>gm_outputs\<close>: HTTP responses, frames, closed sockets, calls of receivers.

  The pieces: an await chain that one completed I/O operation sets off runs to its end without another
  event in between, so \<open>authorize\<close> and the code after it are one piece. Work that neither reads nor writes the state of the
  object is done with the piece that follows it. The first \<open>registry.get()\<close> of a rotation only
  throws; it sees the registry of an earlier moment, which is the argument \<open>seen\<close>.
\<close>

section \<open>State\<close>

record attachment =
  at_machineId :: jstring
  at_epoch :: int
  at_credentialVersion :: int
  at_connectedAt :: int
  at_lastMessageAt :: int
  at_hello :: "hello option"

text \<open>A socket is an object with an identity; a close frame has been sent, received, both or neither.\<close>

record socket =
  so_id :: nat
  so_sentClose :: bool
  so_receivedClose :: bool
  so_attachment :: attachment

datatype ready_state = OPEN | CLOSING | CLOSED

definition readyState :: "socket \<Rightarrow> ready_state" where
  "readyState s = (if so_sentClose s \<and> so_receivedClose s then CLOSED else if so_sentClose s \<or> so_receivedClose s then CLOSING else OPEN)"

text \<open>A pending wait holds the promise of a submission, which is the task \<open>pe_task\<close>.\<close>

record pending =
  pe_task :: nat
  pe_machineId :: jstring
  pe_epoch :: int
  pe_requestId :: jstring
  pe_requestHash :: jstring
  pe_runtimeGeneration :: jstring

text \<open>Where a submission waits: for the hash of its token; for the body; for the second hash of the token, with the request
  read and signed; for the daemon's acceptance, with the promise settled or not.\<close>

datatype submit_phase =
    Authorizing jstring
  | Reading jstring "byte list"
  | Prepared jstring submission jstring jstring
  | Waiting jstring "http_response res option"

record submit_task =
  su_task :: nat
  su_machineId :: jstring
  su_contentType :: "jstring option"
  su_hasBody :: bool
  su_phase :: submit_phase
  su_reserved :: int

record completion_event =
  ev_envelope :: routing_envelope
  ev_deliveryId :: jstring
  ev_resultHash :: jstring
  ev_outcome :: native_outcome

text \<open>Where a delivery waits: for its envelope to be verified, or for the receiver.\<close>

datatype deliver_phase = Verifying jstring "json option" | Calling completion_event

record deliver_task =
  de_task :: nat
  de_socket :: nat
  de_attachment :: attachment
  de_deliveryId :: jstring
  de_phase :: deliver_phase
  de_reserved :: int

datatype effect =
    Reply http_response
  | Respond nat http_response
  | Send nat json
  | Close_frame nat int
  | Call_receiver nat completion_event

record machine =
  gm_registry :: registry
  gm_sockets :: "socket list"
  gm_pending :: "(jstring \<times> pending) list"
  gm_submits :: "submit_task list"
  gm_delivers :: "deliver_task list"
  gm_submissions :: int
  gm_deliveries :: int
  gm_bufferedBytes :: int
  gm_next :: nat
  gm_outputs :: "effect list"

type_synonym 'a mact = "(machine, 'a) act"

text \<open>The environment: bindings, the name of the object, and the functions of the platform.\<close>

record gateway_env =
  ge_owns :: "jstring \<Rightarrow> bool"
  ge_MANAGEMENT_SECRET :: "jstring option"
  ge_CREDENTIAL_SIGNING_SECRET :: "jstring option"
  ge_ROUTING_SIGNING_SECRET :: "jstring option"
  ge_ROUTING_PREVIOUS_SIGNING_SECRET :: "jstring option"
  ge_CALLBACK_ROUTES :: jstring
  ge_MAX_PENDING_SUBMISSIONS :: "json option"
  ge_MAX_CONCURRENT_DELIVERIES :: "json option"
  ge_MAX_BUFFERED_BYTES :: "json option"
  ge_ACCEPT_TIMEOUT_MS :: "json option"
  ge_CALLBACK_TIMEOUT_MS :: "json option"
  ge_receives :: "jstring \<Rightarrow> bool"
  ge_sha :: "jstring \<Rightarrow> jstring"
  ge_hmac :: "jstring \<Rightarrow> jstring \<Rightarrow> byte list"
  ge_JSON_parse :: "jstring \<Rightarrow> json res"

section \<open>Sockets, waits and buffers\<close>

definition emit :: "effect \<Rightarrow> unit mact" where
  "emit x = modifyA (\<lambda>m. m\<lparr>gm_outputs := gm_outputs m @ [x]\<rparr>)"

definition attemptA :: "('s, 'a) act \<Rightarrow> ('s, 'a res) act" where
  "attemptA m = catchA (bindA m (\<lambda>a. retA (Inr a))) (\<lambda>e. retA (Inl e))"

definition pending_limit :: "gateway_env \<Rightarrow> int res" where
  "pending_limit env = configured (ge_MAX_PENDING_SUBMISSIONS env) 8 1 64"

definition delivery_limit :: "gateway_env \<Rightarrow> int res" where
  "delivery_limit env = configured (ge_MAX_CONCURRENT_DELIVERIES env) 16 1 16"

definition buffer_limit :: "gateway_env \<Rightarrow> int res" where
  "buffer_limit env = configured (ge_MAX_BUFFERED_BYTES env) (16 * 1024 * 1024) (int MAX_FRAME_BYTES) (64 * 1024 * 1024)"

definition reserve :: "gateway_env \<Rightarrow> int \<Rightarrow> unit mact" where
  "reserve env n =
     bindA (liftR (buffer_limit env)) (\<lambda>limit.
     bindA (getA gm_bufferedBytes) (\<lambda>b.
     if b + n > limit then throwA (GatewayError 429 (lit ''BUFFER_CAPACITY'') (lit ''In-flight payload budget exhausted; retry later.'') True False)
     else modifyA (\<lambda>m. m\<lparr>gm_bufferedBytes := b + n\<rparr>)))"

definition release :: "int \<Rightarrow> unit mact" where
  "release n = modifyA (\<lambda>m. m\<lparr>gm_bufferedBytes := gm_bufferedBytes m - n\<rparr>)"

text \<open>A disconnected socket is no longer listed; one that is only closing may be.\<close>

definition getWebSockets :: "machine \<Rightarrow> socket list" where
  "getWebSockets m = filter (\<lambda>s. readyState s \<noteq> CLOSED) (gm_sockets m)"

definition find_socket :: "nat \<Rightarrow> machine \<Rightarrow> socket option" where
  "find_socket sid m = find (\<lambda>s. so_id s = sid) (gm_sockets m)"

definition update_socket :: "nat \<Rightarrow> (socket \<Rightarrow> socket) \<Rightarrow> machine \<Rightarrow> machine" where
  "update_socket sid f m = m\<lparr>gm_sockets := map (\<lambda>s. if so_id s = sid then f s else s) (gm_sockets m)\<rparr>"

text \<open>A frame sent after our close frame throws; one sent after the peer's reaches nobody.\<close>

definition ws_send :: "nat \<Rightarrow> json \<Rightarrow> unit mact" where
  "ws_send sid frame = bindA (getA (find_socket sid)) (\<lambda>s. case s of
     None \<Rightarrow> throwA (JsError (lit ''closed''))
   | Some s \<Rightarrow> if so_sentClose s then throwA (JsError (lit ''closed'')) else whenA (\<not> so_receivedClose s) (emit (Send sid frame)))"

definition ws_close :: "nat \<Rightarrow> int \<Rightarrow> unit mact" where
  "ws_close sid code = bindA (getA (find_socket sid)) (\<lambda>s. case s of
     None \<Rightarrow> retA ()
   | Some s \<Rightarrow> whenA (\<not> so_sentClose s)
       (bindA (modifyA (update_socket sid (\<lambda>s. s\<lparr>so_sentClose := True\<rparr>))) (\<lambda>_. emit (Close_frame sid code))))"

definition serializeAttachment :: "nat \<Rightarrow> attachment \<Rightarrow> unit mact" where
  "serializeAttachment sid a = modifyA (update_socket sid (\<lambda>s. s\<lparr>so_attachment := a\<rparr>))"

definition current :: "nat \<Rightarrow> attachment mact" where
  "current sid = bindA (getA (find_socket sid)) (\<lambda>s. case s of
     None \<Rightarrow> throwA (JsError (lit ''no socket''))
   | Some s \<Rightarrow> bindA (getA gm_registry) (\<lambda>reg. bindA (liftR (registry_get reg)) (\<lambda>row.
       let a = so_attachment s in
       if mr_machine_id row \<noteq> at_machineId a \<or> mr_daemon_version row \<noteq> at_credentialVersion a
         then throwA (GatewayError 401 (lit ''CREDENTIAL_REVOKED'') (lit ''Daemon secret changed.'') False False)
       else if mr_connection_epoch row \<noteq> at_epoch a \<or> readyState s \<noteq> OPEN
         then throwA (GatewayError 409 (lit ''CONNECTION_REPLACED'') (lit ''Connection was replaced.'') False False)
       else retA a)))"

definition live_socket :: "machine \<Rightarrow> machine_row \<Rightarrow> socket option" where
  "live_socket m row = find (\<lambda>s. \<not> mr_deleted row \<and> readyState s = OPEN \<and> at_epoch (so_attachment s) = mr_connection_epoch row
     \<and> at_credentialVersion (so_attachment s) = mr_daemon_version row) (getWebSockets m)"

definition opt_json :: "('a \<Rightarrow> json) \<Rightarrow> 'a option \<Rightarrow> json" where
  "opt_json f x = (case x of None \<Rightarrow> JNull | Some a \<Rightarrow> f a)"

abbreviation int_json :: "int \<Rightarrow> json" where
  "int_json n \<equiv> JNum (NInt n)"

text \<open>\<open>view\<close>; \<open>pong\<close> is the time of the last automatic response on the live socket.\<close>

definition machine_view :: "int option \<Rightarrow> machine \<Rightarrow> machine_row \<Rightarrow> json" where
  "machine_view pong m row =
     (let ws = live_socket m row; h = (case ws of None \<Rightarrow> None | Some s \<Rightarrow> at_hello (so_attachment s));
          metadata = (case h of None \<Rightarrow> mr_daemon row | Some h \<Rightarrow> Some h) in
      obj [(''machineId'', JStr (mr_machine_id row)), (''name'', JStr (mr_name row)), (''deleted'', JBool (mr_deleted row)),
        (''daemonSecretVersion'', int_json (mr_daemon_version row)), (''executionSecretVersion'', int_json (mr_execution_version row)),
        (''connectionEpoch'', int_json (mr_connection_epoch row)), (''createdAt'', int_json (mr_created_at row)),
        (''lastConnectedAt'', opt_json int_json (mr_last_connected_at row)), (''lastDisconnectedAt'', opt_json int_json (mr_last_disconnected_at row)),
        (''connectionStatus'', str (if h \<noteq> None then ''ready'' else if ws \<noteq> None then ''connecting'' else ''offline'')),
        (''runtimeGeneration'', opt_json (\<lambda>h. JStr (he_runtimeGeneration h)) h),
        (''lastSeenAt'', opt_json (\<lambda>s. int_json (max (case pong of None \<Rightarrow> 0 | Some t \<Rightarrow> t) (at_lastMessageAt (so_attachment s)))) ws),
        (''daemon'', opt_json (\<lambda>d. obj [(''daemonVersion'', JStr (he_daemonVersion d)), (''os'', JStr (he_os d)), (''arch'', JStr (he_arch d)),
           (''operations'', JArr (map JStr (he_operations d)))]) metadata)])"

text \<open>The first settlement of a promise counts.\<close>

definition settle_phase :: "http_response res \<Rightarrow> submit_phase \<Rightarrow> submit_phase" where
  "settle_phase r p = (case p of Waiting d None \<Rightarrow> Waiting d (Some r) | _ \<Rightarrow> p)"

definition settle_task :: "nat \<Rightarrow> http_response res \<Rightarrow> machine \<Rightarrow> machine" where
  "settle_task task r m = m\<lparr>gm_submits := map (\<lambda>t. if su_task t = task then t\<lparr>su_phase := settle_phase r (su_phase t)\<rparr> else t) (gm_submits m)\<rparr>"

definition uncertain_error :: "int \<Rightarrow> string \<Rightarrow> exn" where
  "uncertain_error status message = GatewayError status (lit ''SUBMISSION_UNCERTAIN'') (lit message) True True"

definition rejectWaiters :: "jstring \<Rightarrow> int \<Rightarrow> unit mact" where
  "rejectWaiters machineId epoch = bindA (getA gm_pending) (\<lambda>ps. forA ps (\<lambda>(d, p).
     whenA (pe_machineId p = machineId \<and> pe_epoch p = epoch) (modifyA (settle_task (pe_task p)
       (Inl (uncertain_error 503 ''Connection ended before acceptance was confirmed; retry the same request.''))))))"

definition closeConnections :: "int \<Rightarrow> unit mact" where
  "closeConnections now = bindA (getA getWebSockets) (\<lambda>ws. forA ws (\<lambda>s. let a = so_attachment s in
     bindA (rejectWaiters (at_machineId a) (at_epoch a)) (\<lambda>_.
     bindA (modifyA (\<lambda>m. m\<lparr>gm_registry := registry_disconnected (at_epoch a) now (gm_registry m)\<rparr>)) (\<lambda>_.
     ws_close (so_id s) 4001))))"

text \<open>\<open>receiver\<close>, giving the name of the binding.\<close>

definition binding_name :: "jstring \<Rightarrow> bool" where
  "binding_name s \<longleftrightarrow> (case s of [] \<Rightarrow> False | u # r \<Rightarrow> is_upper u \<and> list_all (\<lambda>u. is_upper u \<or> is_digit u \<or> u = 0x5F) r)"

definition receiver :: "gateway_env \<Rightarrow> jstring \<Rightarrow> jstring res" where
  "receiver env name =
     (case bindR (ge_JSON_parse env (ge_CALLBACK_ROUTES env)) (\<lambda>v. gw_object (Some v) None) of
        Inl e \<Rightarrow> Inl (GatewayError 503 (lit ''CALLBACK_CONFIGURATION'') (lit ''Callback routes are not configured.'') False False)
      | Inr routes \<Rightarrow>
          (let unavailable = Inl (GatewayError 503 (lit ''CALLBACK_UNAVAILABLE'') (lit ''Result receiver is unavailable.'') True False) in
           case map_of routes name of
             Some (JStr b) \<Rightarrow> if binding_name b \<and> ge_receives env b then Inr b else unavailable
           | _ \<Rightarrow> unavailable))"

section \<open>Requests\<close>

record http_request =
  rq_method :: jstring
  rq_path :: jstring
  rq_search :: jstring
  rq_machine :: "jstring option"
  rq_authorization :: "jstring option"
  rq_upgrade :: "jstring option"
  rq_contentType :: "jstring option"
  rq_body :: body

definition register_request :: "gateway_env \<Rightarrow> int \<Rightarrow> int option \<Rightarrow> jstring \<Rightarrow> http_request \<Rightarrow> http_response mact" where
  "register_request env now pong id' rq =
     bindA (liftR (authenticateManagement (ge_sha env) (rq_authorization rq) (ge_MANAGEMENT_SECRET env))) (\<lambda>_.
     bindA (liftR (bindR (readJson (ge_JSON_parse env) (rq_contentType rq) (rq_body rq) 16384)
       (\<lambda>v. gw_object (Some v) (Some [''machineId'', ''name''])))) (\<lambda>b.
     bindA (liftR (gw_uuid (field b ''machineId''))) (\<lambda>given.
     if given \<noteq> id' then liftR (gw_invalid ''Machine identity mismatch.'')
     else
       bindA (liftR (gw_text (field b ''name'') 128)) (\<lambda>name.
       bindA (liftR (issueMachineSecret (ge_hmac env) (ge_CREDENTIAL_SIGNING_SECRET env) id' Daemon_secret 1)) (\<lambda>daemonSecret.
       bindA (liftR (issueMachineSecret (ge_hmac env) (ge_CREDENTIAL_SIGNING_SECRET env) id' Execution_secret 1)) (\<lambda>executionSecret.
       bindA (getA gm_registry) (\<lambda>reg.
       let (r, reg') = registry_register id' name (ge_sha env daemonSecret) (ge_sha env executionSecret) now reg in
       bindA (modifyA (\<lambda>m. m\<lparr>gm_registry := reg'\<rparr>)) (\<lambda>_.
       bindA (liftR r) (\<lambda>(row, duplicate).
       bindA (getA (\<lambda>m. machine_view pong m row)) (\<lambda>view.
       retA (jsonResponse (obj [(''machine'', view), (''daemonSecret'', JStr daemonSecret), (''executionSecret'', JStr executionSecret),
         (''duplicate'', JBool duplicate)]) (if duplicate then 200 else 201))))))))))))"

definition kind_json :: "secret_kind \<Rightarrow> json" where
  "kind_json kind = (case kind of Daemon_secret \<Rightarrow> str ''daemon'' | Execution_secret \<Rightarrow> str ''execution'')"

definition rotate_request :: "gateway_env \<Rightarrow> int \<Rightarrow> registry \<Rightarrow> jstring \<Rightarrow> http_request \<Rightarrow> http_response mact" where
  "rotate_request env now seen id' rq =
     bindA (liftR (authenticateManagement (ge_sha env) (rq_authorization rq) (ge_MANAGEMENT_SECRET env))) (\<lambda>_.
     bindA (liftR (bindR (readJson (ge_JSON_parse env) (rq_contentType rq) (rq_body rq) 1024)
       (\<lambda>v. gw_object (Some v) (Some [''kind'', ''expectedVersion''])))) (\<lambda>b.
     bindA (liftR (secretKind (field b ''kind''))) (\<lambda>kind.
     bindA (liftR (gw_integer (field b ''expectedVersion'') 1 (MAX_SAFE_INTEGER - 1))) (\<lambda>expected.
     bindA (liftR (registry_get seen)) (\<lambda>_.
     bindA (liftR (issueMachineSecret (ge_hmac env) (ge_CREDENTIAL_SIGNING_SECRET env) id' kind (expected + 1))) (\<lambda>secret.
     bindA (getA gm_registry) (\<lambda>reg.
     let (r, reg') = registry_rotate kind expected (ge_sha env secret) reg in
     bindA (modifyA (\<lambda>m. m\<lparr>gm_registry := reg'\<rparr>)) (\<lambda>_.
     bindA (liftR r) (\<lambda>(row, changed).
     bindA (whenA (changed \<and> kind = Daemon_secret) (closeConnections now)) (\<lambda>_.
     retA (jsonResponse (obj [(''machineId'', JStr id'), (''kind'', kind_json kind), (''version'', int_json (row_version kind row)),
       (''secret'', JStr secret)]) 200)))))))))))"

definition delete_request :: "gateway_env \<Rightarrow> int \<Rightarrow> jstring \<Rightarrow> http_request \<Rightarrow> http_response mact" where
  "delete_request env now id' rq =
     bindA (liftR (authenticateManagement (ge_sha env) (rq_authorization rq) (ge_MANAGEMENT_SECRET env))) (\<lambda>_.
     bindA (getA gm_registry) (\<lambda>reg.
     let (r, reg') = registry_delete reg in
     bindA (modifyA (\<lambda>m. m\<lparr>gm_registry := reg'\<rparr>)) (\<lambda>_.
     bindA (liftR r) (\<lambda>_.
     bindA (closeConnections now) (\<lambda>_.
     retA (jsonResponse (obj [(''deleted'', JBool True), (''machineId'', JStr id')]) 200))))))"

definition view_request :: "gateway_env \<Rightarrow> int option \<Rightarrow> jstring \<Rightarrow> http_request \<Rightarrow> http_response mact" where
  "view_request env pong id' rq =
     bindA (liftR (bearer (rq_authorization rq))) (\<lambda>token.
     bindA (getA gm_registry) (\<lambda>reg.
     bindA (liftR (authorize (ge_sha env) reg id' token Execution_secret)) (\<lambda>row.
     bindA (getA (\<lambda>m. machine_view pong m row)) (\<lambda>view.
     retA (jsonResponse (obj [(''machine'', view)]) 200)))))"

definition new_attachment :: "jstring \<Rightarrow> machine_row \<Rightarrow> int \<Rightarrow> attachment" where
  "new_attachment id' row now = \<lparr>at_machineId = id', at_epoch = mr_connection_epoch row, at_credentialVersion = mr_daemon_version row,
     at_connectedAt = now, at_lastMessageAt = now, at_hello = None\<rparr>"

definition upgraded :: http_response where
  "upgraded = \<lparr>rs_status = 101, rs_body = JNull, rs_authenticate = False, rs_retryAfter = False\<rparr>"

definition connectDaemon :: "gateway_env \<Rightarrow> int \<Rightarrow> jstring \<Rightarrow> http_request \<Rightarrow> http_response mact" where
  "connectDaemon env now id' rq =
     (if rq_method rq \<noteq> lit ''GET'' \<or> map_option (map lower_unit) (rq_upgrade rq) \<noteq> Some (lit ''websocket'')
      then throwA (GatewayError 426 (lit ''WEBSOCKET_REQUIRED'') (lit ''Use a WebSocket upgrade.'') False False)
      else
        bindA (liftR (bearer (rq_authorization rq))) (\<lambda>token.
        bindA (getA gm_registry) (\<lambda>reg.
        bindA (liftR (authorize (ge_sha env) reg id' token Daemon_secret)) (\<lambda>_.
        bindA (getA getWebSockets) (\<lambda>old.
        let (r, reg') = registry_connected now reg in
        bindA (modifyA (\<lambda>m. m\<lparr>gm_registry := reg'\<rparr>)) (\<lambda>_.
        bindA (liftR r) (\<lambda>row.
        bindA (getA gm_next) (\<lambda>sid.
        bindA (modifyA (\<lambda>m. m\<lparr>gm_next := sid + 1, gm_sockets := gm_sockets m @ [\<lparr>so_id = sid, so_sentClose = False, so_receivedClose = False,
          so_attachment = new_attachment id' row now\<rparr>]\<rparr>)) (\<lambda>_.
        bindA (forA old (\<lambda>s. bindA (rejectWaiters id' (at_epoch (so_attachment s))) (\<lambda>_. ws_close (so_id s) 4001))) (\<lambda>_.
        bindA (ws_send sid (obj [(''type'', str ''welcome''), (''protocolVersion'', int_json 1), (''machineId'', JStr id'),
          (''connectionEpoch'', int_json (mr_connection_epoch row))])) (\<lambda>_.
        retA upgraded)))))))))))"

section \<open>Submissions\<close>

definition capacity_error :: exn where
  "capacity_error = GatewayError 429 (lit ''SUBMISSION_CAPACITY'') (lit ''Too many acceptance waits; no request was sent.'') True False"

definition find_submit :: "nat \<Rightarrow> machine \<Rightarrow> submit_task option" where
  "find_submit task m = find (\<lambda>t. su_task t = task) (gm_submits m)"

definition update_submit :: "nat \<Rightarrow> (submit_task \<Rightarrow> submit_task) \<Rightarrow> machine \<Rightarrow> machine" where
  "update_submit task f m = m\<lparr>gm_submits := map (\<lambda>t. if su_task t = task then f t else t) (gm_submits m)\<rparr>"

text \<open>The \<open>finally\<close> of the route, and the response of a submission that threw.\<close>

definition end_submit :: "submit_task \<Rightarrow> http_response \<Rightarrow> unit mact" where
  "end_submit t r = bindA (modifyA (\<lambda>m. m\<lparr>gm_submissions := gm_submissions m - 1, gm_bufferedBytes := gm_bufferedBytes m - su_reserved t,
     gm_submits := filter (\<lambda>x. su_task x \<noteq> su_task t) (gm_submits m)\<rparr>)) (\<lambda>_. emit (Respond (su_task t) r))"

text \<open>The code up to the first await. A submission that throws there is over before anything else runs.\<close>

definition submit_begin :: "gateway_env \<Rightarrow> jstring \<Rightarrow> http_request \<Rightarrow> unit mact" where
  "submit_begin env id' rq =
     bindA (liftR (pending_limit env)) (\<lambda>limit.
     bindA (getA gm_submissions) (\<lambda>n.
     if n \<ge> limit then throwA capacity_error
     else
       bindA (liftR (bindR (bearer (rq_authorization rq)) (\<lambda>token. bindR (machineSecret token Execution_secret) (\<lambda>_. Inr token)))) (\<lambda>token.
       modifyA (\<lambda>m. m\<lparr>gm_submissions := gm_submissions m + 1, gm_next := gm_next m + 1,
         gm_submits := gm_submits m @ [\<lparr>su_task = gm_next m, su_machineId = id', su_contentType = rq_contentType rq,
           su_hasBody = (rq_body rq \<noteq> No_body), su_phase = Authorizing token, su_reserved = 0\<rparr>]\<rparr>))))"

definition submit_authorized :: "gateway_env \<Rightarrow> submit_task \<Rightarrow> jstring \<Rightarrow> unit mact" where
  "submit_authorized env t token =
     bindA (getA gm_registry) (\<lambda>reg.
     bindA (liftR (authorize (ge_sha env) reg (su_machineId t) token Execution_secret)) (\<lambda>_.
     bindA (liftR (json_content (su_contentType t))) (\<lambda>_.
     if \<not> su_hasBody t then liftR (gw_invalid ''Expected JSON body.'')
     else modifyA (update_submit (su_task t) (\<lambda>t. t\<lparr>su_phase := Reading token []\<rparr>)))))"

definition submit_chunk :: "gateway_env \<Rightarrow> submit_task \<Rightarrow> jstring \<Rightarrow> byte list \<Rightarrow> byte list \<Rightarrow> unit mact" where
  "submit_chunk env t token data chunk =
     bindA (liftR (accept_chunk MAX_HTTP_BYTES data chunk)) (\<lambda>data'.
     bindA (reserve env (int (length chunk))) (\<lambda>_.
     modifyA (update_submit (su_task t) (\<lambda>t. t\<lparr>su_phase := Reading token data', su_reserved := su_reserved t + int (length chunk)\<rparr>))))"

definition submit_hashed :: "jstring \<Rightarrow> submission \<Rightarrow> json" where
  "submit_hashed id' b = obj ((''machineId'', JStr id') # submission_fields b)"

definition routing_fields :: "jstring \<Rightarrow> submission \<Rightarrow> jstring \<Rightarrow> (string \<times> json) list" where
  "routing_fields id' b requestHash = [(''machineId'', JStr id'), (''runtimeGeneration'', JStr (sm_runtimeGeneration b)),
     (''requestId'', JStr (sm_requestId b)), (''requestHash'', JStr requestHash), (''callback'', callback_json (sm_callback b))]"

definition lit_fields :: "(string \<times> json) list \<Rightarrow> fields" where
  "lit_fields kvs = map (\<lambda>(k, v). (lit k, v)) kvs"

definition prepare_request :: "gateway_env \<Rightarrow> jstring \<Rightarrow> byte list \<Rightarrow> (submission \<times> jstring \<times> jstring) res" where
  "prepare_request env id' data =
     bindR (parse_body (ge_JSON_parse env) data) (\<lambda>v.
     bindR (parse_submission (Some v)) (\<lambda>b.
     bindR (receiver env (cb_receiver (sm_callback b))) (\<lambda>_.
     bindR (jsonValue (Some (submit_hashed id' b))) (\<lambda>hashed.
     let requestHash = hashJson (ge_sha env) hashed in
     bindR (signRoutingEnvelope (ge_hmac env) (ge_ROUTING_SIGNING_SECRET env) (lit_fields (routing_fields id' b requestHash))) (\<lambda>envelope.
     Inr (b, requestHash, envelope))))))"

definition submit_prepared :: "gateway_env \<Rightarrow> submit_task \<Rightarrow> jstring \<Rightarrow> byte list \<Rightarrow> unit mact" where
  "submit_prepared env t token data =
     bindA (liftR (prepare_request env (su_machineId t) data)) (\<lambda>(b, requestHash, envelope).
     modifyA (update_submit (su_task t) (\<lambda>t. t\<lparr>su_phase := Prepared token b requestHash envelope\<rparr>)))"

definition request_frame :: "jstring \<Rightarrow> submission \<Rightarrow> jstring \<Rightarrow> jstring \<Rightarrow> json" where
  "request_frame dispatchId b requestHash envelope = obj [(''type'', str ''request''), (''protocolVersion'', int_json 1),
     (''dispatchId'', JStr dispatchId), (''requestId'', JStr (sm_requestId b)), (''requestHash'', JStr requestHash),
     (''runtimeGeneration'', JStr (sm_runtimeGeneration b)),
     (''operation'', obj [(''operation'', JStr (sm_operation b)), (''params'', sm_params b)]), (''routingEnvelope'', JStr envelope)]"

definition delete_pending :: "jstring \<Rightarrow> machine \<Rightarrow> machine" where
  "delete_pending d m = m\<lparr>gm_pending := filter (\<lambda>(k, p). k \<noteq> d) (gm_pending m)\<rparr>"

definition set_pending :: "jstring \<Rightarrow> pending \<Rightarrow> machine \<Rightarrow> machine" where
  "set_pending d p m = m\<lparr>gm_pending := AList.update d p (gm_pending m)\<rparr>"

text \<open>From the second authorization to the wait: nothing is sent unless the secret is valid now, and only to the live socket.
  The limit of the wait is read after the frame is sent.\<close>

definition submit_dispatch :: "gateway_env \<Rightarrow> submit_task \<Rightarrow> jstring \<Rightarrow> submission \<Rightarrow> jstring \<Rightarrow> jstring \<Rightarrow> jstring \<Rightarrow> unit mact" where
  "submit_dispatch env t token b requestHash envelope dispatchId =
     bindA (getA gm_registry) (\<lambda>reg.
     bindA (liftR (authorize (ge_sha env) reg (su_machineId t) token Execution_secret)) (\<lambda>row.
     bindA (getA (\<lambda>m. live_socket m row)) (\<lambda>ws. case ws of
       None \<Rightarrow> throwA (GatewayError 503 (lit ''MACHINE_OFFLINE'') (lit ''Machine is not ready; no request was sent.'') True False)
     | Some s \<Rightarrow> (case at_hello (so_attachment s) of
         None \<Rightarrow> throwA (GatewayError 503 (lit ''MACHINE_OFFLINE'') (lit ''Machine is not ready; no request was sent.'') True False)
       | Some h \<Rightarrow>
           if he_runtimeGeneration h \<noteq> sm_runtimeGeneration b
             then throwA (GatewayError 409 (lit ''RUNTIME_GENERATION_MISMATCH'') (lit ''Runtime changed; do not replay into a new generation.'') False False)
           else if sm_operation b \<notin> set (he_operations h) then liftR (gw_invalid ''Daemon does not support this operation.'')
           else
             bindA (liftR (pending_limit env)) (\<lambda>limit.
             bindA (getA gm_pending) (\<lambda>ps.
             if int (length ps) \<ge> limit then throwA capacity_error
             else
               bindA (modifyA (set_pending dispatchId \<lparr>pe_task = su_task t, pe_machineId = su_machineId t, pe_epoch = mr_connection_epoch row,
                 pe_requestId = sm_requestId b, pe_requestHash = requestHash, pe_runtimeGeneration = sm_runtimeGeneration b\<rparr>)) (\<lambda>_.
               catchA
                 (bindA (ws_send (so_id s) (request_frame dispatchId b requestHash envelope)) (\<lambda>_.
                  bindA (liftR (configured (ge_ACCEPT_TIMEOUT_MS env) 5000 10 30000)) (\<lambda>_.
                  modifyA (update_submit (su_task t) (\<lambda>t. t\<lparr>su_phase := Waiting dispatchId None\<rparr>)))))
                 (\<lambda>e. bindA (modifyA (delete_pending dispatchId)) (\<lambda>_. throwA e)))))))))"

text \<open>The end of the wait: the promise is settled, or the timer fires first.\<close>

definition submit_waited :: "submit_task \<Rightarrow> jstring \<Rightarrow> http_response res option \<Rightarrow> bool \<Rightarrow> unit mact" where
  "submit_waited t dispatchId settled timeout =
     (case settled of
        Some r \<Rightarrow> bindA (modifyA (delete_pending dispatchId)) (\<lambda>_. bindA (liftR r) (end_submit t))
      | None \<Rightarrow> whenA timeout (bindA (modifyA (delete_pending dispatchId)) (\<lambda>_.
          throwA (uncertain_error 504 ''Daemon acceptance was not confirmed; retry the same request.''))))"

definition failing_submit :: "submit_task \<Rightarrow> unit mact \<Rightarrow> unit mact" where
  "failing_submit t piece = catchA piece (\<lambda>e. end_submit t (errorResponse e))"

section \<open>The route\<close>

definition fetch_id :: "gateway_env \<Rightarrow> http_request \<Rightarrow> jstring res" where
  "fetch_id env rq =
     bindR (gw_uuid (map_option JStr (rq_machine rq))) (\<lambda>id'.
     if \<not> ge_owns env id' then Inl (GatewayError 403 (lit ''WRONG_MACHINE'') (lit ''Machine does not own this object.'') False False)
     else if rq_search rq \<noteq> [] then gw_invalid ''Query parameters are not supported.'' else Inr id')"

definition machine_fetch :: "gateway_env \<Rightarrow> int \<Rightarrow> int option \<Rightarrow> registry \<Rightarrow> http_request \<Rightarrow> unit mact" where
  "machine_fetch env now pong seen rq =
     catchA
       (bindA (liftR (fetch_id env rq)) (\<lambda>id'.
        let path = rq_path rq; post = (rq_method rq = lit ''POST'');
            reply = (\<lambda>handler. bindA handler (\<lambda>r. emit (Reply r))) in
        if path = lit ''/register'' \<and> post then reply (register_request env now pong id' rq)
        else if path = lit ''/secrets/rotate'' \<and> post then reply (rotate_request env now seen id' rq)
        else if path = lit ''/'' \<and> rq_method rq = lit ''DELETE'' then reply (delete_request env now id' rq)
        else if path = lit ''/'' \<and> rq_method rq = lit ''GET'' then reply (view_request env pong id' rq)
        else if path = lit ''/connect'' then reply (connectDaemon env now id' rq)
        else if path = lit ''/requests'' \<and> post then submit_begin env id' rq
        else throwA (GatewayError 405 (lit ''METHOD_NOT_ALLOWED'') (lit ''Method is not supported for this route.'') False False)))
       (\<lambda>e. emit (Reply (errorResponse e)))"

section \<open>Frames of the daemon\<close>

datatype frame = Text_frame jstring | Binary_frame

definition hello_json :: "hello \<Rightarrow> json" where
  "hello_json h = obj [(''type'', str ''hello''), (''protocolVersion'', int_json 1), (''runtimeGeneration'', JStr (he_runtimeGeneration h)),
     (''daemonVersion'', JStr (he_daemonVersion h)), (''os'', JStr (he_os h)), (''arch'', JStr (he_arch h)),
     (''operations'', JArr (map JStr (he_operations h)))]"

definition hello_message :: "nat \<Rightarrow> attachment \<Rightarrow> fields \<Rightarrow> unit mact" where
  "hello_message sid a message =
     bindA (liftR (parse_hello (Some (JObj message)))) (\<lambda>h.
     bindA (case at_hello a of
         Some old \<Rightarrow> if canonical (hello_json old) \<noteq> canonical (hello_json h)
           then liftR (gw_invalid ''Reconnect to change daemon identity or capabilities.'') else retA ()
       | None \<Rightarrow> bindA (serializeAttachment sid (a\<lparr>at_hello := Some h\<rparr>)) (\<lambda>_.
           modifyA (\<lambda>m. m\<lparr>gm_registry := registry_metadata h (gm_registry m)\<rparr>))) (\<lambda>_.
     ws_send sid (obj [(''type'', str ''ready''), (''protocolVersion'', int_json 1), (''connectionEpoch'', int_json (at_epoch a)),
       (''runtimeGeneration'', JStr (he_runtimeGeneration h))])))"

definition accepted_response :: "attachment \<Rightarrow> pending \<Rightarrow> http_response" where
  "accepted_response a p = jsonResponse (obj [(''status'', str ''accepted''), (''machineId'', JStr (at_machineId a)),
     (''requestId'', JStr (pe_requestId p)), (''requestHash'', JStr (pe_requestHash p)), (''runtimeGeneration'', JStr (pe_runtimeGeneration p))]) 202"

definition rejection :: "json option \<Rightarrow> exn res" where
  "rejection v =
     bindR (gw_object v (Some [''code'', ''message'', ''retryable'', ''uncertain''])) (\<lambda>e.
     bindR (gw_bool (field e ''uncertain'')) (\<lambda>uncertain.
     bindR (gw_bool (field e ''retryable'')) (\<lambda>retryable.
     bindR (gw_identity (field e ''code'')) (\<lambda>code.
     bindR (messageText (field e ''message'') 4096) (\<lambda>message.
     Inr (GatewayError (if uncertain then 503 else if retryable then 429 else 409) code message retryable uncertain))))))"

definition matches_pending :: "attachment \<Rightarrow> fields \<Rightarrow> pending \<Rightarrow> bool" where
  "matches_pending a message p \<longleftrightarrow> pe_machineId p = at_machineId a \<and> pe_epoch p = at_epoch a
     \<and> field message ''requestId'' = Some (JStr (pe_requestId p)) \<and> field message ''requestHash'' = Some (JStr (pe_requestHash p))
     \<and> field message ''runtimeGeneration'' = Some (JStr (pe_runtimeGeneration p))"

definition acceptance_message :: "attachment \<Rightarrow> fields \<Rightarrow> unit mact" where
  "acceptance_message a message =
     bindA (liftR (gw_object (Some (JObj message)) (Some [''type'', ''dispatchId'', ''requestId'', ''requestHash'', ''runtimeGeneration'', ''error'']))) (\<lambda>_.
     bindA (liftR (gw_uuid (field message ''dispatchId''))) (\<lambda>dispatchId.
     bindA (getA gm_pending) (\<lambda>ps. case map_of ps dispatchId of
       None \<Rightarrow> retA ()
     | Some p \<Rightarrow>
         if \<not> matches_pending a message p then liftR (gw_invalid ''Acceptance does not match dispatch.'')
         else if field message ''type'' = Some (str ''accepted'') then modifyA (settle_task (pe_task p) (Inr (accepted_response a p)))
         else bindA (liftR (rejection (field message ''error''))) (\<lambda>e. modifyA (settle_task (pe_task p) (Inl e))))))"

section \<open>Deliveries\<close>

definition find_deliver :: "nat \<Rightarrow> machine \<Rightarrow> deliver_task option" where
  "find_deliver task m = find (\<lambda>t. de_task t = task) (gm_delivers m)"

definition nack :: "nat \<Rightarrow> jstring \<Rightarrow> exn \<Rightarrow> unit mact" where
  "nack sid deliveryId e =
     (let (status, code, message, retryable, uncertain) = (case e of GatewayError st c ms rt un \<Rightarrow> (st, c, ms, rt, un)
        | _ \<Rightarrow> (503, lit ''CALLBACK_UNAVAILABLE'', lit ''Receiver admission was not confirmed.'', True, True)) in
      bindA (attemptA (ws_send sid (obj [(''type'', str ''result_nack''), (''deliveryId'', JStr deliveryId),
        (''error'', obj [(''code'', JStr code), (''retryable'', JBool retryable), (''uncertain'', JBool uncertain)])]))) (\<lambda>_. retA ()))"

text \<open>The synchronous start of \<open>deliver\<close>; the result says whether it waits.\<close>

definition deliver_begin :: "gateway_env \<Rightarrow> nat \<Rightarrow> attachment \<Rightarrow> fields \<Rightarrow> int \<Rightarrow> bool mact" where
  "deliver_begin env sid a message n =
     bindA (liftR (gw_object (Some (JObj message)) (Some [''type'', ''deliveryId'', ''routingEnvelope'', ''outcome'']))) (\<lambda>_.
     bindA (liftR (gw_digest (field message ''deliveryId''))) (\<lambda>deliveryId.
     bindA (liftR (delivery_limit env)) (\<lambda>limit.
     bindA (getA gm_deliveries) (\<lambda>k.
     if k \<ge> limit then
       bindA (ws_send sid (obj [(''type'', str ''result_nack''), (''deliveryId'', JStr deliveryId),
         (''error'', obj [(''code'', str ''DELIVERY_CAPACITY''), (''retryable'', JBool True)])])) (\<lambda>_. retA False)
     else case gw_text (field message ''routingEnvelope'') 32768 of
         Inl e \<Rightarrow> bindA (nack sid deliveryId e) (\<lambda>_. retA False)
       | Inr token \<Rightarrow> bindA (modifyA (\<lambda>m. m\<lparr>gm_deliveries := gm_deliveries m + 1, gm_next := gm_next m + 1,
           gm_delivers := gm_delivers m @ [\<lparr>de_task = gm_next m, de_socket = sid, de_attachment = a, de_deliveryId = deliveryId,
             de_phase = Verifying token (field message ''outcome''), de_reserved = n\<rparr>]\<rparr>)) (\<lambda>_. retA True)))))"

definition end_deliver :: "deliver_task \<Rightarrow> unit mact" where
  "end_deliver t = modifyA (\<lambda>m. m\<lparr>gm_deliveries := gm_deliveries m - 1, gm_bufferedBytes := gm_bufferedBytes m - de_reserved t,
     gm_delivers := filter (\<lambda>x. de_task x \<noteq> de_task t) (gm_delivers m)\<rparr>)"

definition failing_deliver :: "deliver_task \<Rightarrow> unit mact \<Rightarrow> unit mact" where
  "failing_deliver t piece = catchA piece (\<lambda>e. bindA (nack (de_socket t) (de_deliveryId t) e) (\<lambda>_. end_deliver t))"

definition completion :: "gateway_env \<Rightarrow> deliver_task \<Rightarrow> jstring \<Rightarrow> json option \<Rightarrow> completion_event res" where
  "completion env t token result =
     bindR (verifyRoutingEnvelope (ge_hmac env) (ge_JSON_parse env) (ge_ROUTING_SIGNING_SECRET env) (ge_ROUTING_PREVIOUS_SIGNING_SECRET env) token) (\<lambda>claims.
     bindR (routingFields (Some (JObj claims))) (\<lambda>envelope.
     if re_machineId envelope \<noteq> at_machineId (de_attachment t)
       then Inl (GatewayError 403 (lit ''RESULT_FORBIDDEN'') (lit ''Routing envelope belongs to another machine.'') False False)
     else
       bindR (parse_outcome result) (\<lambda>out.
       if json_bytes (outcome_native_json out) > MAX_NATIVE_BYTES
         then Inl (GatewayError 413 (lit ''RESULT_TOO_LARGE'') (lit ''Native result exceeds limit.'') False False)
       else
         bindR (jsonValue (Some (outcome_native_json out))) (\<lambda>hashed.
         let resultHash = hashJson (ge_sha env) hashed in
         if de_deliveryId t \<noteq> hashJson (ge_sha env) (obj [(''requestHash'', JStr (re_requestHash envelope)), (''resultHash'', JStr resultHash)])
           then gw_invalid ''Delivery ID does not match result.''
         else Inr \<lparr>ev_envelope = envelope, ev_deliveryId = de_deliveryId t, ev_resultHash = resultHash, ev_outcome = out\<rparr>))))"

text \<open>From the verified envelope to the call of the receiver. The limit of the wait is read after the call.\<close>

definition deliver_verified :: "gateway_env \<Rightarrow> deliver_task \<Rightarrow> jstring \<Rightarrow> json option \<Rightarrow> unit mact" where
  "deliver_verified env t token result =
     bindA (liftR (completion env t token result)) (\<lambda>event.
     bindA (current (de_socket t)) (\<lambda>_.
     bindA (liftR (receiver env (cb_receiver (re_callback (ev_envelope event))))) (\<lambda>_.
     bindA (emit (Call_receiver (de_task t) event)) (\<lambda>_.
     bindA (liftR (configured (ge_CALLBACK_TIMEOUT_MS env) 8000 10 30000)) (\<lambda>_.
     modifyA (\<lambda>m. m\<lparr>gm_delivers := map (\<lambda>x. if de_task x = de_task t then x\<lparr>de_phase := Calling event\<rparr> else x) (gm_delivers m)\<rparr>))))))"

text \<open>What became of the receiver's call within its time.\<close>

datatype reply = Returned "json option" | Threw | Timed_out

definition receipt_matches :: "completion_event \<Rightarrow> fields \<Rightarrow> bool" where
  "receipt_matches ev r \<longleftrightarrow> field r ''status'' = Some (str ''accepted'') \<and> field r ''deliveryId'' = Some (JStr (ev_deliveryId ev))
     \<and> field r ''requestId'' = Some (JStr (re_requestId (ev_envelope ev))) \<and> field r ''requestHash'' = Some (JStr (re_requestHash (ev_envelope ev)))
     \<and> field r ''resultHash'' = Some (JStr (ev_resultHash ev))"

definition check_receipt :: "completion_event \<Rightarrow> reply \<Rightarrow> unit res" where
  "check_receipt ev rp = (case rp of
     Threw \<Rightarrow> Inl (JsError (lit ''receiver''))
   | Timed_out \<Rightarrow> Inl (GatewayError 504 (lit ''CALLBACK_TIMEOUT'') (lit ''Receiver admission was not confirmed.'') True True)
   | Returned v \<Rightarrow> bindR (gw_object v None) (\<lambda>r.
       if field r ''status'' = Some (str ''rejected'') then
         bindR (gw_identity (field r ''code'')) (\<lambda>code. bindR (gw_bool (field r ''retryable'')) (\<lambda>retryable.
           Inl (GatewayError 409 code (lit ''Receiver rejected admission.'') retryable False)))
       else if \<not> receipt_matches ev r
         then Inl (GatewayError 503 (lit ''INVALID_CALLBACK_RECEIPT'') (lit ''Receiver did not confirm matching durable admission.'') True True)
       else Inr ()))"

definition ack_frame :: "completion_event \<Rightarrow> json" where
  "ack_frame ev = obj [(''type'', str ''result_ack''), (''deliveryId'', JStr (ev_deliveryId ev)),
     (''requestId'', JStr (re_requestId (ev_envelope ev))), (''requestHash'', JStr (re_requestHash (ev_envelope ev))), (''resultHash'', JStr (ev_resultHash ev))]"

definition deliver_replied :: "deliver_task \<Rightarrow> completion_event \<Rightarrow> reply \<Rightarrow> unit mact" where
  "deliver_replied t event rp =
     bindA (liftR (check_receipt event rp)) (\<lambda>_.
     bindA (ws_send (de_socket t) (ack_frame event)) (\<lambda>_.
     end_deliver t))"

section \<open>Web socket events\<close>

text \<open>The guards of \<open>webSocketMessage\<close>: None when the frame has been answered by closing the socket.\<close>

definition frame_guard :: "gateway_env \<Rightarrow> int \<Rightarrow> nat \<Rightarrow> frame \<Rightarrow> (attachment \<times> jstring \<times> int) option mact" where
  "frame_guard env now sid raw =
     bindA (current sid) (\<lambda>a0.
     let a = a0\<lparr>at_lastMessageAt := now\<rparr> in
     bindA (serializeAttachment sid a) (\<lambda>_. case raw of
       Binary_frame \<Rightarrow> liftR (gw_invalid ''Use JSON text frames.'')
     | Text_frame s \<Rightarrow>
         if utf8Bytes s > MAX_FRAME_BYTES then bindA (ws_close sid 1009) (\<lambda>_. retA None)
         else bindA (attemptA (reserve env (int (utf8Bytes s)))) (\<lambda>r. case r of
             Inl e \<Rightarrow> bindA (ws_close sid 1013) (\<lambda>_. bindA (rejectWaiters (at_machineId a) (at_epoch a)) (\<lambda>_. retA None))
           | Inr _ \<Rightarrow> retA (Some (a, s, int (utf8Bytes s))))))"

definition handle_text :: "gateway_env \<Rightarrow> nat \<Rightarrow> attachment \<Rightarrow> jstring \<Rightarrow> int \<Rightarrow> bool mact" where
  "handle_text env sid a s n =
     bindA (liftR (bindR (ge_JSON_parse env s) (\<lambda>v. bindR (jsonValue (Some v)) (\<lambda>v. gw_object (Some v) None)))) (\<lambda>message.
     let type = field message ''type'' in
     if type = Some (str ''hello'') then bindA (hello_message sid a message) (\<lambda>_. retA False)
     else if at_hello a = None then liftR (gw_invalid ''Send hello before other messages.'')
     else if type = Some (str ''accepted'') \<or> type = Some (str ''rejected'') then bindA (acceptance_message a message) (\<lambda>_. retA False)
     else if type = Some (str ''result'') then deliver_begin env sid a message n
     else liftR (gw_invalid ''Unknown daemon message.''))"

definition protocol_error :: "nat \<Rightarrow> exn \<Rightarrow> unit mact" where
  "protocol_error sid e =
     (let (code, message) = (case e of GatewayError st c ms rt un \<Rightarrow> (c, ms) | _ \<Rightarrow> (lit ''INVALID_REQUEST'', lit ''Invalid daemon message.'')) in
      bindA (attemptA (bindA (ws_send sid (obj [(''type'', str ''protocol_error''), (''error'', obj [(''code'', JStr code), (''message'', JStr message)])])) (\<lambda>_.
        ws_close sid 1008))) (\<lambda>_.
      bindA (getA (find_socket sid)) (\<lambda>s. case s of None \<Rightarrow> retA ()
        | Some s \<Rightarrow> rejectWaiters (at_machineId (so_attachment s)) (at_epoch (so_attachment s)))))"

definition webSocketMessage :: "gateway_env \<Rightarrow> int \<Rightarrow> nat \<Rightarrow> frame \<Rightarrow> unit mact" where
  "webSocketMessage env now sid raw =
     bindA (attemptA (frame_guard env now sid raw)) (\<lambda>g. case g of
       Inl e \<Rightarrow> protocol_error sid e
     | Inr None \<Rightarrow> retA ()
     | Inr (Some (a, s, n)) \<Rightarrow> bindA (attemptA (handle_text env sid a s n)) (\<lambda>r. case r of
         Inl e \<Rightarrow> bindA (protocol_error sid e) (\<lambda>_. release n)
       | Inr waits \<Rightarrow> whenA (\<not> waits) (release n)))"

text \<open>\<open>webSocketClose\<close> and \<open>webSocketError\<close>: the runtime has seen the end of the connection, then calls the handler.\<close>

definition socket_ended :: "int \<Rightarrow> int \<Rightarrow> nat \<Rightarrow> unit mact" where
  "socket_ended code now sid = bindA (getA (find_socket sid)) (\<lambda>s. case s of None \<Rightarrow> retA ()
     | Some s \<Rightarrow> if so_receivedClose s then retA () else (let a = so_attachment s in
         bindA (modifyA (update_socket sid (\<lambda>s. s\<lparr>so_receivedClose := True\<rparr>))) (\<lambda>_.
         bindA (modifyA (\<lambda>m. m\<lparr>gm_registry := registry_disconnected (at_epoch a) now (gm_registry m)\<rparr>)) (\<lambda>_.
         bindA (rejectWaiters (at_machineId a) (at_epoch a)) (\<lambda>_.
         ws_close sid code)))))"

section \<open>The object\<close>

datatype input =
    Http_request int "int option" registry http_request
  | Token_hashed nat
  | Body_chunk nat "byte list"
  | Body_late nat
  | Body_end nat
  | Signed nat jstring
  | Accept_wait nat bool
  | Frame int nat frame
  | Envelope_checked nat
  | Receiver_reply nat reply
  | Socket_closed int nat
  | Socket_failed int nat
  | Restarted

definition submit_step :: "gateway_env \<Rightarrow> input \<Rightarrow> submit_task \<Rightarrow> unit mact" where
  "submit_step env i t = (case (i, su_phase t) of
     (Token_hashed _, Authorizing token) \<Rightarrow> failing_submit t (submit_authorized env t token)
   | (Body_chunk _ chunk, Reading token data) \<Rightarrow> failing_submit t (submit_chunk env t token data chunk)
   | (Body_late _, Reading token data) \<Rightarrow> failing_submit t (liftR body_timeout)
   | (Body_end _, Reading token data) \<Rightarrow> failing_submit t (submit_prepared env t token data)
   | (Signed _ dispatchId, Prepared token b requestHash envelope) \<Rightarrow>
       failing_submit t (submit_dispatch env t token b requestHash envelope dispatchId)
   | (Accept_wait _ timeout, Waiting dispatchId settled) \<Rightarrow> failing_submit t (submit_waited t dispatchId settled timeout)
   | _ \<Rightarrow> retA ())"

definition deliver_step :: "gateway_env \<Rightarrow> input \<Rightarrow> deliver_task \<Rightarrow> unit mact" where
  "deliver_step env i t = (case (i, de_phase t) of
     (Envelope_checked _, Verifying token result) \<Rightarrow> failing_deliver t (deliver_verified env t token result)
   | (Receiver_reply _ rp, Calling event) \<Rightarrow> failing_deliver t (deliver_replied t event rp)
   | _ \<Rightarrow> retA ())"

definition on_submit :: "nat \<Rightarrow> (submit_task \<Rightarrow> unit mact) \<Rightarrow> unit mact" where
  "on_submit task f = bindA (getA (find_submit task)) (\<lambda>t. case t of None \<Rightarrow> retA () | Some t \<Rightarrow> f t)"

definition on_deliver :: "nat \<Rightarrow> (deliver_task \<Rightarrow> unit mact) \<Rightarrow> unit mact" where
  "on_deliver task f = bindA (getA (find_deliver task)) (\<lambda>t. case t of None \<Rightarrow> retA () | Some t \<Rightarrow> f t)"

text \<open>A restart loses the memory of the object; the registry and the sockets with their attachments stay.\<close>

definition restart :: "machine \<Rightarrow> machine" where
  "restart m = m\<lparr>gm_pending := [], gm_submits := [], gm_delivers := [], gm_submissions := 0, gm_deliveries := 0, gm_bufferedBytes := 0\<rparr>"

fun machine_act :: "gateway_env \<Rightarrow> input \<Rightarrow> unit mact" where
  "machine_act env (Http_request now pong seen rq) = machine_fetch env now pong seen rq"
| "machine_act env (Frame now sid raw) = webSocketMessage env now sid raw"
| "machine_act env (Socket_closed now sid) = socket_ended 1000 now sid"
| "machine_act env (Socket_failed now sid) = socket_ended 1011 now sid"
| "machine_act env Restarted = modifyA restart"
| "machine_act env (Token_hashed k) = on_submit k (submit_step env (Token_hashed k))"
| "machine_act env (Body_chunk k c) = on_submit k (submit_step env (Body_chunk k c))"
| "machine_act env (Body_late k) = on_submit k (submit_step env (Body_late k))"
| "machine_act env (Body_end k) = on_submit k (submit_step env (Body_end k))"
| "machine_act env (Signed k d) = on_submit k (submit_step env (Signed k d))"
| "machine_act env (Accept_wait k b) = on_submit k (submit_step env (Accept_wait k b))"
| "machine_act env (Envelope_checked k) = on_deliver k (deliver_step env (Envelope_checked k))"
| "machine_act env (Receiver_reply k r) = on_deliver k (deliver_step env (Receiver_reply k r))"

definition machine_step :: "gateway_env \<Rightarrow> input \<Rightarrow> machine \<Rightarrow> machine" where
  "machine_step env i m = snd (machine_act env i m)"

definition new_machine :: machine where
  "new_machine = \<lparr>gm_registry = None, gm_sockets = [], gm_pending = [], gm_submits = [], gm_delivers = [],
     gm_submissions = 0, gm_deliveries = 0, gm_bufferedBytes = 0, gm_next = 0, gm_outputs = []\<rparr>"

definition machine_run :: "gateway_env \<Rightarrow> input list \<Rightarrow> machine" where
  "machine_run env is = fold (machine_step env) is new_machine"

end
