(* ===== verification/GatewaySafety.thy ===== *)
theory GatewaySafety
  imports GatewayMachine
begin

text \<open>
  The invariant of the machine object. \<open>settles\<close> is what closing connections and rejecting waits may do: settle promises, send
  close frames and note the time of disconnection. It is a preorder, and every part of the invariant but the one on
  unclosed sockets is kept along it.
\<close>

section \<open>Closing and rejecting\<close>

definition task_le :: "(http_response res \<Rightarrow> bool) \<Rightarrow> submit_task \<Rightarrow> submit_task \<Rightarrow> bool" where
  "task_le Q t t' \<longleftrightarrow> t' = t \<or> (\<exists>d r. Q r \<and> su_phase t = Waiting d None \<and> t' = t\<lparr>su_phase := Waiting d (Some r)\<rparr>)"

definition socket_le :: "socket \<Rightarrow> socket \<Rightarrow> bool" where
  "socket_le s s' \<longleftrightarrow> s' = s \<or> s' = s\<lparr>so_sentClose := True\<rparr>"

definition row_le :: "machine_row \<Rightarrow> machine_row \<Rightarrow> bool" where
  "row_le r r' \<longleftrightarrow> (\<exists>t. r' = r\<lparr>mr_last_disconnected_at := t\<rparr>)"

definition settles_by :: "(http_response res \<Rightarrow> bool) \<Rightarrow> machine \<Rightarrow> machine \<Rightarrow> bool" where
  "settles_by Q m m' \<longleftrightarrow> gm_pending m' = gm_pending m \<and> gm_submissions m' = gm_submissions m \<and> gm_deliveries m' = gm_deliveries m
     \<and> gm_bufferedBytes m' = gm_bufferedBytes m \<and> gm_next m' = gm_next m \<and> gm_delivers m' = gm_delivers m
     \<and> list_all2 (task_le Q) (gm_submits m) (gm_submits m') \<and> list_all2 socket_le (gm_sockets m) (gm_sockets m')
     \<and> rel_option row_le (gm_registry m) (gm_registry m')
     \<and> (\<exists>xs. gm_outputs m' = gm_outputs m @ xs \<and> (\<forall>x \<in> set xs. \<exists>sid code. x = Close_frame sid code))"

abbreviation settles :: "machine \<Rightarrow> machine \<Rightarrow> bool" where
  "settles \<equiv> settles_by isl"

lemma task_le_refl [simp]: "task_le Q t t"
  by (simp add: task_le_def)

lemma task_le_trans: "task_le Q a b \<Longrightarrow> task_le Q b c \<Longrightarrow> task_le Q a c"
  by (auto simp: task_le_def)

lemma socket_le_refl [simp]: "socket_le s s"
  by (simp add: socket_le_def)

lemma socket_le_trans: "socket_le a b \<Longrightarrow> socket_le b c \<Longrightarrow> socket_le a c"
  by (auto simp: socket_le_def)

lemma row_le_refl [simp]: "row_le r r"
  by (auto simp: row_le_def intro: exI [of _ "mr_last_disconnected_at r"])

lemma row_le_trans: "row_le a b \<Longrightarrow> row_le b c \<Longrightarrow> row_le a c"
  by (auto simp: row_le_def)

lemma settles_refl [simp]: "settles_by Q m m"
  by (simp add: settles_by_def list.rel_refl option.rel_refl)

lemma settles_trans:
  assumes "settles_by Q a b" and "settles_by Q b c"
  shows "settles_by Q a c"
proof -
  have "list_all2 (task_le Q) (gm_submits a) (gm_submits c)" "list_all2 socket_le (gm_sockets a) (gm_sockets c)"
    using assms by (auto simp: settles_by_def intro: list_all2_trans [OF task_le_trans] list_all2_trans [OF socket_le_trans])
  moreover have "rel_option row_le (gm_registry a) (gm_registry c)"
    using assms by (auto simp: settles_by_def option_rel_Some1 option_rel_Some2 elim!: option.rel_cases intro: row_le_trans)
  ultimately show ?thesis using assms by (auto simp: settles_by_def)
qed

lemma settles_order [simp]: "reflp (settles_by Q)" "transp (settles_by Q)"
  using settles_refl settles_trans by (auto intro: reflpI transpI)

lemmas settles_bind = within_bindA [OF settles_order(2)] and settles_basic = within_basic [OF settles_order(1)]

lemma settles_emit_close [within_intros]: "within settles (emit (Close_frame sid code))"
  by (auto simp: emit_def settles_by_def list.rel_refl option.rel_refl intro!: within_modifyA)

lemma task_le_settle: "Q r \<Longrightarrow> task_le Q t (t\<lparr>su_phase := settle_phase r (su_phase t)\<rparr>)"
  by (auto simp: task_le_def settle_phase_def split: submit_phase.splits option.splits)

lemma settles_settle_task: "Q r \<Longrightarrow> settles_by Q m (settle_task k r m)"
  by (auto simp: settle_task_def settles_by_def task_le_settle list_all2_map2 list.rel_refl option.rel_refl list_all2_same)

lemma settles_settle: "within settles (modifyA (settle_task k (Inl e)))"
  by (auto intro!: within_modifyA settles_settle_task)

lemma settles_close: "within settles (modifyA (update_socket sid (\<lambda>s. s\<lparr>so_sentClose := True\<rparr>)))"
  by (auto simp: update_socket_def settles_by_def list_all2_map2 list.rel_refl option.rel_refl list_all2_same socket_le_def intro!: within_modifyA)

lemma row_le_disconnected: "row_le r (r\<lparr>mr_last_disconnected_at := t\<rparr>)"
  by (auto simp: row_le_def)

lemma settles_disconnected: "within settles (modifyA (\<lambda>m. m\<lparr>gm_registry := registry_disconnected e now (gm_registry m)\<rparr>))"
  by (auto simp: registry_disconnected_def settles_by_def list.rel_refl option.rel_map row_le_disconnected intro!: within_modifyA option.rel_refl)

lemma settles_rejectWaiters: "within settles (rejectWaiters machineId epoch)"
  unfolding rejectWaiters_def
  by (intro settles_bind settles_basic within_forA settles_order)
    (auto simp: whenA_def split: prod.splits intro: settles_settle settles_basic)

lemma settles_ws_close: "within settles (ws_close sid code)"
  unfolding ws_close_def
  by (intro settles_bind settles_basic)
    (auto simp: whenA_def split: option.splits intro!: settles_bind settles_close settles_emit_close settles_basic)

lemma settles_closeConnections: "within settles (closeConnections now)"
  unfolding closeConnections_def Let_def
  by (intro settles_bind settles_basic within_forA settles_order settles_rejectWaiters settles_disconnected settles_ws_close)

section \<open>The invariant\<close>

definition cap :: "int res \<Rightarrow> int" where
  "cap r = (case r of Inl e \<Rightarrow> 0 | Inr l \<Rightarrow> l)"

text \<open>The counters count the tasks in flight, within the configured limits; \<open>extra\<close> bytes are held by the frame in hand.\<close>

definition tasks_ok :: "gateway_env \<Rightarrow> int \<Rightarrow> machine \<Rightarrow> bool" where
  "tasks_ok env extra m \<longleftrightarrow> gm_submissions m = int (length (gm_submits m)) \<and> gm_deliveries m = int (length (gm_delivers m))
     \<and> gm_bufferedBytes m = sum_list (map su_reserved (gm_submits m)) + sum_list (map de_reserved (gm_delivers m)) + extra
     \<and> gm_submissions m \<le> cap (pending_limit env) \<and> gm_deliveries m \<le> cap (delivery_limit env) \<and> gm_bufferedBytes m \<le> cap (buffer_limit env)
     \<and> (\<forall>t \<in> set (gm_submits m). 0 \<le> su_reserved t \<and> su_task t < gm_next m)
     \<and> (\<forall>t \<in> set (gm_delivers m). 0 \<le> de_reserved t \<and> de_task t < gm_next m) \<and> 0 \<le> extra
     \<and> distinct (map su_task (gm_submits m)) \<and> distinct (map de_task (gm_delivers m))"

text \<open>Sockets belong to the registered machine; their epochs differ and none is ahead of the row. One that we have not closed
  is of the current epoch and secret, and the machine is not deleted.\<close>

definition socket_ok :: "registry \<Rightarrow> socket \<Rightarrow> bool" where
  "socket_ok reg s \<longleftrightarrow> (\<exists>row. reg = Some row \<and> at_machineId (so_attachment s) = mr_machine_id row
     \<and> at_epoch (so_attachment s) \<le> mr_connection_epoch row \<and> at_credentialVersion (so_attachment s) \<le> mr_daemon_version row)"

definition links_ok :: "machine \<Rightarrow> bool" where
  "links_ok m \<longleftrightarrow> list_all (socket_ok (gm_registry m)) (gm_sockets m) \<and> distinct (map so_id (gm_sockets m))
     \<and> distinct (map (\<lambda>s. at_epoch (so_attachment s)) (gm_sockets m)) \<and> (\<forall>s \<in> set (gm_sockets m). so_id s < gm_next m)"

definition socket_current :: "registry \<Rightarrow> socket \<Rightarrow> bool" where
  "socket_current reg s \<longleftrightarrow> (\<exists>row. reg = Some row \<and> \<not> mr_deleted row
     \<and> at_epoch (so_attachment s) = mr_connection_epoch row \<and> at_credentialVersion (so_attachment s) = mr_daemon_version row)"

definition unclosed_ok :: "machine \<Rightarrow> bool" where
  "unclosed_ok m \<longleftrightarrow> (\<forall>s \<in> set (gm_sockets m). \<not> so_sentClose s \<longrightarrow> socket_current (gm_registry m) s)"

text \<open>A pending wait is that of a submission that waits under its dispatch ID; an unsettled one has a connection whose end
  has not been reported.\<close>

definition unsettled :: "machine \<Rightarrow> jstring \<Rightarrow> int \<Rightarrow> bool" where
  "unsettled m machineId epoch \<longleftrightarrow> (\<exists>(d, p) \<in> set (gm_pending m). \<exists>t \<in> set (gm_submits m). su_task t = pe_task p
     \<and> su_phase t = Waiting d None \<and> pe_machineId p = machineId \<and> pe_epoch p = epoch)"

definition connection_open :: "machine \<Rightarrow> jstring \<Rightarrow> int \<Rightarrow> bool" where
  "connection_open m machineId epoch \<longleftrightarrow> (\<exists>s \<in> set (gm_sockets m). \<not> so_receivedClose s
     \<and> at_machineId (so_attachment s) = machineId \<and> at_epoch (so_attachment s) = epoch)"

definition waits_ok :: "machine \<Rightarrow> bool" where
  "waits_ok m \<longleftrightarrow> distinct (map fst (gm_pending m))
     \<and> (\<forall>(d, p) \<in> set (gm_pending m). \<exists>t \<in> set (gm_submits m). su_task t = pe_task p \<and> (\<exists>r. su_phase t = Waiting d r))
     \<and> (\<forall>machineId epoch. unsettled m machineId epoch \<longrightarrow> connection_open m machineId epoch)"

definition waits_current :: "machine \<Rightarrow> bool" where
  "waits_current m \<longleftrightarrow> (\<forall>machineId epoch. unsettled m machineId epoch \<longrightarrow>
     (\<exists>row. gm_registry m = Some row \<and> \<not> mr_deleted row \<and> mr_connection_epoch row = epoch))"

definition machine_base :: "gateway_env \<Rightarrow> int \<Rightarrow> machine \<Rightarrow> bool" where
  "machine_base env extra m \<longleftrightarrow> tasks_ok env extra m \<and> links_ok m \<and> waits_ok m"

definition machine_ok :: "gateway_env \<Rightarrow> int \<Rightarrow> machine \<Rightarrow> bool" where
  "machine_ok env extra m \<longleftrightarrow> machine_base env extra m \<and> unclosed_ok m \<and> waits_current m"

subsection \<open>Settling keeps it\<close>

lemma settles_submits:
  assumes "list_all2 (task_le Q) ts ts'"
  shows "map su_task ts' = map su_task ts" "map su_reserved ts' = map su_reserved ts" "length ts' = length ts"
  using assms by (induction rule: list_all2_induct) (auto simp: task_le_def)

lemma settles_sockets:
  assumes "list_all2 socket_le ss ss'"
  shows "map so_id ss' = map so_id ss" "map so_attachment ss' = map so_attachment ss" "map so_receivedClose ss' = map so_receivedClose ss"
  using assms by (induction rule: list_all2_induct) (auto simp: socket_le_def)

lemma list_all2_in2: "list_all2 R xs ys \<Longrightarrow> y \<in> set ys \<Longrightarrow> \<exists>x \<in> set xs. R x y"
  by (induction rule: list_all2_induct) auto

lemma list_all2_in1: "list_all2 R xs ys \<Longrightarrow> x \<in> set xs \<Longrightarrow> \<exists>y \<in> set ys. R x y"
  by (induction rule: list_all2_induct) auto

lemma settles_tasks: "settles_by Q m m' \<Longrightarrow> tasks_ok env extra m \<Longrightarrow> tasks_ok env extra m'"
proof -
  assume s: "settles_by Q m m'" and ok: "tasks_ok env extra m"
  have l: "list_all2 (task_le Q) (gm_submits m) (gm_submits m')" using s by (simp add: settles_by_def)
  have same: "\<exists>t \<in> set (gm_submits m). su_reserved t = su_reserved t' \<and> su_task t = su_task t'" if "t' \<in> set (gm_submits m')" for t'
    using list_all2_in2 [OF l that] by (auto simp: task_le_def)
  have "\<forall>t \<in> set (gm_submits m'). 0 \<le> su_reserved t \<and> su_task t < gm_next m"
  proof
    fix t' assume "t' \<in> set (gm_submits m')"
    from same [OF this] obtain t where "t \<in> set (gm_submits m)" "su_reserved t = su_reserved t'" "su_task t = su_task t'" by blast
    with ok show "0 \<le> su_reserved t' \<and> su_task t' < gm_next m" unfolding tasks_ok_def by metis
  qed
  with s ok settles_submits [OF l] show ?thesis by (simp add: tasks_ok_def settles_by_def)
qed

lemma settles_row: "settles_by Q m m' \<Longrightarrow> gm_registry m = Some row \<Longrightarrow>
    \<exists>row'. gm_registry m' = Some row' \<and> row_le row row'"
  by (auto simp: settles_by_def option_rel_Some1)

lemma settles_socket:
  assumes "settles_by Q m m'" and "s' \<in> set (gm_sockets m')"
  obtains s where "s \<in> set (gm_sockets m)" and "socket_le s s'"
  using assms by (auto simp: settles_by_def dest: list_all2_in2)

lemma socket_le_attachment: "socket_le s s' \<Longrightarrow> so_attachment s' = so_attachment s \<and> so_id s' = so_id s \<and> so_receivedClose s' = so_receivedClose s
    \<and> (so_sentClose s \<longrightarrow> so_sentClose s')"
  by (auto simp: socket_le_def)

lemma row_le_fields: "row_le r r' \<Longrightarrow> mr_machine_id r' = mr_machine_id r \<and> mr_connection_epoch r' = mr_connection_epoch r
    \<and> mr_daemon_version r' = mr_daemon_version r \<and> mr_deleted r' = mr_deleted r \<and> mr_execution_version r' = mr_execution_version r
    \<and> mr_daemon_hash r' = mr_daemon_hash r \<and> mr_execution_hash r' = mr_execution_hash r \<and> mr_name r' = mr_name r"
  by (auto simp: row_le_def)

lemma settles_socket_ok: "settles_by Q m m' \<Longrightarrow> socket_le s s' \<Longrightarrow> socket_ok (gm_registry m) s \<Longrightarrow> socket_ok (gm_registry m') s'"
  by (auto simp: socket_ok_def dest!: settles_row socket_le_attachment row_le_fields)

lemma settles_links:
  assumes "settles_by Q m m'" and "links_ok m"
  shows "links_ok m'"
proof -
  have l: "list_all2 socket_le (gm_sockets m) (gm_sockets m')" using assms(1) by (simp add: settles_by_def)
  have "map (\<lambda>s. at_epoch (so_attachment s)) (gm_sockets m') = map (\<lambda>s. at_epoch (so_attachment s)) (gm_sockets m)"
    using arg_cong [OF settles_sockets(2) [OF l], of "map at_epoch"] by (simp add: comp_def)
  moreover have "list_all (socket_ok (gm_registry m')) (gm_sockets m')"
  proof (unfold list_all_iff, intro ballI)
    fix x assume "x \<in> set (gm_sockets m')"
    then obtain s where "s \<in> set (gm_sockets m)" "socket_le s x" using settles_socket [OF assms(1)] by blast
    then show "socket_ok (gm_registry m') x" using assms(2) settles_socket_ok [OF assms(1)] by (simp add: links_ok_def list_all_iff)
  qed
  moreover have "gm_next m' = gm_next m" using assms(1) by (simp add: settles_by_def)
  ultimately show ?thesis using assms settles_sockets(1) [OF l]
    by (auto simp: links_ok_def dest!: list_all2_in2 [OF l] socket_le_attachment)
qed

lemma settles_unsettled: "settles_by Q m m' \<Longrightarrow> unsettled m' machineId epoch \<Longrightarrow> unsettled m machineId epoch"
  by (auto simp: unsettled_def settles_by_def task_le_def dest!: list_all2_in2 [where xs = "gm_submits m"]) fastforce+

lemma settles_connection: "settles_by Q m m' \<Longrightarrow> connection_open m machineId epoch \<Longrightarrow> connection_open m' machineId epoch"
  by (auto simp: connection_open_def settles_by_def dest!: list_all2_in1 [where xs = "gm_sockets m"] socket_le_attachment)

lemma task_le_waiting: "task_le Q t t' \<Longrightarrow> su_phase t = Waiting d r \<Longrightarrow> \<exists>r'. su_phase t' = Waiting d r'"
  by (auto simp: task_le_def)

lemma task_le_task: "task_le Q t t' \<Longrightarrow> su_task t' = su_task t"
  by (auto simp: task_le_def)

lemma settles_pending:
  assumes s: "settles_by Q m m'" and w: "waits_ok m" and d: "(d, p) \<in> set (gm_pending m')"
  shows "\<exists>t \<in> set (gm_submits m'). su_task t = pe_task p \<and> (\<exists>r. su_phase t = Waiting d r)"
proof -
  have "(d, p) \<in> set (gm_pending m)" using s d by (simp add: settles_by_def)
  with w obtain t r where t: "t \<in> set (gm_submits m)" "su_task t = pe_task p" "su_phase t = Waiting d r" unfolding waits_ok_def by blast
  have l: "list_all2 (task_le Q) (gm_submits m) (gm_submits m')" using s by (simp add: settles_by_def)
  obtain t' where "t' \<in> set (gm_submits m')" "task_le Q t t'" using list_all2_in1 [OF l t(1)] by blast
  then show ?thesis using task_le_waiting [of Q t t'] task_le_task [of Q t t'] t(2,3) by metis
qed

lemma settles_waits:
  assumes s: "settles_by Q m m'" and w: "waits_ok m"
  shows "waits_ok m'"
proof -
  have "distinct (map fst (gm_pending m'))" using s w by (simp add: settles_by_def waits_ok_def)
  moreover have "connection_open m' i e" if "unsettled m' i e" for i e
    using settles_connection [OF s] settles_unsettled [OF s that] w unfolding waits_ok_def by blast
  ultimately show ?thesis using settles_pending [OF s w] unfolding waits_ok_def by blast
qed

lemma settles_base: "settles_by Q m m' \<Longrightarrow> machine_base env extra m \<Longrightarrow> machine_base env extra m'"
  by (simp add: machine_base_def settles_tasks settles_links settles_waits)

lemma settles_unclosed: "settles_by Q m m' \<Longrightarrow> unclosed_ok m \<Longrightarrow> unclosed_ok m'"
proof (unfold unclosed_ok_def, intro ballI impI)
  fix s' assume s: "settles_by Q m m'" and u: "\<forall>s \<in> set (gm_sockets m). \<not> so_sentClose s \<longrightarrow> socket_current (gm_registry m) s"
    and s': "s' \<in> set (gm_sockets m')" "\<not> so_sentClose s'"
  obtain s0 where s0: "s0 \<in> set (gm_sockets m)" "socket_le s0 s'" using settles_socket [OF s s'(1)] .
  note eq = socket_le_attachment [OF s0(2)]
  with u s0 s' obtain row where row: "gm_registry m = Some row" and rest: "\<not> mr_deleted row" "at_epoch (so_attachment s0) = mr_connection_epoch row"
    "at_credentialVersion (so_attachment s0) = mr_daemon_version row" by (auto simp: socket_current_def)
  obtain row' where "gm_registry m' = Some row'" "row_le row row'" using settles_row [OF s row] by blast
  with rest eq row_le_fields show "socket_current (gm_registry m') s'" by (simp add: socket_current_def)
qed

lemma settles_current: "settles_by Q m m' \<Longrightarrow> waits_current m \<Longrightarrow> waits_current m'"
proof (unfold waits_current_def, intro allI impI)
  fix i e assume s: "settles_by Q m m'" and u: "unsettled m' i e" and w: "\<forall>machineId epoch. unsettled m machineId epoch \<longrightarrow>
     (\<exists>row. gm_registry m = Some row \<and> \<not> mr_deleted row \<and> mr_connection_epoch row = epoch)"
  obtain row where "gm_registry m = Some row" "\<not> mr_deleted row" "mr_connection_epoch row = e" using settles_unsettled [OF s u] w by blast
  moreover obtain row' where "gm_registry m' = Some row'" "row_le row row'" using settles_row [OF s] calculation(1) by blast
  ultimately show "\<exists>row. gm_registry m' = Some row \<and> \<not> mr_deleted row \<and> mr_connection_epoch row = e" using row_le_fields by auto
qed

lemma settles_ok: "settles_by Q m m' \<Longrightarrow> machine_ok env extra m \<Longrightarrow> machine_ok env extra m'"
  by (simp add: machine_ok_def settles_base settles_unclosed settles_current)

end
