(* ===== verification/GatewaySteps.thy ===== *)
theory GatewaySteps
  imports GatewaySafety
begin

text \<open>
  Every piece of the machine object keeps its invariant. First the loops that close connections, then what
  each piece changes, then the steps.
\<close>

section \<open>Closing every connection\<close>

definition closed :: "nat \<Rightarrow> machine \<Rightarrow> bool" where
  "closed sid m \<longleftrightarrow> (\<forall>s \<in> set (gm_sockets m). so_id s = sid \<longrightarrow> so_sentClose s)"

definition parked :: "machine \<Rightarrow> nat \<Rightarrow> bool" where
  "parked m k \<longleftrightarrow> (\<exists>t \<in> set (gm_submits m). su_task t = k \<and> (\<exists>d. su_phase t = Waiting d None))"

abbreviation never :: "exn \<Rightarrow> machine \<Rightarrow> bool" where
  "never \<equiv> \<lambda>e m. False"

lemma settles_closed: "settles_by Q m m' \<Longrightarrow> closed sid m \<Longrightarrow> closed sid m'"
  unfolding closed_def by (metis settles_socket socket_le_attachment)

lemma settles_parked:
  assumes "settles_by Q m m'" and "parked m' k"
  shows "parked m k"
proof -
  have l: "list_all2 (task_le Q) (gm_submits m) (gm_submits m')" using assms(1) by (simp add: settles_by_def)
  obtain t' d where t': "t' \<in> set (gm_submits m')" "su_task t' = k" "su_phase t' = Waiting d None" using assms(2) by (auto simp: parked_def)
  obtain t where "t \<in> set (gm_submits m)" "task_le Q t t'" using list_all2_in2 [OF l t'(1)] by blast
  with t' show ?thesis by (auto simp: parked_def task_le_def)
qed

lemma settle_phase_settled: "settle_phase r p \<noteq> Waiting d None"
  by (auto simp: settle_phase_def split: submit_phase.splits option.splits)

lemma settle_task_parked: "\<not> parked (settle_task k r m) k"
  by (auto simp: parked_def settle_task_def settle_phase_settled bex_Un ball_Un)

lemma wp_within: "within R m \<Longrightarrow> wp m Q E s \<Longrightarrow> wp m (\<lambda>a t. Q a t \<and> R s t) (\<lambda>e t. E e t \<and> R s t) s"
  using withinD [of R m s] by (auto simp: wp_def split: prod.splits sum.splits)

lemma wp_rejectWaiters: "wp (rejectWaiters i e) (\<lambda>_ m'. settles m m' \<and> \<not> unsettled m' i e) never m"
proof -
  let ?I = "\<lambda>dn s. settles m s \<and> (\<forall>(d, p) \<in> set dn. pe_machineId p = i \<and> pe_epoch p = e \<longrightarrow> \<not> parked s (pe_task p))"
  let ?r = "Inl (uncertain_error 503 ''Connection ended before acceptance was confirmed; retry the same request.'')"
  have step: "?I (dn @ [(d, p)]) (if pe_machineId p = i \<and> pe_epoch p = e then settle_task (pe_task p) ?r s else s)" if "?I dn s" for dn d and p :: pending and s
  proof (cases "pe_machineId p = i \<and> pe_epoch p = e")
    case True
    have t: "settles s (settle_task (pe_task p) ?r s)" by (simp add: settles_settle_task)
    have "settles m (settle_task (pe_task p) ?r s)" using that settles_trans [OF _ t] by blast
    moreover have "\<not> parked (settle_task (pe_task p) ?r s) k" if "\<not> parked s k" for k using settles_parked [OF t] that by blast
    ultimately show ?thesis using that True by (auto simp: settle_task_parked)
  qed (use that in auto)
  have "wp (forA (gm_pending m) (\<lambda>(d, p). whenA (pe_machineId p = i \<and> pe_epoch p = e) (modifyA (settle_task (pe_task p) ?r)))) (\<lambda>_. ?I (gm_pending m)) never m"
  proof (rule wp_forA)
    fix dn rest :: "(jstring \<times> pending) list" and x s assume "?I dn s"
    then show "wp (case x of (d, p) \<Rightarrow> whenA (pe_machineId p = i \<and> pe_epoch p = e) (modifyA (settle_task (pe_task p) ?r))) (\<lambda>_. ?I (dn @ [x])) never s"
      using step [OF \<open>?I dn s\<close>, of "snd x" "fst x"] by (cases x) (auto simp: wp_simps split: if_splits)
  qed simp
  then show ?thesis unfolding rejectWaiters_def wp_simps
    by (rule wp_call) (auto simp: unsettled_def parked_def settles_by_def)
qed

lemma find_socket_Some: "find_socket sid m = Some s \<Longrightarrow> s \<in> set (gm_sockets m) \<and> so_id s = sid"
  by (auto simp: find_socket_def find_Some_iff)

lemma find_socket_None: "find_socket sid m = None \<longleftrightarrow> (\<forall>s \<in> set (gm_sockets m). so_id s \<noteq> sid)"
  by (auto simp: find_socket_def find_None_iff)

lemma distinct_key: "distinct (map f xs) \<Longrightarrow> x \<in> set xs \<Longrightarrow> y \<in> set xs \<Longrightarrow> f x = f y \<Longrightarrow> x = y"
  by (metis distinct_map inj_onD)

lemma wp_ws_close:
  assumes "distinct (map so_id (gm_sockets m))"
  shows "wp (ws_close sid code) (\<lambda>_ m'. settles m m' \<and> closed sid m') never m"
proof -
  have "wp (ws_close sid code) (\<lambda>_ m'. closed sid m') never m"
  proof (cases "find_socket sid m")
    case None
    then have "closed sid m" by (simp add: closed_def find_socket_None)
    with None show ?thesis by (simp add: ws_close_def wp_simps)
  next
    case (Some s)
    then have "closed sid m" if "so_sentClose s"
      using that find_socket_Some [OF Some] distinct_key [OF assms] by (auto simp: closed_def)
    moreover have "closed sid (m'\<lparr>gm_outputs := xs\<rparr>)" if "m' = update_socket sid (\<lambda>s. s\<lparr>so_sentClose := True\<rparr>) m" for m' xs
      by (auto simp: that closed_def update_socket_def ball_Un)
    ultimately show ?thesis using Some by (simp add: ws_close_def wp_simps emit_def)
  qed
  from wp_within [OF settles_ws_close this] show ?thesis by (rule wp_call) auto
qed

lemma wp_closing_loop:
  assumes body: "\<And>(s :: socket) m. s \<in> set ws \<Longrightarrow> distinct (map so_id (gm_sockets m)) \<Longrightarrow>
      wp (body s) (\<lambda>_ m'. settles m m' \<and> closed (so_id s) m' \<and> \<not> unsettled m' (at_machineId (so_attachment s)) (at_epoch (so_attachment s))) never m"
    and ids: "distinct (map so_id (gm_sockets m))"
  shows "wp (forA ws body) (\<lambda>_ m'. settles m m' \<and> (\<forall>s \<in> set ws. closed (so_id s) m'
    \<and> \<not> unsettled m' (at_machineId (so_attachment s)) (at_epoch (so_attachment s)))) never m"
proof (rule wp_forA)
  fix dn rest :: "socket list" and x :: socket and u
  assume "dn @ x # rest = ws"
  then have x: "x \<in> set ws" by auto
  assume I: "settles m u \<and> (\<forall>s \<in> set dn. closed (so_id s) u \<and> \<not> unsettled u (at_machineId (so_attachment s)) (at_epoch (so_attachment s)))"
  then have "distinct (map so_id (gm_sockets u))" using ids settles_sockets(1) [of "gm_sockets m" "gm_sockets u"] by (simp add: settles_by_def)
  from body [OF x this] show "wp (body x) (\<lambda>_ m'. settles m m' \<and> (\<forall>s \<in> set (dn @ [x]). closed (so_id s) m'
    \<and> \<not> unsettled m' (at_machineId (so_attachment s)) (at_epoch (so_attachment s)))) never u"
  proof (rule wp_call)
    fix a t assume t: "settles u t \<and> closed (so_id x) t \<and> \<not> unsettled t (at_machineId (so_attachment x)) (at_epoch (so_attachment x))"
    then have s: "settles u t" by blast
    have "settles m t" using I settles_trans [OF _ s] by blast
    with I t settles_closed [OF s] settles_unsettled [OF s] show "settles m t \<and> (\<forall>s \<in> set (dn @ [x]). closed (so_id s) t
      \<and> \<not> unsettled t (at_machineId (so_attachment s)) (at_epoch (so_attachment s)))" by auto
  qed
qed simp

lemma wp_closeConnections:
  assumes "distinct (map so_id (gm_sockets m))"
  shows "wp (closeConnections now) (\<lambda>_ m'. settles m m' \<and> (\<forall>s \<in> set (getWebSockets m). closed (so_id s) m'
    \<and> \<not> unsettled m' (at_machineId (so_attachment s)) (at_epoch (so_attachment s)))) never m"
  unfolding closeConnections_def wp_simps Let_def
proof (rule wp_closing_loop [OF _ assms], unfold wp_simps)
  fix s :: socket and m0 :: machine assume d: "distinct (map so_id (gm_sockets m0))"
  let ?i = "at_machineId (so_attachment s)" and ?e = "at_epoch (so_attachment s)"
  let ?g = "\<lambda>m. m\<lparr>gm_registry := registry_disconnected ?e now (gm_registry m)\<rparr>"
  have close: "wp (ws_close (so_id s) 4001) (\<lambda>_ m'. settles m0 m' \<and> closed (so_id s) m' \<and> \<not> unsettled m' ?i ?e) never (?g m1)"
    if m1: "settles m0 m1" "\<not> unsettled m1 ?i ?e" for m1 :: machine
  proof -
    have g: "settles m1 (?g m1)" using settles_disconnected [of ?e now] by (auto simp: within_def modifyA_def)
    then have t: "settles m0 (?g m1)" using m1(1) settles_trans by blast
    have "distinct (map so_id (gm_sockets (?g m1)))" using d m1(1) settles_sockets(1) [of "gm_sockets m0" "gm_sockets m1"] by (simp add: settles_by_def)
    from wp_ws_close [OF this, of "so_id s" 4001] show ?thesis
    proof (rule wp_call)
      fix a t assume s: "settles (?g m1) t \<and> closed (so_id s) t"
      then have "settles m0 t" using settles_trans [OF \<open>settles m0 (?g m1)\<close>] by blast
      moreover have "\<not> unsettled t ?i ?e" using m1(2) settles_unsettled [OF g] settles_unsettled [OF conjunct1 [OF s]] by blast
      ultimately show "settles m0 t \<and> closed (so_id s) t \<and> \<not> unsettled t ?i ?e" using s by blast
    qed
  qed
  show "wp (rejectWaiters ?i ?e) (\<lambda>a s'. wp (ws_close (so_id s) 4001) (\<lambda>_ m'. settles m0 m' \<and> closed (so_id s) m' \<and> \<not> unsettled m' ?i ?e) never (?g s')) never m0"
    using wp_rejectWaiters [of ?i ?e m0] by (rule wp_call) (use close in auto)
qed

text \<open>After such a loop the sockets that are still open are the ones that were current before.\<close>

lemma closed_all_ok:
  assumes base: "machine_base env x m" and s: "settles_by Q m m'"
    and each: "\<And>s. s \<in> set (getWebSockets m) \<Longrightarrow> closed (so_id s) m' \<and> \<not> unsettled m' (at_machineId (so_attachment s)) (at_epoch (so_attachment s))
      \<or> socket_current (gm_registry m) s \<and> \<not> unsettled m (at_machineId (so_attachment s)) (at_epoch (so_attachment s))"
  shows "machine_ok env x m'"
proof -
  have listed: "s \<in> set (getWebSockets m) \<longleftrightarrow> s \<in> set (gm_sockets m) \<and> \<not> (so_sentClose s \<and> so_receivedClose s)" for s
    by (auto simp: getWebSockets_def readyState_def)
  have "socket_current (gm_registry m') s'" if s': "s' \<in> set (gm_sockets m')" "\<not> so_sentClose s'" for s'
  proof -
    obtain s0 where s0: "s0 \<in> set (gm_sockets m)" "socket_le s0 s'" using settles_socket [OF s s'(1)] .
    note eq = socket_le_attachment [OF s0(2)]
    then have "s0 \<in> set (getWebSockets m)" using listed s0(1) s'(2) by blast
    moreover have "\<not> closed (so_id s0) m'" using s' eq by (auto simp: closed_def)
    ultimately obtain row where row: "gm_registry m = Some row" "\<not> mr_deleted row" "at_epoch (so_attachment s0) = mr_connection_epoch row"
      "at_credentialVersion (so_attachment s0) = mr_daemon_version row" using each by (auto simp: socket_current_def)
    obtain row' where "gm_registry m' = Some row'" "row_le row row'" using settles_row [OF s row(1)] by blast
    with row eq row_le_fields show ?thesis by (simp add: socket_current_def)
  qed
  moreover have "\<not> unsettled m' i e" for i e
  proof
    assume u: "unsettled m' i e"
    then have u0: "unsettled m i e" using settles_unsettled [OF s] by blast
    then obtain s0 where "s0 \<in> set (gm_sockets m)" "\<not> so_receivedClose s0" "at_machineId (so_attachment s0) = i" "at_epoch (so_attachment s0) = e"
      using base unfolding machine_base_def waits_ok_def connection_open_def by blast
    then show False using each [of s0] listed [of s0] u u0 by auto
  qed
  ultimately show ?thesis using settles_base [OF s base] by (simp add: machine_ok_def unclosed_ok_def waits_current_def)
qed

section \<open>The registry changes\<close>

lemma ok_outputs [simp]: "machine_base env x (m\<lparr>gm_outputs := xs\<rparr>) = machine_base env x m" "machine_ok env x (m\<lparr>gm_outputs := xs\<rparr>) = machine_ok env x m"
  by (simp_all add: machine_base_def machine_ok_def tasks_ok_def links_ok_def waits_ok_def unclosed_ok_def waits_current_def unsettled_def connection_open_def)

lemma settles_pres: "within settles a \<Longrightarrow> preserves (machine_ok env x) a"
  by (auto simp: preserves_def within_def intro: settles_ok)

definition row_same :: "machine_row \<Rightarrow> machine_row \<Rightarrow> bool" where
  "row_same r r' \<longleftrightarrow> mr_machine_id r' = mr_machine_id r \<and> mr_connection_epoch r' = mr_connection_epoch r
     \<and> mr_daemon_version r' = mr_daemon_version r \<and> mr_deleted r' = mr_deleted r"

definition row_ahead :: "machine_row \<Rightarrow> machine_row \<Rightarrow> bool" where
  "row_ahead r r' \<longleftrightarrow> mr_machine_id r' = mr_machine_id r \<and> mr_connection_epoch r \<le> mr_connection_epoch r' \<and> mr_daemon_version r \<le> mr_daemon_version r'"

lemma unsettled_registry [simp]: "unsettled (m\<lparr>gm_registry := reg\<rparr>) i e = unsettled m i e"
  by (simp add: unsettled_def)

lemma base_registry:
  assumes "machine_base env x m" and "\<And>r. gm_registry m = Some r \<Longrightarrow> \<exists>r'. reg' = Some r' \<and> row_ahead r r'"
  shows "machine_base env x (m\<lparr>gm_registry := reg'\<rparr>)"
proof -
  have "socket_ok reg' s" if "socket_ok (gm_registry m) s" for s
    using that assms(2) by (force simp: socket_ok_def row_ahead_def)
  then have "links_ok (m\<lparr>gm_registry := reg'\<rparr>)" using assms(1) by (auto simp: machine_base_def links_ok_def list_all_iff)
  with assms(1) show ?thesis by (simp add: machine_base_def tasks_ok_def waits_ok_def connection_open_def)
qed

lemma ok_registry:
  assumes "machine_ok env x m" and "\<And>r. gm_registry m = Some r \<Longrightarrow> \<exists>r'. reg' = Some r' \<and> row_same r r'"
  shows "machine_ok env x (m\<lparr>gm_registry := reg'\<rparr>)"
proof -
  have "socket_current reg' s" if "socket_current (gm_registry m) s" for s
    using that assms(2) by (auto simp: socket_current_def row_same_def)
  then have "unclosed_ok (m\<lparr>gm_registry := reg'\<rparr>)" using assms(1) by (auto simp: machine_ok_def unclosed_ok_def)
  moreover have "waits_current (m\<lparr>gm_registry := reg'\<rparr>)" using assms by (fastforce simp: machine_ok_def waits_current_def row_same_def)
  moreover have "machine_base env x (m\<lparr>gm_registry := reg'\<rparr>)"
    using assms by (intro base_registry) (auto simp: machine_ok_def row_same_def row_ahead_def)
  ultimately show ?thesis by (simp add: machine_ok_def)
qed

text \<open>A row that changed for every open connection: they are closed.\<close>

lemma close_after:
  assumes "machine_base env x m"
  shows "wp (closeConnections now) (\<lambda>_. machine_ok env x) never m"
proof -
  have "distinct (map so_id (gm_sockets m))" using assms by (simp add: machine_base_def links_ok_def)
  from wp_closeConnections [OF this] show ?thesis
    by (rule wp_call) (use closed_all_ok [OF assms] in auto)
qed

lemma wp_retA_eta: "wp (retA a) Q E = Q a"
  by (simp add: fun_eq_iff wp_simps)

lemma wp_bindA_eta: "wp (bindA a f) Q E = wp a (\<lambda>b. wp (f b) Q E) E"
  by (simp add: fun_eq_iff wp_simps)

abbreviation kept :: "gateway_env \<Rightarrow> int \<Rightarrow> 'a mact \<Rightarrow> machine \<Rightarrow> bool" where
  "kept env x a m \<equiv> wp a (\<lambda>_. machine_ok env x) (\<lambda>_. machine_ok env x) m"

lemma pres_kept: "preserves (machine_ok env x) a \<Longrightarrow> machine_ok env x m \<Longrightarrow> kept env x a m"
  by (auto simp: wp_def split: prod.splits sum.splits dest: preservesD)

lemma register_Some: "registry_register i n d e now (Some r) = (res, reg') \<Longrightarrow> reg' = Some r"
  by (simp add: registry_register_def)

lemma rotate_ahead: "registry_rotate kind expected hash (Some r) = (res, reg') \<Longrightarrow> \<exists>r'. reg' = Some r' \<and> row_ahead r r'"
  by (auto simp: registry_rotate_def set_secret_def row_ahead_def Let_def split: sum.splits secret_kind.splits if_splits)

lemma rotate_same:
  "registry_rotate kind expected hash (Some r) = (res, reg') \<Longrightarrow> (\<And>row. res = Inr (row, True) \<Longrightarrow> kind \<noteq> Daemon_secret)
    \<Longrightarrow> \<exists>r'. reg' = Some r' \<and> row_same r r'"
  by (cases kind) (auto simp: registry_rotate_def registry_get_def set_secret_def row_same_def Let_def split: sum.splits if_splits)

lemma row_same_refl [simp]: "row_same r r"
  by (simp add: row_same_def)

lemma kept_register:
  assumes "machine_ok env x m"
  shows "kept env x (register_request env now pong id' rq) m"
proof -
  have "machine_ok env x (m\<lparr>gm_registry := reg'\<rparr>)" if "registry_register i n d e now (gm_registry m) = (r, reg')" for i n d e r reg'
    by (rule ok_registry [OF assms]) (use that in \<open>auto dest: register_Some\<close>)
  with assms show ?thesis
    by (auto simp: register_request_def wp_simps Let_def split: prod.splits sum.splits)
qed

lemma kept_rotate:
  assumes "machine_ok env x m"
  shows "kept env x (rotate_request env now seen id' rq) m"
proof -
  note base = assms [unfolded machine_ok_def, THEN conjunct1]
  have ahead: "machine_base env x (m\<lparr>gm_registry := reg'\<rparr>)" if "registry_rotate kind expected hash (gm_registry m) = (r, reg')" for kind expected hash r reg'
    by (rule base_registry [OF base]) (use that rotate_ahead in auto)
  have other: "machine_ok env x (m\<lparr>gm_registry := reg'\<rparr>)" if "registry_rotate kind expected hash (gm_registry m) = (r, reg')"
    "\<And>row. r = Inr (row, True) \<Longrightarrow> kind \<noteq> Daemon_secret" for kind expected hash r reg'
    by (rule ok_registry [OF assms]) (use that rotate_same [of kind expected hash] in auto)
  have close: "kept env x (closeConnections now) (m\<lparr>gm_registry := reg'\<rparr>)" if "registry_rotate kind expected hash (gm_registry m) = (r, reg')" for kind expected hash r reg'
    using close_after [OF ahead [OF that]] by (rule wp_call) auto
  have failed: "machine_ok env x (m\<lparr>gm_registry := reg'\<rparr>)" if "registry_rotate kind expected hash (gm_registry m) = (Inl e, reg')" for kind expected hash e reg'
    using other [OF that] by simp
  have unchanged: "machine_ok env x (m\<lparr>gm_registry := reg'\<rparr>)" if "registry_rotate kind expected hash (gm_registry m) = (Inr (row, False), reg')" for kind expected hash row reg'
    using other [OF that] by simp
  show ?thesis using assms other close failed unchanged
    by (auto simp: rotate_request_def wp_simps wp_retA_eta Let_def split: prod.splits sum.splits)
qed

lemma kept_delete:
  assumes "machine_ok env x m"
  shows "kept env x (delete_request env now id' rq) m"
proof -
  have ahead: "machine_base env x (m\<lparr>gm_registry := snd (registry_delete (gm_registry m))\<rparr>)"
    using assms by (intro base_registry) (auto simp: machine_ok_def registry_delete_def row_ahead_def)
  have close: "kept env x (closeConnections now) (m\<lparr>gm_registry := snd (registry_delete (gm_registry m))\<rparr>)"
    using close_after [OF ahead] by (rule wp_call) auto
  have same: "m\<lparr>gm_registry := snd (registry_delete (gm_registry m))\<rparr> = m" if "fst (registry_delete (gm_registry m)) = Inl e" for e
    using that by (auto simp: registry_delete_def split: option.splits)
  show ?thesis using assms close same
    by (auto simp: delete_request_def wp_simps wp_retA_eta Let_def split: prod.splits sum.splits)
qed

lemma kept_view: "machine_ok env x m \<Longrightarrow> kept env x (view_request env pong id' rq) m"
  by (simp add: view_request_def wp_simps split: sum.splits)

section \<open>A new connection\<close>

lemma kept_ws_send: "machine_ok env x m \<Longrightarrow> kept env x (ws_send sid f) m"
  by (simp add: ws_send_def wp_simps emit_def split: option.splits)

lemma base_connect:
  assumes ok: "machine_ok env x m" and reg: "gm_registry m = Some row0"
    and row: "row = row0\<lparr>mr_connection_epoch := mr_connection_epoch row0 + 1, mr_last_connected_at := a, mr_last_disconnected_at := b\<rparr>"
    and new: "new = \<lparr>so_id = gm_next m, so_sentClose = False, so_receivedClose = False, so_attachment = new_attachment (mr_machine_id row0) row now\<rparr>"
  shows "machine_base env x (m\<lparr>gm_registry := Some row, gm_next := gm_next m + 1, gm_sockets := gm_sockets m @ [new]\<rparr>)" (is "machine_base env x ?m")
proof -
  have base: "tasks_ok env x m" "links_ok m" "waits_ok m" using ok by (simp_all add: machine_ok_def machine_base_def)
  have old: "at_epoch (so_attachment s) < mr_connection_epoch row \<and> socket_ok (Some row) s" if "s \<in> set (gm_sockets m)" for s
    using that base(2) reg by (force simp: links_ok_def list_all_iff socket_ok_def row)
  have "socket_ok (Some row) new" by (simp add: socket_ok_def new new_attachment_def row)
  with base(2) old have "links_ok ?m" by (force simp: links_ok_def list_all_iff new new_attachment_def)
  moreover have "waits_ok ?m" using base(3) by (force simp: waits_ok_def unsettled_def connection_open_def)
  moreover have "tasks_ok env x ?m" using base(1) by (auto simp: tasks_ok_def less_SucI)
  ultimately show ?thesis by (simp add: machine_base_def)
qed

lemma wp_replace_body:
  assumes "distinct (map so_id (gm_sockets m))"
  shows "wp (bindA (rejectWaiters i e) (\<lambda>_. ws_close sid 4001)) (\<lambda>_ m'. settles m m' \<and> closed sid m' \<and> \<not> unsettled m' i e) never m"
  unfolding wp_simps using wp_rejectWaiters [of i e m]
proof (rule wp_call)
  fix m1 assume m1: "settles m m1 \<and> \<not> unsettled m1 i e"
  then have "distinct (map so_id (gm_sockets m1))" using assms settles_sockets(1) [of "gm_sockets m" "gm_sockets m1"] by (simp add: settles_by_def)
  from wp_ws_close [OF this, of sid 4001] show "wp (ws_close sid 4001) (\<lambda>_ m'. settles m m' \<and> closed sid m' \<and> \<not> unsettled m' i e) never m1"
  proof (rule wp_call)
    fix m2 assume m2: "settles m1 m2 \<and> closed sid m2"
    then have "settles m m2" using m1 settles_trans by blast
    with m1 m2 settles_unsettled [of isl m1 m2] show "settles m m2 \<and> closed sid m2 \<and> \<not> unsettled m2 i e" by blast
  qed
qed

lemma connected_row:
  "registry_connected now (Some row0) = (Inr row, reg') \<Longrightarrow> \<not> mr_deleted row0 \<and> reg' = Some row
    \<and> row = row0\<lparr>mr_connection_epoch := mr_connection_epoch row0 + 1, mr_last_connected_at := Some now, mr_last_disconnected_at := None\<rparr>"
  by (auto simp: registry_connected_def Let_def split: sum.splits)

lemma ok_replace:
  assumes ok: "machine_ok env x m" and reg: "gm_registry m = Some row0" and conn: "registry_connected now (Some row0) = (Inr row, reg')"
    and new: "new = \<lparr>so_id = gm_next m, so_sentClose = False, so_receivedClose = False, so_attachment = new_attachment (mr_machine_id row0) row now\<rparr>"
  shows "wp (forA (getWebSockets m) (\<lambda>s. bindA (rejectWaiters (mr_machine_id row0) (at_epoch (so_attachment s))) (\<lambda>_. ws_close (so_id s) 4001)))
    (\<lambda>_. machine_ok env x) never (m\<lparr>gm_registry := reg', gm_next := gm_next m + 1, gm_sockets := gm_sockets m @ [new]\<rparr>)" (is "wp ?loop _ _ ?m")
proof -
  note row = connected_row [OF conn]
  have base: "machine_base env x ?m" using base_connect [OF ok reg conjunct2 [OF conjunct2 [OF row]] new] row by simp
  have ids: "distinct (map so_id (gm_sockets ?m))" using base by (simp only: machine_base_def links_ok_def)
  have mine: "at_machineId (so_attachment s) = mr_machine_id row0" if "s \<in> set (getWebSockets m)" for s
    using that ok reg by (auto simp: machine_ok_def machine_base_def links_ok_def list_all_iff socket_ok_def getWebSockets_def)
  have "wp ?loop (\<lambda>_ m'. settles ?m m' \<and> (\<forall>s \<in> set (getWebSockets m). closed (so_id s) m'
      \<and> \<not> unsettled m' (at_machineId (so_attachment s)) (at_epoch (so_attachment s)))) never ?m"
    by (rule wp_closing_loop [OF _ ids]) (use mine wp_replace_body in auto)
  then show ?thesis
  proof (rule wp_call)
    fix m' assume m': "settles ?m m' \<and> (\<forall>s \<in> set (getWebSockets m). closed (so_id s) m'
      \<and> \<not> unsettled m' (at_machineId (so_attachment s)) (at_epoch (so_attachment s)))"
    have "socket_current (gm_registry ?m) new" using row by (simp add: socket_current_def new new_attachment_def)
    moreover have "\<not> unsettled ?m i (at_epoch (so_attachment new))" for i
    proof
      assume "unsettled ?m i (at_epoch (so_attachment new))"
      then have "unsettled m i (mr_connection_epoch row)" by (simp add: unsettled_def new new_attachment_def)
      then have "mr_connection_epoch row0 = mr_connection_epoch row" using ok reg by (auto simp: machine_ok_def waits_current_def)
      moreover have "mr_connection_epoch row = mr_connection_epoch row0 + 1" using arg_cong [OF conjunct2 [OF conjunct2 [OF row]], of mr_connection_epoch] by simp
      ultimately show False by linarith
    qed
    moreover have "s \<in> set (getWebSockets m) \<or> s = new" if "s \<in> set (getWebSockets ?m)" for s
      using that unfolding getWebSockets_def by (simp split: if_splits)
    ultimately show "machine_ok env x m'" using m' by (intro closed_all_ok [OF base, of isl m']) auto
  qed
qed

lemma connected_fails: "registry_connected now reg = (Inl e, reg') \<Longrightarrow> reg' = reg"
  by (auto simp: registry_connected_def registry_get_def Let_def split: sum.splits option.splits if_splits)

lemma kept_welcome: "machine_ok env x m \<Longrightarrow> kept env x (bindA (ws_send sid f) (\<lambda>_. retA r)) m"
  by (simp add: wp_simps wp_retA_eta kept_ws_send)

lemma kept_connect:
  assumes ok: "machine_ok env x m"
  shows "kept env x (connectDaemon env now id' rq) m"
proof -
  have go: "wp (forA (getWebSockets m) (\<lambda>s. bindA (rejectWaiters (mr_machine_id row0) (at_epoch (so_attachment s))) (\<lambda>_. ws_close (so_id s) 4001)))
      (\<lambda>_. kept env x (bindA (ws_send (gm_next m) f) (\<lambda>_. retA upgraded))) (\<lambda>_. machine_ok env x)
      (m\<lparr>gm_registry := reg', gm_next := Suc (gm_next m), gm_sockets := gm_sockets m @ [\<lparr>so_id = gm_next m, so_sentClose = False,
        so_receivedClose = False, so_attachment = new_attachment (mr_machine_id row0) row now\<rparr>]\<rparr>)"
    if "gm_registry m = Some row0" "registry_connected now (Some row0) = (Inr row, reg')" for f row0 row reg'
    using ok_replace [OF ok that refl] unfolding Suc_eq_plus1 by (rule wp_call) (simp_all add: kept_welcome)
  have failed: "machine_ok env x (m\<lparr>gm_registry := reg'\<rparr>)" if "gm_registry m = Some row0" "registry_connected now (Some row0) = (Inl e, reg')" for row0 e reg'
    by (rule ok_registry [OF ok]) (use that connected_fails [OF that(2)] in auto)
  show ?thesis using ok
    by (auto simp: connectDaemon_def wp_simps Let_def authorize_Inr split: prod.splits sum.splits intro!: go intro: failed)
qed

section \<open>Submissions\<close>

lemma find_submit_Some: "find_submit k m = Some t \<Longrightarrow> t \<in> set (gm_submits m) \<and> su_task t = k"
  by (auto simp: find_submit_def find_Some_iff)

definition waiting_task :: "submit_phase \<Rightarrow> bool" where
  "waiting_task p \<longleftrightarrow> (\<exists>d r. p = Waiting d r)"

lemma not_waiting [simp]: "\<not> waiting_task (Authorizing a)" "\<not> waiting_task (Reading a b)" "\<not> waiting_task (Prepared a c d e)"
  by (simp_all add: waiting_task_def)

text \<open>What is said of sockets and of waits does not depend on the tasks that do not wait.\<close>

definition waiting_part :: "submit_task list \<Rightarrow> (nat \<times> submit_phase) set" where
  "waiting_part ts = (\<lambda>t. (su_task t, su_phase t)) ` set (filter (\<lambda>t. waiting_task (su_phase t)) ts)"

lemma in_part: "(k, Waiting d r) \<in> waiting_part ts \<longleftrightarrow> (\<exists>t \<in> set ts. su_task t = k \<and> su_phase t = Waiting d r)"
  by (force simp: waiting_part_def waiting_task_def)

lemma filter_update: "(\<And>u. u \<in> set xs \<Longrightarrow> P (g u) = P u \<and> (P u \<longrightarrow> g u = u)) \<Longrightarrow> filter P (map g xs) = filter P xs"
  by (induction xs) auto

lemma unsettled_part: "unsettled m i e \<longleftrightarrow> (\<exists>(d, p) \<in> set (gm_pending m). (pe_task p, Waiting d None) \<in> waiting_part (gm_submits m) \<and> pe_machineId p = i \<and> pe_epoch p = e)"
  unfolding unsettled_def in_part by blast

lemma pending_part: "(\<exists>t \<in> set ts. su_task t = k \<and> (\<exists>r. su_phase t = Waiting d r)) \<longleftrightarrow> (\<exists>r. (k, Waiting d r) \<in> waiting_part ts)"
  unfolding in_part by blast

lemma ok_tasks:
  assumes "machine_ok env x m" and "tasks_ok env y m'" and "gm_next m \<le> gm_next m'"
    and same: "gm_registry m' = gm_registry m" "gm_sockets m' = gm_sockets m" "gm_pending m' = gm_pending m"
      "waiting_part (gm_submits m') = waiting_part (gm_submits m)"
  shows "machine_ok env y m'"
proof -
  have u: "unsettled m' i e = unsettled m i e" for i e by (simp add: unsettled_part same)
  have "links_ok m'" using assms(1,3) by (auto simp: machine_ok_def machine_base_def links_ok_def same)
  moreover have "waits_ok m'" using assms(1) by (simp add: machine_ok_def machine_base_def waits_ok_def pending_part connection_open_def u same)
  ultimately show ?thesis using assms(1,2) by (simp add: machine_ok_def machine_base_def unclosed_ok_def waits_current_def u same)
qed

lemma tasks_ok_mono: "tasks_ok env x m \<Longrightarrow> gm_bufferedBytes m = b \<Longrightarrow> b + n \<le> cap (buffer_limit env) \<Longrightarrow> 0 \<le> x + n
    \<Longrightarrow> tasks_ok env (x + n) (m\<lparr>gm_bufferedBytes := b + n\<rparr>)"
  by (simp add: tasks_ok_def)

lemma wp_reserve:
  assumes "machine_ok env x m" and "0 \<le> n"
  shows "wp (reserve env n) (\<lambda>_ m'. m' = m\<lparr>gm_bufferedBytes := gm_bufferedBytes m + n\<rparr> \<and> machine_ok env (x + n) m') (\<lambda>_ m'. m' = m) m"
proof -
  have "machine_ok env (x + n) (m\<lparr>gm_bufferedBytes := gm_bufferedBytes m + n\<rparr>)" if "gm_bufferedBytes m + n \<le> cap (buffer_limit env)"
    using assms that by (intro ok_tasks [OF assms(1) tasks_ok_mono]) (auto simp: machine_ok_def machine_base_def tasks_ok_def)
  then show ?thesis by (auto simp: reserve_def wp_simps cap_def split: sum.splits)
qed

lemma map_update_same: "(\<And>t. t \<in> set ts \<Longrightarrow> g (f t) = g t) \<Longrightarrow> map g (map (\<lambda>t. if P t then f t else t) ts) = map g ts"
  by auto

lemma sum_update:
  fixes g :: "'a \<Rightarrow> int"
  assumes "distinct (map key ts)" and "t \<in> set ts" and "\<And>u. u \<in> set ts \<Longrightarrow> key u = key t \<Longrightarrow> g (f u) = g u + n"
  shows "sum_list (map g (map (\<lambda>u. if key u = key t then f u else u) ts)) = sum_list (map g ts) + n"
  using assms
proof (induction ts)
  case (Cons a ts)
  show ?case
  proof (cases "key a = key t")
    case True
    with Cons.prems(1) have "key u \<noteq> key t" if "u \<in> set ts" for u using that by (force simp: image_iff)
    then have "map (\<lambda>u. if key u = key t then f u else u) ts = ts" by (intro map_idI) auto
    with True Cons.prems(3) [of a] show ?thesis by (simp only: list.map) simp
  next
    case False
    with Cons show ?thesis by auto
  qed
qed simp

lemma sum_remove:
  fixes g :: "'a \<Rightarrow> int"
  assumes "distinct (map key ts)" and "t \<in> set ts"
  shows "sum_list (map g (filter (\<lambda>u. key u \<noteq> key t) ts)) = sum_list (map g ts) - g t" and "length (filter (\<lambda>u. key u \<noteq> key t) ts) = length ts - 1"
proof -
  have "filter (\<lambda>u. key u \<noteq> key t) ts = remove1 t ts"
    using assms
  proof (induction ts)
    case (Cons a ts)
    show ?case
    proof (cases "key a = key t")
      case True
      with Cons.prems have "a = t" "\<forall>u \<in> set ts. key u \<noteq> key t" by (auto simp: image_iff)
      then show ?thesis by (simp add: filter_id_conv)
    next
      case False
      with Cons show ?thesis by auto
    qed
  qed simp
  with assms(2) show "sum_list (map g (filter (\<lambda>u. key u \<noteq> key t) ts)) = sum_list (map g ts) - g t" "length (filter (\<lambda>u. key u \<noteq> key t) ts) = length ts - 1"
    by (simp_all add: sum_list_map_remove1 length_remove1)
qed

lemma ok_update_submit:
  assumes ok: "machine_ok env n m" and t: "find_submit k m = Some t" "\<not> waiting_task (su_phase t)" and n: "0 \<le> n"
    and f: "\<And>t. su_task (f t) = su_task t" "\<And>t. su_reserved (f t) = su_reserved t + n" "\<And>t. \<not> waiting_task (su_phase (f t))"
  shows "machine_ok env 0 (update_submit k f m)"
proof -
  have tk: "tasks_ok env n m" using ok by (simp add: machine_ok_def machine_base_def)
  note mem = find_submit_Some [OF t(1)]
  have d: "distinct (map su_task (gm_submits m))" using tk by (simp add: tasks_ok_def)
  define ts where "ts = map (\<lambda>u. if su_task u = k then f u else u) (gm_submits m)"
  have upd: "update_submit k f m = m\<lparr>gm_submits := ts\<rparr>" by (simp add: update_submit_def ts_def)
  have "sum_list (map su_reserved ts) = sum_list (map su_reserved (gm_submits m)) + n"
    using sum_update [OF d conjunct1 [OF mem], of su_reserved f n] f(2) mem by (simp add: ts_def)
  moreover have "map su_task ts = map su_task (gm_submits m)" unfolding ts_def by (rule map_update_same) (simp add: f(1))
  moreover have "\<forall>u \<in> set ts. 0 \<le> su_reserved u \<and> su_task u < gm_next m"
    using tk n by (auto simp: tasks_ok_def f ts_def)
  moreover have "length ts = length (gm_submits m)" by (simp add: ts_def)
  ultimately have "tasks_ok env 0 (m\<lparr>gm_submits := ts\<rparr>)" using tk by (simp add: tasks_ok_def)
  moreover have only: "u = t" if "u \<in> set (gm_submits m)" "su_task u = k" for u using distinct_key [OF d that(1) conjunct1 [OF mem]] that mem by simp
  have "waiting_part ts = waiting_part (gm_submits m)"
  proof -
    have "waiting_task (su_phase (if su_task u = k then f u else u)) \<longleftrightarrow> su_task u \<noteq> k \<and> waiting_task (su_phase u)" "waiting_task (su_phase u) \<longrightarrow> su_task u \<noteq> k"
      if "u \<in> set (gm_submits m)" for u using that only t(2) f(3) by auto
    then show ?thesis unfolding waiting_part_def ts_def by (subst filter_update) auto
  qed
  ultimately show ?thesis unfolding upd by (intro ok_tasks [OF ok]) simp_all
qed

text \<open>A submission that is over leaves the lists; no wait may be pending for it.\<close>

lemma waits_current_mono:
  "waits_current m \<Longrightarrow> (\<And>i e. unsettled m' i e \<Longrightarrow> unsettled m i e) \<Longrightarrow> gm_registry m' = gm_registry m \<Longrightarrow> waits_current m'"
  unfolding waits_current_def by metis

lemma ok_delete_pending: "machine_ok env x m \<Longrightarrow> machine_ok env x (delete_pending d m)"
proof -
  assume ok: "machine_ok env x m"
  have u: "unsettled (delete_pending d m) i e \<Longrightarrow> unsettled m i e" for i e by (auto simp: unsettled_def delete_pending_def)
  have "waits_ok (delete_pending d m)"
    using ok u by (auto simp: machine_ok_def machine_base_def waits_ok_def connection_open_def delete_pending_def distinct_map_filter)
  moreover have "waits_current (delete_pending d m)"
    by (rule waits_current_mono [of m]) (use ok u in \<open>simp_all add: machine_ok_def delete_pending_def\<close>)
  ultimately show ?thesis using ok by (simp add: machine_ok_def machine_base_def tasks_ok_def links_ok_def unclosed_ok_def delete_pending_def)
qed

lemma kept_end_submit:
  assumes ok: "machine_ok env x m" and t: "t \<in> set (gm_submits m)" and free: "\<And>d p. (d, p) \<in> set (gm_pending m) \<Longrightarrow> pe_task p \<noteq> su_task t"
  shows "wp (end_submit t r) (\<lambda>_. machine_ok env x) never m"
proof -
  have tk: "tasks_ok env x m" using ok by (simp add: machine_ok_def machine_base_def)
  then have d: "distinct (map su_task (gm_submits m))" and pos: "0 \<le> su_reserved t" "0 < length (gm_submits m)"
    using t by (auto simp: tasks_ok_def)
  let ?m = "m\<lparr>gm_submissions := gm_submissions m - 1, gm_bufferedBytes := gm_bufferedBytes m - su_reserved t,
     gm_submits := filter (\<lambda>u. su_task u \<noteq> su_task t) (gm_submits m)\<rparr>"
  have tasks: "tasks_ok env x ?m"
    using tk pos sum_remove [OF d t] by (auto simp: tasks_ok_def distinct_map_filter of_nat_diff Suc_leI)
  have u: "unsettled ?m i e \<Longrightarrow> unsettled m i e" for i e by (auto simp: unsettled_def)
  have p: "\<forall>(d, p) \<in> set (gm_pending m). \<exists>u \<in> set (gm_submits ?m). su_task u = pe_task p \<and> (\<exists>r. su_phase u = Waiting d r)"
  proof (clarify)
    fix d p assume dp: "(d, p) \<in> set (gm_pending m)"
    then obtain u r where "u \<in> set (gm_submits m)" "su_task u = pe_task p" "su_phase u = Waiting d r"
      using ok unfolding machine_ok_def machine_base_def waits_ok_def by blast
    with free [OF dp] show "\<exists>u \<in> set (gm_submits ?m). su_task u = pe_task p \<and> (\<exists>r. su_phase u = Waiting d r)" by auto
  qed
  have "waits_ok ?m" using ok p u by (auto simp: machine_ok_def machine_base_def waits_ok_def connection_open_def)
  moreover have "waits_current ?m" by (rule waits_current_mono [of m]) (use ok u in \<open>simp_all add: machine_ok_def\<close>)
  ultimately have "machine_ok env x ?m" using ok tasks
    by (simp add: machine_ok_def machine_base_def links_ok_def unclosed_ok_def)
  then show ?thesis by (simp add: end_submit_def wp_simps emit_def)
qed

lemma not_waiting_free:
  assumes ok: "machine_ok env x m" and t: "t \<in> set (gm_submits m)" "\<not> waiting_task (su_phase t)" and dp: "(d, p) \<in> set (gm_pending m)"
  shows "pe_task p \<noteq> su_task t"
proof
  assume eq: "pe_task p = su_task t"
  from ok have "distinct (map su_task (gm_submits m))" by (simp add: machine_ok_def machine_base_def tasks_ok_def)
  moreover obtain u r where "u \<in> set (gm_submits m)" "su_task u = pe_task p" "su_phase u = Waiting d r"
    using ok dp unfolding machine_ok_def machine_base_def waits_ok_def by blast
  ultimately show False using distinct_key t eq by (metis waiting_task_def)
qed

lemma waiting_free:
  assumes ok: "machine_ok env x m" and t: "t \<in> set (gm_submits m)" "su_phase t = Waiting d r" and dp: "(d', p) \<in> set (gm_pending m)" "d' \<noteq> d"
  shows "pe_task p \<noteq> su_task t"
proof
  assume eq: "pe_task p = su_task t"
  from ok have "distinct (map su_task (gm_submits m))" by (simp add: machine_ok_def machine_base_def tasks_ok_def)
  moreover obtain u r' where "u \<in> set (gm_submits m)" "su_task u = pe_task p" "su_phase u = Waiting d' r'"
    using ok dp unfolding machine_ok_def machine_base_def waits_ok_def by blast
  ultimately show False using distinct_key t eq dp(2) by (metis submit_phase.inject(4))
qed

text \<open>A piece that throws while the submission does not wait: the error is its response.\<close>

lemma kept_failing:
  assumes ok: "machine_ok env 0 m" and t: "t \<in> set (gm_submits m)" "\<not> waiting_task (su_phase t)"
    and piece: "wp piece (\<lambda>_. machine_ok env 0) (\<lambda>_ m'. machine_ok env 0 m' \<and> gm_submits m' = gm_submits m) m"
  shows "kept env 0 (failing_submit t piece) m"
  unfolding failing_submit_def wp_simps using piece
proof (rule wp_call)
  fix e m' assume m': "machine_ok env 0 m' \<and> gm_submits m' = gm_submits m"
  then have free: "\<And>d p. (d, p) \<in> set (gm_pending m') \<Longrightarrow> pe_task p \<noteq> su_task t" using not_waiting_free [of env 0 m'] t by metis
  have "wp (end_submit t (errorResponse e)) (\<lambda>_. machine_ok env 0) never m'"
    by (rule kept_end_submit) (use m' t free in auto)
  then show "kept env 0 (end_submit t (errorResponse e)) m'" by (rule wp_call) auto
qed

lemma kept_submit_begin:
  assumes "machine_ok env 0 m"
  shows "kept env 0 (submit_begin env id' rq) m"
proof -
  let ?m = "\<lambda>token. m\<lparr>gm_submissions := gm_submissions m + 1, gm_next := Suc (gm_next m), gm_submits := gm_submits m @ [\<lparr>su_task = gm_next m,
     su_machineId = id', su_contentType = rq_contentType rq, su_hasBody = (rq_body rq \<noteq> No_body), su_phase = Authorizing token, su_reserved = 0\<rparr>]\<rparr>"
  have "machine_ok env 0 (?m token)" if "pending_limit env = Inr l" "gm_submissions m < l" for l token
  proof (rule ok_tasks [OF assms])
    show "tasks_ok env 0 (?m token)" using assms that
      by (auto simp: machine_ok_def machine_base_def tasks_ok_def cap_def less_SucI)
  qed (simp_all add: waiting_part_def)
  with assms show ?thesis by (auto simp: submit_begin_def wp_simps split: sum.splits)
qed

lemma kept_authorized:
  assumes ok: "machine_ok env 0 m" and t: "find_submit k m = Some t" "su_phase t = Authorizing token"
  shows "kept env 0 (failing_submit t (submit_authorized env t token)) m"
proof (rule kept_failing [OF ok])
  have "machine_ok env 0 (update_submit k (\<lambda>t. t\<lparr>su_phase := Reading token []\<rparr>) m)"
    by (rule ok_update_submit [OF ok t(1)]) (simp_all add: t(2))
  then show "wp (submit_authorized env t token) (\<lambda>_. machine_ok env 0) (\<lambda>_ m'. machine_ok env 0 m' \<and> gm_submits m' = gm_submits m) m"
    using ok find_submit_Some [OF t(1)] by (simp add: submit_authorized_def wp_simps split: sum.splits)
qed (use find_submit_Some [OF t(1)] t(2) in simp_all)

lemma kept_chunk:
  assumes ok: "machine_ok env 0 m" and t: "find_submit k m = Some t" "su_phase t = Reading token data"
  shows "kept env 0 (failing_submit t (submit_chunk env t token data chunk)) m"
proof (rule kept_failing [OF ok])
  let ?n = "int (length chunk)" and ?m = "m\<lparr>gm_bufferedBytes := gm_bufferedBytes m + int (length chunk)\<rparr>"
  have k: "su_task t = k" using find_submit_Some [OF t(1)] by blast
  have "machine_ok env 0 (update_submit k (\<lambda>t. t\<lparr>su_phase := Reading token data', su_reserved := su_reserved t + ?n\<rparr>) ?m)"
    if "machine_ok env ?n ?m" for data'
    by (rule ok_update_submit [OF that, where t = t]) (use t in \<open>simp_all add: find_submit_def\<close>)
  then have "wp (reserve env ?n) (\<lambda>_. wp (modifyA (update_submit k (\<lambda>t. t\<lparr>su_phase := Reading token data', su_reserved := su_reserved t + ?n\<rparr>)))
     (\<lambda>_. machine_ok env 0) (\<lambda>_ m'. machine_ok env 0 m' \<and> gm_submits m' = gm_submits m)) (\<lambda>_ m'. machine_ok env 0 m' \<and> gm_submits m' = gm_submits m) m" for data'
    using wp_reserve [OF ok, of ?n] ok by (auto intro!: wp_call [OF wp_reserve [OF ok]] simp: wp_simps)
  then show "wp (submit_chunk env t token data chunk) (\<lambda>_. machine_ok env 0) (\<lambda>_ m'. machine_ok env 0 m' \<and> gm_submits m' = gm_submits m) m"
    using ok k by (simp add: submit_chunk_def wp_simps split: sum.splits)
qed (use find_submit_Some [OF t(1)] t(2) in simp_all)

lemma kept_late:
  assumes ok: "machine_ok env 0 m" and t: "find_submit k m = Some t" "su_phase t = Reading token data"
  shows "kept env 0 (failing_submit t (liftR body_timeout)) m"
  by (rule kept_failing [OF ok]) (use find_submit_Some [OF t(1)] t(2) ok in \<open>simp_all add: wp_simps body_timeout_def\<close>)

lemma kept_prepared:
  assumes ok: "machine_ok env 0 m" and t: "find_submit k m = Some t" "su_phase t = Reading token data"
  shows "kept env 0 (failing_submit t (submit_prepared env t token data)) m"
proof (rule kept_failing [OF ok])
  have "machine_ok env 0 (update_submit k (\<lambda>t. t\<lparr>su_phase := Prepared token b h e\<rparr>) m)" for b h e
    by (rule ok_update_submit [OF ok t(1)]) (simp_all add: t(2))
  then show "wp (submit_prepared env t token data) (\<lambda>_. machine_ok env 0) (\<lambda>_ m'. machine_ok env 0 m' \<and> gm_submits m' = gm_submits m) m"
    using ok find_submit_Some [OF t(1)] by (auto simp: submit_prepared_def wp_simps split: sum.splits prod.splits)
qed (use find_submit_Some [OF t(1)] t(2) in simp_all)

subsection \<open>The wait\<close>

lemma set_update_pending: "distinct (map fst ps) \<Longrightarrow> set (AList.update d p ps) = insert (d, p) {(k, q). (k, q) \<in> set ps \<and> k \<noteq> d}"
  by (induction ps) (auto simp: image_iff)

lemma find_SomeD: "find P xs = Some x \<Longrightarrow> x \<in> set xs \<and> P x"
  by (induction xs) (auto split: if_splits)

lemma live_socket_facts:
  assumes "live_socket m row = Some s"
  shows "s \<in> set (gm_sockets m)" "\<not> so_sentClose s" "\<not> so_receivedClose s" "at_epoch (so_attachment s) = mr_connection_epoch row" "\<not> mr_deleted row"
  using find_SomeD [OF assms [unfolded live_socket_def]] by (auto simp: getWebSockets_def readyState_def split: if_splits)

lemma unsettledI: "(d, p) \<in> set (gm_pending m) \<Longrightarrow> u \<in> set (gm_submits m) \<Longrightarrow> su_task u = pe_task p \<Longrightarrow> su_phase u = Waiting d None
    \<Longrightarrow> unsettled m (pe_machineId p) (pe_epoch p)"
  by (auto simp: unsettled_def)

lemma ok_wait:
  assumes ok: "machine_ok env 0 m" and t: "find_submit k m = Some t" "\<not> waiting_task (su_phase t)"
    and row: "gm_registry m = Some row" and live: "live_socket m row = Some s" and p: "pe_task p = k" "pe_machineId p = mr_machine_id row" "pe_epoch p = mr_connection_epoch row"
  shows "machine_ok env 0 (update_submit k (\<lambda>t. t\<lparr>su_phase := Waiting d None\<rparr>) (set_pending d p m))" (is "machine_ok env 0 ?m")
proof -
  note mem = find_submit_Some [OF t(1)] and lv = live_socket_facts [OF live]
  have tk: "tasks_ok env 0 m" and w: "waits_ok m" and links: "links_ok m" using ok by (simp_all add: machine_ok_def machine_base_def)
  define ts where "ts = map (\<lambda>u. if su_task u = k then u\<lparr>su_phase := Waiting d None\<rparr> else u) (gm_submits m)"
  have m': "?m = m\<lparr>gm_pending := AList.update d p (gm_pending m), gm_submits := ts\<rparr>" by (simp add: update_submit_def set_pending_def ts_def)
  have pend: "set (gm_pending ?m) = insert (d, p) {(k, q). (k, q) \<in> set (gm_pending m) \<and> k \<noteq> d}"
    using w by (simp add: m' set_update_pending waits_ok_def)
  have maps: "map su_task ts = map su_task (gm_submits m)" "map su_reserved ts = map su_reserved (gm_submits m)" "length ts = length (gm_submits m)"
    by (simp_all add: ts_def)
  have "\<forall>u \<in> set ts. 0 \<le> su_reserved u \<and> su_task u < gm_next m" using tk by (auto simp: tasks_ok_def ts_def)
  then have tasks: "tasks_ok env 0 ?m" using tk maps by (simp add: m' tasks_ok_def)
  have mine: "\<exists>u \<in> set ts. su_task u = k \<and> su_phase u = Waiting d None" using mem by (intro bexI [of _ "t\<lparr>su_phase := Waiting d None\<rparr>"]) (auto simp: ts_def)
  have other: "u \<in> set ts \<longleftrightarrow> u \<in> set (gm_submits m)" if "su_task u \<noteq> k" for u using that by (auto simp: ts_def)
  have old: "pe_task q \<noteq> k" if "(d', q) \<in> set (gm_pending m)" for d' q using not_waiting_free [OF ok conjunct1 [OF mem] t(2) that] mem by simp
  have each: "\<exists>u \<in> set ts. su_task u = pe_task q \<and> (\<exists>r. su_phase u = Waiting d' r)" if "(d', q) \<in> set (gm_pending ?m)" for d' q
  proof (cases "(d', q) = (d, p)")
    case True
    with mine p(1) show ?thesis by auto
  next
    case False
    with that pend have q: "(d', q) \<in> set (gm_pending m)" by auto
    obtain u r where "u \<in> set (gm_submits m)" "su_task u = pe_task q" "su_phase u = Waiting d' r" using w q unfolding waits_ok_def by blast
    with other old [OF q] show ?thesis by metis
  qed
  have uns: "unsettled m i e \<or> i = mr_machine_id row \<and> e = mr_connection_epoch row" if "unsettled ?m i e" for i e
  proof -
    obtain d' q u where q: "(d', q) \<in> set (gm_pending ?m)" "u \<in> set ts" "su_task u = pe_task q" "su_phase u = Waiting d' None" "pe_machineId q = i" "pe_epoch q = e"
      using \<open>unsettled ?m i e\<close> by (auto simp: unsettled_def m')
    show ?thesis
    proof (cases "(d', q) = (d, p)")
      case False
      with q(1) pend have old': "(d', q) \<in> set (gm_pending m)" by auto
      then have "u \<in> set (gm_submits m)" using q(2,3) old other by metis
      from unsettledI [OF old' this q(3,4)] q(5,6) show ?thesis by simp
    qed (use p q in auto)
  qed
  have conn: "connection_open ?m i e \<longleftrightarrow> connection_open m i e" for i e by (simp add: connection_open_def m')
  have here: "connection_open m (mr_machine_id row) (mr_connection_epoch row)"
    using lv links row by (force simp: connection_open_def links_ok_def list_all_iff socket_ok_def)
  have "distinct (map fst (gm_pending ?m))" using w by (simp add: m' waits_ok_def distinct_update)
  moreover have "connection_open ?m i e" if "unsettled ?m i e" for i e using uns [OF that] here conn w unfolding waits_ok_def by blast
  moreover have "gm_submits ?m = ts" by (simp add: m')
  ultimately have "waits_ok ?m" using each unfolding waits_ok_def by blast
  moreover have "waits_current ?m" using uns ok row lv(5) by (auto simp: machine_ok_def waits_current_def m')
  ultimately show ?thesis using tasks ok links by (simp add: machine_ok_def machine_base_def links_ok_def unclosed_ok_def m')
qed

lemma filter_update_pending: "filter (\<lambda>(k, q). k \<noteq> d) (AList.update d p ps) = filter (\<lambda>(k, q). k \<noteq> d) ps"
  by (induction ps) auto

lemma kept_dispatch:
  assumes ok: "machine_ok env 0 m" and t: "find_submit k m = Some t" "su_phase t = Prepared token b h e"
  shows "kept env 0 (failing_submit t (submit_dispatch env t token b h e d)) m"
proof (rule kept_failing [OF ok])
  note mem = find_submit_Some [OF t(1)]
  have del: "machine_ok env 0 (m\<lparr>gm_pending := filter (\<lambda>(k, q). k \<noteq> d) (gm_pending m)\<rparr>)"
    "machine_ok env 0 (m\<lparr>gm_pending := filter (\<lambda>(k, q). k \<noteq> d) (gm_pending m), gm_outputs := xs\<rparr>)" for xs
    using ok_delete_pending [OF ok, of d] by (simp_all add: delete_pending_def)
  have wait: "machine_ok env 0 (update_submit (su_task t) (\<lambda>t. t\<lparr>su_phase := Waiting d None\<rparr>) (m\<lparr>gm_pending := AList.update d p (gm_pending m), gm_outputs := xs\<rparr>))"
    "machine_ok env 0 (update_submit (su_task t) (\<lambda>t. t\<lparr>su_phase := Waiting d None\<rparr>) (m\<lparr>gm_pending := AList.update d p (gm_pending m)\<rparr>))"
    if "gm_registry m = Some row" "live_socket m row = Some s" "pe_task p = su_task t" "pe_machineId p = mr_machine_id row" "pe_epoch p = mr_connection_epoch row" for row s p xs
  proof -
    show 1: "machine_ok env 0 (update_submit (su_task t) (\<lambda>t. t\<lparr>su_phase := Waiting d None\<rparr>) (m\<lparr>gm_pending := AList.update d p (gm_pending m)\<rparr>))"
      unfolding set_pending_def [symmetric] by (rule ok_wait [where t = t and row = row and s = s]) (use ok t that mem in simp_all)
    have "update_submit (su_task t) f (m\<lparr>gm_pending := ps, gm_outputs := xs\<rparr>) = (update_submit (su_task t) f (m\<lparr>gm_pending := ps\<rparr>))\<lparr>gm_outputs := xs\<rparr>" for f ps
      by (simp add: update_submit_def)
    then show "machine_ok env 0 (update_submit (su_task t) (\<lambda>t. t\<lparr>su_phase := Waiting d None\<rparr>) (m\<lparr>gm_pending := AList.update d p (gm_pending m), gm_outputs := xs\<rparr>))"
      using 1 by simp
  qed
  have del': "machine_ok env 0 (m\<lparr>gm_outputs := xs, gm_pending := filter (\<lambda>(k, q). k \<noteq> d) (gm_pending m)\<rparr>)" for xs
  proof -
    have swap: "m\<lparr>gm_outputs := xs, gm_pending := ps\<rparr> = m\<lparr>gm_pending := ps, gm_outputs := xs\<rparr>" for ps by simp
    show ?thesis unfolding swap by (rule del(2))
  qed
  show "wp (submit_dispatch env t token b h e d) (\<lambda>_. machine_ok env 0) (\<lambda>_ m'. machine_ok env 0 m' \<and> gm_submits m' = gm_submits m) m"
    using ok mem del del'
    by (auto simp: submit_dispatch_def wp_simps authorize_Inr ws_send_def emit_def set_pending_def find_socket_def delete_pending_def filter_update_pending gw_invalid_def
        split: sum.splits option.splits intro: wait)
qed (use find_submit_Some [OF t(1)] t(2) in simp_all)

lemma kept_waited:
  assumes ok: "machine_ok env 0 m" and t: "find_submit k m = Some t" "su_phase t = Waiting d settled"
  shows "kept env 0 (failing_submit t (submit_waited t d settled timeout)) m"
proof -
  note mem = find_submit_Some [OF t(1)]
  have ok': "machine_ok env 0 (delete_pending d m)" by (rule ok_delete_pending [OF ok])
  have "wp (end_submit t r) (\<lambda>_. machine_ok env 0) never (delete_pending d m)" for r
    by (rule kept_end_submit [OF ok']) (use mem waiting_free [OF ok _ t(2)] in \<open>auto simp: delete_pending_def\<close>)
  then have "kept env 0 (end_submit t r) (delete_pending d m)" for r by (rule wp_call) auto
  moreover have "wp (end_submit t r) (\<lambda>_. machine_ok env 0) E (delete_pending d m)" for r E
    using \<open>\<And>r. wp (end_submit t r) (\<lambda>_. machine_ok env 0) never (delete_pending d m)\<close> by (rule wp_call) auto
  ultimately show ?thesis using ok
    by (auto simp: failing_submit_def submit_waited_def wp_simps split: option.splits sum.splits)
qed

lemma kept_submit_step:
  assumes "machine_ok env 0 m"
  shows "kept env 0 (on_submit k (submit_step env i)) m"
proof (cases "find_submit k m")
  case None
  with assms show ?thesis by (simp add: on_submit_def wp_simps)
next
  case (Some t)
  have "kept env 0 (submit_step env i t) m"
    using kept_authorized [OF assms Some] kept_chunk [OF assms Some] kept_late [OF assms Some] kept_prepared [OF assms Some]
      kept_dispatch [OF assms Some] kept_waited [OF assms Some] assms
    by (auto simp: submit_step_def wp_simps split: input.splits submit_phase.splits)
  with Some show ?thesis by (simp add: on_submit_def wp_simps)
qed

section \<open>Deliveries\<close>

lemma kept_nack: "machine_ok env x m \<Longrightarrow> wp (nack sid d e) (\<lambda>_ m'. machine_ok env x m' \<and> gm_delivers m' = gm_delivers m) never m"
  by (auto simp: nack_def attemptA_def wp_simps wp_retA_eta ws_send_def emit_def split: prod.splits option.splits)

lemma find_deliver_Some: "find_deliver k m = Some t \<Longrightarrow> t \<in> set (gm_delivers m) \<and> de_task t = k"
  by (auto simp: find_deliver_def dest: find_SomeD)

lemma ok_end_deliver:
  assumes ok: "machine_ok env 0 m" and t: "u \<in> set (gm_delivers m)" "de_task u = de_task t" "de_reserved u = de_reserved t"
  shows "wp (end_deliver t) (\<lambda>_. machine_ok env 0) never m"
proof -
  let ?m = "m\<lparr>gm_deliveries := gm_deliveries m - 1, gm_bufferedBytes := gm_bufferedBytes m - de_reserved t,
     gm_delivers := filter (\<lambda>x. de_task x \<noteq> de_task t) (gm_delivers m)\<rparr>"
  have tk: "tasks_ok env 0 m" using ok by (simp add: machine_ok_def machine_base_def)
  then have d: "distinct (map de_task (gm_delivers m))" "0 \<le> de_reserved t" "0 < length (gm_delivers m)"
    using t by (auto simp: tasks_ok_def dest!: bspec)
  have "tasks_ok env 0 ?m"
    using tk d sum_remove [OF d(1) t(1)] t by (auto simp: tasks_ok_def distinct_map_filter of_nat_diff Suc_leI)
  then have "machine_ok env 0 ?m" by (rule ok_tasks [OF ok]) simp_all
  then show ?thesis by (simp add: end_deliver_def wp_simps)
qed

lemma ok_begin_deliver:
  assumes ok: "machine_ok env n m" and limit: "delivery_limit env = Inr l" "gm_deliveries m < l" and t: "de_task t = gm_next m" "de_reserved t = n"
  shows "machine_ok env 0 (m\<lparr>gm_deliveries := gm_deliveries m + 1, gm_next := Suc (gm_next m), gm_delivers := gm_delivers m @ [t]\<rparr>)"
proof (rule ok_tasks [OF ok])
  show "tasks_ok env 0 (m\<lparr>gm_deliveries := gm_deliveries m + 1, gm_next := Suc (gm_next m), gm_delivers := gm_delivers m @ [t]\<rparr>)"
    using assms by (auto simp: machine_ok_def machine_base_def tasks_ok_def cap_def less_SucI)
qed simp_all

lemma wp_deliver_begin:
  assumes ok: "machine_ok env n m"
  shows "wp (deliver_begin env sid a message n) (\<lambda>waits. machine_ok env (if waits then 0 else n)) (\<lambda>_. machine_ok env n) m"
proof -
  have nack: "wp (nack sid d e) (\<lambda>_. machine_ok env n) E m" for d e E using kept_nack [OF ok] by (rule wp_call) auto
  show ?thesis using ok nack kept_ws_send [OF ok]
    by (auto simp: deliver_begin_def wp_simps wp_retA_eta not_le split: sum.splits intro!: ok_begin_deliver)
qed

lemma kept_verified:
  assumes ok: "machine_ok env 0 m"
  shows "wp (deliver_verified env t token result) (\<lambda>_. machine_ok env 0) (\<lambda>_ m'. machine_ok env 0 m' \<and> gm_delivers m' = gm_delivers m) m"
proof -
  have "machine_ok env 0 (m\<lparr>gm_outputs := xs, gm_delivers := map (\<lambda>x. if de_task x = k then x\<lparr>de_phase := Calling ev\<rparr> else x) (gm_delivers m)\<rparr>)" for xs k ev
  proof (rule ok_tasks [OF ok])
    define ts where "ts = map (\<lambda>x. if de_task x = k then x\<lparr>de_phase := Calling ev\<rparr> else x) (gm_delivers m)"
    have maps: "map de_task ts = map de_task (gm_delivers m)" "map de_reserved ts = map de_reserved (gm_delivers m)" "length ts = length (gm_delivers m)"
      by (simp_all add: ts_def)
    have tk: "tasks_ok env 0 m" using ok by (simp add: machine_ok_def machine_base_def)
    then have "\<forall>u \<in> set ts. 0 \<le> de_reserved u \<and> de_task u < gm_next m" by (auto simp: tasks_ok_def ts_def)
    with tk maps have "tasks_ok env 0 (m\<lparr>gm_outputs := xs, gm_delivers := ts\<rparr>)" by (simp add: tasks_ok_def)
    then show "tasks_ok env 0 (m\<lparr>gm_outputs := xs, gm_delivers := map (\<lambda>x. if de_task x = k then x\<lparr>de_phase := Calling ev\<rparr> else x) (gm_delivers m)\<rparr>)"
      by (simp add: ts_def)
  qed simp_all
  with ok show ?thesis
    by (auto simp: deliver_verified_def current_def wp_simps emit_def Let_def split: sum.splits option.splits)
qed

lemma kept_failing_deliver:
  assumes t: "t \<in> set (gm_delivers m)"
    and piece: "wp piece (\<lambda>_. machine_ok env 0) (\<lambda>_ m'. machine_ok env 0 m' \<and> gm_delivers m' = gm_delivers m) m"
  shows "kept env 0 (failing_deliver t piece) m"
  unfolding failing_deliver_def wp_simps using piece
proof (rule wp_call)
  fix e m' assume m': "machine_ok env 0 m' \<and> gm_delivers m' = gm_delivers m"
  from kept_nack [OF conjunct1 [OF m'], of "de_socket t" "de_deliveryId t" e]
  show "wp (nack (de_socket t) (de_deliveryId t) e) (\<lambda>_. kept env 0 (end_deliver t)) (\<lambda>_. machine_ok env 0) m'"
  proof (rule wp_call)
    fix m'' assume m'': "machine_ok env 0 m'' \<and> gm_delivers m'' = gm_delivers m'"
    have "wp (end_deliver t) (\<lambda>_. machine_ok env 0) never m''" by (rule ok_end_deliver) (use m' m'' t in auto)
    then show "kept env 0 (end_deliver t) m''" by (rule wp_call) auto
  qed auto
qed

lemma kept_replied:
  assumes ok: "machine_ok env 0 m" and t: "t \<in> set (gm_delivers m)"
  shows "wp (deliver_replied t ev rp) (\<lambda>_. machine_ok env 0) (\<lambda>_ m'. machine_ok env 0 m' \<and> gm_delivers m' = gm_delivers m) m"
proof -
  have "wp (end_deliver t) (\<lambda>_. machine_ok env 0) E (m\<lparr>gm_outputs := xs\<rparr>)" "wp (end_deliver t) (\<lambda>_. machine_ok env 0) E m" for xs E
    using ok t by (auto intro!: wp_call [OF ok_end_deliver [of env "m\<lparr>gm_outputs := xs\<rparr>" t t]] wp_call [OF ok_end_deliver [of env m t t]])
  with ok show ?thesis by (auto simp: deliver_replied_def wp_simps ws_send_def emit_def split: sum.splits option.splits)
qed

lemma kept_deliver_step:
  assumes "machine_ok env 0 m"
  shows "kept env 0 (on_deliver k (deliver_step env i)) m"
proof (cases "find_deliver k m")
  case None
  with assms show ?thesis by (simp add: on_deliver_def wp_simps)
next
  case (Some t)
  note t = conjunct1 [OF find_deliver_Some [OF Some]]
  have "kept env 0 (deliver_step env i t) m"
    using kept_failing_deliver [OF t kept_verified [OF assms]] kept_failing_deliver [OF t kept_replied [OF assms t]] assms
    by (auto simp: deliver_step_def wp_simps split: input.splits deliver_phase.splits)
  with Some show ?thesis by (simp add: on_deliver_def wp_simps)
qed

section \<open>Frames\<close>

definition socket_key :: "socket \<Rightarrow> nat \<times> bool \<times> bool \<times> jstring \<times> int \<times> int" where
  "socket_key s = (so_id s, so_sentClose s, so_receivedClose s, at_machineId (so_attachment s), at_epoch (so_attachment s), at_credentialVersion (so_attachment s))"

lemma key_parts:
  "socket_key s' = socket_key s \<Longrightarrow> so_id s' = so_id s \<and> so_sentClose s' = so_sentClose s \<and> so_receivedClose s' = so_receivedClose s
    \<and> at_machineId (so_attachment s') = at_machineId (so_attachment s) \<and> at_epoch (so_attachment s') = at_epoch (so_attachment s)
    \<and> at_credentialVersion (so_attachment s') = at_credentialVersion (so_attachment s)"
  by (simp add: socket_key_def)

lemma ok_sockets:
  assumes ok: "machine_ok env x m" and key: "map socket_key ss = map socket_key (gm_sockets m)"
  shows "machine_ok env x (m\<lparr>gm_sockets := ss\<rparr>)"
proof -
  let ?m = "m\<lparr>gm_sockets := ss\<rparr>"
  have bwd: "\<exists>s \<in> set (gm_sockets m). socket_key s' = socket_key s" if "s' \<in> set ss" for s'
  proof -
    have "socket_key s' \<in> set (map socket_key (gm_sockets m))" using that unfolding key [symmetric] by simp
    then show ?thesis by auto
  qed
  have forth: "\<exists>s' \<in> set ss. socket_key s' = socket_key s" if "s \<in> set (gm_sockets m)" for s
  proof -
    have "socket_key s \<in> set (map socket_key ss)" using that unfolding key by simp
    then show ?thesis by auto
  qed
  have "map so_id ss = map so_id (gm_sockets m)" "map (\<lambda>s. at_epoch (so_attachment s)) ss = map (\<lambda>s. at_epoch (so_attachment s)) (gm_sockets m)"
    using arg_cong [OF key, of "map fst"] arg_cong [OF key, of "map (\<lambda>(a, b, c, d, e, f). e)"] by (simp_all add: comp_def socket_key_def)
  moreover have "socket_ok (gm_registry m) s' \<and> so_id s' < gm_next m \<and> (\<not> so_sentClose s' \<longrightarrow> socket_current (gm_registry m) s')" if "s' \<in> set ss" for s'
  proof -
    obtain s where s: "s \<in> set (gm_sockets m)" "socket_key s' = socket_key s" using bwd [OF \<open>s' \<in> set ss\<close>] by blast
    with ok key_parts [OF s(2)] show ?thesis
      by (auto simp: machine_ok_def machine_base_def links_ok_def unclosed_ok_def list_all_iff socket_ok_def socket_current_def dest!: bspec)
  qed
  ultimately have "links_ok ?m" "unclosed_ok ?m"
    using ok by (auto simp: machine_ok_def machine_base_def links_ok_def unclosed_ok_def list_all_iff)
  moreover have u: "unsettled ?m i e = unsettled m i e" for i e by (simp add: unsettled_def)
  have "connection_open ?m i e" if "connection_open m i e" for i e
  proof -
    from that obtain s where s: "s \<in> set (gm_sockets m)" "\<not> so_receivedClose s" "at_machineId (so_attachment s) = i" "at_epoch (so_attachment s) = e"
      unfolding connection_open_def by blast
    obtain s' where "s' \<in> set ss" "socket_key s' = socket_key s" using forth [OF s(1)] by blast
    with s key_parts [of s' s] show ?thesis by (auto simp: connection_open_def)
  qed
  then have "waits_ok ?m" using ok u by (auto simp: machine_ok_def machine_base_def waits_ok_def)
  moreover have "waits_current ?m" "tasks_ok env x ?m" using ok u by (auto simp: machine_ok_def machine_base_def waits_current_def tasks_ok_def)
  ultimately show ?thesis by (simp add: machine_ok_def machine_base_def)
qed

lemma ok_attach:
  assumes ok: "machine_ok env x m" and s: "find_socket sid m = Some s"
    and a: "at_machineId a = at_machineId (so_attachment s)" "at_epoch a = at_epoch (so_attachment s)" "at_credentialVersion a = at_credentialVersion (so_attachment s)"
  shows "machine_ok env x (update_socket sid (\<lambda>s. s\<lparr>so_attachment := a\<rparr>) m)"
  unfolding update_socket_def
proof (rule ok_sockets [OF ok])
  have d: "distinct (map so_id (gm_sockets m))" using ok by (simp add: machine_ok_def machine_base_def links_ok_def)
  have "\<forall>u \<in> set (gm_sockets m). so_id u = sid \<longrightarrow> socket_key (u\<lparr>so_attachment := a\<rparr>) = socket_key u"
  proof (intro ballI impI)
    fix u assume "u \<in> set (gm_sockets m)" "so_id u = sid"
    then have "u = s" using distinct_key [OF d] find_socket_Some [OF s] by blast
    then show "socket_key (u\<lparr>so_attachment := a\<rparr>) = socket_key u" using a by (simp add: socket_key_def)
  qed
  then show "map socket_key (map (\<lambda>s. if so_id s = sid then s\<lparr>so_attachment := a\<rparr> else s) (gm_sockets m)) = map socket_key (gm_sockets m)"
    by simp
qed

lemma find_socket_update: "find_socket sid (update_socket sid (\<lambda>s. s\<lparr>so_attachment := a\<rparr>) m) = map_option (\<lambda>s. s\<lparr>so_attachment := a\<rparr>) (find_socket sid m)"
proof -
  have "find (\<lambda>s. so_id s = sid) (map (\<lambda>s. if so_id s = sid then s\<lparr>so_attachment := a\<rparr> else s) ss)
      = map_option (\<lambda>s. s\<lparr>so_attachment := a\<rparr>) (find (\<lambda>s. so_id s = sid) ss)" for ss by (induction ss) auto
  then show ?thesis by (simp add: find_socket_def update_socket_def)
qed

lemma wp_current:
  "wp (current sid) (\<lambda>a m'. m' = m \<and> (\<exists>s. find_socket sid m = Some s \<and> so_attachment s = a)) (\<lambda>_ m'. m' = m) m"
  by (auto simp: current_def wp_simps Let_def split: option.splits sum.splits)

lemma kept_rejectWaiters: "machine_ok env x m \<Longrightarrow> kept env x (rejectWaiters i e) m"
  by (rule pres_kept [OF settles_pres [OF settles_rejectWaiters]])

lemma kept_ws_close: "machine_ok env x m \<Longrightarrow> kept env x (ws_close sid code) m"
  by (rule pres_kept [OF settles_pres [OF settles_ws_close]])

lemma wp_frame_guard:
  assumes ok: "machine_ok env 0 m"
  shows "wp (frame_guard env now sid raw) (\<lambda>g m'. case g of None \<Rightarrow> machine_ok env 0 m'
      | Some (a, s, n) \<Rightarrow> machine_ok env n m' \<and> (\<exists>so. find_socket sid m' = Some so \<and> so_attachment so = a)) (\<lambda>_. machine_ok env 0) m"
proof -
  have body: "wp (serializeAttachment sid (a\<lparr>at_lastMessageAt := now\<rparr>)) (\<lambda>_ m'. machine_ok env 0 m'
      \<and> (\<exists>so. find_socket sid m' = Some so \<and> so_attachment so = a\<lparr>at_lastMessageAt := now\<rparr>)) never m"
    if "find_socket sid m = Some s" "so_attachment s = a" for s a
    using ok_attach [OF ok that(1), of "a\<lparr>at_lastMessageAt := now\<rparr>"] that by (simp add: serializeAttachment_def wp_simps find_socket_update)
  have close: "kept env 0 (bindA (ws_close sid code) (\<lambda>_. retA r)) m1" "wp (ws_close sid code) (\<lambda>_. machine_ok env 0) (\<lambda>_. machine_ok env 0) m1"
    "wp (ws_close sid code) (\<lambda>_. kept env 0 (rejectWaiters i e)) (\<lambda>_. machine_ok env 0) m1" if "machine_ok env 0 m1" for m1 code r i e
    using kept_ws_close [OF that, of sid code] by (auto simp: wp_simps wp_retA_eta elim!: wp_call intro: kept_rejectWaiters)
  have reserve: "wp (reserve env (int k)) (\<lambda>_ m'. machine_ok env (int k) m' \<and> find_socket sid m' = find_socket sid m1) (\<lambda>_ m'. m' = m1) m1"
    if "machine_ok env 0 m1" for m1 k
    using wp_reserve [OF that, of "int k"] by (auto elim!: wp_call simp: find_socket_def)
  let ?Q = "\<lambda>g m'. case g of None \<Rightarrow> machine_ok env 0 m'
      | Some (a, s, n) \<Rightarrow> machine_ok env n m' \<and> (\<exists>so. find_socket sid m' = Some so \<and> so_attachment so = a)"
  have rest: "wp (case raw of Binary_frame \<Rightarrow> liftR (gw_invalid ''Use JSON text frames.'')
     | Text_frame s \<Rightarrow>
         if utf8Bytes s > MAX_FRAME_BYTES then bindA (ws_close sid 1009) (\<lambda>_. retA None)
         else bindA (attemptA (reserve env (int (utf8Bytes s)))) (\<lambda>r. case r of
             Inl e \<Rightarrow> bindA (ws_close sid 1013) (\<lambda>_. bindA (rejectWaiters (at_machineId a) (at_epoch a)) (\<lambda>_. retA None))
           | Inr _ \<Rightarrow> retA (Some (a, s, int (utf8Bytes s))))) ?Q (\<lambda>_. machine_ok env 0) m1"
    if m1: "machine_ok env 0 m1" "find_socket sid m1 = Some so" "so_attachment so = a" for m1 so a
  proof (cases raw)
    case (Text_frame s)
    have "wp (reserve env (int (utf8Bytes s))) (\<lambda>aa. ?Q (Some (a, s, int (utf8Bytes s)))) (\<lambda>_ m'. m' = m1) m1"
      using reserve [OF m1(1), of "utf8Bytes s"] by (rule wp_call) (use m1 in auto)
    then have "wp (reserve env (int (utf8Bytes s))) (\<lambda>aa. ?Q (Some (a, s, int (utf8Bytes s))))
        (\<lambda>e. wp (ws_close sid 1013) (\<lambda>_. kept env 0 (rejectWaiters (at_machineId a) (at_epoch a))) (\<lambda>_. machine_ok env 0)) m1"
      by (rule wp_call) (use close(3) m1 in auto)
    with Text_frame m1 close(2) show ?thesis by (simp add: attemptA_def wp_simps wp_retA_eta wp_bindA_eta)
  qed (use m1 in \<open>simp add: wp_simps gw_invalid_def\<close>)
  show ?thesis unfolding frame_guard_def wp_simps Let_def using wp_current [of sid m]
  proof (rule wp_call)
    fix a m' assume "m' = m \<and> (\<exists>s. find_socket sid m = Some s \<and> so_attachment s = a)"
    then obtain s where s: "m' = m" "find_socket sid m = Some s" "so_attachment s = a" by blast
    from body [OF s(2,3)] show "wp (serializeAttachment sid (a\<lparr>at_lastMessageAt := now\<rparr>)) (\<lambda>_. wp (case raw of Binary_frame \<Rightarrow> liftR (gw_invalid ''Use JSON text frames.'')
     | Text_frame s \<Rightarrow>
         if utf8Bytes s > MAX_FRAME_BYTES then bindA (ws_close sid 1009) (\<lambda>_. retA None)
         else bindA (attemptA (reserve env (int (utf8Bytes s)))) (\<lambda>r. case r of
             Inl e \<Rightarrow> bindA (ws_close sid 1013) (\<lambda>_. bindA (rejectWaiters (at_machineId (a\<lparr>at_lastMessageAt := now\<rparr>)) (at_epoch (a\<lparr>at_lastMessageAt := now\<rparr>))) (\<lambda>_. retA None))
           | Inr _ \<Rightarrow> retA (Some (a\<lparr>at_lastMessageAt := now\<rparr>, s, int (utf8Bytes s))))) ?Q (\<lambda>_. machine_ok env 0)) (\<lambda>_. machine_ok env 0) m'"
      unfolding s(1) by (rule wp_call) (use rest in auto)
  qed (use ok in simp)
qed

lemma kept_hello:
  assumes ok: "machine_ok env n m" and s: "find_socket sid m = Some so" "so_attachment so = a"
  shows "kept env n (hello_message sid a message) m"
proof -
  have attach: "machine_ok env n (update_socket sid (\<lambda>s. s\<lparr>so_attachment := a\<lparr>at_hello := Some h\<rparr>\<rparr>) m)" for h
    using ok_attach [OF ok s(1), of "a\<lparr>at_hello := Some h\<rparr>"] s(2) by simp
  have "machine_ok env n (m'\<lparr>gm_registry := registry_metadata h (gm_registry m')\<rparr>)" if "machine_ok env n m'" for m' h
    by (rule ok_registry [OF that]) (simp add: registry_metadata_def row_same_def)
  with ok attach show ?thesis
    by (auto simp: hello_message_def serializeAttachment_def wp_simps wp_retA_eta gw_invalid_def intro!: kept_ws_send split: option.splits sum.splits)
qed

lemma kept_acceptance: "machine_ok env n m \<Longrightarrow> kept env n (acceptance_message a message) m"
proof -
  assume ok: "machine_ok env n m"
  have "machine_ok env n (settle_task k r m)" for k r by (rule settles_ok [OF settles_settle_task [where Q = "\<lambda>_. True"] ok]) simp
  with ok show ?thesis by (auto simp: acceptance_message_def wp_simps gw_invalid_def split: option.splits sum.splits)
qed

lemma wp_handle_text:
  assumes ok: "machine_ok env n m" and s: "find_socket sid m = Some so" "so_attachment so = a"
  shows "wp (handle_text env sid a raw_text n) (\<lambda>waits. machine_ok env (if waits then 0 else n)) (\<lambda>_. machine_ok env n) m"
proof -
  have "wp (hello_message sid a message) (\<lambda>_. machine_ok env n) (\<lambda>_. machine_ok env n) m" for message by (rule kept_hello [OF ok s])
  moreover have "wp (acceptance_message a message) (\<lambda>_. machine_ok env n) (\<lambda>_. machine_ok env n) m" for message by (rule kept_acceptance [OF ok])
  ultimately show ?thesis using ok wp_deliver_begin [OF ok, of sid a]
    by (auto simp: handle_text_def wp_simps wp_retA_eta Let_def gw_invalid_def split: sum.splits)
qed

lemma kept_protocol_error:
  assumes "machine_ok env n m"
  shows "wp (protocol_error sid e) (\<lambda>_. machine_ok env n) never m"
proof -
  have sent: "wp (attemptA (bindA (ws_send sid f) (\<lambda>_. ws_close sid 1008))) (\<lambda>_. machine_ok env n) never m" for f
    using assms kept_ws_close [of env n _ sid 1008]
    by (simp add: attemptA_def wp_simps wp_retA_eta ws_send_def emit_def split: option.splits)
  have rejected: "wp (rejectWaiters i k) (\<lambda>_. machine_ok env n) never m'" if "machine_ok env n m'" for m' i k
    using wp_rejectWaiters [of i k m'] by (rule wp_call) (use settles_ok that in auto)
  obtain f where eq: "protocol_error sid e = bindA (attemptA (bindA (ws_send sid f) (\<lambda>_. ws_close sid 1008))) (\<lambda>_.
      bindA (getA (find_socket sid)) (\<lambda>s. case s of None \<Rightarrow> retA () | Some s \<Rightarrow> rejectWaiters (at_machineId (so_attachment s)) (at_epoch (so_attachment s))))"
    by (cases e) (auto simp: protocol_error_def)
  show ?thesis unfolding eq wp_bindA using sent [of f]
    by (rule wp_call) (auto simp: wp_simps rejected split: option.splits)
qed

lemma ok_release: "machine_ok env n m \<Longrightarrow> machine_ok env 0 (m\<lparr>gm_bufferedBytes := gm_bufferedBytes m - n\<rparr>)"
  by (rule ok_tasks, assumption) (auto simp: machine_ok_def machine_base_def tasks_ok_def)

lemma kept_webSocketMessage:
  assumes ok: "machine_ok env 0 m"
  shows "kept env 0 (webSocketMessage env now sid raw) m"
proof -
  have err: "wp (protocol_error sid e) (\<lambda>_. machine_ok env n) E m'" if "machine_ok env n m'" for e n m' E
    using kept_protocol_error [OF that] by (rule wp_call) auto
  have msg: "wp (bindA (attemptA (handle_text env sid a raw_text n)) (\<lambda>r. case r of Inl e \<Rightarrow> bindA (protocol_error sid e) (\<lambda>_. release n)
      | Inr waits \<Rightarrow> whenA (\<not> waits) (release n))) (\<lambda>_. machine_ok env 0) (\<lambda>_. machine_ok env 0) m'"
    if m': "machine_ok env n m'" "find_socket sid m' = Some so" "so_attachment so = a" for a raw_text n m' so
  proof -
    have "wp (protocol_error sid e) (\<lambda>_. kept env 0 (release n)) (\<lambda>_. machine_ok env 0) m2" if "machine_ok env n m2" for e m2
      using err [OF that, of e never] by (rule wp_call) (simp_all add: release_def wp_simps ok_release)
    moreover have "kept env 0 (whenA (\<not> waits) (release n)) m2" if "machine_ok env (if waits then 0 else n) m2" for waits m2
      using that by (cases waits) (simp_all add: release_def wp_simps ok_release)
    ultimately show ?thesis using wp_handle_text [OF m', of raw_text]
      by (simp add: attemptA_def wp_bindA wp_catchA wp_retA wp_retA_eta wp_bindA_eta) (erule wp_call; simp add: wp_bindA_eta)
  qed
  show ?thesis unfolding webSocketMessage_def attemptA_def wp_bindA wp_catchA
    using wp_frame_guard [OF ok, of now sid raw]
    by (rule wp_call) (use msg err in \<open>auto simp: wp_simps attemptA_def [symmetric] split: option.splits prod.splits\<close>)
qed

section \<open>The end of a connection\<close>

text \<open>Between the end of the connection and the rejection of its waits, the waits of one epoch have no connection.\<close>

lemma received_base:
  assumes ok: "machine_ok env x m" and s: "find_socket sid m = Some s"
    and m': "settles (update_socket sid (\<lambda>s. s\<lparr>so_receivedClose := True\<rparr>) m) m'"
    and free: "\<not> unsettled m' (at_machineId (so_attachment s)) (at_epoch (so_attachment s))"
  shows "machine_ok env x m'"
proof -
  let ?m = "update_socket sid (\<lambda>s. s\<lparr>so_receivedClose := True\<rparr>) m"
  define ss where "ss = map (\<lambda>u. if so_id u = sid then u\<lparr>so_receivedClose := True\<rparr> else u) (gm_sockets m)"
  have m: "?m = m\<lparr>gm_sockets := ss\<rparr>" by (simp add: update_socket_def ss_def)
  have tasks: "tasks_ok env x ?m" and pend: "waits_ok m" and links: "links_ok m" and cur: "unclosed_ok m" "waits_current m"
    using ok by (simp_all add: m machine_ok_def machine_base_def tasks_ok_def)
  have "map so_id ss = map so_id (gm_sockets m)" "map (\<lambda>s. at_epoch (so_attachment s)) ss = map (\<lambda>s. at_epoch (so_attachment s)) (gm_sockets m)"
    by (simp_all add: ss_def)
  moreover have "\<forall>u \<in> set ss. socket_ok (gm_registry m) u \<and> so_id u < gm_next m \<and> (\<not> so_sentClose u \<longrightarrow> socket_current (gm_registry m) u)"
    using links cur by (auto simp: ss_def links_ok_def unclosed_ok_def list_all_iff socket_ok_def socket_current_def)
  ultimately have "links_ok ?m" "unclosed_ok ?m" using links by (simp_all add: m links_ok_def unclosed_ok_def list_all_iff)
  moreover have u: "unsettled ?m i e = unsettled m i e" for i e by (simp add: m unsettled_def)
  then have "waits_current ?m" using cur by (simp add: m waits_current_def)
  ultimately have now: "links_ok m'" "unclosed_ok m'" "waits_current m'" "tasks_ok env x m'"
    using settles_links [OF m'] settles_unclosed [OF m'] settles_current [OF m'] settles_tasks [OF m' tasks] by blast+
  have open_m': "connection_open m' i e" if un: "unsettled m' i e" for i e
  proof -
    have "unsettled m i e" using settles_unsettled [OF m' un] u by simp
    then obtain v where v: "v \<in> set (gm_sockets m)" "\<not> so_receivedClose v" "at_machineId (so_attachment v) = i" "at_epoch (so_attachment v) = e"
      using pend unfolding waits_ok_def connection_open_def by blast
    have "v \<noteq> s" using free un v(3,4) by blast
    moreover have "distinct (map so_id (gm_sockets m))" using links by (simp add: links_ok_def)
    ultimately have "so_id v \<noteq> sid" using distinct_key [of so_id "gm_sockets m" v s] find_socket_Some [OF s] v(1) by auto
    with v have "connection_open ?m i e" by (auto simp: m connection_open_def ss_def)
    then show ?thesis by (rule settles_connection [OF m'])
  qed
  have gp: "gm_pending m' = gm_pending m" using m' by (simp add: settles_by_def m)
  have subs: "gm_submits ?m = gm_submits m" by (simp add: m)
  have each: "\<exists>t \<in> set (gm_submits m'). su_task t = pe_task p \<and> (\<exists>r. su_phase t = Waiting d r)" if dp: "(d, p) \<in> set (gm_pending m')" for d p
  proof -
    obtain t r where t: "t \<in> set (gm_submits m)" "su_task t = pe_task p" "su_phase t = Waiting d r" using pend dp unfolding gp waits_ok_def by blast
    have l: "list_all2 (task_le isl) (gm_submits m) (gm_submits m')" using m' by (simp add: settles_by_def m)
    obtain t' where "t' \<in> set (gm_submits m')" "task_le isl t t'" using list_all2_in1 [OF l t(1)] by blast
    then show ?thesis using task_le_waiting [of isl t t'] task_le_task [of isl t t'] t(2,3) by metis
  qed
  have "distinct (map fst (gm_pending m'))" using pend by (simp add: gp waits_ok_def)
  with each open_m' have "waits_ok m'" unfolding waits_ok_def by blast
  with now show ?thesis by (simp add: machine_ok_def machine_base_def)
qed

lemma kept_socket_ended:
  assumes ok: "machine_ok env x m"
  shows "kept env x (socket_ended code now sid) m"
proof (cases "find_socket sid m")
  case None
  with ok show ?thesis by (simp add: socket_ended_def wp_simps)
next
  case (Some s)
  let ?i = "at_machineId (so_attachment s)" and ?e = "at_epoch (so_attachment s)"
  let ?m = "update_socket sid (\<lambda>s. s\<lparr>so_receivedClose := True\<rparr>) m"
  let ?g = "?m\<lparr>gm_registry := registry_disconnected ?e now (gm_registry ?m)\<rparr>"
  have g: "settles ?m ?g" using settles_disconnected [of ?e now] by (auto simp: within_def modifyA_def)
  have "wp (rejectWaiters ?i ?e) (\<lambda>_. kept env x (ws_close sid code)) (\<lambda>_. machine_ok env x) ?g"
    using wp_rejectWaiters [of ?i ?e ?g]
  proof (rule wp_call)
    fix m' assume m': "settles ?g m' \<and> \<not> unsettled m' ?i ?e"
    then have "machine_ok env x m'" using received_base [OF ok Some settles_trans [OF g]] by blast
    then show "kept env x (ws_close sid code) m'" by (rule kept_ws_close)
  qed simp
  with ok Some show ?thesis by (simp add: socket_ended_def wp_simps Let_def)
qed

section \<open>Every step\<close>

lemma kept_fetch:
  assumes "machine_ok env 0 m"
  shows "kept env 0 (machine_fetch env now pong seen rq) m"
proof -
  have reply: "wp h (\<lambda>r. wp (emit (Reply r)) (\<lambda>_. machine_ok env 0) (\<lambda>e. kept env 0 (emit (Reply (errorResponse e))))) (\<lambda>e. kept env 0 (emit (Reply (errorResponse e)))) m" if "kept env 0 h m" for h
    using that by (rule wp_call) (simp_all add: emit_def wp_simps)
  have submit: "wp h (\<lambda>_. machine_ok env 0) (\<lambda>e. kept env 0 (emit (Reply (errorResponse e)))) m" if "kept env 0 h m" for h
    using that by (rule wp_call) (simp_all add: emit_def wp_simps)
  have here: "kept env 0 (emit e) m" for e using assms by (simp add: emit_def wp_simps)
  show ?thesis
    using reply [OF kept_register [OF assms]] reply [OF kept_rotate [OF assms]] reply [OF kept_delete [OF assms]] reply [OF kept_view [OF assms]]
      reply [OF kept_connect [OF assms]] submit [OF kept_submit_begin [OF assms]] here
    by (simp add: machine_fetch_def Let_def wp_simps wp_bindA_eta split: sum.splits)
qed

lemma configured_range: "configured v fallback lo hi = Inr l \<Longrightarrow> l = fallback \<or> lo \<le> l \<and> l \<le> hi"
  by (auto simp: configured_def gw_integer_def gw_invalid_def Let_def split: option.splits json.splits if_splits sum.splits)

lemma cap_nonneg: "0 \<le> cap (pending_limit env)" "0 \<le> cap (delivery_limit env)" "0 \<le> cap (buffer_limit env)"
  using configured_range [of _ 8 1 64] configured_range [of _ 16 1 16] configured_range [of _ "16 * 1024 * 1024" "int MAX_FRAME_BYTES" "64 * 1024 * 1024"]
  by (force simp: cap_def pending_limit_def delivery_limit_def buffer_limit_def split: sum.splits)+

lemma ok_restart: "machine_ok env 0 m \<Longrightarrow> machine_ok env 0 (restart m)"
  by (auto simp: cap_nonneg machine_ok_def machine_base_def tasks_ok_def links_ok_def unclosed_ok_def waits_ok_def waits_current_def unsettled_def restart_def)

lemma machine_step_ok: "machine_ok env 0 m \<Longrightarrow> machine_ok env 0 (machine_step env i m)"
proof -
  assume ok: "machine_ok env 0 m"
  have "kept env 0 (machine_act env i) m"
    using kept_fetch [OF ok] kept_webSocketMessage [OF ok] kept_socket_ended [OF ok] kept_submit_step [OF ok] kept_deliver_step [OF ok] ok_restart [OF ok]
    by (cases i) (simp_all add: wp_simps)
  then show ?thesis by (auto simp: machine_step_def wp_def split: prod.splits sum.splits)
qed

end
