(* ===== verification/GatewayHistory.thy ===== *)
theory GatewayHistory
  imports GatewaySteps
begin

text \<open>
  What the machine object has shown to the outside, against the inputs it has had: a delivery is acknowledged only after the
  receiver's matching receipt, and a submission is answered with 202 only after the daemon has accepted, on the connection it was sent
  on, the frame made of that submission's own body. \<open>calm\<close> relates a state to one after a piece of code that neither acknowledges,
  nor accepts, nor dispatches; the few pieces that do are treated one by one.
\<close>

section \<open>The history\<close>

definition receipt_seen :: "input list \<Rightarrow> effect list \<Rightarrow> completion_event \<Rightarrow> bool" where
  "receipt_seen is xs ev \<longleftrightarrow> (\<exists>k r ev'. Receiver_reply k (Returned (Some (JObj r))) \<in> set is \<and> receipt_matches ev r
     \<and> Call_receiver k ev' \<in> set xs \<and> ack_frame ev' = ack_frame ev)"

text \<open>The request of a submission: what is read, checked and signed of its own body.\<close>

definition own_data :: "input list \<Rightarrow> nat \<Rightarrow> byte list \<Rightarrow> bool" where
  "own_data is k data \<longleftrightarrow> (\<exists>cs. data = concat cs \<and> (\<forall>c \<in> set cs. Body_chunk k c \<in> set is))"

definition own_request :: "gateway_env \<Rightarrow> input list \<Rightarrow> nat \<Rightarrow> submission \<Rightarrow> jstring \<Rightarrow> jstring \<Rightarrow> bool" where
  "own_request env is k b h e \<longleftrightarrow> (\<exists>i data. own_data is k data \<and> prepare_request env i data = Inr (b, h, e))"

definition request_sent :: "gateway_env \<Rightarrow> input list \<Rightarrow> effect list \<Rightarrow> nat \<Rightarrow> jstring \<Rightarrow> pending \<Rightarrow> bool" where
  "request_sent env is xs sid d p \<longleftrightarrow> Signed (pe_task p) d \<in> set is \<and> (\<exists>b e. Send sid (request_frame d b (pe_requestHash p) e) \<in> set xs
     \<and> own_request env is (pe_task p) b (pe_requestHash p) e
     \<and> sm_requestId b = pe_requestId p \<and> sm_runtimeGeneration b = pe_runtimeGeneration p)"

definition accepted_message :: "gateway_env \<Rightarrow> jstring \<Rightarrow> jstring \<Rightarrow> pending \<Rightarrow> bool" where
  "accepted_message env s d p \<longleftrightarrow> (\<exists>message. ge_JSON_parse env s = Inr (JObj message) \<and> field message ''type'' = Some (str ''accepted'')
     \<and> field message ''dispatchId'' = Some (JStr d) \<and> field message ''requestId'' = Some (JStr (pe_requestId p))
     \<and> field message ''requestHash'' = Some (JStr (pe_requestHash p)) \<and> field message ''runtimeGeneration'' = Some (JStr (pe_runtimeGeneration p)))"

definition confirmed :: "gateway_env \<Rightarrow> input list \<Rightarrow> effect list \<Rightarrow> nat \<Rightarrow> http_response \<Rightarrow> bool" where
  "confirmed env is xs k r \<longleftrightarrow> (\<exists>now sid s d a p. Frame now sid (Text_frame s) \<in> set is \<and> accepted_message env s d p
     \<and> request_sent env is xs sid d p \<and> pe_task p = k \<and> r = accepted_response a p)"

definition task_history :: "gateway_env \<Rightarrow> input list \<Rightarrow> effect list \<Rightarrow> submit_task \<Rightarrow> bool" where
  "task_history env is xs t \<longleftrightarrow> (case su_phase t of
     Reading token data \<Rightarrow> own_data is (su_task t) data
   | Prepared token b h e \<Rightarrow> own_request env is (su_task t) b h e
   | Waiting d (Some (Inr r)) \<Rightarrow> confirmed env is xs (su_task t) r
   | _ \<Rightarrow> True)"

definition accepting :: "http_response \<Rightarrow> bool" where
  "accepting r \<longleftrightarrow> (\<exists>a p. r = accepted_response a p)"

definition history :: "gateway_env \<Rightarrow> input list \<Rightarrow> machine \<Rightarrow> bool" where
  "history env is m \<longleftrightarrow>
     (\<forall>sid ev. Send sid (ack_frame ev) \<in> set (gm_outputs m) \<longrightarrow> receipt_seen is (gm_outputs m) ev)
     \<and> (\<forall>t \<in> set (gm_delivers m). \<forall>ev. de_phase t = Calling ev \<longrightarrow> Call_receiver (de_task t) ev \<in> set (gm_outputs m))
     \<and> (\<forall>(d, p) \<in> set (gm_pending m). \<exists>s \<in> set (gm_sockets m). at_epoch (so_attachment s) = pe_epoch p \<and> request_sent env is (gm_outputs m) (so_id s) d p)
     \<and> (\<forall>t \<in> set (gm_submits m). task_history env is (gm_outputs m) t)
     \<and> (\<forall>k r. Respond k r \<in> set (gm_outputs m) \<and> accepting r \<longrightarrow> confirmed env is (gm_outputs m) k r)"

text \<open>A phase about which there is nothing to know.\<close>

definition plain_phase :: "submit_phase \<Rightarrow> bool" where
  "plain_phase ph \<longleftrightarrow> (case ph of Authorizing token \<Rightarrow> True | Reading token data \<Rightarrow> data = [] | Prepared token b h e \<Rightarrow> False
     | Waiting d r \<Rightarrow> (case r of Some (Inr x) \<Rightarrow> False | _ \<Rightarrow> True))"

lemma plain_task: "plain_phase (su_phase t) \<Longrightarrow> task_history env is xs t"
  by (auto simp: plain_phase_def task_history_def own_data_def split: submit_phase.splits option.splits sum.splits intro: exI [of _ "[]"])

lemma same_task: "su_task t = su_task u \<Longrightarrow> su_phase t = su_phase u \<Longrightarrow> task_history env is xs t = task_history env is xs u"
  by (simp add: task_history_def split: submit_phase.split)

definition harmless :: "effect \<Rightarrow> bool" where
  "harmless x \<longleftrightarrow> (\<forall>sid ev. x \<noteq> Send sid (ack_frame ev)) \<and> (\<forall>k r. x = Respond k r \<longrightarrow> \<not> accepting r)"

definition calm :: "machine \<Rightarrow> machine \<Rightarrow> bool" where
  "calm m m' \<longleftrightarrow> (\<forall>t' \<in> set (gm_delivers m'). \<forall>ev. de_phase t' = Calling ev \<longrightarrow> (\<exists>t \<in> set (gm_delivers m). de_task t = de_task t' \<and> de_phase t = Calling ev))
     \<and> set (gm_pending m') \<subseteq> set (gm_pending m)
     \<and> (\<forall>s \<in> set (gm_sockets m). \<exists>s' \<in> set (gm_sockets m'). so_id s' = so_id s \<and> at_epoch (so_attachment s') = at_epoch (so_attachment s))
     \<and> (\<forall>t' \<in> set (gm_submits m'). plain_phase (su_phase t') \<or> (\<exists>t \<in> set (gm_submits m). su_task t = su_task t' \<and> su_phase t = su_phase t'))
     \<and> (\<exists>xs. gm_outputs m' = gm_outputs m @ xs \<and> list_all harmless xs)"

lemma seen_mono:
  "receipt_seen is xs ev \<Longrightarrow> receipt_seen is (xs @ ys) ev" "request_sent env is xs sid d p \<Longrightarrow> request_sent env is (xs @ ys) sid d p"
  "confirmed env is xs k r \<Longrightarrow> confirmed env is (xs @ ys) k r" "task_history env is xs t \<Longrightarrow> task_history env is (xs @ ys) t"
proof -
  show "receipt_seen is xs ev \<Longrightarrow> receipt_seen is (xs @ ys) ev" unfolding receipt_seen_def by auto
  show sent: "request_sent env is xs sid d p \<Longrightarrow> request_sent env is (xs @ ys) sid d p" for sid d p
    unfolding request_sent_def by auto
  show conf: "confirmed env is xs k r \<Longrightarrow> confirmed env is (xs @ ys) k r" for k r
    unfolding confirmed_def using sent by blast
  show "task_history env is xs t \<Longrightarrow> task_history env is (xs @ ys) t"
    by (auto simp: task_history_def conf split: submit_phase.splits option.splits sum.splits)
qed

lemma calm_history:
  assumes h: "history env is m" and c: "calm m m'"
  shows "history env is m'"
proof -
  obtain xs where out: "gm_outputs m' = gm_outputs m @ xs" "list_all harmless xs" using c by (auto simp: calm_def)
  note seen = seen_mono [where xs = "gm_outputs m" and ys = xs, folded out(1)]
  have "receipt_seen is (gm_outputs m') ev" if "Send sid (ack_frame ev) \<in> set (gm_outputs m')" for sid ev
    using that h out seen(1) by (auto simp: history_def harmless_def list_all_iff)
  moreover have "confirmed env is (gm_outputs m') k r" if "Respond k r \<in> set (gm_outputs m')" "accepting r" for k r
    using that h out seen(3) by (auto simp: history_def harmless_def list_all_iff)
  moreover have "Call_receiver (de_task t) ev \<in> set (gm_outputs m')" if t: "t \<in> set (gm_delivers m')" "de_phase t = Calling ev" for t ev
  proof -
    obtain u where "u \<in> set (gm_delivers m)" "de_task u = de_task t" "de_phase u = Calling ev" using t c unfolding calm_def by blast
    with h have "Call_receiver (de_task t) ev \<in> set (gm_outputs m)" unfolding history_def by metis
    then show ?thesis by (simp add: out(1))
  qed
  moreover have "\<exists>s \<in> set (gm_sockets m'). at_epoch (so_attachment s) = pe_epoch p \<and> request_sent env is (gm_outputs m') (so_id s) d p"
    if "(d, p) \<in> set (gm_pending m')" for d p
  proof -
    have "(d, p) \<in> set (gm_pending m)" using that c unfolding calm_def by blast
    with h obtain s where s: "s \<in> set (gm_sockets m)" "at_epoch (so_attachment s) = pe_epoch p" "request_sent env is (gm_outputs m) (so_id s) d p"
      unfolding history_def by blast
    obtain s' where "s' \<in> set (gm_sockets m')" "so_id s' = so_id s" "at_epoch (so_attachment s') = at_epoch (so_attachment s)"
      using s(1) c unfolding calm_def by blast
    with s(2) seen(2) [OF s(3)] show ?thesis by metis
  qed
  moreover have "task_history env is (gm_outputs m') t" if t: "t \<in> set (gm_submits m')" for t
  proof -
    consider "plain_phase (su_phase t)" | u where "u \<in> set (gm_submits m)" "su_task u = su_task t" "su_phase u = su_phase t"
      using t c unfolding calm_def by blast
    then show ?thesis
    proof cases
      case 2
      with h have "task_history env is (gm_outputs m) t" using same_task [of u t] unfolding history_def by blast
      then show ?thesis by (rule seen(4))
    qed (rule plain_task)
  qed
  ultimately show ?thesis unfolding history_def by blast
qed

lemma calm_refl [simp]: "calm m m"
  by (auto simp: calm_def)

lemma calm_trans:
  assumes "calm a b" and "calm b c"
  shows "calm a c"
proof -
  have "\<exists>xs. gm_outputs c = gm_outputs a @ xs \<and> list_all harmless xs" using assms unfolding calm_def by (metis append.assoc list_all_append)
  moreover have "\<exists>s' \<in> set (gm_sockets c). so_id s' = so_id s \<and> at_epoch (so_attachment s') = at_epoch (so_attachment s)" if "s \<in> set (gm_sockets a)" for s
    using assms that unfolding calm_def by metis
  moreover have "\<exists>t \<in> set (gm_delivers a). de_task t = de_task t' \<and> de_phase t = Calling ev" if "t' \<in> set (gm_delivers c)" "de_phase t' = Calling ev" for t' ev
    using assms that unfolding calm_def by metis
  moreover have "plain_phase (su_phase t') \<or> (\<exists>t \<in> set (gm_submits a). su_task t = su_task t' \<and> su_phase t = su_phase t')"
    if "t' \<in> set (gm_submits c)" for t'
    using assms that unfolding calm_def by metis
  ultimately show ?thesis using assms unfolding calm_def by blast
qed

lemma calm_order [simp]: "reflp calm" "transp calm"
  using calm_refl calm_trans by (auto intro: reflpI transpI)

lemmas calm_bind = within_bindA [OF calm_order(2)] and calm_basic = within_basic [OF calm_order(1)]

lemma calm_settles: "settles m m' \<Longrightarrow> calm m m'"
proof -
  assume s: "settles m m'"
  have l: "list_all2 (task_le isl) (gm_submits m) (gm_submits m')" and k: "list_all2 socket_le (gm_sockets m) (gm_sockets m')"
    and same: "gm_delivers m' = gm_delivers m" "gm_pending m' = gm_pending m"
    using s by (simp_all add: settles_by_def)
  obtain xs where "gm_outputs m' = gm_outputs m @ xs" "\<forall>x \<in> set xs. \<exists>sid code. x = Close_frame sid code" using s unfolding settles_by_def by blast
  then have "\<exists>xs. gm_outputs m' = gm_outputs m @ xs \<and> list_all harmless xs" by (auto simp: list_all_iff harmless_def dest!: bspec)
  moreover have "\<exists>s' \<in> set (gm_sockets m'). so_id s' = so_id s \<and> at_epoch (so_attachment s') = at_epoch (so_attachment s)" if "s \<in> set (gm_sockets m)" for s
    using list_all2_in1 [OF k that] socket_le_attachment by metis
  moreover have "plain_phase (su_phase t') \<or> (\<exists>t \<in> set (gm_submits m). su_task t = su_task t' \<and> su_phase t = su_phase t')"
    if "t' \<in> set (gm_submits m')" for t'
    using list_all2_in2 [OF l that] by (auto simp: task_le_def plain_phase_def split: option.splits sum.splits)
  ultimately show ?thesis unfolding calm_def same by blast
qed

lemma calm_within_settles: "within settles a \<Longrightarrow> within calm a"
  by (rule within_mono [of settles]) (auto intro: calm_settles)

section \<open>Calm pieces\<close>

lemma calm_outputs: "harmless x \<Longrightarrow> calm m (m\<lparr>gm_outputs := gm_outputs m @ [x]\<rparr>)"
  by (auto simp: calm_def)

lemma calm_emit: "harmless x \<Longrightarrow> within calm (emit x)"
  unfolding emit_def by (rule within_modifyA) (rule calm_outputs)

lemma obj_head: "obj ((k, v) # kvs) = obj ((k', v') # kvs') \<Longrightarrow> k = k' \<and> v = v'"
  by (simp add: obj_def)

lemma harmless_frame: "v \<noteq> str ''result_ack'' \<Longrightarrow> harmless (Send sid (obj ((''type'', v) # kvs)))"
  by (auto simp: harmless_def ack_frame_def dest!: obj_head)

lemma harmless_other [simp]: "harmless (Reply r)" "harmless (Close_frame sid code)" "harmless (Call_receiver k ev)"
  by (simp_all add: harmless_def)

lemma harmless_error: "harmless (Respond k (errorResponse e))"
  by (auto simp: harmless_def accepting_def errorResponse_def accepted_response_def jsonResponse_def dest!: obj_head split: prod.splits)

lemma calm_ws_send: "v \<noteq> str ''result_ack'' \<Longrightarrow> within calm (ws_send sid (obj ((''type'', v) # kvs)))"
  unfolding ws_send_def whenA_def
  by (intro calm_bind calm_basic within_case_option within_if calm_emit harmless_frame)

lemma str_neq: "str a \<noteq> str b \<longleftrightarrow> a \<noteq> b"
  by (simp add: str_def)

lemma calm_fields:
  "gm_delivers m' = gm_delivers m \<Longrightarrow> gm_pending m' = gm_pending m \<Longrightarrow> gm_sockets m' = gm_sockets m \<Longrightarrow> gm_submits m' = gm_submits m
    \<Longrightarrow> gm_outputs m' = gm_outputs m \<Longrightarrow> calm m m'"
  by (auto simp: calm_def)

lemma calm_registry: "within calm (modifyA (\<lambda>m. m\<lparr>gm_registry := f m\<rparr>))"
  by (rule within_modifyA) (rule calm_fields; simp)

lemma calm_reserve: "within calm (reserve env n)"
  unfolding reserve_def by (intro calm_bind calm_basic within_if within_modifyA calm_fields; simp)

lemma calm_release: "within calm (release n)"
  unfolding release_def by (intro within_modifyA calm_fields; simp)

lemma within_attempt: "within R a \<Longrightarrow> within R (attemptA a)"
  unfolding within_def attemptA_def act_defs by (auto split: prod.splits sum.splits) (metis snd_conv)+

lemma within_catch: "transp R \<Longrightarrow> within R a \<Longrightarrow> (\<And>e. within R (h e)) \<Longrightarrow> within R (catchA a h)"
  unfolding within_def catchA_def by (auto split: prod.splits sum.splits dest: transpD) (metis snd_conv transpD)+

lemma within_case_sum: "(\<And>e. x = Inl e \<Longrightarrow> within R (g e)) \<Longrightarrow> (\<And>a. x = Inr a \<Longrightarrow> within R (f a)) \<Longrightarrow> within R (case x of Inl e \<Rightarrow> g e | Inr a \<Rightarrow> f a)"
  by (cases x) auto

lemma within_case_prod: "(\<And>a b. within R (f a b)) \<Longrightarrow> within R (case x of (a, b) \<Rightarrow> f a b)"
  by (cases x) auto

lemma calm_update_submit: "(\<And>t. plain_phase (su_phase (f t))) \<Longrightarrow> within calm (modifyA (update_submit k f))"
  by (rule within_modifyA) (auto simp: calm_def update_submit_def)

lemmas calm_rejectWaiters = calm_within_settles [OF settles_rejectWaiters]
lemmas calm_ws_close = calm_within_settles [OF settles_ws_close]
lemmas calm_closeConnections = calm_within_settles [OF settles_closeConnections]

lemma calm_end_submit: "\<not> accepting r \<Longrightarrow> within calm (end_submit t r)"
  unfolding end_submit_def
  by (intro calm_bind calm_emit within_modifyA) (auto simp: calm_def harmless_def)

lemma not_accepting_error: "\<not> accepting (errorResponse e)"
  using harmless_error [of 0 e] by (simp add: harmless_def)

lemma calm_failing_submit: "within calm a \<Longrightarrow> within calm (failing_submit t a)"
  unfolding failing_submit_def by (intro within_catch calm_order calm_end_submit not_accepting_error)

lemma calm_delete_pending: "within calm (modifyA (delete_pending d))"
  by (rule within_modifyA) (auto simp: calm_def delete_pending_def)

lemma calm_nack: "within calm (nack sid d e)"
proof -
  have "within calm (ws_send sid (obj ((''type'', str ''result_nack'') # kvs)))" for kvs by (rule calm_ws_send) (simp add: str_neq)
  then show ?thesis unfolding nack_def Let_def by (intro within_case_prod calm_bind calm_basic within_attempt)
qed

lemma calm_end_deliver: "within calm (end_deliver t)"
  unfolding end_deliver_def by (rule within_modifyA) (auto simp: calm_def)

lemma calm_failing_deliver: "within calm a \<Longrightarrow> within calm (failing_deliver t a)"
  unfolding failing_deliver_def by (intro within_catch calm_order calm_bind calm_nack calm_end_deliver)

lemma calm_add_deliver: "\<not> (\<exists>ev. de_phase t = Calling ev) \<Longrightarrow> calm m (m\<lparr>gm_deliveries := a, gm_next := b, gm_delivers := gm_delivers m @ [t]\<rparr>)"
  by (auto simp: calm_def)

lemma calm_deliver_begin: "within calm (deliver_begin env sid a message n)"
proof -
  have "within calm (ws_send sid (obj ((''type'', str ''result_nack'') # kvs)))" for kvs by (rule calm_ws_send) (simp add: str_neq)
  then show ?thesis unfolding deliver_begin_def
    by (intro calm_bind calm_basic within_if within_case_sum calm_nack within_modifyA calm_add_deliver) simp_all
qed

lemma calm_protocol_error: "within calm (protocol_error sid e)"
proof -
  have "within calm (ws_send sid (obj ((''type'', str ''protocol_error'') # kvs)))" for kvs by (rule calm_ws_send) (simp add: str_neq)
  then show ?thesis unfolding protocol_error_def Let_def
    by (intro within_case_prod calm_bind calm_basic within_attempt calm_ws_close calm_rejectWaiters within_case_option)
qed

subsection \<open>Requests\<close>

lemma calm_replies:
  "within calm (register_request env now pong id' rq)" "within calm (rotate_request env now seen id' rq)"
  "within calm (delete_request env now id' rq)" "within calm (view_request env pong id' rq)"
  unfolding register_request_def rotate_request_def delete_request_def view_request_def Let_def
  by (auto intro!: calm_bind calm_basic within_if within_case_prod calm_registry calm_closeConnections simp: whenA_def)

lemma calm_add_socket: "calm m (m\<lparr>gm_next := a, gm_sockets := gm_sockets m @ [s]\<rparr>)"
  by (auto simp: calm_def)

lemma calm_connect: "within calm (connectDaemon env now id' rq)"
proof -
  have "within calm (ws_send sid (obj ((''type'', str ''welcome'') # kvs)))" for sid kvs by (rule calm_ws_send) (simp add: str_neq)
  then show ?thesis unfolding connectDaemon_def Let_def
    by (auto intro!: calm_bind calm_basic within_if within_case_prod calm_registry within_forA calm_order calm_rejectWaiters calm_ws_close within_modifyA calm_add_socket)
qed

lemma calm_add_submit: "plain_phase (su_phase t) \<Longrightarrow> calm m (m\<lparr>gm_submissions := a, gm_next := b, gm_submits := gm_submits m @ [t]\<rparr>)"
  by (auto simp: calm_def waiting_task_def)

lemma calm_submit_begin: "within calm (submit_begin env id' rq)"
  unfolding submit_begin_def by (auto simp: plain_phase_def intro!: calm_bind calm_basic within_if within_modifyA calm_add_submit)

lemma calm_fetch: "within calm (machine_fetch env now pong seen rq)"
proof -
  have e: "within calm (emit (Reply r))" for r by (simp add: calm_emit)
  show ?thesis unfolding machine_fetch_def Let_def
    by (intro within_catch calm_order calm_bind calm_basic within_if e calm_replies calm_connect calm_submit_begin)
qed

lemma calm_socket_ended: "within calm (socket_ended code now sid)"
proof -
  have received: "within calm (modifyA (update_socket sid (\<lambda>s. s\<lparr>so_receivedClose := True\<rparr>)))"
    by (rule within_modifyA) (auto simp: calm_def update_socket_def bex_Un)
  then show ?thesis unfolding socket_ended_def Let_def
    by (intro calm_bind calm_basic within_case_option within_if calm_registry calm_rejectWaiters calm_ws_close)
qed

section \<open>The pieces that are not\<close>

abbreviation hkept :: "gateway_env \<Rightarrow> input list \<Rightarrow> 'a mact \<Rightarrow> machine \<Rightarrow> bool" where
  "hkept env is a m \<equiv> wp a (\<lambda>_. history env is) (\<lambda>_. history env is) m"

lemma calm_hkept: "within calm a \<Longrightarrow> history env is m \<Longrightarrow> hkept env is a m"
  by (auto simp: wp_def within_def split: prod.splits sum.splits intro: calm_history) (metis calm_history snd_conv)+

lemma historyD:
  assumes "history env is m"
  shows "Send sid (ack_frame ev) \<in> set (gm_outputs m) \<Longrightarrow> receipt_seen is (gm_outputs m) ev"
    and "t \<in> set (gm_delivers m) \<Longrightarrow> de_phase t = Calling ev \<Longrightarrow> Call_receiver (de_task t) ev \<in> set (gm_outputs m)"
    and "(d, p) \<in> set (gm_pending m) \<Longrightarrow> \<exists>s \<in> set (gm_sockets m). at_epoch (so_attachment s) = pe_epoch p \<and> request_sent env is (gm_outputs m) (so_id s) d p"
    and "u \<in> set (gm_submits m) \<Longrightarrow> task_history env is (gm_outputs m) u"
    and "Respond k r \<in> set (gm_outputs m) \<Longrightarrow> accepting r \<Longrightarrow> confirmed env is (gm_outputs m) k r"
  using assms unfolding history_def by blast+

lemma history_submits:
  assumes h: "history env is m" and t: "\<And>t. t \<in> set ts \<Longrightarrow> task_history env is (gm_outputs m) t"
  shows "history env is (m\<lparr>gm_submits := ts\<rparr>)"
  using h t unfolding history_def by simp

lemma history_output:
  assumes h: "history env is m" and ack: "\<And>sid ev. x = Send sid (ack_frame ev) \<Longrightarrow> receipt_seen is (gm_outputs m) ev"
    and acc: "\<And>k r. x = Respond k r \<Longrightarrow> accepting r \<Longrightarrow> confirmed env is (gm_outputs m) k r"
  shows "history env is (m\<lparr>gm_outputs := gm_outputs m @ [x]\<rparr>)"
proof -
  let ?xs = "gm_outputs m @ [x]"
  note mono = seen_mono [where xs = "gm_outputs m" and ys = "[x]"]
  have "receipt_seen is ?xs ev" if "Send sid (ack_frame ev) \<in> set ?xs" for sid ev
    using that historyD(1) [OF h, of sid ev] ack [of sid ev] mono(1) [of "is" ev] by auto
  moreover have "confirmed env is ?xs k r" if "Respond k r \<in> set ?xs" "accepting r" for k r
    using that historyD(5) [OF h, of k r] acc [of k r] mono(3) [of env "is" k r] by auto
  moreover have "task_history env is ?xs t" if "t \<in> set (gm_submits m)" for t
    using historyD(4) [OF h that] mono(4) by blast
  moreover have "\<exists>s \<in> set (gm_sockets m). at_epoch (so_attachment s) = pe_epoch p \<and> request_sent env is ?xs (so_id s) d p" if "(d, p) \<in> set (gm_pending m)" for d p
    using historyD(3) [OF h that] mono(2) by blast
  moreover have "Call_receiver (de_task t) ev \<in> set ?xs" if "t \<in> set (gm_delivers m)" "de_phase t = Calling ev" for t ev
    using historyD(2) [OF h that] by simp
  ultimately show ?thesis unfolding history_def by auto
qed

lemma history_pending:
  assumes h: "history env is m" and w: "distinct (map fst (gm_pending m))"
    and s: "s \<in> set (gm_sockets m)" "at_epoch (so_attachment s) = pe_epoch p" "request_sent env is (gm_outputs m) (so_id s) d p"
  shows "history env is (m\<lparr>gm_pending := AList.update d p (gm_pending m)\<rparr>)"
  using h s unfolding history_def set_update_pending [OF w, of d p] by (auto simp: set_update_pending [OF w])

lemma calm_authorized: "within calm (submit_authorized env t token)"
  unfolding submit_authorized_def
  by (auto simp: plain_phase_def intro!: calm_bind calm_basic within_if calm_update_submit)

lemma history_task:
  assumes h: "history env is m" and f: "\<And>u. u \<in> set (gm_submits m) \<Longrightarrow> su_task u = k \<Longrightarrow> task_history env is (gm_outputs m) (f u)"
  shows "history env is (update_submit k f m)"
  unfolding update_submit_def using historyD(4) [OF h] f by (intro history_submits [OF h]) auto

lemma socket_found:
  assumes ok: "machine_ok env x m" and s: "s \<in> set (gm_sockets m)"
  shows "find_socket (so_id s) m = Some s"
proof (cases "find_socket (so_id s) m")
  case None
  then show ?thesis using s unfolding find_socket_None by blast
next
  case (Some s')
  have "distinct (map so_id (gm_sockets m))" using ok by (simp add: machine_ok_def machine_base_def links_ok_def)
  then show ?thesis using Some find_socket_Some [OF Some] distinct_key [OF _ _ s] by auto
qed

lemma history_dispatched:
  assumes ok: "machine_ok env 0 m" and h: "history env is m" and own: "Signed (pe_task p) d \<in> set is" "own_request env is (pe_task p) b h' e"
    and row: "gm_registry m = Some row" and live: "live_socket m row = Some s" and p: "pe_epoch p = mr_connection_epoch row" "pe_requestHash p = h'" "pe_requestId p = sm_requestId b" "pe_runtimeGeneration p = sm_runtimeGeneration b"
  shows "history env is (m\<lparr>gm_outputs := gm_outputs m @ [Send (so_id s) (request_frame d b h' e)], gm_pending := AList.update d p (gm_pending m)\<rparr>)"
proof -
  note lv = live_socket_facts [OF live]
  have w: "distinct (map fst (gm_pending m))" using ok by (simp add: machine_ok_def machine_base_def waits_ok_def)
  let ?m = "m\<lparr>gm_outputs := gm_outputs m @ [Send (so_id s) (request_frame d b h' e)]\<rparr>"
  have "harmless (Send (so_id s) (request_frame d b h' e))" unfolding request_frame_def by (rule harmless_frame) (simp add: str_neq)
  then have "history env is ?m" by (intro history_output [OF h]) (auto simp: harmless_def)
  moreover have "request_sent env is (gm_outputs ?m) (so_id s) d p" using p own by (auto simp: request_sent_def)
  ultimately have "history env is (?m\<lparr>gm_pending := AList.update d p (gm_pending ?m)\<rparr>)"
    using lv p(1) w by (intro history_pending [where s = s]) simp_all
  then show "history env is (m\<lparr>gm_outputs := gm_outputs m @ [Send (so_id s) (request_frame d b h' e)], gm_pending := AList.update d p (gm_pending m)\<rparr>)" by simp
qed

lemma hkept_failing:
  assumes "hkept env is a m"
  shows "hkept env is (failing_submit t a) m"
  unfolding failing_submit_def wp_simps using assms
  by (rule wp_call) (auto intro!: calm_hkept calm_end_submit not_accepting_error)

lemma history_update_submit:
  assumes h: "history env is m" and f: "\<And>t. plain_phase (su_phase (f t))"
  shows "history env is (update_submit k f m)"
  using calm_history [OF h] calm_update_submit [of f k, OF f] by (simp add: within_def modifyA_def)

lemma history_delete_pending: "history env is m \<Longrightarrow> history env is (delete_pending d m)"
  using calm_history calm_delete_pending [of d] by (simp add: within_def modifyA_def)

lemma hkept_dispatch:
  assumes ok: "machine_ok env 0 m" and h: "history env is m"
    and own: "Signed (su_task t) d \<in> set is" "own_request env is (su_task t) b rh e"
  shows "hkept env is (submit_dispatch env t token b rh e d) m"
proof -
  have sent: "history env is (update_submit k (\<lambda>t. t\<lparr>su_phase := Waiting d None\<rparr>) (m\<lparr>gm_pending := AList.update d p (gm_pending m),
        gm_outputs := gm_outputs m @ [Send (so_id s) (request_frame d b rh e)]\<rparr>))"
    if "pe_task p = su_task t" "gm_registry m = Some row" "live_socket m row = Some s" "pe_epoch p = mr_connection_epoch row" "pe_requestHash p = rh"
      "pe_requestId p = sm_requestId b" "pe_runtimeGeneration p = sm_runtimeGeneration b" for row s p k
  proof -
    have swap: "m\<lparr>gm_pending := ps, gm_outputs := xs\<rparr> = m\<lparr>gm_outputs := xs, gm_pending := ps\<rparr>" for ps xs by simp
    note d = history_dispatched [OF ok h own [folded that(1)] that(2-)]
    show "history env is (update_submit k (\<lambda>t. t\<lparr>su_phase := Waiting d None\<rparr>) (m\<lparr>gm_pending := AList.update d p (gm_pending m),
        gm_outputs := gm_outputs m @ [Send (so_id s) (request_frame d b rh e)]\<rparr>))"
      unfolding swap by (rule history_update_submit [OF d]) (simp add: plain_phase_def)
  qed
  have unsent: "history env is (m\<lparr>gm_outputs := gm_outputs m @ [Send sid (request_frame d b rh e)], gm_pending := filter (\<lambda>(k, p). k \<noteq> d) (gm_pending m)\<rparr>)" for sid
  proof -
    have "harmless (Send sid (request_frame d b rh e))" unfolding request_frame_def by (rule harmless_frame) (simp add: str_neq)
    from history_delete_pending [OF calm_history [OF h calm_outputs [OF this]], of d] show ?thesis by (simp add: delete_pending_def)
  qed
  have found: "find_socket (so_id s) m' = Some s" if "gm_registry m = Some row" "live_socket m row = Some s" "gm_sockets m' = gm_sockets m" for row s m'
    using socket_found [OF ok live_socket_facts(1) [OF that(2)]] that(3) by (simp add: find_socket_def)
  have frame: "wp (ws_send (so_id s) f) Q E m' = Q () (m'\<lparr>gm_outputs := gm_outputs m' @ [Send (so_id s) f]\<rparr>)"
    if "gm_registry m = Some row" "live_socket m row = Some s" "gm_sockets m' = gm_sockets m" for row s m' f Q E
    using found [OF that] live_socket_facts [OF that(2)] by (simp add: ws_send_def wp_simps emit_def)
  show ?thesis using h
    by (auto simp: submit_dispatch_def wp_simps authorize_Inr frame set_pending_def delete_pending_def filter_update_pending gw_invalid_def
        split: sum.splits option.splits intro: sent unsent)
qed

lemma hkept_waited:
  assumes h: "history env is m" and t: "t \<in> set (gm_submits m)" "su_phase t = Waiting d settled"
  shows "hkept env is (submit_waited t d settled timeout) m"
proof -
  note del = history_delete_pending [OF h, of d]
  have "hkept env is (end_submit t r) (delete_pending d m)" if r: "settled = Some (Inr r)" for r
  proof -
    let ?m = "\<lambda>a b. (delete_pending d m)\<lparr>gm_submissions := a, gm_bufferedBytes := b, gm_submits := filter (\<lambda>x. su_task x \<noteq> su_task t) (gm_submits m)\<rparr>"
    have "calm (delete_pending d m) (?m a b)" for a b by (auto simp: calm_def delete_pending_def)
    then have hm: "history env is (?m a b)" for a b using calm_history [OF del] by blast
    have "confirmed env is (gm_outputs m) (su_task t) r" using historyD(4) [OF h t(1)] t(2) r by (simp add: task_history_def)
    then have "history env is ((?m a b)\<lparr>gm_outputs := gm_outputs (?m a b) @ [Respond (su_task t) r]\<rparr>)" for a b
      by (intro history_output [OF hm]) (auto simp: delete_pending_def)
    then show ?thesis by (simp add: end_submit_def emit_def wp_simps delete_pending_def)
  qed
  with h del show ?thesis by (auto simp: submit_waited_def wp_simps split: option.splits sum.splits)
qed

lemma hkept_chunk:
  assumes h: "history env is m" and data: "own_data is (su_task t) data" and c: "Body_chunk (su_task t) chunk \<in> set is"
  shows "hkept env is (submit_chunk env t token data chunk) m"
proof -
  have "own_data is (su_task t) (data @ chunk)"
    using data c unfolding own_data_def by (metis concat.simps concat_append append_Nil2 in_set_conv_decomp_first insert_iff list.set(2) set_append Un_iff empty_iff list.set(1))
  then have "history env is (update_submit (su_task t) (\<lambda>u. u\<lparr>su_phase := Reading token (data @ chunk), su_reserved := su_reserved u + n\<rparr>) m')"
    if "history env is m'" for m' n by (intro history_task [OF that]) (simp add: task_history_def)
  then have last: "hkept env is (modifyA (update_submit (su_task t) (\<lambda>u. u\<lparr>su_phase := Reading token (data @ chunk), su_reserved := su_reserved u + n\<rparr>))) m'"
    if "history env is m'" for m' n using that by (simp add: wp_simps)
  have "hkept env is (bindA (reserve env n) (\<lambda>_. modifyA (update_submit (su_task t) (\<lambda>u. u\<lparr>su_phase := Reading token (data @ chunk), su_reserved := su_reserved u + n\<rparr>)))) m" for n
    unfolding wp_bindA by (rule wp_call [OF calm_hkept [OF calm_reserve h]]) (use last in auto)
  then show ?thesis using h by (auto simp: submit_chunk_def accept_chunk_def wp_simps split: sum.splits if_splits)
qed

lemma hkept_prepared:
  assumes h: "history env is m" and data: "own_data is (su_task t) data"
  shows "hkept env is (submit_prepared env t token data) m"
proof -
  have "history env is (update_submit (su_task t) (\<lambda>u. u\<lparr>su_phase := Prepared token b rh e\<rparr>) m)"
    if "prepare_request env (su_machineId t) data = Inr (b, rh, e)" for b rh e
    using that data by (intro history_task [OF h]) (auto simp: task_history_def own_request_def)
  then show ?thesis using h by (auto simp: submit_prepared_def wp_simps split: sum.splits prod.splits)
qed

lemma hkept_submit_step:
  assumes ok: "machine_ok env 0 m" and h: "history env is m"
    and i: "\<And>j c. i = Body_chunk j c \<Longrightarrow> Body_chunk k c \<in> set is" "\<And>j d. i = Signed j d \<Longrightarrow> Signed k d \<in> set is"
  shows "hkept env is (on_submit k (submit_step env i)) m"
proof (cases "find_submit k m")
  case None
  with h show ?thesis by (simp add: on_submit_def wp_simps)
next
  case (Some t)
  note t = conjunct1 [OF find_submit_Some [OF Some]] and k = conjunct2 [OF find_submit_Some [OF Some]]
  have late: "within calm (liftR body_timeout)" by (rule calm_basic)
  have task: "su_phase t = Reading token data \<Longrightarrow> own_data is (su_task t) data"
    "su_phase t = Prepared token b rh e \<Longrightarrow> own_request env is (su_task t) b rh e" for token data b rh e
    using historyD(4) [OF h t] by (simp_all add: task_history_def)
  have "hkept env is (submit_step env i t) m"
    using hkept_failing [OF hkept_dispatch [OF ok h]] hkept_failing [OF hkept_waited [OF h t]] hkept_failing [OF hkept_chunk [OF h]]
      hkept_failing [OF hkept_prepared [OF h]] hkept_failing [OF calm_hkept [OF calm_authorized h]] hkept_failing [OF calm_hkept [OF late h]]
      h i [folded k] task
    by (auto simp: submit_step_def wp_simps split: input.splits submit_phase.splits)
  with Some show ?thesis by (simp add: on_submit_def wp_simps)
qed

subsection \<open>Deliveries and frames\<close>

lemma hkept_failing_deliver: "hkept env is a m \<Longrightarrow> hkept env is (failing_deliver t a) m"
  unfolding failing_deliver_def wp_catchA
  by (erule wp_call) (auto intro!: calm_hkept calm_bind calm_nack calm_end_deliver)

lemma wp_current_same: "wp (current sid) (\<lambda>_ m'. m' = m) (\<lambda>_ m'. m' = m) m"
  using wp_current [of sid m] by (rule wp_call) auto

lemma hkept_verified:
  assumes h: "history env is m"
  shows "hkept env is (deliver_verified env t token result) m"
proof -
  let ?m = "\<lambda>ev. m\<lparr>gm_outputs := gm_outputs m @ [Call_receiver (de_task t) ev]\<rparr>"
  have out: "history env is (?m ev)" for ev by (rule calm_history [OF h calm_outputs]) simp
  have "history env is ((?m ev)\<lparr>gm_delivers := map (\<lambda>x. if de_task x = de_task t then x\<lparr>de_phase := Calling ev\<rparr> else x) (gm_delivers m)\<rparr>)" for ev
  proof -
    have "Call_receiver (de_task u) ev' \<in> set (gm_outputs (?m ev))"
      if "u \<in> set (map (\<lambda>x. if de_task x = de_task t then x\<lparr>de_phase := Calling ev\<rparr> else x) (gm_delivers m))" "de_phase u = Calling ev'" for u ev'
      using that historyD(2) [OF h, of u ev'] by (auto split: if_splits)
    then show ?thesis using out [of ev] unfolding history_def by auto
  qed
  with h out show ?thesis
    by (auto simp: deliver_verified_def wp_simps emit_def split: sum.splits intro!: wp_call [OF wp_current_same])
qed

lemma hkept_replied:
  assumes h: "history env is m" and t: "t \<in> set (gm_delivers m)" "de_phase t = Calling ev" and i: "Receiver_reply (de_task t) rp \<in> set is"
  shows "hkept env is (deliver_replied t ev rp) m"
proof -
  have done': "hkept env is (end_deliver t) m'" if "history env is m'" for m' by (rule calm_hkept [OF calm_end_deliver that])
  have ack: "history env is (m\<lparr>gm_outputs := gm_outputs m @ [Send sid (ack_frame ev)]\<rparr>)" if c: "check_receipt ev rp = Inr ()" for sid
  proof (rule history_output [OF h])
    obtain r where r: "rp = Returned (Some (JObj r))" "receipt_matches ev r"
      using c by (auto simp: check_receipt_def gw_object_def gw_invalid_def bindR_eq_Inl split: reply.splits option.splits json.splits if_splits)
    show "receipt_seen is (gm_outputs m) ev'" if "Send sid (ack_frame ev) = Send sid' (ack_frame ev')" for sid' ev'
    proof -
      have same: "ack_frame ev = ack_frame ev'" using that by simp
      then have "receipt_matches ev' r" using r(2) by (simp add: ack_frame_def obj_def receipt_matches_def)
      with r(1) same i historyD(2) [OF h t] show ?thesis unfolding receipt_seen_def by blast
    qed
  qed simp
  have sent: "wp (ws_send (de_socket t) (ack_frame ev)) (\<lambda>_. hkept env is (end_deliver t)) (\<lambda>_. history env is) m" if "check_receipt ev rp = Inr ()"
    using h done' ack [OF that] by (simp add: ws_send_def wp_simps emit_def split: option.splits)
  show ?thesis using h sent by (auto simp: deliver_replied_def wp_simps split: sum.splits)
qed

lemma hkept_deliver_step:
  assumes h: "history env is m" and i: "i \<in> set is" and k: "\<And>k' rp. i = Receiver_reply k' rp \<Longrightarrow> k' = k"
  shows "hkept env is (on_deliver k (deliver_step env i)) m"
proof (cases "find_deliver k m")
  case None
  with h show ?thesis by (simp add: on_deliver_def wp_simps)
next
  case (Some t)
  note t = find_deliver_Some [OF Some]
  have "hkept env is (deliver_step env i t) m"
  proof (cases "\<exists>k' rp ev. i = Receiver_reply k' rp \<and> de_phase t = Calling ev")
    case True
    then obtain rp ev where r: "i = Receiver_reply k rp" "de_phase t = Calling ev" using k by blast
    then have "hkept env is (failing_deliver t (deliver_replied t ev rp)) m"
      using hkept_failing_deliver [OF hkept_replied [OF h conjunct1 [OF t] r(2)]] i t by simp
    with r show ?thesis by (simp add: deliver_step_def)
  next
    case False
    with h hkept_failing_deliver [OF hkept_verified [OF h]] show ?thesis
      by (auto simp: deliver_step_def wp_simps split: input.splits deliver_phase.splits)
  qed
  with Some show ?thesis by (simp add: on_deliver_def wp_simps)
qed

lemma history_attach:
  assumes h: "history env is m" and s: "find_socket sid m = Some so" and a: "at_epoch a = at_epoch (so_attachment so)"
    and d: "distinct (map so_id (gm_sockets m))"
  shows "history env is (update_socket sid (\<lambda>s. s\<lparr>so_attachment := a\<rparr>) m)"
proof (rule calm_history [OF h])
  have "\<exists>s' \<in> set (gm_sockets (update_socket sid (\<lambda>s. s\<lparr>so_attachment := a\<rparr>) m)). so_id s' = so_id v \<and> at_epoch (so_attachment s') = at_epoch (so_attachment v)"
    if v: "v \<in> set (gm_sockets m)" for v
  proof -
    have "so_id v = sid \<longrightarrow> v = so" using distinct_key [OF d v] find_socket_Some [OF s] by simp
    moreover have "(if so_id v = sid then v\<lparr>so_attachment := a\<rparr> else v) \<in> set (gm_sockets (update_socket sid (\<lambda>s. s\<lparr>so_attachment := a\<rparr>) m))"
      using imageI [OF v, of "\<lambda>v. if so_id v = sid then v\<lparr>so_attachment := a\<rparr> else v"] by (simp add: update_socket_def del: if_image_distrib)
    ultimately show ?thesis using a by (intro bexI [of _ "if so_id v = sid then v\<lparr>so_attachment := a\<rparr> else v"]) auto
  qed
  then show "calm m (update_socket sid (\<lambda>s. s\<lparr>so_attachment := a\<rparr>) m)" by (auto simp: calm_def update_socket_def)
qed

lemma hkept_acceptance:
  assumes ok: "machine_ok env n m" and h: "history env is m" and so: "find_socket sid m = Some so" "so_attachment so = a"
    and frame: "Frame now sid (Text_frame s) \<in> set is" and parse: "ge_JSON_parse env s = Inr (JObj message)"
  shows "hkept env is (acceptance_message a message) m"
proof -
  have settle: "history env is (settle_task k r m)" if r: "\<And>x. r = Inr x \<Longrightarrow> confirmed env is (gm_outputs m) k x" for k r
    unfolding settle_task_def
  proof (rule history_submits [OF h])
    fix t assume "t \<in> set (map (\<lambda>t. if su_task t = k then t\<lparr>su_phase := settle_phase r (su_phase t)\<rparr> else t) (gm_submits m))"
    then obtain u where u: "u \<in> set (gm_submits m)" "t = (if su_task u = k then u\<lparr>su_phase := settle_phase r (su_phase u)\<rparr> else u)"
      by (auto simp del: if_image_distrib)
    with historyD(4) [OF h u(1)] r show "task_history env is (gm_outputs m) t"
      by (auto simp: task_history_def settle_phase_def split: submit_phase.splits option.splits sum.splits)
  qed
  have confirm: "confirmed env is (gm_outputs m) (pe_task p) (accepted_response a p)"
    if c: "map_of (gm_pending m) d = Some p" "gw_uuid (field message ''dispatchId'') = Inr d" "matches_pending a message p"
      "field message ''type'' = Some (str ''accepted'')" for d p
  proof -
    obtain s' where s': "s' \<in> set (gm_sockets m)" "at_epoch (so_attachment s') = pe_epoch p" "request_sent env is (gm_outputs m) (so_id s') d p"
      using historyD(3) [OF h map_of_SomeD [OF c(1)]] by blast
    have "distinct (map (\<lambda>s. at_epoch (so_attachment s)) (gm_sockets m))" using ok by (simp add: machine_ok_def machine_base_def links_ok_def)
    moreover have "at_epoch (so_attachment s') = at_epoch (so_attachment so)" using s'(2) c(3) so(2) by (simp add: matches_pending_def)
    ultimately have "s' = so" using distinct_key [of "\<lambda>s. at_epoch (so_attachment s)" "gm_sockets m" s' so] s'(1) find_socket_Some [OF so(1)] by auto
    then have "request_sent env is (gm_outputs m) sid d p" using s'(3) find_socket_Some [OF so(1)] by simp
    moreover have "accepted_message env s d p" using parse c(2,3,4) by (auto simp: accepted_message_def matches_pending_def gw_uuid_Inr)
    ultimately show ?thesis using frame unfolding confirmed_def by blast
  qed
  show ?thesis using h
    by (auto simp: acceptance_message_def wp_simps gw_invalid_def split: option.splits sum.splits intro!: settle intro: confirm)
qed

lemma hkept_hello:
  assumes ok: "machine_ok env n m" and h: "history env is m" and so: "find_socket sid m = Some so" "so_attachment so = a"
  shows "hkept env is (hello_message sid a message) m"
proof -
  have d: "distinct (map so_id (gm_sockets m))" using ok by (simp add: machine_ok_def machine_base_def links_ok_def)
  have ready: "hkept env is (ws_send sid (obj ((''type'', str ''ready'') # kvs))) m'" if "history env is m'" for kvs m'
    by (rule calm_hkept [OF calm_ws_send that]) (simp add: str_neq)
  have "history env is (update_socket sid (\<lambda>s. s\<lparr>so_attachment := a\<lparr>at_hello := Some x\<rparr>\<rparr>) m)" for x
    using history_attach [OF h so(1) _ d, of "a\<lparr>at_hello := Some x\<rparr>"] so(2) by simp
  moreover have "history env is (m'\<lparr>gm_registry := reg\<rparr>)" if "history env is m'" for m' reg by (rule calm_history [OF that calm_fields]) simp_all
  ultimately show ?thesis using h ready
    by (auto simp: hello_message_def serializeAttachment_def wp_simps gw_invalid_def split: option.splits sum.splits)
qed

lemma hkept_handle_text:
  assumes ok: "machine_ok env n m" and h: "history env is m" and so: "find_socket sid m = Some so" "so_attachment so = a"
    and frame: "Frame now sid (Text_frame s) \<in> set is"
  shows "hkept env is (handle_text env sid a s n) m"
proof -
  have hello: "wp (hello_message sid a message) (\<lambda>_. hkept env is (retA False)) (\<lambda>_. history env is) m" for message
    using hkept_hello [OF ok h so] by (simp add: wp_retA_eta)
  have acc: "wp (acceptance_message a message) (\<lambda>_. hkept env is (retA False)) (\<lambda>_. history env is) m" if "ge_JSON_parse env s = Inr (JObj message)" for message
    using hkept_acceptance [OF ok h so frame that] by (simp add: wp_retA_eta)
  have begin': "hkept env is (deliver_begin env sid a message n) m" for message by (rule calm_hkept [OF calm_deliver_begin h])
  have parse: "ge_JSON_parse env s = Inr (JObj message)"
    if b: "bindR (ge_JSON_parse env s) (\<lambda>v. bindR (jsonValue (Some v)) (\<lambda>v. gw_object (Some v) None)) = Inr message" for message
  proof -
    obtain v w where v: "ge_JSON_parse env s = Inr v" "jsonValue (Some v) = Inr w" "gw_object (Some w) None = Inr message" using b by auto
    have "w = v" using v(2) by (auto simp: jsonValue_def)
    moreover have "w = JObj message" using v(3) by (cases w) (auto simp: gw_object_def gw_invalid_def)
    ultimately show ?thesis using v(1) by simp
  qed
  show ?thesis
  proof (cases "bindR (ge_JSON_parse env s) (\<lambda>v. bindR (jsonValue (Some v)) (\<lambda>v. gw_object (Some v) None))")
    case (Inl e)
    show ?thesis unfolding handle_text_def wp_bindA wp_liftR Inl sum.case by (rule h)
  next
    case (Inr message)
    show ?thesis unfolding handle_text_def wp_bindA wp_liftR Inr sum.case Let_def
      using h hello acc [OF parse [OF Inr]] begin' by (simp add: wp_simps wp_retA_eta gw_invalid_def)
  qed
qed

lemma hkept_frame_guard:
  assumes ok: "machine_ok env 0 m" and h: "history env is m"
  shows "hkept env is (frame_guard env now sid raw) m"
proof -
  have d: "distinct (map so_id (gm_sockets m))" using ok by (simp add: machine_ok_def machine_base_def links_ok_def)
  have rest: "within calm (case raw of Binary_frame \<Rightarrow> liftR (gw_invalid ''Use JSON text frames.'')
     | Text_frame s \<Rightarrow>
         if utf8Bytes s > MAX_FRAME_BYTES then bindA (ws_close sid 1009) (\<lambda>_. retA None)
         else bindA (attemptA (reserve env (int (utf8Bytes s)))) (\<lambda>r. case r of
             Inl e \<Rightarrow> bindA (ws_close sid 1013) (\<lambda>_. bindA (rejectWaiters (at_machineId a) (at_epoch a)) (\<lambda>_. retA None))
           | Inr _ \<Rightarrow> retA (Some (a, s, int (utf8Bytes s)))))" for a
    by (cases raw) (auto intro!: calm_bind calm_basic within_if calm_ws_close calm_rejectWaiters within_attempt calm_reserve within_case_sum)
  show ?thesis unfolding frame_guard_def wp_bindA Let_def using wp_current [of sid m]
  proof (rule wp_call)
    fix a m' assume "m' = m \<and> (\<exists>s. find_socket sid m = Some s \<and> so_attachment s = a)"
    then obtain s where s: "m' = m" "find_socket sid m = Some s" "so_attachment s = a" by blast
    have "history env is (update_socket sid (\<lambda>s. s\<lparr>so_attachment := a\<lparr>at_lastMessageAt := now\<rparr>\<rparr>) m)"
      using history_attach [OF h s(2) _ d, of "a\<lparr>at_lastMessageAt := now\<rparr>"] s(3) by simp
    from calm_hkept [OF rest this] show "wp (serializeAttachment sid (a\<lparr>at_lastMessageAt := now\<rparr>)) (\<lambda>b. hkept env is (case raw of Binary_frame \<Rightarrow> liftR (gw_invalid ''Use JSON text frames.'')
     | Text_frame s \<Rightarrow>
         if utf8Bytes s > MAX_FRAME_BYTES then bindA (ws_close sid 1009) (\<lambda>_. retA None)
         else bindA (attemptA (reserve env (int (utf8Bytes s)))) (\<lambda>r. case r of
             Inl e \<Rightarrow> bindA (ws_close sid 1013) (\<lambda>_. bindA (rejectWaiters (at_machineId (a\<lparr>at_lastMessageAt := now\<rparr>)) (at_epoch (a\<lparr>at_lastMessageAt := now\<rparr>))) (\<lambda>_. retA None))
           | Inr _ \<Rightarrow> retA (Some (a\<lparr>at_lastMessageAt := now\<rparr>, s, int (utf8Bytes s)))))) (\<lambda>_. history env is) m'"
      unfolding s(1) serializeAttachment_def wp_modifyA .
  qed (use h in simp)
qed

lemma frame_guard_text: "wp (frame_guard env now sid raw) (\<lambda>g m'. \<forall>a s n. g = Some (a, s, n) \<longrightarrow> raw = Text_frame s) (\<lambda>_ _. True) m"
proof -
  have "fst (frame_guard env now sid raw m) = Inr (Some (a, s, n)) \<Longrightarrow> raw = Text_frame s" for a s n
    by (cases raw) (auto simp: frame_guard_def bindA_def liftR_def retA_def gw_invalid_def Let_def split: prod.splits sum.splits if_splits)
  then show ?thesis by (auto simp: wp_def split: prod.splits sum.splits)
qed

lemma hkept_webSocketMessage:
  assumes ok: "machine_ok env 0 m" and h: "history env is m" and i: "Frame now sid raw \<in> set is"
  shows "hkept env is (webSocketMessage env now sid raw) m"
proof -
  have body: "hkept env is (bindA (attemptA (handle_text env sid a s n)) (\<lambda>r. case r of Inl e \<Rightarrow> bindA (protocol_error sid e) (\<lambda>_. release n)
      | Inr waits \<Rightarrow> whenA (\<not> waits) (release n))) m'"
    if "machine_ok env n m'" "history env is m'" "find_socket sid m' = Some so" "so_attachment so = a" "raw = Text_frame s" for a s n m' so
  proof -
    have "hkept env is (handle_text env sid a s n) m'" by (rule hkept_handle_text [OF that(1-4)]) (use i that(5) in simp)
    then show ?thesis unfolding attemptA_def wp_bindA wp_catchA wp_retA
      by (rule wp_call) (auto simp: wp_retA whenA_def intro!: calm_hkept calm_bind calm_protocol_error calm_release calm_basic)
  qed
  note g = wp_conj [OF wp_conj [OF wp_frame_guard [OF ok, of now sid raw] hkept_frame_guard [OF ok h, of now sid raw]] frame_guard_text [of env now sid raw m]]
  show ?thesis unfolding webSocketMessage_def attemptA_def wp_bindA wp_catchA using g
    by (rule wp_call) (use body calm_hkept [OF calm_protocol_error] in \<open>auto simp: wp_retA attemptA_def [symmetric] split: option.splits prod.splits\<close>)
qed

lemma history_step:
  assumes ok: "machine_ok env 0 m" and h: "history env is m" and i: "i \<in> set is"
  shows "history env is (machine_step env i m)"
proof -
  have restart: "history env is (restart m)" by (rule calm_history [OF h]) (auto simp: calm_def restart_def)
  have "hkept env is (machine_act env i) m"
    using calm_hkept [OF calm_fetch h] calm_hkept [OF calm_socket_ended h] hkept_webSocketMessage [OF ok h]
      hkept_deliver_step [OF h i] restart i
    by (cases i) (auto simp: wp_simps intro!: hkept_submit_step [OF ok h])
  then show ?thesis by (auto simp: machine_step_def wp_def split: prod.splits sum.splits)
qed

end
