(* ===== verification/GatewayExample.thy ===== *)
theory GatewayExample
  imports GatewayMachine
begin

text \<open>
  A run of the machine object on concrete inputs: a machine is registered, its daemon connects and says hello, a request
  is submitted and accepted, its result is delivered and acknowledged, and the machine is deleted. The texts the wire
  carries are single letters, which \<open>demo_parse\<close> reads; the evaluation goes step by step, each validator on its own.
\<close>

section \<open>The inputs\<close>

definition demo_id :: jstring where
  "demo_id = lit ''0a0a0a0a-0b0b-4c0c-8d0d-0e0e0e0e0e0e''"

definition demo_hash :: jstring where
  "demo_hash = replicate 64 48"

definition demo_register :: json where
  "demo_register = obj [(''machineId'', JStr demo_id), (''name'', str ''box'')]"

definition demo_hello_message :: fields where
  "demo_hello_message = lit_fields [(''type'', str ''hello''), (''protocolVersion'', int_json 1), (''runtimeGeneration'', JStr demo_id),
     (''daemonVersion'', str ''1''), (''os'', str ''linux''), (''arch'', str ''arm''), (''operations'', JArr [str ''execution.exec''])]"

definition demo_submission :: json where
  "demo_submission = obj [(''requestId'', str ''r1''), (''runtimeGeneration'', JStr demo_id),
     (''operation'', obj [(''operation'', str ''execution.exec''), (''params'', obj [])]), (''callback'', obj [(''receiver'', str ''tool'')])]"

definition demo_accepted :: fields where
  "demo_accepted = lit_fields [(''type'', str ''accepted''), (''dispatchId'', JStr demo_id), (''requestId'', str ''r1''),
     (''requestHash'', JStr demo_hash), (''runtimeGeneration'', JStr demo_id)]"

definition demo_token :: jstring where
  "demo_token = envelope_header @ lit ''.RQ.'' @ encode64 (replicate 32 9)"

definition demo_gw_result :: fields where
  "demo_gw_result = lit_fields [(''type'', str ''result''), (''deliveryId'', JStr demo_hash), (''routingEnvelope'', JStr demo_token),
     (''outcome'', obj [(''status'', str ''ok''), (''result'', JNull)])]"

definition demo_claims :: fields where
  "demo_claims = lit_fields [(''machineId'', JStr demo_id), (''runtimeGeneration'', JStr demo_id), (''requestId'', str ''r1''),
     (''requestHash'', JStr demo_hash), (''callback'', obj [(''receiver'', str ''tool'')]), (''kind'', str ''routing''),
     (''aud'', str ''managed-execution-v1'')]"

definition demo_receipt :: fields where
  "demo_receipt = lit_fields [(''status'', str ''accepted''), (''deliveryId'', JStr demo_hash), (''requestId'', str ''r1''),
     (''requestHash'', JStr demo_hash), (''resultHash'', JStr demo_hash)]"

definition demo_parse :: "jstring \<Rightarrow> json res" where
  "demo_parse s = (if s = lit ''R'' then Inr demo_register else if s = lit ''H'' then Inr (JObj demo_hello_message)
     else if s = lit ''S'' then Inr demo_submission else if s = lit ''A'' then Inr (JObj demo_accepted)
     else if s = lit ''D'' then Inr (JObj demo_gw_result) else if s = lit ''E'' then Inr (JObj demo_claims)
     else if s = lit ''T'' then Inr (obj [(''tool'', str ''TOOL'')]) else Inl (SyntaxError []))"

definition demo_env :: gateway_env where
  "demo_env = \<lparr>ge_owns = (\<lambda>_. True), ge_MANAGEMENT_SECRET = Some (replicate 32 65), ge_CREDENTIAL_SIGNING_SECRET = Some (replicate 32 66),
     ge_ROUTING_SIGNING_SECRET = Some (replicate 32 67), ge_ROUTING_PREVIOUS_SIGNING_SECRET = None, ge_CALLBACK_ROUTES = lit ''T'',
     ge_MAX_PENDING_SUBMISSIONS = None, ge_MAX_CONCURRENT_DELIVERIES = None, ge_MAX_BUFFERED_BYTES = None, ge_ACCEPT_TIMEOUT_MS = None,
     ge_CALLBACK_TIMEOUT_MS = None, ge_receives = (\<lambda>_. True), ge_sha = (\<lambda>_. demo_hash), ge_hmac = (\<lambda>_ _. replicate 32 9),
     ge_JSON_parse = demo_parse\<rparr>"

definition demo_request :: "string \<Rightarrow> string \<Rightarrow> jstring \<Rightarrow> byte list \<Rightarrow> input" where
  "demo_request method path token b = Http_request 5 None None \<lparr>rq_method = lit method, rq_path = lit path, rq_search = [],
     rq_machine = Some demo_id, rq_authorization = Some (lit ''Bearer '' @ token), rq_upgrade = Some (lit ''websocket''),
     rq_contentType = Some (lit ''application/json''), rq_body = Body [b]\<rparr>"

definition demo_secret :: "string \<Rightarrow> jstring" where
  "demo_secret kind = lit kind @ lit ''.'' @ demo_id @ lit ''.1.'' @ encode64 (replicate 32 9)"

definition demo_setup :: "input list" where
  "demo_setup = [demo_request ''POST'' ''/register'' (replicate 32 65) [82]]"

definition demo_inputs :: "input list" where
  "demo_inputs = demo_setup @ [demo_request ''GET'' ''/connect'' (demo_secret ''md1'') [], Frame 6 0 (Text_frame (lit ''H'')),
     demo_request ''POST'' ''/requests'' (demo_secret ''me1'') [], Token_hashed 1, Body_chunk 1 [83], Body_end 1,
     Signed 1 demo_id, Frame 7 0 (Text_frame (lit ''A'')), Accept_wait 1 False,
     Frame 8 0 (Text_frame (lit ''D'')), Envelope_checked 2, Receiver_reply 2 (Returned (Some (JObj demo_receipt)))]"

section \<open>The validators on them\<close>

lemma d_env: "ge_owns demo_env i" "ge_JSON_parse demo_env = demo_parse" "ge_sha demo_env t = demo_hash"
  by (simp_all add: demo_env_def)

lemma d_str: "str a = str b \<longleftrightarrow> a = b" "str a = JStr (lit b) \<longleftrightarrow> a = b"
  by (auto simp: str_def)

lemma d_object: "gw_object (Some (obj kvs)) (Some ks) = (if \<forall>k \<in> set kvs. fst k \<in> set ks then Inr (lit_fields kvs) else gw_invalid ''Unexpected field.'')"
  "gw_object (Some (JObj (lit_fields kvs))) (Some ks) = (if \<forall>k \<in> set kvs. fst k \<in> set ks then Inr (lit_fields kvs) else gw_invalid ''Unexpected field.'')"
  "gw_object (Some (obj kvs)) None = Inr (lit_fields kvs)" "gw_object (Some (JObj r)) None = Inr r"
  by (auto simp: gw_object_def obj_def lit_fields_def)

lemma d_field: "field (lit_fields kvs) k = map_of kvs k"
  by (induction kvs) (auto simp: field_def lit_fields_def)

lemmas d_shapes = d_env d_str d_object d_field

lemma d_texts: "gw_uuid (Some (JStr demo_id)) = Inr demo_id" "gw_digest (Some (JStr demo_hash)) = Inr demo_hash"
  "gw_text (Some (str ''box'')) 128 = Inr (lit ''box'')" "gw_identity (Some (str ''r1'')) = Inr (lit ''r1'')"
  "gw_identity (Some (str ''tool'')) = Inr (lit ''tool'')" "operationName (Some (str ''execution.exec'')) = Inr (lit ''execution.exec'')"
  by code_simp+

lemma d_sizes: "json_bytes (obj []) = 2" "json_bytes JNull = 4" "json_bytes (obj [(''status'', str ''ok''), (''result'', JNull)]) = 29"
  "utf8Bytes (lit ''H'') = 1" "utf8Bytes (lit ''A'') = 1" "utf8Bytes (lit ''D'') = 1"
  by code_simp+

lemma d_secrets: "bearer (Some (lit ''Bearer '' @ demo_secret ''md1'')) = Inr (demo_secret ''md1'')"
  "bearer (Some (lit ''Bearer '' @ demo_secret ''me1'')) = Inr (demo_secret ''me1'')"
  "machineSecret (demo_secret ''md1'') Daemon_secret = Inr (demo_id, 1)" "machineSecret (demo_secret ''me1'') Execution_secret = Inr (demo_id, 1)"
  "issueMachineSecret (ge_hmac demo_env) (ge_CREDENTIAL_SIGNING_SECRET demo_env) demo_id Daemon_secret 1 = Inr (demo_secret ''md1'')"
  "issueMachineSecret (ge_hmac demo_env) (ge_CREDENTIAL_SIGNING_SECRET demo_env) demo_id Execution_secret 1 = Inr (demo_secret ''me1'')"
  by code_simp+

lemma d_http: "authenticateManagement (\<lambda>_. demo_hash) (Some (lit ''Bearer '' @ replicate 32 65)) (Some (replicate 32 65)) = Inr ()"
  "readJson demo_parse (Some (lit ''application/json'')) (Body [[82]]) 16384 = Inr demo_register"
  "map lower_unit (lit ''websocket'') = lit ''websocket''" "json_content (Some (lit ''application/json'')) = Inr ()"
  "parse_body demo_parse [83] = Inr demo_submission"
  by code_simp+

lemma d_management: "authenticateManagement (ge_sha demo_env) (Some (lit ''Bearer '' @ replicate 32 65)) (ge_MANAGEMENT_SECRET demo_env) = Inr ()"
  using d_http(1) by (simp add: demo_env_def)

lemma d_limits: "pending_limit demo_env = Inr 8" "buffer_limit demo_env = Inr 16777216" "delivery_limit demo_env = Inr 16"
  "configured (ge_ACCEPT_TIMEOUT_MS demo_env) 5000 10 30000 = Inr 5000" "configured (ge_CALLBACK_TIMEOUT_MS demo_env) 8000 10 30000 = Inr 8000"
  "accept_chunk MAX_HTTP_BYTES [] [83] = Inr [83]" "\<not> MAX_FRAME_BYTES < Suc 0" "MAX_FRAME_BYTES \<noteq> 0" "0 < MAX_FRAME_BYTES"
  by (simp_all add: pending_limit_def buffer_limit_def delivery_limit_def demo_env_def configured_def accept_chunk_def MAX_HTTP_BYTES_def
    MAX_FRAME_BYTES_def MAX_NATIVE_BYTES_def)

definition demo_hello :: hello where
  "demo_hello = \<lparr>he_runtimeGeneration = demo_id, he_daemonVersion = lit ''1'', he_os = lit ''linux'', he_arch = lit ''arm'',
     he_operations = [lit ''execution.exec'']\<rparr>"

definition demo_gw_body :: submission where
  "demo_gw_body = \<lparr>sm_requestId = lit ''r1'', sm_runtimeGeneration = demo_id, sm_operation = lit ''execution.exec'', sm_params = obj [],
     sm_callback = \<lparr>cb_receiver = lit ''tool'', cb_context = JNull\<rparr>\<rparr>"

lemma d_json_value: "bindR (demo_parse (lit ''H'')) (\<lambda>v. bindR (jsonValue (Some v)) (\<lambda>v. gw_object (Some v) None)) = Inr demo_hello_message"
  "bindR (demo_parse (lit ''A'')) (\<lambda>v. bindR (jsonValue (Some v)) (\<lambda>v. gw_object (Some v) None)) = Inr demo_accepted"
  "bindR (demo_parse (lit ''D'')) (\<lambda>v. bindR (jsonValue (Some v)) (\<lambda>v. gw_object (Some v) None)) = Inr demo_gw_result"
  "bindR (demo_parse (lit ''E'')) (\<lambda>v. bindR (jsonValue (Some v)) (\<lambda>v. gw_object (Some v) None)) = Inr demo_claims"
  by (simp_all add: demo_parse_def jsonValue_def demo_hello_message_def demo_accepted_def demo_gw_result_def demo_claims_def lit_fields_def obj_def str_def gw_object_def)

lemma d_hello: "parse_hello (Some (JObj demo_hello_message)) = Inr demo_hello"
  by code_simp

lemma d_receiver: "receiver demo_env (lit ''tool'') = Inr (lit ''TOOL'')"
  by code_simp

lemma d_callback: "parse_callback (Some (obj [(''receiver'', str ''tool'')])) = Inr \<lparr>cb_receiver = lit ''tool'', cb_context = JNull\<rparr>"
  by (simp add: parse_callback_def d_shapes d_texts d_sizes)

lemma d_submission: "parse_submission (Some demo_submission) = Inr demo_gw_body"
  using d_sizes(1) by (simp add: parse_submission_def demo_submission_def d_shapes d_texts d_callback jsonValue_def lit_fields_def demo_gw_body_def
    MAX_NATIVE_BYTES_def obj_def [of "[]"])

definition demo_envelope :: jstring where
  "demo_envelope = (case prepare_request demo_env demo_id [83] of Inr (b, h, e) \<Rightarrow> e | _ \<Rightarrow> [])"

lemma d_prepare: "prepare_request demo_env demo_id [83] = Inr (demo_gw_body, demo_hash, demo_envelope)"
proof -
  have "jsonValue (Some (submit_hashed demo_id demo_gw_body)) = Inr (submit_hashed demo_id demo_gw_body)"
    by (simp add: jsonValue_def submit_hashed_def obj_def demo_gw_body_def callback_json_def submission_fields_def)
  moreover have "signing_key (ge_ROUTING_SIGNING_SECRET demo_env) = Inr (replicate 32 67)" by code_simp
  moreover have "cb_receiver (sm_callback demo_gw_body) = lit ''tool''" by (simp add: demo_gw_body_def)
  ultimately have "\<exists>e. prepare_request demo_env demo_id [83] = Inr (demo_gw_body, demo_hash, e)"
    by (simp add: prepare_request_def d_env d_http d_submission d_receiver signRoutingEnvelope_def Let_def hashJson_def)
  then show ?thesis by (auto simp: demo_envelope_def)
qed

section \<open>The delivery\<close>

definition demo_gw_event :: completion_event where
  "demo_gw_event = \<lparr>ev_envelope = \<lparr>re_machineId = demo_id, re_runtimeGeneration = demo_id, re_requestId = lit ''r1'', re_requestHash = demo_hash,
     re_callback = \<lparr>cb_receiver = lit ''tool'', cb_context = JNull\<rparr>\<rparr>, ev_deliveryId = demo_hash, ev_resultHash = demo_hash, ev_outcome = NativeOk JNull\<rparr>"

lemma d_token: "gw_text (Some (JStr demo_token)) 32768 = Inr demo_token"
  "verifyRoutingEnvelope (ge_hmac demo_env) demo_parse (ge_ROUTING_SIGNING_SECRET demo_env) (ge_ROUTING_PREVIOUS_SIGNING_SECRET demo_env) demo_token = Inr demo_claims"
proof -
  have text': "demo_token \<noteq> []" "\<not> list_ex control_unit demo_token" and len: "length demo_token = 83" by code_simp+
  then show "gw_text (Some (JStr demo_token)) 32768 = Inr demo_token" by (simp add: gw_text_def)
  have parts: "split_on 0x2E demo_token = [envelope_header, lit ''RQ'', encode64 (replicate 32 9)]" by code_simp
  have decode: "decode64 (encode64 (replicate 32 9)) = Some (replicate 32 9)" "encode64 (replicate 32 9) \<noteq> []" "decode64 (lit ''RQ'') = Some [69]"
    "decode_fatal [69] = Some (lit ''E'')" by code_simp+
  have key: "signing_key (Some (replicate 32 67)) = Inr (replicate 32 67)" by code_simp
  have parsed: "demo_parse (lit ''E'') = Inr (JObj demo_claims)" by (simp add: demo_parse_def)
  have "bindR (jsonValue (Some (JObj demo_claims))) (\<lambda>v. gw_object (Some v) None) = Inr demo_claims"
    using d_json_value(4) unfolding parsed by simp
  then have "envelope_claims demo_parse (lit ''RQ'') = (if field demo_claims ''kind'' = Some (str ''routing'')
      \<and> field demo_claims ''aud'' = Some (str ''managed-execution-v1'') then Some demo_claims else None)"
    by (simp only: envelope_claims_def decode parsed option.case sum.case)
  then have claims: "envelope_claims demo_parse (lit ''RQ'') = Some demo_claims" by (simp add: demo_claims_def d_field)
  show "verifyRoutingEnvelope (ge_hmac demo_env) demo_parse (ge_ROUTING_SIGNING_SECRET demo_env) (ge_ROUTING_PREVIOUS_SIGNING_SECRET demo_env) demo_token = Inr demo_claims"
    using len by (simp add: verifyRoutingEnvelope_def parts decode key claims signature_valid_def demo_env_def Let_def)
qed

lemma d_completion:
  assumes "de_attachment t = a" "at_machineId a = demo_id" "de_deliveryId t = demo_hash"
  shows "completion demo_env t demo_token (Some (obj [(''status'', str ''ok''), (''result'', JNull)])) = Inr demo_gw_event"
  using assms by (simp add: completion_def d_env d_token routingFields_def demo_claims_def d_shapes d_texts d_callback parse_outcome_def
    jsonValue_def outcome_native_json_def d_sizes hashJson_def MAX_NATIVE_BYTES_def demo_gw_event_def) (simp add: obj_def str_def)

section \<open>The run\<close>

lemma d_body: "sm_requestId demo_gw_body = lit ''r1''" "sm_runtimeGeneration demo_gw_body = demo_id" "sm_operation demo_gw_body = lit ''execution.exec''"
  "cb_receiver (re_callback (ev_envelope demo_gw_event)) = lit ''tool''"
  by (simp_all add: demo_gw_body_def demo_gw_event_def)

lemma d_receipt: "check_receipt demo_gw_event (Returned (Some (JObj demo_receipt))) = Inr ()"
  by (simp add: check_receipt_def receipt_matches_def demo_receipt_def demo_gw_event_def d_shapes)

lemmas d_facts = d_shapes d_texts d_sizes d_secrets d_http d_management d_limits d_json_value d_hello d_receiver d_prepare d_token d_completion d_body d_receipt

lemmas d_machine = machine_run_def machine_step_def machine_fetch_def demo_request_def fetch_id_def act_defs new_machine_def Let_def emit_def
  registry_get_def authorize_Inr authorize_def register_request_def registry_register_def new_machine_row_def connectDaemon_def registry_connected_def
  getWebSockets_def ws_send_def find_socket_def row_defs webSocketMessage_def attemptA_def frame_guard_def current_def serializeAttachment_def
  update_socket_def new_attachment_def reserve_def handle_text_def hello_message_def release_def registry_metadata_def live_socket_def readyState_def

lemmas d_tasks = submit_begin_def on_submit_def find_submit_def submit_step_def failing_submit_def submit_authorized_def submit_chunk_def submit_prepared_def
  submit_dispatch_def update_submit_def set_pending_def acceptance_message_def matches_pending_def settle_task_def settle_phase_def submit_waited_def
  delete_pending_def end_submit_def deliver_begin_def on_deliver_def find_deliver_def deliver_step_def failing_deliver_def deliver_verified_def
  deliver_replied_def end_deliver_def

lemma d_kind: "field demo_hello_message ''type'' = Some (str ''hello'')"
  by (simp add: demo_hello_message_def d_field)

lemmas d_messages = demo_register_def d_kind demo_accepted_def demo_gw_result_def

lemma demo_answers:
  "\<exists>a p. Respond 1 (accepted_response a p) \<in> set (gm_outputs (machine_run demo_env demo_inputs)) \<and> pe_requestId p = lit ''r1''"
  "Send 0 (ack_frame demo_gw_event) \<in> set (gm_outputs (machine_run demo_env demo_inputs))"
  "\<exists>s \<in> set (gm_sockets (machine_run demo_env demo_inputs)). readyState s = OPEN"
  by (simp_all add: d_machine d_tasks d_facts demo_inputs_def demo_setup_def demo_hello_def d_messages) force

definition demo_delete :: "input list" where
  "demo_delete = demo_setup @ [demo_request ''DELETE'' ''/'' (replicate 32 65) []]"

lemma demo_deleted: "\<exists>r. gm_registry (machine_run demo_env demo_delete) = Some r \<and> mr_deleted r \<and> mr_machine_id r = demo_id"
  by (simp add: d_machine d_facts demo_delete_def demo_setup_def d_messages delete_request_def registry_delete_def closeConnections_def)

end
