(* ===== verification/GatewayProperties.thy ===== *)
theory GatewayProperties
  imports GatewayHistory GatewayExample
begin

text \<open>
  The execution gateway's machine object under any sequence of inputs: its invariant, its promises to callers and to the
  daemon, and the lasting effect of a rotation or a deletion.
\<close>

section \<open>Runs\<close>

lemma history_mono:
  assumes h: "history env is m" and sub: "set is \<subseteq> set js"
  shows "history env js m"
proof -
  have seen: "receipt_seen js xs ev" if "receipt_seen is xs ev" for xs ev using that sub unfolding receipt_seen_def by blast
  have data: "own_data js k data" if "own_data is k data" for k data using that sub unfolding own_data_def by blast
  have own: "own_request env js k b rh e" if "own_request env is k b rh e" for k b rh e
    using that data unfolding own_request_def by blast
  have sent: "request_sent env js xs sid d p" if "request_sent env is xs sid d p" for xs sid d p
    using that own sub unfolding request_sent_def by blast
  have conf: "confirmed env js xs k r" if "confirmed env is xs k r" for xs k r using that sent sub unfolding confirmed_def by blast
  have task: "task_history env js xs t" if "task_history env is xs t" for xs t
    using that data own conf by (auto simp: task_history_def split: submit_phase.splits option.splits sum.splits)
  have "\<exists>s \<in> set (gm_sockets m). at_epoch (so_attachment s) = pe_epoch p \<and> request_sent env js (gm_outputs m) (so_id s) d p"
    if "(d, p) \<in> set (gm_pending m)" for d p using historyD(3) [OF h that] sent by blast
  then show ?thesis unfolding history_def using seen [OF historyD(1) [OF h]] historyD(2) [OF h] task [OF historyD(4) [OF h]] conf [OF historyD(5) [OF h]]
    by auto
qed

lemma machine_run_snoc: "machine_run env (is @ [i]) = machine_step env i (machine_run env is)"
  by (simp add: machine_run_def)

lemma machine_run_append: "machine_run env (is @ js) = fold (machine_step env) js (machine_run env is)"
  by (simp add: machine_run_def)

lemma run_ok: "machine_ok env 0 (machine_run env is) \<and> history env is (machine_run env is)"
proof (induction "is" rule: rev_induct)
  case Nil
  have "machine_ok env 0 new_machine"
    using cap_nonneg [of env] by (simp add: machine_ok_def machine_base_def tasks_ok_def links_ok_def waits_ok_def unclosed_ok_def waits_current_def unsettled_def new_machine_def)
  then show ?case by (simp add: machine_run_def history_def new_machine_def)
next
  case (snoc i js)
  then have "machine_ok env 0 (machine_run env (js @ [i]))" by (simp add: machine_run_snoc machine_step_ok)
  moreover have "history env (js @ [i]) (machine_run env js)" using snoc history_mono [of env js _ "js @ [i]"] by auto
  ultimately show ?case using snoc history_step [of env "machine_run env js" "js @ [i]" i] by (simp add: machine_run_snoc)
qed

lemma pending_within:
  assumes ok: "machine_ok env 0 m"
  shows "length (gm_pending m) \<le> length (gm_submits m)"
proof -
  have w: "distinct (map fst (gm_pending m))" and d: "distinct (map su_task (gm_submits m))"
    and each: "\<And>d p. (d, p) \<in> set (gm_pending m) \<Longrightarrow> \<exists>t \<in> set (gm_submits m). su_task t = pe_task p \<and> (\<exists>r. su_phase t = Waiting d r)"
    using ok unfolding machine_ok_def machine_base_def waits_ok_def tasks_ok_def by blast+
  let ?f = "\<lambda>(d, p). THE t. t \<in> set (gm_submits m) \<and> su_task t = pe_task p"
  have f: "?f (d, p) \<in> set (gm_submits m) \<and> (\<exists>r. su_phase (?f (d, p)) = Waiting d r)" if dp: "(d, p) \<in> set (gm_pending m)" for d p
  proof -
    obtain t where t: "t \<in> set (gm_submits m)" "su_task t = pe_task p" "\<exists>r. su_phase t = Waiting d r" using each [OF dp] by blast
    then have "?f (d, p) = t" using distinct_key [OF d] by (auto intro!: the_equality)
    with t show ?thesis by simp
  qed
  have "inj_on ?f (set (gm_pending m))"
  proof (rule inj_onI, clarify)
    fix d p d' p' assume in1: "(d, p) \<in> set (gm_pending m)" and in2: "(d', p') \<in> set (gm_pending m)"
      and eq: "(THE t. t \<in> set (gm_submits m) \<and> su_task t = pe_task p) = (THE t. t \<in> set (gm_submits m) \<and> su_task t = pe_task p')"
    have "d = d'" using f [OF in1] f [OF in2] eq by auto
    then show "d = d' \<and> p = p'" using w in1 in2 by (metis eq_key_imp_eq_value)
  qed
  then have "card (set (gm_pending m)) \<le> card (set (gm_submits m))" using f by (intro card_inj_on_le) auto
  moreover have "card (set (gm_pending m)) = length (gm_pending m)" using w by (intro distinct_card) (metis distinct_zipI1 zip_map_fst_snd)
  moreover have "card (set (gm_submits m)) \<le> length (gm_submits m)" by (rule card_length)
  ultimately show ?thesis by linarith
qed

section \<open>The invariant\<close>

text \<open>C31: Whatever happens to a machine object: the counters are the numbers of submissions and deliveries in flight and the bytes they
  hold, within the configured limits, and there are no more pending waits than submissions. At most one socket is
  open; it has the epoch and the daemon secret version of the row, and the machine is not deleted. A wait that is not
  settled belongs to the current epoch, and the end of its connection has not been reported: no caller is left waiting
  for a connection that has ended or was replaced.\<close>

theorem gateway_invariant:
  assumes "m = machine_run env is"
  shows "gm_submissions m = int (length (gm_submits m)) \<and> gm_submissions m \<le> cap (pending_limit env)
    \<and> gm_deliveries m = int (length (gm_delivers m)) \<and> gm_deliveries m \<le> cap (delivery_limit env)
    \<and> gm_bufferedBytes m = sum_list (map su_reserved (gm_submits m)) + sum_list (map de_reserved (gm_delivers m))
    \<and> 0 \<le> gm_bufferedBytes m \<and> gm_bufferedBytes m \<le> cap (buffer_limit env)
    \<and> length (gm_pending m) \<le> length (gm_submits m)
    \<and> (\<forall>s \<in> set (gm_sockets m). readyState s = OPEN \<longrightarrow>
        (\<exists>row. gm_registry m = Some row \<and> \<not> mr_deleted row \<and> at_machineId (so_attachment s) = mr_machine_id row
          \<and> at_epoch (so_attachment s) = mr_connection_epoch row \<and> at_credentialVersion (so_attachment s) = mr_daemon_version row)
        \<and> (\<forall>s' \<in> set (gm_sockets m). readyState s' = OPEN \<longrightarrow> s' = s))
    \<and> (\<forall>machineId epoch. unsettled m machineId epoch \<longrightarrow> connection_open m machineId epoch
        \<and> (\<exists>row. gm_registry m = Some row \<and> \<not> mr_deleted row \<and> mr_connection_epoch row = epoch))"
proof -
  have ok: "machine_ok env 0 m" using run_ok assms by blast
  then have t: "tasks_ok env 0 m" and l: "links_ok m" and w: "waits_ok m" "waits_current m" and u: "unclosed_ok m"
    by (simp_all add: machine_ok_def machine_base_def)
  have nonneg: "0 \<le> sum_list (map su_reserved (gm_submits m))" "0 \<le> sum_list (map de_reserved (gm_delivers m))"
    using t by (auto simp: tasks_ok_def intro!: sum_list_nonneg)
  have cur: "socket_current (gm_registry m) s \<and> socket_ok (gm_registry m) s" if "s \<in> set (gm_sockets m)" "readyState s = OPEN" for s
    using that u l by (auto simp: unclosed_ok_def links_ok_def list_all_iff readyState_def split: if_splits)
  have one: "s' = s" if "s \<in> set (gm_sockets m)" "readyState s = OPEN" "s' \<in> set (gm_sockets m)" "readyState s' = OPEN" for s s'
  proof -
    have "at_epoch (so_attachment s') = at_epoch (so_attachment s)" using cur [OF that(1,2)] cur [OF that(3,4)] by (auto simp: socket_current_def)
    moreover have "distinct (map (\<lambda>s. at_epoch (so_attachment s)) (gm_sockets m))" using l by (simp add: links_ok_def)
    ultimately show ?thesis using distinct_key [of "\<lambda>s. at_epoch (so_attachment s)" "gm_sockets m" s' s] that by blast
  qed
  have row: "\<exists>row. gm_registry m = Some row \<and> \<not> mr_deleted row \<and> at_machineId (so_attachment s) = mr_machine_id row
      \<and> at_epoch (so_attachment s) = mr_connection_epoch row \<and> at_credentialVersion (so_attachment s) = mr_daemon_version row"
    if "s \<in> set (gm_sockets m)" "readyState s = OPEN" for s
    using cur [OF that] by (auto simp: socket_current_def socket_ok_def)
  have "connection_open m i e \<and> (\<exists>row. gm_registry m = Some row \<and> \<not> mr_deleted row \<and> mr_connection_epoch row = e)" if "unsettled m i e" for i e
    using that w unfolding waits_ok_def waits_current_def by blast
  with t nonneg one row pending_within [OF ok] show ?thesis unfolding tasks_ok_def by auto
qed

theorem gateway_invariant_witness:
  "gm_submissions (machine_run demo_env demo_inputs) = int (length (gm_submits (machine_run demo_env demo_inputs)))
    \<and> (\<exists>s \<in> set (gm_sockets (machine_run demo_env demo_inputs)). readyState s = OPEN
      \<and> (\<exists>row. gm_registry (machine_run demo_env demo_inputs) = Some row \<and> at_epoch (so_attachment s) = mr_connection_epoch row))"
  using gateway_invariant [of "machine_run demo_env demo_inputs" demo_env demo_inputs, OF refl] demo_answers(3) by blast

section \<open>Acknowledgement and acceptance\<close>

text \<open>C32: No durable acknowledgement before the receiver's receipt: when a \<open>result_ack\<close> frame has been sent, a
  receiver was called with that delivery, and its reply to that call was a receipt with the delivery, request and
  hashes of the frame. And a submission is answered 202 only for its own request: a body made of that submission's own chunks
  was read and signed, the request frame with it was sent under the dispatch ID drawn for that submission, and the daemon has
  sent, on that same connection, an acceptance with the dispatch, request, hash and generation of that frame, which the answer
  repeats.\<close>

theorem acknowledged_after_receipt:
  assumes "m = machine_run env is"
  shows "(Send sid (ack_frame ev) \<in> set (gm_outputs m) \<longrightarrow>
      (\<exists>k r ev'. Receiver_reply k (Returned (Some (JObj r))) \<in> set is \<and> receipt_matches ev r
        \<and> Call_receiver k ev' \<in> set (gm_outputs m) \<and> ack_frame ev' = ack_frame ev))
    \<and> (Respond k' (accepted_response a p) \<in> set (gm_outputs m) \<longrightarrow>
      (\<exists>cs i b e d sid now s p'. (\<forall>c \<in> set cs. Body_chunk k' c \<in> set is)
        \<and> prepare_request env i (concat cs) = Inr (b, pe_requestHash p, e)
        \<and> Signed k' d \<in> set is \<and> Send sid (request_frame d b (pe_requestHash p) e) \<in> set (gm_outputs m)
        \<and> Frame now sid (Text_frame s) \<in> set is \<and> accepted_message env s d p'
        \<and> pe_requestId p' = pe_requestId p \<and> pe_requestHash p' = pe_requestHash p \<and> pe_runtimeGeneration p' = pe_runtimeGeneration p
        \<and> sm_requestId b = pe_requestId p \<and> sm_runtimeGeneration b = pe_runtimeGeneration p))"
proof -
  have h: "history env is m" using run_ok assms by blast
  have "\<exists>cs i b e d sid now s p'. (\<forall>c \<in> set cs. Body_chunk k' c \<in> set is) \<and> prepare_request env i (concat cs) = Inr (b, pe_requestHash p, e)
        \<and> Signed k' d \<in> set is \<and> Send sid (request_frame d b (pe_requestHash p) e) \<in> set (gm_outputs m)
        \<and> Frame now sid (Text_frame s) \<in> set is \<and> accepted_message env s d p'
        \<and> pe_requestId p' = pe_requestId p \<and> pe_requestHash p' = pe_requestHash p \<and> pe_runtimeGeneration p' = pe_runtimeGeneration p
        \<and> sm_requestId b = pe_requestId p \<and> sm_runtimeGeneration b = pe_runtimeGeneration p" if "Respond k' (accepted_response a p) \<in> set (gm_outputs m)"
  proof -
    have "accepting (accepted_response a p)" by (auto simp: accepting_def)
    with historyD(5) [OF h that] obtain now sid s d a' p' where c: "Frame now sid (Text_frame s) \<in> set is" "accepted_message env s d p'"
      "request_sent env is (gm_outputs m) sid d p'" "pe_task p' = k'" "accepted_response a p = accepted_response a' p'"
      unfolding confirmed_def by blast
    have eq: "pe_requestId p' = pe_requestId p" "pe_requestHash p' = pe_requestHash p" "pe_runtimeGeneration p' = pe_runtimeGeneration p"
      using c(5) by (simp_all add: accepted_response_def jsonResponse_def obj_def)
    from c(3) show ?thesis unfolding request_sent_def own_request_def own_data_def eq c(4) using c(1,2) eq by blast
  qed
  with historyD(1) [OF h] show ?thesis unfolding receipt_seen_def by blast
qed

theorem acknowledged_after_receipt_witness:
  "(\<exists>k r. Receiver_reply k (Returned (Some (JObj r))) \<in> set demo_inputs \<and> receipt_matches demo_gw_event r)
    \<and> (\<exists>d now sid s p'. Signed 1 d \<in> set demo_inputs \<and> Frame now sid (Text_frame s) \<in> set demo_inputs
        \<and> accepted_message demo_env s d p' \<and> pe_requestId p' = lit ''r1'')"
proof -
  obtain a p where p: "Respond 1 (accepted_response a p) \<in> set (gm_outputs (machine_run demo_env demo_inputs))" "pe_requestId p = lit ''r1''"
    using demo_answers(1) by blast
  note both = acknowledged_after_receipt [of "machine_run demo_env demo_inputs" demo_env demo_inputs 0 demo_gw_event 1 a p, OF refl]
  have "\<exists>k r. Receiver_reply k (Returned (Some (JObj r))) \<in> set demo_inputs \<and> receipt_matches demo_gw_event r"
    using both [THEN conjunct1, THEN mp, OF demo_answers(2)] by blast
  moreover have "\<exists>d now sid s p'. Signed 1 d \<in> set demo_inputs \<and> Frame now sid (Text_frame s) \<in> set demo_inputs
      \<and> accepted_message demo_env s d p' \<and> pe_requestId p' = pe_requestId p"
    using both [THEN conjunct2, THEN mp, OF p(1)] by blast
  ultimately show ?thesis using p(2) by simp
qed

section \<open>Rotation and deletion last\<close>

definition grown :: "registry \<Rightarrow> machine \<Rightarrow> bool" where
  "grown reg m \<longleftrightarrow> registry_grows reg (gm_registry m)"

lemma grown_modify: "(\<And>m. registry_grows (gm_registry m) (gm_registry (f m))) \<Longrightarrow> preserves (grown reg) (modifyA f)"
  by (rule preserves_modifyA) (auto simp: grown_def intro: registry_grows_trans)

lemma grown_same: "(\<And>m. gm_registry (f m) = gm_registry m) \<Longrightarrow> preserves (grown reg) (modifyA f)"
  by (rule grown_modify) simp

lemma settles_grown: "within settles a \<Longrightarrow> preserves (grown reg) a"
proof (rule preservesI)
  fix s r t assume w: "within settles a" and g: "grown reg s" and "a s = (r, t)"
  then have "settles s t" using withinD by metis
  then have "rel_option row_le (gm_registry s) (gm_registry t)" by (simp add: settles_by_def)
  then have "registry_grows (gm_registry s) (gm_registry t)"
    by (auto simp: registry_grows_def option_rel_Some1 row_grows_def row_le_def row_defs split: secret_kind.splits)
  with g show "grown reg t" by (auto simp: grown_def intro: registry_grows_trans)
qed

lemma pres_attempt: "preserves P a \<Longrightarrow> preserves P (attemptA a)"
  unfolding attemptA_def by (intro preserves_catchA preserves_bindA) (auto intro: preserves_basic)

lemma pres_case_prod: "(\<And>a b. preserves P (f a b)) \<Longrightarrow> preserves P (case x of (a, b) \<Rightarrow> f a b)"
  by (cases x) auto

lemma grown_simple:
  "preserves (grown reg) (emit x)" "preserves (grown reg) (reserve env n)" "preserves (grown reg) (release n)" "preserves (grown reg) (ws_send sid f)"
  "preserves (grown reg) (serializeAttachment sid a)" "preserves (grown reg) (current sid)" "preserves (grown reg) (end_submit t r)"
  "preserves (grown reg) (end_deliver u)" "preserves (grown reg) (modifyA (update_submit k g))" "preserves (grown reg) (modifyA (delete_pending d))"
  "preserves (grown reg) (modifyA (set_pending d p))" "preserves (grown reg) (modifyA (settle_task k res))"
  unfolding emit_def reserve_def release_def ws_send_def serializeAttachment_def current_def end_submit_def end_deliver_def whenA_def Let_def
  by (intro pres_intros grown_same; simp add: update_socket_def update_submit_def delete_pending_def set_pending_def settle_task_def)+

lemmas grown_settles = settles_grown [OF settles_rejectWaiters] settles_grown [OF settles_ws_close] settles_grown [OF settles_closeConnections]

lemma pres_wp: "preserves P a \<Longrightarrow> P m \<Longrightarrow> wp a (\<lambda>_. P) (\<lambda>_. P) m"
  by (auto simp: wp_def split: prod.splits sum.splits dest: preservesD)

lemma wp_pres: "(\<And>m. P m \<Longrightarrow> wp a (\<lambda>_. P) (\<lambda>_. P) m) \<Longrightarrow> preserves P a"
  by (rule preservesI) (fastforce simp: wp_def split: prod.splits sum.splits)

lemma grown_requests:
  assumes "grown reg m"
  shows "wp (register_request env now pong id' rq) (\<lambda>_. grown reg) (\<lambda>_. grown reg) m" "wp (rotate_request env now seen id' rq) (\<lambda>_. grown reg) (\<lambda>_. grown reg) m"
    "wp (delete_request env now id' rq) (\<lambda>_. grown reg) (\<lambda>_. grown reg) m" "wp (connectDaemon env now id' rq) (\<lambda>_. grown reg) (\<lambda>_. grown reg) m"
proof -
  have step: "grown reg (m\<lparr>gm_registry := reg'\<rparr>)" if "registry_grows (gm_registry m) reg'" for reg'
    using assms that by (auto simp: grown_def intro: registry_grows_trans)
  note close = pres_wp [OF settles_grown [OF settles_closeConnections], of reg]
  show "wp (register_request env now pong id' rq) (\<lambda>_. grown reg) (\<lambda>_. grown reg) m"
    using assms by (auto simp: register_request_def wp_simps Let_def split: prod.splits sum.splits intro!: step intro: registry_register_grows)
  show "wp (rotate_request env now seen id' rq) (\<lambda>_. grown reg) (\<lambda>_. grown reg) m"
    using assms by (auto simp: rotate_request_def wp_simps wp_retA_eta Let_def split: prod.splits sum.splits intro!: step close intro: registry_rotate_grows)
  show "wp (delete_request env now id' rq) (\<lambda>_. grown reg) (\<lambda>_. grown reg) m"
    using assms by (auto simp: delete_request_def wp_simps wp_retA_eta Let_def split: prod.splits sum.splits intro!: step close intro: registry_delete_grows)
  have body: "preserves (grown reg) (bindA (forA old (\<lambda>s. bindA (rejectWaiters id' (at_epoch (so_attachment s))) (\<lambda>_. ws_close (so_id s) 4001)))
      (\<lambda>_. bindA (ws_send j f) (\<lambda>_. retA upgraded)))" for old j f
    by (intro pres_intros grown_settles grown_simple)
  have loop: "wp (forA old (\<lambda>s. bindA (rejectWaiters id' (at_epoch (so_attachment s))) (\<lambda>_. ws_close (so_id s) 4001)))
      (\<lambda>a. wp (bindA (ws_send j f) (\<lambda>_. retA upgraded)) (\<lambda>_. grown reg) (\<lambda>_. grown reg)) (\<lambda>_. grown reg) m'" if "grown reg m'" for old j f m'
    using pres_wp [OF body that] by (simp only: wp_bindA)
  have add: "grown reg (m'\<lparr>gm_next := k, gm_sockets := ss\<rparr>) = grown reg m'" for m' k ss by (simp add: grown_def)
  show "wp (connectDaemon env now id' rq) (\<lambda>_. grown reg) (\<lambda>_. grown reg) m"
    using assms by (auto simp: connectDaemon_def wp_simps add Let_def split: prod.splits sum.splits intro!: step loop intro: registry_connected_grows)
qed

lemma grown_fetch: "preserves (grown reg) (machine_fetch env now pong seen rq)"
proof -
  note requests = wp_pres [OF grown_requests(1)] wp_pres [OF grown_requests(2)] wp_pres [OF grown_requests(3)] wp_pres [OF grown_requests(4)]
  have view: "preserves (grown reg) (view_request env pong id' rq)" for id' unfolding view_request_def by (intro pres_intros)
  have begin': "preserves (grown reg) (submit_begin env id' rq)" for id' unfolding submit_begin_def by (intro pres_intros grown_same) simp
  show ?thesis unfolding machine_fetch_def Let_def by (intro pres_intros requests view begin' grown_simple)
qed

lemma grown_message: "preserves (grown reg) (webSocketMessage env now sid raw)"
proof -
  have nack: "preserves (grown reg) (nack sid d e)" for d e
    unfolding nack_def Let_def by (intro pres_intros pres_case_prod pres_attempt grown_simple)
  have begin': "preserves (grown reg) (deliver_begin env sid a message n)" for a message n
    unfolding deliver_begin_def by (intro pres_intros grown_simple nack grown_same) simp
  have meta: "preserves (grown reg) (modifyA (\<lambda>m. m\<lparr>gm_registry := registry_metadata h (gm_registry m)\<rparr>))" for h
    by (rule grown_modify) (simp add: registry_metadata_grows)
  have hello: "preserves (grown reg) (hello_message sid a message)" for a message
    unfolding hello_message_def by (intro pres_intros grown_simple meta)
  have acc: "preserves (grown reg) (acceptance_message a message)" for a message
    unfolding acceptance_message_def by (intro pres_intros grown_simple)
  have txt': "preserves (grown reg) (handle_text env sid a s n)" for a s n
    unfolding handle_text_def Let_def by (intro pres_intros hello acc begin')
  have err: "preserves (grown reg) (protocol_error sid e)" for e
    unfolding protocol_error_def Let_def by (intro pres_intros pres_case_prod pres_attempt grown_simple grown_settles)
  have guard: "preserves (grown reg) (frame_guard env now sid raw)"
    unfolding frame_guard_def Let_def by (cases raw) (auto intro!: pres_intros pres_attempt grown_simple grown_settles)
  show ?thesis unfolding webSocketMessage_def
    by (auto intro!: pres_intros pres_attempt guard err txt' grown_simple split: sum.splits option.splits prod.splits)
qed

lemma grown_submit_step: "preserves (grown reg) (submit_step env i t)"
proof -
  have f: "preserves (grown reg) (failing_submit t a)" if "preserves (grown reg) a" for a
    unfolding failing_submit_def using that by (intro pres_intros grown_simple)
  have "preserves (grown reg) (submit_authorized env t token)" "preserves (grown reg) (submit_chunk env t token data chunk)"
    "preserves (grown reg) (submit_prepared env t token data)" "preserves (grown reg) (liftR body_timeout :: unit mact)"
    "preserves (grown reg) (submit_dispatch env t token b h e d)" "preserves (grown reg) (submit_waited t d settled timeout)"
    for token data chunk b h e d settled timeout
    unfolding submit_authorized_def submit_chunk_def submit_prepared_def submit_dispatch_def submit_waited_def
    by (auto intro!: pres_intros pres_case_prod grown_simple)
  then show ?thesis unfolding submit_step_def by (auto intro!: f preserves_basic split: input.splits submit_phase.splits)
qed

lemma grown_deliver_step: "preserves (grown reg) (deliver_step env i t)"
proof -
  have nack: "preserves (grown reg) (nack sid d e)" for sid d e
    unfolding nack_def Let_def by (intro pres_intros pres_case_prod pres_attempt grown_simple)
  have f: "preserves (grown reg) (failing_deliver t a)" if "preserves (grown reg) a" for a
    unfolding failing_deliver_def using that by (intro pres_intros grown_simple nack)
  have "preserves (grown reg) (deliver_verified env t token result)" "preserves (grown reg) (deliver_replied t ev rp)" for token result ev rp
    unfolding deliver_verified_def deliver_replied_def by (intro pres_intros grown_simple grown_same; simp)+
  then show ?thesis unfolding deliver_step_def by (auto intro!: f preserves_basic split: input.splits deliver_phase.splits)
qed

lemma grown_step: "registry_grows (gm_registry m) (gm_registry (machine_step env i m))"
proof -
  let ?g = "grown (gm_registry m)"
  have ended: "preserves ?g (socket_ended code now sid)" for code now sid
    unfolding socket_ended_def Let_def by (intro pres_intros grown_settles)
      (auto simp: grown_def update_socket_def intro: registry_grows_trans registry_disconnected_grows)
  have "preserves ?g (machine_act env i)"
    by (cases i) (auto simp: on_submit_def on_deliver_def restart_def intro!: pres_intros grown_fetch grown_message grown_submit_step grown_deliver_step ended grown_same)
  moreover have "?g m" by (simp add: grown_def)
  ultimately have "?g (machine_step env i m)" unfolding machine_step_def by (cases "machine_act env i m") (auto dest: preservesD)
  then show ?thesis by (simp add: grown_def)
qed

lemma grown_run: "registry_grows (gm_registry (machine_run env is)) (gm_registry (machine_run env (is @ js)))"
proof (induction js rule: rev_induct)
  case (snoc j js)
  then show ?case using grown_step [of "machine_run env (is @ js)" env j] registry_grows_trans machine_run_snoc [of env "is @ js" j] by auto
qed simp

text \<open>C33: Rotation and deletion last. Once a machine has been registered its identity stays, its secret versions and its epoch never
  fall, and a deleted machine stays deleted: registering it again is refused. From the moment a secret has been
  rotated away, or the machine deleted, every later authorization with it fails, and a submission that was already
  prepared with it ends with an error and sends nothing to the daemon.\<close>

theorem revocation_is_final:
  assumes "gm_registry (machine_run env is) = Some r" and "machineSecret token kind = Inr (i, version)"
    and "version < row_version kind r \<or> mr_deleted r" and "m = machine_run env (is @ js)"
  shows "\<exists>r'. gm_registry m = Some r' \<and> row_grows r r'
    \<and> (mr_deleted r \<longrightarrow> (\<forall>n d e now. registry_register (mr_machine_id r) n d e now (gm_registry m)
        = (Inl (GatewayError 410 (lit ''MACHINE_DELETED'') (lit ''Machine has been deleted.'') False False), gm_registry m)))
    \<and> (\<exists>e. authorize (ge_sha env) (gm_registry m) id' token kind = Inl e)
    \<and> (kind = Execution_secret \<longrightarrow> (\<forall>k t b h e d. find_submit k m = Some t \<and> su_phase t = Prepared token b h e \<longrightarrow>
        (\<exists>err. gm_outputs (machine_step env (Signed k d) m) = gm_outputs m @ [Respond k (errorResponse err)])))"
proof -
  have g: "registry_grows (Some r) (gm_registry m)" using grown_run [of env "is" js] assms(1,4) by simp
  then obtain r' where r': "gm_registry m = Some r'" "row_grows r r'" by (auto simp: registry_grows_def)
  have refused: "\<exists>e. authorize (ge_sha env) (gm_registry m) x token kind = Inl e" for x by (rule refused_later [OF g assms(2,3)])
  have ends: "\<exists>err. gm_outputs (machine_step env (Signed k d) m) = gm_outputs m @ [Respond k (errorResponse err)]"
    if x: "kind = Execution_secret" "find_submit k m = Some t" "su_phase t = Prepared token b h e" for k t b h e d
  proof -
    obtain err where "authorize (ge_sha env) (gm_registry m) (su_machineId t) token Execution_secret = Inl err" using refused x(1) by blast
    then show ?thesis using x(2,3) find_submit_Some [OF x(2)]
      by (intro exI [of _ err]) (simp add: machine_step_def on_submit_def submit_step_def failing_submit_def submit_dispatch_def end_submit_def emit_def act_defs)
  qed
  have gone: "registry_register (mr_machine_id r) n d e now (gm_registry m)
      = (Inl (GatewayError 410 (lit ''MACHINE_DELETED'') (lit ''Machine has been deleted.'') False False), gm_registry m)" if "mr_deleted r" for n d e now
    using r' that by (simp add: registry_register_def registry_get_def row_grows_def)
  show ?thesis
  proof (intro exI [of _ r'] conjI impI allI)
    show "\<exists>e. authorize (ge_sha env) (gm_registry m) id' token kind = Inl e" by (rule refused)
    show "\<exists>err. gm_outputs (machine_step env (Signed k d) m) = gm_outputs m @ [Respond k (errorResponse err)]"
      if "kind = Execution_secret" "find_submit k m = Some t \<and> su_phase t = Prepared token b h e" for k t b h e d using ends that by blast
  qed (use r' gone in simp_all)
qed

theorem revocation_is_final_witness:
  "\<exists>e. authorize (ge_sha demo_env) (gm_registry (machine_run demo_env (demo_delete @ demo_inputs))) demo_id (demo_secret ''me1'') Execution_secret = Inl e"
proof -
  obtain r where r: "gm_registry (machine_run demo_env demo_delete) = Some r" "mr_deleted r" using demo_deleted by blast
  show ?thesis using revocation_is_final [OF r(1) d_secrets(4) disjI2 [OF r(2)] refl] by blast
qed

end
