(* ===== verification/SessionHost.thy ===== *)
theory SessionHost
  imports Driver MinimalBash PiHarness GatewayProtocol
begin

text \<open>
  The host of a session: \<open>packages/session-execution/src/index.ts\<close> and the Durable Objects of
  \<open>apps/harness-minimal-bash/src/session.ts\<close> and \<open>apps/harness-pi-no-compaction/src/session.ts\<close>.
  \<^item> The state is the driver, the pinned execution runtime (a table of one row) and the discovery request that is
    under way, if any. Code between two awaits is one function on that state.
  \<^item> What the execution gateway answers to the discovery, and what a worker answers to a submission, is an argument.
    \<open>new URL\<close> and \<open>JSON.parse\<close> are parameters. The status publisher and the logger are not modelled.
\<close>

section \<open>session-execution: the pinned runtime\<close>

record runtime_binding =
  rb_gatewayUrl :: jstring
  rb_machineId :: jstring
  rb_runtimeGeneration :: jstring
  rb_destination :: session_destination

record execution_config =
  ec_executionGatewayUrl :: json
  ec_machineId :: json
  ec_executionToken :: json

text \<open>What a \<open>fetch\<close> ended with: an exception, or a status and the text of the body.\<close>

datatype fetched = Fetch_failed exn | Fetched int jstring

definition response_ok :: "int \<Rightarrow> bool" where
  "response_ok status \<longleftrightarrow> 200 \<le> status \<and> status \<le> 299"

definition execution_http :: "(jstring \<Rightarrow> json res) \<Rightarrow> fetched \<Rightarrow> fields res" where
  "execution_http JSON_parse reply = (case reply of
     Fetch_failed e \<Rightarrow> Inl e
   | Fetched status body \<Rightarrow>
       if \<not> response_ok status then Inl (JsError (lit ''Execution discovery request failed (HTTP '' @ int_text status @ lit '').''))
       else if length body > 65536 then Inl (JsError (lit ''Execution discovery reply exceeds limit.''))
       else bindR (JSON_parse body) (\<lambda>v. gw_object (Some v) None))"

definition discovered_binding :: "(jstring \<Rightarrow> json res) \<Rightarrow> session_destination \<Rightarrow> jstring \<Rightarrow> jstring \<Rightarrow> fetched \<Rightarrow> runtime_binding res" where
  "discovered_binding JSON_parse destination gatewayUrl machineId reply =
     bindR (execution_http JSON_parse reply) (\<lambda>response.
     bindR (gw_object (field response ''machine'') None) (\<lambda>machine.
     if field machine ''machineId'' \<noteq> Some (JStr machineId) \<or> field machine ''connectionStatus'' \<noteq> Some (str ''ready'')
     then Inl (JsError (lit ''Execution machine is not ready.''))
     else bindR (gw_uuid (field machine ''runtimeGeneration'')) (\<lambda>generation.
       Inr \<lparr>rb_gatewayUrl = gatewayUrl, rb_machineId = machineId, rb_runtimeGeneration = generation, rb_destination = destination\<rparr>)))"

text \<open>\<open>INSERT ... ON CONFLICT(singleton) DO NOTHING\<close>.\<close>

definition pin_runtime :: "runtime_binding \<Rightarrow> runtime_binding option \<Rightarrow> runtime_binding option" where
  "pin_runtime b stored = (case stored of None \<Rightarrow> Some b | Some old \<Rightarrow> Some old)"

record discovery =
  dy_destination :: session_destination
  dy_gatewayUrl :: jstring
  dy_machineId :: jstring

record ('h, 'c) host =
  ho_driver :: "('h, 'c) driver"
  ho_runtime :: "runtime_binding option"
  ho_preparing :: "discovery option"

type_synonym ('h, 'c, 'a) host_act = "(('h, 'c) host, 'a) act"

text \<open>\<open>submit\<close> up to its first await: the identity checks, and the start of the discovery when no runtime is pinned
  and none is under way.\<close>

definition execution_check :: "url_parser \<Rightarrow> provider_submission \<Rightarrow> execution_config \<Rightarrow> (jstring \<times> jstring) res" where
  "execution_check new_URL submission config =
     bindR (gw_object (Some (or_input (ps_request submission))) None) (\<lambda>input.
     bindR (gw_uuid (field input ''machineId'')) (\<lambda>machineId.
     bindR (parseExecutionGatewayUrl new_URL (Some (ec_executionGatewayUrl config))) (\<lambda>gatewayUrl.
     if ec_machineId config \<noteq> JStr machineId
     then Inl (ContractException INVALID_REQUEST (lit ''Operation machine differs from the immutable configuration.''))
     else Inr (gatewayUrl, machineId))))"

definition execution_begin ::
  "url_parser \<Rightarrow> session_destination \<Rightarrow> provider_submission \<Rightarrow> execution_config \<Rightarrow> ('h, 'c, jstring \<times> jstring) host_act" where
  "execution_begin new_URL destination submission config =
     bindA (liftR (execution_check new_URL submission config)) (\<lambda>(gatewayUrl, machineId).
     bindA (modifyA (\<lambda>h. if ho_runtime h = None \<and> ho_preparing h = None
       then h\<lparr>ho_preparing := Some \<lparr>dy_destination = destination, dy_gatewayUrl = gatewayUrl, dy_machineId = machineId\<rparr>\<rparr> else h)) (\<lambda>_.
     retA (gatewayUrl, machineId)))"

text \<open>The discovery's reply: the runtime is persisted before any dispatch. Its error is every waiting submission's error.\<close>

definition discovery_reply :: "(jstring \<Rightarrow> json res) \<Rightarrow> fetched \<Rightarrow> ('h, 'c, unit) host_act" where
  "discovery_reply JSON_parse reply h = (case ho_preparing h of
     None \<Rightarrow> (Inr (), h)
   | Some q \<Rightarrow> (case discovered_binding JSON_parse (dy_destination q) (dy_gatewayUrl q) (dy_machineId q) reply of
       Inl e \<Rightarrow> (Inl e, h\<lparr>ho_preparing := None\<rparr>)
     | Inr b \<Rightarrow> (Inr (), h\<lparr>ho_preparing := None, ho_runtime := pin_runtime b (ho_runtime h)\<rparr>)))"

definition operation_request_json :: "operation_request \<Rightarrow> json" where
  "operation_request_json r = obj [(''provider'', JStr (od_provider r)), (''type'', JStr (od_type r)),
     (''version'', JStr (od_version r)), (''input'', or_input r)]"

definition submission_json :: "provider_submission \<Rightarrow> json" where
  "submission_json s = obj [(''operationId'', JStr (ps_operationId s)), (''submissionId'', JStr (ps_submissionId s)),
     (''request'', operation_request_json (ps_request s))]"

definition destination_json :: "session_destination \<Rightarrow> json" where
  "destination_json d = obj [(''routeKey'', JStr (sd_routeKey d)), (''sessionId'', JStr (sd_sessionId d))]"

text \<open>The rest of \<open>submit\<close>: the message to the worker, with the pinned generation. \<open>this.runtime()!\<close> of an empty table
  would be a \<open>TypeError\<close>.\<close>

definition execution_call ::
  "session_destination \<Rightarrow> provider_submission \<Rightarrow> execution_config \<Rightarrow> jstring \<Rightarrow> jstring \<Rightarrow> runtime_binding option \<Rightarrow> json res" where
  "execution_call destination submission config gatewayUrl machineId stored = (case stored of
     None \<Rightarrow> Inl (JsError (lit ''runtime''))
   | Some b \<Rightarrow>
       if rb_gatewayUrl b \<noteq> gatewayUrl \<or> rb_machineId b \<noteq> machineId \<or> sd_sessionId (rb_destination b) \<noteq> sd_sessionId destination
          \<or> sd_routeKey (rb_destination b) \<noteq> sd_routeKey destination
       then Inl (JsError (lit ''Execution runtime identity mismatch.''))
       else Inr (obj [(''destination'', destination_json destination), (''submission'', submission_json submission),
         (''execution'', obj [(''gatewayUrl'', JStr gatewayUrl), (''token'', ec_executionToken config),
           (''runtimeGeneration'', JStr (rb_runtimeGeneration b))])]))"

definition parseProviderSubmitReply :: "json option \<Rightarrow> submit_result res" where
  "parseProviderSubmitReply reply = (case reply of
     Some (JObj r) \<Rightarrow> (case field r ''result'' of
         None \<Rightarrow> bad INVALID_REQUEST (lit ''Missing submission result.'')
       | Some v \<Rightarrow> parseProviderSubmitResult (Some v))
   | Some (JArr xs) \<Rightarrow> bad INVALID_REQUEST (lit ''Missing submission result.'')
   | _ \<Rightarrow> bad INVALID_REQUEST (lit ''Invalid submission RPC reply.''))"

definition TOOL_PROVIDERS :: "jstring list" where
  "TOOL_PROVIDERS = [lit ''tool-pi-bash'', lit ''tool-pi-read'', lit ''tool-pi-edit'', lit ''tool-pi-write'']"

text \<open>\<open>String(v)\<close> is one of the names only when \<open>v\<close> is that string or nested one-element arrays around it.\<close>

fun unwrapped :: "json \<Rightarrow> json" where
  "unwrapped (JArr [x]) = unwrapped x"
| "unwrapped v = v"

definition tool_provider :: "json option \<Rightarrow> bool" where
  "tool_provider v \<longleftrightarrow> (case v of Some x \<Rightarrow> (case unwrapped x of JStr s \<Rightarrow> s \<in> set TOOL_PROVIDERS | _ \<Rightarrow> False) | None \<Rightarrow> False)"

definition toolCompletion :: "json option \<Rightarrow> runtime_binding option \<Rightarrow> json res" where
  "toolCompletion value stored =
     (case bindR (gw_object value (Some [''execution'', ''completion''])) (\<lambda>raw.
           bindR (gw_object (field raw ''execution'') (Some [''gatewayUrl'', ''machineId'', ''runtimeGeneration''])) (\<lambda>execution.
           bindR (gw_object (field raw ''completion'') None) (\<lambda>completion. Inr (execution, completion)))) of
       Inl e \<Rightarrow> Inl (ContractException COMPLETION_CONFLICT (lit ''Malformed tool completion.''))
     | Inr (execution, completion) \<Rightarrow> (case stored of
         None \<Rightarrow> Inl (ContractException COMPLETION_CONFLICT (lit ''Tool completion arrived without an execution runtime.''))
       | Some b \<Rightarrow>
           if field execution ''gatewayUrl'' \<noteq> Some (JStr (rb_gatewayUrl b)) \<or> field execution ''machineId'' \<noteq> Some (JStr (rb_machineId b))
              \<or> field execution ''runtimeGeneration'' \<noteq> Some (JStr (rb_runtimeGeneration b))
              \<or> \<not> tool_provider (field completion ''provider'')
           then Inl (ContractException COMPLETION_CONFLICT (lit ''Tool completion execution identity does not belong to this session.''))
           else Inr (JObj completion)))"

section \<open>session.ts: requests to a session\<close>

datatype 'p session_value = Initialized session_info bool | Input_admitted input_receipt | Completion_admitted completion_receipt
  | Session_view session_info | Progress processing_status | Page 'p bool

datatype 'p session_reply = Reply_ok "'p session_value" | Reply_error contract_code jstring

definition sessionView :: "session_info \<Rightarrow> session_info" where
  "sessionView info = info\<lparr>sn_config := (case sn_config info of
     JObj r \<Rightarrow> JObj (List.filter (\<lambda>(k, v). k \<noteq> lit ''executionToken'') r) | v \<Rightarrow> v)\<rparr>"

text \<open>The parameters of a host: the hash, the harness, the driver's policy, whether the addressed object is the one of a
  session ID, and the harness' pages of messages (the flag selects the pending ones).\<close>

record ('h, 'c, 'p) host_env =
  he_sha :: "jstring \<Rightarrow> jstring"
  he_harness :: "('h, 'c) harness"
  he_policy :: driver_policy
  he_owns :: "jstring \<Rightarrow> bool"
  he_read :: "bool \<Rightarrow> 'h \<Rightarrow> int \<Rightarrow> nat \<Rightarrow> 'p res"

definition on_driver :: "(('h, 'c) driver, 'a) act \<Rightarrow> ('h, 'c, 'a) host_act" where
  "on_driver m h = (case m (ho_driver h) of (r, d) \<Rightarrow> (r, h\<lparr>ho_driver := d\<rparr>))"

definition driver_getSession :: "('h, 'c) harness \<Rightarrow> (('h, 'c) driver, session_info) act" where
  "driver_getSession H d = (case getSession H (dr_rt d) of (r, rt) \<Rightarrow> (r, d\<lparr>dr_rt := rt\<rparr>))"

definition getProcessingStatus :: "('h, 'c) driver \<Rightarrow> processing_status" where
  "getProcessingStatus d = processingStatus (st_inbox (rt_store (dr_rt d)))"

definition request_initialize :: "('h, 'c, 'p) host_env \<Rightarrow> json \<Rightarrow> int \<Rightarrow> ('h, 'c, 'p session_value) host_act" where
  "request_initialize env v now =
     bindA (liftR (parseInitializeSessionRequest (Some v))) (\<lambda>request.
     if \<not> he_owns env (si_sessionId (is_session request))
     then throwA (ContractException INVALID_REQUEST (lit ''Session ID does not match the addressed Durable Object.''))
     else bindA (on_driver (driver_initialize (he_harness env) (Some v) now)) (\<lambda>(info, duplicate).
       retA (Initialized (sessionView info) duplicate)))"

definition request_page :: "('h, 'c, 'p) host_env \<Rightarrow> bool \<Rightarrow> message_page_query \<Rightarrow> ('h, 'c, 'p session_value) host_act" where
  "request_page env pending q =
     bindA (on_driver (driver_getSession (he_harness env))) (\<lambda>_.
     bindA (getA (\<lambda>h. st_harness (rt_store (dr_rt (ho_driver h))))) (\<lambda>tables.
     bindA (liftR (he_read env pending tables (mq_after q) (nat (mq_limit q)))) (\<lambda>page.
     bindA (getA (\<lambda>h. ps_blocked (getProcessingStatus (ho_driver h)))) (\<lambda>blocked.
     retA (Page page blocked)))))"

definition run_command :: "('h, 'c, 'p) host_env \<Rightarrow> session_command \<Rightarrow> int \<Rightarrow> ('h, 'c, 'p session_value) host_act" where
  "run_command env command now = (case command of
     Cmd_initialize v \<Rightarrow> request_initialize env v now
   | Cmd_appendInput v \<Rightarrow>
       bindA (on_driver (driver_appendInput (he_sha env) (he_harness env) (he_policy env) (Some v) now)) (\<lambda>r. retA (Input_admitted r))
   | Cmd_acceptToolCompletion v \<Rightarrow>
       bindA (getA ho_runtime) (\<lambda>stored.
       bindA (liftR (toolCompletion (Some v) stored)) (\<lambda>c.
       bindA (on_driver (driver_acceptCompletion (he_sha env) (he_harness env) (he_policy env) (Some c) now)) (\<lambda>r.
       retA (Completion_admitted r))))
   | Cmd_acceptCompletion v \<Rightarrow>
       if (case v of JObj r \<Rightarrow> field r ''provider'' | _ \<Rightarrow> None) \<noteq> Some (str ''llm'')
       then throwA (ContractException INVALID_REQUEST (lit ''Tool completions require execution identity.''))
       else bindA (on_driver (driver_acceptCompletion (he_sha env) (he_harness env) (he_policy env) (Some v) now)) (\<lambda>r.
         retA (Completion_admitted r))
   | Cmd_getSession \<Rightarrow> bindA (on_driver (driver_getSession (he_harness env))) (\<lambda>info. retA (Session_view (sessionView info)))
   | Cmd_getProgress \<Rightarrow>
       bindA (on_driver (driver_getSession (he_harness env))) (\<lambda>_.
       bindA (getA (\<lambda>h. getProcessingStatus (ho_driver h))) (\<lambda>p. retA (Progress p)))
   | Cmd_getMessages q \<Rightarrow> request_page env False q
   | Cmd_getPendingMessages q \<Rightarrow> request_page env True q)"

definition sessionRequest :: "('h, 'c, 'p) host_env \<Rightarrow> json option \<Rightarrow> int \<Rightarrow> ('h, 'c, 'p session_reply) host_act" where
  "sessionRequest env request now =
     catchA (bindA (liftR (parseSessionCommand request)) (\<lambda>command.
             bindA (run_command env command now) (\<lambda>v. retA (Reply_ok v))))
       (\<lambda>e. case e of ContractException c m \<Rightarrow> retA (Reply_error c m) | _ \<Rightarrow> throwA e)"

section \<open>The two hosts\<close>

definition MINIMAL_BASH_ROUTE :: jstring where
  "MINIMAL_BASH_ROUTE = lit ''minimal-bash-v7''"

definition PI_NO_COMPACTION_ROUTE :: jstring where
  "PI_NO_COMPACTION_ROUTE = lit ''pi-no-compaction-v1''"

text \<open>The adapter of a worker that needs no machine: the message it is sent.\<close>

definition llm_call :: "session_destination \<Rightarrow> provider_submission \<Rightarrow> json" where
  "llm_call destination submission = obj [(''destination'', destination_json destination), (''submission'', submission_json submission)]"

definition minimal_bash_host ::
  "(jstring \<Rightarrow> jstring) \<Rightarrow> url_parser \<Rightarrow> (jstring \<Rightarrow> json res) \<Rightarrow> driver_policy \<Rightarrow> (jstring \<Rightarrow> bool) \<Rightarrow>
    (mb_tables, mb_changes, (message_row list + steering_row list) \<times> int option \<times> mb_view) host_env" where
  "minimal_bash_host sha new_URL JSON_parse policy owns = \<lparr>he_sha = sha, he_harness = minimalBashHarness new_URL JSON_parse, he_policy = policy, he_owns = owns,
     he_read = (\<lambda>pending t after limit. if pending
       then bindR (readPendingMessages t after limit) (\<lambda>(rows, rest). Inr (Inr rows, rest))
       else bindR (readMinimalBashMessages t after limit) (\<lambda>(rows, rest). Inr (Inl rows, rest)))\<rparr>"

definition pi_no_compaction_host ::
  "(jstring \<Rightarrow> jstring) \<Rightarrow> url_parser \<Rightarrow> (jstring \<Rightarrow> json res) \<Rightarrow> driver_policy \<Rightarrow> (jstring \<Rightarrow> bool) \<Rightarrow>
    (pi_tables, pi_changes, (message_row list + steering_row list) \<times> int option \<times> pi_view) host_env" where
  "pi_no_compaction_host sha new_URL JSON_parse policy owns = \<lparr>he_sha = sha, he_harness = piNoCompactionHarness new_URL JSON_parse, he_policy = policy, he_owns = owns,
     he_read = (\<lambda>pending t after limit. if pending
       then bindR (pi_readPendingMessages t after limit) (\<lambda>(rows, rest). Inr (Inr rows, rest))
       else bindR (readPiNoCompactionMessages t after limit) (\<lambda>(rows, rest). Inr (Inl rows, rest)))\<rparr>"

definition piNoCompaction_sessionRequest ::
  "(jstring \<Rightarrow> jstring) \<Rightarrow> url_parser \<Rightarrow> (jstring \<Rightarrow> json res) \<Rightarrow> driver_policy \<Rightarrow> (jstring \<Rightarrow> bool) \<Rightarrow> json option \<Rightarrow> int \<Rightarrow>
    (pi_tables, pi_changes, ((message_row list + steering_row list) \<times> int option \<times> pi_view) session_reply) host_act" where
  "piNoCompaction_sessionRequest sha new_URL JSON_parse policy owns = sessionRequest (pi_no_compaction_host sha new_URL JSON_parse policy owns)"

definition newHost :: "('h, 'c) driver \<Rightarrow> ('h, 'c) host" where
  "newHost d = \<lparr>ho_driver = d, ho_runtime = None, ho_preparing = None\<rparr>"

end
