(* ===== verification/LlmGateway.thy ===== *)
theory LlmGateway
  imports SessionHost Utf8
begin

text \<open>
  \<open>apps/llm-gateway-workers/src\<close>: the adapter between sessions and the language-model gateway. It keeps no state: a
  submission becomes an HTTP request under an idempotency key derived from the submission ID, and a signed callback of
  the gateway becomes a completion of the addressed session.
  \<^item> What the gateway answers is an argument (\<open>http_answer\<close>); a body arrives in chunks and may break off.
  \<^item> A session is reached through the parameter \<open>call\<close>, an action on the state of all sessions.
  \<^item> The single deadline of a callback is an argument: it was kept, or passed before or after the call of the session.
  \<^item> SHA-256, HMAC, \<open>JSON.parse\<close>, \<open>Date.parse\<close> and \<open>new URL\<close> are parameters. The logger is not modelled.
\<close>

section \<open>context.ts\<close>

record client_context =
  cc_routeKey :: jstring
  cc_sessionId :: jstring
  cc_operationId :: jstring
  cc_submissionId :: jstring

text \<open>\<open>Object.keys(r).sort().join()\<close>.\<close>

definition joined_keys :: "fields \<Rightarrow> jstring" where
  "joined_keys r = join_on 0x2C (sort (map fst r))"

definition context_identity :: "fields \<Rightarrow> string \<Rightarrow> jstring res" where
  "context_identity r key = (case field r key of
     Some (JStr s) \<Rightarrow> if trim s = [] \<or> length s > 2048 then Inl (JsError (lit ''Invalid LLM callback identity.'')) else Inr s
   | _ \<Rightarrow> Inl (JsError (lit ''Invalid LLM callback identity.'')))"

definition parseClientContext :: "json option \<Rightarrow> client_context res" where
  "parseClientContext value =
     bindR (parseJsonValue INVALID_REQUEST value) (\<lambda>v. case v of
       JObj r \<Rightarrow>
         if joined_keys r \<noteq> lit ''operationId,routeKey,sessionId,submissionId'' then Inl (JsError (lit ''Invalid LLM callback context.''))
         else bindR (context_identity r ''operationId'') (\<lambda>oid.
           bindR (context_identity r ''routeKey'') (\<lambda>routeKey.
           bindR (context_identity r ''sessionId'') (\<lambda>sessionId.
           bindR (context_identity r ''submissionId'') (\<lambda>submissionId.
           Inr \<lparr>cc_routeKey = routeKey, cc_sessionId = sessionId, cc_operationId = oid, cc_submissionId = submissionId\<rparr>))))
     | _ \<Rightarrow> Inl (JsError (lit ''Invalid LLM callback context.'')))"

definition context_json :: "client_context \<Rightarrow> json" where
  "context_json c = obj [(''routeKey'', JStr (cc_routeKey c)), (''sessionId'', JStr (cc_sessionId c)),
     (''operationId'', JStr (cc_operationId c)), (''submissionId'', JStr (cc_submissionId c))]"

definition sameContext :: "client_context \<Rightarrow> client_context \<Rightarrow> bool" where
  "sameContext a b \<longleftrightarrow> cc_operationId a = cc_operationId b \<and> cc_routeKey a = cc_routeKey b \<and> cc_sessionId a = cc_sessionId b
     \<and> cc_submissionId a = cc_submissionId b"

section \<open>crypto.ts\<close>

definition hex_value :: "unit16 \<Rightarrow> nat" where
  "hex_value u = (if is_digit u then unat u - 48 else unat u - 87)"

fun hex_bytes :: "jstring \<Rightarrow> byte list" where
  "hex_bytes (a # b # s) = (hex_value a * 16 + hex_value b) # hex_bytes s"
| "hex_bytes s = []"

definition signature_shape :: "jstring \<Rightarrow> bool" where
  "signature_shape s \<longleftrightarrow> take 3 s = lit ''v1='' \<and> length s = 67 \<and> list_all is_lower_hex (drop 3 s)"

definition verifySignature :: "(jstring \<Rightarrow> jstring \<Rightarrow> byte list) \<Rightarrow> jstring \<Rightarrow> jstring \<Rightarrow> jstring \<Rightarrow> bool" where
  "verifySignature hmac secret signature data \<longleftrightarrow> signature_shape signature \<and> hmac secret data = hex_bytes (drop 3 signature)"

section \<open>types.ts\<close>

record llm_env =
  le_GATEWAY_URL :: jstring
  le_GATEWAY_API_KEY :: "jstring option"
  le_GATEWAY_WEBHOOK_SECRET :: "jstring option"
  le_GATEWAY_PREVIOUS_WEBHOOK_SECRET :: "jstring option"
  le_SESSION_ROUTES :: jstring
  le_bound :: "jstring \<Rightarrow> bool"
  le_JSON_parse :: "jstring \<Rightarrow> json res"
  le_new_URL :: url_parser
  le_Date_parse :: "jstring \<Rightarrow> bool"
  le_sha :: "jstring \<Rightarrow> jstring"
  le_hmac :: "jstring \<Rightarrow> jstring \<Rightarrow> byte list"

text \<open>The name of the namespace binding a route key leads to; \<open>bound\<close> says whether that binding is a namespace.\<close>

definition sessionNamespace :: "(jstring \<Rightarrow> json res) \<Rightarrow> (jstring \<Rightarrow> bool) \<Rightarrow> jstring \<Rightarrow> jstring \<Rightarrow> jstring res" where
  "sessionNamespace JSON_parse bound routes routeKey =
     bindR (JSON_parse routes) (\<lambda>v. case v of
       JObj r \<Rightarrow> (case map_of r routeKey of
           None \<Rightarrow> Inl (JsError (lit ''Session route is not configured.''))
         | Some b \<Rightarrow> (case b of
             JStr name \<Rightarrow> if bound name then Inr name else Inl (JsError (lit ''Session namespace binding is not configured.''))
           | _ \<Rightarrow> Inl (JsError (lit ''Session namespace binding is not configured.''))))
     | _ \<Rightarrow> Inl (JsError (lit ''Session route is not configured.'')))"

section \<open>gateway.ts\<close>

datatype job_status = Queued | Running_job | Retry_wait | Job_succeeded | Job_failed | Job_cancelled

definition job_statuses :: "(jstring \<times> job_status) list" where
  "job_statuses = [(lit ''queued'', Queued), (lit ''running'', Running_job), (lit ''retry_wait'', Retry_wait),
     (lit ''succeeded'', Job_succeeded), (lit ''failed'', Job_failed), (lit ''cancelled'', Job_cancelled)]"

definition parse_job_status :: "json option \<Rightarrow> job_status option" where
  "parse_job_status v = (case v of Some (JStr s) \<Rightarrow> map_of job_statuses s | _ \<Rightarrow> None)"

definition terminal_status :: "job_status \<Rightarrow> bool" where
  "terminal_status s \<longleftrightarrow> s \<in> {Job_succeeded, Job_failed, Job_cancelled}"

record job =
  jb_id :: jstring
  jb_status :: job_status
  jb_idempotencyKey :: jstring
  jb_clientContext :: client_context

text \<open>The exceptions the code tells apart: \<open>GatewayError\<close> with status and code, \<open>BodyTooLarge\<close>, and any other.\<close>

datatype llm_error = Gateway_error int jstring | Body_too_large | Other_error exn

type_synonym 'a lres = "llm_error + 'a"

definition bindL :: "'a lres \<Rightarrow> ('a \<Rightarrow> 'b lres) \<Rightarrow> 'b lres" where
  "bindL r f = (case r of Inl e \<Rightarrow> Inl e | Inr a \<Rightarrow> f a)"

definition otherL :: "'a res \<Rightarrow> 'a lres" where
  "otherL r = (case r of Inl e \<Rightarrow> Inl (Other_error e) | Inr a \<Rightarrow> Inr a)"

definition throwL :: "string \<Rightarrow> 'a lres" where
  "throwL m = Inl (Other_error (JsError (lit m)))"

text \<open>A body: none, or its chunks and whether it ended; it breaks off when the transport fails or the deadline passes.\<close>

datatype http_body = Null_body | Chunks "byte list list" bool

text \<open>\<open>TextDecoder\<close> with \<open>fatal\<close>, fed chunk by chunk: its state after some bytes, none after an ill-formed one.\<close>

fun stream_decode :: "decoder \<Rightarrow> byte list \<Rightarrow> decoder option" where
  "stream_decode d [] = Some d"
| "stream_decode Boundary (b # bs) = (case lead b of
     Inr c \<Rightarrow> if b < 0x80 then stream_decode Boundary bs else None
   | Inl d \<Rightarrow> stream_decode d bs)"
| "stream_decode (Needs n lo up c) (b # bs) = (if lo \<le> b \<and> b \<le> up
     then stream_decode (if n = 1 then Boundary else Needs (n - 1) 0x80 0xBF (c * 64 + (b - 0x80))) bs else None)"

fun read_chunks_limited :: "nat \<Rightarrow> bool \<Rightarrow> decoder \<Rightarrow> byte list \<Rightarrow> byte list list \<Rightarrow> jstring lres" where
  "read_chunks_limited maximum ended d data [] =
     (if \<not> ended then throwL ''aborted'' else if d \<noteq> Boundary then throwL ''decode'' else Inr (buffer_utf8 data))"
| "read_chunks_limited maximum ended d data (c # cs) =
     (if length data + length c > maximum then Inl Body_too_large
      else case stream_decode d c of None \<Rightarrow> throwL ''decode'' | Some d' \<Rightarrow> read_chunks_limited maximum ended d' (data @ c) cs)"

definition readLimited :: "http_body \<Rightarrow> nat \<Rightarrow> jstring lres" where
  "readLimited b maximum = (case b of Null_body \<Rightarrow> Inr [] | Chunks cs ended \<Rightarrow> read_chunks_limited maximum ended Boundary [] cs)"

definition llm_object :: "json option \<Rightarrow> fields lres" where
  "llm_object value = otherL (bindR (parseJsonValue INVALID_REQUEST value) (\<lambda>v. case v of
     JObj r \<Rightarrow> Inr r | _ \<Rightarrow> Inl (JsError (lit ''Invalid gateway response.''))))"

definition parse_job :: "fields \<Rightarrow> job lres" where
  "parse_job row = (case (parse_job_status (field row ''status''), field row ''idempotencyKey'') of
     (Some status, Some (JStr key)) \<Rightarrow>
       bindL (otherL (parseUuid (field row ''id''))) (\<lambda>id'.
       bindL (otherL (parseClientContext (field row ''clientContext''))) (\<lambda>context.
       Inr \<lparr>jb_id = id', jb_status = status, jb_idempotencyKey = key, jb_clientContext = context\<rparr>))
   | _ \<Rightarrow> throwL ''Invalid gateway job.'')"

text \<open>The constructor of \<open>Gateway\<close>: the origin requests go to.\<close>

definition gateway_base :: "llm_env \<Rightarrow> jstring res" where
  "gateway_base env = (case le_new_URL env (le_GATEWAY_URL env) of
     None \<Rightarrow> Inl (JsError (lit ''Invalid URL''))
   | Some url \<Rightarrow>
       if up_protocol url \<noteq> lit ''https:'' \<or> up_username url \<noteq> [] \<or> up_password url \<noteq> [] \<or> up_search url \<noteq> [] \<or> up_hash url \<noteq> []
          \<or> up_pathname url \<noteq> lit ''/''
       then Inl (JsError (lit ''GATEWAY_URL must be an HTTPS origin.''))
       else if (case le_GATEWAY_API_KEY env of None \<Rightarrow> True | Some k \<Rightarrow> trim k = [])
       then Inl (JsError (lit ''Gateway credential is not configured.''))
       else Inr (up_origin url))"

datatype http_answer = No_answer | Answer int http_body

definition error_code_shape :: "jstring \<Rightarrow> bool" where
  "error_code_shape s \<longleftrightarrow> 1 \<le> length s \<and> length s \<le> 100 \<and> list_all (\<lambda>u. is_lower u \<or> u = 0x5F) s"

definition gateway_code :: "json option \<Rightarrow> jstring" where
  "gateway_code error = (case error of
     Some (JObj e) \<Rightarrow> (case field e ''code'' of Some (JStr s) \<Rightarrow> if error_code_shape s then s else lit ''http_error'' | _ \<Rightarrow> lit ''http_error'')
   | _ \<Rightarrow> lit ''http_error'')"

definition unavailable :: "'a lres" where
  "unavailable = throwL ''Gateway request unavailable or returned an invalid response.''"

text \<open>\<open>request\<close> from the answer on; every error but a refusal of the gateway and an oversized result is the same.\<close>

definition gateway_request :: "(jstring \<Rightarrow> json res) \<Rightarrow> nat \<Rightarrow> http_answer \<Rightarrow> json lres" where
  "gateway_request JSON_parse maximum ans = (case ans of
     No_answer \<Rightarrow> unavailable
   | Answer status b \<Rightarrow> (case readLimited b (if response_ok status then maximum else 16 * 1024) of
       Inl e \<Rightarrow> if e = Body_too_large \<and> response_ok status then Inl Body_too_large else unavailable
     | Inr s \<Rightarrow> (case JSON_parse s of
         Inl e \<Rightarrow> unavailable
       | Inr v \<Rightarrow> if response_ok status then Inr v
           else (case llm_object (Some v) of Inl e \<Rightarrow> unavailable
             | Inr r \<Rightarrow> Inl (Gateway_error status (gateway_code (field r ''error'')))))))"

definition llm_input_json :: "llm_input \<Rightarrow> (string \<times> json) list" where
  "llm_input_json i = (case i of
     LlmContinuation j ms \<Rightarrow> [(''previousJobId'', JStr j), (''messages'', JArr ms)]
   | LlmFresh f \<Rightarrow> [(''previousJobId'', JNull), (''accountId'', JStr (li_accountId f)), (''modelId'', JStr (li_modelId f)), (''messages'', JArr (li_messages f))]
       @ (case li_instructions f of None \<Rightarrow> [] | Some s \<Rightarrow> [(''instructions'', JStr s)])
       @ [(''tools'', JArr (li_tools f)), (''providerOptions'', JObj (li_providerOptions f))])"

definition submit_message :: "llm_input \<Rightarrow> jstring \<Rightarrow> client_context \<Rightarrow> json" where
  "submit_message input key context = obj (llm_input_json input @ [(''idempotencyKey'', JStr key), (''clientContext'', context_json context)])"

definition gateway_submit :: "(jstring \<Rightarrow> json res) \<Rightarrow> http_answer \<Rightarrow> (jstring \<times> job_status) lres" where
  "gateway_submit JSON_parse ans =
     bindL (gateway_request JSON_parse (64 * 1024) ans) (\<lambda>v.
     bindL (llm_object (Some v)) (\<lambda>result. case parse_job_status (field result ''status'') of
       None \<Rightarrow> throwL ''Invalid gateway acceptance.''
     | Some status \<Rightarrow> bindL (otherL (parseUuid (field result ''id''))) (\<lambda>id'. Inr (id', status))))"

definition gateway_detail :: "(jstring \<Rightarrow> json res) \<Rightarrow> jstring \<Rightarrow> http_answer \<Rightarrow> (job \<times> fields) lres" where
  "gateway_detail JSON_parse id' ans =
     bindL (gateway_request JSON_parse (32 * 1024 * 1024) ans) (\<lambda>v.
     bindL (llm_object (Some v)) (\<lambda>b.
     bindL (parse_job b) (\<lambda>metadata.
     if jb_id metadata \<noteq> id' then throwL ''Gateway returned a different job.'' else Inr (metadata, b))))"

definition job_details :: "jstring \<Rightarrow> json" where
  "job_details jobId = obj [(''gatewayJobId'', JStr jobId)]"

definition tooLarge :: "jstring \<Rightarrow> operation_outcome" where
  "tooLarge jobId = Failed Execution \<lparr>of_code = lit ''LLM_RESULT_TOO_LARGE'',
     of_message = lit ''The gateway result exceeds the '' @ nat_text MAX_OPERATION_OUTCOME_BYTES
       @ lit ''-byte inline delivery limit; the original remains available in the gateway.'', of_details = Some (job_details jobId)\<rparr>"

definition llm_terminalOutcome :: "jstring \<Rightarrow> job_status \<Rightarrow> json option \<Rightarrow> json option \<Rightarrow> operation_outcome lres" where
  "llm_terminalOutcome jobId status response failure =
     (if status = Job_cancelled then
        if response \<noteq> Some JNull \<or> failure \<noteq> Some JNull then throwL ''Invalid cancelled outcome.'' else Inr Cancelled
      else if status = Job_failed then
        if response \<noteq> Some JNull then throwL ''Invalid failed outcome.''
        else bindL (llm_object failure) (\<lambda>error. case (field error ''code'', field error ''message'') of
            (Some (JStr code), Some (JStr message)) \<Rightarrow> Inr (Failed Execution \<lparr>of_code = take 200 code, of_message = take 1000 message,
              of_details = Some (job_details jobId)\<rparr>)
          | _ \<Rightarrow> throwL ''Invalid gateway job error.'')
      else if status \<noteq> Job_succeeded \<or> failure \<noteq> Some JNull then throwL ''Invalid successful terminal outcome.''
      else bindL (otherL (parseLlmResponse response)) (\<lambda>r.
        let outcome = Succeeded (obj [(''gatewayJobId'', JStr jobId), (''response'', JObj r)]) in
        case assertJsonSize (outcome_json outcome) MAX_OPERATION_OUTCOME_BYTES of
          Inl e \<Rightarrow> Inr (tooLarge jobId)
        | Inr _ \<Rightarrow> Inr outcome))"

text \<open>\<open>outcomeFromDetail\<close> and \<open>outcome\<close>; the expected status is the one the submission reported.\<close>

definition outcomeFromDetail :: "jstring \<Rightarrow> job_status \<Rightarrow> jstring \<Rightarrow> client_context \<Rightarrow> job \<times> fields \<Rightarrow> operation_outcome lres" where
  "outcomeFromDetail id' status key context detail = (case detail of (metadata, b) \<Rightarrow>
     if jb_id metadata \<noteq> id' \<or> jb_idempotencyKey metadata \<noteq> key \<or> \<not> sameContext (jb_clientContext metadata) context \<or> jb_status metadata \<noteq> status
     then throwL ''Gateway terminal job changed.''
     else llm_terminalOutcome id' (jb_status metadata) (field b ''response'') (field b ''error''))"

definition gateway_outcome ::
  "(jstring \<Rightarrow> json res) \<Rightarrow> jstring \<Rightarrow> job_status \<Rightarrow> jstring \<Rightarrow> client_context \<Rightarrow> http_answer \<Rightarrow> operation_outcome lres" where
  "gateway_outcome JSON_parse id' status key context ans =
     (case bindL (gateway_detail JSON_parse id' ans) (outcomeFromDetail id' status key context) of
        Inl Body_too_large \<Rightarrow> Inr (tooLarge id') | r \<Rightarrow> r)"

definition REJECTED_CODES :: "jstring list" where
  "REJECTED_CODES = map lit [''invalid_request'', ''invalid_model'', ''not_found'', ''account_disabled'', ''previous_job_not_succeeded'',
     ''previous_request_expired'', ''request_too_large'', ''destination_not_allowed'', ''unsupported_media_type'']"

definition submissionRejected :: "llm_error \<Rightarrow> jstring option" where
  "submissionRejected e = (case e of
     Gateway_error status code \<Rightarrow> if status \<in> {400, 404, 409, 410, 413, 415} \<and> code \<in> set REJECTED_CODES then Some code else None
   | _ \<Rightarrow> None)"

section \<open>service.ts: submission\<close>

definition gatewayKey :: "(jstring \<Rightarrow> jstring) \<Rightarrow> jstring \<Rightarrow> jstring" where
  "gatewayKey sha submissionId = lit ''ma-v1:'' @ sha submissionId"

definition rejected :: "jstring \<Rightarrow> jstring \<Rightarrow> submit_result" where
  "rejected code message = Rejected \<lparr>of_code = code, of_message = message, of_details = None\<rparr>"

definition llm_request :: "json option \<Rightarrow> (submit_result + llm_submission \<times> llm_input) res" where
  "llm_request value =
     (case bindR (parseLlmSubmission value) (\<lambda>parsed.
           let request = ps_request (ls_submission parsed) in
           if od_provider request \<noteq> od_provider LLM_OPERATION \<or> od_type request \<noteq> od_type LLM_OPERATION \<or> od_version request \<noteq> od_version LLM_OPERATION
           then Inr (Inl (rejected (lit ''UNSUPPORTED_LLM_OPERATION'') (lit ''Expected llm/generate/v1.'')))
           else bindR (parseLlmInput (Some (or_input request))) (\<lambda>input. Inr (Inr (parsed, input)))) of
       Inl (ContractException c m) \<Rightarrow> Inr (Inl (rejected (lit ''INVALID_LLM_REQUEST'') m))
     | r \<Rightarrow> r)"

definition submission_context :: "llm_submission \<Rightarrow> client_context" where
  "submission_context parsed = \<lparr>cc_routeKey = sd_routeKey (ls_destination parsed), cc_sessionId = sd_sessionId (ls_destination parsed),
     cc_operationId = ps_operationId (ls_submission parsed), cc_submissionId = ps_submissionId (ls_submission parsed)\<rparr>"

text \<open>\<open>submit\<close>: \<open>ans\<close> is the answer to the POST of the job, \<open>detail\<close> the one to the GET of a job that has ended.\<close>

definition llm_submit :: "llm_env \<Rightarrow> json option \<Rightarrow> http_answer \<Rightarrow> http_answer \<Rightarrow> submit_result lres" where
  "llm_submit env value ans detail =
     bindL (otherL (llm_request value)) (\<lambda>q. case q of
       Inl r \<Rightarrow> Inr r
     | Inr (parsed, input) \<Rightarrow>
         bindL (otherL (sessionNamespace (le_JSON_parse env) (le_bound env) (le_SESSION_ROUTES env) (sd_routeKey (ls_destination parsed)))) (\<lambda>_.
         let context = submission_context parsed; key = gatewayKey (le_sha env) (ps_submissionId (ls_submission parsed)) in
         bindL (otherL (gateway_base env)) (\<lambda>_.
         case gateway_submit (le_JSON_parse env) ans of
           Inl e \<Rightarrow> (case submissionRejected e of
               Some code \<Rightarrow> Inr (rejected code (lit ''Gateway rejected this submission ('' @ code @ lit '').''))
             | None \<Rightarrow> Inl e)
         | Inr (id', status) \<Rightarrow>
             if terminal_status status then
               bindL (gateway_outcome (le_JSON_parse env) id' status key context detail) (\<lambda>outcome. Inr (Completed id' outcome))
             else Inr (Accepted id'))))"

section \<open>service.ts: delivery\<close>

record webhook_event =
  we_eventId :: jstring
  we_jobId :: jstring
  we_completedAt :: jstring
  we_clientContext :: client_context
  we_outcome :: operation_outcome

type_synonym 'w session_call = "jstring \<Rightarrow> jstring \<Rightarrow> json \<Rightarrow> ('w, json) act"

definition validReceipt :: "json \<Rightarrow> jstring \<Rightarrow> bool" where
  "validReceipt value oid \<longleftrightarrow> (case value of
     JObj r \<Rightarrow> field r ''ok'' = Some (JBool True) \<and> (case field r ''value'' of
         Some (JObj receipt) \<Rightarrow> field receipt ''operationId'' = Some (JStr oid)
           \<and> field receipt ''eventId'' = Some (JStr (lit ''runtime:operation:'' @ oid))
           \<and> (case field receipt ''duplicate'' of Some (JBool b) \<Rightarrow> True | _ \<Rightarrow> False)
       | _ \<Rightarrow> False)
   | _ \<Rightarrow> False)"

definition completion_command :: "webhook_event \<Rightarrow> json" where
  "completion_command event = obj [(''action'', str ''acceptCompletion''), (''value'', obj [(''provider'', str ''llm''),
     (''operationId'', JStr (cc_operationId (we_clientContext event))), (''submissionId'', JStr (cc_submissionId (we_clientContext event))),
     (''jobId'', JStr (we_jobId event)), (''outcome'', outcome_json (we_outcome event))])]"

datatype deadline = In_time | Late_before_call | Late_after_call

definition llm_deliver :: "llm_env \<Rightarrow> 'w session_call \<Rightarrow> deadline \<Rightarrow> webhook_event \<Rightarrow> ('w, unit) act" where
  "llm_deliver env call deadline event =
     (let context = we_clientContext event in
      bindA (liftR (sessionNamespace (le_JSON_parse env) (le_bound env) (le_SESSION_ROUTES env) (cc_routeKey context))) (\<lambda>namespace.
      if deadline = Late_before_call then throwA (JsError (lit ''LLM adapter deadline exceeded.''))
      else bindA (call namespace (cc_sessionId context) (completion_command event)) (\<lambda>reply.
      if deadline = Late_after_call then throwA (JsError (lit ''LLM adapter deadline exceeded.''))
      else if \<not> validReceipt reply (cc_operationId context)
      then throwA (JsError (lit ''Session did not acknowledge durable completion admission.'')) else retA ())))"

section \<open>webhook.ts\<close>

record webhook_request =
  wr_method :: jstring
  wr_contentType :: "jstring option"
  wr_timestamp :: "jstring option"
  wr_eventId :: "jstring option"
  wr_signature :: "jstring option"
  wr_body :: http_body

definition json_media :: "jstring option \<Rightarrow> bool" where
  "json_media contentType \<longleftrightarrow> (case contentType of
     Some s \<Rightarrow> map ascii_lower (trim (hd (split_on 0x3B s))) = lit ''application/json'' | None \<Rightarrow> False)"

definition fresh_timestamp :: "int \<Rightarrow> jstring \<Rightarrow> bool" where
  "fresh_timestamp now s \<longleftrightarrow> 1 \<le> length s \<and> length s \<le> 12 \<and> list_all is_digit s \<and> \<bar>now - 1000 * int (digits_value s)\<bar> \<le> 300000"

definition signed_data :: "jstring \<Rightarrow> jstring \<Rightarrow> jstring \<Rightarrow> jstring" where
  "signed_data sent eventId b = sent @ lit ''.'' @ eventId @ lit ''.'' @ b"

definition signed_by :: "llm_env \<Rightarrow> jstring \<Rightarrow> jstring \<Rightarrow> bool" where
  "signed_by env signature data \<longleftrightarrow>
     (case le_GATEWAY_WEBHOOK_SECRET env of Some k \<Rightarrow> verifySignature (le_hmac env) k signature data | None \<Rightarrow> False)
     \<or> (case le_GATEWAY_PREVIOUS_WEBHOOK_SECRET env of Some k \<Rightarrow> k \<noteq> [] \<and> verifySignature (le_hmac env) k signature data | None \<Rightarrow> False)"

definition event_status :: "json option \<Rightarrow> job_status option" where
  "event_status v = (case v of None \<Rightarrow> None | Some x \<Rightarrow> (case unwrapped x of
     JStr s \<Rightarrow> map_of [(lit ''job.succeeded'', Job_succeeded), (lit ''job.failed'', Job_failed), (lit ''job.cancelled'', Job_cancelled)] s
   | _ \<Rightarrow> None))"

definition parse_event :: "llm_env \<Rightarrow> jstring \<Rightarrow> jstring \<Rightarrow> webhook_event lres" where
  "parse_event env eventId b =
     bindL (otherL (le_JSON_parse env b)) (\<lambda>value. case value of
       JObj r \<Rightarrow> (case (event_status (field r ''type''), field r ''completedAt'') of
           (Some status, Some (JStr completedAt)) \<Rightarrow>
             if joined_keys r \<noteq> lit ''clientContext,completedAt,error,eventId,jobId,response,schemaVersion,type''
                \<or> field r ''schemaVersion'' \<noteq> Some (JNum (NInt 2)) \<or> field r ''eventId'' \<noteq> Some (JStr eventId) \<or> \<not> le_Date_parse env completedAt
             then throwL ''Invalid event.''
             else
               bindL (otherL (parseUuid (field r ''jobId''))) (\<lambda>jobId.
               bindL (otherL (parseUuid (field r ''eventId''))) (\<lambda>event.
               bindL (otherL (parseClientContext (field r ''clientContext''))) (\<lambda>context.
               bindL (llm_terminalOutcome jobId status (field r ''response'') (field r ''error'')) (\<lambda>outcome.
               Inr \<lparr>we_eventId = event, we_jobId = jobId, we_completedAt = completedAt, we_clientContext = context, we_outcome = outcome\<rparr>))))
         | _ \<Rightarrow> throwL ''Invalid event.'')
     | _ \<Rightarrow> throwL ''Invalid event.'')"

text \<open>\<open>receive\<close> up to the delivery: the status of a refusal, or the event.\<close>

definition authenticated_event :: "llm_env \<Rightarrow> int \<Rightarrow> webhook_request \<Rightarrow> int + webhook_event" where
  "authenticated_event env now rq =
     (if wr_method rq \<noteq> lit ''POST'' then Inl 405
      else if (case le_GATEWAY_WEBHOOK_SECRET env of None \<Rightarrow> True | Some k \<Rightarrow> k = []) then Inl 503
      else if \<not> json_media (wr_contentType rq) then Inl 415
      else
        let header = (\<lambda>h. case h of None \<Rightarrow> [] | Some s \<Rightarrow> s);
            sent = header (wr_timestamp rq); eventId = header (wr_eventId rq); signature = header (wr_signature rq) in
        if \<not> fresh_timestamp now sent then Inl 401
        else case readLimited (wr_body rq) (32 * 1024 * 1024) of
          Inl e \<Rightarrow> Inl (if e = Body_too_large then 413 else 400)
        | Inr b \<Rightarrow>
            if \<not> signed_by env signature (signed_data sent eventId b) then Inl 401
            else case parse_event env eventId b of Inl e \<Rightarrow> Inl 400 | Inr event \<Rightarrow> Inr event)"

definition webhook :: "llm_env \<Rightarrow> 'w session_call \<Rightarrow> int \<Rightarrow> deadline \<Rightarrow> webhook_request \<Rightarrow> ('w, int) act" where
  "webhook env call now deadline rq = (if deadline = Late_before_call then retA 503 else case authenticated_event env now rq of
     Inl status \<Rightarrow> retA status
   | Inr event \<Rightarrow> catchA (bindA (llm_deliver env call deadline event) (\<lambda>_. retA 204)) (\<lambda>e. retA 503))"

end
