(* ===== verification/ToolResults.thy ===== *)
theory ToolResults
  imports GatewayProtocol
begin

text \<open>
  The truncation of command output in \<open>apps/tools/tool-pi-bash-workers/src/result.ts\<close>: lines, and \<open>truncateTail\<close> with what it
  keeps. A line that is too long by itself is cut in its UTF-8 encoding, at a character.
\<close>

section \<open>Lines\<close>

text \<open>\<open>lines\<close> of the bash worker; the read worker counts a file's lines the same way.\<close>

definition text_lines :: "jstring \<Rightarrow> jstring list" where
  "text_lines s = (if s = [] then [] else if last s = 10 then split_on 10 (butlast s) else split_on 10 s)"

section \<open>The bash worker: truncateTail\<close>

definition PI_BASH_MAX_LINES :: nat where
  "PI_BASH_MAX_LINES = 2000"

definition PI_BASH_MAX_BYTES :: nat where
  "PI_BASH_MAX_BYTES = 50 * 1024"

definition BASH_GATEWAY_PREVIEW_BYTES :: nat where
  "BASH_GATEWAY_PREVIEW_BYTES = 64 * 1024"

datatype truncated_by = By_lines | By_bytes

record tail =
  tl_text :: jstring
  tl_outputLines :: nat
  tl_outputBytes :: nat
  tl_truncatedBy :: "truncated_by option"
  tl_lastLinePartial :: bool

text \<open>The end of a line that is too long by itself, cut at a character.\<close>

definition partial_line :: "jstring \<Rightarrow> jstring" where
  "partial_line line = (let raw = utf8_encode line in
     textDecoder (dropWhile continuation (drop (length raw - PI_BASH_MAX_BYTES) raw)))"

text \<open>The loop over the lines from the last one; \<open>kept\<close> is in the order of the pushes.\<close>

fun keep_tail :: "jstring list \<Rightarrow> jstring list \<Rightarrow> nat \<Rightarrow> jstring list \<times> bool \<times> truncated_by" where
  "keep_tail [] kept used = (kept, False, By_lines)"
| "keep_tail (line # rest) kept used =
     (if length kept \<ge> PI_BASH_MAX_LINES then (kept, False, By_lines)
      else let n = utf8Bytes line + (if kept = [] then 0 else 1) in
        if used + n > PI_BASH_MAX_BYTES
        then if kept = [] then ([partial_line line], True, By_bytes) else (kept, False, By_bytes)
        else keep_tail rest (kept @ [line]) (used + n))"

definition truncateTail :: "jstring \<Rightarrow> tail" where
  "truncateTail text =
     (let all = text_lines text; totalBytes = utf8Bytes text in
      if length all \<le> PI_BASH_MAX_LINES \<and> totalBytes \<le> PI_BASH_MAX_BYTES
      then \<lparr>tl_text = text, tl_outputLines = length all, tl_outputBytes = totalBytes, tl_truncatedBy = None, tl_lastLinePartial = False\<rparr>
      else let (kept, partial, by0) = keep_tail (rev all) [] 0;
               output = join_on 10 (rev kept) in
        \<lparr>tl_text = output, tl_outputLines = length kept, tl_outputBytes = utf8Bytes output,
         tl_truncatedBy = Some (if length kept \<ge> PI_BASH_MAX_LINES then By_lines else by0), tl_lastLinePartial = partial\<rparr>)"

section \<open>Facts on lines\<close>

lemma utf8Bytes_newline: "utf8Bytes (10 # s) = 1 + utf8Bytes s"
  by (cases s) (simp_all add: high_surrogate_def unit_bytes_def word_le_nat_alt)

lemma utf8Bytes_join_on: "utf8Bytes (join_on 10 ls) = sum_list (map utf8Bytes ls) + (length ls - 1)"
proof (induction ls)
  case (Cons l ls)
  show ?case
  proof (cases ls)
    case (Cons q qs)
    have "ascii_head (10 # join_on 10 ls)" by (simp add: ascii_head_def)
    from utf8Bytes_append [OF this, of l] show ?thesis
      using Cons.IH Cons by (simp add: utf8Bytes_newline)
  qed simp
qed simp

lemma join_text_lines: "\<exists>e. text = join_on 10 (text_lines text) @ e \<and> (e = [] \<or> e = [10])"
proof (cases "text \<noteq> [] \<and> last text = 10")
  case True
  then have "text = butlast text @ [10]" by (metis append_butlast_last_id)
  with True show ?thesis by (intro exI [of _ "[10]"]) (simp add: text_lines_def)
qed (auto simp: text_lines_def)

lemma unat_small: "n < 0x10000 \<Longrightarrow> unat (of_nat n :: unit16) = n"
  by (simp add: unat_of_nat)

lemma code_scalars_scalar:
  assumes "scalar c"
  shows "code_scalars (scalar_units c @ s) = c # code_scalars s"
proof (cases "c < 0x10000")
  case True
  then have "unat (of_nat c :: unit16) = c" by (simp add: unat_of_nat)
  then have "\<not> high_surrogate (of_nat c)" "unit_scalar (of_nat c) = c"
    using assms True by (auto simp: high_surrogate_unat low_surrogate_unat scalar_def unit_scalar_def)
  with True show ?thesis by (cases s) (simp_all add: scalar_units_def)
next
  case False
  let ?h = "0xD800 + (c - 0x10000) div 0x400" and ?l = "0xDC00 + (c - 0x10000) mod 0x400"
  have "(c - 0x10000) div 0x400 < 0x400" using assms False by (auto simp: scalar_def div_bounds)
  then have h: "0xD800 \<le> ?h" "?h < 0xDC00" and l: "0xDC00 \<le> ?l" "?l < 0xE000" by simp_all
  then have u: "unat (of_nat ?h :: unit16) = ?h" "unat (of_nat ?l :: unit16) = ?l"
    using unat_small [of ?h] unat_small [of ?l] by linarith+
  then have "high_surrogate (of_nat ?h)" "low_surrogate (of_nat ?l)" using h l unfolding high_surrogate_unat low_surrogate_unat u by blast+
  moreover have "pair_scalar (of_nat ?h) (of_nat ?l) = c" using False unfolding pair_scalar_def u by simp
  ultimately show ?thesis using False by (simp add: scalar_units_def)
qed

lemma code_points_units: "list_all scalar cs \<Longrightarrow> code_scalars (concat (map scalar_units cs)) = cs"
  by (induction cs) (simp_all add: code_scalars_scalar)

lemma utf8_units: "list_all scalar cs \<Longrightarrow> utf8Bytes (concat (map scalar_units cs)) = length (concat (map scalar_bytes cs))"
  using length_utf8_encode [of "concat (map scalar_units cs)"] by (simp add: utf8_encode_def code_points_units)

lemma list_all_drop: "list_all P xs \<Longrightarrow> list_all P (drop n xs)"
  by (auto simp: list_all_iff dest: in_set_dropD)

text \<open>A byte order mark at the front of an encoded text is its first code point.\<close>

lemma encoded_mark:
  assumes "list_all scalar cs" and "take 3 (concat (map scalar_bytes cs)) = [0xEF, 0xBB, 0xBF]"
  shows "\<exists>cs'. cs = 0xFEFF # cs' \<and> drop 3 (concat (map scalar_bytes cs)) = concat (map scalar_bytes cs')"
proof -
  let ?bs = "concat (map scalar_bytes cs)"
  have mark: "scalar_bytes 0xFEFF = [0xEF, 0xBB, 0xBF]" by (simp add: scalar_bytes_def)
  have "?bs = scalar_bytes 0xFEFF @ drop 3 ?bs" using assms(2) mark by (metis append_take_drop_id)
  moreover have "scalar 0xFEFF" by (simp add: scalar_def)
  ultimately have "decode_scalars Boundary ?bs = 0xFEFF # decode_scalars Boundary (drop 3 ?bs)"
    using decode_scalar_bytes [where c = "0xFEFF" and bs = "drop 3 ?bs"] by simp
  then obtain cs' where cs: "cs = 0xFEFF # cs'" using decode_encoded [OF assms(1)] by simp
  then have "drop 3 ?bs = concat (map scalar_bytes cs')" by (simp add: mark)
  with cs show ?thesis by blast
qed

text \<open>The cut before a character leaves as many characters of the end as fit: with one more the bytes before the cut would be
  continuation bytes only.\<close>

lemma cut_maximal:
  assumes scalars: "list_all scalar (pre @ c # post)" and long: "n < length (concat (map scalar_bytes (pre @ c # post)))"
    and cut: "dropWhile continuation (drop (length (concat (map scalar_bytes (pre @ c # post))) - n) (concat (map scalar_bytes (pre @ c # post))))
      = concat (map scalar_bytes post)"
  shows "n < length (concat (map scalar_bytes (c # post)))"
proof (rule ccontr)
  let ?raw = "concat (map scalar_bytes (pre @ c # post))" and ?tail = "concat (map scalar_bytes post)"
  let ?d = "drop (length ?raw - n) ?raw"
  assume "\<not> n < length (concat (map scalar_bytes (c # post)))"
  then have le: "length (scalar_bytes c) + length ?tail \<le> n" by simp
  obtain b rest where c: "scalar_bytes c = b # rest" "\<not> continuation b" using scalar_bytes_shape [of c] scalars by auto
  have d: "?d = drop (length ?raw - n) (concat (map scalar_bytes pre)) @ scalar_bytes c @ ?tail" using le long by simp
  moreover have "?d = takeWhile continuation ?d @ ?tail" using cut takeWhile_dropWhile_id [of continuation ?d] by simp
  ultimately have "takeWhile continuation ?d = drop (length ?raw - n) (concat (map scalar_bytes pre)) @ scalar_bytes c" by (metis append.assoc append_same_eq)
  then have "b \<in> set (takeWhile continuation ?d)" using c(1) by simp
  with c(2) show False by (metis set_takeWhileD)
qed

lemma scalar_bytes_four: "length (scalar_bytes c) \<le> 4"
  by (simp add: scalar_bytes_def)

lemma partial_line_suffix:
  assumes "utf8Bytes line > PI_BASH_MAX_BYTES"
  obtains pre c post where "code_scalars line = pre @ c # post" and "length (concat (map scalar_bytes post)) \<le> PI_BASH_MAX_BYTES"
    and "PI_BASH_MAX_BYTES < length (concat (map scalar_bytes (c # post)))"
    and "partial_line line = concat (map scalar_units (if post \<noteq> [] \<and> hd post = 0xFEFF then tl post else post))"
proof -
  let ?cps = "code_scalars line" and ?raw = "utf8_encode line"
  let ?cut = "dropWhile continuation (drop (length ?raw - PI_BASH_MAX_BYTES) ?raw)"
  have raw: "?raw = concat (map scalar_bytes ?cps)" by (simp add: utf8_encode_def)
  have all: "list_all scalar ?cps" by (rule scalar_code_points)
  have long: "PI_BASH_MAX_BYTES < length ?raw" using assms by simp
  obtain j where j: "?cut = concat (map scalar_bytes (drop j ?cps))" using cut_encoded [OF all] unfolding raw by blast
  let ?post = "drop j ?cps"
  have "length ?cut \<le> length (drop (length ?raw - PI_BASH_MAX_BYTES) ?raw)" by (rule length_dropWhile_le)
  then have len: "length (concat (map scalar_bytes ?post)) \<le> PI_BASH_MAX_BYTES" unfolding j by simp
  then have "j \<noteq> 0" using long unfolding raw by (metis drop_0 not_le)
  moreover have "?cps \<noteq> []" using long unfolding raw by auto
  ultimately obtain c pre where split: "?cps = pre @ c # ?post"
  proof -
    let ?i = "min j (length ?cps) - 1"
    have "?i < length ?cps" "drop (Suc ?i) ?cps = ?post" using \<open>j \<noteq> 0\<close> \<open>?cps \<noteq> []\<close> by (auto simp: min_def)
    then have "?cps = take ?i ?cps @ (?cps ! ?i) # ?post" by (metis id_take_nth_drop)
    then show thesis by (rule that)
  qed
  have ok: "list_all scalar ?post" by (simp add: list_all_drop all)
  have more: "PI_BASH_MAX_BYTES < length (concat (map scalar_bytes (c # ?post)))"
    using all long j unfolding raw by (intro cut_maximal [of pre c ?post]) (simp_all flip: split)
  have "partial_line line = concat (map scalar_units (if ?post \<noteq> [] \<and> hd ?post = 0xFEFF then tl ?post else ?post))"
  proof (cases "take 3 ?cut = [0xEF, 0xBB, 0xBF]")
    case False
    moreover have "\<not> (?post \<noteq> [] \<and> hd ?post = 0xFEFF)"
      using False unfolding j by (cases ?post) (auto simp: scalar_bytes_def)
    ultimately show ?thesis
      by (auto simp: partial_line_def Let_def textDecoder_def j buffer_utf8_def decode_encoded [OF ok] simp del: length_utf8_encode)
  next
    case True
    then obtain cs' where cs: "?post = 0xFEFF # cs'" "drop 3 ?cut = concat (map scalar_bytes cs')"
      using encoded_mark [OF ok] unfolding j by blast
    have ok': "list_all scalar cs'" using ok unfolding cs by simp
    then show ?thesis
      using True cs by (simp add: partial_line_def Let_def textDecoder_def buffer_utf8_def decode_encoded [OF ok'] del: length_utf8_encode)
  qed
  from that [OF split len more this] show thesis .
qed

lemma partial_line_bytes:
  assumes "utf8Bytes line > PI_BASH_MAX_BYTES"
  obtains pre c post where "code_scalars line = pre @ c # post" and "PI_BASH_MAX_BYTES < length (concat (map scalar_bytes (c # post)))"
    and "partial_line line = concat (map scalar_units (if post \<noteq> [] \<and> hd post = 0xFEFF then tl post else post))"
    and "utf8Bytes (partial_line line) \<le> PI_BASH_MAX_BYTES" and "PI_BASH_MAX_BYTES \<le> utf8Bytes (partial_line line) + 6"
proof -
  from partial_line_suffix [OF assms] obtain pre c post where p: "code_scalars line = pre @ c # post"
    "length (concat (map scalar_bytes post)) \<le> PI_BASH_MAX_BYTES" "PI_BASH_MAX_BYTES < length (concat (map scalar_bytes (c # post)))"
    "partial_line line = concat (map scalar_units (if post \<noteq> [] \<and> hd post = 0xFEFF then tl post else post))" .
  let ?cs = "if post \<noteq> [] \<and> hd post = 0xFEFF then tl post else post"
  have "list_all scalar post" using scalar_code_points [of line] p(1) by simp
  then have "list_all scalar ?cs" by (cases post) auto
  then have size: "utf8Bytes (partial_line line) = length (concat (map scalar_bytes ?cs))" using p(4) utf8_units by metis
  have "length (concat (map scalar_bytes ?cs)) \<le> length (concat (map scalar_bytes post))"
    "length (concat (map scalar_bytes post)) \<le> length (concat (map scalar_bytes ?cs)) + 3"
    by (cases post; simp add: scalar_bytes_def [of "0xFEFF"])+
  with p(2,3) scalar_bytes_four [of c] have "utf8Bytes (partial_line line) \<le> PI_BASH_MAX_BYTES"
    "PI_BASH_MAX_BYTES \<le> utf8Bytes (partial_line line) + 6" unfolding size by simp_all
  from that [OF p(1,3,4) this] show thesis .
qed

section \<open>truncateTail keeps the end of the text\<close>

definition line_bytes :: "jstring list \<Rightarrow> nat" where
  "line_bytes ls = sum_list (map utf8Bytes ls) + (length ls - 1)"

lemma keep_tail_spec:
  assumes "keep_tail lines kept used = (kept', partial, by0)" and "used = line_bytes kept"
    and "used \<le> PI_BASH_MAX_BYTES" and "length kept \<le> PI_BASH_MAX_LINES"
  shows "(if partial then kept = [] \<and> lines \<noteq> [] \<and> kept' = [partial_line (hd lines)] \<and> utf8Bytes (hd lines) > PI_BASH_MAX_BYTES \<and> by0 = By_bytes
    else \<exists>n \<le> length lines. kept' = kept @ take n lines \<and> line_bytes kept' \<le> PI_BASH_MAX_BYTES \<and> length kept' \<le> PI_BASH_MAX_LINES
      \<and> (by0 = By_bytes \<longleftrightarrow> n < length lines \<and> length kept' < PI_BASH_MAX_LINES)
      \<and> (n < length lines \<longrightarrow> length kept' = PI_BASH_MAX_LINES \<or> line_bytes (kept' @ [lines ! n]) > PI_BASH_MAX_BYTES))"
  using assms
proof (induction lines kept used rule: keep_tail.induct)
  case (1 kept used)
  then show ?case by auto
next
  case (2 line rest kept used)
  let ?n = "utf8Bytes line + (if kept = [] then 0 else 1)"
  have add: "used + ?n = line_bytes (kept @ [line])" using 2(3) by (cases kept) (auto simp: line_bytes_def)
  consider (full) "length kept \<ge> PI_BASH_MAX_LINES" | (long) "\<not> length kept \<ge> PI_BASH_MAX_LINES" "used + ?n > PI_BASH_MAX_BYTES"
    | (go) "\<not> length kept \<ge> PI_BASH_MAX_LINES" "\<not> used + ?n > PI_BASH_MAX_BYTES" by blast
  then show ?case
  proof cases
    case full
    with 2 show ?thesis by (auto intro!: exI [of _ 0])
  next
    case long
    show ?thesis
    proof (cases "kept = []")
      case True
      with long 2 show ?thesis by (auto simp: line_bytes_def)
    next
      case False
      with long 2 add show ?thesis by (auto intro!: exI [of _ 0])
    qed
  next
    case go
    then have step: "keep_tail rest (kept @ [line]) (used + ?n) = (kept', partial, by0)" using 2(2) by (auto simp: Let_def split: if_splits)
    have IH: "if partial then kept @ [line] = [] \<and> rest \<noteq> [] \<and> kept' = [partial_line (hd rest)] \<and> utf8Bytes (hd rest) > PI_BASH_MAX_BYTES \<and> by0 = By_bytes
      else \<exists>n \<le> length rest. kept' = (kept @ [line]) @ take n rest \<and> line_bytes kept' \<le> PI_BASH_MAX_BYTES \<and> length kept' \<le> PI_BASH_MAX_LINES
        \<and> (by0 = By_bytes \<longleftrightarrow> n < length rest \<and> length kept' < PI_BASH_MAX_LINES)
        \<and> (n < length rest \<longrightarrow> length kept' = PI_BASH_MAX_LINES \<or> line_bytes (kept' @ [rest ! n]) > PI_BASH_MAX_BYTES)"
      by (rule 2(1) [OF go(1) refl go(2) step]) (use go add in auto)
    have whole: "\<not> partial" using IH by (simp split: if_splits)
    with IH obtain n where "n \<le> length rest" "kept' = (kept @ [line]) @ take n rest" "line_bytes kept' \<le> PI_BASH_MAX_BYTES"
      "length kept' \<le> PI_BASH_MAX_LINES" "by0 = By_bytes \<longleftrightarrow> n < length rest \<and> length kept' < PI_BASH_MAX_LINES" "n < length rest \<longrightarrow> length kept' = PI_BASH_MAX_LINES \<or> line_bytes (kept' @ [rest ! n]) > PI_BASH_MAX_BYTES"
      by (simp only: if_False) blast
    with whole show ?thesis by (auto intro!: exI [of _ "Suc n"])
  qed
qed

lemma line_bytes_rev: "utf8Bytes (join_on 10 (rev ls)) = line_bytes ls"
  by (simp add: utf8Bytes_join_on line_bytes_def rev_map [symmetric])

lemma rev_take_rev: "rev (take n (rev xs)) = drop (length xs - n) xs"
  by (simp add: rev_take)

lemma kept_partial:
  assumes "keep_tail (rev all) [] 0 = (kept, True, by0)"
  shows "kept = [partial_line (last all)] \<and> utf8Bytes (last all) > PI_BASH_MAX_BYTES \<and> by0 = By_bytes"
  using keep_tail_spec [OF assms] by (simp add: line_bytes_def [of "[]"] hd_rev)

lemma kept_whole:
  assumes "keep_tail (rev all) [] 0 = (kept, False, by0)"
  shows "line_bytes kept \<le> PI_BASH_MAX_BYTES \<and> length kept \<le> PI_BASH_MAX_LINES
    \<and> (\<exists>k \<le> length all. join_on 10 (rev kept) = join_on 10 (drop k all) \<and> length kept = length all - k
        \<and> (by0 = By_bytes \<longleftrightarrow> 0 < k \<and> length kept < PI_BASH_MAX_LINES)
        \<and> (0 < k \<longrightarrow> length kept = PI_BASH_MAX_LINES \<or> utf8Bytes (join_on 10 (drop (k - 1) all)) > PI_BASH_MAX_BYTES))"
proof -
  have "\<exists>n \<le> length all. kept = take n (rev all) \<and> line_bytes kept \<le> PI_BASH_MAX_BYTES \<and> length kept \<le> PI_BASH_MAX_LINES
      \<and> (by0 = By_bytes \<longleftrightarrow> n < length all \<and> length kept < PI_BASH_MAX_LINES)
      \<and> (n < length all \<longrightarrow> length kept = PI_BASH_MAX_LINES \<or> line_bytes (kept @ [rev all ! n]) > PI_BASH_MAX_BYTES)"
    using keep_tail_spec [OF assms] by (simp add: line_bytes_def [of "[]"])
  then obtain n where n: "n \<le> length all" "kept = take n (rev all)" "line_bytes kept \<le> PI_BASH_MAX_BYTES" "length kept \<le> PI_BASH_MAX_LINES"
    "by0 = By_bytes \<longleftrightarrow> n < length all \<and> length kept < PI_BASH_MAX_LINES"
    "n < length all \<longrightarrow> length kept = PI_BASH_MAX_LINES \<or> line_bytes (kept @ [rev all ! n]) > PI_BASH_MAX_BYTES"
    by blast
  let ?k = "length all - n"
  have out: "rev kept = drop ?k all" using n(1,2) by (simp add: rev_take_rev)
  have more: "rev (kept @ [rev all ! n]) = drop (?k - 1) all" if "n < length all"
    using that n(2) rev_take_rev [of "Suc n" all] by (simp add: take_Suc_conv_app_nth)
  have lines: "length kept = length all - ?k" using n(1,2) by simp
  have "length kept = PI_BASH_MAX_LINES \<or> utf8Bytes (join_on 10 (drop (?k - 1) all)) > PI_BASH_MAX_BYTES" if "0 < ?k"
    using that n(6) more line_bytes_rev [of "kept @ [rev all ! n]"] by auto
  moreover have "by0 = By_bytes \<longleftrightarrow> 0 < ?k \<and> length kept < PI_BASH_MAX_LINES" using n(5) by auto
  ultimately have "\<exists>k \<le> length all. join_on 10 (rev kept) = join_on 10 (drop k all) \<and> length kept = length all - k
      \<and> (by0 = By_bytes \<longleftrightarrow> 0 < k \<and> length kept < PI_BASH_MAX_LINES)
      \<and> (0 < k \<longrightarrow> length kept = PI_BASH_MAX_LINES \<or> utf8Bytes (join_on 10 (drop (k - 1) all)) > PI_BASH_MAX_BYTES)"
    using out lines by (intro exI [of _ ?k]) auto
  with n(3,4) show ?thesis by blast
qed

text \<open>C35: The output of a command is cut to its end, within 2000 lines and 50 KiB. A text is marked truncated exactly when it exceeds a
  limit, and otherwise returned as it is, with its final newline. A truncated text is the last complete lines of the text, and as
  many of them as fit: one more line would exceed a limit, and the byte limit is named exactly when a line that would be within the
  line limit was left out. Only when the last line alone exceeds the byte limit is it cut, at a character: the result is then the
  end of that line, one more character of which would exceed the limit (less a byte order mark at the cut, which the decoder drops),
  so it is at most six bytes shorter than the limit.\<close>

theorem truncateTail_spec:
  assumes "r = truncateTail text"
  shows "tl_outputBytes r = utf8Bytes (tl_text r) \<and> tl_outputBytes r \<le> PI_BASH_MAX_BYTES \<and> tl_outputLines r \<le> PI_BASH_MAX_LINES
    \<and> (tl_truncatedBy r = None \<longleftrightarrow> length (text_lines text) \<le> PI_BASH_MAX_LINES \<and> utf8Bytes text \<le> PI_BASH_MAX_BYTES)
    \<and> (tl_truncatedBy r = None \<longrightarrow> tl_text r = text \<and> tl_outputLines r = length (text_lines text) \<and> \<not> tl_lastLinePartial r)
    \<and> (tl_truncatedBy r \<noteq> None \<and> \<not> tl_lastLinePartial r \<longrightarrow> (\<exists>k \<le> length (text_lines text).
        tl_text r = join_on 10 (drop k (text_lines text)) \<and> tl_outputLines r = length (text_lines text) - k
        \<and> (tl_truncatedBy r = Some By_bytes \<longleftrightarrow> 0 < k \<and> tl_outputLines r < PI_BASH_MAX_LINES)
        \<and> (0 < k \<longrightarrow> tl_outputLines r = PI_BASH_MAX_LINES
            \<or> utf8Bytes (join_on 10 (drop (k - 1) (text_lines text))) > PI_BASH_MAX_BYTES)))
    \<and> (tl_lastLinePartial r \<longrightarrow> tl_truncatedBy r = Some By_bytes \<and> tl_outputLines r = 1
        \<and> utf8Bytes (last (text_lines text)) > PI_BASH_MAX_BYTES \<and> PI_BASH_MAX_BYTES \<le> tl_outputBytes r + 6
        \<and> (\<exists>pre c post. code_scalars (last (text_lines text)) = pre @ c # post
            \<and> PI_BASH_MAX_BYTES < length (concat (map scalar_bytes (c # post)))
            \<and> tl_text r = concat (map scalar_units (if post \<noteq> [] \<and> hd post = 0xFEFF then tl post else post))))"
proof (cases "length (text_lines text) \<le> PI_BASH_MAX_LINES \<and> utf8Bytes text \<le> PI_BASH_MAX_BYTES")
  case True
  with assms show ?thesis by (simp add: truncateTail_def Let_def)
next
  case False
  let ?all = "text_lines text"
  obtain kept partial by0 where k: "keep_tail (rev ?all) [] 0 = (kept, partial, by0)" by (metis prod.exhaust)
  have r: "r = \<lparr>tl_text = join_on 10 (rev kept), tl_outputLines = length kept, tl_outputBytes = line_bytes kept,
      tl_truncatedBy = Some (if length kept \<ge> PI_BASH_MAX_LINES then By_lines else by0), tl_lastLinePartial = partial\<rparr>"
    unfolding assms truncateTail_def using False k by (auto simp: Let_def line_bytes_rev)
  show ?thesis
  proof (cases partial)
    case True
    then have p: "kept = [partial_line (last ?all)]" "utf8Bytes (last ?all) > PI_BASH_MAX_BYTES" "by0 = By_bytes"
      using kept_partial [of ?all kept by0] k by simp_all
    have size: "line_bytes kept = utf8Bytes (partial_line (last ?all))" using p(1) by (simp add: line_bytes_def)
    from partial_line_bytes [OF p(2)] obtain pre c post where "code_scalars (last ?all) = pre @ c # post"
      "PI_BASH_MAX_BYTES < length (concat (map scalar_bytes (c # post)))"
      "partial_line (last ?all) = concat (map scalar_units (if post \<noteq> [] \<and> hd post = 0xFEFF then tl post else post))"
      "utf8Bytes (partial_line (last ?all)) \<le> PI_BASH_MAX_BYTES" "PI_BASH_MAX_BYTES \<le> utf8Bytes (partial_line (last ?all)) + 6" .
    then have "\<exists>pre c post. code_scalars (last ?all) = pre @ c # post \<and> PI_BASH_MAX_BYTES < length (concat (map scalar_bytes (c # post)))
        \<and> partial_line (last ?all) = concat (map scalar_units (if post \<noteq> [] \<and> hd post = 0xFEFF then tl post else post))"
      and "line_bytes kept \<le> PI_BASH_MAX_BYTES" "PI_BASH_MAX_BYTES \<le> line_bytes kept + 6" unfolding size by blast+
    with True False p size show ?thesis unfolding r by (simp add: PI_BASH_MAX_LINES_def)
  next
    case whole: False
    with k have w: "keep_tail (rev ?all) [] 0 = (kept, False, by0)" by simp
    then have "by0 = By_bytes \<Longrightarrow> length kept < PI_BASH_MAX_LINES" using kept_whole [OF w] by blast
    then have "(if length kept \<ge> PI_BASH_MAX_LINES then By_lines else by0) = By_bytes \<longleftrightarrow> by0 = By_bytes" by auto
    with whole False kept_whole [OF w] show ?thesis by (simp add: r line_bytes_rev)
  qed
qed

lemma utf8Bytes_replicate: "utf8Bytes (replicate n 97) = n"
proof (induction n)
  case (Suc n)
  then show ?case by (cases n) (simp_all add: high_surrogate_unat unit_bytes_def)
qed simp

theorem truncateTail_spec_witness:
  "tl_truncatedBy (truncateTail (lit ''ok'' @ [10])) = None \<and> tl_text (truncateTail (lit ''ok'' @ [10])) = lit ''ok'' @ [10]
    \<and> tl_truncatedBy (truncateTail (replicate 60000 97)) \<noteq> None \<and> tl_outputBytes (truncateTail (replicate 60000 97)) \<le> PI_BASH_MAX_BYTES"
proof -
  have "length (text_lines (lit ''ok'' @ [10])) \<le> PI_BASH_MAX_LINES \<and> utf8Bytes (lit ''ok'' @ [10]) \<le> PI_BASH_MAX_BYTES"
    by code_simp
  moreover have "\<not> utf8Bytes (replicate 60000 97) \<le> PI_BASH_MAX_BYTES" by (simp add: utf8Bytes_replicate PI_BASH_MAX_BYTES_def)
  ultimately show ?thesis
    using truncateTail_spec [OF refl, of "lit ''ok'' @ [10]"] truncateTail_spec [OF refl, of "replicate 60000 97"] by blast
qed

end
