(* ===== verification/BashResult.thy ===== *)
theory BashResult
  imports ToolResults GatewayMachine
begin

text \<open>
  \<open>apps/tools/tool-pi-bash-workers/src/result.ts\<close>: \<open>formatRun\<close>, which turns a finished native execution into the
  result the model sees. The result is the JSON object the worker returns. \<open>Date.toISOString\<close> and \<open>Number.toFixed\<close>
  are modelled on the integers the code applies them to.
\<close>

section \<open>Dates and fixed decimals\<close>

definition padded :: "nat \<Rightarrow> nat \<Rightarrow> jstring" where
  "padded w n = replicate (w - length (nat_text n)) 48 @ nat_text n"

text \<open>Year, month and day of a day number since 1970-01-01, in the proleptic Gregorian calendar.\<close>

definition civil :: "nat \<Rightarrow> nat \<times> nat \<times> nat" where
  "civil day =
     (let z = day + 719468; era = z div 146097; doe = z mod 146097;
          yoe = (doe - doe div 1460 + doe div 36524 - doe div 146096) div 365;
          doy = doe - (365 * yoe + yoe div 4 - yoe div 100);
          mp = (5 * doy + 2) div 153;
          m = (if mp < 10 then mp + 3 else mp - 9) in
      (yoe + era * 400 + (if m \<le> 2 then 1 else 0), m, doy - (153 * mp + 2) div 5 + 1))"

definition year_text :: "nat \<Rightarrow> jstring" where
  "year_text y = (if y \<le> 9999 then padded 4 y else lit ''+'' @ padded 6 y)"

definition iso_text :: "nat \<Rightarrow> jstring" where
  "iso_text ms = (case civil (ms div 86400000) of (y, m, d) \<Rightarrow>
     year_text y @ lit ''-'' @ padded 2 m @ lit ''-'' @ padded 2 d @ lit ''T'' @ padded 2 (ms div 3600000 mod 24) @ lit '':''
     @ padded 2 (ms div 60000 mod 60) @ lit '':'' @ padded 2 (ms div 1000 mod 60) @ lit ''.'' @ padded 3 (ms mod 1000) @ lit ''Z'')"

text \<open>\<open>(n / 1024).toFixed(1)\<close>: the nearest tenth, and the larger one of two.\<close>

definition kib_text :: "nat \<Rightarrow> jstring" where
  "kib_text n = (let k = (10 * n + 512) div 1024 in nat_text (k div 10) @ lit ''.'' @ nat_text (k mod 10))"

section \<open>Fields of a native run\<close>

definition run_object :: "json option \<Rightarrow> fields res" where
  "run_object value = bindR (parseJsonValue INVALID_REQUEST value) (\<lambda>v. case v of
     JObj r \<Rightarrow> Inr r | _ \<Rightarrow> Inl (JsError (lit ''Invalid execution gateway object.'')))"

definition run_string :: "json option \<Rightarrow> nat \<Rightarrow> jstring res" where
  "run_string value maximum = (case value of
     Some (JStr s) \<Rightarrow> if length s > maximum then Inl (JsError (lit ''Invalid execution gateway string.'')) else Inr s
   | _ \<Rightarrow> Inl (JsError (lit ''Invalid execution gateway string.'')))"

definition run_number :: "json option \<Rightarrow> nat res" where
  "run_number value = (case value of
     Some (JNum x) \<Rightarrow> (case safe_integer x of
         Some i \<Rightarrow> if i < 0 then Inl (JsError (lit ''Invalid execution gateway count.'')) else Inr (nat i)
       | None \<Rightarrow> Inl (JsError (lit ''Invalid execution gateway count.'')))
   | _ \<Rightarrow> Inl (JsError (lit ''Invalid execution gateway count.'')))"

definition run_bool :: "json option \<Rightarrow> bool res" where
  "run_bool value = (case value of Some (JBool b) \<Rightarrow> Inr b | _ \<Rightarrow> Inl (JsError (lit ''Invalid execution gateway flag.'')))"

text \<open>\<open>value === null ? null : parse(value)\<close>.\<close>

definition run_nullable :: "(json option \<Rightarrow> 'a res) \<Rightarrow> json option \<Rightarrow> 'a option res" where
  "run_nullable parse value = (if value = Some JNull then Inr None else bindR (parse value) (\<lambda>a. Inr (Some a)))"

datatype run_reason = Exited | Timed_out_run | Terminated | Start_failed | Lost

definition reason_text :: "run_reason \<Rightarrow> jstring" where
  "reason_text r = (case r of Exited \<Rightarrow> lit ''exited'' | Timed_out_run \<Rightarrow> lit ''timed_out'' | Terminated \<Rightarrow> lit ''terminated''
     | Start_failed \<Rightarrow> lit ''start_failed'' | Lost \<Rightarrow> lit ''lost'')"

definition parse_reason :: "jstring \<Rightarrow> run_reason res" where
  "parse_reason s =
     (if startsWith s (lit ''start_failed: '') then Inr Start_failed
      else if startsWith s (lit ''lost: '') then Inr Lost
      else case find (\<lambda>r. reason_text r = s) [Exited, Timed_out_run, Terminated, Start_failed, Lost] of
        Some r \<Rightarrow> Inr r
      | None \<Rightarrow> Inl (JsError (lit ''Unknown execution result.'')))"

text \<open>\<open>s.slice(s.indexOf(": ") + 2, 2000)\<close>; without a colon \<open>indexOf\<close> is -1.\<close>

fun after_colon :: "jstring \<Rightarrow> nat option" where
  "after_colon (a # b # s) = (if a = 0x3A \<and> b = 0x20 then Some 2 else map_option Suc (after_colon (b # s)))"
| "after_colon s = None"

definition reason_detail :: "jstring \<Rightarrow> jstring" where
  "reason_detail s = drop (case after_colon s of Some k \<Rightarrow> k | None \<Rightarrow> 1) (take 2000 s)"

record output_file =
  fi_artifactId :: jstring
  fi_sizeBytes :: nat
  fi_complete :: bool
  fi_expiresAt :: "jstring option"

definition MAX_DATE_MS :: nat where
  "MAX_DATE_MS = 8640000000000000"

definition parse_output_file :: "fields \<Rightarrow> bool \<Rightarrow> (jstring \<times> output_file) res" where
  "parse_output_file run captureIncomplete =
     bindR (run_object (field run ''artifact'')) (\<lambda>file.
     bindR (run_string (field file ''path'') 8192) (\<lambda>path.
     if \<not> isAbsoluteMachinePath path then Inl (JsError (lit ''Native output file path is not absolute.''))
     else bindR (run_nullable run_number (field file ''expires_at_ms'')) (\<lambda>expiresAtMs.
     if (case expiresAtMs of None \<Rightarrow> False | Some ms \<Rightarrow> ms > MAX_DATE_MS) then Inl (JsError (lit ''Invalid artifact expiration.''))
     else bindR (parseUuid (field file ''id'')) (\<lambda>artifactId.
     bindR (run_number (field file ''size_bytes'')) (\<lambda>sizeBytes.
     bindR (run_bool (field file ''complete'')) (\<lambda>complete.
     Inr (path, \<lparr>fi_artifactId = artifactId, fi_sizeBytes = sizeBytes, fi_complete = (complete \<and> \<not> captureIncomplete),
       fi_expiresAt = map_option iso_text expiresAtMs\<rparr>)))))))"

section \<open>formatRun\<close>

record run =
  rn_nativeReason :: jstring
  rn_reason :: run_reason
  rn_exitCode :: "nat option"
  rn_signal :: "jstring option"
  rn_originalBytes :: nat
  rn_wallTimeSeconds :: number
  rn_path :: jstring
  rn_file :: output_file
  rn_upstreamTruncated :: bool
  rn_text :: jstring

text \<open>The first half of \<open>formatRun\<close>: everything it reads and refuses.\<close>

definition read_run :: "json option \<Rightarrow> run res" where
  "read_run value =
     bindR (run_object value) (\<lambda>r.
     if field r ''state'' \<noteq> Some (str ''finished'') \<or> field r ''session_id'' \<noteq> Some JNull
     then Inl (JsError (lit ''Bash requires a finished native execution.''))
     else
       bindR (run_string (field r ''reason'') 4096) (\<lambda>nativeReason.
       bindR (parse_reason nativeReason) (\<lambda>reason.
       bindR (run_nullable run_number (field r ''exit_code'')) (\<lambda>exitCode.
       bindR (run_nullable (\<lambda>v. run_string v 200) (field r ''signal'')) (\<lambda>signal.
       bindR (run_number (field r ''original_bytes'')) (\<lambda>originalBytes.
       bindR (run_bool (field r ''output_incomplete'')) (\<lambda>captureIncomplete.
       bindR (case field r ''wall_time_seconds'' of
           Some (JNum x) \<Rightarrow> if num_negative x then Inl (JsError (lit ''Invalid execution duration.'')) else Inr x
         | _ \<Rightarrow> Inl (JsError (lit ''Invalid execution duration.''))) (\<lambda>wall.
       bindR (parse_output_file r captureIncomplete) (\<lambda>(path, file).
       if fi_complete file \<and> fi_sizeBytes file \<noteq> originalBytes
       then Inl (JsError (lit ''Output artifact size conflicts with native byte count.''))
       else
         bindR (run_bool (field r ''output_truncated'')) (\<lambda>upstreamTruncated.
         bindR (run_string (field r ''output'') BASH_GATEWAY_PREVIEW_BYTES) (\<lambda>output'.
         if utf8Bytes output' > BASH_GATEWAY_PREVIEW_BYTES
         then Inl (JsError (lit ''Native output exceeded the requested preview budget.''))
         else Inr \<lparr>rn_nativeReason = nativeReason, rn_reason = reason, rn_exitCode = exitCode, rn_signal = signal,
           rn_originalBytes = originalBytes, rn_wallTimeSeconds = wall, rn_path = path, rn_file = file,
           rn_upstreamTruncated = upstreamTruncated, rn_text = output'\<rparr>)))))))))))"

definition append_note :: "jstring \<Rightarrow> jstring \<Rightarrow> jstring" where
  "append_note formatted note = formatted @ (if formatted = [] then [] else [10, 10]) @ note"

definition total_known :: "run \<Rightarrow> bool" where
  "total_known r \<longleftrightarrow> \<not> rn_upstreamTruncated r \<and> fi_complete (rn_file r)"

definition extent_text :: "run \<Rightarrow> jstring" where
  "extent_text r = (if fi_complete (rn_file r) then lit ''Full'' else lit ''Partial'') @ lit '' output: '' @ rn_path r @ lit '']''"

text \<open>The note on what was cut.\<close>

definition truncation_note :: "run \<Rightarrow> tail \<Rightarrow> jstring" where
  "truncation_note r t =
     (if total_known r \<and> \<not> tl_lastLinePartial t
      then let total = length (text_lines (rn_text r)) in
        lit ''[Showing lines '' @ int_text (int total - int (tl_outputLines t) + 1) @ lit ''-'' @ nat_text total @ lit '' of '' @ nat_text total
        @ (if tl_truncatedBy t = Some By_bytes then lit '' (50.0KB limit)'' else []) @ lit ''. '' @ extent_text r
      else lit ''[Showing last '' @ nat_text (tl_outputLines t) @ lit '' lines ('' @ kib_text (tl_outputBytes t)
        @ lit ''KB) of available output. '' @ extent_text r)"

definition reason_note :: "run \<Rightarrow> number option \<Rightarrow> jstring option" where
  "reason_note r timeout = (case rn_reason r of
     Timed_out_run \<Rightarrow> Some (case timeout of None \<Rightarrow> lit ''Command timed out''
       | Some x \<Rightarrow> lit ''Command timed out after '' @ num_text x @ lit '' seconds'')
   | Terminated \<Rightarrow> Some (lit ''Command aborted'')
   | Start_failed \<Rightarrow> Some (lit ''Command failed to start: '' @ reason_detail (rn_nativeReason r))
   | Lost \<Rightarrow> Some (lit ''Command outcome is unknown; do not automatically retry: '' @ reason_detail (rn_nativeReason r))
   | Exited \<Rightarrow> (case (rn_signal r, rn_exitCode r) of
       (Some s, _) \<Rightarrow> Some (lit ''Command terminated by signal '' @ s)
     | (None, None) \<Rightarrow> Some (lit ''Command terminated without an exit code'')
     | (None, Some n) \<Rightarrow> if n \<noteq> 0 then Some (lit ''Command exited with code '' @ nat_text n) else None))"

definition run_truncated :: "run \<Rightarrow> tail \<Rightarrow> bool" where
  "run_truncated r t \<longleftrightarrow> rn_upstreamTruncated r \<or> tl_truncatedBy t \<noteq> None"

definition run_text :: "run \<Rightarrow> number option \<Rightarrow> jstring" where
  "run_text r timeout =
     (let t = truncateTail (rn_text r);
          t0 = (if tl_text t \<noteq> [] then tl_text t else if rn_reason r = Timed_out_run \<or> rn_reason r = Terminated then [] else lit ''(no output)'');
          t1 = (if run_truncated r t then append_note t0 (truncation_note r t) else t0);
          t2 = (if fi_complete (rn_file r) then t1
                else append_note t1 (lit ''[Output capture is incomplete. Partial output file: '' @ rn_path r @ lit '']'')) in
      case reason_note r timeout of None \<Rightarrow> t2 | Some note \<Rightarrow> append_note t2 note)"

abbreviation nat_json :: "nat \<Rightarrow> json" where
  "nat_json n \<equiv> JNum (NInt (int n))"

definition truncated_by_json :: "run \<Rightarrow> tail \<Rightarrow> json" where
  "truncated_by_json r t = (case tl_truncatedBy t of
     Some By_lines \<Rightarrow> str ''lines'' | Some By_bytes \<Rightarrow> str ''bytes''
   | None \<Rightarrow> if rn_upstreamTruncated r then str ''upstream'' else JNull)"

definition truncation_json :: "run \<Rightarrow> json" where
  "truncation_json r =
     (let t = truncateTail (rn_text r) in
      obj [(''truncated'', JBool (run_truncated r t)), (''truncatedBy'', truncated_by_json r t), (''outputLines'', nat_json (tl_outputLines t)),
        (''outputBytes'', nat_json (tl_outputBytes t)), (''maxLines'', nat_json PI_BASH_MAX_LINES), (''maxBytes'', nat_json PI_BASH_MAX_BYTES),
        (''totalLines'', if total_known r then nat_json (length (text_lines (rn_text r))) else JNull),
        (''totalTextBytes'', if total_known r then nat_json (utf8Bytes (rn_text r)) else JNull),
        (''upstreamTruncated'', JBool (rn_upstreamTruncated r)), (''lastLinePartial'', JBool (tl_lastLinePartial t))])"

definition output_file_json :: "output_file \<Rightarrow> json" where
  "output_file_json f = obj [(''artifactId'', JStr (fi_artifactId f)), (''sizeBytes'', nat_json (fi_sizeBytes f)),
     (''complete'', JBool (fi_complete f)), (''expiresAt'', opt_json JStr (fi_expiresAt f))]"

record correlation =
  co_requestId :: jstring
  co_machineId :: jstring
  co_runtimeGeneration :: jstring

definition run_json :: "run \<Rightarrow> correlation \<Rightarrow> number option \<Rightarrow> json" where
  "run_json r c timeout = obj [
     (''content'', JArr [obj [(''type'', str ''text''), (''text'', JStr (run_text r timeout))]]),
     (''isError'', JBool (rn_reason r \<noteq> Exited \<or> rn_exitCode r \<noteq> Some 0 \<or> rn_signal r \<noteq> None \<or> \<not> fi_complete (rn_file r))),
     (''details'', obj [(''requestId'', JStr (co_requestId c)), (''machineId'', JStr (co_machineId c)), (''runtimeGeneration'', JStr (co_runtimeGeneration c)),
       (''wallTimeSeconds'', JNum (rn_wallTimeSeconds r)), (''originalBytes'', nat_json (rn_originalBytes r)),
       (''reason'', JStr (reason_text (rn_reason r))), (''exitCode'', opt_json nat_json (rn_exitCode r)), (''signal'', opt_json JStr (rn_signal r)),
       (''timedOut'', JBool (rn_reason r = Timed_out_run)), (''fullOutputPath'', JStr (rn_path r)), (''outputFile'', output_file_json (rn_file r)),
       (''truncation'', truncation_json r)])]"

definition formatRun :: "json option \<Rightarrow> correlation \<Rightarrow> number option \<Rightarrow> (run_reason \<times> json) res" where
  "formatRun value c timeout = bindR (read_run value) (\<lambda>r. Inr (rn_reason r, run_json r c timeout))"

end
