(* ===== verification/ToolWorkers.thy ===== *)
theory ToolWorkers
  imports LlmGateway BashResult Doubles
begin

text \<open>
  The workers that run tools on a machine: \<open>apps/tools/tool-pi-bash-workers\<close>, tool-pi-write-workers and
  tool-pi-edit-workers. A worker keeps no state. It turns a submission of a session into a request to the execution
  gateway, and a result the gateway delivers into a completion of that session.
  \<^item> The workers have the same service.ts, gateway.ts and context.ts but for the tool's own arguments. What
    differs is the record \<open>tool_worker\<close>; what is common is one definition, and \<open>bash_worker\<close>, \<open>write_worker\<close> and
    \<open>edit_worker\<close> are its instances here; the theories \<open>ApplyPatchWorker\<close> and \<open>ReadWorker\<close> hold the other two.
  \<^item> What the gateway answers to a request is an argument; a session is reached through the parameter \<open>call\<close>. Whether a
    deadline was kept is an argument. SHA-256, \<open>JSON.parse\<close> and \<open>new URL\<close> are parameters.
\<close>

section \<open>context.ts\<close>

record 'x tool_context =
  ct_routeKey :: jstring
  ct_sessionId :: jstring
  ct_gatewayUrl :: jstring
  ct_machineId :: jstring
  ct_runtimeGeneration :: jstring
  ct_operationId :: jstring
  ct_submissionId :: jstring
  ct_cwd :: jstring
  ct_extra :: 'x

text \<open>What a tool adds: its names, the validator of its input, the request to the machine, its part of the callback context, a
  result it gives without a machine, and the outcome of a native result.\<close>

record ('a, 'x) tool_worker =
  tw_operation :: operation_definition
  tw_receiver :: string
  tw_prefix :: string
  tw_name :: string
  tw_noun :: string
  tw_title :: string
  tw_code :: string
  tw_parseInput :: "json option \<Rightarrow> (placement \<times> 'a) res"
  tw_keys :: "string list"
  tw_context_input :: "fields \<Rightarrow> json option"
  tw_extra :: "fields \<Rightarrow> 'a \<Rightarrow> 'x res"
  tw_extra_fields :: "(jstring \<Rightarrow> jstring) \<Rightarrow> 'a \<Rightarrow> (string \<times> json) list"
  tw_local :: "placement \<Rightarrow> 'a \<Rightarrow> json option"
  tw_request :: "placement \<Rightarrow> 'a \<Rightarrow> string \<times> json"
  tw_outcome :: "(jstring \<Rightarrow> jstring) \<Rightarrow> completion_event \<Rightarrow> 'x tool_context \<Rightarrow> operation_outcome res"

definition context_correlation :: "string \<Rightarrow> fields \<Rightarrow> string \<Rightarrow> jstring res" where
  "context_correlation name r key = (case field r key of
     Some (JStr s) \<Rightarrow> if s = [] \<or> length s > 2048 then Inl (JsError (lit ''Invalid '' @ lit name @ lit '' correlation.'')) else Inr s
   | _ \<Rightarrow> Inl (JsError (lit ''Invalid '' @ lit name @ lit '' correlation.'')))"

definition CONTEXT_KEYS :: "string list" where
  "CONTEXT_KEYS = [''routeKey'', ''sessionId'', ''gatewayUrl'', ''machineId'', ''runtimeGeneration'', ''operationId'', ''submissionId'', ''cwd'']"

definition parse_context :: "url_parser \<Rightarrow> ('a, 'x) tool_worker \<Rightarrow> json option \<Rightarrow> 'x tool_context res" where
  "parse_context new_URL w value =
     bindR (gw_object value (Some (CONTEXT_KEYS @ tw_keys w))) (\<lambda>r.
     bindR (context_correlation (tw_name w) r ''operationId'') (\<lambda>oid.
     bindR (context_correlation (tw_name w) r ''submissionId'') (\<lambda>submissionId.
     bindR (tw_parseInput w (tw_context_input w r)) (\<lambda>(place, input).
     bindR (parseExecutionGatewayUrl new_URL (field r ''gatewayUrl'')) (\<lambda>gatewayUrl.
     bindR (gw_identity (field r ''routeKey'')) (\<lambda>routeKey.
     bindR (gw_identity (field r ''sessionId'')) (\<lambda>sessionId.
     bindR (gw_uuid (field r ''runtimeGeneration'')) (\<lambda>generation.
     bindR (tw_extra w r input) (\<lambda>extra.
     Inr \<lparr>ct_routeKey = routeKey, ct_sessionId = sessionId, ct_gatewayUrl = gatewayUrl, ct_machineId = pl_machineId place,
       ct_runtimeGeneration = generation, ct_operationId = oid, ct_submissionId = submissionId, ct_cwd = pl_cwd place, ct_extra = extra\<rparr>)))))))))"

definition assertSecretMatches :: "tool_execution_submission \<Rightarrow> placement \<Rightarrow> unit res" where
  "assertSecretMatches parsed place =
     bindR (machineSecret (tc_token (ts_execution parsed)) Execution_secret) (\<lambda>(machineId, version).
     if machineId \<noteq> pl_machineId place then Inl (JsError (lit ''Execution secret belongs to another machine.'')) else Inr ())"

definition tool_identity :: "(jstring \<Rightarrow> jstring) \<Rightarrow> ('a, 'x) tool_worker \<Rightarrow> jstring \<Rightarrow> jstring" where
  "tool_identity sha w submissionId = lit (tw_prefix w) @ sha submissionId"

definition COMPLETION_KEYS :: "string list" where
  "COMPLETION_KEYS = [''protocolVersion'', ''machineId'', ''runtimeGeneration'', ''requestId'', ''requestHash'', ''callback'', ''deliveryId'',
     ''resultHash'', ''outcome'']"

definition parse_completion_event :: "json option \<Rightarrow> completion_event res" where
  "parse_completion_event value =
     bindR (gw_object value (Some COMPLETION_KEYS)) (\<lambda>raw.
     if field raw ''protocolVersion'' \<noteq> Some (JNum (NInt 1)) then Inl (JsError (lit ''Unsupported execution completion protocol.''))
     else
       bindR (routingFields (Some (JObj raw))) (\<lambda>envelope.
       bindR (gw_digest (field raw ''deliveryId'')) (\<lambda>deliveryId.
       bindR (gw_digest (field raw ''resultHash'')) (\<lambda>resultHash.
       bindR (parse_outcome (field raw ''outcome'')) (\<lambda>out.
       Inr \<lparr>ev_envelope = envelope, ev_deliveryId = deliveryId, ev_resultHash = resultHash, ev_outcome = out\<rparr>)))))"

definition tool_completion ::
  "(jstring \<Rightarrow> jstring) \<Rightarrow> url_parser \<Rightarrow> ('a, 'x) tool_worker \<Rightarrow> json option \<Rightarrow> (completion_event \<times> 'x tool_context) res" where
  "tool_completion sha new_URL w value =
     bindR (parse_completion_event value) (\<lambda>event.
     let envelope = ev_envelope event in
     bindR (parse_context new_URL w (Some (cb_context (re_callback envelope)))) (\<lambda>context.
     bindR (jsonValue (Some (outcome_native_json (ev_outcome event)))) (\<lambda>hashed.
     if cb_receiver (re_callback envelope) \<noteq> lit (tw_receiver w) \<or> re_machineId envelope \<noteq> ct_machineId context
        \<or> re_runtimeGeneration envelope \<noteq> ct_runtimeGeneration context
        \<or> re_requestId envelope \<noteq> tool_identity sha w (ct_submissionId context)
        \<or> ev_resultHash event \<noteq> hashJson sha hashed
        \<or> ev_deliveryId event \<noteq> hashJson sha (obj [(''requestHash'', JStr (re_requestHash envelope)), (''resultHash'', JStr (ev_resultHash event))])
     then Inl (JsError (lit ''Execution completion conflicts with '' @ lit (tw_name w) @ lit '' identity or result.''))
     else Inr (event, context))))"

section \<open>gateway.ts\<close>

definition too_large_error :: "('a, 'x) tool_worker \<Rightarrow> exn" where
  "too_large_error w = GatewayError 413 (lit (tw_code w) @ lit ''_REQUEST_TOO_LARGE'') (lit (tw_title w) @ lit '' request exceeds the gateway transfer limit.'') False False"

text \<open>The request: what is sent, and the hash the acceptance must carry.\<close>

definition submission_object :: "submission \<Rightarrow> json" where
  "submission_object b = obj (submission_fields b)"

definition machine_request ::
  "(jstring \<Rightarrow> jstring) \<Rightarrow> ('a, 'x) tool_worker \<Rightarrow> placement \<Rightarrow> 'a \<Rightarrow> tool_execution_submission \<Rightarrow> jstring \<Rightarrow> json \<Rightarrow> (submission \<times> jstring) res" where
  "machine_request sha w place input parsed requestId context =
     bindR (jsonValue (Some context)) (\<lambda>context.
     case tw_request w place input of (operation, params) \<Rightarrow>
     bindR (parse_submission (Some (obj [(''requestId'', JStr requestId), (''runtimeGeneration'', JStr (tc_runtimeGeneration (ts_execution parsed))),
       (''operation'', obj [(''operation'', str operation), (''params'', params)]),
       (''callback'', obj [(''receiver'', str (tw_receiver w)), (''context'', context)])]))) (\<lambda>b.
     if json_bytes (submission_object b) > MAX_HTTP_BYTES then Inl (too_large_error w)
     else bindR (jsonValue (Some (submit_hashed (pl_machineId place) b))) (\<lambda>hashed. Inr (b, hashJson sha hashed))))"

definition error_identifier :: "jstring \<Rightarrow> bool" where
  "error_identifier s \<longleftrightarrow> 1 \<le> length s \<and> length s \<le> 128 \<and> list_all (\<lambda>u. is_alnum u \<or> u = 0x5F \<or> u = 0x2E \<or> u = 0x3A \<or> u = 0x2D) s"

definition uncertain_failure :: "string \<Rightarrow> 'a res" where
  "uncertain_failure m = Inl (JsError (lit m))"

definition gateway_failure :: "int \<Rightarrow> fields \<Rightarrow> exn" where
  "gateway_failure status r =
     (let invalid = JsError (lit ''Invalid gateway error; submission outcome is uncertain.'') in
      case bindR (gw_object (Some (JObj r)) (Some [''error''])) (\<lambda>_.
           gw_object (field r ''error'') (Some [''code'', ''message'', ''retryable'', ''uncertain''])) of
        Inl e \<Rightarrow> invalid
      | Inr e \<Rightarrow> (case (field e ''code'', field e ''message'', field e ''retryable'', field e ''uncertain'') of
          (Some (JStr code), Some (JStr message), Some (JBool retryable), Some (JBool uncertain)) \<Rightarrow>
            if error_identifier code then GatewayError status code (lit ''Gateway submission failed ('' @ code @ lit '').'') retryable uncertain else invalid
        | _ \<Rightarrow> invalid))"

text \<open>What becomes of the gateway's answer.\<close>

definition machine_answer :: "(jstring \<Rightarrow> json res) \<Rightarrow> jstring \<Rightarrow> jstring \<Rightarrow> jstring \<Rightarrow> jstring \<Rightarrow> http_answer \<Rightarrow> unit res" where
  "machine_answer JSON_parse machineId requestId requestHash generation ans = (case ans of
     No_answer \<Rightarrow> uncertain_failure ''fetch failed''
   | Answer status b \<Rightarrow> (case readLimited b (64 * 1024) of
       Inl e \<Rightarrow> uncertain_failure ''Invalid gateway response; submission outcome is uncertain.''
     | Inr s \<Rightarrow> (case bindR (JSON_parse s) (\<lambda>v. gw_object (Some v) None) of
         Inl e \<Rightarrow> uncertain_failure ''Invalid gateway response; submission outcome is uncertain.''
       | Inr r \<Rightarrow>
           if status \<noteq> 202 then Inl (gateway_failure status r)
           else case gw_object (Some (JObj r)) (Some [''status'', ''machineId'', ''requestId'', ''requestHash'', ''runtimeGeneration'']) of
             Inl e \<Rightarrow> uncertain_failure ''Invalid gateway acceptance; submission outcome is uncertain.''
           | Inr _ \<Rightarrow>
               if field r ''status'' \<noteq> Some (str ''accepted'') \<or> field r ''machineId'' \<noteq> Some (JStr machineId)
                  \<or> field r ''requestId'' \<noteq> Some (JStr requestId) \<or> field r ''requestHash'' \<noteq> Some (JStr requestHash)
                  \<or> field r ''runtimeGeneration'' \<noteq> Some (JStr generation)
               then uncertain_failure ''Gateway acceptance identity mismatch; submission outcome is uncertain.''
               else Inr ())))"

section \<open>service.ts\<close>

record worker_env =
  we_SESSION_ROUTES :: jstring
  we_bound :: "jstring \<Rightarrow> bool"
  we_JSON_parse :: "jstring \<Rightarrow> json res"
  we_new_URL :: url_parser
  we_sha :: "jstring \<Rightarrow> jstring"

definition worker_request :: "worker_env \<Rightarrow> ('a, 'x) tool_worker \<Rightarrow> json option \<Rightarrow> (submit_result + tool_execution_submission \<times> placement \<times> 'a) res" where
  "worker_request env w value =
     (case bindR (parseToolExecutionSubmission (we_new_URL env) value) (\<lambda>parsed.
           let request = ps_request (ts_submission parsed); expected = tw_operation w in
           if od_provider request \<noteq> od_provider expected \<or> od_type request \<noteq> od_type expected \<or> od_version request \<noteq> od_version expected
           then bad INVALID_REQUEST (lit ''Expected '' @ od_provider expected @ lit ''/'' @ od_type expected @ lit ''/'' @ od_version expected @ lit ''.'')
           else bindR (tw_parseInput w (Some (or_input request))) (\<lambda>(place, input). Inr (parsed, place, input))) of
       Inl (ContractException c m) \<Rightarrow> Inr (Inl (rejected (lit ''INVALID_'' @ lit (tw_code w) @ lit ''_REQUEST'') m))
     | Inl e \<Rightarrow> Inl e
     | Inr q \<Rightarrow> Inr (Inr q))"

definition context_object :: "(jstring \<Rightarrow> jstring) \<Rightarrow> ('a, 'x) tool_worker \<Rightarrow> tool_execution_submission \<Rightarrow> placement \<Rightarrow> 'a \<Rightarrow> json" where
  "context_object sha w parsed place input = obj ([(''routeKey'', JStr (sd_routeKey (ts_destination parsed))),
     (''sessionId'', JStr (sd_sessionId (ts_destination parsed))), (''gatewayUrl'', JStr (tc_gatewayUrl (ts_execution parsed))),
     (''machineId'', JStr (pl_machineId place)), (''runtimeGeneration'', JStr (tc_runtimeGeneration (ts_execution parsed))),
     (''operationId'', JStr (ps_operationId (ts_submission parsed))), (''submissionId'', JStr (ps_submissionId (ts_submission parsed))),
     (''cwd'', JStr (pl_cwd place))] @ tw_extra_fields w sha input)"

text \<open>An error that definitively precedes acceptance finishes the operation; every other one is thrown and retried.\<close>

definition final_rejection :: "exn \<Rightarrow> submit_result option" where
  "final_rejection e = (case e of
     GatewayError status code message retryable uncertain \<Rightarrow>
       if \<not> retryable \<and> \<not> uncertain \<and> status \<notin> {401, 403, 409} then Some (rejected code message) else None
   | _ \<Rightarrow> None)"

definition worker_dispatch :: "worker_env \<Rightarrow> ('a, 'x) tool_worker \<Rightarrow> tool_execution_submission \<Rightarrow> placement \<Rightarrow> 'a \<Rightarrow> jstring \<Rightarrow> http_answer \<Rightarrow> unit res" where
  "worker_dispatch env w parsed place input requestId ans =
     bindR (parseExecutionGatewayUrl (we_new_URL env) (Some (JStr (tc_gatewayUrl (ts_execution parsed))))) (\<lambda>_.
     bindR (machine_request (we_sha env) w place input parsed requestId (context_object (we_sha env) w parsed place input)) (\<lambda>(b, requestHash).
     machine_answer (we_JSON_parse env) (pl_machineId place) requestId requestHash (tc_runtimeGeneration (ts_execution parsed)) ans))"

definition worker_submit :: "worker_env \<Rightarrow> ('a, 'x) tool_worker \<Rightarrow> json option \<Rightarrow> http_answer \<Rightarrow> submit_result res" where
  "worker_submit env w value ans =
     bindR (worker_request env w value) (\<lambda>q. case q of
       Inl r \<Rightarrow> Inr r
     | Inr (parsed, place, input) \<Rightarrow>
         bindR (sessionNamespace (we_JSON_parse env) (we_bound env) (we_SESSION_ROUTES env) (sd_routeKey (ts_destination parsed))) (\<lambda>_.
         bindR (assertSecretMatches parsed place) (\<lambda>_.
         let requestId = tool_identity (we_sha env) w (ps_submissionId (ts_submission parsed)) in
         case tw_local w place input of
           Some result \<Rightarrow> bindR (parseOperationOutcome (Some (outcome_json (Succeeded result)))) (\<lambda>outcome.
             Inr (Completed (lit ''local:'' @ requestId) outcome))
         | None \<Rightarrow> (case worker_dispatch env w parsed place input requestId ans of
             Inl e \<Rightarrow> (case final_rejection e of Some r \<Rightarrow> Inr r | None \<Rightarrow> Inl e)
           | Inr _ \<Rightarrow> Inr (Accepted requestId)))))"

definition tool_command :: "('a, 'x) tool_worker \<Rightarrow> 'x tool_context \<Rightarrow> jstring \<Rightarrow> operation_outcome \<Rightarrow> json" where
  "tool_command w context requestId outcome = obj [(''action'', str ''acceptToolCompletion''), (''value'', obj [
     (''execution'', obj [(''gatewayUrl'', JStr (ct_gatewayUrl context)), (''machineId'', JStr (ct_machineId context)),
       (''runtimeGeneration'', JStr (ct_runtimeGeneration context))]),
     (''completion'', obj [(''provider'', JStr (od_provider (tw_operation w))), (''operationId'', JStr (ct_operationId context)),
       (''submissionId'', JStr (ct_submissionId context)), (''jobId'', JStr requestId), (''outcome'', outcome_json outcome)])])]"

definition worker_receipt :: "completion_event \<Rightarrow> json" where
  "worker_receipt event = obj [(''status'', str ''accepted''), (''deliveryId'', JStr (ev_deliveryId event)),
     (''requestId'', JStr (re_requestId (ev_envelope event))), (''requestHash'', JStr (re_requestHash (ev_envelope event))),
     (''resultHash'', JStr (ev_resultHash event))]"

definition acceptExecutionResult ::
  "worker_env \<Rightarrow> ('a, 'x) tool_worker \<Rightarrow> 'w session_call \<Rightarrow> deadline \<Rightarrow> json option \<Rightarrow> ('w, json) act" where
  "acceptExecutionResult env w call deadline value =
     bindA (liftR (tool_completion (we_sha env) (we_new_URL env) w value)) (\<lambda>(event, context).
     bindA (liftR (sessionNamespace (we_JSON_parse env) (we_bound env) (we_SESSION_ROUTES env) (ct_routeKey context))) (\<lambda>namespace.
     bindA (liftR (tw_outcome w (we_sha env) event context)) (\<lambda>outcome.
     if deadline = Late_before_call then throwA (JsError (lit ''Execution adapter deadline exceeded.''))
     else bindA (call namespace (ct_sessionId context) (tool_command w context (re_requestId (ev_envelope event)) outcome)) (\<lambda>reply.
     if deadline = Late_after_call then throwA (JsError (lit ''Execution adapter deadline exceeded.''))
     else if \<not> validReceipt reply (ct_operationId context)
     then throwA (JsError (lit ''Session did not confirm durable '' @ lit (tw_noun w) @ lit '' completion admission.''))
     else retA (worker_receipt event)))))"

section \<open>Outcomes\<close>

definition native_failure :: "string \<Rightarrow> string \<Rightarrow> jstring \<Rightarrow> jstring \<Rightarrow> bool \<Rightarrow> jstring \<Rightarrow> operation_outcome" where
  "native_failure unknown_code unknown_message code message uncertain requestId = Failed Execution
     \<lparr>of_code = (if uncertain then lit unknown_code else code), of_message = (if uncertain then lit unknown_message else take 2000 message),
      of_details = Some (obj [(''requestId'', JStr requestId), (''nativeCode'', JStr code), (''uncertain'', JBool uncertain)])\<rparr>"

definition completed_result :: "json \<Rightarrow> operation_outcome res" where
  "completed_result result = parseOperationOutcome (Some (outcome_json (Succeeded result)))"

text \<open>Errors of the file system that are a result of the tool.\<close>

definition FILE_ERRORS :: "jstring list" where
  "FILE_ERRORS = map lit [''not_found'', ''io'', ''invalid_argument'', ''resource_limit'', ''conflict'']"

definition file_error :: "jstring \<Rightarrow> jstring \<Rightarrow> jstring \<Rightarrow> jstring \<Rightarrow> jstring option \<Rightarrow> json" where
  "file_error machineId path code message requestId = obj [(''content'', JArr [obj [(''type'', str ''text''), (''text'', JStr message)]]),
     (''isError'', JBool True), (''details'', obj ((case requestId of None \<Rightarrow> [] | Some i \<Rightarrow> [(''requestId'', JStr i)])
       @ [(''machineId'', JStr machineId), (''path'', JStr path), (''error'', obj [(''code'', JStr code), (''message'', JStr message)])]))]"

subsection \<open>bash\<close>

record bash_extra =
  bx_commandSha256 :: jstring
  bx_timeoutSeconds :: "number option"

definition bash_outcome :: "(jstring \<Rightarrow> jstring) \<Rightarrow> completion_event \<Rightarrow> bash_extra tool_context \<Rightarrow> operation_outcome res" where
  "bash_outcome sha event context =
     (let requestId = re_requestId (ev_envelope event) in case ev_outcome event of
       NativeError code message uncertain \<Rightarrow> Inr (native_failure ''BASH_EXECUTION_UNKNOWN''
         ''Command may have run, but its outcome is unknown. Do not automatically execute it again.'' code message uncertain requestId)
     | NativeOk result \<Rightarrow>
         bindR (formatRun (Some result) \<lparr>co_requestId = requestId, co_machineId = ct_machineId context,
           co_runtimeGeneration = ct_runtimeGeneration context\<rparr> (bx_timeoutSeconds (ct_extra context))) (\<lambda>(reason, formatted).
         if reason = Lost then Inr (Failed Execution \<lparr>of_code = lit ''BASH_EXECUTION_UNKNOWN'',
           of_message = lit ''Command outcome was lost; do not automatically execute it again.'',
           of_details = Some (obj [(''requestId'', JStr requestId), (''toolResult'', formatted)])\<rparr>)
         else completed_result formatted))"

text \<open>\<open>Math.trunc(timeout * 1000)\<close> in doubles: a positive decimal is the double nearest to it (53 bits, ties to even), and so is the
  product. The exponent range is not reached by the timeouts the contracts accept.\<close>

definition decimal :: "number \<Rightarrow> nat \<times> nat" where
  "decimal x = (case x of NInt i \<Rightarrow> (nat i, 1) | NFrac m k \<Rightarrow> (nat m, 10 ^ k))"

definition bashTimeoutMs :: "number \<Rightarrow> int" where
  "bashTimeoutMs x = (let d = nearest_double (decimal x); y = nearest_double (fst d * 1000, snd d) in max 1 (int (fst y div snd y)))"

definition execParams :: "placement \<Rightarrow> bash_tool_input \<Rightarrow> json" where
  "execParams place input = obj [(''cwd'', JStr (pl_cwd place)), (''env'', obj []), (''tty'', JBool False),
     (''command'', obj [(''type'', str ''shell''), (''script'', JStr (bt_command input)),
       (''shell'', obj [(''executable'', str ''bash''), (''kind'', str ''bash'')]), (''login'', JBool False)]),
     (''completion'', obj [(''mode'', str ''finished''), (''timeout_ms'', opt_json (\<lambda>x. int_json (bashTimeoutMs x)) (bt_timeout input))]),
     (''output'', obj [(''strategy'', str ''tail''), (''max_bytes'', nat_json BASH_GATEWAY_PREVIEW_BYTES), (''retain_full_output'', JBool True)])]"

text \<open>The input \<open>parseBashContext\<close> rebuilds: a null timeout is no timeout; an absent field is \<open>undefined\<close>, which is refused.\<close>

definition bash_context_input :: "fields \<Rightarrow> json option" where
  "bash_context_input r = (case (field r ''machineId'', field r ''cwd'', field r ''timeoutSeconds'') of
     (Some m, Some c, Some t) \<Rightarrow> Some (obj ([(''machineId'', m), (''cwd'', c), (''command'', JStr [])]
       @ (if t = JNull then [] else [(''timeout'', t)])))
   | _ \<Rightarrow> None)"

definition bash_worker :: "(bash_tool_input, bash_extra) tool_worker" where
  "bash_worker = \<lparr>tw_operation = PI_BASH_OPERATION, tw_receiver = ''tool-pi-bash-v1'', tw_prefix = ''pi-bash-v1:'', tw_name = ''bash'', tw_noun = ''bash'',
     tw_title = ''Bash'', tw_code = ''BASH'', tw_parseInput = parseBashInput, tw_keys = [''commandSha256'', ''timeoutSeconds''],
     tw_context_input = bash_context_input,
     tw_extra = (\<lambda>r input. bindR (gw_digest (field r ''commandSha256'')) (\<lambda>h. Inr \<lparr>bx_commandSha256 = h, bx_timeoutSeconds = bt_timeout input\<rparr>)),
     tw_extra_fields = (\<lambda>sha input. [(''commandSha256'', JStr (sha (bt_command input))), (''timeoutSeconds'', opt_json JNum (bt_timeout input))]),
     tw_local = (\<lambda>place input. None), tw_request = (\<lambda>place input. (''execution.exec'', execParams place input)), tw_outcome = bash_outcome\<rparr>"

subsection \<open>write\<close>

record write_extra =
  wx_path :: jstring
  wx_contentSha256 :: jstring
  wx_contentBytes :: int

definition PI_WRITE_MAX_FILE_BYTES :: nat where
  "PI_WRITE_MAX_FILE_BYTES = 5 * 1024 * 1024"

definition write_too_large :: "placement \<Rightarrow> write_tool_input \<Rightarrow> json" where
  "write_too_large place input = file_error (pl_machineId place) (wt_path input) (lit ''WRITE_FILE_TOO_LARGE'')
     (lit ''Content is too big to write. The maximum file size is 5 MiB (5,242,880 UTF-8 bytes). No write was submitted.'') None"

text \<open>\<open>formatReceipt\<close>: the native receipt must be the one of this submission's content.\<close>

definition write_receipt :: "(jstring \<Rightarrow> jstring) \<Rightarrow> json \<Rightarrow> write_extra tool_context \<Rightarrow> jstring \<Rightarrow> json res" where
  "write_receipt sha value context requestId = (case value of
     JObj r \<Rightarrow>
       (let mutation = lit ''pi-write-v1:'' @ sha (ct_submissionId context); x = ct_extra context;
            refuse = Inl (JsError (lit ''Filesystem write receipt conflicts with submission.'')) in
        case (field r ''disposition'', field r ''path'') of
          (Some d, Some (JStr path)) \<Rightarrow>
            if field r ''mutation_id'' \<noteq> Some (JStr mutation) \<or> field r ''sha256'' \<noteq> Some (JStr (wx_contentSha256 x))
               \<or> field r ''bytes_written'' \<noteq> Some (JNum (NInt (wx_contentBytes x))) \<or> (d \<noteq> str ''applied'' \<and> d \<noteq> str ''already_applied'')
               \<or> length path > 16384 \<or> \<not> isAbsoluteMachinePath path
            then refuse
            else Inr (obj [(''content'', JArr [obj [(''type'', str ''text''), (''text'', JStr (lit ''Successfully wrote to '' @ wx_path x))]]),
              (''isError'', JBool False), (''details'', obj [(''requestId'', JStr requestId), (''machineId'', JStr (ct_machineId context)),
                (''path'', JStr (wx_path x)), (''file'', obj [(''path'', JStr path), (''mutationId'', JStr mutation),
                  (''sha256'', JStr (wx_contentSha256 x)), (''bytesWritten'', JNum (NInt (wx_contentBytes x))), (''disposition'', d)])])])
        | _ \<Rightarrow> refuse)
   | _ \<Rightarrow> Inl (JsError (lit ''Expected an object.'')))"

definition write_outcome :: "(jstring \<Rightarrow> jstring) \<Rightarrow> completion_event \<Rightarrow> write_extra tool_context \<Rightarrow> operation_outcome res" where
  "write_outcome sha event context =
     (let requestId = re_requestId (ev_envelope event) in case ev_outcome event of
       NativeError code message uncertain \<Rightarrow>
         if \<not> uncertain \<and> code \<in> set FILE_ERRORS
         then completed_result (file_error (ct_machineId context) (wx_path (ct_extra context)) code (take 2000 message) (Some requestId))
         else Inr (native_failure ''WRITE_OUTCOME_UNKNOWN''
           ''The file may have changed before execution stopped. Inspect it before issuing a new write; this request will not be automatically rerun.''
           code message uncertain requestId)
     | NativeOk result \<Rightarrow> bindR (write_receipt sha result context requestId) completed_result)"

text \<open>Padded base64, as \<open>Buffer.toString("base64")\<close> writes it: the alphabet of \<open>encode64\<close> with two characters changed.\<close>

definition base64_padded :: "byte list \<Rightarrow> jstring" where
  "base64_padded bs = (let s = map (\<lambda>u. if u = 0x2D then 0x2B else if u = 0x5F then 0x2F else u) (encode64 bs) in
     s @ replicate ((3 - length bs mod 3) mod 3) 0x3D)"

definition path_context_input :: "string \<Rightarrow> json \<Rightarrow> fields \<Rightarrow> json option" where
  "path_context_input key v r = (case (field r ''machineId'', field r ''cwd'', field r ''path'') of
     (Some m, Some c, Some p) \<Rightarrow> Some (obj [(''machineId'', m), (''cwd'', c), (''path'', p), (key, v)])
   | _ \<Rightarrow> None)"

definition write_worker :: "(write_tool_input, write_extra) tool_worker" where
  "write_worker = \<lparr>tw_operation = PI_WRITE_OPERATION, tw_receiver = ''tool-pi-write-v1'', tw_prefix = ''pi-write-v1:'', tw_name = ''write'', tw_noun = ''write'',
     tw_title = ''Write'', tw_code = ''WRITE'', tw_parseInput = parseWriteInput, tw_keys = [''path'', ''contentSha256'', ''contentBytes''],
     tw_context_input = path_context_input ''content'' (JStr []),
     tw_extra = (\<lambda>r input. bindR (gw_digest (field r ''contentSha256'')) (\<lambda>h.
       bindR (gw_integer (field r ''contentBytes'') 0 (int PI_WRITE_MAX_FILE_BYTES)) (\<lambda>n.
       Inr \<lparr>wx_path = wt_path input, wx_contentSha256 = h, wx_contentBytes = n\<rparr>))),
     tw_extra_fields = (\<lambda>sha input. [(''path'', JStr (wt_path input)), (''contentBytes'', nat_json (utf8Bytes (wt_content input))),
       (''contentSha256'', JStr (sha (wt_content input)))]),
     tw_local = (\<lambda>place input. if utf8Bytes (wt_content input) > PI_WRITE_MAX_FILE_BYTES then Some (write_too_large place input) else None),
     tw_request = (\<lambda>place input. (''filesystem.write'', obj [(''path'', JStr (wt_path input)), (''cwd'', JStr (pl_cwd place)),
       (''content'', obj [(''type'', str ''base64''), (''data'', JStr (base64_padded (utf8_encode (wt_content input))))]), (''create_parents'', JBool True)])),
     tw_outcome = write_outcome\<rparr>"

subsection \<open>edit\<close>

record edit_extra =
  ex_path :: jstring
  ex_editsSha256 :: jstring
  ex_editCount :: int

definition PI_EDIT_MAX_FILE_BYTES :: nat where
  "PI_EDIT_MAX_FILE_BYTES = 5 * 1024 * 1024"

definition PI_EDIT_MAX_PARAMS_BYTES :: nat where
  "PI_EDIT_MAX_PARAMS_BYTES = 4 * 1024 * 1024"

definition edits_json :: "edit_replacement list \<Rightarrow> json" where
  "edits_json edits = JArr (map (\<lambda>e. obj [(''oldText'', JStr (er_oldText e)), (''newText'', JStr (er_newText e))]) edits)"

definition patchParams :: "placement \<Rightarrow> edit_tool_input \<Rightarrow> json" where
  "patchParams place input = obj [(''cwd'', JStr (pl_cwd place)), (''patch'', obj [(''format'', str ''text_replacements''),
     (''files'', JArr [obj [(''path'', JStr (et_path input)), (''edits'', edits_json (et_edits input))]])])]"

definition edit_too_large :: "placement \<Rightarrow> edit_tool_input \<Rightarrow> json" where
  "edit_too_large place input = file_error (pl_machineId place) (et_path input) (lit ''EDIT_REQUEST_TOO_LARGE'')
     (lit ''Edit request is too big. Serialized patch parameters must be at most 4 MiB. No edit was submitted.'') None"

definition bounded_integer :: "json option \<Rightarrow> int \<Rightarrow> int \<Rightarrow> bool" where
  "bounded_integer value lo hi \<longleftrightarrow> (case value of
     Some (JNum x) \<Rightarrow> (case safe_integer x of Some i \<Rightarrow> lo \<le> i \<and> i \<le> hi | None \<Rightarrow> False) | _ \<Rightarrow> False)"

definition sha256_text :: "json option \<Rightarrow> bool" where
  "sha256_text value \<longleftrightarrow> (case value of Some (JStr s) \<Rightarrow> length s = 64 \<and> list_all is_lower_hex s | _ \<Rightarrow> False)"

definition absent :: "json option \<Rightarrow> bool" where
  "absent v \<longleftrightarrow> v = None \<or> v = Some JNull"

text \<open>A change of the file: the checked fields under the names of the result, and the first changed line if there is one.\<close>

definition edit_change :: "json \<Rightarrow> ((string \<times> json) list \<times> json option) res" where
  "edit_change value = (case value of
     JObj r \<Rightarrow>
       if field r ''kind'' \<noteq> Some (str ''update'') \<or> \<not> absent (field r ''destination_path'') \<or> \<not> absent (field r ''destination_before_sha256'')
          \<or> \<not> absent (field r ''destination_bytes_before'')
          \<or> (case field r ''path'' of Some (JStr p) \<Rightarrow> length p > 16384 \<or> \<not> isAbsoluteMachinePath p | _ \<Rightarrow> True)
          \<or> \<not> sha256_text (field r ''before_sha256'') \<or> \<not> sha256_text (field r ''after_sha256'')
          \<or> \<not> bounded_integer (field r ''bytes_before'') 0 (int PI_EDIT_MAX_FILE_BYTES)
          \<or> \<not> bounded_integer (field r ''bytes_after'') 0 (int PI_EDIT_MAX_FILE_BYTES)
          \<or> (field r ''first_changed_line'' \<noteq> Some JNull \<and> \<not> bounded_integer (field r ''first_changed_line'') 1 (int PI_EDIT_MAX_FILE_BYTES + 1))
       then Inl (JsError (lit ''Invalid filesystem edit change.''))
       else
         let line = (if field r ''first_changed_line'' = Some JNull then None else field r ''first_changed_line'') in
         Inr ([(''path'', the (field r ''path'')), (''beforeSha256'', the (field r ''before_sha256'')), (''afterSha256'', the (field r ''after_sha256'')),
           (''bytesBefore'', the (field r ''bytes_before'')), (''bytesAfter'', the (field r ''bytes_after''))]
           @ (case line of None \<Rightarrow> [] | Some v \<Rightarrow> [(''firstChangedLine'', v)]), line)
   | _ \<Rightarrow> Inl (JsError (lit ''Expected an object.'')))"

datatype patch_status = Applied | Rejected_patch | Partial

definition parse_patch_status :: "json option \<Rightarrow> patch_status option" where
  "parse_patch_status v = (if v = Some (str ''applied'') then Some Applied else if v = Some (str ''rejected'') then Some Rejected_patch
     else if v = Some (str ''partial'') then Some Partial else None)"

definition patch_error_code :: "jstring \<Rightarrow> bool" where
  "patch_error_code s \<longleftrightarrow> 1 \<le> length s \<and> length s \<le> 100 \<and> list_all (\<lambda>u. is_lower u \<or> u = 0x5F) s"

text \<open>The error of a patch that was not applied: its message and the object of the result.\<close>

definition patch_error :: "patch_status \<Rightarrow> int \<Rightarrow> json option \<Rightarrow> (jstring \<times> json) res" where
  "patch_error status editCount value =
     (let refuse = Inl (JsError (lit ''Invalid filesystem patch error.'')) in case value of
       Some (JObj e) \<Rightarrow> (case (field e ''code'', field e ''message'') of
           (Some (JStr code), Some (JStr message)) \<Rightarrow>
             if \<not> patch_error_code code \<or> message = [] \<or> (field e ''section'' \<noteq> Some JNull \<and> field e ''section'' \<noteq> Some (JNum (NInt 0)))
                \<or> (field e ''edit'' \<noteq> Some JNull \<and> \<not> bounded_integer (field e ''edit'') 0 (editCount - 1))
             then refuse
             else
               let said = (if status = Partial then lit ''The edit did not finish and the file may have changed. Inspect the file before attempting another edit. ''
                   @ take 2000 message else take 2000 message) in
               Inr (said, obj ([(''code'', JStr code), (''message'', JStr said)]
                 @ (if field e ''section'' = Some JNull then [] else [(''section'', the (field e ''section''))])
                 @ (if field e ''edit'' = Some JNull then [] else [(''edit'', the (field e ''edit''))])))
         | _ \<Rightarrow> refuse)
     | _ \<Rightarrow> Inl (JsError (lit ''Expected an object.'')))"

definition edit_receipt :: "(jstring \<Rightarrow> jstring) \<Rightarrow> json \<Rightarrow> edit_extra tool_context \<Rightarrow> jstring \<Rightarrow> json res" where
  "edit_receipt sha value context requestId = (case value of
     JObj r \<Rightarrow>
       (let mutation = lit ''pi-edit-v1:'' @ sha (ct_submissionId context); x = ct_extra context in
        case (parse_patch_status (field r ''status''), field r ''changes_exact'', field r ''changes'', field r ''diff'', field r ''diff_truncated'') of
          (Some status, Some (JBool exact), Some (JArr raw), Some (JStr diff), Some (JBool wasCut)) \<Rightarrow>
            if field r ''mutation_id'' \<noteq> Some (JStr mutation) \<or> length raw > 1 \<or> utf8Bytes diff > 64 * 1024
            then Inl (JsError (lit ''Filesystem patch receipt conflicts with submission.''))
            else
              bindR (mapR edit_change raw) (\<lambda>changes.
              if status = Applied \<and> (\<not> exact \<or> length changes \<noteq> 1 \<or> field r ''error'' \<noteq> Some JNull)
                 \<or> status = Rejected_patch \<and> (\<not> exact \<or> changes \<noteq> []) \<or> status = Partial \<and> exact \<and> changes = []
              then Inl (JsError (lit ''Inconsistent filesystem patch status.''))
              else
                bindR (if status = Applied then Inr None else map_sum id Some (patch_error status (ex_editCount x) (field r ''error''))) (\<lambda>error.
                let said = (case error of Some (m, e) \<Rightarrow> m
                      | None \<Rightarrow> lit ''Successfully replaced '' @ int_text (ex_editCount x) @ lit '' block(s) in '' @ ex_path x @ lit ''.'');
                    line = (case changes of [] \<Rightarrow> None | c # cs \<Rightarrow> snd c) in
                Inr (obj [(''content'', JArr [obj [(''type'', str ''text''), (''text'', JStr said)]]), (''isError'', JBool (status \<noteq> Applied)),
                  (''details'', obj ([(''requestId'', JStr requestId), (''machineId'', JStr (ct_machineId context)), (''path'', JStr (ex_path x)),
                    (''mutationId'', JStr mutation), (''status'', the (field r ''status'')), (''changesExact'', JBool exact),
                    (''changes'', JArr (map (\<lambda>c. obj (fst c)) changes)), (''diff'', JStr diff), (''patch'', JStr diff), (''diffTruncated'', JBool wasCut)]
                    @ (case line of None \<Rightarrow> [] | Some v \<Rightarrow> [(''firstChangedLine'', v)])
                    @ (case error of None \<Rightarrow> [] | Some (m, e) \<Rightarrow> [(''error'', e)])))])))
        | _ \<Rightarrow> Inl (JsError (lit ''Filesystem patch receipt conflicts with submission.'')))
   | _ \<Rightarrow> Inl (JsError (lit ''Expected an object.'')))"

definition edit_outcome :: "(jstring \<Rightarrow> jstring) \<Rightarrow> completion_event \<Rightarrow> edit_extra tool_context \<Rightarrow> operation_outcome res" where
  "edit_outcome sha event context =
     (let requestId = re_requestId (ev_envelope event) in case ev_outcome event of
       NativeError code message uncertain \<Rightarrow>
         if \<not> uncertain \<and> code \<in> set FILE_ERRORS
         then completed_result (file_error (ct_machineId context) (ex_path (ct_extra context)) code (take 2000 message) (Some requestId))
         else Inr (native_failure ''EDIT_OUTCOME_UNKNOWN''
           ''The file may have changed before execution stopped. Inspect it before issuing a new edit; this request will not be automatically rerun.''
           code message uncertain requestId)
     | NativeOk result \<Rightarrow> bindR (edit_receipt sha result context requestId) completed_result)"

definition edit_worker :: "(edit_tool_input, edit_extra) tool_worker" where
  "edit_worker = \<lparr>tw_operation = PI_EDIT_OPERATION, tw_receiver = ''tool-pi-edit-v1'', tw_prefix = ''pi-edit-v1:'', tw_name = ''edit'', tw_noun = ''edit'',
     tw_title = ''Edit'', tw_code = ''EDIT'', tw_parseInput = parseEditInput, tw_keys = [''path'', ''editsSha256'', ''editCount''],
     tw_context_input = path_context_input ''edits'' (JArr [obj [(''oldText'', str ''x''), (''newText'', JStr [])]]),
     tw_extra = (\<lambda>r input. bindR (gw_digest (field r ''editsSha256'')) (\<lambda>h.
       bindR (gw_integer (field r ''editCount'') 1 (int PI_EDIT_MAX_EDITS)) (\<lambda>n. Inr \<lparr>ex_path = et_path input, ex_editsSha256 = h, ex_editCount = n\<rparr>))),
     tw_extra_fields = (\<lambda>sha input. [(''path'', JStr (et_path input)), (''editCount'', nat_json (length (et_edits input))),
       (''editsSha256'', JStr (sha (stringify (edits_json (et_edits input)))))]),
     tw_local = (\<lambda>place input. if json_bytes (patchParams place input) > PI_EDIT_MAX_PARAMS_BYTES then Some (edit_too_large place input) else None),
     tw_request = (\<lambda>place input. (''filesystem.patch'', patchParams place input)), tw_outcome = edit_outcome\<rparr>"

section \<open>The three workers\<close>

text \<open>The functions of each worker under their names in the source.\<close>

definition parseBashContext :: "url_parser \<Rightarrow> json option \<Rightarrow> bash_extra tool_context res" where
  "parseBashContext new_URL = parse_context new_URL bash_worker"

definition bashIdentity :: "(jstring \<Rightarrow> jstring) \<Rightarrow> jstring \<Rightarrow> jstring" where
  "bashIdentity sha = tool_identity sha bash_worker"

definition parseBashCompletion :: "(jstring \<Rightarrow> jstring) \<Rightarrow> url_parser \<Rightarrow> json option \<Rightarrow> (completion_event \<times> bash_extra tool_context) res" where
  "parseBashCompletion sha new_URL = tool_completion sha new_URL bash_worker"

definition parseWriteContext :: "url_parser \<Rightarrow> json option \<Rightarrow> write_extra tool_context res" where
  "parseWriteContext new_URL = parse_context new_URL write_worker"

definition writeIdentity :: "(jstring \<Rightarrow> jstring) \<Rightarrow> jstring \<Rightarrow> jstring" where
  "writeIdentity sha = tool_identity sha write_worker"

definition parseWriteCompletion :: "(jstring \<Rightarrow> jstring) \<Rightarrow> url_parser \<Rightarrow> json option \<Rightarrow> (completion_event \<times> write_extra tool_context) res" where
  "parseWriteCompletion sha new_URL = tool_completion sha new_URL write_worker"

definition parseEditContext :: "url_parser \<Rightarrow> json option \<Rightarrow> edit_extra tool_context res" where
  "parseEditContext new_URL = parse_context new_URL edit_worker"

definition editIdentity :: "(jstring \<Rightarrow> jstring) \<Rightarrow> jstring \<Rightarrow> jstring" where
  "editIdentity sha = tool_identity sha edit_worker"

definition parseEditCompletion :: "(jstring \<Rightarrow> jstring) \<Rightarrow> url_parser \<Rightarrow> json option \<Rightarrow> (completion_event \<times> edit_extra tool_context) res" where
  "parseEditCompletion sha new_URL = tool_completion sha new_URL edit_worker"

definition bash_gateway_submit ::
  "worker_env \<Rightarrow> tool_execution_submission \<Rightarrow> placement \<Rightarrow> bash_tool_input \<Rightarrow> jstring \<Rightarrow> http_answer \<Rightarrow> unit res" where
  "bash_gateway_submit env = worker_dispatch env bash_worker"

definition write_gateway_submit ::
  "worker_env \<Rightarrow> tool_execution_submission \<Rightarrow> placement \<Rightarrow> write_tool_input \<Rightarrow> jstring \<Rightarrow> http_answer \<Rightarrow> unit res" where
  "write_gateway_submit env = worker_dispatch env write_worker"

definition edit_gateway_submit ::
  "worker_env \<Rightarrow> tool_execution_submission \<Rightarrow> placement \<Rightarrow> edit_tool_input \<Rightarrow> jstring \<Rightarrow> http_answer \<Rightarrow> unit res" where
  "edit_gateway_submit env = worker_dispatch env edit_worker"

definition bash_submit :: "worker_env \<Rightarrow> json option \<Rightarrow> http_answer \<Rightarrow> submit_result res" where
  "bash_submit env = worker_submit env bash_worker"

definition bash_acceptExecutionResult :: "worker_env \<Rightarrow> 'w session_call \<Rightarrow> deadline \<Rightarrow> json option \<Rightarrow> ('w, json) act" where
  "bash_acceptExecutionResult env = acceptExecutionResult env bash_worker"

definition write_submit :: "worker_env \<Rightarrow> json option \<Rightarrow> http_answer \<Rightarrow> submit_result res" where
  "write_submit env = worker_submit env write_worker"

definition write_acceptExecutionResult :: "worker_env \<Rightarrow> 'w session_call \<Rightarrow> deadline \<Rightarrow> json option \<Rightarrow> ('w, json) act" where
  "write_acceptExecutionResult env = acceptExecutionResult env write_worker"

definition edit_submit :: "worker_env \<Rightarrow> json option \<Rightarrow> http_answer \<Rightarrow> submit_result res" where
  "edit_submit env = worker_submit env edit_worker"

definition edit_acceptExecutionResult :: "worker_env \<Rightarrow> 'w session_call \<Rightarrow> deadline \<Rightarrow> json option \<Rightarrow> ('w, json) act" where
  "edit_acceptExecutionResult env = acceptExecutionResult env edit_worker"

end
