(* ===== verification/Sessions.thy ===== *)
theory Sessions
  imports SessionHost ToolWorkers DriverSafety HarnessContract
begin

text \<open>
  The sessions as the workers see them. \<open>session_call\<close> is \<open>namespace.get(namespace.idFromName(id)).sessionRequest(command)\<close>
  on the two deployed namespaces: it runs the host of \<open>SessionHost\<close> on the session's own state and returns the reply the
  worker reads.
  \<^item> The interface the workers rely on is the locale \<open>session_service\<close>: a reply that \<open>validReceipt\<close> accepts means that the
    completion is in the session's inbox, and no later request removes it. It is interpreted on \<open>session_call\<close>.
  \<^item> The workers' guarantees are proved in the locale: a callback is acknowledged only after that.
\<close>

section \<open>Replies\<close>

definition session_info_json :: "session_info \<Rightarrow> json" where
  "session_info_json i = obj [(''identity'', identity_json (sn_identity i)), (''config'', sn_config i), (''createdAt'', int_json (sn_createdAt i))]"

definition input_receipt_json :: "input_receipt \<Rightarrow> json" where
  "input_receipt_json r = obj [(''sessionId'', JStr (ir_sessionId r)), (''eventId'', JStr (ir_eventId r)), (''sequence'', int_json (ir_sequence r)),
     (''receivedAt'', int_json (ir_receivedAt r)), (''duplicate'', JBool (ir_duplicate r))]"

definition completion_receipt_json :: "completion_receipt \<Rightarrow> json" where
  "completion_receipt_json r = obj [(''operationId'', JStr (cr_operationId r)), (''eventId'', JStr (cr_eventId r)), (''duplicate'', JBool (cr_duplicate r))]"

definition progress_json :: "processing_status \<Rightarrow> json" where
  "progress_json p = obj [(''pendingEventId'', opt_json JStr (ps_pendingEventId p)), (''failures'', int_json (ps_failures p)),
     (''retryAt'', opt_json int_json (ps_retryAt p)), (''blocked'', JBool (ps_blocked p)), (''lastError'', opt_json JStr (ps_lastError p))]"

text \<open>A page of messages crosses the call as it is; its form is the argument \<open>page\<close>.\<close>

definition value_json :: "('p \<Rightarrow> bool \<Rightarrow> json) \<Rightarrow> 'p session_value \<Rightarrow> json" where
  "value_json page v = (case v of
     Initialized i duplicate \<Rightarrow> obj [(''session'', session_info_json i), (''duplicate'', JBool duplicate)]
   | Input_admitted r \<Rightarrow> input_receipt_json r
   | Completion_admitted r \<Rightarrow> completion_receipt_json r
   | Session_view i \<Rightarrow> session_info_json i
   | Progress p \<Rightarrow> progress_json p
   | Page p blocked \<Rightarrow> page p blocked)"

definition code_text :: "contract_code \<Rightarrow> jstring" where
  "code_text c = (case c of
     INVALID_REQUEST \<Rightarrow> lit ''INVALID_REQUEST'' | INVALID_CONFIG \<Rightarrow> lit ''INVALID_CONFIG'' | INVALID_INPUT \<Rightarrow> lit ''INVALID_INPUT''
   | SESSION_NOT_INITIALIZED \<Rightarrow> lit ''SESSION_NOT_INITIALIZED'' | INITIALIZATION_CONFLICT \<Rightarrow> lit ''INITIALIZATION_CONFLICT''
   | INPUT_CONFLICT \<Rightarrow> lit ''INPUT_CONFLICT'' | OPERATION_NOT_FOUND \<Rightarrow> lit ''OPERATION_NOT_FOUND''
   | COMPLETION_CONFLICT \<Rightarrow> lit ''COMPLETION_CONFLICT'')"

definition reply_json :: "('p \<Rightarrow> bool \<Rightarrow> json) \<Rightarrow> 'p session_reply \<Rightarrow> json" where
  "reply_json page r = (case r of
     Reply_ok v \<Rightarrow> obj [(''ok'', JBool True), (''value'', value_json page v)]
   | Reply_error c m \<Rightarrow> obj [(''ok'', JBool False), (''error'', obj [(''code'', JStr (code_text c)), (''message'', JStr m)])])"

section \<open>The deployed namespaces\<close>

record sessions =
  se_minimal_bash :: "jstring \<Rightarrow> (mb_tables, mb_changes) host"
  se_pi_no_compaction :: "jstring \<Rightarrow> (pi_tables, pi_changes) host"

record deployment =
  dy_sha :: "jstring \<Rightarrow> jstring"
  dy_new_URL :: url_parser
  dy_JSON_parse :: "jstring \<Rightarrow> json res"
  dy_policy :: driver_policy
  dy_minimal_bash_page :: "(message_row list + steering_row list) \<times> int option \<times> mb_view \<Rightarrow> bool \<Rightarrow> json"
  dy_pi_page :: "(message_row list + steering_row list) \<times> int option \<times> pi_view \<Rightarrow> bool \<Rightarrow> json"

definition MINIMAL_BASH_SESSIONS :: jstring where
  "MINIMAL_BASH_SESSIONS = lit ''MINIMAL_BASH_SESSIONS''"

definition PI_NO_COMPACTION_SESSIONS :: jstring where
  "PI_NO_COMPACTION_SESSIONS = lit ''PI_NO_COMPACTION_SESSIONS''"

definition host_call :: "('p \<Rightarrow> bool \<Rightarrow> json) \<Rightarrow> ('h, 'c, 'p) host_env \<Rightarrow> int \<Rightarrow> json \<Rightarrow> ('h, 'c, json) host_act" where
  "host_call page env now command = bindA (sessionRequest env (Some command) now) (\<lambda>r. retA (reply_json page r))"

text \<open>The object of a session ID is addressed by that name alone, so it is the object of no other session ID.\<close>

definition session_call :: "deployment \<Rightarrow> int \<Rightarrow> sessions session_call" where
  "session_call D now namespace sid command w =
     (if namespace = MINIMAL_BASH_SESSIONS then
        (case host_call (dy_minimal_bash_page D) (minimal_bash_host (dy_sha D) (dy_new_URL D) (dy_JSON_parse D) (dy_policy D) (\<lambda>i. i = sid))
                now command (se_minimal_bash w sid) of
           (r, h) \<Rightarrow> (r, w\<lparr>se_minimal_bash := (se_minimal_bash w)(sid := h)\<rparr>))
      else if namespace = PI_NO_COMPACTION_SESSIONS then
        (case host_call (dy_pi_page D) (pi_no_compaction_host (dy_sha D) (dy_new_URL D) (dy_JSON_parse D) (dy_policy D) (\<lambda>i. i = sid))
                now command (se_pi_no_compaction w sid) of
           (r, h) \<Rightarrow> (r, w\<lparr>se_pi_no_compaction := (se_pi_no_compaction w)(sid := h)\<rparr>))
      else (Inl (JsError (lit ''Session namespace binding is not configured.'')), w))"

section \<open>A host keeps the runtime's invariant\<close>

abbreviation host_rt :: "('h, 'c) host \<Rightarrow> ('h, 'c) runtime" where
  "host_rt h \<equiv> dr_rt (ho_driver h)"

definition host_moves :: "(jstring \<Rightarrow> jstring) \<Rightarrow> ('h, 'c) harness \<Rightarrow> ('h, 'c) host \<Rightarrow> ('h, 'c) host \<Rightarrow> bool" where
  "host_moves sha H h h' \<longleftrightarrow> (rt_step sha H)\<^sup>*\<^sup>* (host_rt h) (host_rt h') \<and> ho_runtime h' = ho_runtime h"

lemma host_moves_refl [within_intros]: "reflp (host_moves sha H)"
  by (simp add: reflp_def host_moves_def)

lemma host_moves_trans [within_intros]: "transp (host_moves sha H)"
  by (auto simp: transp_def host_moves_def)

lemma within_on_driver:
  assumes "\<And>d r d'. m d = (r, d') \<Longrightarrow> (rt_step sha H)\<^sup>*\<^sup>* (dr_rt d) (dr_rt d')"
  shows "within (host_moves sha H) (on_driver m)"
  using assms by (auto simp: within_def on_driver_def host_moves_def split: prod.splits)

lemma kick_rt [simp]: "dr_rt (kick now d) = dr_rt d" "dr_rt (arm policy now d) = dr_rt d"
  by (simp_all add: kick_def start_def arm_def Let_def split: option.splits)

lemma within_driver_operations [within_intros]:
  "within (host_moves sha H) (on_driver (driver_initialize H v now))"
  "within (host_moves sha H) (on_driver (driver_appendInput sha H policy v now))"
  "within (host_moves sha H) (on_driver (driver_acceptCompletion sha H policy v now))"
  "within (host_moves sha H) (on_driver (driver_getSession H))"
proof -
  show "within (host_moves sha H) (on_driver (driver_initialize H v now))"
    by (rule within_on_driver, rule dr_step_runtime [OF dr_initialize])
  show "within (host_moves sha H) (on_driver (driver_appendInput sha H policy v now))"
    by (rule within_on_driver, rule dr_step_runtime [OF dr_append])
  show "within (host_moves sha H) (on_driver (driver_acceptCompletion sha H policy v now))"
    by (rule within_on_driver, rule dr_step_runtime [OF dr_accept])
  show "within (host_moves sha H) (on_driver (driver_getSession H))"
  proof (rule within_on_driver)
    fix d r d'
    assume run: "driver_getSession H d = (r, d')"
    obtain q rt where load: "loadSession H (dr_rt d) = (q, rt)" by fastforce
    with run have "dr_rt d' = rt"
      by (auto simp: driver_getSession_def getSession_def requireSession_def act_defs split: prod.splits sum.splits option.splits)
    with step_load [OF load] show "(rt_step sha H)\<^sup>*\<^sup>* (dr_rt d) (dr_rt d')" by blast
  qed
qed

lemma within_catchA [within_intros]:
  assumes "transp R" and "within R m" and "\<And>e. within R (h e)"
  shows "within R (catchA m h)"
proof (rule withinI)
  fix s r t assume run: "catchA m h s = (r, t)"
  obtain q u where m: "m s = (q, u)" by fastforce
  have su: "R s u" using withinD [OF assms(2) m] .
  show "R s t"
  proof (cases q)
    case (Inl e)
    with run m have "h e u = (r, t)" by (simp add: catchA_def)
    then show ?thesis using transpD [OF assms(1) su] withinD [OF assms(3)] by blast
  qed (use run m su in \<open>simp add: catchA_def\<close>)
qed

lemma within_prod [within_intros]: "(\<And>a b. within R (f a b)) \<Longrightarrow> within R (case x of (a, b) \<Rightarrow> f a b)"
  by (cases x) simp

lemma run_command_moves [within_intros]: "within (host_moves (he_sha env) (he_harness env)) (run_command env command now)"
  by (cases command)
    (auto simp: run_command_def request_initialize_def request_page_def intro!: within_intros)

lemma sessionRequest_moves [within_intros]: "within (host_moves (he_sha env) (he_harness env)) (sessionRequest env request now)"
  unfolding sessionRequest_def by (intro within_intros) (auto intro!: within_intros split: exn.splits)

lemma host_call_moves: "within (host_moves (he_sha env) (he_harness env)) (host_call page env now command)"
  unfolding host_call_def by (intro within_intros)

section \<open>Completions\<close>

text \<open>The completion both kinds of worker send, and the command it is wrapped in.\<close>

definition completion_value :: "operation_completion \<Rightarrow> json" where
  "completion_value c = obj [(''provider'', JStr (oc_provider c)), (''operationId'', JStr (oc_operationId c)),
     (''submissionId'', JStr (oc_submissionId c)), (''jobId'', JStr (oc_jobId c)), (''outcome'', outcome_json (oc_outcome c))]"

definition accept_command :: "operation_completion \<Rightarrow> json" where
  "accept_command c = obj [(''action'', str ''acceptCompletion''), (''value'', completion_value c)]"

definition accept_tool_command :: "json \<Rightarrow> operation_completion \<Rightarrow> json" where
  "accept_tool_command execution c = obj [(''action'', str ''acceptToolCompletion''),
     (''value'', obj [(''execution'', execution), (''completion'', completion_value c)])]"

lemma failure_json_parsed: "parseOperationFailure (Some (failure_json f)) = Inr g \<Longrightarrow> g = f"
  by (cases "of_details f") (auto simp: parseOperationFailure_def failure_json_def js_record_JObj field_def)

lemma parsed_outcome_json: "parseOperationOutcome (Some (outcome_json o')) = Inr x \<Longrightarrow> x = o'"
  by (cases o') (auto simp: parseOperationOutcome_def outcome_json_def js_record_JObj dest: failure_json_parsed)

lemma parseJobOutcome_Inr: "parseJobOutcome v = Inr x \<Longrightarrow> parseOperationOutcome v = Inr x"
  by (cases "parseOperationOutcome v")
    (simp_all add: parseJobOutcome_def split: operation_outcome.split_asm origin.split_asm)

lemma outcome_json_parsed: "parseJobOutcome (Some (outcome_json o')) = Inr x \<Longrightarrow> x = o'"
  using parseJobOutcome_Inr parsed_outcome_json by blast

lemma completion_value_parsed: "parseOperationCompletion (Some (completion_value c)) = Inr c' \<Longrightarrow> c' = c"
  by (auto simp: parseOperationCompletion_def completion_value_def js_record_Inr obj_def field_def dest: outcome_json_parsed)

text \<open>The session's inbox holds the event of a completion.\<close>

definition holds_completion :: "(jstring \<Rightarrow> jstring) \<Rightarrow> ('h, 'c) runtime \<Rightarrow> operation_completion \<Rightarrow> bool" where
  "holds_completion sha rt c \<longleftrightarrow> (\<exists>d. findInput (st_inbox (rt_store rt)) (completionEventId (oc_operationId c)) = Some d
     \<and> rec_hash d = inputHash sha (completionEvent (oc_operationId c) (oc_provider c) (Some (oc_jobId c)) (oc_outcome c)))"

lemma holds_completion_advances: "advances rt rt' \<Longrightarrow> holds_completion sha rt c \<Longrightarrow> holds_completion sha rt' c"
  unfolding holds_completion_def by (metis advances_found)

lemma driver_accept_holds:
  assumes ok: "rt_ok sha H (dr_rt d)" and run: "driver_acceptCompletion sha H policy (Some (completion_value c)) now d = (Inr r, d')"
  shows "holds_completion sha (dr_rt d') c"
proof -
  obtain c' where c': "parseOperationCompletion (Some (completion_value c)) = Inr c'"
    using run by (auto simp: driver_acceptCompletion_def split: sum.splits)
  have "\<exists>r'. acceptCompletion sha H (Some (completion_value c)) now (dr_rt d) = (Inr r', dr_rt d')"
    using run by (auto simp: driver_acceptCompletion_def acceptCompletion_def act_defs Let_def split: sum.splits prod.splits if_splits)
  then obtain r' where acc: "acceptCompletion sha H (Some (completion_value c)) now (dr_rt d) = (Inr r', dr_rt d')" ..
  from acceptCompletion_Inr [OF ok acc c'] completion_value_parsed [OF c'] show ?thesis
    by (auto simp: holds_completion_def)
qed

lemma on_driver_Inr: "on_driver m h = (Inr a, h') \<longleftrightarrow> (\<exists>d. m (ho_driver h) = (Inr a, d) \<and> h' = h\<lparr>ho_driver := d\<rparr>)"
  by (auto simp: on_driver_def split: prod.splits)

lemma valid_reply:
  assumes "validReceipt (reply_json page r) oid"
  shows "\<exists>v. r = Reply_ok v"
  using assms by (cases r) (auto simp: reply_json_def validReceipt_def obj_def field_def)

lemma parse_accept_commands:
  "parseSessionCommand (Some (accept_command c)) = Inr (Cmd_acceptCompletion (completion_value c))"
  "parseSessionCommand (Some (accept_tool_command x c)) = Inr (Cmd_acceptToolCompletion (obj [(''execution'', x), (''completion'', completion_value c)]))"
  by (simp_all add: parseSessionCommand_def accept_command_def accept_tool_command_def obj_def str_def field_def command_value_def)

lemma sessionRequest_ok:
  assumes "sessionRequest env request now h = (Inr (Reply_ok v), h')"
  shows "\<exists>command. parseSessionCommand request = Inr command \<and> run_command env command now h = (Inr v, h')"
  using assms unfolding sessionRequest_def catchA_def
  by (auto simp: bindA_def liftR_def retA_def throwA_def split: prod.splits sum.splits exn.splits)

lemma host_accept_holds:
  assumes ok: "rt_ok (he_sha env) (he_harness env) (host_rt h)"
    and run: "host_call page env now command h = (Inr reply, h')" and valid: "validReceipt reply oid"
    and cmd: "command = accept_command c \<or> command = accept_tool_command x c"
  shows "holds_completion (he_sha env) (host_rt h') c"
proof -
  obtain r where req: "sessionRequest env (Some command) now h = (Inr r, h')" and reply: "reply = reply_json page r"
    using run by (auto simp: host_call_def bindA_Inr prim_defs)
  obtain v where "r = Reply_ok v" using valid_reply valid reply by blast
  with sessionRequest_ok req obtain k where k: "parseSessionCommand (Some command) = Inr k" "run_command env k now h = (Inr v, h')"
    by blast
  have "\<exists>rc d. driver_acceptCompletion (he_sha env) (he_harness env) (he_policy env) (Some (completion_value c)) now (ho_driver h) = (Inr rc, d)
      \<and> h' = h\<lparr>ho_driver := d\<rparr>"
    using cmd k
    by (auto simp: parse_accept_commands run_command_def bindA_Inr on_driver_Inr prim_defs toolCompletion_def completion_value_def
      gw_object_def obj_def field_def split: if_splits sum.splits option.splits)
  then show ?thesis using driver_accept_holds [OF ok] by fastforce
qed

section \<open>The interface of the workers\<close>

text \<open>The completions the two kinds of worker send.\<close>

definition event_completion :: "webhook_event \<Rightarrow> operation_completion" where
  "event_completion event = \<lparr>oc_operationId = cc_operationId (we_clientContext event), oc_submissionId = cc_submissionId (we_clientContext event),
     oc_provider = lit ''llm'', oc_jobId = we_jobId event, oc_outcome = we_outcome event\<rparr>"

definition context_completion :: "('a, 'x) tool_worker \<Rightarrow> 'x tool_context \<Rightarrow> jstring \<Rightarrow> operation_outcome \<Rightarrow> operation_completion" where
  "context_completion w context requestId outcome = \<lparr>oc_operationId = ct_operationId context, oc_submissionId = ct_submissionId context,
     oc_provider = od_provider (tw_operation w), oc_jobId = requestId, oc_outcome = outcome\<rparr>"

lemma event_completion_command: "completion_command event = accept_command (event_completion event)"
  by (simp add: completion_command_def accept_command_def completion_value_def event_completion_def str_def)

lemma tool_command_completion: "\<exists>x. tool_command w context requestId outcome = accept_tool_command x (context_completion w context requestId outcome)"
  unfolding tool_command_def accept_tool_command_def completion_value_def context_completion_def operation_completion.select_convs
  by (rule exI, rule refl)

lemma refused_statuses: "authenticated_event env now rq \<noteq> Inl 204"
  by (auto simp: authenticated_event_def Let_def split: if_splits sum.splits option.splits)

locale session_service =
  fixes call :: "'w session_call" and ok :: "'w \<Rightarrow> bool" and holds :: "'w \<Rightarrow> jstring \<Rightarrow> jstring \<Rightarrow> operation_completion \<Rightarrow> bool"
  assumes kept: "ok w \<Longrightarrow> call ns sid command w = (r, w') \<Longrightarrow> ok w'"
    and held: "ok w \<Longrightarrow> call ns sid command w = (r, w') \<Longrightarrow> holds w ns' sid' c \<Longrightarrow> holds w' ns' sid' c"
    and admitted: "ok w \<Longrightarrow> call ns sid command w = (Inr reply, w') \<Longrightarrow> validReceipt reply (oc_operationId c) \<Longrightarrow>
      command = accept_command c \<or> (\<exists>x. command = accept_tool_command x c) \<Longrightarrow> holds w' ns sid c"
begin

lemma delivered:
  assumes ok: "ok w" and run: "llm_deliver env call deadline event w = (Inr u, w')"
  shows "\<exists>ns. sessionNamespace (le_JSON_parse env) (le_bound env) (le_SESSION_ROUTES env) (cc_routeKey (we_clientContext event)) = Inr ns
    \<and> holds w' ns (cc_sessionId (we_clientContext event)) (event_completion event)"
proof -
  obtain ns reply where ns: "sessionNamespace (le_JSON_parse env) (le_bound env) (le_SESSION_ROUTES env) (cc_routeKey (we_clientContext event)) = Inr ns"
    and call: "call ns (cc_sessionId (we_clientContext event)) (completion_command event) w = (Inr reply, w')"
    and valid: "validReceipt reply (cc_operationId (we_clientContext event))"
    using run by (auto simp: llm_deliver_def bindA_Inr prim_defs Let_def split: if_splits)
  then show ?thesis using admitted [OF ok call, of "event_completion event"]
    by (simp add: event_completion_command) (simp add: event_completion_def)
qed

lemma acknowledged:
  assumes ok: "ok w" and run: "webhook env call now deadline rq w = (Inr 204, w')"
  shows "\<exists>event ns. authenticated_event env now rq = Inr event
    \<and> sessionNamespace (le_JSON_parse env) (le_bound env) (le_SESSION_ROUTES env) (cc_routeKey (we_clientContext event)) = Inr ns
    \<and> holds w' ns (cc_sessionId (we_clientContext event)) (event_completion event)"
proof -
  obtain event where ev: "authenticated_event env now rq = Inr event" "llm_deliver env call deadline event w = (Inr (), w')"
    using run refused_statuses [of env now rq]
    by (auto simp: webhook_def catchA_def bindA_def retA_def split: if_splits sum.splits prod.splits)
  with delivered [OF ok ev(2)] show ?thesis by blast
qed

lemma tool_accepted:
  assumes ok: "ok w" and run: "acceptExecutionResult env tw call deadline value w = (Inr receipt, w')"
  shows "\<exists>event ctx outcome ns. tool_completion (we_sha env) (we_new_URL env) tw value = Inr (event, ctx)
    \<and> tw_outcome tw (we_sha env) event ctx = Inr outcome \<and> receipt = worker_receipt event
    \<and> sessionNamespace (we_JSON_parse env) (we_bound env) (we_SESSION_ROUTES env) (ct_routeKey ctx) = Inr ns
    \<and> holds w' ns (ct_sessionId ctx) (context_completion tw ctx (re_requestId (ev_envelope event)) outcome)"
proof -
  obtain event ctx outcome ns reply where
    got: "tool_completion (we_sha env) (we_new_URL env) tw value = Inr (event, ctx)"
      "tw_outcome tw (we_sha env) event ctx = Inr outcome" "receipt = worker_receipt event"
      "sessionNamespace (we_JSON_parse env) (we_bound env) (we_SESSION_ROUTES env) (ct_routeKey ctx) = Inr ns"
    and call: "call ns (ct_sessionId ctx) (tool_command tw ctx (re_requestId (ev_envelope event)) outcome) w = (Inr reply, w')"
    and valid: "validReceipt reply (ct_operationId ctx)"
    using run by (auto simp: acceptExecutionResult_def bindA_Inr prim_defs split: if_splits prod.splits)
  have "holds w' ns (ct_sessionId ctx) (context_completion tw ctx (re_requestId (ev_envelope event)) outcome)"
    by (rule admitted [OF ok call]) (use valid tool_command_completion in \<open>auto simp: context_completion_def\<close>)
  with got show ?thesis by blast
qed

end

definition sessions_ok :: "deployment \<Rightarrow> sessions \<Rightarrow> bool" where
  "sessions_ok D w \<longleftrightarrow> (\<forall>sid. rt_ok (dy_sha D) (minimalBashHarness (dy_new_URL D) (dy_JSON_parse D)) (host_rt (se_minimal_bash w sid))
     \<and> rt_ok (dy_sha D) (piNoCompactionHarness (dy_new_URL D) (dy_JSON_parse D)) (host_rt (se_pi_no_compaction w sid)))"

definition session_holds :: "deployment \<Rightarrow> sessions \<Rightarrow> jstring \<Rightarrow> jstring \<Rightarrow> operation_completion \<Rightarrow> bool" where
  "session_holds D w ns sid c \<longleftrightarrow>
     (if ns = MINIMAL_BASH_SESSIONS then holds_completion (dy_sha D) (host_rt (se_minimal_bash w sid)) c
      else ns = PI_NO_COMPACTION_SESSIONS \<and> holds_completion (dy_sha D) (host_rt (se_pi_no_compaction w sid)) c)"

lemma host_call_ok:
  assumes ok: "rt_ok (he_sha env) (he_harness env) (host_rt h)" and run: "host_call page env now command h = (r, h')"
  shows "rt_ok (he_sha env) (he_harness env) (host_rt h') \<and> advances (host_rt h) (host_rt h')"
  using withinD [OF host_call_moves run] rt_steps_ok ok by (auto simp: host_moves_def)

lemma host_sel [simp]:
  "he_sha (minimal_bash_host sha u p policy owns) = sha" "he_harness (minimal_bash_host sha u p policy owns) = minimalBashHarness u p"
  "he_sha (pi_no_compaction_host sha u p policy owns) = sha" "he_harness (pi_no_compaction_host sha u p policy owns) = piNoCompactionHarness u p"
  by (simp_all add: minimal_bash_host_def pi_no_compaction_host_def)

lemma namespaces_differ [simp]: "PI_NO_COMPACTION_SESSIONS \<noteq> MINIMAL_BASH_SESSIONS"
  by (simp add: PI_NO_COMPACTION_SESSIONS_def MINIMAL_BASH_SESSIONS_def)

text \<open>What a call does to one session is what the host does; every other session is untouched.\<close>

lemma session_call_cases:
  assumes run: "session_call D now ns sid command w = (r, w')"
  obtains (mb) h where "ns = MINIMAL_BASH_SESSIONS"
      "host_call (dy_minimal_bash_page D) (minimal_bash_host (dy_sha D) (dy_new_URL D) (dy_JSON_parse D) (dy_policy D) (\<lambda>i. i = sid)) now command
         (se_minimal_bash w sid) = (r, h)" "w' = w\<lparr>se_minimal_bash := (se_minimal_bash w)(sid := h)\<rparr>"
  | (pi) h where "ns = PI_NO_COMPACTION_SESSIONS"
      "host_call (dy_pi_page D) (pi_no_compaction_host (dy_sha D) (dy_new_URL D) (dy_JSON_parse D) (dy_policy D) (\<lambda>i. i = sid)) now command
         (se_pi_no_compaction w sid) = (r, h)" "w' = w\<lparr>se_pi_no_compaction := (se_pi_no_compaction w)(sid := h)\<rparr>"
  | (none) "\<exists>e. r = Inl e" "w' = w"
  using run unfolding session_call_def by (auto split: if_splits prod.splits)

lemma session_call_ok:
  assumes ok: "sessions_ok D w" and run: "session_call D now ns sid command w = (r, w')"
  shows "sessions_ok D w' \<and> (\<forall>ns' sid' c. session_holds D w ns' sid' c \<longrightarrow> session_holds D w' ns' sid' c)"
  using run
proof (cases rule: session_call_cases)
  case (mb h)
  have "rt_ok (dy_sha D) (minimalBashHarness (dy_new_URL D) (dy_JSON_parse D)) (host_rt h) \<and> advances (host_rt (se_minimal_bash w sid)) (host_rt h)"
    using host_call_ok [OF _ mb(2)] ok by (simp add: sessions_ok_def)
  then show ?thesis using mb(3) ok holds_completion_advances by (auto simp: sessions_ok_def session_holds_def)
next
  case (pi h)
  have "rt_ok (dy_sha D) (piNoCompactionHarness (dy_new_URL D) (dy_JSON_parse D)) (host_rt h) \<and> advances (host_rt (se_pi_no_compaction w sid)) (host_rt h)"
    using host_call_ok [OF _ pi(2)] ok by (simp add: sessions_ok_def)
  then show ?thesis using pi(3) ok holds_completion_advances by (auto simp: sessions_ok_def session_holds_def)
qed (use ok in simp)

lemma session_call_admitted:
  assumes ok: "sessions_ok D w" and run: "session_call D now ns sid command w = (Inr reply, w')"
    and valid: "validReceipt reply (oc_operationId c)" and cmd: "command = accept_command c \<or> (\<exists>x. command = accept_tool_command x c)"
  shows "session_holds D w' ns sid c"
  using run
proof (cases rule: session_call_cases)
  case (mb h)
  then show ?thesis using host_accept_holds [OF _ mb(2) valid] cmd ok by (auto simp: sessions_ok_def session_holds_def)
next
  case (pi h)
  then show ?thesis using host_accept_holds [OF _ pi(2) valid] cmd ok by (auto simp: sessions_ok_def session_holds_def)
qed simp

interpretation sessions: session_service "session_call D now" "sessions_ok D" "session_holds D" for D now
proof unfold_locales
  show "session_holds D w' ns sid c" if "sessions_ok D w" "session_call D now ns sid command w = (Inr reply, w')"
    "validReceipt reply (oc_operationId c)" "command = accept_command c \<or> (\<exists>x. command = accept_tool_command x c)"
    for w ns sid command reply w' c
    using that by (rule session_call_admitted)
qed (use session_call_ok in blast)+

end
