(* ===== verification/WorkerSafety.thy ===== *)
theory WorkerSafety
  imports Sessions JsonSize
begin

text \<open>
  What the workers return is what the sessions accept. A refusal carries the message of a parser, and every such message
  says something (\<open>speaks\<close>), so that the session's own parser takes the refusal; an outcome is within the size limit.
  The pinned execution runtime of a session never changes.
\<close>

section \<open>Every refusal has a message\<close>

named_theorems speak_intros \<open>composition rules for \<open>speaks\<close>\<close>

definition speaks :: "'a res \<Rightarrow> bool" where
  "speaks r \<longleftrightarrow> (\<forall>e. r = Inl e \<longrightarrow> (\<exists>c m. e = ContractException c m \<and> trim m \<noteq> []))"

lemma speaks_Inr [speak_intros]: "speaks (Inr x)"
  by (simp add: speaks_def)

lemma speaks_bad: "\<not> list_all js_space m \<Longrightarrow> speaks (bad c m)"
  by (simp add: speaks_def bad_def)

lemma speaks_bindR [speak_intros]: "speaks r \<Longrightarrow> (\<And>a. speaks (f a)) \<Longrightarrow> speaks (bindR r f)"
  by (cases r) (auto simp: speaks_def)

lemma speaks_if [speak_intros]: "(b \<Longrightarrow> speaks r) \<Longrightarrow> (\<not> b \<Longrightarrow> speaks q) \<Longrightarrow> speaks (if b then r else q)"
  by simp

lemma speaks_option [speak_intros]:
  "(x = None \<Longrightarrow> speaks r) \<Longrightarrow> (\<And>a. x = Some a \<Longrightarrow> speaks (f a)) \<Longrightarrow> speaks (case x of None \<Rightarrow> r | Some a \<Rightarrow> f a)"
  by (cases x) auto

lemma speaks_mapR [speak_intros]: "(\<And>x. speaks (f x)) \<Longrightarrow> speaks (mapR f xs)"
  by (induction xs) (auto intro!: speak_intros)

text \<open>Every message of the parsers has a letter a or e.\<close>

lemma lit_says [simp]:
  assumes "CHR ''e'' \<in> set m \<or> CHR ''a'' \<in> set m"
  shows "\<not> list_all js_space (lit m)"
proof -
  have "\<not> js_space (of_char (CHR ''e''))" "\<not> js_space (of_char (CHR ''a''))" by (simp_all add: js_space_def)
  with assms show ?thesis by (force simp: lit_def list_all_iff)
qed

lemma speaks_invalid_request: "CHR ''e'' \<in> set m \<or> CHR ''a'' \<in> set m \<Longrightarrow> speaks (invalid_request m)"
  by (simp add: invalid_request_def speaks_bad)

lemma speaks_basic [speak_intros]:
  "speaks (parseJsonValue c v)" "speaks (js_record v ks path c)" "speaks (nonemptyString v path c)" "speaks (js_required v path)"
  "speaks (assertJsonSize w n)"
  unfolding parseJsonValue_def js_record_def nonemptyString_def js_required_def assertJsonSize_def
  by (simp_all add: speaks_bad speaks_Inr split: option.split json.split)

lemma speaks_llm_basic [speak_intros]: "speaks (js_object v)" "speaks (js_string v)" "speaks (js_array v)"
  unfolding js_object_def js_string_def js_array_def
  by (simp_all add: speaks_invalid_request speaks_Inr split: option.split json.split)

lemma speaks_llm_fields [speak_intros]:
  "speaks (parseUuid v)" "speaks (optionalString r k)" "speaks (metadata_check r)" "speaks (tool_outcome_check v)"
  unfolding parseUuid_def optionalString_def metadata_check_def tool_outcome_check_def
  by (intro speak_intros speaks_invalid_request; simp)+

lemma speaks_content [speak_intros]: "speaks (content_part i p)" "speaks (llm_content v i)"
  unfolding llm_content_def content_part_def
  by (intro speak_intros speaks_invalid_request; simp)+

lemma speaks_message [speak_intros]: "speaks (message_role_check m)" "speaks (llm_message x)"
  unfolding llm_message_def message_role_check_def Let_def
  by (intro speak_intros speaks_invalid_request; simp)+

lemma speaks_tool [speak_intros]: "speaks (llm_tool x)"
  unfolding llm_tool_def
  by (intro speak_intros speaks_invalid_request; simp split: json.split add: speaks_invalid_request speaks_Inr)

lemma speaks_llm_input [speak_intros]: "speaks (parseLlmInput v)"
  unfolding parseLlmInput_def
  by (intro speak_intros speaks_invalid_request; simp)

lemma speaks_submission [speak_intros]:
  "speaks (parseOperationDefinition v)" "speaks (parseOperationRequest v)" "speaks (parseProviderSubmission v)" "speaks (parseLlmSubmission v)"
  unfolding parseOperationRequest_def parseProviderSubmission_def parseLlmSubmission_def parseOperationDefinition_def
  by (intro speak_intros speaks_invalid_request; simp)+

section \<open>The result of a submission\<close>

lemma speaksD: "speaks (r :: 'a res) \<Longrightarrow> r = Inl (ContractException c m) \<Longrightarrow> trim m \<noteq> []"
  by (auto simp: speaks_def)

lemma rejected_valid: "trim code \<noteq> [] \<Longrightarrow> trim message \<noteq> [] \<Longrightarrow> submit_result_valid (rejected code message)"
  by (simp add: rejected_def submit_result_valid_def failure_valid_def)

lemma llm_request_refusal:
  assumes run: "llm_request value = Inr (Inl r)"
  shows "submit_result_valid r"
proof -
  define p where "p = bindR (parseLlmSubmission value) (\<lambda>parsed.
           let request = ps_request (ls_submission parsed) in
           if od_provider request \<noteq> od_provider LLM_OPERATION \<or> od_type request \<noteq> od_type LLM_OPERATION \<or> od_version request \<noteq> od_version LLM_OPERATION
           then Inr (Inl (rejected (lit ''UNSUPPORTED_LLM_OPERATION'') (lit ''Expected llm/generate/v1.'')))
           else bindR (parseLlmInput (Some (or_input request))) (\<lambda>input. Inr (Inr (parsed, input))))"
  have eq: "llm_request value = (case p of Inl (ContractException c m) \<Rightarrow> Inr (Inl (rejected (lit ''INVALID_LLM_REQUEST'') m)) | r \<Rightarrow> r)"
    by (simp only: llm_request_def p_def)
  have spoken: "speaks p" unfolding p_def Let_def by (intro speak_intros)
  have codes: "\<not> list_all js_space (lit ''UNSUPPORTED_LLM_OPERATION'')" "\<not> list_all js_space (lit ''INVALID_LLM_REQUEST'')" by code_simp+
  show ?thesis
  proof (cases p)
    case (Inl e)
    with spoken obtain c m where e: "e = ContractException c m" "trim m \<noteq> []" by (auto simp: speaks_def)
    with Inl run eq have "r = rejected (lit ''INVALID_LLM_REQUEST'') m" by simp
    with e codes show ?thesis by (simp add: rejected_valid)
  next
    case (Inr q)
    with run eq have "q = Inl r" by simp
    with Inr have "r = rejected (lit ''UNSUPPORTED_LLM_OPERATION'') (lit ''Expected llm/generate/v1.'')"
      by (auto simp: p_def Let_def split: if_splits)
    with codes show ?thesis by (simp add: rejected_valid)
  qed
qed

lemma matches_length: "matches ps s \<Longrightarrow> length s = length ps"
  by (simp add: matches_def list_all2_lengthD)

lemma parseUuid_shape:
  assumes "parseUuid v = Inr s"
  shows "length s = 36 \<and> trim s \<noteq> []"
proof -
  have m: "matches uuid_pattern s" using assms by (auto simp: parseUuid_def invalid_request_def split: if_splits)
  then have "length s = 36" using matches_length by (fastforce simp: uuid_pattern_def)
  moreover have "matches (is_hex # tl uuid_pattern) s" using m by (simp add: uuid_pattern_def numeral_eq_Suc)
  then have "\<exists>u t. s = u # t \<and> is_hex u" by (cases s) (auto simp: matches_def)
  then have "trim s \<noteq> []" by (auto simp: is_hex_def is_lower_hex_def is_digit_def js_space_def word_le_nat_alt word_unat_eq_iff)
  ultimately show ?thesis by simp
qed

text \<open>An outcome of failure with bounded texts is far below the size limit.\<close>

lemma failure_size:
  assumes "length (of_code f) \<le> 2000" and "length (of_message f) \<le> 2000" and "of_details f = Some (job_details jobId)" and "length jobId = 36"
  shows "json_bytes (outcome_json (Failed Execution f)) \<le> MAX_OPERATION_OUTCOME_BYTES"
proof -
  have "text_size (outcome_json (Failed Execution f)) \<le> 30000"
    using assms by (simp add: outcome_json_def failure_json_def job_details_def obj_def origin_text_def)
  then show ?thesis using json_bytes_le [of "outcome_json (Failed Execution f)"] by (simp add: MAX_OPERATION_OUTCOME_BYTES_def)
qed

lemma tooLarge_valid:
  assumes "length jobId = 36"
  shows "outcome_valid (tooLarge jobId) \<and> job_outcome (tooLarge jobId)"
proof -
  have len: "length (nat_text MAX_OPERATION_OUTCOME_BYTES) = 7" by code_simp
  have code: "\<not> list_all js_space (lit ''LLM_RESULT_TOO_LARGE'')" by code_simp
  show ?thesis unfolding tooLarge_def
    using assms len code by (auto simp: outcome_valid_def job_outcome_def failure_valid_def intro!: failure_size [of _ jobId])
qed

text \<open>The failure of a job whose error has a blank code or message, once they are cut to their limits.\<close>

definition blank_error :: "jstring \<Rightarrow> json option \<Rightarrow> operation_outcome \<Rightarrow> bool" where
  "blank_error jobId v outcome \<longleftrightarrow> (\<exists>e c m. v = Some (JObj e) \<and> field e ''code'' = Some (JStr c) \<and> field e ''message'' = Some (JStr m)
     \<and> outcome = Failed Execution \<lparr>of_code = take 200 c, of_message = take 1000 m, of_details = Some (job_details jobId)\<rparr>
     \<and> (trim (take 200 c) = [] \<or> trim (take 1000 m) = []))"

lemma llm_terminalOutcome_valid:
  assumes run: "llm_terminalOutcome jobId status response failure = Inr outcome" and job: "length jobId = 36"
  shows "outcome_valid outcome \<and> job_outcome outcome \<or> blank_error jobId failure outcome"
proof -
  have failed: "outcome_valid (Failed Execution f) \<and> job_outcome (Failed Execution f)"
    if "f = \<lparr>of_code = take 200 code, of_message = take 1000 message, of_details = Some (job_details jobId)\<rparr>"
      "trim (take 200 code) \<noteq> []" "trim (take 1000 message) \<noteq> []" for f code message
    using that failure_size [of f jobId] job by (simp add: outcome_valid_def job_outcome_def failure_valid_def)
  show ?thesis
  proof (cases status)
    case Job_failed
    with run obtain e c m where "failure = Some (JObj e)" "field e ''code'' = Some (JStr c)" "field e ''message'' = Some (JStr m)"
      and out: "outcome = Failed Execution \<lparr>of_code = take 200 c, of_message = take 1000 m, of_details = Some (job_details jobId)\<rparr>"
      by (auto simp: llm_terminalOutcome_def llm_object_def otherL_def bindL_def throwL_def parseJsonValue_def bad_def
          split: if_splits option.split_asm json.split_asm sum.split_asm)
    with failed show ?thesis unfolding blank_error_def by blast
  next
    case Job_succeeded
    with run tooLarge_valid [OF job] show ?thesis
      by (auto simp: llm_terminalOutcome_def bindL_def throwL_def Let_def assertJsonSize_def outcome_valid_def job_outcome_def
          split: if_splits sum.split_asm)
  next
    case Job_cancelled
    with run have "outcome = Cancelled" by (auto simp: llm_terminalOutcome_def throwL_def split: if_splits)
    moreover have "json_bytes (outcome_json Cancelled) \<le> MAX_OPERATION_OUTCOME_BYTES" by code_simp
    ultimately show ?thesis by (simp add: outcome_valid_def job_outcome_def)
  qed (use run in \<open>auto simp: llm_terminalOutcome_def throwL_def\<close>)
qed

text \<open>An answer that arrives whole, is JSON and reports such a failure.\<close>

definition blank_answer :: "(jstring \<Rightarrow> json res) \<Rightarrow> http_answer \<Rightarrow> submit_result \<Rightarrow> bool" where
  "blank_answer JSON_parse ans r \<longleftrightarrow> (\<exists>status b s body jobId outcome. ans = Answer status b \<and> readLimited b (32 * 1024 * 1024) = Inr s
     \<and> JSON_parse s = Inr (JObj body) \<and> r = Completed jobId outcome \<and> blank_error jobId (field body ''error'') outcome)"

lemma gateway_detail_Inr:
  assumes "gateway_detail JSON_parse id' ans = Inr (metadata, r)"
  shows "\<exists>status b s. ans = Answer status b \<and> readLimited b (32 * 1024 * 1024) = Inr s \<and> JSON_parse s = Inr (JObj r)"
  using assms
  by (auto simp: gateway_detail_def gateway_request_def bindL_def throwL_def unavailable_def llm_object_def otherL_def parseJsonValue_def
      split: http_answer.split_asm sum.split_asm if_splits json.split_asm)

lemma gateway_outcome_valid:
  assumes run: "gateway_outcome JSON_parse id' status key context ans = Inr outcome" and job: "length id' = 36"
  shows "outcome_valid outcome \<and> job_outcome outcome \<or> blank_answer JSON_parse ans (Completed id' outcome)"
proof (cases "bindL (gateway_detail JSON_parse id' ans) (outcomeFromDetail id' status key context)")
  case (Inl e)
  with run have "outcome = tooLarge id'" by (auto simp: gateway_outcome_def split: llm_error.split_asm)
  with tooLarge_valid [OF job] show ?thesis by simp
next
  case (Inr x)
  with run have x: "x = outcome" by (simp add: gateway_outcome_def)
  from Inr obtain metadata r where d: "gateway_detail JSON_parse id' ans = Inr (metadata, r)"
    and o: "outcomeFromDetail id' status key context (metadata, r) = Inr x"
    by (auto simp: bindL_def split: sum.split_asm)
  have "outcome_valid outcome \<and> job_outcome outcome \<or> blank_error id' (field r ''error'') outcome"
    using o x llm_terminalOutcome_valid [OF _ job] by (auto simp: outcomeFromDetail_def throwL_def split: if_splits)
  with gateway_detail_Inr [OF d] show ?thesis unfolding blank_answer_def by blast
qed

lemma REJECTED_CODES_say: "code \<in> set REJECTED_CODES \<Longrightarrow> \<not> list_all js_space code"
proof -
  have "list_all (\<lambda>code. \<not> list_all js_space code) REJECTED_CODES" by code_simp
  then show "code \<in> set REJECTED_CODES \<Longrightarrow> \<not> list_all js_space code" by (simp add: list_all_iff)
qed

lemma llm_submit_valid:
  assumes run: "llm_submit env value ans detail = Inr r"
  shows "submit_result_valid r \<or> blank_answer (le_JSON_parse env) detail r"
proof -
  obtain q where q: "llm_request value = Inr q" using run by (auto simp: llm_submit_def bindL_def otherL_def split: sum.split_asm)
  show ?thesis
  proof (cases q)
    case (Inl x)
    with run q have "r = x" by (simp add: llm_submit_def bindL_def otherL_def)
    with q Inl llm_request_refusal show ?thesis by blast
  next
    case (Inr y)
    then obtain parsed input where y: "q = Inr (parsed, input)" by (cases y) auto
    show ?thesis
    proof (cases "gateway_submit (le_JSON_parse env) ans")
      case (Inl e)
      with run q y obtain code where c: "submissionRejected e = Some code"
        and r: "r = rejected code (lit ''Gateway rejected this submission ('' @ code @ lit '').'')"
        by (auto simp: llm_submit_def bindL_def otherL_def Let_def split: sum.split_asm option.split_asm)
      from c have "code \<in> set REJECTED_CODES" by (auto simp: submissionRejected_def split: llm_error.split_asm if_splits)
      with r REJECTED_CODES_say show ?thesis by (simp add: rejected_valid)
    next
      case (Inr z)
      obtain id' status where z: "z = (id', status)" by fastforce
      have uuid: "length id' = 36 \<and> trim id' \<noteq> []"
        using Inr z parseUuid_shape
        by (auto simp: gateway_submit_def bindL_def otherL_def throwL_def split: sum.split_asm option.split_asm)
      have "r = Accepted id' \<or> (\<exists>outcome. gateway_outcome (le_JSON_parse env) id' status
          (gatewayKey (le_sha env) (ps_submissionId (ls_submission parsed))) (submission_context parsed) detail = Inr outcome \<and> r = Completed id' outcome)"
        using run q y Inr z by (auto simp: llm_submit_def bindL_def otherL_def Let_def split: sum.split_asm if_splits)
      then show ?thesis
      proof
        assume "r = Accepted id'"
        with uuid show ?thesis by (simp add: submit_result_valid_def)
      next
        assume "\<exists>outcome. gateway_outcome (le_JSON_parse env) id' status
          (gatewayKey (le_sha env) (ps_submissionId (ls_submission parsed))) (submission_context parsed) detail = Inr outcome \<and> r = Completed id' outcome"
        then obtain outcome where out: "gateway_outcome (le_JSON_parse env) id' status
          (gatewayKey (le_sha env) (ps_submissionId (ls_submission parsed))) (submission_context parsed) detail = Inr outcome" "r = Completed id' outcome" by blast
        from gateway_outcome_valid [OF out(1)] uuid show ?thesis unfolding out(2) by (simp add: submit_result_valid_def)
      qed
    qed
  qed
qed

text \<open>A failure the session's parser accepts is not blank.\<close>

lemma nonempty_Inr: "nonemptyString v path code = Inr s \<Longrightarrow> trim s \<noteq> []"
  unfolding nonemptyString_def bad_def by (simp only: split: option.split_asm json.split_asm if_split_asm) simp_all

lemma parsed_failure_valid:
  assumes "parseOperationFailure v = Inr f"
  shows "failure_valid f"
proof -
  obtain r c m where "nonemptyString (field r ''code'') ''error.code'' INVALID_REQUEST = Inr c"
    "nonemptyString (field r ''message'') ''error.message'' INVALID_REQUEST = Inr m" "of_code f = c" "of_message f = m"
    using assms by (auto simp: parseOperationFailure_def)
  then show ?thesis using nonempty_Inr by (metis failure_valid_def)
qed

lemma parsed_outcome_valid: "parseOperationOutcome v = Inr (Failed og f) \<Longrightarrow> failure_valid f"
  by (auto simp: parseOperationOutcome_def bad_def split: if_splits option.split_asm dest: parsed_failure_valid)

lemma parsed_job_valid:
  assumes "parseJobOutcome v = Inr (Failed og f)"
  shows "failure_valid f"
proof -
  obtain o' where o: "parseOperationOutcome v = Inr o'"
    "(case o' of Failed Submission f \<Rightarrow> bad INVALID_REQUEST (lit ''An accepted provider job cannot report submission rejection as its outcome.'')
      | _ \<Rightarrow> Inr o') = Inr (Failed og f)" using assms by (auto simp: parseJobOutcome_def)
  then have "o' = Failed og f" by (simp add: bad_def split: operation_outcome.split_asm origin.split_asm)
  with o(1) parsed_outcome_valid show ?thesis by blast
qed

lemma parsed_result_valid: "parseProviderSubmitResult v = Inr (Completed j (Failed og f)) \<Longrightarrow> failure_valid f"
  by (auto simp: parseProviderSubmitResult_def bad_def split: if_splits dest: parsed_job_valid)

section \<open>The pinned runtime\<close>

text \<open>What happens to a session's object: requests, tool submissions up to the discovery, its reply, the driver's own steps, and
  the loss of the object, after which storage is read again and no discovery is under way.\<close>

inductive host_step :: "url_parser \<Rightarrow> (jstring \<Rightarrow> json res) \<Rightarrow> ('h, 'c, 'p) host_env \<Rightarrow> ('h, 'c) host \<Rightarrow> ('h, 'c) host \<Rightarrow> bool"
  for new_URL JSON_parse env where
  hs_request: "sessionRequest env request now h = (r, h') \<Longrightarrow> host_step new_URL JSON_parse env h h'"
| hs_submit: "execution_begin new_URL destination submission config h = (r, h') \<Longrightarrow> host_step new_URL JSON_parse env h h'"
| hs_discovered: "discovery_reply JSON_parse reply h = (r, h') \<Longrightarrow> host_step new_URL JSON_parse env h h'"
| hs_driver: "dr_step (he_sha env) (he_harness env) describe (he_policy env) (ho_driver h) d \<Longrightarrow>
    host_step new_URL JSON_parse env h (h\<lparr>ho_driver := d\<rparr>)"
| hs_lost: "newDriver (he_policy env) providers (he_harness env) (Some (rt_store (host_rt h))) (dr_alarm (ho_driver h)) = Inr d \<Longrightarrow>
    host_step new_URL JSON_parse env h (h\<lparr>ho_driver := d, ho_preparing := None\<rparr>)"

lemma execution_begin_runtime: "execution_begin new_URL destination submission config h = (r, h') \<Longrightarrow> ho_runtime h' = ho_runtime h"
  by (auto simp: execution_begin_def act_defs split: sum.splits prod.splits if_splits)

lemma host_step_pinned:
  "host_step new_URL JSON_parse env h h' \<Longrightarrow> ho_runtime h = Some b \<Longrightarrow> ho_runtime h' = Some b"
proof (induction rule: host_step.induct)
  case (hs_request request now h r h')
  then show ?case using withinD [OF sessionRequest_moves hs_request(1)] by (simp add: host_moves_def)
next
  case (hs_submit destination submission config h r h')
  then show ?case by (simp add: execution_begin_runtime)
next
  case (hs_discovered reply h r h')
  then show ?case by (auto simp: discovery_reply_def pin_runtime_def split: option.splits sum.splits)
qed simp_all

lemma host_steps_pinned:
  "(host_step new_URL JSON_parse env)\<^sup>*\<^sup>* h h' \<Longrightarrow> ho_runtime h = Some b \<Longrightarrow> ho_runtime h' = Some b"
  by (induction rule: rtranclp_induct) (auto intro: host_step_pinned)

lemma tool_result_identity:
  assumes run: "sessionRequest env (Some (accept_tool_command x c)) now h = (Inr (Reply_ok v), h')" and pin: "ho_runtime h = Some b"
  shows "\<exists>r. x = JObj r \<and> field r ''gatewayUrl'' = Some (JStr (rb_gatewayUrl b)) \<and> field r ''machineId'' = Some (JStr (rb_machineId b))
    \<and> field r ''runtimeGeneration'' = Some (JStr (rb_runtimeGeneration b)) \<and> oc_provider c \<in> set TOOL_PROVIDERS"
proof -
  from sessionRequest_ok [OF run] have "run_command env (Cmd_acceptToolCompletion (obj [(''execution'', x), (''completion'', completion_value c)])) now h
      = (Inr v, h')" by (simp add: parse_accept_commands)
  then obtain k where "toolCompletion (Some (obj [(''execution'', x), (''completion'', completion_value c)])) (Some b) = Inr k"
    using pin by (auto simp: run_command_def bindA_Inr prim_defs)
  then show ?thesis
    by (auto simp: toolCompletion_def gw_object_def gw_invalid_def obj_def field_def completion_value_def tool_provider_def
        split: option.split_asm json.split_asm if_splits sum.split_asm)
qed

lemma execution_call_pinned:
  assumes "execution_check new_URL submission config = Inr (gatewayUrl, machineId)"
    and "execution_call destination submission config gatewayUrl machineId (Some b) = Inr m"
  shows "m = obj [(''destination'', destination_json destination), (''submission'', submission_json submission),
      (''execution'', obj [(''gatewayUrl'', JStr (rb_gatewayUrl b)), (''token'', ec_executionToken config),
        (''runtimeGeneration'', JStr (rb_runtimeGeneration b))])]
    \<and> (\<exists>input. or_input (ps_request submission) = JObj input \<and> field input ''machineId'' = Some (JStr (rb_machineId b)))
    \<and> ec_machineId config = JStr (rb_machineId b)
    \<and> sd_sessionId destination = sd_sessionId (rb_destination b) \<and> sd_routeKey destination = sd_routeKey (rb_destination b)"
proof -
  from assms(2) have b: "rb_gatewayUrl b = gatewayUrl" "rb_machineId b = machineId"
    "sd_sessionId (rb_destination b) = sd_sessionId destination" "sd_routeKey (rb_destination b) = sd_routeKey destination"
    "m = obj [(''destination'', destination_json destination), (''submission'', submission_json submission),
      (''execution'', obj [(''gatewayUrl'', JStr gatewayUrl), (''token'', ec_executionToken config), (''runtimeGeneration'', JStr (rb_runtimeGeneration b))])]"
    by (auto simp: execution_call_def split: if_splits)
  from assms(1) obtain input where "gw_object (Some (or_input (ps_request submission))) None = Inr input"
    "gw_uuid (field input ''machineId'') = Inr machineId" "ec_machineId config = JStr machineId"
    by (auto simp: execution_check_def split: if_splits)
  moreover then have "or_input (ps_request submission) = JObj input" by (auto simp: gw_object_def gw_invalid_def split: json.split_asm if_splits)
  ultimately show ?thesis using b by (auto simp: gw_uuid_Inr)
qed

section \<open>Receipts\<close>

lemma worker_receipt_checked: "check_receipt event (Returned (Some (worker_receipt event))) = Inr ()"
  by (simp add: check_receipt_def worker_receipt_def receipt_matches_def gw_object_def obj_def field_def str_def)

lemma authenticated_event_signed:
  assumes "authenticated_event env now rq = Inr event"
  shows "\<exists>sent eventId signature b. wr_timestamp rq = Some sent \<and> fresh_timestamp now sent \<and> (eventId = (case wr_eventId rq of None \<Rightarrow> [] | Some s \<Rightarrow> s))
    \<and> wr_signature rq = Some signature \<and> readLimited (wr_body rq) (32 * 1024 * 1024) = Inr b
    \<and> signed_by env signature (signed_data sent eventId b) \<and> parse_event env eventId b = Inr event"
proof -
  have "\<not> fresh_timestamp now []" by (simp add: fresh_timestamp_def)
  moreover have "\<not> signed_by env [] data" for data
    by (auto simp: signed_by_def verifySignature_def signature_shape_def split: option.splits)
  ultimately show ?thesis using assms
    by (auto simp: authenticated_event_def Let_def split: if_splits sum.split_asm option.split_asm option.split)
qed

lemma webhook_keeps:
  assumes "\<And>ns sid command w r w'. P w \<Longrightarrow> call ns sid command w = (r, w') \<Longrightarrow> P w'" and "P w"
    and "webhook env call now deadline rq w = (r, w')"
  shows "P w'"
  using assms
  by (auto simp: webhook_def llm_deliver_def act_defs catchA_def Let_def split: if_splits sum.split_asm prod.split_asm)

end
