(* ===== verification/WorkerExample.thy ===== *)
theory WorkerExample
  imports WorkerSafety MinimalBashProperties PiProperties
begin

text \<open>
  A deployment with one open session that waits for a model job and a bash job, a signed callback of the model gateway and a
  result of the execution gateway. Both are delivered in full; the properties of the workers are applied to these runs.
\<close>

definition wd_model_operation :: jstring where
  "wd_model_operation = lit ''replay-v1:1:'' @ replicate 64 48"

definition wd_bash_operation :: jstring where
  "wd_bash_operation = lit ''replay-v1:1:'' @ replicate 64 49"

definition wd_job :: jstring where
  "wd_job = lit ''1a0a0a0a-0b0b-4c0c-8d0d-0e0e0e0e0e0e''"

definition wd_request :: jstring where
  "wd_request = lit ''pi-bash-v1:'' @ replicate 64 48"

definition wd_model_job :: pending_operation where
  "wd_model_job = \<lparr>po_operationId = wd_model_operation, po_sourceInputSequence = 1, po_key = lit ''llm'', po_provider = lit ''llm'', po_jobId = wd_job\<rparr>"

definition wd_bash_job :: pending_operation where
  "wd_bash_job = \<lparr>po_operationId = wd_bash_operation, po_sourceInputSequence = 1, po_key = lit ''bash'', po_provider = lit ''tool-pi-bash'', po_jobId = wd_request\<rparr>"

definition wd_runtime :: "(mb_tables, mb_changes) runtime" where
  "wd_runtime = mb_demo_open\<lparr>rt_store := (rt_store mb_demo_open)\<lparr>
     st_inbox := [consumed_row 7 (new_row demo_input (inputHash zero_sha demo_body))],
     st_pending := [wd_model_job, wd_bash_job]\<rparr>\<rparr>"

definition wd_driver :: "('h, 'c) runtime \<Rightarrow> ('h, 'c) driver" where
  "wd_driver rt = \<lparr>dr_rt = rt, dr_alarm = None, dr_receiptInput = None, dr_receipts = [], dr_requested = False, dr_drain = Resting\<rparr>"

definition wd_destination :: session_destination where
  "wd_destination = \<lparr>sd_routeKey = MINIMAL_BASH_ROUTE, sd_sessionId = lit ''s1''\<rparr>"

definition wd_binding :: runtime_binding where
  "wd_binding = \<lparr>rb_gatewayUrl = lit ''https://gw.example'', rb_machineId = lit ''0a0a0a0a-0b0b-4c0c-8d0d-0e0e0e0e0e0e'',
     rb_runtimeGeneration = lit ''2a0a0a0a-0b0b-4c0c-8d0d-0e0e0e0e0e0e'', rb_destination = wd_destination\<rparr>"

definition wd_world :: sessions where
  "wd_world = \<lparr>se_minimal_bash = (\<lambda>sid. \<lparr>ho_driver = wd_driver wd_runtime, ho_runtime = Some wd_binding, ho_preparing = None\<rparr>),
     se_pi_no_compaction = (\<lambda>sid. newHost (wd_driver pi_demo_start))\<rparr>"

definition wd_deployment :: deployment where
  "wd_deployment = \<lparr>dy_sha = zero_sha, dy_new_URL = mb_demo_url, dy_JSON_parse = mb_demo_parse, dy_policy = DEFAULT_DRIVER_POLICY,
     dy_minimal_bash_page = (\<lambda>p b. JNull), dy_pi_page = (\<lambda>p b. JNull)\<rparr>"

lemma wd_world_ok: "sessions_ok wd_deployment wd_world"
proof -
  let ?rows = "[consumed_row 7 (new_row demo_input (inputHash zero_sha demo_body))]"
  have rows: "inbox_ok ?rows"
    unfolding inbox_ok_def
    by (simp add: row_ok_def consumed_row_def new_row_def demo_input_def inputHash_def zero_sha_def MAX_SAFE_INTEGER_def waiting_def)
      (rule exI [of _ ?rows], simp add: consumed_row_def new_row_def waiting_def demo_input_def inputHash_def zero_sha_def)
  have "wd_model_operation \<noteq> wd_bash_operation" by code_simp
  moreover have "po_operationId wd_model_job = wd_model_operation" "po_operationId wd_bash_job = wd_bash_operation"
    "po_sourceInputSequence wd_model_job = 1" "po_sourceInputSequence wd_bash_job = 1"
    by (simp_all add: wd_model_job_def wd_bash_job_def)
  ultimately have mb: "rt_ok zero_sha (minimalBashHarness mb_demo_url mb_demo_parse) wd_runtime"
    using rows
    by (simp add: rt_ok_def store_ok_def pending_ok_def namespaced_def session_coherent_def prepared_coherent_def harness_ok_def
      wd_runtime_def mb_demo_open_def mb_demo_info_def checkHarness_def minimalBashHarness_def consumed_row_def new_row_def demo_input_def)
  have "rt_ok zero_sha (piNoCompactionHarness mb_demo_url mb_demo_parse) pi_demo_start"
    by (simp add: rt_ok_def store_ok_def inbox_ok_def pending_ok_def namespaced_def session_coherent_def prepared_coherent_def harness_ok_def
      pi_demo_start_def)
  with mb show ?thesis by (simp add: sessions_ok_def wd_world_def wd_deployment_def wd_driver_def newHost_def)
qed

section \<open>A callback of the model gateway\<close>

definition wd_event :: json where
  "wd_event = obj [(''schemaVersion'', JNum (NInt 2)), (''eventId'', JStr wd_job), (''jobId'', JStr wd_job), (''type'', str ''job.cancelled''),
     (''completedAt'', str ''2026-01-01T00:00:00Z''), (''response'', JNull), (''error'', JNull),
     (''clientContext'', obj [(''routeKey'', JStr MINIMAL_BASH_ROUTE), (''sessionId'', str ''s1''), (''operationId'', JStr wd_model_operation),
       (''submissionId'', JStr wd_model_operation)])]"

definition wd_routes :: json where
  "wd_routes = JObj [(MINIMAL_BASH_ROUTE, JStr MINIMAL_BASH_SESSIONS), (PI_NO_COMPACTION_ROUTE, JStr PI_NO_COMPACTION_SESSIONS)]"

definition wd_llm_env :: llm_env where
  "wd_llm_env = \<lparr>le_GATEWAY_URL = lit ''https://gw.example'', le_GATEWAY_API_KEY = Some (lit ''key''), le_GATEWAY_WEBHOOK_SECRET = Some (lit ''secret''),
     le_GATEWAY_PREVIOUS_WEBHOOK_SECRET = None, le_SESSION_ROUTES = lit ''routes'',
     le_bound = (\<lambda>n. n = MINIMAL_BASH_SESSIONS \<or> n = PI_NO_COMPACTION_SESSIONS),
     le_JSON_parse = (\<lambda>s. if s = lit ''routes'' then Inr wd_routes else Inr wd_event), le_new_URL = mb_demo_url, le_Date_parse = (\<lambda>s. True),
     le_sha = zero_sha, le_hmac = (\<lambda>k d. replicate 32 0)\<rparr>"

definition wd_webhook :: webhook_request where
  "wd_webhook = \<lparr>wr_method = lit ''POST'', wr_contentType = Some (lit ''application/json''), wr_timestamp = Some (lit ''1000''),
     wr_eventId = Some wd_job, wr_signature = Some (lit ''v1='' @ replicate 64 48), wr_body = Chunks [[123, 125]] True\<rparr>"

definition wd_webhook_event :: webhook_event where
  "wd_webhook_event = \<lparr>we_eventId = wd_job, we_jobId = wd_job, we_completedAt = lit ''2026-01-01T00:00:00Z'',
     we_clientContext = \<lparr>cc_routeKey = MINIMAL_BASH_ROUTE, cc_sessionId = lit ''s1'', cc_operationId = wd_model_operation,
       cc_submissionId = wd_model_operation\<rparr>, we_outcome = Cancelled\<rparr>"

lemma wd_authenticated: "authenticated_event wd_llm_env 1000000 wd_webhook = Inr wd_webhook_event"
  by code_simp

lemma wd_namespace: "sessionNamespace (le_JSON_parse wd_llm_env) (le_bound wd_llm_env) (le_SESSION_ROUTES wd_llm_env) MINIMAL_BASH_ROUTE = Inr MINIMAL_BASH_SESSIONS"
  by code_simp

section \<open>A result of the execution gateway\<close>

definition wd_worker_env :: worker_env where
  "wd_worker_env = \<lparr>we_SESSION_ROUTES = lit ''routes'', we_bound = (\<lambda>n. n = MINIMAL_BASH_SESSIONS \<or> n = PI_NO_COMPACTION_SESSIONS),
     we_JSON_parse = (\<lambda>s. Inr wd_routes), we_new_URL = mb_demo_url, we_sha = zero_sha\<rparr>"

definition wd_callback_context :: json where
  "wd_callback_context = obj [(''routeKey'', JStr MINIMAL_BASH_ROUTE), (''sessionId'', str ''s1''),
     (''gatewayUrl'', str ''https://gw.example''), (''machineId'', JStr (rb_machineId wd_binding)),
     (''runtimeGeneration'', JStr (rb_runtimeGeneration wd_binding)), (''operationId'', JStr wd_bash_operation),
     (''submissionId'', JStr wd_bash_operation), (''cwd'', str ''/work''), (''commandSha256'', JStr (zero_sha [])), (''timeoutSeconds'', JNull)]"

definition wd_native_outcome :: json where
  "wd_native_outcome = obj [(''status'', str ''error''), (''error'', obj [(''code'', str ''spawn_failed''), (''message'', str ''no bash''),
     (''uncertain'', JBool False)])]"

definition wd_result :: json where
  "wd_result = obj [(''protocolVersion'', JNum (NInt 1)), (''machineId'', JStr (rb_machineId wd_binding)),
     (''runtimeGeneration'', JStr (rb_runtimeGeneration wd_binding)), (''requestId'', JStr wd_request), (''requestHash'', JStr (zero_sha [])),
     (''callback'', obj [(''receiver'', str ''tool-pi-bash-v1''), (''context'', wd_callback_context)]),
     (''deliveryId'', JStr (zero_sha [])), (''resultHash'', JStr (zero_sha [])), (''outcome'', wd_native_outcome)]"

definition wd_context :: "bash_extra tool_context" where
  "wd_context = \<lparr>ct_routeKey = MINIMAL_BASH_ROUTE, ct_sessionId = lit ''s1'', ct_gatewayUrl = lit ''https://gw.example'',
     ct_machineId = rb_machineId wd_binding, ct_runtimeGeneration = rb_runtimeGeneration wd_binding, ct_operationId = wd_bash_operation,
     ct_submissionId = wd_bash_operation, ct_cwd = lit ''/work'', ct_extra = \<lparr>bx_commandSha256 = zero_sha [], bx_timeoutSeconds = None\<rparr>\<rparr>"

definition wd_completion_event :: completion_event where
  "wd_completion_event = \<lparr>ev_envelope = \<lparr>re_machineId = rb_machineId wd_binding, re_runtimeGeneration = rb_runtimeGeneration wd_binding,
     re_requestId = wd_request, re_requestHash = zero_sha [], re_callback = \<lparr>cb_receiver = lit ''tool-pi-bash-v1'', cb_context = wd_callback_context\<rparr>\<rparr>,
     ev_deliveryId = zero_sha [], ev_resultHash = zero_sha [], ev_outcome = NativeError (lit ''spawn_failed'') (lit ''no bash'') False\<rparr>"

lemma wd_shapes:
  "gw_digest (Some (JStr (zero_sha []))) = Inr (zero_sha [])"
  "gw_uuid (Some (JStr (rb_machineId wd_binding))) = Inr (rb_machineId wd_binding)"
  "gw_uuid (Some (JStr (rb_runtimeGeneration wd_binding))) = Inr (rb_runtimeGeneration wd_binding)"
  "gw_identity (Some (JStr wd_request)) = Inr wd_request" "gw_identity (Some (str ''tool-pi-bash-v1'')) = Inr (lit ''tool-pi-bash-v1'')"
  "gw_identity (Some (JStr MINIMAL_BASH_ROUTE)) = Inr MINIMAL_BASH_ROUTE" "gw_identity (Some (str ''s1'')) = Inr (lit ''s1'')"
  by code_simp+

lemma wd_callback_parsed:
  "parse_callback (Some (obj [(''receiver'', str ''tool-pi-bash-v1''), (''context'', wd_callback_context)]))
    = Inr \<lparr>cb_receiver = lit ''tool-pi-bash-v1'', cb_context = wd_callback_context\<rparr>"
proof -
  have "jsonValue (Some wd_callback_context) = Inr wd_callback_context" by code_simp
  moreover have "\<not> json_bytes wd_callback_context > 8192" by code_simp
  ultimately show ?thesis by (simp add: parse_callback_def gw_object_def obj_def field_def wd_shapes)
qed

lemma wd_native_parsed: "parse_outcome (Some wd_native_outcome) = Inr (NativeError (lit ''spawn_failed'') (lit ''no bash'') False)"
  by code_simp

lemma wd_result_parsed: "parse_completion_event (Some wd_result) = Inr wd_completion_event"
  using wd_shapes wd_callback_parsed wd_native_parsed
  by (simp add: parse_completion_event_def wd_result_def gw_object_def obj_def field_def routingFields_def COMPLETION_KEYS_def wd_completion_event_def)

lemma wd_input_parsed: "parseBashInput (Some (obj [(''machineId'', JStr (rb_machineId wd_binding)), (''cwd'', str ''/work''), (''command'', JStr [])]))
    = Inr (\<lparr>pl_machineId = rb_machineId wd_binding, pl_cwd = lit ''/work''\<rparr>, \<lparr>bt_command = [], bt_timeout = None\<rparr>)"
  by code_simp

lemma wd_url_parsed: "parseExecutionGatewayUrl mb_demo_url (Some (str ''https://gw.example'')) = Inr (lit ''https://gw.example'')"
  by code_simp

lemma wd_context_parsed: "parse_context mb_demo_url bash_worker (Some wd_callback_context) = Inr wd_context"
proof -
  have len: "length wd_bash_operation = 76" "wd_bash_operation \<noteq> []" by (simp_all add: wd_bash_operation_def lit_def)
  show ?thesis
    using wd_shapes wd_input_parsed wd_url_parsed len
    by (simp add: parse_context_def wd_callback_context_def gw_object_def obj_def field_def CONTEXT_KEYS_def bash_worker_def context_correlation_def
      bash_context_input_def wd_context_def)
qed

lemma wd_hashed: "jsonValue (Some (outcome_native_json (NativeError (lit ''spawn_failed'') (lit ''no bash'') False)))
    = Inr (outcome_native_json (NativeError (lit ''spawn_failed'') (lit ''no bash'') False))"
  by code_simp

lemma wd_tool_completion: "tool_completion zero_sha mb_demo_url bash_worker (Some wd_result) = Inr (wd_completion_event, wd_context)"
proof -
  have parts: "re_callback (ev_envelope wd_completion_event) = \<lparr>cb_receiver = lit ''tool-pi-bash-v1'', cb_context = wd_callback_context\<rparr>"
    "ev_outcome wd_completion_event = NativeError (lit ''spawn_failed'') (lit ''no bash'') False"
    by (simp_all add: wd_completion_event_def)
  show ?thesis
    unfolding tool_completion_def wd_result_parsed bindR_simps Let_def parts callback.select_convs wd_context_parsed wd_hashed
    by (simp add: wd_completion_event_def wd_context_def tool_identity_def bash_worker_def zero_sha_def hashJson_def wd_request_def)
qed

definition wd_outcome :: operation_outcome where
  "wd_outcome = native_failure ''BASH_EXECUTION_UNKNOWN''
     ''Command may have run, but its outcome is unknown. Do not automatically execute it again.'' (lit ''spawn_failed'') (lit ''no bash'') False wd_request"

lemma wd_bash_outcome: "bash_outcome zero_sha wd_completion_event wd_context = Inr wd_outcome"
  by (simp add: bash_outcome_def wd_completion_event_def wd_outcome_def Let_def)

section \<open>The session takes both\<close>

lemma parse_completion_value: "completion_valid c \<Longrightarrow> parseOperationCompletion (Some (completion_value c)) = Inr c"
  by (simp add: parseOperationCompletion_def completion_value_def completion_valid_def js_record_JObj obj_def)

lemma driver_accept_first:
  assumes "parseOperationCompletion v = Inr c" and "rt_session (dr_rt d) = Some i"
    and "operationIdentity (oc_operationId c) = Inr n" and "oc_submissionId c = oc_operationId c"
    and "findInput (st_inbox (rt_store (dr_rt d))) (completionEventId (oc_operationId c)) = None"
    and "po_find (st_pending (rt_store (dr_rt d))) (oc_operationId c) = Some p"
    and "po_provider p = oc_provider c" and "po_jobId p = oc_jobId c"
    and "allocateSequence (st_inbox (rt_store (dr_rt d))) = Inr m" and "timestamp now = Inr t"
    and "ev = completionEvent (oc_operationId c) (oc_provider c) (Some (oc_jobId c)) (oc_outcome c)"
    and "insertInput (st_inbox (rt_store (dr_rt d))) \<lparr>en_eventId = completionEventId (oc_operationId c), en_sequence = m,
      en_receivedAt = t, en_event = ev\<rparr> (inputHash sha ev) = Inr rows"
  shows "\<exists>d'. driver_acceptCompletion sha H policy v now d = (Inr \<lparr>cr_operationId = oc_operationId c,
      cr_eventId = completionEventId (oc_operationId c), cr_duplicate = False\<rparr>, d')"
  using assms
  by (simp add: driver_acceptCompletion_def check_completion_def commit_admission_def requireSession_cached already_consumed_def
      transactionSync_def insert_event_def inbox_stmt_def set_store_def Let_def act_defs)

lemma wd_driver_accepts:
  assumes valid: "completion_valid c" and n: "operationIdentity (oc_operationId c) = Inr 1" "oc_submissionId c = oc_operationId c"
    and p: "po_find (st_pending (rt_store wd_runtime)) (oc_operationId c) = Some p" "po_provider p = oc_provider c" "po_jobId p = oc_jobId c"
    and size: "json_bytes (event_json (completionEvent (oc_operationId c) (oc_provider c) (Some (oc_jobId c)) (oc_outcome c)))
      + utf8Bytes (completionEventId (oc_operationId c)) \<le> 100000"
    and new: "completionEventId (oc_operationId c) \<noteq> lit ''e1''"
  shows "\<exists>d'. driver_acceptCompletion zero_sha H DEFAULT_DRIVER_POLICY (Some (completion_value c)) 9 (wd_driver wd_runtime) =
    (Inr \<lparr>cr_operationId = oc_operationId c, cr_eventId = completionEventId (oc_operationId c), cr_duplicate = False\<rparr>, d')"
proof -
  let ?ev = "completionEvent (oc_operationId c) (oc_provider c) (Some (oc_jobId c)) (oc_outcome c)"
  let ?in = "\<lparr>en_eventId = completionEventId (oc_operationId c), en_sequence = 2, en_receivedAt = 9, en_event = ?ev\<rparr>"
  have rows: "st_inbox (rt_store wd_runtime) = [consumed_row 7 (new_row demo_input (inputHash zero_sha demo_body))]" "rt_session wd_runtime = Some mb_demo_info"
    by (simp_all add: wd_runtime_def mb_demo_open_def)
  have ids: "ib_event_id (consumed_row 7 (new_row demo_input h)) = lit ''e1''" "ib_sequence (consumed_row 7 (new_row demo_input h)) = 1" for h
    by (simp_all add: consumed_row_def new_row_def demo_input_def)
  have "insertInput (st_inbox (rt_store wd_runtime)) ?in (inputHash zero_sha ?ev) = Inr (st_inbox (rt_store wd_runtime) @ [new_row ?in (inputHash zero_sha ?ev)])"
    using size new by (simp add: insertInput_def rows ids MAX_INLINE_ROW_BYTES_def constraint_def guardR_def MAX_SAFE_INTEGER_def inputHash_def zero_sha_def new_row_def
      consumed_row_def demo_input_def)
  moreover have "findInput (st_inbox (rt_store wd_runtime)) (completionEventId (oc_operationId c)) = None"
    using new by (simp add: findInput_def rows ids)
  moreover have "allocateSequence (st_inbox (rt_store wd_runtime)) = Inr 2"
    by (simp add: allocateSequence_def max_sequence_def rows ids MAX_SAFE_INTEGER_def)
  moreover have "timestamp 9 = Inr 9" by code_simp
  ultimately show ?thesis
    using driver_accept_first [OF parse_completion_value [OF valid], of "wd_driver wd_runtime" mb_demo_info 1 p 2 9 9 ?ev zero_sha
        "st_inbox (rt_store wd_runtime) @ [new_row ?in (inputHash zero_sha ?ev)]" H DEFAULT_DRIVER_POLICY] n p rows
    by (simp add: wd_driver_def)
qed

lemma wd_new_events: "completionEventId wd_model_operation \<noteq> lit ''e1''" "completionEventId wd_bash_operation \<noteq> lit ''e1''"
  by (simp_all add: completionEventId_def lit_def)

lemma wd_operations: "operationIdentity wd_model_operation = Inr 1" "operationIdentity wd_bash_operation = Inr 1"
  by code_simp+

lemma wd_lengths: "length wd_model_operation = 76" "length wd_bash_operation = 76" "length wd_request = 75" "length wd_job = 36"
  by (simp_all add: wd_model_operation_def wd_bash_operation_def wd_request_def wd_job_def)

lemma wd_texts: "\<not> list_all js_space wd_model_operation" "\<not> list_all js_space wd_bash_operation" "\<not> list_all js_space wd_request"
  "\<not> list_all js_space wd_job" "\<not> list_all js_space (lit ''llm'')" "\<not> list_all js_space (lit ''tool-pi-bash'')"
  "\<not> list_all js_space (lit ''spawn_failed'')" "\<not> list_all js_space (lit ''no bash'')"
  by code_simp+

lemma wd_small:
  assumes "text_size (outcome_json outcome) \<le> 5000" and "length oid = 76" and "length p \<le> 20" and "length j \<le> 80"
  shows "json_bytes (event_json (completionEvent oid p (Some j) outcome)) + utf8Bytes (completionEventId oid) \<le> 100000"
proof -
  have "text_size (event_json (completionEvent oid p (Some j) outcome)) \<le> 9000"
    using assms by (simp add: event_json_def completionEvent_def COMPLETED_EVENT_def)
  moreover have "length (completionEventId oid) \<le> 200" using assms(2) by (simp add: completionEventId_def RUNTIME_EVENT_ID_PREFIX_def)
  ultimately show ?thesis
    using json_bytes_le [of "event_json (completionEvent oid p (Some j) outcome)"] utf8Bytes_le [of "completionEventId oid"] by linarith
qed

definition wd_model_completion :: operation_completion where
  "wd_model_completion = \<lparr>oc_operationId = wd_model_operation, oc_submissionId = wd_model_operation, oc_provider = lit ''llm'', oc_jobId = wd_job,
     oc_outcome = Cancelled\<rparr>"

definition wd_bash_completion :: operation_completion where
  "wd_bash_completion = \<lparr>oc_operationId = wd_bash_operation, oc_submissionId = wd_bash_operation, oc_provider = lit ''tool-pi-bash'', oc_jobId = wd_request,
     oc_outcome = wd_outcome\<rparr>"

lemma wd_outcome_size: "text_size (outcome_json wd_outcome) \<le> 5000" "text_size (outcome_json Cancelled) \<le> 5000"
  by (simp_all add: wd_outcome_def native_failure_def outcome_json_def failure_json_def obj_def origin_text_def wd_lengths)

lemma wd_completions_valid: "completion_valid wd_model_completion" "completion_valid wd_bash_completion"
proof -
  have "json_bytes (outcome_json o') \<le> MAX_OPERATION_OUTCOME_BYTES" if "text_size (outcome_json o') \<le> 5000" for o'
    using that json_bytes_le [of "outcome_json o'"] by (simp add: MAX_OPERATION_OUTCOME_BYTES_def)
  then have "json_bytes (outcome_json wd_outcome) \<le> MAX_OPERATION_OUTCOME_BYTES" "json_bytes (outcome_json Cancelled) \<le> MAX_OPERATION_OUTCOME_BYTES"
    using wd_outcome_size by blast+
  then show "completion_valid wd_model_completion" "completion_valid wd_bash_completion"
    using wd_texts
    by (simp_all add: completion_valid_def wd_model_completion_def wd_bash_completion_def outcome_valid_def job_outcome_def failure_valid_def
        wd_outcome_def native_failure_def)
qed

lemma wd_operations_differ: "wd_model_operation \<noteq> wd_bash_operation"
  by code_simp

lemma wd_jobs:
  "po_find (st_pending (rt_store wd_runtime)) wd_model_operation = Some wd_model_job" "po_provider wd_model_job = lit ''llm''" "po_jobId wd_model_job = wd_job"
  "po_find (st_pending (rt_store wd_runtime)) wd_bash_operation = Some wd_bash_job" "po_provider wd_bash_job = lit ''tool-pi-bash''"
  "po_jobId wd_bash_job = wd_request"
  using wd_operations_differ by (simp_all add: wd_runtime_def po_find_def wd_model_job_def wd_bash_job_def)

lemma wd_accepts:
  "\<exists>r d'. driver_acceptCompletion zero_sha H DEFAULT_DRIVER_POLICY (Some (completion_value wd_model_completion)) 9 (wd_driver wd_runtime) = (Inr r, d')
    \<and> cr_operationId r = wd_model_operation \<and> cr_eventId r = completionEventId wd_model_operation"
  "\<exists>r d'. driver_acceptCompletion zero_sha H DEFAULT_DRIVER_POLICY (Some (completion_value wd_bash_completion)) 9 (wd_driver wd_runtime) = (Inr r, d')
    \<and> cr_operationId r = wd_bash_operation \<and> cr_eventId r = completionEventId wd_bash_operation"
proof -
  have sel: "oc_operationId wd_model_completion = wd_model_operation" "oc_operationId wd_bash_completion = wd_bash_operation"
    by (simp_all add: wd_model_completion_def wd_bash_completion_def)
  have "\<exists>d'. driver_acceptCompletion zero_sha H DEFAULT_DRIVER_POLICY (Some (completion_value wd_model_completion)) 9 (wd_driver wd_runtime) =
    (Inr \<lparr>cr_operationId = oc_operationId wd_model_completion, cr_eventId = completionEventId (oc_operationId wd_model_completion), cr_duplicate = False\<rparr>, d')"
    by (rule wd_driver_accepts [OF wd_completions_valid(1), where p = wd_model_job])
      (use wd_operations wd_new_events wd_lengths wd_outcome_size wd_jobs in \<open>simp_all add: wd_model_completion_def wd_small\<close>)
  then show "\<exists>r d'. driver_acceptCompletion zero_sha H DEFAULT_DRIVER_POLICY (Some (completion_value wd_model_completion)) 9 (wd_driver wd_runtime) = (Inr r, d')
    \<and> cr_operationId r = wd_model_operation \<and> cr_eventId r = completionEventId wd_model_operation"
    unfolding sel by fastforce
  have "\<exists>d'. driver_acceptCompletion zero_sha H DEFAULT_DRIVER_POLICY (Some (completion_value wd_bash_completion)) 9 (wd_driver wd_runtime) =
    (Inr \<lparr>cr_operationId = oc_operationId wd_bash_completion, cr_eventId = completionEventId (oc_operationId wd_bash_completion), cr_duplicate = False\<rparr>, d')"
    by (rule wd_driver_accepts [OF wd_completions_valid(2), where p = wd_bash_job])
      (use wd_operations wd_new_events wd_lengths wd_outcome_size wd_jobs in \<open>simp_all add: wd_bash_completion_def wd_small\<close>)
  then show "\<exists>r d'. driver_acceptCompletion zero_sha H DEFAULT_DRIVER_POLICY (Some (completion_value wd_bash_completion)) 9 (wd_driver wd_runtime) = (Inr r, d')
    \<and> cr_operationId r = wd_bash_operation \<and> cr_eventId r = completionEventId wd_bash_operation"
    unfolding sel by fastforce
qed

lemma valid_receipt_reply:
  "validReceipt (reply_json page (Reply_ok (Completion_admitted r))) oid \<longleftrightarrow> cr_operationId r = oid \<and> cr_eventId r = lit ''runtime:operation:'' @ oid"
  by (auto simp: validReceipt_def reply_json_def value_json_def completion_receipt_json_def obj_def field_def)

lemma event_prefix: "completionEventId oid = lit ''runtime:operation:'' @ oid"
proof -
  have "lit ''runtime:operation:'' = RUNTIME_EVENT_ID_PREFIX @ lit ''operation:''" by code_simp
  then show ?thesis by (simp add: completionEventId_def)
qed

lemma wd_host: "se_minimal_bash wd_world sid = \<lparr>ho_driver = wd_driver wd_runtime, ho_runtime = Some wd_binding, ho_preparing = None\<rparr>"
  by (simp add: wd_world_def)

lemma wd_env [simp]: "dy_sha wd_deployment = zero_sha" "dy_policy wd_deployment = DEFAULT_DRIVER_POLICY"
  by (simp_all add: wd_deployment_def)

lemma wd_model_call:
  "\<exists>reply w'. session_call wd_deployment 9 MINIMAL_BASH_SESSIONS sid (accept_command wd_model_completion) wd_world = (Inr reply, w')
    \<and> validReceipt reply wd_model_operation"
proof -
  obtain r d' where acc: "driver_acceptCompletion zero_sha (minimalBashHarness (dy_new_URL wd_deployment) (dy_JSON_parse wd_deployment))
      DEFAULT_DRIVER_POLICY (Some (completion_value wd_model_completion)) 9 (wd_driver wd_runtime) = (Inr r, d')"
    and r: "cr_operationId r = wd_model_operation" "cr_eventId r = completionEventId wd_model_operation"
    using wd_accepts(1) by metis
  have "(case completion_value wd_model_completion of JObj r \<Rightarrow> field r ''provider'' | _ \<Rightarrow> None) = Some (str ''llm'')"
    by (simp add: completion_value_def wd_model_completion_def obj_def field_def str_def)
  with acc have "sessionRequest (minimal_bash_host zero_sha (dy_new_URL wd_deployment) (dy_JSON_parse wd_deployment) DEFAULT_DRIVER_POLICY (\<lambda>i. i = sid))
      (Some (accept_command wd_model_completion)) 9 (se_minimal_bash wd_world sid)
      = (Inr (Reply_ok (Completion_admitted r)), (se_minimal_bash wd_world sid)\<lparr>ho_driver := d'\<rparr>)"
    by (simp add: sessionRequest_def parse_accept_commands run_command_def minimal_bash_host_def on_driver_def wd_host act_defs catchA_def)
  with r show ?thesis by (simp add: session_call_def host_call_def act_defs valid_receipt_reply event_prefix)
qed

lemma wd_bash_call:
  "\<exists>reply w'. session_call wd_deployment 9 MINIMAL_BASH_SESSIONS sid (tool_command bash_worker wd_context wd_request wd_outcome) wd_world = (Inr reply, w')
    \<and> validReceipt reply wd_bash_operation"
proof -
  let ?x = "obj [(''gatewayUrl'', JStr (ct_gatewayUrl wd_context)), (''machineId'', JStr (ct_machineId wd_context)),
     (''runtimeGeneration'', JStr (ct_runtimeGeneration wd_context))]"
  have provider: "od_provider (tw_operation bash_worker) = lit ''tool-pi-bash''" by (simp add: bash_worker_def PI_BASH_OPERATION_def mk_operation_def)
  have cmd: "tool_command bash_worker wd_context wd_request wd_outcome = accept_tool_command ?x wd_bash_completion"
    by (simp add: tool_command_def accept_tool_command_def completion_value_def wd_bash_completion_def provider) (simp add: wd_context_def)
  obtain r d' where acc: "driver_acceptCompletion zero_sha (minimalBashHarness (dy_new_URL wd_deployment) (dy_JSON_parse wd_deployment))
      DEFAULT_DRIVER_POLICY (Some (completion_value wd_bash_completion)) 9 (wd_driver wd_runtime) = (Inr r, d')"
    and r: "cr_operationId r = wd_bash_operation" "cr_eventId r = completionEventId wd_bash_operation"
    using wd_accepts(2) by metis
  have "tool_provider (Some (JStr (lit ''tool-pi-bash'')))" by (simp add: tool_provider_def TOOL_PROVIDERS_def)
  then have "toolCompletion (Some (obj [(''execution'', ?x), (''completion'', completion_value wd_bash_completion)])) (Some wd_binding)
      = Inr (completion_value wd_bash_completion)"
    by (simp add: toolCompletion_def gw_object_def obj_def field_def completion_value_def wd_bash_completion_def)
      (simp add: wd_context_def wd_binding_def)
  with acc have "sessionRequest (minimal_bash_host zero_sha (dy_new_URL wd_deployment) (dy_JSON_parse wd_deployment) DEFAULT_DRIVER_POLICY (\<lambda>i. i = sid))
      (Some (accept_tool_command ?x wd_bash_completion)) 9 (se_minimal_bash wd_world sid)
      = (Inr (Reply_ok (Completion_admitted r)), (se_minimal_bash wd_world sid)\<lparr>ho_driver := d'\<rparr>)"
    by (simp add: sessionRequest_def parse_accept_commands run_command_def minimal_bash_host_def on_driver_def wd_host act_defs catchA_def)
  with r show ?thesis unfolding cmd by (simp add: session_call_def host_call_def act_defs valid_receipt_reply event_prefix)
qed

lemma wd_webhook_answered: "\<exists>w'. webhook wd_llm_env (session_call wd_deployment 9) 1000000 In_time wd_webhook wd_world = (Inr 204, w')"
proof -
  have c: "event_completion wd_webhook_event = wd_model_completion"
    by (simp add: event_completion_def wd_webhook_event_def wd_model_completion_def)
  have sel: "we_clientContext wd_webhook_event = \<lparr>cc_routeKey = MINIMAL_BASH_ROUTE, cc_sessionId = lit ''s1'', cc_operationId = wd_model_operation,
       cc_submissionId = wd_model_operation\<rparr>" by (simp add: wd_webhook_event_def)
  obtain reply w' where "session_call wd_deployment 9 MINIMAL_BASH_SESSIONS (lit ''s1'') (accept_command wd_model_completion) wd_world = (Inr reply, w')"
    "validReceipt reply wd_model_operation" using wd_model_call by blast
  then have "llm_deliver wd_llm_env (session_call wd_deployment 9) In_time wd_webhook_event wd_world = (Inr (), w')"
    by (simp add: llm_deliver_def event_completion_command c sel wd_namespace act_defs)
  then show ?thesis by (simp add: webhook_def wd_authenticated act_defs catchA_def)
qed

lemma wd_worker_namespace:
  "sessionNamespace (we_JSON_parse wd_worker_env) (we_bound wd_worker_env) (we_SESSION_ROUTES wd_worker_env) MINIMAL_BASH_ROUTE = Inr MINIMAL_BASH_SESSIONS"
  by code_simp

lemma wd_result_accepted:
  "\<exists>w'. acceptExecutionResult wd_worker_env bash_worker (session_call wd_deployment 9) In_time (Some wd_result) wd_world
    = (Inr (worker_receipt wd_completion_event), w')"
proof -
  have sel: "ct_routeKey wd_context = MINIMAL_BASH_ROUTE" "ct_sessionId wd_context = lit ''s1''" "ct_operationId wd_context = wd_bash_operation"
    "re_requestId (ev_envelope wd_completion_event) = wd_request" "tw_outcome bash_worker = bash_outcome"
    "we_sha wd_worker_env = zero_sha" "we_new_URL wd_worker_env = mb_demo_url"
    by (simp_all add: wd_context_def wd_completion_event_def bash_worker_def wd_worker_env_def)
  obtain reply w' where "session_call wd_deployment 9 MINIMAL_BASH_SESSIONS (lit ''s1'') (tool_command bash_worker wd_context wd_request wd_outcome) wd_world
      = (Inr reply, w')" "validReceipt reply wd_bash_operation" using wd_bash_call by blast
  then show ?thesis
    by (simp add: acceptExecutionResult_def sel wd_tool_completion wd_worker_namespace wd_bash_outcome act_defs)
qed

section \<open>A job that has failed when it is submitted\<close>

definition wd_submission :: json where
  "wd_submission = obj [(''destination'', obj [(''routeKey'', JStr MINIMAL_BASH_ROUTE), (''sessionId'', str ''s1'')]),
     (''submission'', obj [(''operationId'', str ''op-1''), (''submissionId'', str ''op-1''),
       (''request'', obj [(''provider'', str ''llm''), (''type'', str ''generate''), (''version'', str ''v1''),
         (''input'', obj [(''previousJobId'', JStr wd_job), (''messages'', JArr [])])])])]"

definition wd_submitted :: http_answer where
  "wd_submitted = Answer 200 (Chunks [[49]] True)"

definition wd_detail :: http_answer where
  "wd_detail = Answer 200 (Chunks [[50]] True)"

text \<open>The gateway's answers: to the submission, a job that has failed; to the query, its error.\<close>

definition wd_job_env :: "jstring \<Rightarrow> llm_env" where
  "wd_job_env message = wd_llm_env\<lparr>le_JSON_parse := (\<lambda>s. if s = lit ''routes'' then Inr wd_routes
     else if s = lit ''1'' then Inr (obj [(''id'', JStr wd_job), (''status'', str ''failed'')])
     else Inr (obj [(''id'', JStr wd_job), (''status'', str ''failed''), (''idempotencyKey'', JStr (gatewayKey zero_sha (lit ''op-1''))),
       (''clientContext'', obj [(''routeKey'', JStr MINIMAL_BASH_ROUTE), (''sessionId'', str ''s1''), (''operationId'', str ''op-1''),
         (''submissionId'', str ''op-1'')]), (''response'', JNull),
       (''error'', obj [(''code'', str ''rate_limited''), (''message'', JStr message)])]))\<rparr>"

definition wd_failure :: "jstring \<Rightarrow> operation_outcome" where
  "wd_failure message = Failed Execution \<lparr>of_code = lit ''rate_limited'', of_message = message, of_details = Some (job_details wd_job)\<rparr>"

lemma wd_submitted_failure:
  "llm_submit (wd_job_env (lit ''slow down'')) (Some wd_submission) wd_submitted wd_detail
    = Inr (Completed wd_job (wd_failure (lit ''slow down'')))"
  by code_simp

end
