(* ===== verification/WorkerProperties.thy ===== *)
theory WorkerProperties
  imports WorkerExample
begin

text \<open>
  What the workers and the session hosts promise each other: a delivery is acknowledged only when the session holds it, what
  a worker returns is what the session accepts, and a session works with one execution runtime only.
\<close>

text \<open>C36: The language-model worker answers a callback with 204 only when a configured secret has signed exactly the received
  timestamp, event ID and body, the timestamp is fresh, and the completion the body describes is durably in the inbox of the
  session it names; no later request to any session removes it. So a gateway that stops retrying at 204 never loses a result.\<close>

theorem webhook_acknowledged_when_durable:
  assumes "sessions_ok D w" and "webhook env (session_call D t) now deadline rq w = (Inr 204, w')"
  shows "\<exists>sent eventId signature b event ns. wr_timestamp rq = Some sent \<and> fresh_timestamp now sent
    \<and> eventId = (case wr_eventId rq of None \<Rightarrow> [] | Some s \<Rightarrow> s) \<and> wr_signature rq = Some signature
    \<and> readLimited (wr_body rq) (32 * 1024 * 1024) = Inr b \<and> signed_by env signature (signed_data sent eventId b)
    \<and> parse_event env eventId b = Inr event
    \<and> sessionNamespace (le_JSON_parse env) (le_bound env) (le_SESSION_ROUTES env) (cc_routeKey (we_clientContext event)) = Inr ns
    \<and> session_holds D w' ns (cc_sessionId (we_clientContext event)) (event_completion event)
    \<and> (\<forall>t' ns' sid' command r w''. session_call D t' ns' sid' command w' = (r, w'') \<longrightarrow>
        session_holds D w'' ns (cc_sessionId (we_clientContext event)) (event_completion event))"
proof -
  obtain event ns where ev: "authenticated_event env now rq = Inr event"
    and held: "sessionNamespace (le_JSON_parse env) (le_bound env) (le_SESSION_ROUTES env) (cc_routeKey (we_clientContext event)) = Inr ns"
      "session_holds D w' ns (cc_sessionId (we_clientContext event)) (event_completion event)"
    using sessions.acknowledged [OF assms] by blast
  have "sessions_ok D w'" using webhook_keeps [where P = "sessions_ok D", OF _ assms(1,2)] session_call_ok by blast
  with held(2) have "\<forall>t' ns' sid' command r w''. session_call D t' ns' sid' command w' = (r, w'') \<longrightarrow>
      session_holds D w'' ns (cc_sessionId (we_clientContext event)) (event_completion event)"
    using session_call_ok by blast
  with authenticated_event_signed [OF ev] held show ?thesis by blast
qed

theorem webhook_acknowledged_when_durable_witness:
  "\<exists>w'. webhook wd_llm_env (session_call wd_deployment 9) 1000000 In_time wd_webhook wd_world = (Inr 204, w')
    \<and> (\<exists>b event ns. parse_event wd_llm_env wd_job b = Inr event
        \<and> session_holds wd_deployment w' ns (cc_sessionId (we_clientContext event)) (event_completion event))"
proof -
  obtain w' where w': "webhook wd_llm_env (session_call wd_deployment 9) 1000000 In_time wd_webhook wd_world = (Inr 204, w')"
    using wd_webhook_answered by blast
  from webhook_acknowledged_when_durable [OF wd_world_ok w'] obtain eventId b event ns where
    "eventId = (case wr_eventId wd_webhook of None \<Rightarrow> [] | Some s \<Rightarrow> s)" "parse_event wd_llm_env eventId b = Inr event"
    "session_holds wd_deployment w' ns (cc_sessionId (we_clientContext event)) (event_completion event)" by blast
  moreover have "wr_eventId wd_webhook = Some wd_job" by (simp add: wd_webhook_def)
  ultimately show ?thesis using w' by auto
qed

text \<open>C37: The bash, write and edit workers return to the execution gateway only when the session the callback context names
  durably holds the completion of that operation, under the job ID the request carried; and what they return is a receipt the
  gateway's own check accepts for this delivery, so that exactly then the gateway acknowledges the result to the daemon.\<close>

theorem tool_result_durable_before_receipt:
  assumes "sessions_ok D w" and "acceptExecutionResult env tw (session_call D t) deadline value w = (Inr receipt, w')"
  shows "\<exists>event context outcome ns. tool_completion (we_sha env) (we_new_URL env) tw value = Inr (event, context)
    \<and> tw_outcome tw (we_sha env) event context = Inr outcome
    \<and> check_receipt event (Returned (Some receipt)) = Inr ()
    \<and> re_requestId (ev_envelope event) = tool_identity (we_sha env) tw (ct_submissionId context)
    \<and> sessionNamespace (we_JSON_parse env) (we_bound env) (we_SESSION_ROUTES env) (ct_routeKey context) = Inr ns
    \<and> session_holds D w' ns (ct_sessionId context) (context_completion tw context (re_requestId (ev_envelope event)) outcome)"
proof -
  obtain event ctx outcome ns where ev: "tool_completion (we_sha env) (we_new_URL env) tw value = Inr (event, ctx)"
    and rest: "tw_outcome tw (we_sha env) event ctx = Inr outcome" "receipt = worker_receipt event"
      "sessionNamespace (we_JSON_parse env) (we_bound env) (we_SESSION_ROUTES env) (ct_routeKey ctx) = Inr ns"
      "session_holds D w' ns (ct_sessionId ctx) (context_completion tw ctx (re_requestId (ev_envelope event)) outcome)"
    using sessions.tool_accepted [OF assms] by blast
  have "re_requestId (ev_envelope event) = tool_identity (we_sha env) tw (ct_submissionId ctx)"
    using ev by (auto simp: tool_completion_def Let_def split: if_splits)
  with ev rest worker_receipt_checked [of event] show ?thesis by blast
qed

theorem tool_result_durable_before_receipt_witness:
  "\<exists>receipt w'. acceptExecutionResult wd_worker_env bash_worker (session_call wd_deployment 9) In_time (Some wd_result) wd_world = (Inr receipt, w')
    \<and> (\<exists>event context outcome ns. check_receipt event (Returned (Some receipt)) = Inr ()
        \<and> session_holds wd_deployment w' ns (ct_sessionId context) (context_completion bash_worker context (re_requestId (ev_envelope event)) outcome))"
proof -
  obtain w' where w': "acceptExecutionResult wd_worker_env bash_worker (session_call wd_deployment 9) In_time (Some wd_result) wd_world
      = (Inr (worker_receipt wd_completion_event), w')"
    using wd_result_accepted by blast
  from tool_result_durable_before_receipt [OF wd_world_ok w'] w' show ?thesis by blast
qed

text \<open>C38: Once a session has pinned its execution runtime, no request, discovery, driver step or loss of the object changes it.
  Every later tool submission that passes the checks of \<open>submit\<close> is for the pinned machine, by the operation's own input and the
  session's configuration, and for the session and route the runtime was pinned for, and it carries the pinned gateway and
  generation. A tool completion is admitted only under exactly the pinned gateway, machine and generation and for one of the tool
  providers; a result of another runtime cannot enter the session.\<close>

theorem one_runtime_per_session:
  assumes "ho_runtime h = Some b" and "(host_step new_URL JSON_parse env)\<^sup>*\<^sup>* h h'"
  shows "ho_runtime h' = Some b
    \<and> (\<forall>destination submission config gatewayUrl machineId m.
        execution_check new_URL submission config = Inr (gatewayUrl, machineId)
        \<and> execution_call destination submission config gatewayUrl machineId (ho_runtime h') = Inr m \<longrightarrow>
        m = obj [(''destination'', destination_json destination), (''submission'', submission_json submission),
          (''execution'', obj [(''gatewayUrl'', JStr (rb_gatewayUrl b)), (''token'', ec_executionToken config),
            (''runtimeGeneration'', JStr (rb_runtimeGeneration b))])]
        \<and> (\<exists>input. or_input (ps_request submission) = JObj input \<and> field input ''machineId'' = Some (JStr (rb_machineId b)))
        \<and> ec_machineId config = JStr (rb_machineId b)
        \<and> sd_sessionId destination = sd_sessionId (rb_destination b) \<and> sd_routeKey destination = sd_routeKey (rb_destination b))
    \<and> (\<forall>x c now v h''. sessionRequest env (Some (accept_tool_command x c)) now h' = (Inr (Reply_ok v), h'') \<longrightarrow>
        (\<exists>r. x = JObj r \<and> field r ''gatewayUrl'' = Some (JStr (rb_gatewayUrl b)) \<and> field r ''machineId'' = Some (JStr (rb_machineId b))
          \<and> field r ''runtimeGeneration'' = Some (JStr (rb_runtimeGeneration b)) \<and> oc_provider c \<in> set TOOL_PROVIDERS))"
proof -
  have pin: "ho_runtime h' = Some b" using host_steps_pinned [OF assms(2,1)] .
  show ?thesis
    unfolding pin using execution_call_pinned [of new_URL _ _ _ _ _ b] tool_result_identity [OF _ pin] by (intro conjI allI impI) (blast | simp)+
qed

theorem one_runtime_per_session_witness:
  "\<exists>h'. (host_step mb_demo_url mb_demo_parse (minimal_bash_host zero_sha mb_demo_url mb_demo_parse DEFAULT_DRIVER_POLICY (\<lambda>i. True)))\<^sup>*\<^sup>*
      (se_minimal_bash wd_world (lit ''s1'')) h' \<and> ho_runtime h' = Some wd_binding"
proof -
  let ?env = "minimal_bash_host zero_sha mb_demo_url mb_demo_parse DEFAULT_DRIVER_POLICY (\<lambda>i. True)"
  obtain r h' where "sessionRequest ?env (Some (accept_command wd_model_completion)) 9 (se_minimal_bash wd_world (lit ''s1'')) = (r, h')"
    by fastforce
  then have step: "(host_step mb_demo_url mb_demo_parse ?env)\<^sup>*\<^sup>* (se_minimal_bash wd_world (lit ''s1'')) h'"
    using hs_request by blast
  have "ho_runtime (se_minimal_bash wd_world (lit ''s1'')) = Some wd_binding" by (simp add: wd_world_def)
  from one_runtime_per_session [OF this step] step show ?thesis by blast
qed

text \<open>C39: Whatever the gateway answers, a submission to the language-model worker that returns at all returns a result the
  session's driver accepts unchanged - job IDs and messages are not blank, outcomes are within the size limit and never a submission
  rejection - with one exception, exactly described: the job has failed and the gateway's error has a code or a message that is
  blank once cut to 200 and 1000 units. That result the session refuses.\<close>

theorem llm_submit_result_accepted:
  assumes "llm_submit env value ans detail = Inr r"
  shows "(parseProviderSubmitReply (Some (obj [(''result'', submit_result_json r)])) = Inr r
      \<longleftrightarrow> \<not> blank_answer (le_JSON_parse env) detail r)
    \<and> (blank_answer (le_JSON_parse env) detail r \<longleftrightarrow>
      (\<exists>jobId f. r = Completed jobId (Failed Execution f) \<and> (trim (of_code f) = [] \<or> trim (of_message f) = [])))"
proof -
  let ?reply = "parseProviderSubmitReply (Some (obj [(''result'', submit_result_json r)]))"
  have reply: "?reply = parseProviderSubmitResult (Some (submit_result_json r))" by (simp add: parseProviderSubmitReply_def obj_def field_def)
  have "?reply = Inr r" if "\<not> blank_answer (le_JSON_parse env) detail r"
    using llm_submit_valid [OF assms] that parse_submit_result_json reply by metis
  moreover have bad: "?reply \<noteq> Inr r" if "r = Completed jobId (Failed Execution f)" "trim (of_code f) = [] \<or> trim (of_message f) = []" for jobId f
    using parsed_result_valid [of "Some (submit_result_json r)" jobId Execution f] that reply by (auto simp: failure_valid_def)
  moreover have "\<exists>jobId f. r = Completed jobId (Failed Execution f) \<and> (trim (of_code f) = [] \<or> trim (of_message f) = [])"
    if "blank_answer (le_JSON_parse env) detail r"
    using that unfolding blank_answer_def blank_error_def by fastforce
  ultimately show ?thesis by blast
qed

theorem llm_submit_result_accepted_witness:
  "\<exists>r. llm_submit (wd_job_env (lit ''slow down'')) (Some wd_submission) wd_submitted wd_detail = Inr r
      \<and> parseProviderSubmitReply (Some (obj [(''result'', submit_result_json r)])) = Inr r"
proof -
  have r: "llm_submit (wd_job_env (lit ''slow down'')) (Some wd_submission) wd_submitted wd_detail
      = Inr (Completed wd_job (wd_failure (lit ''slow down'')))" by (rule wd_submitted_failure)
  have "\<not> (trim (lit ''rate_limited'') = [] \<or> trim (lit ''slow down'') = [])" by code_simp
  then have "\<not> (\<exists>jobId f. Completed wd_job (wd_failure (lit ''slow down'')) = Completed jobId (Failed Execution f)
      \<and> (trim (of_code f) = [] \<or> trim (of_message f) = []))" by (simp add: wd_failure_def)
  with llm_submit_result_accepted [OF r] r show ?thesis by blast
qed

end
