(* ===== verification/ApplyPatchWorker.thy ===== *)
theory ApplyPatchWorker
  imports ToolWorkers
begin

text \<open>
  \<open>apps/tools/tool-codex-apply-patch-workers\<close>: the worker that applies Codex patches, as a further instance of \<open>tool_worker\<close>. Its
  context.ts, gateway.ts and service.ts are those of the other workers; outcome.ts and result.ts are its own.
\<close>

section \<open>result.ts\<close>

definition CODEX_APPLY_PATCH_MAX_FILE_BYTES :: nat where
  "CODEX_APPLY_PATCH_MAX_FILE_BYTES = 5 * 1024 * 1024"

definition CODEX_APPLY_PATCH_MAX_TEXT_BYTES :: nat where
  "CODEX_APPLY_PATCH_MAX_TEXT_BYTES = 2 * 1024 * 1024"

definition CODEX_APPLY_PATCH_MAX_PARAMS_BYTES :: nat where
  "CODEX_APPLY_PATCH_MAX_PARAMS_BYTES = 4 * 1024 * 1024"

definition CODEX_APPLY_PATCH_MAX_SECTIONS :: nat where
  "CODEX_APPLY_PATCH_MAX_SECTIONS = 32"

definition CODEX_APPLY_PATCH_MAX_EDITS :: nat where
  "CODEX_APPLY_PATCH_MAX_EDITS = 256"

definition applyPatchError :: "jstring \<Rightarrow> jstring \<Rightarrow> jstring \<Rightarrow> jstring option \<Rightarrow> json" where
  "applyPatchError machineId code message requestId = obj [(''content'', JArr [obj [(''type'', str ''text''), (''text'', JStr message)]]),
     (''isError'', JBool True), (''details'', obj ((case requestId of None \<Rightarrow> [] | Some i \<Rightarrow> [(''requestId'', JStr i)])
       @ [(''machineId'', JStr machineId), (''error'', obj [(''code'', JStr code), (''message'', JStr message)])]))]"

definition patch_too_large :: "jstring \<Rightarrow> json" where
  "patch_too_large machineId = applyPatchError machineId (lit ''APPLY_PATCH_REQUEST_TOO_LARGE'')
     (lit ''Patch request is too big. Patch text must be at most 2 MiB and serialized patch parameters at most 4 MiB. No patch was submitted.'') None"

definition patch_path :: "json option \<Rightarrow> bool" where
  "patch_path v \<longleftrightarrow> (case v of Some (JStr s) \<Rightarrow> utf8Bytes s \<le> 4096 \<and> isAbsoluteMachinePath s | _ \<Rightarrow> False)"

definition filePair :: "json option \<Rightarrow> json option \<Rightarrow> bool" where
  "filePair digest bytes \<longleftrightarrow> (if digest = Some JNull then bytes = Some JNull
     else sha256_text digest \<and> bounded_integer bytes 0 (int CODEX_APPLY_PATCH_MAX_FILE_BYTES))"

datatype change_kind = Add | Update | Delete | Move

definition parse_kind :: "json option \<Rightarrow> change_kind option" where
  "parse_kind v = (if v = Some (str ''add'') then Some Add else if v = Some (str ''update'') then Some Update
     else if v = Some (str ''delete'') then Some Delete else if v = Some (str ''move'') then Some Move else None)"

record patch_change =
  pc_kind :: change_kind
  pc_path :: json
  pc_destination :: "json option"
  pc_json :: json

definition move_ok :: "fields \<Rightarrow> bool" where
  "move_ok r \<longleftrightarrow> patch_path (field r ''destination_path'') \<and> field r ''destination_path'' \<noteq> field r ''path''
     \<and> (field r ''destination_before_sha256'' = None \<and> field r ''destination_bytes_before'' = None
        \<or> filePair (field r ''destination_before_sha256'') (field r ''destination_bytes_before''))
     \<and> field r ''before_sha256'' \<noteq> Some JNull \<and> field r ''after_sha256'' \<noteq> Some JNull"

text \<open>\<open>v ?? null\<close>.\<close>

definition or_null :: "json option \<Rightarrow> json" where
  "or_null v = (case v of None \<Rightarrow> JNull | Some x \<Rightarrow> x)"

definition parse_change :: "json \<Rightarrow> patch_change res" where
  "parse_change value = (case value of
     JObj r \<Rightarrow> (case parse_kind (field r ''kind'') of
         None \<Rightarrow> Inl (JsError (lit ''Invalid filesystem patch change.''))
       | Some kind \<Rightarrow>
           if \<not> patch_path (field r ''path'') \<or> \<not> filePair (field r ''before_sha256'') (field r ''bytes_before'')
              \<or> \<not> filePair (field r ''after_sha256'') (field r ''bytes_after'')
              \<or> (field r ''first_changed_line'' \<noteq> Some JNull
                  \<and> \<not> bounded_integer (field r ''first_changed_line'') 1 (int CODEX_APPLY_PATCH_MAX_FILE_BYTES + 1))
           then Inl (JsError (lit ''Invalid filesystem patch change.''))
           else if kind = Move \<and> \<not> move_ok r then Inl (JsError (lit ''Invalid patch move.''))
           else if kind \<noteq> Move \<and> (\<not> absent (field r ''destination_path'') \<or> \<not> absent (field r ''destination_before_sha256'')
                \<or> \<not> absent (field r ''destination_bytes_before''))
           then Inl (JsError (lit ''Unexpected patch move metadata.''))
           else if kind = Add \<and> field r ''after_sha256'' = Some JNull
              \<or> kind = Update \<and> (field r ''before_sha256'' = Some JNull \<or> field r ''after_sha256'' = Some JNull)
              \<or> kind = Delete \<and> (field r ''before_sha256'' = Some JNull \<or> field r ''after_sha256'' \<noteq> Some JNull)
           then Inl (JsError (lit ''Patch change conflicts with file metadata.''))
           else Inr \<lparr>pc_kind = kind, pc_path = the (field r ''path''),
             pc_destination = (if kind = Move then field r ''destination_path'' else None),
             pc_json = obj ([(''kind'', the (field r ''kind'')), (''path'', the (field r ''path'')), (''beforeSha256'', the (field r ''before_sha256'')),
               (''afterSha256'', the (field r ''after_sha256'')), (''bytesBefore'', the (field r ''bytes_before'')), (''bytesAfter'', the (field r ''bytes_after''))]
               @ (if kind = Move then [(''destinationPath'', the (field r ''destination_path'')),
                   (''destinationBeforeSha256'', or_null (field r ''destination_before_sha256'')),
                   (''destinationBytesBefore'', or_null (field r ''destination_bytes_before''))] else [])
               @ (if field r ''first_changed_line'' = Some JNull then [] else [(''firstChangedLine'', the (field r ''first_changed_line''))]))\<rparr>)
   | _ \<Rightarrow> Inl (JsError (lit ''Expected an object.'')))"

text \<open>\<open>summary\<close>: the line of a change, with control characters escaped, and the lines up to the limit.\<close>

definition change_line :: "patch_change \<Rightarrow> jstring" where
  "change_line c = (let name = (case (case pc_destination c of Some d \<Rightarrow> d | None \<Rightarrow> pc_path c) of JStr s \<Rightarrow> s | _ \<Rightarrow> []) in
     (case pc_kind c of Add \<Rightarrow> lit ''A '' | Delete \<Rightarrow> lit ''D '' | _ \<Rightarrow> lit ''M '')
     @ concat (map (\<lambda>u. if u < 0x20 \<or> u = 0x7F then escape_unit u else [u]) name) @ [0x0A])"

fun summary_lines :: "jstring \<Rightarrow> jstring list \<Rightarrow> jstring \<times> bool" where
  "summary_lines text' [] = (text', False)"
| "summary_lines text' (l # ls) = (if utf8Bytes (text' @ l) > 16 * 1024
     then (text' @ lit ''[File summary truncated; see structured changes.]'' @ [0x0A], True) else summary_lines (text' @ l) ls)"

definition patch_summary :: "patch_change list \<Rightarrow> bool \<Rightarrow> jstring \<times> bool" where
  "patch_summary changes success = summary_lines
     ((if success then lit ''Success. Updated the following files:'' else lit ''Known file changes before failure:'') @ [0x0A])
     (map change_line (if success then List.filter (\<lambda>c. pc_kind c = Add) changes @ List.filter (\<lambda>c. pc_kind c = Update \<or> pc_kind c = Move) changes
       @ List.filter (\<lambda>c. pc_kind c = Delete) changes else changes))"

definition codex_error :: "json option \<Rightarrow> (jstring \<times> json) res" where
  "codex_error value = (let refuse = Inl (JsError (lit ''Invalid filesystem patch error.'')) in case value of
     Some (JObj e) \<Rightarrow> (case (field e ''code'', field e ''message'') of
         (Some (JStr code), Some (JStr message)) \<Rightarrow>
           if \<not> patch_error_code code \<or> message = []
              \<or> (field e ''section'' \<noteq> Some JNull \<and> \<not> bounded_integer (field e ''section'') 0 (int CODEX_APPLY_PATCH_MAX_SECTIONS - 1))
              \<or> (field e ''edit'' \<noteq> Some JNull \<and> \<not> bounded_integer (field e ''edit'') 0 (int CODEX_APPLY_PATCH_MAX_EDITS - 1))
           then refuse
           else Inr (take 2000 message, obj ([(''code'', JStr code), (''message'', JStr (take 2000 message))]
             @ (if field e ''section'' = Some JNull then [] else [(''section'', the (field e ''section''))])
             @ (if field e ''edit'' = Some JNull then [] else [(''edit'', the (field e ''edit''))])))
       | _ \<Rightarrow> refuse)
   | _ \<Rightarrow> Inl (JsError (lit ''Expected an object.'')))"

definition patch_text :: "patch_status \<Rightarrow> jstring \<Rightarrow> patch_change list \<Rightarrow> jstring \<Rightarrow> jstring" where
  "patch_text status report changes message = (case status of
     Applied \<Rightarrow> report
   | Rejected_patch \<Rightarrow> message
   | Partial \<Rightarrow> lit ''The patch did not finish and files may have changed. Inspect the affected files before attempting another patch. '' @ message @ [0x0A]
       @ (if changes = [] then lit ''No committed file changes could be confirmed.'' @ [0x0A] else report))"

definition codex_receipt :: "(jstring \<Rightarrow> jstring) \<Rightarrow> json \<Rightarrow> jstring tool_context \<Rightarrow> jstring \<Rightarrow> json res" where
  "codex_receipt sha value context requestId = (case value of
     JObj r \<Rightarrow>
       (let mutation = lit ''codex-apply-patch-v1:'' @ sha (ct_submissionId context) in
        case (parse_patch_status (field r ''status''), field r ''changes_exact'', field r ''changes'', field r ''diff'', field r ''diff_truncated'') of
          (Some status, Some (JBool exact), Some (JArr raw), Some (JStr diff), Some (JBool wasCut)) \<Rightarrow>
            if field r ''mutation_id'' \<noteq> Some (JStr mutation) \<or> length raw > CODEX_APPLY_PATCH_MAX_SECTIONS \<or> utf8Bytes diff > 64 * 1024
            then Inl (JsError (lit ''Filesystem patch receipt conflicts with submission.''))
            else
              bindR (mapR parse_change raw) (\<lambda>changes.
              if status = Applied \<and> (\<not> exact \<or> changes = [] \<or> field r ''error'' \<noteq> Some JNull)
                 \<or> status = Rejected_patch \<and> (\<not> exact \<or> changes \<noteq> [] \<or> diff \<noteq> [] \<or> wasCut) \<or> status = Partial \<and> exact \<and> changes = []
              then Inl (JsError (lit ''Inconsistent filesystem patch status.''))
              else
                bindR (if status = Applied then Inr None else map_sum id Some (codex_error (field r ''error''))) (\<lambda>error.
                let report = patch_summary changes (status = Applied);
                    message = (case error of Some (m, e) \<Rightarrow> m | None \<Rightarrow> []) in
                Inr (obj [(''content'', JArr [obj [(''type'', str ''text''), (''text'', JStr (patch_text status (fst report) changes message))]]),
                  (''isError'', JBool (status \<noteq> Applied)),
                  (''details'', obj ([(''requestId'', JStr requestId), (''machineId'', JStr (ct_machineId context)), (''mutationId'', JStr mutation),
                    (''status'', the (field r ''status'')), (''changesExact'', JBool exact), (''changes'', JArr (map pc_json changes)),
                    (''diff'', JStr diff), (''diffTruncated'', JBool wasCut), (''summaryTruncated'', JBool (snd report))]
                    @ (case error of None \<Rightarrow> [] | Some (m, e) \<Rightarrow> [(''error'', e)])))])))
        | _ \<Rightarrow> Inl (JsError (lit ''Filesystem patch receipt conflicts with submission.'')))
   | _ \<Rightarrow> Inl (JsError (lit ''Expected an object.'')))"

section \<open>outcome.ts\<close>

definition PATCH_ERRORS :: "jstring list" where
  "PATCH_ERRORS = map lit [''invalid_argument'', ''resource_limit'']"

definition codex_outcome :: "(jstring \<Rightarrow> jstring) \<Rightarrow> completion_event \<Rightarrow> jstring tool_context \<Rightarrow> operation_outcome res" where
  "codex_outcome sha event context =
     (let requestId = re_requestId (ev_envelope event) in case ev_outcome event of
       NativeError code message uncertain \<Rightarrow>
         if \<not> uncertain \<and> code \<in> set PATCH_ERRORS
         then completed_result (applyPatchError (ct_machineId context) code (take 2000 message) (Some requestId))
         else Inr (native_failure ''APPLY_PATCH_OUTCOME_UNKNOWN''
           ''The patch outcome is unknown and files may have changed. Inspect the affected files before attempting another patch; this request will not be automatically rerun.''
           code message uncertain requestId)
     | NativeOk result \<Rightarrow> bindR (codex_receipt sha result context requestId) completed_result)"

section \<open>The worker\<close>

definition codex_patchParams :: "placement \<Rightarrow> jstring \<Rightarrow> json" where
  "codex_patchParams place patch = obj [(''cwd'', JStr (pl_cwd place)), (''patch'', obj [(''format'', str ''codex''), (''text'', JStr patch)])]"

text \<open>The part of the callback context that is the tool's own is the digest of the patch.\<close>

definition patch_context_input :: "fields \<Rightarrow> json option" where
  "patch_context_input r = (case (field r ''machineId'', field r ''cwd'') of
     (Some m, Some c) \<Rightarrow> Some (obj [(''machineId'', m), (''cwd'', c), (''patch'', JStr [])]) | _ \<Rightarrow> None)"

definition patch_worker :: "(jstring, jstring) tool_worker" where
  "patch_worker = \<lparr>tw_operation = CODEX_APPLY_PATCH_OPERATION, tw_receiver = ''tool-codex-apply-patch-v1'', tw_prefix = ''codex-apply-patch-v1:'',
     tw_name = ''apply_patch'', tw_noun = ''patch'', tw_title = ''Patch'', tw_code = ''APPLY_PATCH'', tw_parseInput = parseApplyPatchInput,
     tw_keys = [''patchSha256''], tw_context_input = patch_context_input,
     tw_extra = (\<lambda>r input. gw_digest (field r ''patchSha256'')), tw_extra_fields = (\<lambda>sha input. [(''patchSha256'', JStr (sha input))]),
     tw_local = (\<lambda>place input. if utf8Bytes input > CODEX_APPLY_PATCH_MAX_TEXT_BYTES
         \<or> json_bytes (codex_patchParams place input) > CODEX_APPLY_PATCH_MAX_PARAMS_BYTES then Some (patch_too_large (pl_machineId place)) else None),
     tw_request = (\<lambda>place input. (''filesystem.patch'', codex_patchParams place input)), tw_outcome = codex_outcome\<rparr>"

definition parseApplyPatchContext :: "url_parser \<Rightarrow> json option \<Rightarrow> jstring tool_context res" where
  "parseApplyPatchContext new_URL = parse_context new_URL patch_worker"

definition applyPatchIdentity :: "(jstring \<Rightarrow> jstring) \<Rightarrow> jstring \<Rightarrow> jstring" where
  "applyPatchIdentity sha = tool_identity sha patch_worker"

definition parseApplyPatchCompletion :: "(jstring \<Rightarrow> jstring) \<Rightarrow> url_parser \<Rightarrow> json option \<Rightarrow> (completion_event \<times> jstring tool_context) res" where
  "parseApplyPatchCompletion sha new_URL = tool_completion sha new_URL patch_worker"

definition patch_gateway_submit :: "worker_env \<Rightarrow> tool_execution_submission \<Rightarrow> placement \<Rightarrow> jstring \<Rightarrow> jstring \<Rightarrow> http_answer \<Rightarrow> unit res" where
  "patch_gateway_submit env = worker_dispatch env patch_worker"

definition patch_submit :: "worker_env \<Rightarrow> json option \<Rightarrow> http_answer \<Rightarrow> submit_result res" where
  "patch_submit env = worker_submit env patch_worker"

definition patch_acceptExecutionResult :: "worker_env \<Rightarrow> 'w session_call \<Rightarrow> deadline \<Rightarrow> json option \<Rightarrow> ('w, json) act" where
  "patch_acceptExecutionResult env = acceptExecutionResult env patch_worker"

text \<open>The summary stays within its limit but for the one line that says it was cut.\<close>

lemma summary_lines_bound:
  assumes "utf8Bytes t \<le> 16 * 1024" and "summary_lines t ls = (r, cut')"
  shows "(\<not> cut' \<longrightarrow> utf8Bytes r \<le> 16 * 1024 \<and> r = t @ concat ls) \<and> (cut' \<longrightarrow> (\<exists>s. utf8Bytes s \<le> 16 * 1024 \<and>
    r = s @ lit ''[File summary truncated; see structured changes.]'' @ [0x0A]))"
  using assms
proof (induction ls arbitrary: t)
  case (Cons l ls)
  show ?case
  proof (cases "utf8Bytes (t @ l) > 16 * 1024")
    case False
    then have "summary_lines (t @ l) ls = (r, cut')" "utf8Bytes (t @ l) \<le> 16 * 1024" using Cons.prems by simp_all
    from Cons.IH [OF this(2,1)] show ?thesis by auto
  qed (use Cons.prems in auto)
qed auto

end
