(* ===== verification/ReadWorker.thy ===== *)
theory ReadWorker
  imports ToolWorkers
begin

text \<open>
  \<open>apps/tools/tool-pi-read-workers\<close>: the worker that reads files, as a further instance of \<open>tool_worker\<close>. Text is cut at whole lines;
  an image is stored with Cloudflare Images and returned by its URL.
  \<^item> What the image service answers to the query, the upload and the second query is an argument. The BMP decoder and the PNG encoder
    are third-party code and parameters, as is SHA-256 on bytes.
\<close>

section \<open>result.ts\<close>

definition PI_READ_MAX_FILE_BYTES :: nat where
  "PI_READ_MAX_FILE_BYTES = 5 * 1024 * 1024"

definition PI_READ_MAX_LINES :: nat where
  "PI_READ_MAX_LINES = 2000"

definition PI_READ_MAX_BYTES :: nat where
  "PI_READ_MAX_BYTES = 50 * 1024"

record read_extra =
  rx_path :: jstring
  rx_offset :: "int option"
  rx_limit :: "int option"

definition readError :: "jstring \<Rightarrow> read_extra tool_context \<Rightarrow> jstring \<Rightarrow> jstring \<Rightarrow> json" where
  "readError requestId context code message = file_error (ct_machineId context) (rx_path (ct_extra context)) code message (Some requestId)"

definition read_too_large :: "jstring \<Rightarrow> read_extra tool_context \<Rightarrow> json" where
  "read_too_large requestId context = readError requestId context (lit ''READ_FILE_TOO_LARGE'')
     (lit ''File is too big to read. The maximum file size is 5 MiB (5,242,880 bytes), including when offset or limit is supplied.'')"

record read_file =
  rf_bytes :: "byte list"
  rf_path :: jstring
  rf_sha256 :: jstring
  rf_modifiedAt :: json
  rf_isSymlink :: bool

text \<open>\<open>Buffer.from(s, "base64")\<close> of padded base64. On other texts the result does not matter: re-encoding it gives another text, which is refused.\<close>

definition base64_digit :: "unit16 \<Rightarrow> nat" where
  "base64_digit u = (let n = unat u in if 65 \<le> n \<and> n \<le> 90 then n - 65 else if 97 \<le> n \<and> n \<le> 122 then n - 71
     else if 48 \<le> n \<and> n \<le> 57 then n + 4 else if n = 43 then 62 else 63)"

fun buffer_base64 :: "jstring \<Rightarrow> byte list" where
  "buffer_base64 (a # b # c # d # s) = (let w = base64_digit a; x = base64_digit b; y = base64_digit c; z = base64_digit d in
     if d \<noteq> 0x3D then [w * 4 + x div 16, x mod 16 * 16 + y div 4, y mod 4 * 64 + z] @ buffer_base64 s
     else if c \<noteq> 0x3D then [w * 4 + x div 16, x mod 16 * 16 + y div 4] else [w * 4 + x div 16])"
| "buffer_base64 s = []"

definition safe_count :: "json option \<Rightarrow> nat option" where
  "safe_count v = (case v of Some (JNum x) \<Rightarrow> (case safe_integer x of Some i \<Rightarrow> if i < 0 then None else Some (nat i) | None \<Rightarrow> None) | _ \<Rightarrow> None)"

definition modified_ok :: "json option \<Rightarrow> bool" where
  "modified_ok v \<longleftrightarrow> v = Some JNull \<or> (case v of Some (JNum x) \<Rightarrow> safe_integer x \<noteq> None | _ \<Rightarrow> False)"

text \<open>\<open>decodeFile\<close>: no file means that it is too large.\<close>

definition decodeFile :: "(byte list \<Rightarrow> jstring) \<Rightarrow> json \<Rightarrow> read_file option res" where
  "decodeFile sha_bytes value = (let bad_object = Inl (JsError (lit ''Expected an object.'')); malformed = Inl (JsError (lit ''Malformed filesystem read result.'')) in
     case value of
       JObj r \<Rightarrow> (case field r ''file'' of
         Some (JObj m) \<Rightarrow> (case (field m ''path'', field m ''sha256'', field r ''data_base64'', field m ''is_symlink'', safe_count (field m ''size_bytes'')) of
           (Some (JStr path), Some (JStr h), Some (JStr data), Some (JBool symlink), Some used) \<Rightarrow>
             if field r ''type'' \<noteq> Some (str ''bytes'') \<or> length path > 16384 \<or> \<not> isAbsoluteMachinePath path \<or> \<not> sha256_text (Some (JStr h))
                \<or> \<not> modified_ok (field m ''modified_at'')
             then malformed
             else if length data > (PI_READ_MAX_FILE_BYTES + 2) div 3 * 4 \<or> used > PI_READ_MAX_FILE_BYTES then Inr None
             else
               let bytes = buffer_base64 data in
               if base64_padded bytes \<noteq> data then Inl (JsError (lit ''Invalid padded base64 file bytes.''))
               else if length bytes > PI_READ_MAX_FILE_BYTES then Inr None
               else if sha_bytes bytes \<noteq> h \<or> length bytes \<noteq> used then Inl (JsError (lit ''File digest or size does not match returned bytes.''))
               else Inr (Some \<lparr>rf_bytes = bytes, rf_path = path, rf_sha256 = h, rf_modifiedAt = the (field m ''modified_at''), rf_isSymlink = symlink\<rparr>)
         | _ \<Rightarrow> malformed)
       | _ \<Rightarrow> bad_object)
     | _ \<Rightarrow> bad_object)"

definition fileDetails :: "read_file \<Rightarrow> jstring \<Rightarrow> read_extra tool_context \<Rightarrow> (string \<times> json) list" where
  "fileDetails file requestId context = [(''requestId'', JStr requestId), (''machineId'', JStr (ct_machineId context)), (''path'', JStr (rf_path file)),
     (''file'', obj [(''sizeBytes'', nat_json (length (rf_bytes file))), (''sha256'', JStr (rf_sha256 file)), (''modifiedAt'', rf_modifiedAt file),
       (''isSymlink'', JBool (rf_isSymlink file))])]"

definition formatSize :: "nat \<Rightarrow> jstring" where
  "formatSize n = (if n < 1024 then nat_text n @ lit ''B'' else if n < 1024 * 1024 then kib_text n @ lit ''KB''
     else (let k = (10 * n + 524288) div 1048576 in nat_text (k div 10) @ lit ''.'' @ nat_text (k mod 10) @ lit ''MB''))"

record head_cut =
  hc_content :: jstring
  hc_truncated :: bool
  hc_truncatedBy :: "truncated_by option"
  hc_totalLines :: nat
  hc_totalBytes :: nat
  hc_outputLines :: nat
  hc_outputBytes :: nat
  hc_firstLineExceedsLimit :: bool

text \<open>The loop of \<open>truncateHead\<close>: the lines kept, their bytes, and whether the byte limit ended it.\<close>

fun keep_head :: "nat \<Rightarrow> nat \<Rightarrow> jstring list \<Rightarrow> jstring list \<times> nat \<times> bool" where
  "keep_head i used [] = ([], used, False)"
| "keep_head i used (l # ls) = (if i \<ge> PI_READ_MAX_LINES then ([], used, False)
     else
       let n = utf8Bytes l + (if i > 0 then 1 else 0) in
       if used + n > PI_READ_MAX_BYTES then ([], used, True)
       else case keep_head (i + 1) (used + n) ls of (kept, full, by_bytes) \<Rightarrow> (l # kept, full, by_bytes))"

definition truncateHead :: "jstring \<Rightarrow> head_cut" where
  "truncateHead content =
     (let totalBytes = utf8Bytes content;
          split = (if content = [] then [] else split_on 0x0A content);
          lines = (if content \<noteq> [] \<and> last content = 0x0A then butlast split else split);
          base = \<lparr>hc_content = content, hc_truncated = False, hc_truncatedBy = None, hc_totalLines = length lines, hc_totalBytes = totalBytes,
            hc_outputLines = length lines, hc_outputBytes = totalBytes, hc_firstLineExceedsLimit = False\<rparr> in
      if length lines \<le> PI_READ_MAX_LINES \<and> totalBytes \<le> PI_READ_MAX_BYTES then base
      else if utf8Bytes (hd lines) > PI_READ_MAX_BYTES
      then base\<lparr>hc_content := [], hc_truncated := True, hc_truncatedBy := Some By_bytes, hc_outputLines := 0, hc_outputBytes := 0,
        hc_firstLineExceedsLimit := True\<rparr>
      else case keep_head 0 0 lines of (kept, used, by_bytes) \<Rightarrow>
        base\<lparr>hc_content := join_on 0x0A kept, hc_truncated := True, hc_truncatedBy := Some (if by_bytes then By_bytes else By_lines),
          hc_outputLines := length kept, hc_outputBytes := used\<rparr>)"

definition head_cut_json :: "head_cut \<Rightarrow> json" where
  "head_cut_json t = obj [(''totalLines'', nat_json (hc_totalLines t)), (''totalBytes'', nat_json (hc_totalBytes t)), (''lastLinePartial'', JBool False),
     (''maxLines'', nat_json PI_READ_MAX_LINES), (''maxBytes'', nat_json PI_READ_MAX_BYTES), (''content'', JStr (hc_content t)),
     (''truncated'', JBool (hc_truncated t)),
     (''truncatedBy'', (case hc_truncatedBy t of None \<Rightarrow> JNull | Some By_lines \<Rightarrow> str ''lines'' | Some By_bytes \<Rightarrow> str ''bytes'')),
     (''outputLines'', nat_json (hc_outputLines t)), (''outputBytes'', nat_json (hc_outputBytes t)),
     (''firstLineExceedsLimit'', JBool (hc_firstLineExceedsLimit t))]"

definition text_result :: "jstring \<Rightarrow> (string \<times> json) list \<Rightarrow> json" where
  "text_result said details = obj [(''content'', JArr [obj [(''type'', str ''text''), (''text'', JStr said)]]), (''isError'', JBool False), (''details'', obj details)]"

definition formatText :: "read_file \<Rightarrow> jstring \<Rightarrow> read_extra tool_context \<Rightarrow> json" where
  "formatText file requestId context =
     (let x = ct_extra context; allLines = split_on 0x0A (buffer_utf8 (rf_bytes file)); lineCount = length allLines;
          from = nat ((case rx_offset x of None \<Rightarrow> 1 | Some n \<Rightarrow> n) - 1) in
      if from \<ge> lineCount
      then readError requestId context (lit ''READ_OFFSET_OUT_OF_BOUNDS'') (lit ''Offset '' @ (case rx_offset x of None \<Rightarrow> lit ''null'' | Some n \<Rightarrow> int_text n)
        @ lit '' is beyond end of file ('' @ nat_text lineCount @ lit '' lines total)'')
      else
        let count = min (case rx_limit x of None \<Rightarrow> lineCount | Some n \<Rightarrow> nat n) (lineCount - from);
            t = truncateHead (join_on 0x0A (take count (drop from allLines)));
            details = fileDetails file requestId context; noted = details @ [(''truncation'', head_cut_json t)] in
        if hc_firstLineExceedsLimit t
        then text_result (lit ''[Line '' @ nat_text (from + 1) @ lit '' is '' @ formatSize (utf8Bytes (allLines ! from)) @ lit '', exceeds ''
          @ formatSize PI_READ_MAX_BYTES @ lit '' limit. Use bash to read a bounded portion of this line.]'') noted
        else if hc_truncated t
        then
          let till = from + hc_outputLines t in
          text_result (hc_content t @ [0x0A, 0x0A] @ lit ''[Showing lines '' @ nat_text (from + 1) @ lit ''-'' @ nat_text till @ lit '' of '' @ nat_text lineCount
            @ (if hc_truncatedBy t = Some By_bytes then lit '' ('' @ formatSize PI_READ_MAX_BYTES @ lit '' limit)'' else [])
            @ lit ''. Use offset='' @ nat_text (till + 1) @ lit '' to continue.]'') noted
        else if rx_limit x \<noteq> None \<and> from + count < lineCount
        then text_result (hc_content t @ [0x0A, 0x0A] @ lit ''['' @ nat_text (lineCount - from - count) @ lit '' more lines in file. Use offset=''
          @ nat_text (from + count + 1) @ lit '' to continue.]'') details
        else text_result (hc_content t) details)"

section \<open>images.ts\<close>

datatype image_mime = Jpeg | Png | Gif | Webp | Bmp

definition mime_text :: "image_mime \<Rightarrow> jstring" where
  "mime_text m = (case m of Jpeg \<Rightarrow> lit ''image/jpeg'' | Png \<Rightarrow> lit ''image/png'' | Gif \<Rightarrow> lit ''image/gif'' | Webp \<Rightarrow> lit ''image/webp'' | Bmp \<Rightarrow> lit ''image/bmp'')"

text \<open>\<open>b.toString("ascii", from, to)\<close> drops the high bits.\<close>

definition ascii_slice :: "byte list \<Rightarrow> nat \<Rightarrow> nat \<Rightarrow> jstring" where
  "ascii_slice b from upto' = map (\<lambda>x. of_nat (x mod 128)) (take (upto' - from) (drop from b))"

definition uint_be :: "byte list \<Rightarrow> nat \<Rightarrow> nat" where
  "uint_be b i = fold (\<lambda>x acc. acc * 256 + x) (take 4 (drop i b)) 0"

definition uint_le :: "byte list \<Rightarrow> nat \<Rightarrow> nat \<Rightarrow> nat" where
  "uint_le b i n = foldr (\<lambda>x acc. acc * 256 + x) (take n (drop i b)) 0"

function animated_png :: "byte list \<Rightarrow> nat \<Rightarrow> nat \<Rightarrow> bool" where
  "animated_png b maximum pos = (if pos + 8 > maximum then False
     else if ascii_slice b (pos + 4) (pos + 8) = lit ''acTL'' then True
     else if ascii_slice b (pos + 4) (pos + 8) = lit ''IDAT'' then False
     else let nextpos = pos + uint_be b pos + 12 in if nextpos > maximum then False else animated_png b maximum nextpos)"
  by pat_completeness auto
termination by (relation "measure (\<lambda>(b, maximum, pos). maximum - pos)") auto

definition detectImageMimeType :: "byte list \<Rightarrow> image_mime option" where
  "detectImageMimeType b =
     (if length b \<ge> 4 \<and> b ! 0 = 0xFF \<and> b ! 1 = 0xD8 \<and> b ! 2 = 0xFF \<and> b ! 3 \<noteq> 0xF7 then Some Jpeg
      else if length b \<ge> 16 \<and> take 8 b = [137, 80, 78, 71, 13, 10, 26, 10] \<and> uint_be b 8 = 13 \<and> ascii_slice b 12 16 = lit ''IHDR''
      then (if animated_png b (min (length b) 4100) 8 then None else Some Png)
      else if ascii_slice b 0 3 = lit ''GIF'' then Some Gif
      else if length b \<ge> 12 \<and> ascii_slice b 0 4 = lit ''RIFF'' \<and> ascii_slice b 8 12 = lit ''WEBP'' then Some Webp
      else if length b \<ge> 26 \<and> ascii_slice b 0 2 = lit ''BM'' then Some Bmp else None)"

record bitmap =
  bi_width :: nat
  bi_height :: nat
  bi_data :: "byte list"

definition bmp_height :: "byte list \<Rightarrow> nat" where
  "bmp_height b = (let n = uint_le b 22 4 in if n < 2 ^ 31 then n else 2 ^ 32 - n)"

definition bmp_header_ok :: "byte list \<Rightarrow> bool" where
  "bmp_header_ok b \<longleftrightarrow> length b \<ge> 54
     \<and> (let header = uint_le b 14 4; width = uint_le b 18 4; bits = uint_le b 28 2; colors = uint_le b 46 4; offset = uint_le b 10 4 in
        header \<in> {40, 52, 56, 108, 124} \<and> length b \<ge> 14 + header \<and> uint_le b 26 2 = 1 \<and> width \<noteq> 0 \<and> bmp_height b \<noteq> 0
        \<and> width * bmp_height b \<le> 4000000 \<and> bits \<in> {1, 4, 8, 16, 24, 32} \<and> colors \<le> (if bits \<le> 8 then 2 ^ bits else 256)
        \<and> offset \<ge> 14 + header \<and> offset < length b)"

text \<open>\<open>hasAlpha\<close>; reading past the end is an error.\<close>

definition bmp_alpha :: "byte list \<Rightarrow> bool option" where
  "bmp_alpha b = (let header = uint_le b 14 4; bits = uint_le b 28 2 in
     if (bits = 16 \<or> bits = 32) \<and> (header \<ge> 56 \<or> uint_le b 30 4 = 6)
     then (if length b < 70 then None else Some (uint_le b 66 4 \<noteq> 0)) else Some False)"

fun rgba_pixels :: "bool \<Rightarrow> byte list \<Rightarrow> byte list" where
  "rgba_pixels hasAlpha (alpha # blue # green # red # rest) = red # green # blue # (if hasAlpha then alpha else 255) # rgba_pixels hasAlpha rest"
| "rgba_pixels hasAlpha rest = rest"

text \<open>The image service: its configuration, the third-party codecs, and what it answers.\<close>

record image_env =
  ie_account :: "jstring option"
  ie_token :: "jstring option"
  ie_variant :: "jstring option"
  ie_new_URL :: url_parser
  ie_JSON_parse :: "jstring \<Rightarrow> json res"
  ie_sha_bytes :: "byte list \<Rightarrow> jstring"
  ie_decodeBmp :: "byte list \<Rightarrow> bitmap option"
  ie_encodePng :: "bitmap \<Rightarrow> byte list option"
  ie_query :: http_answer
  ie_upload :: http_answer
  ie_second_query :: http_answer

definition bmpToPng :: "image_env \<Rightarrow> byte list \<Rightarrow> byte list option" where
  "bmpToPng env b = (if \<not> bmp_header_ok b then None
     else case (ie_decodeBmp env b, bmp_alpha b) of
       (Some decoded, Some hasAlpha) \<Rightarrow>
         (case ie_encodePng env (decoded\<lparr>bi_data := rgba_pixels hasAlpha (bi_data decoded)\<rparr>) of
            Some png \<Rightarrow> if length png > 10 * 1024 * 1024 then None else Some png
          | None \<Rightarrow> None)
     | _ \<Rightarrow> None)"

definition images_configured :: "image_env \<Rightarrow> jstring res" where
  "images_configured env =
     (let refuse = Inl (JsError (lit ''Cloudflare Images account, API token and variant must be configured for image reads.'')) in
      case (ie_account env, ie_token env, ie_variant env) of
        (Some account, Some token, Some variant) \<Rightarrow>
          if length account \<noteq> 32 \<or> \<not> list_all is_lower_hex account \<or> trim token = [] \<or> variant = [] \<or> length variant > 99
             \<or> \<not> list_all (\<lambda>u. is_alnum u \<or> u = 0x5F \<or> u = 0x2D) variant
          then refuse else Inr variant
      | _ \<Rightarrow> refuse)"

definition images_request :: "image_env \<Rightarrow> http_answer \<Rightarrow> (int \<times> fields) res" where
  "images_request env ans = (case ans of
     No_answer \<Rightarrow> Inl (JsError (lit ''fetch failed''))
   | Answer status b \<Rightarrow> (case readLimited b (64 * 1024) of
       Inl e \<Rightarrow> Inl (JsError (lit ''Gateway response exceeds transfer limit.''))
     | Inr s \<Rightarrow> bindR (ie_JSON_parse env s) (\<lambda>v. case v of
         JObj r \<Rightarrow> (case (field r ''success'', field r ''errors'') of
             (Some (JBool b), Some (JArr es)) \<Rightarrow> Inr (status, r)
           | _ \<Rightarrow> Inl (JsError (lit ''Malformed Cloudflare Images response.'')))
       | _ \<Rightarrow> Inl (JsError (lit ''Expected an object.'')))))"

definition delivery_url :: "jstring \<Rightarrow> jstring \<Rightarrow> url_parts \<Rightarrow> bool" where
  "delivery_url id' variant url \<longleftrightarrow> (let parts = split_on 0x2F (up_pathname url) in
     up_origin url = lit ''https://imagedelivery.net'' \<and> up_username url = [] \<and> up_password url = [] \<and> up_search url = [] \<and> up_hash url = []
     \<and> length parts = 4 \<and> parts ! 1 \<noteq> [] \<and> parts ! 2 = id' \<and> parts ! 3 = variant)"

fun find_variant :: "url_parser \<Rightarrow> jstring \<Rightarrow> jstring \<Rightarrow> json list \<Rightarrow> jstring res" where
  "find_variant new_URL id' variant [] = Inl (JsError (lit ''Configured Cloudflare Images variant is missing from image delivery URLs.''))"
| "find_variant new_URL id' variant (v # vs) = (case v of
     JStr candidate \<Rightarrow> if length candidate > 4096 then find_variant new_URL id' variant vs
       else (case new_URL candidate of None \<Rightarrow> Inl (JsError (lit ''Invalid URL''))
         | Some url \<Rightarrow> if delivery_url id' variant url then Inr candidate else find_variant new_URL id' variant vs)
   | _ \<Rightarrow> find_variant new_URL id' variant vs)"

definition image_uploaded :: "image_env \<Rightarrow> jstring \<Rightarrow> jstring \<Rightarrow> jstring \<Rightarrow> jstring \<Rightarrow> int \<times> fields \<Rightarrow> jstring res" where
  "image_uploaded env variant id' sha uploadSha reply = (case reply of (status, r) \<Rightarrow>
     if \<not> response_ok status \<or> field r ''success'' \<noteq> Some (JBool True)
     then Inl (JsError (lit ''Cloudflare Images request failed ('' @ int_text status @ lit '').''))
     else case field r ''result'' of
       Some (JObj img) \<Rightarrow> (case field img ''meta'' of
           Some (JObj meta) \<Rightarrow> (case field img ''variants'' of
               Some (JArr variants) \<Rightarrow>
                 if field img ''id'' \<noteq> Some (JStr id') \<or> field img ''requireSignedURLs'' \<noteq> Some (JBool False)
                    \<or> field meta ''source'' \<noteq> Some (str ''tool-pi-read-v1'') \<or> field meta ''sha256'' \<noteq> Some (JStr sha)
                    \<or> field meta ''uploadSha256'' \<noteq> Some (JStr uploadSha)
                 then Inl (JsError (lit ''Cloudflare image identity/metadata does not match this read.''))
                 else find_variant (ie_new_URL env) id' variant variants
             | _ \<Rightarrow> Inl (JsError (lit ''Cloudflare image identity/metadata does not match this read.'')))
         | _ \<Rightarrow> Inl (JsError (lit ''Expected an object.'')))
     | _ \<Rightarrow> Inl (JsError (lit ''Expected an object.'')))"

definition image_existing :: "image_env \<Rightarrow> jstring \<Rightarrow> jstring \<Rightarrow> jstring \<Rightarrow> jstring \<Rightarrow> http_answer \<Rightarrow> jstring option res" where
  "image_existing env variant id' sha uploadSha ans =
     bindR (images_request env ans) (\<lambda>(status, r).
     if status = 404 \<and> field r ''success'' = Some (JBool False) then Inr None
     else bindR (image_uploaded env variant id' sha uploadSha (status, r)) (\<lambda>url. Inr (Some url)))"

text \<open>\<open>upload\<close>: no URL means that the service rejected the image (\<open>ImageRejected\<close>).\<close>

definition image_upload :: "image_env \<Rightarrow> jstring \<Rightarrow> jstring \<Rightarrow> jstring \<Rightarrow> jstring \<Rightarrow> jstring option res" where
  "image_upload env variant id' sha uploadSha =
     bindR (image_existing env variant id' sha uploadSha (ie_query env)) (\<lambda>found. case found of
       Some url \<Rightarrow> Inr (Some url)
     | None \<Rightarrow> (case images_request env (ie_upload env) of
         Inl e \<Rightarrow> bindR (image_existing env variant id' sha uploadSha (ie_second_query env)) (\<lambda>recovered. case recovered of
             Some url \<Rightarrow> Inr (Some url) | None \<Rightarrow> Inl e)
       | Inr (status, r) \<Rightarrow>
           if response_ok status \<and> field r ''success'' = Some (JBool True)
           then bindR (image_uploaded env variant id' sha uploadSha (status, r)) (\<lambda>url. Inr (Some url))
           else bindR (image_existing env variant id' sha uploadSha (ie_second_query env)) (\<lambda>recovered. case recovered of
               Some url \<Rightarrow> Inr (Some url)
             | None \<Rightarrow>
                 if status \<in> {413, 415, 422} \<and> field r ''success'' = Some (JBool False) \<and> field r ''errors'' \<noteq> Some (JArr []) then Inr None
                 else Inl (JsError (lit ''Cloudflare Images upload unavailable ('' @ int_text status @ lit '').'')))))"

definition formatImage :: "image_env \<Rightarrow> (jstring \<Rightarrow> jstring) \<Rightarrow> read_file \<Rightarrow> image_mime \<Rightarrow> jstring \<Rightarrow> read_extra tool_context \<Rightarrow> json res" where
  "formatImage env sha file original requestId context =
     (case (if original = Bmp then map_option (\<lambda>png. (png, Png)) (bmpToPng env (rf_bytes file)) else Some (rf_bytes file, original)) of
        None \<Rightarrow> Inr (readError requestId context (lit ''READ_IMAGE_INVALID'')
          (lit ''BMP could not be converted to PNG. Supported BMP images must have a valid Windows bitmap header and at most 4 megapixels.''))
      | Some (bytes, mime) \<Rightarrow>
          let id' = lit ''pi-read-v1-'' @ sha (stringify (JArr [JStr (ct_operationId context), JStr requestId, JStr (rf_sha256 file)])) in
          bindR (images_configured env) (\<lambda>variant.
          bindR (image_upload env variant id' (rf_sha256 file) (ie_sha_bytes env bytes)) (\<lambda>stored. case stored of
            None \<Rightarrow> Inr (readError requestId context (lit ''READ_IMAGE_REJECTED'')
              (lit ''The image could not be uploaded: Cloudflare Images rejected its format, dimensions or contents.''))
          | Some url \<Rightarrow> Inr (obj [(''content'', JArr [obj [(''type'', str ''text''), (''text'', JStr (lit ''Read image file ['' @ mime_text mime @ lit '']''
                @ (if original = Bmp then [0x0A] @ lit ''[Image converted from image/bmp to image/png.]'' else [])))],
                obj [(''type'', str ''image''), (''url'', JStr url)]]), (''isError'', JBool False),
              (''details'', obj (fileDetails file requestId context @ [(''image'', obj [(''id'', JStr id'), (''url'', JStr url),
                (''mimeType'', JStr (mime_text mime)), (''originalMimeType'', JStr (mime_text original))])]))]))))"

section \<open>outcome.ts\<close>

definition read_file_outcome :: "image_env \<Rightarrow> (jstring \<Rightarrow> jstring) \<Rightarrow> completion_event \<Rightarrow> read_extra tool_context \<Rightarrow> operation_outcome res" where
  "read_file_outcome env sha event context =
     (let requestId = re_requestId (ev_envelope event) in case ev_outcome event of
       NativeError code message uncertain \<Rightarrow>
         if code \<in> set FILE_ERRORS then completed_result (readError requestId context code (take 2000 message))
         else Inr (native_failure ''READ_OUTCOME_UNKNOWN''
           ''The read outcome is unknown; this request will not be automatically replaced with a new read.'' code message uncertain requestId)
     | NativeOk result \<Rightarrow>
         bindR (decodeFile (ie_sha_bytes env) result) (\<lambda>decoded. case decoded of
           None \<Rightarrow> completed_result (read_too_large requestId context)
         | Some file \<Rightarrow> (case detectImageMimeType (rf_bytes file) of
             Some mime \<Rightarrow> bindR (formatImage env sha file mime requestId context) completed_result
           | None \<Rightarrow> completed_result (formatText file requestId context))))"

section \<open>The worker\<close>

definition read_context_input :: "fields \<Rightarrow> json option" where
  "read_context_input r = (case (field r ''machineId'', field r ''cwd'', field r ''path'', field r ''offset'', field r ''limit'') of
     (Some m, Some c, Some p, Some offset, Some limit) \<Rightarrow> Some (obj ([(''machineId'', m), (''cwd'', c), (''path'', p)]
       @ (if offset = JNull then [] else [(''offset'', offset)]) @ (if limit = JNull then [] else [(''limit'', limit)])))
   | _ \<Rightarrow> None)"

definition read_worker :: "image_env \<Rightarrow> (read_tool_input, read_extra) tool_worker" where
  "read_worker env = \<lparr>tw_operation = PI_READ_OPERATION, tw_receiver = ''tool-pi-read-v1'', tw_prefix = ''pi-read-v1:'', tw_name = ''read'', tw_noun = ''read'',
     tw_title = ''Read'', tw_code = ''READ'', tw_parseInput = parseReadInput, tw_keys = [''path'', ''offset'', ''limit''],
     tw_context_input = read_context_input,
     tw_extra = (\<lambda>r input. Inr \<lparr>rx_path = rt_path input, rx_offset = rt_offset input, rx_limit = rt_limit input\<rparr>),
     tw_extra_fields = (\<lambda>sha input. [(''path'', JStr (rt_path input)), (''offset'', opt_json int_json (rt_offset input)), (''limit'', opt_json int_json (rt_limit input))]),
     tw_local = (\<lambda>place input. None),
     tw_request = (\<lambda>place input. (''filesystem.read'', obj [(''path'', JStr (rt_path input)), (''cwd'', JStr (pl_cwd place)), (''mode'', str ''bytes'')])),
     tw_outcome = read_file_outcome env\<rparr>"

definition parseReadContext :: "url_parser \<Rightarrow> image_env \<Rightarrow> json option \<Rightarrow> read_extra tool_context res" where
  "parseReadContext new_URL env = parse_context new_URL (read_worker env)"

definition readIdentity :: "(jstring \<Rightarrow> jstring) \<Rightarrow> image_env \<Rightarrow> jstring \<Rightarrow> jstring" where
  "readIdentity sha env = tool_identity sha (read_worker env)"

definition parseReadCompletion :: "(jstring \<Rightarrow> jstring) \<Rightarrow> url_parser \<Rightarrow> image_env \<Rightarrow> json option \<Rightarrow> (completion_event \<times> read_extra tool_context) res" where
  "parseReadCompletion sha new_URL env = tool_completion sha new_URL (read_worker env)"

definition read_gateway_submit ::
  "image_env \<Rightarrow> worker_env \<Rightarrow> tool_execution_submission \<Rightarrow> placement \<Rightarrow> read_tool_input \<Rightarrow> jstring \<Rightarrow> http_answer \<Rightarrow> unit res" where
  "read_gateway_submit images env = worker_dispatch env (read_worker images)"

definition read_submit :: "image_env \<Rightarrow> worker_env \<Rightarrow> json option \<Rightarrow> http_answer \<Rightarrow> submit_result res" where
  "read_submit images env = worker_submit env (read_worker images)"

definition read_acceptExecutionResult :: "image_env \<Rightarrow> worker_env \<Rightarrow> 'w session_call \<Rightarrow> deadline \<Rightarrow> json option \<Rightarrow> ('w, json) act" where
  "read_acceptExecutionResult images env = acceptExecutionResult env (read_worker images)"

section \<open>truncateHead keeps the beginning of the content\<close>

lemma split_on_snoc: "split_on c (s @ [c]) = split_on c s @ [[]]"
proof (induction s)
  case (Cons u s)
  obtain p ps where "split_on c s = p # ps" by (cases "split_on c s") auto
  with Cons show ?case by simp
qed simp

lemma head_lines:
  "(if content \<noteq> [] \<and> last content = 10 then butlast (if content = [] then [] else split_on 10 content) else if content = [] then [] else split_on 10 content) = text_lines content"
proof (cases "content \<noteq> [] \<and> last content = 10")
  case True
  then have "split_on 10 content = split_on 10 (butlast content) @ [[]]" using split_on_snoc [of 10 "butlast content"] by (metis append_butlast_last_id)
  with True show ?thesis by (simp add: text_lines_def)
qed (auto simp: text_lines_def)

lemma keep_head_spec:
  assumes "keep_head (length pre) used ls = (kept, full, by_bytes)" and "used = line_bytes pre"
    and "used \<le> PI_READ_MAX_BYTES" and "length pre \<le> PI_READ_MAX_LINES"
  shows "\<exists>n \<le> length ls. kept = take n ls \<and> full = line_bytes (pre @ kept) \<and> full \<le> PI_READ_MAX_BYTES \<and> length pre + n \<le> PI_READ_MAX_LINES
    \<and> (by_bytes \<longrightarrow> n < length ls)
    \<and> (n < length ls \<longrightarrow> (if by_bytes then line_bytes (pre @ take (Suc n) ls) > PI_READ_MAX_BYTES else length pre + n = PI_READ_MAX_LINES))"
  using assms
proof (induction ls arbitrary: pre used kept)
  case (Cons l ls)
  let ?n = "utf8Bytes l + (if length pre > 0 then 1 else 0)"
  have add: "used + ?n = line_bytes (pre @ [l])" using Cons.prems(2) by (cases pre) (auto simp: line_bytes_def)
  consider (full) "length pre \<ge> PI_READ_MAX_LINES" | (long) "\<not> length pre \<ge> PI_READ_MAX_LINES" "used + ?n > PI_READ_MAX_BYTES"
    | (go) "\<not> length pre \<ge> PI_READ_MAX_LINES" "\<not> used + ?n > PI_READ_MAX_BYTES" by blast
  then show ?case
  proof cases
    case full
    with Cons.prems show ?thesis by (auto intro!: exI [of _ 0])
  next
    case long
    with Cons.prems add show ?thesis by (auto simp: Let_def intro!: exI [of _ 0])
  next
    case go
    then obtain rest where step: "keep_head (length (pre @ [l])) (used + ?n) ls = (rest, full, by_bytes)" and kept: "kept = l # rest"
      using Cons.prems(1) by (auto simp: Let_def split: prod.splits if_splits)
    obtain n where "n \<le> length ls" "rest = take n ls" "full = line_bytes ((pre @ [l]) @ rest)" "full \<le> PI_READ_MAX_BYTES"
      "length (pre @ [l]) + n \<le> PI_READ_MAX_LINES" "by_bytes \<longrightarrow> n < length ls"
      "n < length ls \<longrightarrow> (if by_bytes then line_bytes ((pre @ [l]) @ take (Suc n) ls) > PI_READ_MAX_BYTES else length (pre @ [l]) + n = PI_READ_MAX_LINES)"
      using Cons.IH [OF step add] go by auto
    with kept show ?thesis by (intro exI [of _ "Suc n"]) auto
  qed
qed auto

text \<open>C40: A file's text is cut to its beginning, within 2000 lines and 50 KiB. A text within both limits is returned as it is.
  Otherwise the result is the first complete lines, as many of them as fit: one more line exceeds the limit that is named. No line
  is returned only when the first line alone exceeds the byte limit, so a reader who goes on at the next line always moves forward
  through the file.\<close>

theorem truncateHead_spec:
  assumes "r = truncateHead content" and "lines = text_lines content"
  shows "hc_outputBytes r = utf8Bytes (hc_content r) \<and> hc_outputBytes r \<le> PI_READ_MAX_BYTES \<and> hc_outputLines r \<le> PI_READ_MAX_LINES
    \<and> hc_totalLines r = length lines \<and> hc_totalBytes r = utf8Bytes content
    \<and> (hc_truncated r \<longleftrightarrow> length lines > PI_READ_MAX_LINES \<or> utf8Bytes content > PI_READ_MAX_BYTES)
    \<and> (\<not> hc_truncated r \<longrightarrow> hc_content r = content \<and> hc_outputLines r = length lines)
    \<and> (hc_truncated r \<longrightarrow> hc_content r = join_on 10 (take (hc_outputLines r) lines) \<and> hc_outputLines r \<le> length lines
        \<and> (hc_outputLines r < length lines \<longrightarrow> (if hc_truncatedBy r = Some By_bytes
            then utf8Bytes (join_on 10 (take (hc_outputLines r + 1) lines)) > PI_READ_MAX_BYTES else hc_outputLines r = PI_READ_MAX_LINES))
        \<and> (hc_outputLines r = 0 \<longleftrightarrow> hc_firstLineExceedsLimit r)
        \<and> (hc_firstLineExceedsLimit r \<longrightarrow> lines \<noteq> [] \<and> utf8Bytes (hd lines) > PI_READ_MAX_BYTES))"
proof (cases "length lines \<le> PI_READ_MAX_LINES \<and> utf8Bytes content \<le> PI_READ_MAX_BYTES")
  case True
  with assms head_lines [of content] show ?thesis by (auto simp: truncateHead_def Let_def)
next
  case False
  then have some: "lines \<noteq> []" using assms(2) by (auto simp: text_lines_def split: if_splits)
  let ?base = "\<lparr>hc_content = content, hc_truncated = False, hc_truncatedBy = None, hc_totalLines = length lines, hc_totalBytes = utf8Bytes content,
            hc_outputLines = length lines, hc_outputBytes = utf8Bytes content, hc_firstLineExceedsLimit = False\<rparr>"
  show ?thesis
  proof (cases "utf8Bytes (hd lines) > PI_READ_MAX_BYTES")
    case True
    then have "r = ?base\<lparr>hc_content := [], hc_truncated := True, hc_truncatedBy := Some By_bytes, hc_outputLines := 0, hc_outputBytes := 0,
        hc_firstLineExceedsLimit := True\<rparr>"
      unfolding assms(1) truncateHead_def Let_def head_lines assms(2) [symmetric] using False by simp
    moreover have "take (Suc 0) lines = [hd lines]" using some by (cases lines) auto
    ultimately show ?thesis using True False some by auto
  next
    case first: False
    obtain kept used by_bytes where k: "keep_head 0 0 lines = (kept, used, by_bytes)" by (metis prod.exhaust)
    then have r: "r = ?base\<lparr>hc_content := join_on 10 kept, hc_truncated := True, hc_truncatedBy := Some (if by_bytes then By_bytes else By_lines),
          hc_outputLines := length kept, hc_outputBytes := used\<rparr>"
      unfolding assms(1) truncateHead_def Let_def head_lines assms(2) [symmetric] using False first by simp
    obtain n where n: "n \<le> length lines" "kept = take n lines" "used = line_bytes kept" "used \<le> PI_READ_MAX_BYTES" "n \<le> PI_READ_MAX_LINES"
      "by_bytes \<longrightarrow> n < length lines"
      "n < length lines \<longrightarrow> (if by_bytes then line_bytes (take (Suc n) lines) > PI_READ_MAX_BYTES else n = PI_READ_MAX_LINES)"
      using keep_head_spec [of "[]" 0 lines kept used by_bytes] k unfolding append_Nil list.size add_0 by (force simp: line_bytes_def [of "[]"])
    have "0 < n"
    proof (rule ccontr)
      assume "\<not> 0 < n"
      with n(7) some first show False by (cases lines) (auto simp: line_bytes_def PI_READ_MAX_LINES_def split: if_splits)
    qed
    moreover have "utf8Bytes (join_on 10 ls) = line_bytes ls" for ls by (simp add: utf8Bytes_join_on line_bytes_def)
    moreover have "length kept = n" using n(1,2) by simp
    ultimately show ?thesis using n False some unfolding r by auto
  qed
qed

theorem truncateHead_spec_witness:
  "\<exists>r. r = truncateHead (replicate 60000 97) \<and> hc_truncated r \<and> hc_outputBytes r \<le> PI_READ_MAX_BYTES \<and> hc_outputLines r \<le> PI_READ_MAX_LINES"
proof -
  note spec = truncateHead_spec [of "truncateHead (replicate 60000 97)", OF refl refl]
  have "PI_READ_MAX_BYTES < utf8Bytes (replicate 60000 97)" unfolding utf8Bytes_replicate PI_READ_MAX_BYTES_def by simp
  with spec show ?thesis by blast
qed

end
