(* ===== verification/Spec2Isabelle.thy ===== *)
theory Spec2Isabelle
  imports MinimalBashProperties PiProperties DriverProperties GatewayProperties WorkerProperties ApplyPatchWorker ReadWorker
begin

text \<open>
  Managed agents: a verification library of the TypeScript code of the repository.

  \<^bold>\<open>The program.\<close> A session is a Durable Object that holds a conversation between users and a language model. It consists of
  a runtime (\<open>packages/session-runtime\<close>: a durable inbox, a table of pending operations, and transitions that are planned
  by a harness and committed in one transaction), a driver (the same package: it drains the inbox, submits the planned
  operations to providers, retries, and keeps an alarm set), and a harness (\<open>packages/harness-minimal-bash\<close> or
  \<open>packages/harness-pi-no-compaction\<close>: what an event means, which operations follow, which tables the conversation
  lives in). The object itself is \<open>apps/harness-*/src/session.ts\<close> with \<open>packages/session-execution\<close>, which finds
  the execution runtime of the session's machine and pins it. Operations go to stateless workers: \<open>apps/llm-gateway-workers\<close>
  for model calls, \<open>apps/tools/*\<close> for bash, read, write, edit and apply_patch. The tool workers send requests to the execution
  gateway (\<open>execution/apps/execution-gateway\<close>, protocol in \<open>execution/packages/execution-gateway-protocol\<close>), whose
  machine object passes them to a daemon on the user's machine over a web socket and delivers the results back. Results reach
  the session as completions, are admitted once into its inbox, and become events of the harness.

  \<^bold>\<open>The library.\<close> From the bottom up:
  \<^item> \<open>Prelude\<close>: results and exceptions (\<open>res\<close>), stateful actions (\<open>act\<close>), the collections of simplification rules; \<open>Hoare\<close>:
    weakest preconditions for actions and the rules that compute them.
  \<^item> \<open>Json\<close>, \<open>JsonSize\<close>, \<open>Utf8\<close>: JavaScript strings as lists of 16-bit units, JSON values and their texts, sizes in bytes,
    UTF-8 encoding and decoding. \<open>unknown\<close> is \<open>json option\<close>, with \<open>None\<close> for \<open>undefined\<close>. \<open>Doubles\<close>: fractions rounded to doubles,
    and \<open>Math.round\<close>, for the jitter of the driver and the timeout of the bash tool.
  \<^item> \<open>Contracts\<close>, \<open>LlmContracts\<close>, \<open>ToolContracts\<close>: the data types and parsers of \<open>packages/contracts\<close>.
  \<^item> \<open>Storage\<close>, \<open>Runtime\<close>: the tables as lists of rows with every statement on them, and every method of \<open>SessionRuntime\<close>
    for a harness given as a record of functions. \<open>RuntimeSafety\<close> holds the invariant, \<open>RuntimeProperties\<close> the theorems,
    \<open>HarnessContract\<close> the locale under which a harness keeps its own invariant in every session.
  \<^item> \<open>Driver\<close>: the driver as its locked sections, each atomic, over every interleaving with the answers of providers, alarms and
    losses of the activation. \<open>DriverSafety\<close> and \<open>DriverProperties\<close> hold the proofs.
  \<^item> \<open>MinimalBash\<close> and \<open>PiHarness\<close>: the two harnesses, function by function; \<open>MinimalBashSafety\<close>, \<open>PiSafety\<close>, \<open>PiTransitions\<close> their
    invariants, \<open>MinimalBashProperties\<close> and \<open>PiProperties\<close> the theorems, with interpretations of \<open>harness_contract\<close>.
  \<^item> \<open>GatewayProtocol\<close>, \<open>GatewayWire\<close>, \<open>GatewayRegistry\<close>, \<open>GatewayMachine\<close>: the gateway protocol, the registry row of a machine and
    the machine object, cut into the pieces between two \<open>await\<close>s, as a step relation over its inputs. \<open>GatewaySafety\<close>,
    \<open>GatewaySteps\<close>, \<open>GatewayHistory\<close> hold the invariant and its preservation, \<open>GatewayExample\<close> a concrete run,
    \<open>GatewayProperties\<close> the theorems.
  \<^item> \<open>SessionHost\<close>: the Durable Object of a session with all its commands. \<open>LlmGateway\<close>: the language-model worker. \<open>ToolResults\<close>,
    \<open>BashResult\<close>, \<open>ToolWorkers\<close>, \<open>ApplyPatchWorker\<close>, \<open>ReadWorker\<close>: the tool workers; what they share is one definition over the
    record \<open>tool_worker\<close>, with five instances. \<open>Sessions\<close>: the locale \<open>session_service\<close> of what the workers rely on and its
    interpretation by the modelled hosts. \<open>WorkerSafety\<close>, \<open>WorkerExample\<close>, \<open>WorkerProperties\<close>: what workers and hosts promise each other.

  \<^bold>\<open>What is shown.\<close>
  \<^item> Runtime: the store stays well-formed; a commit happens completely or not at all; inputs are committed in order and once,
    across failures and restarts; admission and completion are idempotent and refuse altered content; after a loss the same transition
    is planned again; every planned operation ends up pending or completed as its receipt says; reserved events come from the runtime only.
  \<^item> Driver: it refines the runtime; work always has an alarm; concurrency is bounded; a drain terminates; a failure keeps
    the input, and when it blocks; delays, computed in double arithmetic, are within their bounds.
  \<^item> Harnesses: invariants of the tables; every tool call is answered once and in order before the model is asked again; mutations run
    one at a time; a run is never stuck; exactly the newly awaited operations are planned, none after a failure or a cancellation;
    steering messages are not lost; pages of the transcript visit every message once. For the pi-no-compaction harness one transition is
    set apart, \<open>steering_overflow\<close>: a message that does not fit the steering table while a batch is under way. It fails the run and leaves the
    batch behind, as \<open>stopped_run_is_clean\<close> says; the other theorems are on the other transitions, and event IDs of at most 4096 units exclude it.
  \<^item> Gateway: the invariant of the machine object; results are acknowledged only after the receiver confirmed them, and a submission is
    answered only after the daemon accepted that submission's own request; revoked secrets never work again; secrets are parsed back.
  \<^item> Workers: a callback or a tool result is confirmed only when the session durably holds it; a session works with one execution
    runtime, machine included; every answer of the language-model worker is one the session accepts, except the failure of a job
    without a code or a message; \<open>truncateTail\<close> and \<open>truncateHead\<close> cut nothing that fits and keep as many complete lines as fit.
  \<^item> Contracts: \<open>jsonEquals\<close> is equality up to key order and agrees with the hashed text; wire forms are parsed back.

  \<^bold>\<open>Parameters and bounds.\<close> SHA-256, HMAC, \<open>JSON.parse\<close>, \<open>new URL\<close>, \<open>Date.parse\<close>, \<open>Date.now\<close>, random values, the image codecs and the
  texts of foreign exceptions are parameters. HTTP answers, timers, deadlines and the frames of the daemon are inputs that may take every
  value. No definition uses fuel: every loop is structurally recursive or has a termination proof, and reachability is by step
  relations without a bound on the number of steps. Integers are unbounded where the code stays within safe integers, which its parsers
  enforce; string units are 16-bit words.

  \<^bold>\<open>Not modelled.\<close> Logging and the publication of display statuses (no effect on the modelled state); the HTTP routing in front of the
  machine object, health endpoints and RPC entry points, which only forward; timers themselves; the freezing of
  objects (\<open>values.ts\<close>), which has no counterpart in a pure language; the daemon and the process-execution core, which are
  written in Rust and appear as the inputs of the machine object; \<open>apps/agent-api\<close>, the public HTTP interface.
\<close>

end
